(* ===== verification/Prelude.thy ===== *)
theory Prelude
  imports Main "HOL-Library.Word"
begin

text \<open>
  Shared vocabulary of the development.

  \<^item> Fixed-width unsigned integers are natural numbers; every operation the code performs on
    them is one of the checked or saturating operations below, which take the width in bits.
  \<^item> A Rust function that mutates state and returns a \<open>Result\<close> is an \<^emph>\<open>action\<close>: it maps a state
    to a result and the state it leaves behind, on the error path too.  \<open>and_then\<close> is the
    sequencing that the \<open>?\<close> operator performs, \<open>transactional\<close> the storage layer of
    FRAME's attribute of that name.
  \<^item> The collections \<open>ok_simps\<close> and \<open>err_simps\<close> invert actions that returned \<open>Ok\<close> or \<open>Err\<close>;
    \<open>action_defs\<close> unfolds actions so that closed instances evaluate.
\<close>

section \<open>Fact collections\<close>

named_theorems ok_simps \<open>inversion of actions that return Ok\<close>
named_theorems err_simps \<open>inversion of actions that return Err\<close>
named_theorems action_defs \<open>definitions that unfold an action\<close>
named_theorems readonly_intros \<open>actions that leave the state unchanged\<close>

section \<open>Fixed-width unsigned arithmetic\<close>

definition uint_max :: "nat \<Rightarrow> nat" where
  "uint_max w = 2 ^ w - 1"

definition checked_add :: "nat \<Rightarrow> nat \<Rightarrow> nat \<Rightarrow> nat option" where
  "checked_add w a b = (if a + b < 2 ^ w then Some (a + b) else None)"

definition checked_sub :: "nat \<Rightarrow> nat \<Rightarrow> nat option" where
  "checked_sub a b = (if b \<le> a then Some (a - b) else None)"

definition checked_mul :: "nat \<Rightarrow> nat \<Rightarrow> nat \<Rightarrow> nat option" where
  "checked_mul w a b = (if a * b < 2 ^ w then Some (a * b) else None)"

definition checked_div :: "nat \<Rightarrow> nat \<Rightarrow> nat option" where
  "checked_div a b = (if b = 0 then None else Some (a div b))"

definition checked_rem :: "nat \<Rightarrow> nat \<Rightarrow> nat option" where
  "checked_rem a b = (if b = 0 then None else Some (a mod b))"

definition checked_shr :: "nat \<Rightarrow> nat \<Rightarrow> nat \<Rightarrow> nat option" where
  "checked_shr w a n = (if n < w then Some (a div 2 ^ n) else None)"

definition saturating_add :: "nat \<Rightarrow> nat \<Rightarrow> nat \<Rightarrow> nat" where
  "saturating_add w a b = min (a + b) (uint_max w)"

definition saturating_sub :: "nat \<Rightarrow> nat \<Rightarrow> nat" where
  "saturating_sub a b = a - b"

definition saturating_mul :: "nat \<Rightarrow> nat \<Rightarrow> nat \<Rightarrow> nat" where
  "saturating_mul w a b = min (a * b) (uint_max w)"

lemma checked_add_eq_Some [simp]:
  "checked_add w a b = Some c \<longleftrightarrow> a + b < 2 ^ w \<and> c = a + b"
  by (auto simp: checked_add_def)

lemma checked_add_eq_None [simp]: "checked_add w a b = None \<longleftrightarrow> 2 ^ w \<le> a + b"
  by (auto simp: checked_add_def)

lemma checked_sub_eq_Some [simp]: "checked_sub a b = Some c \<longleftrightarrow> b \<le> a \<and> c = a - b"
  by (auto simp: checked_sub_def)

lemma checked_sub_eq_None [simp]: "checked_sub a b = None \<longleftrightarrow> a < b"
  by (auto simp: checked_sub_def)

lemma checked_mul_eq_Some [simp]:
  "checked_mul w a b = Some c \<longleftrightarrow> a * b < 2 ^ w \<and> c = a * b"
  by (auto simp: checked_mul_def)

lemma checked_mul_eq_None [simp]: "checked_mul w a b = None \<longleftrightarrow> 2 ^ w \<le> a * b"
  by (auto simp: checked_mul_def)

lemma checked_div_eq_Some [simp]: "checked_div a b = Some c \<longleftrightarrow> 0 < b \<and> c = a div b"
  by (auto simp: checked_div_def)

lemma checked_div_eq_None [simp]: "checked_div a b = None \<longleftrightarrow> b = 0"
  by (auto simp: checked_div_def)

lemma checked_rem_eq_Some [simp]: "checked_rem a b = Some c \<longleftrightarrow> 0 < b \<and> c = a mod b"
  by (auto simp: checked_rem_def)

lemma checked_shr_eq_Some [simp]:
  "checked_shr w a n = Some c \<longleftrightarrow> n < w \<and> c = a div 2 ^ n"
  by (auto simp: checked_shr_def)

lemma saturating_add_exact [simp]: "a + b < 2 ^ w \<Longrightarrow> saturating_add w a b = a + b"
  by (simp add: saturating_add_def uint_max_def)

lemma saturating_add_less [simp]: "saturating_add w a b < 2 ^ w"
  by (simp add: saturating_add_def uint_max_def min.strict_coboundedI2)

section \<open>Results\<close>

text \<open>A pure function that returns \<open>Result\<close> is a value of a sum type; \<open>bind_r\<close> is its \<open>?\<close>.\<close>

definition bind_r :: "'e + 'a \<Rightarrow> ('a \<Rightarrow> 'e + 'b) \<Rightarrow> 'e + 'b" where
  "bind_r r k = (case r of Inl e \<Rightarrow> Inl e | Inr x \<Rightarrow> k x)"

definition ensure_r :: "bool \<Rightarrow> 'e \<Rightarrow> 'e + unit" where
  "ensure_r b e = (if b then Inr () else Inl e)"

definition ok_or_r :: "'a option \<Rightarrow> 'e \<Rightarrow> 'e + 'a" where
  "ok_or_r opt e = (case opt of None \<Rightarrow> Inl e | Some x \<Rightarrow> Inr x)"

definition is_ok :: "'e + 'a \<Rightarrow> bool" where
  "is_ok r = (case r of Inl _ \<Rightarrow> False | Inr _ \<Rightarrow> True)"

lemma bind_r_simps [simp]: "bind_r (Inr x) k = k x" "bind_r (Inl e) k = Inl e"
  by (simp_all add: bind_r_def)

lemma bind_r_ok [ok_simps]: "bind_r r k = Inr y \<longleftrightarrow> (\<exists>x. r = Inr x \<and> k x = Inr y)"
  by (cases r) auto

lemma bind_r_err [err_simps]:
  "bind_r r k = Inl e \<longleftrightarrow> r = Inl e \<or> (\<exists>x. r = Inr x \<and> k x = Inl e)"
  by (cases r) auto

lemma ensure_r_ok [ok_simps]: "ensure_r b e = Inr u \<longleftrightarrow> b"
  by (simp add: ensure_r_def)

lemma ensure_r_err [err_simps]: "ensure_r b e = Inl e' \<longleftrightarrow> \<not> b \<and> e' = e"
  by (auto simp: ensure_r_def)

lemma ok_or_r_ok [ok_simps]: "ok_or_r opt e = Inr x \<longleftrightarrow> opt = Some x"
  by (auto simp: ok_or_r_def split: option.splits)

lemma ok_or_r_err [err_simps]: "ok_or_r opt e = Inl e' \<longleftrightarrow> opt = None \<and> e' = e"
  by (auto simp: ok_or_r_def split: option.splits)

lemma is_ok_simps [simp]: "is_ok (Inr x)" "\<not> is_ok (Inl e)"
  by (simp_all add: is_ok_def)

lemma is_ok_iff: "is_ok r \<longleftrightarrow> (\<exists>x. r = Inr x)"
  by (cases r) auto

section \<open>Actions: state, result and error in one\<close>

type_synonym ('s, 'e, 'a) action = "'s \<Rightarrow> ('e + 'a) \<times> 's"

definition ret :: "'a \<Rightarrow> ('s, 'e, 'a) action" where
  "ret x = (\<lambda>s. (Inr x, s))"

definition throw :: "'e \<Rightarrow> ('s, 'e, 'a) action" where
  "throw e = (\<lambda>s. (Inl e, s))"

definition and_then ::
  "('s, 'e, 'a) action \<Rightarrow> ('a \<Rightarrow> ('s, 'e, 'b) action) \<Rightarrow> ('s, 'e, 'b) action" where
  "and_then m k = (\<lambda>s. case m s of (Inl e, s') \<Rightarrow> (Inl e, s') | (Inr x, s') \<Rightarrow> k x s')"

definition ensure :: "bool \<Rightarrow> 'e \<Rightarrow> ('s, 'e, unit) action" where
  "ensure b e = (if b then ret () else throw e)"

definition ok_or :: "'a option \<Rightarrow> 'e \<Rightarrow> ('s, 'e, 'a) action" where
  "ok_or opt e = (case opt of None \<Rightarrow> throw e | Some x \<Rightarrow> ret x)"

definition lift_result :: "'e + 'a \<Rightarrow> ('s, 'e, 'a) action" where
  "lift_result r = (\<lambda>s. (r, s))"

text \<open>\<open>query f\<close> runs a function that reads the state and returns a \<open>Result\<close>.\<close>

definition query :: "('s \<Rightarrow> 'e + 'a) \<Rightarrow> ('s, 'e, 'a) action" where
  "query f = (\<lambda>s. (f s, s))"

definition gets :: "('s \<Rightarrow> 'a) \<Rightarrow> ('s, 'e, 'a) action" where
  "gets f = (\<lambda>s. (Inr (f s), s))"

definition modify :: "('s \<Rightarrow> 's) \<Rightarrow> ('s, 'e, unit) action" where
  "modify f = (\<lambda>s. (Inr (), f s))"

text \<open>\<open>fetch f e\<close> is the idiom \<open>Map::get(key).ok_or(e)?\<close> on the current state, and
  \<open>require p e\<close> is \<open>ensure!(p, e)\<close> for a condition that reads the state.\<close>

definition fetch :: "('s \<Rightarrow> 'a option) \<Rightarrow> 'e \<Rightarrow> ('s, 'e, 'a) action" where
  "fetch f e = (\<lambda>s. ok_or (f s) e s)"

definition require :: "('s \<Rightarrow> bool) \<Rightarrow> 'e \<Rightarrow> ('s, 'e, unit) action" where
  "require p e = (\<lambda>s. ensure (p s) e s)"

definition transactional :: "('s, 'e, 'a) action \<Rightarrow> ('s, 'e, 'a) action" where
  "transactional m = (\<lambda>s. case m s of (Inl e, _) \<Rightarrow> (Inl e, s) | (Inr x, s') \<Rightarrow> (Inr x, s'))"

lemmas action_basic_defs [action_defs] =
  ret_def throw_def and_then_def ensure_def ok_or_def lift_result_def gets_def modify_def
  fetch_def require_def transactional_def query_def bind_r_def ensure_r_def ok_or_r_def

subsection \<open>Inversion of successful runs\<close>

lemma ret_ok [ok_simps]: "ret x s = (Inr y, s') \<longleftrightarrow> y = x \<and> s' = s"
  by (auto simp: ret_def)

lemma throw_ok [ok_simps]: "throw e s = (Inr y, s') \<longleftrightarrow> False"
  by (simp add: throw_def)

lemma and_then_ok [ok_simps]:
  "and_then m k s = (Inr y, s'') \<longleftrightarrow> (\<exists>x s'. m s = (Inr x, s') \<and> k x s' = (Inr y, s''))"
  by (auto simp: and_then_def split: prod.splits sum.splits)

lemma ensure_ok [ok_simps]: "ensure b e s = (Inr u, s') \<longleftrightarrow> b \<and> s' = s"
  by (auto simp: ensure_def ret_def throw_def)

lemma ok_or_ok [ok_simps]: "ok_or opt e s = (Inr x, s') \<longleftrightarrow> opt = Some x \<and> s' = s"
  by (auto simp: ok_or_def ret_def throw_def split: option.splits)

lemma lift_result_ok [ok_simps]: "lift_result r s = (Inr x, s') \<longleftrightarrow> r = Inr x \<and> s' = s"
  by (auto simp: lift_result_def)

lemma query_ok [ok_simps]: "query f s = (Inr x, s') \<longleftrightarrow> f s = Inr x \<and> s' = s"
  by (auto simp: query_def)

lemma gets_ok [ok_simps]: "gets f s = (Inr x, s') \<longleftrightarrow> x = f s \<and> s' = s"
  by (auto simp: gets_def)

lemma modify_ok [ok_simps]: "modify f s = (Inr u, s') \<longleftrightarrow> s' = f s"
  by (auto simp: modify_def)

lemma fetch_ok [ok_simps]: "fetch f e s = (Inr x, s') \<longleftrightarrow> f s = Some x \<and> s' = s"
  by (simp add: fetch_def ok_or_ok)

lemma require_ok [ok_simps]: "require p e s = (Inr u, s') \<longleftrightarrow> p s \<and> s' = s"
  by (simp add: require_def ensure_ok)

lemma transactional_ok [ok_simps]:
  "transactional m s = (Inr x, s') \<longleftrightarrow> m s = (Inr x, s')"
  by (auto simp: transactional_def split: prod.splits sum.splits)

subsection \<open>Inversion of failed runs\<close>

lemma ret_err [err_simps]: "ret x s = (Inl e, s') \<longleftrightarrow> False"
  by (simp add: ret_def)

lemma throw_err [err_simps]: "throw e s = (Inl e', s') \<longleftrightarrow> e' = e \<and> s' = s"
  by (auto simp: throw_def)

lemma and_then_err [err_simps]:
  "and_then m k s = (Inl e, s'') \<longleftrightarrow>
     m s = (Inl e, s'') \<or> (\<exists>x s'. m s = (Inr x, s') \<and> k x s' = (Inl e, s''))"
  by (auto simp: and_then_def split: prod.splits sum.splits)

lemma ensure_err [err_simps]: "ensure b e s = (Inl e', s') \<longleftrightarrow> \<not> b \<and> e' = e \<and> s' = s"
  by (auto simp: ensure_def ret_def throw_def)

lemma ok_or_err [err_simps]: "ok_or opt e s = (Inl e', s') \<longleftrightarrow> opt = None \<and> e' = e \<and> s' = s"
  by (auto simp: ok_or_def ret_def throw_def split: option.splits)

lemma lift_result_err [err_simps]: "lift_result r s = (Inl e, s') \<longleftrightarrow> r = Inl e \<and> s' = s"
  by (auto simp: lift_result_def)

lemma query_err [err_simps]: "query f s = (Inl e, s') \<longleftrightarrow> f s = Inl e \<and> s' = s"
  by (auto simp: query_def)

lemma gets_err [err_simps]: "gets f s = (Inl e, s') \<longleftrightarrow> False"
  by (simp add: gets_def)

lemma modify_err [err_simps]: "modify f s = (Inl e, s') \<longleftrightarrow> False"
  by (simp add: modify_def)

lemma fetch_err [err_simps]: "fetch f e s = (Inl e', s') \<longleftrightarrow> f s = None \<and> e' = e \<and> s' = s"
  by (simp add: fetch_def ok_or_err)

lemma require_err [err_simps]: "require p e s = (Inl e', s') \<longleftrightarrow> \<not> p s \<and> e' = e \<and> s' = s"
  by (simp add: require_def ensure_err)

lemma transactional_err [err_simps]:
  "transactional m s = (Inl e, s') \<longleftrightarrow> s' = s \<and> (\<exists>t. m s = (Inl e, t))"
  by (auto simp: transactional_def split: prod.splits sum.splits)

subsection \<open>Read-only actions\<close>

definition readonly :: "('s, 'e, 'a) action \<Rightarrow> bool" where
  "readonly m \<longleftrightarrow> (\<forall>s. snd (m s) = s)"

lemma readonlyD: "readonly m \<Longrightarrow> m s = (r, s') \<Longrightarrow> s' = s"
  by (metis readonly_def snd_conv)

lemma readonly_basic [readonly_intros]:
  "readonly (ret x)" "readonly (throw e)" "readonly (ensure b e)" "readonly (ok_or opt e)"
  "readonly (lift_result r)" "readonly (gets f)" "readonly (fetch g e)" "readonly (require p e)"
  "readonly (query h)"
  by (auto simp: readonly_def action_defs split: option.splits)

lemma readonly_and_then [readonly_intros]:
  assumes "readonly m" and "\<And>x. readonly (k x)"
  shows "readonly (and_then m k)"
  using assms unfolding readonly_def and_then_def
  by (auto split: prod.splits sum.splits) (metis snd_conv)+

lemma readonly_if [readonly_intros]:
  "readonly m \<Longrightarrow> readonly n \<Longrightarrow> readonly (if b then m else n)"
  by simp

subsection \<open>Contracts of actions\<close>

text \<open>\<open>contract P m Q R\<close>: from a state in \<open>P\<close> the action ends in \<open>Q\<close> when it returns a value
  and in \<open>R\<close> when it returns an error.\<close>

definition contract ::
  "('s \<Rightarrow> bool) \<Rightarrow> ('s, 'e, 'a) action \<Rightarrow> ('a \<Rightarrow> 's \<Rightarrow> bool) \<Rightarrow> ('e \<Rightarrow> 's \<Rightarrow> bool) \<Rightarrow> bool" where
  "contract P m Q R \<longleftrightarrow>
     (\<forall>s. P s \<longrightarrow> (case m s of (Inr x, s') \<Rightarrow> Q x s' | (Inl e, s') \<Rightarrow> R e s'))"

lemma contractI:
  assumes "\<And>s x s'. P s \<Longrightarrow> m s = (Inr x, s') \<Longrightarrow> Q x s'"
    and "\<And>s e s'. P s \<Longrightarrow> m s = (Inl e, s') \<Longrightarrow> R e s'"
  shows "contract P m Q R"
  using assms by (auto simp: contract_def split: prod.splits sum.splits)

lemma contract_okD: "contract P m Q R \<Longrightarrow> P s \<Longrightarrow> m s = (Inr x, s') \<Longrightarrow> Q x s'"
  by (fastforce simp: contract_def)

lemma contract_errD: "contract P m Q R \<Longrightarrow> P s \<Longrightarrow> m s = (Inl e, s') \<Longrightarrow> R e s'"
  by (fastforce simp: contract_def)

lemma contract_and_then:
  assumes "contract P m Q R" and "\<And>x. contract (Q x) (k x) Q' R"
  shows "contract P (and_then m k) Q' R"
  using assms unfolding contract_def and_then_def
  by (fastforce split: prod.splits sum.splits)

lemma contract_readonly:
  "readonly m \<Longrightarrow> contract P m (\<lambda>_. P) (\<lambda>_. P)"
  by (auto intro!: contractI dest: readonlyD)

lemma contract_weaken:
  assumes "contract P m Q R" and "\<And>s. P' s \<Longrightarrow> P s"
    and "\<And>x s. Q x s \<Longrightarrow> Q' x s" and "\<And>e s. R e s \<Longrightarrow> R' e s"
  shows "contract P' m Q' R'"
  using assms by (fastforce simp: contract_def split: prod.splits sum.splits)

subsection \<open>Actions that preserve an invariant on every branch\<close>

definition preserves :: "('s \<Rightarrow> bool) \<Rightarrow> ('s, 'e, 'a) action \<Rightarrow> bool" where
  "preserves I m \<longleftrightarrow> (\<forall>s. I s \<longrightarrow> I (snd (m s)))"

named_theorems preserves_intros \<open>actions that preserve an invariant\<close>

lemma preservesI: "(\<And>s r s'. I s \<Longrightarrow> m s = (r, s') \<Longrightarrow> I s') \<Longrightarrow> preserves I m"
  by (metis preserves_def prod.collapse)

lemma preservesD: "preserves I m \<Longrightarrow> I s \<Longrightarrow> m s = (r, s') \<Longrightarrow> I s'"
  by (metis preserves_def snd_conv)

lemma preserves_snd: "preserves I m \<Longrightarrow> I s \<Longrightarrow> I (snd (m s))"
  by (simp add: preserves_def)

lemma preserves_readonly: "readonly m \<Longrightarrow> preserves I m"
  by (auto simp: preserves_def readonly_def)

lemmas preserves_basic [preserves_intros] = readonly_basic [THEN preserves_readonly]

lemma preserves_and_then [preserves_intros]:
  assumes "preserves I m" and "\<And>x. preserves I (k x)"
  shows "preserves I (and_then m k)"
  using assms unfolding preserves_def and_then_def
  by (fastforce split: prod.splits sum.splits)

lemma preserves_if [preserves_intros]:
  "(b \<Longrightarrow> preserves I m) \<Longrightarrow> (\<not> b \<Longrightarrow> preserves I n) \<Longrightarrow> preserves I (if b then m else n)"
  by simp

lemma preserves_case_option [preserves_intros]:
  "preserves I m \<Longrightarrow> (\<And>x. preserves I (k x)) \<Longrightarrow>
   preserves I (case opt of None \<Rightarrow> m | Some x \<Rightarrow> k x)"
  by (cases opt) auto

lemma preserves_modify [preserves_intros]:
  "(\<And>s. I s \<Longrightarrow> I (f s)) \<Longrightarrow> preserves I (modify f)"
  by (simp add: preserves_def modify_def)

lemma preserves_transactional [preserves_intros]:
  "preserves I m \<Longrightarrow> preserves I (transactional m)"
  by (fastforce simp: preserves_def transactional_def split: prod.splits sum.splits)

section \<open>Sums over updated functions\<close>

lemma sum_update:
  fixes g :: "'b \<Rightarrow> nat"
  assumes "finite A" and "k \<in> A"
  shows "(\<Sum>i\<in>A. g ((f(k := v)) i)) + g (f k) = (\<Sum>i\<in>A. g (f i)) + g v"
proof -
  have "(\<Sum>i\<in>A - {k}. g ((f(k := v)) i)) = (\<Sum>i\<in>A - {k}. g (f i))"
    by (rule sum.cong) auto
  then show ?thesis
    using sum.remove [OF assms, of "\<lambda>i. g ((f(k := v)) i)"] sum.remove [OF assms, of "\<lambda>i. g (f i)"]
    by simp
qed

lemma sum_update_outside:
  "k \<notin> A \<Longrightarrow> (\<Sum>i\<in>A. g ((f(k := v)) i)) = (\<Sum>i\<in>A. g (f i))"
  by (rule sum.cong) auto

section \<open>Maps filled from a counter\<close>

text \<open>The registries hand out identifiers from a counter and never remove an entry.\<close>

definition dense :: "(nat \<rightharpoonup> 'a) \<Rightarrow> nat \<Rightarrow> bool" where
  "dense m n \<longleftrightarrow> (\<forall>i. m i \<noteq> None \<longleftrightarrow> i < n)"

lemma dense_empty [simp]: "dense Map.empty 0"
  by (simp add: dense_def)

lemma dense_insert: "dense m n \<Longrightarrow> dense (m(n \<mapsto> v)) (Suc n)"
  by (auto simp: dense_def less_Suc_eq)

lemma dense_update: "dense m n \<Longrightarrow> m k = Some v \<Longrightarrow> dense (m(k \<mapsto> v')) n"
  by (auto simp: dense_def)

lemma dense_less: "dense m n \<Longrightarrow> m k = Some v \<Longrightarrow> k < n"
  by (metis dense_def option.distinct(1))

lemma dense_fresh: "dense m n \<Longrightarrow> m n = None"
  by (metis dense_def less_irrefl)

lemma sum_insert_next:
  fixes g :: "'a option \<Rightarrow> nat"
  shows "(\<Sum>i<Suc n. g ((m(n \<mapsto> v)) i)) = (\<Sum>i<n. g (m i)) + g (Some v)"
  using sum_update_outside [of n "{..<n}" g m "Some v"] by simp

lemma sum_replace:
  fixes g :: "'a option \<Rightarrow> nat"
  assumes "dense m n" and "m k = Some v"
  shows "(\<Sum>i<n. g ((m(k \<mapsto> v')) i)) + g (Some v) = (\<Sum>i<n. g (m i)) + g (Some v')"
  using sum_update [of "{..<n}" k g m "Some v'"] dense_less [OF assms] assms(2) by simp

lemma member_le_registry_sum:
  fixes g :: "'a option \<Rightarrow> nat"
  assumes "dense m n" and "m k = Some v"
  shows "g (Some v) \<le> (\<Sum>i<n. g (m i))"
  using member_le_sum [of k "{..<n}" "\<lambda>i. g (m i)"] dense_less [OF assms] assms(2) by simp

end
