(* ===== verification/Protocol_Types.thy ===== *)
theory Protocol_Types
  imports Prelude
begin

text \<open>
  The primitives of \<^verbatim>\<open>primitives/qubitum-protocol/src/lib.rs\<close>: constants, enums, structs,
  policies, the pro-rata arithmetic on 128-bit balances, payment settlement and the halving
  schedule.  A commitment or account identifier is the Rust array \<^verbatim>\<open>[u8; 32]\<close>, a 256-bit
  word.  Struct fields carry a prefix where two structs share a field name.
\<close>

section \<open>Base types and constants\<close>

type_synonym Balance = nat
type_synonym BlockNumber = nat
type_synonym SubnetId = nat
type_synonym MinerId = nat
type_synonym ValidatorId = nat
type_synonym RequestId = nat
type_synonym AccountId = "256 word"
type_synonym Commitment = "256 word"

definition BPS_DENOMINATOR :: nat where [simp]: "BPS_DENOMINATOR = 10000"
definition PLANCKS_PER_QBT :: Balance where [simp]: "PLANCKS_PER_QBT = 1000000000"
definition INITIAL_SUPPLY_QBT :: Balance where [simp]: "INITIAL_SUPPLY_QBT = 21000000"
definition INITIAL_SUPPLY :: Balance where [simp]: "INITIAL_SUPPLY = 21000000000000000"
definition HALVING_INTERVAL_BLOCKS :: BlockNumber where [simp]: "HALVING_INTERVAL_BLOCKS = 10512000"
definition MINER_EMISSION_BPS :: nat where [simp]: "MINER_EMISSION_BPS = 5000"
definition VALIDATOR_REWARD_BPS :: nat where [simp]: "VALIDATOR_REWARD_BPS = 3000"
definition TREASURY_REWARD_BPS :: nat where [simp]: "TREASURY_REWARD_BPS = 2000"
definition MINER_REGISTRATION_BURN :: Balance where [simp]: "MINER_REGISTRATION_BURN = 10000000000"
definition MIN_MINER_BOND :: Balance where [simp]: "MIN_MINER_BOND = 100000000000"
definition MAX_MINER_BOND :: Balance where [simp]: "MAX_MINER_BOND = 10000000000000"
definition BOND_EXIT_COOLDOWN_BLOCKS :: BlockNumber where [simp]: "BOND_EXIT_COOLDOWN_BLOCKS = 50400"
definition MIN_INVALID_PROOF_SLASH_BPS :: nat where [simp]: "MIN_INVALID_PROOF_SLASH_BPS = 1000"
definition MAX_INVALID_PROOF_SLASH_BPS :: nat where [simp]: "MAX_INVALID_PROOF_SLASH_BPS = 10000"
definition TARGET_PROOF_SIZE_MIN_BYTES :: nat where [simp]: "TARGET_PROOF_SIZE_MIN_BYTES = 50 * 1024"
definition TARGET_PROOF_SIZE_MAX_BYTES :: nat where [simp]: "TARGET_PROOF_SIZE_MAX_BYTES = 200 * 1024"
definition TARGET_VERIFICATION_MS :: nat where [simp]: "TARGET_VERIFICATION_MS = 100"

section \<open>Enums\<close>

datatype ProtocolError =
    ArithmeticOverflow | CooldownNotComplete | DuplicateSubnet | InsufficientBalance
  | InvalidBond | InvalidCreationBurn | InvalidProofSize | InvalidRewardSplit
  | InvalidSlashPercent | InvalidStake | LatencyExceeded | MissingCommitment
  | AmbiguousSignatureCommitment | MissingClassicalSignature | MissingPostQuantumSignature
  | NotActive | ProofSystemMismatch | UnsupportedSignatureAlgorithm | UnknownMiner
  | UnknownSubnet | UnknownValidator | VerifierError | ClassicalSignatureDisallowed

datatype ProofSystem = MockProof | RiscZeroStark | Stark | ExternalProof nat

datatype ProofVerifierVersion =
  MockVersion | RiscZeroV1 | RiscZeroV2 | StarkV1 | ExternalVersion nat

fun supports :: "ProofVerifierVersion \<Rightarrow> ProofSystem \<Rightarrow> bool" where
  "supports MockVersion MockProof = True"
| "supports RiscZeroV1 RiscZeroStark = True"
| "supports RiscZeroV2 RiscZeroStark = True"
| "supports StarkV1 Stark = True"
| "supports (ExternalVersion version) (ExternalProof system) = (version = system)"
| "supports _ _ = False"

datatype SignatureMode = ClassicalEcdsa | HybridDilithium | FullPostQuantum

datatype SubnetDomain = General | Vision | Code | Biology | Custom Commitment

datatype RegistryStatus =
  Pending | Active | Exiting (exit_available_at: BlockNumber) | Slashed | Disabled

datatype Visibility = Private | Public | Optional

datatype PrivacyElementKind = ModelWeights | InferenceInput | InferenceOutput | MinerIdentity

record PrivacyElement =
  pe_element :: PrivacyElementKind
  pe_visibility :: Visibility

datatype VerificationOutcome = Valid | Invalid (slash_bps: nat) | VerificationFailure

section \<open>Pro-rata arithmetic and commitments\<close>

definition pro_rata :: "Balance \<Rightarrow> nat \<Rightarrow> ProtocolError + Balance" where
  "pro_rata amount bps =
     ok_or_r (case checked_mul 128 amount bps of
                None \<Rightarrow> None
              | Some value \<Rightarrow> checked_div value BPS_DENOMINATOR)
       ArithmeticOverflow"

definition ensure_commitment :: "Commitment \<Rightarrow> ProtocolError + unit" where
  "ensure_commitment commitment = (if commitment = 0 then Inl MissingCommitment else Inr ())"

section \<open>Reward split\<close>

record RewardSplit =
  miner_bps :: nat
  validator_bps :: nat
  treasury_bps :: nat

record EmissionAllocation =
  ea_miner :: Balance
  ea_validator :: Balance
  ea_treasury :: Balance

definition RewardSplit_qubitum :: RewardSplit where
  "RewardSplit_qubitum = \<lparr>
     miner_bps = MINER_EMISSION_BPS,
     validator_bps = VALIDATOR_REWARD_BPS,
     treasury_bps = TREASURY_REWARD_BPS\<rparr>"

definition RewardSplit_validate :: "RewardSplit \<Rightarrow> ProtocolError + RewardSplit" where
  "RewardSplit_validate split =
     bind_r (ok_or_r (case checked_add 16 (miner_bps split) (validator_bps split) of
                        None \<Rightarrow> None
                      | Some value \<Rightarrow> checked_add 16 value (treasury_bps split))
               ArithmeticOverflow) (\<lambda>sum.
     if sum = BPS_DENOMINATOR then Inr split else Inl InvalidRewardSplit)"

definition allocate :: "RewardSplit \<Rightarrow> Balance \<Rightarrow> ProtocolError + EmissionAllocation" where
  "allocate split amount =
     bind_r (RewardSplit_validate split) (\<lambda>_.
     bind_r (pro_rata amount (miner_bps split)) (\<lambda>miner.
     bind_r (pro_rata amount (validator_bps split)) (\<lambda>validator.
     bind_r (ok_or_r (checked_add 128 miner validator) ArithmeticOverflow) (\<lambda>assigned.
     bind_r (ok_or_r (checked_sub amount assigned) ArithmeticOverflow) (\<lambda>treasury.
     Inr \<lparr>ea_miner = miner, ea_validator = validator, ea_treasury = treasury\<rparr>)))))"

section \<open>Miner bond policy\<close>

record MinerBondPolicy =
  registration_burn :: Balance
  min_bond :: Balance
  max_bond :: Balance
  exit_cooldown_blocks :: BlockNumber
  min_invalid_proof_slash_bps :: nat
  max_invalid_proof_slash_bps :: nat

definition MinerBondPolicy_qubitum :: MinerBondPolicy where
  "MinerBondPolicy_qubitum = \<lparr>
     registration_burn = MINER_REGISTRATION_BURN,
     min_bond = MIN_MINER_BOND,
     max_bond = MAX_MINER_BOND,
     exit_cooldown_blocks = BOND_EXIT_COOLDOWN_BLOCKS,
     min_invalid_proof_slash_bps = MIN_INVALID_PROOF_SLASH_BPS,
     max_invalid_proof_slash_bps = MAX_INVALID_PROOF_SLASH_BPS\<rparr>"

definition validate_bond :: "MinerBondPolicy \<Rightarrow> Balance \<Rightarrow> ProtocolError + Balance" where
  "validate_bond policy bond =
     (if bond < min_bond policy \<or> bond > max_bond policy then Inl InvalidBond else Inr bond)"

definition policy_exit_available_at ::
  "MinerBondPolicy \<Rightarrow> BlockNumber \<Rightarrow> ProtocolError + BlockNumber" where
  "policy_exit_available_at policy current_block =
     ok_or_r (checked_add 64 current_block (exit_cooldown_blocks policy)) ArithmeticOverflow"

definition slash_amount :: "MinerBondPolicy \<Rightarrow> Balance \<Rightarrow> nat \<Rightarrow> ProtocolError + Balance" where
  "slash_amount policy bond bps =
     (if bps < min_invalid_proof_slash_bps policy \<or> bps > max_invalid_proof_slash_bps policy
      then Inl InvalidSlashPercent
      else pro_rata bond bps)"

section \<open>Subnet policy\<close>

record SubnetPolicy =
  creation_burn :: Balance
  miner_bond :: MinerBondPolicy
  min_validator_stake :: Balance
  sp_proof_system :: ProofSystem
  min_proof_size_bytes :: nat
  max_proof_size_bytes :: nat
  max_verification_latency_ms :: nat

definition SubnetPolicy_qubitum :: SubnetPolicy where
  "SubnetPolicy_qubitum = \<lparr>
     creation_burn = MINER_REGISTRATION_BURN,
     miner_bond = MinerBondPolicy_qubitum,
     min_validator_stake = MIN_MINER_BOND,
     sp_proof_system = RiscZeroStark,
     min_proof_size_bytes = TARGET_PROOF_SIZE_MIN_BYTES,
     max_proof_size_bytes = TARGET_PROOF_SIZE_MAX_BYTES,
     max_verification_latency_ms = TARGET_VERIFICATION_MS\<rparr>"

definition validate_creation_burn :: "SubnetPolicy \<Rightarrow> Balance \<Rightarrow> ProtocolError + Balance" where
  "validate_creation_burn policy amount =
     (if amount < creation_burn policy then Inl InvalidCreationBurn else Inr amount)"

definition validate_validator_stake :: "SubnetPolicy \<Rightarrow> Balance \<Rightarrow> ProtocolError + Balance" where
  "validate_validator_stake policy stake =
     (if stake < min_validator_stake policy then Inl InvalidStake else Inr stake)"

section \<open>Registry records\<close>

record SubnetConfig =
  sc_id :: SubnetId
  sc_owner :: AccountId
  sc_domain :: SubnetDomain
  sc_policy :: SubnetPolicy
  sc_active :: bool

record MinerRegistration =
  mr_id :: MinerId
  mr_operator :: AccountId
  mr_subnet_id :: SubnetId
  mr_model_commitment :: Commitment
  mr_proof_system :: ProofSystem
  mr_bond :: Balance
  mr_status :: RegistryStatus
  mr_shielded_identity_commitment :: "Commitment option"
  mr_endpoint_commitment :: "Commitment option"

definition MinerRegistration_activate ::
  "MinerRegistration \<Rightarrow> MinerBondPolicy \<Rightarrow> ProtocolError + MinerRegistration" where
  "MinerRegistration_activate miner policy =
     bind_r (validate_bond policy (mr_bond miner)) (\<lambda>_.
     bind_r (ensure_commitment (mr_model_commitment miner)) (\<lambda>_.
     Inr (miner\<lparr>mr_status := Active\<rparr>)))"

definition MinerRegistration_begin_exit ::
  "MinerRegistration \<Rightarrow> MinerBondPolicy \<Rightarrow> BlockNumber \<Rightarrow> ProtocolError + MinerRegistration" where
  "MinerRegistration_begin_exit miner policy current_block =
     bind_r (policy_exit_available_at policy current_block) (\<lambda>available_at.
     Inr (miner\<lparr>mr_status := Exiting available_at\<rparr>))"

record ValidatorRegistration =
  vr_id :: ValidatorId
  vr_operator :: AccountId
  vr_staked :: Balance
  vr_routing_subnets :: "SubnetId list"
  vr_status :: RegistryStatus

definition ValidatorRegistration_activate ::
  "ValidatorRegistration \<Rightarrow> SubnetPolicy \<Rightarrow> ProtocolError + ValidatorRegistration" where
  "ValidatorRegistration_activate validator policy =
     bind_r (validate_validator_stake policy (vr_staked validator)) (\<lambda>_.
     Inr (validator\<lparr>vr_status := Active\<rparr>))"

section \<open>Proof envelopes and submissions\<close>

record ProofEnvelope =
  proof_commitment :: Commitment
  journal_commitment :: Commitment
  image_id :: Commitment
  verifier_version :: ProofVerifierVersion

definition risc_zero_v1 :: "Commitment \<Rightarrow> Commitment \<Rightarrow> Commitment \<Rightarrow> ProofEnvelope" where
  "risc_zero_v1 pc jc iid = \<lparr>
     proof_commitment = pc, journal_commitment = jc, image_id = iid,
     verifier_version = RiscZeroV1\<rparr>"

definition ProofEnvelope_validate ::
  "ProofEnvelope \<Rightarrow> ProofSystem \<Rightarrow> ProtocolError + ProofEnvelope" where
  "ProofEnvelope_validate env system =
     bind_r (ensure_commitment (proof_commitment env)) (\<lambda>_.
     bind_r (ensure_commitment (journal_commitment env)) (\<lambda>_.
     bind_r (ensure_commitment (image_id env)) (\<lambda>_.
     if \<not> supports (verifier_version env) system then Inl ProofSystemMismatch else Inr env)))"

record InferenceProofSubmission =
  request_id :: RequestId
  subnet_id :: SubnetId
  miner_id :: MinerId
  validator_id :: ValidatorId
  input_commitment :: Commitment
  output_commitment :: Commitment
  model_commitment :: Commitment
  envelope :: ProofEnvelope
  proof_system :: ProofSystem
  proof_size_bytes :: nat
  verification_latency_ms :: nat
  submitted_at :: BlockNumber

definition validate_shape ::
  "InferenceProofSubmission \<Rightarrow> SubnetPolicy \<Rightarrow> ProtocolError + InferenceProofSubmission" where
  "validate_shape sub policy =
     bind_r (ensure_commitment (input_commitment sub)) (\<lambda>_.
     bind_r (ensure_commitment (output_commitment sub)) (\<lambda>_.
     bind_r (ensure_commitment (model_commitment sub)) (\<lambda>_.
     bind_r (ProofEnvelope_validate (envelope sub) (proof_system sub)) (\<lambda>_.
     if proof_system sub \<noteq> sp_proof_system policy then Inl ProofSystemMismatch
     else if proof_size_bytes sub < min_proof_size_bytes policy
             \<or> proof_size_bytes sub > max_proof_size_bytes policy then Inl InvalidProofSize
     else if verification_latency_ms sub > max_verification_latency_ms policy
          then Inl LatencyExceeded
     else Inr sub))))"

record InferenceRecord =
  ir_request_id :: RequestId
  ir_subnet_id :: SubnetId
  ir_miner_id :: MinerId
  ir_validator_id :: ValidatorId
  ir_input_commitment :: Commitment
  ir_output_commitment :: Commitment
  ir_model_commitment :: Commitment
  recorded_at :: BlockNumber

definition from_valid_submission :: "InferenceProofSubmission \<Rightarrow> InferenceRecord" where
  "from_valid_submission sub = \<lparr>
     ir_request_id = request_id sub,
     ir_subnet_id = subnet_id sub,
     ir_miner_id = miner_id sub,
     ir_validator_id = validator_id sub,
     ir_input_commitment = input_commitment sub,
     ir_output_commitment = output_commitment sub,
     ir_model_commitment = model_commitment sub,
     recorded_at = submitted_at sub\<rparr>"

section \<open>Settlement, privacy table, roadmap, halving\<close>

record InferenceSettlement =
  miner_payment :: Balance
  validator_fee :: Balance
  treasury_fee :: Balance

definition settle_inference_payment ::
  "Balance \<Rightarrow> nat \<Rightarrow> nat \<Rightarrow> ProtocolError + InferenceSettlement" where
  "settle_inference_payment payment validator_fee_bps treasury_fee_bps =
     bind_r (ok_or_r (checked_add 16 validator_fee_bps treasury_fee_bps) ArithmeticOverflow)
       (\<lambda>combined_bps.
     if combined_bps > BPS_DENOMINATOR then Inl InvalidRewardSplit
     else
     bind_r (pro_rata payment validator_fee_bps) (\<lambda>vfee.
     bind_r (pro_rata payment treasury_fee_bps) (\<lambda>tfee.
     bind_r (ok_or_r (checked_add 128 vfee tfee) ArithmeticOverflow) (\<lambda>assigned.
     bind_r (ok_or_r (checked_sub payment assigned) ArithmeticOverflow) (\<lambda>mpay.
     Inr \<lparr>miner_payment = mpay, validator_fee = vfee, treasury_fee = tfee\<rparr>)))))"

definition PRIVACY_TABLE :: "PrivacyElement list" where
  "PRIVACY_TABLE = [
     \<lparr>pe_element = ModelWeights, pe_visibility = Private\<rparr>,
     \<lparr>pe_element = InferenceInput, pe_visibility = Private\<rparr>,
     \<lparr>pe_element = InferenceOutput, pe_visibility = Public\<rparr>,
     \<lparr>pe_element = MinerIdentity, pe_visibility = Optional\<rparr>]"

definition signature_mode_for_year :: "nat \<Rightarrow> SignatureMode" where
  "signature_mode_for_year year =
     (if year \<le> 1 then ClassicalEcdsa
      else if year = 2 then HybridDilithium
      else FullPostQuantum)"

definition halving_epoch :: "BlockNumber \<Rightarrow> nat" where
  "halving_epoch block =
     (let epoch = (case checked_div block HALVING_INTERVAL_BLOCKS of None \<Rightarrow> 0 | Some e \<Rightarrow> e)
      in if epoch < 2 ^ 32 then epoch else uint_max 32)"

definition emission_after_halvings :: "Balance \<Rightarrow> BlockNumber \<Rightarrow> ProtocolError + Balance" where
  "emission_after_halvings initial_emission block =
     (let halvings = halving_epoch block;
          shift = min halvings 127
      in ok_or_r (checked_shr 128 initial_emission shift) ArithmeticOverflow)"

section \<open>Arithmetic of shares\<close>

lemma pro_rata_ok [ok_simps]:
  "pro_rata amount bps = Inr v \<longleftrightarrow> amount * bps < 2 ^ 128 \<and> v = amount * bps div 10000"
  by (auto simp: pro_rata_def ok_or_r_def split: option.splits)

lemma pro_rata_err [err_simps]:
  "pro_rata amount bps = Inl e \<longleftrightarrow> 2 ^ 128 \<le> amount * bps \<and> e = ArithmeticOverflow"
  by (auto simp: pro_rata_def ok_or_r_def split: option.splits)

lemma ensure_commitment_ok [ok_simps]: "ensure_commitment c = Inr u \<longleftrightarrow> c \<noteq> 0"
  by (simp add: ensure_commitment_def)

lemma ensure_commitment_err [err_simps]:
  "ensure_commitment c = Inl e \<longleftrightarrow> c = 0 \<and> e = MissingCommitment"
  by (auto simp: ensure_commitment_def)

text \<open>Two shares of at most the whole, each rounded down, leave the rounding to the rest.\<close>

lemma two_shares_le:
  fixes a b c d :: nat
  assumes "b + c \<le> d" and "0 < d"
  shows "a * b div d + a * c div d \<le> a"
proof -
  have "a * b div d + a * c div d \<le> (a * b + a * c) div d"
    by (subst div_add1_eq) simp
  also have "\<dots> = a * (b + c) div d" by (simp add: algebra_simps)
  also have "\<dots> \<le> a * d div d" using assms by (intro div_le_mono mult_le_mono2)
  also have "\<dots> = a" using assms by simp
  finally show ?thesis .
qed

lemma share_le: "b \<le> d \<Longrightarrow> a * b div d \<le> (a :: nat)"
  using two_shares_le [of b 0 d a] by (cases "d = 0") simp_all

lemma rest_share_ge:
  fixes a b c d :: nat
  assumes "b + c \<le> d" and "0 < d"
  shows "a * (d - (b + c)) div d \<le> a - (a * b div d + a * c div d)"
proof -
  have "a * b div d + a * c div d \<le> a * (b + c) div d"
    unfolding add_mult_distrib2 by (subst div_add1_eq) simp
  moreover have "a * (d - (b + c)) div d + a * (b + c) div d \<le> a"
    using two_shares_le [of "d - (b + c)" "b + c" d a] assms by simp
  ultimately show ?thesis by linarith
qed

section \<open>Fee splitting as an interface\<close>

text \<open>
  A fee splitter of width \<open>w\<close> takes a payment and two fee rates in basis points and returns the
  rest and the two fees.  The protocol crate implements it on 128-bit balances, the pallet on
  the 64-bit balances of the runtime; what clients use is proved once from the law.
\<close>

locale fee_splitter =
  fixes w :: nat
    and split_fees :: "Balance \<Rightarrow> nat \<Rightarrow> nat \<Rightarrow> 'e + (Balance \<times> Balance \<times> Balance)"
  assumes split_fees_ok:
    "split_fees p v t = Inr (m, vf, tf) \<longleftrightarrow>
       v + t \<le> 10000 \<and> p * v < 2 ^ w \<and> p * t < 2 ^ w \<and>
       vf = p * v div 10000 \<and> tf = p * t div 10000 \<and> m = p - (vf + tf)"
begin

lemma parts_sum: "split_fees p v t = Inr (m, vf, tf) \<Longrightarrow> m + vf + tf = p"
  using two_shares_le [of v t 10000 p] by (auto simp: split_fees_ok)

lemma rest_covers_share:
  "split_fees p v t = Inr (m, vf, tf) \<Longrightarrow> p * (10000 - (v + t)) div 10000 \<le> m"
  using rest_share_ge [of v t 10000 p] by (auto simp: split_fees_ok)

lemma fees_round_down:
  "split_fees p v t = Inr (m, vf, tf) \<Longrightarrow> vf * 10000 \<le> p * v \<and> tf * 10000 \<le> p * t"
  by (auto simp: split_fees_ok)

end

text \<open>The arithmetic that lets the checked sum and difference of a splitter never fail.\<close>

lemma shares_sum_fits:
  fixes p v t :: nat
  assumes "p * v < 2 ^ w" and "p * t < 2 ^ w"
  shows "p * v div 10000 + p * t div 10000 < 2 ^ w"
proof -
  have "p * v div 10000 + p * t div 10000 \<le> (p * v + p * t) div 10000"
    by (subst div_add1_eq) simp
  also have "\<dots> \<le> (2 * 2 ^ w) div 10000"
    using assms by (intro div_le_mono) linarith
  also have "\<dots> < 2 ^ w"
    by (simp add: div_less_iff_less_mult)
  finally show ?thesis .
qed

definition settlement_parts :: "InferenceSettlement \<Rightarrow> Balance \<times> Balance \<times> Balance" where
  "settlement_parts st = (miner_payment st, validator_fee st, treasury_fee st)"

lemma settle_inference_payment_eq:
  "settle_inference_payment p v t =
     (if 2 ^ 16 \<le> v + t then Inl ArithmeticOverflow
      else if 10000 < v + t then Inl InvalidRewardSplit
      else if 2 ^ 128 \<le> p * v \<or> 2 ^ 128 \<le> p * t then Inl ArithmeticOverflow
      else Inr \<lparr>miner_payment = p - (p * v div 10000 + p * t div 10000),
                validator_fee = p * v div 10000, treasury_fee = p * t div 10000\<rparr>)"
proof (cases "v + t \<le> 10000 \<and> p * v < 2 ^ 128 \<and> p * t < 2 ^ 128")
  case True
  then have "p * v div 10000 + p * t div 10000 < 2 ^ 128"
    and "p * v div 10000 + p * t div 10000 \<le> p"
    by (simp_all only: shares_sum_fits two_shares_le)
  with True show ?thesis
    by (simp add: settle_inference_payment_def pro_rata_def ok_or_r_def checked_add_def
        checked_sub_def checked_mul_def checked_div_def)
next
  case False
  then show ?thesis
    by (auto simp: settle_inference_payment_def pro_rata_def ok_or_r_def checked_add_def
        checked_mul_def checked_div_def)
qed

interpretation protocol_split: fee_splitter 128
  "\<lambda>p v t. map_sum id settlement_parts (settle_inference_payment p v t)"
  by unfold_locales (auto simp: settle_inference_payment_eq settlement_parts_def)

section \<open>Reward allocation and emission\<close>

lemma RewardSplit_validate_ok [ok_simps]:
  "RewardSplit_validate split = Inr x \<longleftrightarrow>
     x = split \<and> miner_bps split + validator_bps split + treasury_bps split = 10000"
  by (auto simp: RewardSplit_validate_def ok_simps split: option.splits)

lemma allocate_ok:
  "allocate split amount = Inr a \<Longrightarrow>
     miner_bps split + validator_bps split + treasury_bps split = 10000 \<and>
     ea_miner a = amount * miner_bps split div 10000 \<and>
     ea_validator a = amount * validator_bps split div 10000 \<and>
     ea_treasury a = amount - (ea_miner a + ea_validator a)"
  by (auto simp: allocate_def ok_simps)

lemma halving_shift: "min (halving_epoch block) 127 = min (block div 10512000) 127"
  by (simp add: halving_epoch_def checked_div_def uint_max_def Let_def)

lemma emission_after_halvings_eq:
  "emission_after_halvings e block = Inr (e div 2 ^ min (block div 10512000) 127)"
  by (simp add: emission_after_halvings_def halving_shift checked_shr_def ok_or_r_def Let_def)

lemma slash_amount_ok [ok_simps]:
  "slash_amount policy bond bps = Inr x \<longleftrightarrow>
     min_invalid_proof_slash_bps policy \<le> bps \<and> bps \<le> max_invalid_proof_slash_bps policy \<and>
     bond * bps < 2 ^ 128 \<and> x = bond * bps div 10000"
  by (auto simp: slash_amount_def pro_rata_ok)

lemma validate_bond_ok [ok_simps]:
  "validate_bond policy bond = Inr x \<longleftrightarrow> min_bond policy \<le> bond \<and> bond \<le> max_bond policy \<and> x = bond"
  by (auto simp: validate_bond_def)

lemma policy_exit_available_at_ok [ok_simps]:
  "policy_exit_available_at policy b = Inr x \<longleftrightarrow>
     b + exit_cooldown_blocks policy < 2 ^ 64 \<and> x = b + exit_cooldown_blocks policy"
  by (auto simp: policy_exit_available_at_def ok_simps)

lemma validate_creation_burn_ok [ok_simps]:
  "validate_creation_burn policy x = Inr y \<longleftrightarrow> creation_burn policy \<le> x \<and> y = x"
  by (auto simp: validate_creation_burn_def)

lemma validate_validator_stake_ok [ok_simps]:
  "validate_validator_stake policy x = Inr y \<longleftrightarrow> min_validator_stake policy \<le> x \<and> y = x"
  by (auto simp: validate_validator_stake_def)

lemma ProofEnvelope_validate_ok [ok_simps]:
  "ProofEnvelope_validate env system = Inr x \<longleftrightarrow>
     x = env \<and> proof_commitment env \<noteq> 0 \<and> journal_commitment env \<noteq> 0 \<and> image_id env \<noteq> 0 \<and>
     supports (verifier_version env) system"
  by (auto simp: ProofEnvelope_validate_def ok_simps)

lemma validate_shape_ok [ok_simps]:
  "validate_shape sub policy = Inr x \<longleftrightarrow>
     x = sub \<and> input_commitment sub \<noteq> 0 \<and> output_commitment sub \<noteq> 0 \<and> model_commitment sub \<noteq> 0 \<and>
     proof_commitment (envelope sub) \<noteq> 0 \<and> journal_commitment (envelope sub) \<noteq> 0 \<and>
     image_id (envelope sub) \<noteq> 0 \<and>
     supports (verifier_version (envelope sub)) (proof_system sub) \<and>
     proof_system sub = sp_proof_system policy \<and>
     min_proof_size_bytes policy \<le> proof_size_bytes sub \<and>
     proof_size_bytes sub \<le> max_proof_size_bytes policy \<and>
     verification_latency_ms sub \<le> max_verification_latency_ms policy"
  by (auto simp: validate_shape_def ok_simps)

section \<open>Properties\<close>

text \<open>
  Settling a payment loses and creates nothing: the miner payment, the validator fee and the
  treasury fee add up to the payment; both fees are the exact share rounded down, and all
  rounding goes to the miner.
\<close>

theorem settle_conserves_payment:
  assumes "settle_inference_payment p v t = Inr st"
  shows "miner_payment st + validator_fee st + treasury_fee st = p \<and>
    p * (10000 - (v + t)) div 10000 \<le> miner_payment st \<and>
    validator_fee st = p * v div 10000 \<and> treasury_fee st = p * t div 10000"
proof -
  have split: "map_sum id settlement_parts (settle_inference_payment p v t) =
      Inr (miner_payment st, validator_fee st, treasury_fee st)"
    by (simp add: assms settlement_parts_def)
  show ?thesis
    using protocol_split.parts_sum [OF split] protocol_split.rest_covers_share [OF split]
      protocol_split.split_fees_ok [THEN iffD1, OF split]
    by simp
qed

theorem settle_conserves_payment_witness:
  "settle_inference_payment 1000 250 50 =
     Inr \<lparr>miner_payment = 970, validator_fee = 25, treasury_fee = 5\<rparr> \<and>
   (970::nat) + 25 + 5 = 1000 \<and> (1000::nat) * (10000 - (250 + 50)) div 10000 \<le> 970"
proof -
  have run: "settle_inference_payment 1000 250 50 =
      Inr \<lparr>miner_payment = 970, validator_fee = 25, treasury_fee = 5\<rparr>"
    by (simp add: settle_inference_payment_eq)
  show ?thesis using run settle_conserves_payment [OF run] by simp
qed

text \<open>
  A reward split that allocates an emission hands out exactly that emission, with the
  treasury receiving the remainder of the rounded miner and validator shares.
\<close>

theorem allocate_conserves_emission:
  assumes "allocate split amount = Inr a"
  shows "ea_miner a + ea_validator a + ea_treasury a = amount \<and>
    amount * treasury_bps split div 10000 \<le> ea_treasury a"
proof -
  note a = allocate_ok [OF assms]
  then have le: "miner_bps split + validator_bps split \<le> 10000"
    and tre: "treasury_bps split = 10000 - (miner_bps split + validator_bps split)"
    by linarith+
  from two_shares_le [OF le, of amount] rest_share_ge [OF le, of amount] a show ?thesis
    unfolding tre by simp
qed

theorem allocate_conserves_emission_witness:
  "allocate RewardSplit_qubitum 101 =
     Inr \<lparr>ea_miner = 50, ea_validator = 30, ea_treasury = 21\<rparr> \<and> (50::nat) + 30 + 21 = 101"
proof -
  have run: "allocate RewardSplit_qubitum 101 =
      Inr \<lparr>ea_miner = 50, ea_validator = 30, ea_treasury = 21\<rparr>"
    by (simp add: allocate_def RewardSplit_qubitum_def RewardSplit_validate_def pro_rata_def
        ok_or_r_def checked_add_def checked_mul_def checked_div_def checked_sub_def)
  show ?thesis using run allocate_conserves_emission [OF run] by simp
qed

text \<open>
  The halving schedule never fails and never increases: the emission at any block is the
  initial emission shifted right once per elapsed four-year interval (at most 127 times), and
  one more interval halves it until that cap.
\<close>

theorem emission_schedule:
  "emission_after_halvings e block = Inr (e div 2 ^ min (block div HALVING_INTERVAL_BLOCKS) 127) \<and>
   (\<exists>now later. emission_after_halvings e block = Inr now \<and>
      emission_after_halvings e (block + HALVING_INTERVAL_BLOCKS) = Inr later \<and>
      (if block div HALVING_INTERVAL_BLOCKS < 127 then later = now div 2 else later = now))"
proof -
  have next_epoch: "(block + 10512000) div 10512000 = Suc (block div 10512000)" by simp
  have "e div 2 ^ min (Suc n) 127 = e div 2 ^ min n 127 div 2" if "n < 127" for n
    using that by (simp add: power_Suc2 div_mult2_eq del: power_Suc)
  then show ?thesis
    by (auto simp: emission_after_halvings_eq next_epoch)
qed

end
