(* ===== verification/Protocol_Verifier.thy ===== *)
theory Protocol_Verifier
  imports Protocol_Types
begin

text \<open>
  The verifier interface of \<^verbatim>\<open>primitives/qubitum-protocol/src/verifier.rs\<close> and its two
  implementations.  The trait is a function type; the contract that both implementations meet
  and the state machine relies on is the locale \<open>shape_checking_verifier\<close>.
\<close>

section \<open>Model\<close>

type_synonym ProofVerifier =
  "InferenceProofSubmission \<Rightarrow> SubnetPolicy \<Rightarrow> ProtocolError + VerificationOutcome"

definition ShapeVerifier_verify :: ProofVerifier where
  "ShapeVerifier_verify sub policy = bind_r (validate_shape sub policy) (\<lambda>_. Inr Valid)"

record MockVerifier =
  expected_proof_commitment :: "Commitment option"
  forced_invalid_slash_bps :: "nat option"

definition accepting :: MockVerifier where
  "accepting = \<lparr>expected_proof_commitment = None, forced_invalid_slash_bps = None\<rparr>"

definition expecting :: "Commitment \<Rightarrow> MockVerifier" where
  "expecting pc = \<lparr>expected_proof_commitment = Some pc, forced_invalid_slash_bps = None\<rparr>"

definition rejecting :: "nat \<Rightarrow> MockVerifier" where
  "rejecting bps = \<lparr>expected_proof_commitment = None, forced_invalid_slash_bps = Some bps\<rparr>"

definition MockVerifier_verify :: "MockVerifier \<Rightarrow> ProofVerifier" where
  "MockVerifier_verify self sub policy =
     bind_r (validate_shape sub policy) (\<lambda>_.
     case forced_invalid_slash_bps self of
       Some bps \<Rightarrow> Inr (Invalid bps)
     | None \<Rightarrow>
         (case expected_proof_commitment self of
            Some expected \<Rightarrow>
              if expected \<noteq> proof_commitment (envelope sub)
              then Inr (Invalid (min_invalid_proof_slash_bps (miner_bond policy)))
              else Inr Valid
          | None \<Rightarrow> Inr Valid))"

datatype ProofProcessing = Accepted InferenceRecord | Rejected (miner_slashed: Balance)

section \<open>The contract of a verifier\<close>

locale shape_checking_verifier =
  fixes verify :: ProofVerifier
  assumes outcome_shape: "verify sub policy = Inr outcome \<Longrightarrow> validate_shape sub policy = Inr sub"
    and never_failure: "verify sub policy \<noteq> Inr VerificationFailure"
begin

lemma outcome_cases:
  assumes "verify sub policy = Inr outcome"
  shows "outcome = Valid \<or> (\<exists>bps. outcome = Invalid bps)"
  using assms never_failure by (cases outcome) auto

lemma malformed_rejected:
  assumes "validate_shape sub policy = Inl e"
  shows "\<exists>e'. verify sub policy = Inl e'"
proof (cases "verify sub policy")
  case (Inr outcome)
  with outcome_shape [OF this] assms show ?thesis by simp
qed simp

end

interpretation shape_verifier: shape_checking_verifier ShapeVerifier_verify
  by unfold_locales (auto simp: ShapeVerifier_verify_def ok_simps)

interpretation mock_verifier: shape_checking_verifier "MockVerifier_verify self" for self
  by unfold_locales
    (auto simp: MockVerifier_verify_def ok_simps split: option.splits if_splits)

end
