(* ===== verification/Protocol_State.thy ===== *)
theory Protocol_State
  imports Protocol_Verifier
begin

text \<open>
  The protocol state machine of \<^verbatim>\<open>primitives/qubitum-protocol/src/state.rs\<close>.  Its methods mutate
  the state in place and return early on errors, so every method is an action whose error
  branch carries the state it leaves behind.  A \<open>BTreeMap\<close> is a partial map;
  \<open>entry(k).or_default()\<close> inserts the default ledger also when the method fails afterwards.
\<close>

section \<open>State\<close>

record AccountLedger =
  free :: Balance
  locked :: Balance

definition default_ledger :: AccountLedger where
  "default_ledger = \<lparr>free = 0, locked = 0\<rparr>"

definition ledger_total :: "AccountLedger \<Rightarrow> ProtocolError + Balance" where
  "ledger_total l = ok_or_r (checked_add 128 (free l) (locked l)) ArithmeticOverflow"

record ProtocolState =
  treasury_account :: AccountId
  accounts :: "AccountId \<rightharpoonup> AccountLedger"
  subnets :: "SubnetId \<rightharpoonup> SubnetConfig"
  miners :: "MinerId \<rightharpoonup> MinerRegistration"
  validators :: "ValidatorId \<rightharpoonup> ValidatorRegistration"
  records :: "RequestId \<rightharpoonup> InferenceRecord"
  total_burned :: Balance
  next_subnet_id :: SubnetId
  next_miner_id :: MinerId
  next_validator_id :: ValidatorId

type_synonym 'a protocol = "(ProtocolState, ProtocolError, 'a) action"

definition ProtocolState_new :: "AccountId \<Rightarrow> ProtocolState" where
  "ProtocolState_new treasury = \<lparr>
     treasury_account = treasury,
     accounts = Map.empty, subnets = Map.empty, miners = Map.empty, validators = Map.empty,
     records = Map.empty,
     total_burned = 0, next_subnet_id = 0, next_miner_id = 0, next_validator_id = 0\<rparr>"

definition ledger :: "ProtocolState \<Rightarrow> AccountId \<Rightarrow> AccountLedger" where
  "ledger s account = (case accounts s account of None \<Rightarrow> default_ledger | Some l \<Rightarrow> l)"

definition put_ledger :: "AccountId \<Rightarrow> AccountLedger \<Rightarrow> ProtocolState \<Rightarrow> ProtocolState" where
  "put_ledger account l s = s\<lparr>accounts := (accounts s)(account \<mapsto> l)\<rparr>"

text \<open>\<open>self.accounts.entry(account).or_default()\<close>\<close>

definition entry_or_default :: "AccountId \<Rightarrow> unit protocol" where
  "entry_or_default account = modify (\<lambda>s. put_ledger account (ledger s account) s)"

section \<open>Ledger operations\<close>

definition set_free :: "AccountId \<Rightarrow> Balance \<Rightarrow> unit protocol" where
  "set_free account v = modify (\<lambda>s. put_ledger account ((ledger s account)\<lparr>free := v\<rparr>) s)"

definition set_locked :: "AccountId \<Rightarrow> Balance \<Rightarrow> unit protocol" where
  "set_locked account v = modify (\<lambda>s. put_ledger account ((ledger s account)\<lparr>locked := v\<rparr>) s)"

definition add_burned :: "Balance \<Rightarrow> unit protocol" where
  "add_burned amount =
     and_then (fetch (\<lambda>s. checked_add 128 (total_burned s) amount) ArithmeticOverflow) (\<lambda>v.
     modify (\<lambda>s. s\<lparr>total_burned := v\<rparr>))"

definition credit :: "AccountId \<Rightarrow> Balance \<Rightarrow> unit protocol" where
  "credit account amount =
     and_then (entry_or_default account) (\<lambda>_.
     and_then (fetch (\<lambda>s. checked_add 128 (free (ledger s account)) amount) ArithmeticOverflow)
       (\<lambda>v. set_free account v))"

definition debit_free :: "AccountId \<Rightarrow> Balance \<Rightarrow> unit protocol" where
  "debit_free account amount =
     and_then (entry_or_default account) (\<lambda>_.
     and_then (require (\<lambda>s. \<not> free (ledger s account) < amount) InsufficientBalance) (\<lambda>_.
     and_then (fetch (\<lambda>s. checked_sub (free (ledger s account)) amount) ArithmeticOverflow)
       (\<lambda>v. set_free account v)))"

definition burn :: "AccountId \<Rightarrow> Balance \<Rightarrow> unit protocol" where
  "burn account amount = and_then (debit_free account amount) (\<lambda>_. add_burned amount)"

definition burn_locked :: "AccountId \<Rightarrow> Balance \<Rightarrow> unit protocol" where
  "burn_locked account amount =
     and_then (entry_or_default account) (\<lambda>_.
     and_then (require (\<lambda>s. \<not> locked (ledger s account) < amount) InsufficientBalance) (\<lambda>_.
     and_then (fetch (\<lambda>s. checked_sub (locked (ledger s account)) amount) ArithmeticOverflow)
       (\<lambda>v.
     and_then (set_locked account v) (\<lambda>_.
     add_burned amount))))"

definition transfer :: "AccountId \<Rightarrow> AccountId \<Rightarrow> Balance \<Rightarrow> unit protocol" where
  "transfer source dest amount =
     and_then (debit_free source amount) (\<lambda>_. credit dest amount)"

definition lock :: "AccountId \<Rightarrow> Balance \<Rightarrow> unit protocol" where
  "lock account amount =
     and_then (debit_free account amount) (\<lambda>_.
     and_then (entry_or_default account) (\<lambda>_.
     and_then (fetch (\<lambda>s. checked_add 128 (locked (ledger s account)) amount) ArithmeticOverflow)
       (\<lambda>v. set_locked account v)))"

definition unlock :: "AccountId \<Rightarrow> Balance \<Rightarrow> unit protocol" where
  "unlock account amount =
     and_then (entry_or_default account) (\<lambda>_.
     and_then (require (\<lambda>s. \<not> locked (ledger s account) < amount) InsufficientBalance) (\<lambda>_.
     and_then (fetch (\<lambda>s. checked_sub (locked (ledger s account)) amount) ArithmeticOverflow)
       (\<lambda>v.
     and_then (set_locked account v) (\<lambda>_.
     and_then (fetch (\<lambda>s. checked_add 128 (free (ledger s account)) amount) ArithmeticOverflow)
       (\<lambda>w. set_free account w)))))"

section \<open>Genesis\<close>

text \<open>The loop over the endowed accounts, with the running total \<open>issued\<close>.\<close>

fun endow :: "Balance \<Rightarrow> (AccountId \<times> Balance) list \<Rightarrow> Balance protocol" where
  "endow issued [] = ret issued"
| "endow issued ((account, amount) # endowed) =
     and_then (ok_or (checked_add 128 issued amount) ArithmeticOverflow) (\<lambda>issued'.
     and_then (credit account amount) (\<lambda>_.
     endow issued' endowed))"

definition with_genesis ::
  "AccountId \<Rightarrow> (AccountId \<times> Balance) list \<Rightarrow> ProtocolError + ProtocolState" where
  "with_genesis treasury endowed =
     (case and_then (endow 0 endowed) (\<lambda>issued.
             and_then (ensure (\<not> issued > INITIAL_SUPPLY) ArithmeticOverflow) (\<lambda>_.
             and_then (ok_or (checked_sub INITIAL_SUPPLY issued) ArithmeticOverflow)
               (\<lambda>treasury_remainder. credit treasury treasury_remainder)))
           (ProtocolState_new treasury) of
        (Inl e, _) \<Rightarrow> Inl e
      | (Inr _, s) \<Rightarrow> Inr s)"

section \<open>Registry transitions\<close>

definition create_subnet :: "AccountId \<Rightarrow> SubnetDomain \<Rightarrow> Balance \<Rightarrow> SubnetId protocol" where
  "create_subnet owner domain burn_amount =
     (let policy = SubnetPolicy_qubitum in
     and_then (lift_result (validate_creation_burn policy burn_amount)) (\<lambda>_.
     and_then (burn owner burn_amount) (\<lambda>_.
     and_then (gets next_subnet_id) (\<lambda>new_id.
     and_then (fetch (\<lambda>s. checked_add 16 (next_subnet_id s) 1) ArithmeticOverflow) (\<lambda>n.
     and_then (modify (\<lambda>s. s\<lparr>next_subnet_id := n\<rparr>)) (\<lambda>_.
     and_then (gets (\<lambda>s. subnets s new_id = None)) (\<lambda>inserted.
     and_then (modify (\<lambda>s. s\<lparr>subnets := (subnets s)(new_id \<mapsto>
         \<lparr>sc_id = new_id, sc_owner = owner, sc_domain = domain, sc_policy = policy,
          sc_active = True\<rparr>)\<rparr>)) (\<lambda>_.
     if inserted then ret new_id else throw DuplicateSubnet))))))))"

definition register_miner ::
  "AccountId \<Rightarrow> SubnetId \<Rightarrow> Commitment \<Rightarrow> ProofSystem \<Rightarrow> MinerId protocol" where
  "register_miner operator sid model system =
     and_then (fetch (\<lambda>s. subnets s sid) UnknownSubnet) (\<lambda>subnet.
     let policy = sc_policy subnet in
     and_then (ensure (\<not> sp_proof_system policy \<noteq> system) ProofSystemMismatch) (\<lambda>_.
     and_then (lift_result (ensure_commitment model)) (\<lambda>_.
     and_then (burn operator (registration_burn (miner_bond policy))) (\<lambda>_.
     and_then (gets next_miner_id) (\<lambda>new_id.
     and_then (fetch (\<lambda>s. checked_add 64 (next_miner_id s) 1) ArithmeticOverflow) (\<lambda>n.
     and_then (modify (\<lambda>s. s\<lparr>next_miner_id := n\<rparr>)) (\<lambda>_.
     and_then (modify (\<lambda>s. s\<lparr>miners := (miners s)(new_id \<mapsto>
         \<lparr>mr_id = new_id, mr_operator = operator, mr_subnet_id = sid,
          mr_model_commitment = model, mr_proof_system = system, mr_bond = 0,
          mr_status = Pending, mr_shielded_identity_commitment = None,
          mr_endpoint_commitment = None\<rparr>)\<rparr>)) (\<lambda>_.
     ret new_id))))))))"

text \<open>The bond policy of the subnet a miner belongs to, as three methods look it up.\<close>

definition miner_and_policy :: "MinerId \<Rightarrow> (MinerRegistration \<times> MinerBondPolicy) protocol" where
  "miner_and_policy mid =
     and_then (fetch (\<lambda>s. miners s mid) UnknownMiner) (\<lambda>miner.
     and_then (fetch (\<lambda>s. subnets s (mr_subnet_id miner)) UnknownSubnet) (\<lambda>subnet.
     ret (miner, miner_bond (sc_policy subnet))))"

text \<open>\<open>self.miners.get_mut(&miner_id).ok_or(UnknownMiner)?\<close> followed by field writes.\<close>

definition update_miner ::
  "MinerId \<Rightarrow> (MinerRegistration \<Rightarrow> MinerRegistration) \<Rightarrow> unit protocol" where
  "update_miner mid f =
     and_then (fetch (\<lambda>s. miners s mid) UnknownMiner) (\<lambda>miner.
     modify (\<lambda>s. s\<lparr>miners := (miners s)(mid \<mapsto> f miner)\<rparr>))"

definition activate_miner :: "MinerId \<Rightarrow> Balance \<Rightarrow> unit protocol" where
  "activate_miner mid bond =
     and_then (miner_and_policy mid) (\<lambda>(miner, policy).
     and_then (lift_result (validate_bond policy bond)) (\<lambda>_.
     and_then (lock (mr_operator miner) bond) (\<lambda>_.
     update_miner mid (\<lambda>m. m\<lparr>mr_bond := bond, mr_status := Active\<rparr>))))"

definition begin_miner_exit :: "MinerId \<Rightarrow> BlockNumber \<Rightarrow> unit protocol" where
  "begin_miner_exit mid current_block =
     and_then (miner_and_policy mid) (\<lambda>(miner, policy).
     and_then (lift_result (policy_exit_available_at policy current_block)) (\<lambda>available_at.
     update_miner mid (\<lambda>m. m\<lparr>mr_status := Exiting available_at\<rparr>)))"

definition complete_miner_exit :: "MinerId \<Rightarrow> BlockNumber \<Rightarrow> unit protocol" where
  "complete_miner_exit mid current_block =
     and_then (fetch (\<lambda>s. miners s mid) UnknownMiner) (\<lambda>miner.
     case mr_status miner of
       Exiting available_at \<Rightarrow>
         and_then (ensure (\<not> current_block < available_at) CooldownNotComplete) (\<lambda>_.
         and_then (unlock (mr_operator miner) (mr_bond miner)) (\<lambda>_.
         update_miner mid (\<lambda>m. m\<lparr>mr_bond := 0, mr_status := Disabled\<rparr>)))
     | _ \<Rightarrow> throw NotActive)"

definition register_validator :: "AccountId \<Rightarrow> SubnetId \<Rightarrow> Balance \<Rightarrow> ValidatorId protocol" where
  "register_validator operator sid stake =
     and_then (fetch (\<lambda>s. subnets s sid) UnknownSubnet) (\<lambda>subnet.
     and_then (lift_result (validate_validator_stake (sc_policy subnet) stake)) (\<lambda>_.
     and_then (lock operator stake) (\<lambda>_.
     and_then (gets next_validator_id) (\<lambda>new_id.
     and_then (fetch (\<lambda>s. checked_add 64 (next_validator_id s) 1) ArithmeticOverflow) (\<lambda>n.
     and_then (modify (\<lambda>s. s\<lparr>next_validator_id := n\<rparr>)) (\<lambda>_.
     and_then (modify (\<lambda>s. s\<lparr>validators := (validators s)(new_id \<mapsto>
         \<lparr>vr_id = new_id, vr_operator = operator, vr_staked = stake,
          vr_routing_subnets = [sid], vr_status = Active\<rparr>)\<rparr>)) (\<lambda>_.
     ret new_id)))))))"

section \<open>Proof processing\<close>

definition submit_valid_proof ::
  "AccountId \<Rightarrow> InferenceProofSubmission \<Rightarrow> Balance \<Rightarrow> nat \<Rightarrow> nat \<Rightarrow> InferenceRecord protocol" where
  "submit_valid_proof payer sub payment validator_fee_bps treasury_fee_bps =
     and_then (fetch (\<lambda>s. subnets s (subnet_id sub)) UnknownSubnet) (\<lambda>subnet.
     and_then (lift_result (validate_shape sub (sc_policy subnet))) (\<lambda>sub.
     and_then (fetch (\<lambda>s. miners s (miner_id sub)) UnknownMiner) (\<lambda>miner.
     and_then (ensure (\<not> (mr_subnet_id miner \<noteq> subnet_id sub \<or> mr_status miner \<noteq> Active))
       NotActive) (\<lambda>_.
     and_then (fetch (\<lambda>s. validators s (validator_id sub)) UnknownValidator) (\<lambda>validator.
     and_then (ensure (\<not> (subnet_id sub \<notin> set (vr_routing_subnets validator)
                          \<or> vr_status validator \<noteq> Active)) NotActive) (\<lambda>_.
     and_then (lift_result (settle_inference_payment payment validator_fee_bps treasury_fee_bps))
       (\<lambda>settlement.
     and_then (transfer payer (mr_operator miner) (miner_payment settlement)) (\<lambda>_.
     and_then (transfer payer (vr_operator validator) (validator_fee settlement)) (\<lambda>_.
     and_then (gets treasury_account) (\<lambda>treasury.
     and_then (transfer payer treasury (treasury_fee settlement)) (\<lambda>_.
     let record = from_valid_submission sub in
     and_then (modify (\<lambda>s. s\<lparr>records := (records s)(ir_request_id record \<mapsto> record)\<rparr>)) (\<lambda>_.
     ret record))))))))))))"

definition slash_miner :: "MinerId \<Rightarrow> nat \<Rightarrow> Balance protocol" where
  "slash_miner mid bps =
     and_then (miner_and_policy mid) (\<lambda>(miner, policy).
     and_then (lift_result (slash_amount policy (mr_bond miner) bps)) (\<lambda>amount.
     and_then (ok_or (checked_sub (mr_bond miner) amount) ArithmeticOverflow) (\<lambda>remaining_bond.
     and_then (burn_locked (mr_operator miner) amount) (\<lambda>_.
     and_then (update_miner mid (\<lambda>m.
        let m' = m\<lparr>mr_bond := remaining_bond\<rparr>
        in if remaining_bond < min_bond policy then m'\<lparr>mr_status := Slashed\<rparr> else m')) (\<lambda>_.
     ret amount)))))"

definition process_proof ::
  "AccountId \<Rightarrow> InferenceProofSubmission \<Rightarrow> Balance \<Rightarrow> nat \<Rightarrow> nat \<Rightarrow> ProofVerifier \<Rightarrow>
   ProofProcessing protocol" where
  "process_proof payer sub payment validator_fee_bps treasury_fee_bps verify =
     and_then (fetch (\<lambda>s. subnets s (subnet_id sub)) UnknownSubnet) (\<lambda>subnet.
     and_then (lift_result (verify sub (sc_policy subnet))) (\<lambda>outcome.
     case outcome of
       Valid \<Rightarrow>
         and_then (submit_valid_proof payer sub payment validator_fee_bps treasury_fee_bps)
           (\<lambda>record. ret (Accepted record))
     | Invalid bps \<Rightarrow>
         and_then (slash_miner (miner_id sub) bps) (\<lambda>slashed. ret (Rejected slashed))
     | VerificationFailure \<Rightarrow> throw VerifierError))"

end
