(* ===== verification/Protocol_Ledger.thy ===== *)
theory Protocol_Ledger
  imports Protocol_State
begin

text \<open>
  The ledger of the protocol state machine: what each private ledger method does to the two
  balances it touches, and that none of them creates or destroys balance.  Every run lemma is an
  equation that covers the error branch as well.
\<close>

section \<open>Supply\<close>

text \<open>Everything ever issued is in some account, free or locked, or burned.\<close>

definition holdings :: "ProtocolState \<Rightarrow> nat" where
  "holdings s = (\<Sum>a\<in>UNIV. free (ledger s a) + locked (ledger s a))"

definition total_supply :: "ProtocolState \<Rightarrow> nat" where
  "total_supply s = holdings s + total_burned s"

lemma ledger_put [simp]: "ledger (put_ledger a l s) = (ledger s)(a := l)"
  by (auto simp: ledger_def put_ledger_def)

lemma put_ledger_frame [simp]:
  "treasury_account (put_ledger a l s) = treasury_account s"
  "subnets (put_ledger a l s) = subnets s" "miners (put_ledger a l s) = miners s"
  "validators (put_ledger a l s) = validators s" "records (put_ledger a l s) = records s"
  "total_burned (put_ledger a l s) = total_burned s"
  "next_subnet_id (put_ledger a l s) = next_subnet_id s"
  "next_miner_id (put_ledger a l s) = next_miner_id s"
  "next_validator_id (put_ledger a l s) = next_validator_id s"
  by (simp_all add: put_ledger_def)

lemma put_ledger_twice [simp]: "put_ledger a l (put_ledger a l' s) = put_ledger a l s"
  by (simp add: put_ledger_def)

lemma ledger_update [simp]:
  "ledger (s\<lparr>total_burned := b\<rparr>) = ledger s"
  "ledger (s\<lparr>subnets := sn\<rparr>) = ledger s" "ledger (s\<lparr>miners := ms\<rparr>) = ledger s"
  "ledger (s\<lparr>validators := vs\<rparr>) = ledger s" "ledger (s\<lparr>records := rs\<rparr>) = ledger s"
  "ledger (s\<lparr>next_subnet_id := n\<rparr>) = ledger s" "ledger (s\<lparr>next_miner_id := n\<rparr>) = ledger s"
  "ledger (s\<lparr>next_validator_id := n\<rparr>) = ledger s"
  by (auto simp: ledger_def)

lemma supply_put:
  "total_supply (put_ledger a l s) + (free (ledger s a) + locked (ledger s a)) =
     total_supply s + (free l + locked l)"
  using sum_update [of UNIV a "\<lambda>l. free l + locked l" "ledger s" l]
  by (simp add: total_supply_def holdings_def)

lemma supply_put_same:
  "free l + locked l = free (ledger s a) + locked (ledger s a) \<Longrightarrow>
   total_supply (put_ledger a l s) = total_supply s"
  using supply_put [of a l s] by simp

lemma supply_update [simp]:
  "total_supply (s\<lparr>subnets := sn\<rparr>) = total_supply s" 
  "total_supply (s\<lparr>miners := ms\<rparr>) = total_supply s"
  "total_supply (s\<lparr>validators := vs\<rparr>) = total_supply s" 
  "total_supply (s\<lparr>records := rs\<rparr>) = total_supply s"
  "total_supply (s\<lparr>next_subnet_id := n\<rparr>) = total_supply s" 
  "total_supply (s\<lparr>next_miner_id := n\<rparr>) = total_supply s"
  "total_supply (s\<lparr>next_validator_id := n\<rparr>) = total_supply s"
  by (simp_all add: total_supply_def holdings_def)

lemma supply_burned: "total_supply (s\<lparr>total_burned := b\<rparr>) + total_burned s = total_supply s + b"
  by (simp add: total_supply_def holdings_def)

lemma ledger_le_holdings: "free (ledger s a) + locked (ledger s a) \<le> holdings s"
  unfolding holdings_def
  by (rule member_le_sum [of a UNIV "\<lambda>a. free (ledger s a) + locked (ledger s a)"]) auto

lemma ledger_le_supply: "free (ledger s a) + locked (ledger s a) + total_burned s \<le> total_supply s"
  using ledger_le_holdings [of s a] by (simp add: total_supply_def)

lemma two_ledgers_le_supply:
  assumes "a \<noteq> b"
  shows "free (ledger s a) + free (ledger s b) \<le> total_supply s"
proof -
  have "free (ledger s a) + free (ledger s b) \<le>
      (\<Sum>c\<in>{a, b}. free (ledger s c) + locked (ledger s c))"
    using assms by simp
  also have "\<dots> \<le> holdings s"
    unfolding holdings_def by (rule sum_mono2) auto
  finally show ?thesis by (simp add: total_supply_def)
qed

section \<open>Runs of the ledger methods\<close>

definition touch :: "AccountId \<Rightarrow> ProtocolState \<Rightarrow> ProtocolState" where
  "touch a s = put_ledger a (ledger s a) s"

lemma ledger_touch [simp]: "ledger (touch a s) = ledger s"
  by (simp add: touch_def)

lemma supply_touch [simp]: "total_supply (touch a s) = total_supply s"
  by (simp add: touch_def supply_put_same)

lemma touch_frame [simp]:
  "treasury_account (touch a s) = treasury_account s"
  "subnets (touch a s) = subnets s" "miners (touch a s) = miners s"
  "validators (touch a s) = validators s" "records (touch a s) = records s"
  "total_burned (touch a s) = total_burned s"
  "next_subnet_id (touch a s) = next_subnet_id s" "next_miner_id (touch a s) = next_miner_id s"
  "next_validator_id (touch a s) = next_validator_id s"
  by (simp_all add: touch_def)

lemma credit_eq:
  "credit a x s =
     (if free (ledger s a) + x < 2 ^ 128
      then (Inr (), put_ledger a ((ledger s a)\<lparr>free := free (ledger s a) + x\<rparr>) s)
      else (Inl ArithmeticOverflow, touch a s))"
  by (auto simp: credit_def entry_or_default_def set_free_def action_defs touch_def checked_add_def)

lemma debit_free_eq:
  "debit_free a x s =
     (if free (ledger s a) < x then (Inl InsufficientBalance, touch a s)
      else (Inr (), put_ledger a ((ledger s a)\<lparr>free := free (ledger s a) - x\<rparr>) s))"
  by (auto simp: debit_free_def entry_or_default_def set_free_def action_defs touch_def
      checked_sub_def)

text \<open>Below, the supply bound excludes the overflow branches.\<close>

lemma burn_eq:
  assumes "total_supply s < 2 ^ 128"
  shows "burn a x s =
     (if free (ledger s a) < x then (Inl InsufficientBalance, touch a s)
      else (Inr (), (put_ledger a ((ledger s a)\<lparr>free := free (ledger s a) - x\<rparr>) s)
                      \<lparr>total_burned := total_burned s + x\<rparr>))"
  using ledger_le_supply [of s a] assms
  by (auto simp: burn_def add_burned_def debit_free_eq action_defs checked_add_def)

lemma burn_locked_eq:
  assumes "total_supply s < 2 ^ 128"
  shows "burn_locked a x s =
     (if locked (ledger s a) < x then (Inl InsufficientBalance, touch a s)
      else (Inr (), (put_ledger a ((ledger s a)\<lparr>locked := locked (ledger s a) - x\<rparr>) s)
                      \<lparr>total_burned := total_burned s + x\<rparr>))"
  using ledger_le_supply [of s a] assms
  by (auto simp: burn_locked_def add_burned_def entry_or_default_def set_locked_def action_defs
      checked_add_def checked_sub_def touch_def)

lemma lock_eq:
  assumes "total_supply s < 2 ^ 128"
  shows "lock a x s =
     (if free (ledger s a) < x then (Inl InsufficientBalance, touch a s)
      else (Inr (), put_ledger a \<lparr>free = free (ledger s a) - x,
                                  locked = locked (ledger s a) + x\<rparr> s))"
  using ledger_le_supply [of s a] assms
  by (cases "ledger s a")
    (auto simp: lock_def debit_free_eq entry_or_default_def set_locked_def action_defs
      checked_add_def)

lemma unlock_eq:
  assumes "total_supply s < 2 ^ 128"
  shows "unlock a x s =
     (if locked (ledger s a) < x then (Inl InsufficientBalance, touch a s)
      else (Inr (), put_ledger a \<lparr>free = free (ledger s a) + x,
                                  locked = locked (ledger s a) - x\<rparr> s))"
  using ledger_le_supply [of s a] assms
  by (cases "ledger s a")
    (auto simp: unlock_def entry_or_default_def set_locked_def set_free_def action_defs
      checked_add_def checked_sub_def touch_def)

text \<open>The state after a transfer that goes through.\<close>

definition after_transfer ::
  "AccountId \<Rightarrow> AccountId \<Rightarrow> Balance \<Rightarrow> ProtocolState \<Rightarrow> ProtocolState" where
  "after_transfer a b x s =
     (let s' = put_ledger a ((ledger s a)\<lparr>free := free (ledger s a) - x\<rparr>) s
      in put_ledger b ((ledger s' b)\<lparr>free := free (ledger s' b) + x\<rparr>) s')"

lemma transfer_eq:
  assumes "total_supply s < 2 ^ 128"
  shows "transfer a b x s =
     (if free (ledger s a) < x then (Inl InsufficientBalance, touch a s)
      else (Inr (), after_transfer a b x s))"
  using ledger_le_supply [of s a] two_ledgers_le_supply [of a b s] assms
  by (cases "a = b")
    (auto simp: transfer_def after_transfer_def debit_free_eq credit_eq action_defs Let_def)

lemma after_transfer_frame [simp]:
  "treasury_account (after_transfer a b x s) = treasury_account s"
  "subnets (after_transfer a b x s) = subnets s" "miners (after_transfer a b x s) = miners s"
  "validators (after_transfer a b x s) = validators s"
  "records (after_transfer a b x s) = records s"
  "total_burned (after_transfer a b x s) = total_burned s"
  "next_subnet_id (after_transfer a b x s) = next_subnet_id s"
  "next_miner_id (after_transfer a b x s) = next_miner_id s"
  "next_validator_id (after_transfer a b x s) = next_validator_id s"
  by (simp_all add: after_transfer_def Let_def)

lemma locked_after_transfer [simp]:
  "locked (ledger (after_transfer a b x s) c) = locked (ledger s c)"
  by (simp add: after_transfer_def Let_def)

lemma free_after_transfer:
  assumes "x \<le> free (ledger s a)"
  shows "free (ledger (after_transfer a b x s) c) + (if c = a then x else 0) =
    free (ledger s c) + (if c = b then x else 0)"
  using assms by (simp add: after_transfer_def Let_def)

lemma supply_after_transfer [simp]:
  assumes "x \<le> free (ledger s a)"
  shows "total_supply (after_transfer a b x s) = total_supply s"
proof -
  define s' where "s' = put_ledger a ((ledger s a)\<lparr>free := free (ledger s a) - x\<rparr>) s"
  have "after_transfer a b x s = put_ledger b ((ledger s' b)\<lparr>free := free (ledger s' b) + x\<rparr>) s'"
    by (simp add: after_transfer_def s'_def Let_def)
  moreover have "total_supply s' + x = total_supply s"
    using assms supply_put [of a "(ledger s a)\<lparr>free := free (ledger s a) - x\<rparr>" s]
    by (simp add: s'_def)
  ultimately show ?thesis
    using supply_put [of b "(ledger s' b)\<lparr>free := free (ledger s' b) + x\<rparr>" s'] by simp
qed

end
