(* ===== verification/Protocol_Invariants.thy ===== *)
theory Protocol_Invariants
  imports Protocol_Ledger
begin

text \<open>
  The invariant of the protocol state machine and its preservation by every public method, on
  the success and on the error branch: the issued supply is constant, the registries are filled
  from their counters with well-formed entries, and the locked balance of every account covers
  the bonds and stakes of its operators.
\<close>

section \<open>The invariant\<close>

fun miner_backing :: "AccountId \<Rightarrow> MinerRegistration option \<Rightarrow> nat" where
  "miner_backing a None = 0"
| "miner_backing a (Some m) = (if mr_operator m = a then mr_bond m else 0)"

fun validator_backing :: "AccountId \<Rightarrow> ValidatorRegistration option \<Rightarrow> nat" where
  "validator_backing a None = 0"
| "validator_backing a (Some v) = (if vr_operator v = a then vr_staked v else 0)"

definition bonded :: "ProtocolState \<Rightarrow> AccountId \<Rightarrow> nat" where
  "bonded s a = (\<Sum>i<next_miner_id s. miner_backing a (miners s i))
              + (\<Sum>i<next_validator_id s. validator_backing a (validators s i))"

text \<open>The parameter \<open>d\<close> is a margin per account by which the locked balance exceeds its bonds.\<close>

definition backed :: "(AccountId \<Rightarrow> nat) \<Rightarrow> ProtocolState \<Rightarrow> bool" where
  "backed d s \<longleftrightarrow> (\<forall>a. bonded s a + d a \<le> locked (ledger s a))"

definition subnet_ok :: "SubnetId \<Rightarrow> SubnetConfig \<Rightarrow> bool" where
  "subnet_ok i c \<longleftrightarrow> sc_id c = i \<and> sc_policy c = SubnetPolicy_qubitum \<and> sc_active c"

definition miner_ok :: "SubnetId \<Rightarrow> MinerId \<Rightarrow> MinerRegistration \<Rightarrow> bool" where
  "miner_ok n i m \<longleftrightarrow>
     mr_id m = i \<and> mr_subnet_id m < n \<and> mr_proof_system m = RiscZeroStark \<and>
     mr_model_commitment m \<noteq> 0 \<and> mr_bond m \<le> MAX_MINER_BOND \<and>
     (mr_status m = Active \<longrightarrow> MIN_MINER_BOND \<le> mr_bond m) \<and>
     (mr_status m = Pending \<or> mr_status m = Disabled \<longrightarrow> mr_bond m = 0)"

definition validator_ok :: "SubnetId \<Rightarrow> ValidatorId \<Rightarrow> ValidatorRegistration \<Rightarrow> bool" where
  "validator_ok n i v \<longleftrightarrow>
     vr_id v = i \<and> (\<exists>sid<n. vr_routing_subnets v = [sid]) \<and>
     MIN_MINER_BOND \<le> vr_staked v \<and> vr_status v = Active"

definition registry_wf :: "ProtocolState \<Rightarrow> bool" where
  "registry_wf s \<longleftrightarrow>
     dense (subnets s) (next_subnet_id s) \<and> dense (miners s) (next_miner_id s) \<and>
     dense (validators s) (next_validator_id s) \<and>
     (\<forall>i c. subnets s i = Some c \<longrightarrow> subnet_ok i c) \<and>
     (\<forall>i m. miners s i = Some m \<longrightarrow> miner_ok (next_subnet_id s) i m) \<and>
     (\<forall>i v. validators s i = Some v \<longrightarrow> validator_ok (next_subnet_id s) i v)"

definition protocol_inv :: "(AccountId \<Rightarrow> nat) \<Rightarrow> ProtocolState \<Rightarrow> bool" where
  "protocol_inv d s \<longleftrightarrow> total_supply s = INITIAL_SUPPLY \<and> registry_wf s \<and> backed d s"

lemma protocol_inv_bound: "protocol_inv d s \<Longrightarrow> total_supply s < 2 ^ 128"
  by (simp add: protocol_inv_def)

section \<open>How state changes act on the invariant\<close>

lemma bonded_cong:
  "miners s' = miners s \<Longrightarrow> validators s' = validators s \<Longrightarrow>
   next_miner_id s' = next_miner_id s \<Longrightarrow> next_validator_id s' = next_validator_id s \<Longrightarrow>
   bonded s' = bonded s"
  by (simp add: bonded_def fun_eq_iff)

lemma registry_wf_cong:
  "subnets s' = subnets s \<Longrightarrow> miners s' = miners s \<Longrightarrow> validators s' = validators s \<Longrightarrow>
   next_subnet_id s' = next_subnet_id s \<Longrightarrow> next_miner_id s' = next_miner_id s \<Longrightarrow>
   next_validator_id s' = next_validator_id s \<Longrightarrow> registry_wf s' = registry_wf s"
  by (simp add: registry_wf_def)

lemma inv_ledger_change:
  assumes "protocol_inv d s" and "total_supply s' = total_supply s"
    and "\<And>a. locked (ledger s a) \<le> locked (ledger s' a)"
    and frame: "subnets s' = subnets s" "miners s' = miners s" "validators s' = validators s"
      "next_subnet_id s' = next_subnet_id s" "next_miner_id s' = next_miner_id s"
      "next_validator_id s' = next_validator_id s"
  shows "protocol_inv d s'"
  using assms(1,2) assms(3) [THEN le_trans [rotated]] frame
  unfolding protocol_inv_def backed_def
  by (simp add: registry_wf_cong [OF frame] bonded_cong [OF frame(2,3,5,6)])

lemma inv_touch: "protocol_inv d s \<Longrightarrow> protocol_inv d (touch a s)"
  by (erule inv_ledger_change) simp_all

lemma inv_after_transfer:
  "protocol_inv d s \<Longrightarrow> x \<le> free (ledger s a) \<Longrightarrow> protocol_inv d (after_transfer a b x s)"
  by (erule inv_ledger_change) simp_all

lemma inv_after_burn:
  assumes "protocol_inv d s" and "x \<le> free (ledger s a)"
  shows "protocol_inv d ((put_ledger a ((ledger s a)\<lparr>free := free (ledger s a) - x\<rparr>) s)
    \<lparr>total_burned := total_burned s + x\<rparr>)"
proof (rule inv_ledger_change [OF assms(1)])
  let ?t = "put_ledger a ((ledger s a)\<lparr>free := free (ledger s a) - x\<rparr>) s"
  show "total_supply (?t\<lparr>total_burned := total_burned s + x\<rparr>) = total_supply s"
    using supply_burned [of "total_burned s + x" ?t] assms(2)
      supply_put [of a "(ledger s a)\<lparr>free := free (ledger s a) - x\<rparr>" s]
    by simp
qed simp_all

lemma entry_ok_mono:
  "miner_ok n i m \<Longrightarrow> miner_ok (Suc n) i m" "validator_ok n i v \<Longrightarrow> validator_ok (Suc n) i v"
  by (auto simp: miner_ok_def validator_ok_def intro: less_SucI)

lemma protocol_inv_add_subnet:
  assumes "protocol_inv d s" and "subnet_ok (next_subnet_id s) c"
  shows "protocol_inv d (s\<lparr>next_subnet_id := Suc (next_subnet_id s),
    subnets := (subnets s)(next_subnet_id s \<mapsto> c)\<rparr>)"
proof -
  let ?s = "s\<lparr>next_subnet_id := Suc (next_subnet_id s),
    subnets := (subnets s)(next_subnet_id s \<mapsto> c)\<rparr>"
  have "bonded ?s = bonded s" by (rule bonded_cong) simp_all
  with assms show ?thesis
    by (auto simp: protocol_inv_def backed_def registry_wf_def dense_insert entry_ok_mono)
qed

lemma protocol_inv_add_miner:
  assumes "protocol_inv d s" and "miner_ok (next_subnet_id s) (next_miner_id s) m" and "mr_bond m = 0"
  shows "protocol_inv d (s\<lparr>next_miner_id := Suc (next_miner_id s),
    miners := (miners s)(next_miner_id s \<mapsto> m)\<rparr>)"
proof -
  let ?s = "s\<lparr>next_miner_id := Suc (next_miner_id s), miners := (miners s)(next_miner_id s \<mapsto> m)\<rparr>"
  have "bonded ?s a = bonded s a" for a
    using assms(3) sum_insert_next [of "miner_backing a" "miners s" "next_miner_id s" m]
    by (simp add: bonded_def)
  with assms show ?thesis
    by (auto simp: protocol_inv_def backed_def registry_wf_def dense_insert)
qed

lemma protocol_inv_add_validator:
  assumes "protocol_inv d s" and "validator_ok (next_subnet_id s) (next_validator_id s) v"
    and "vr_staked v \<le> free (ledger s (vr_operator v))"
  shows "protocol_inv d ((put_ledger (vr_operator v)
      \<lparr>free = free (ledger s (vr_operator v)) - vr_staked v,
       locked = locked (ledger s (vr_operator v)) + vr_staked v\<rparr> s)
      \<lparr>next_validator_id := Suc (next_validator_id s),
       validators := (validators s)(next_validator_id s \<mapsto> v)\<rparr>)" (is "protocol_inv d ?s")
proof -
  have "total_supply ?s = total_supply s"
    using assms(3) by (simp add: supply_put_same)
  moreover have "bonded ?s a = bonded s a + validator_backing a (Some v)" for a
    using sum_insert_next [of "validator_backing a" "validators s" "next_validator_id s" v]
    by (simp add: bonded_def)
  ultimately show ?thesis
    using assms by (auto simp: protocol_inv_def backed_def registry_wf_def dense_insert)
qed

text \<open>Replacing a miner entry together with the ledger entry of its operator.\<close>

lemma inv_replace_miner:
  assumes inv: "protocol_inv d s" and m: "miners s i = Some m"
    and ok: "miner_ok (next_subnet_id s) i m'" and op: "mr_operator m' = mr_operator m"
    and frame: "subnets t = subnets s" "miners t = miners s" "validators t = validators s"
      "next_subnet_id t = next_subnet_id s" "next_miner_id t = next_miner_id s"
      "next_validator_id t = next_validator_id s"
    and sup: "total_supply t = total_supply s"
    and other: "\<And>a. a \<noteq> mr_operator m \<Longrightarrow> locked (ledger s a) \<le> locked (ledger t a)"
    and own: "locked (ledger s (mr_operator m)) + mr_bond m'
      \<le> locked (ledger t (mr_operator m)) + mr_bond m"
  shows "protocol_inv d (t\<lparr>miners := (miners s)(i \<mapsto> m')\<rparr>)" (is "protocol_inv d ?s")
proof -
  have dense: "dense (miners s) (next_miner_id s)"
    using inv by (simp add: protocol_inv_def registry_wf_def)
  have bonded: "bonded ?s a + miner_backing a (Some m) = bonded s a + miner_backing a (Some m')" for a
    using sum_replace [OF dense m, of "miner_backing a" m'] frame by (simp add: bonded_def)
  have "bonded ?s a + d a \<le> locked (ledger t a)" for a
  proof -
    have "bonded s a + d a \<le> locked (ledger s a)"
      using inv by (simp add: protocol_inv_def backed_def)
    then show ?thesis
      using bonded [of a] own other [of a] op by (cases "a = mr_operator m") simp_all
  qed
  then show ?thesis
    using inv frame sup ok dense_update [OF dense m]
    by (auto simp: protocol_inv_def backed_def registry_wf_def)
qed

section \<open>Preservation by the methods\<close>

lemma known_subnet:
  assumes "protocol_inv d s" and "subnets s i = Some c"
  shows "i < next_subnet_id s" "sc_policy c = SubnetPolicy_qubitum" "sc_active c" "sc_id c = i"
  using assms dense_less [of "subnets s"]
  by (auto simp: protocol_inv_def registry_wf_def subnet_ok_def)

lemma known_miner:
  assumes "protocol_inv d s" and "miners s i = Some m"
  shows "miner_ok (next_subnet_id s) i m" and "i < next_miner_id s"
    and "\<exists>c. subnets s (mr_subnet_id m) = Some c"
    and "mr_bond m \<le> locked (ledger s (mr_operator m))"
proof -
  have wf: "dense (miners s) (next_miner_id s)" "dense (subnets s) (next_subnet_id s)"
    using assms(1) by (simp_all add: protocol_inv_def registry_wf_def)
  show ok: "miner_ok (next_subnet_id s) i m"
    using assms by (simp add: protocol_inv_def registry_wf_def)
  show "i < next_miner_id s" using wf(1) assms(2) by (rule dense_less)
  show "\<exists>c. subnets s (mr_subnet_id m) = Some c"
    using ok wf(2) by (auto simp: miner_ok_def dense_def)
  have "mr_bond m \<le> bonded s (mr_operator m)"
    using member_le_registry_sum [OF wf(1) assms(2), of "miner_backing (mr_operator m)"]
    by (simp add: bonded_def)
  then show "mr_bond m \<le> locked (ledger s (mr_operator m))"
    using assms(1) unfolding protocol_inv_def backed_def by (meson add_leD1 le_trans)
qed

lemma miner_and_policy_eq:
  assumes "protocol_inv d s"
  shows "miner_and_policy i s =
    (case miners s i of None \<Rightarrow> (Inl UnknownMiner, s)
     | Some m \<Rightarrow> (Inr (m, MinerBondPolicy_qubitum), s))"
  using known_miner(3) [OF assms] known_subnet(2) [OF assms]
  by (fastforce simp: miner_and_policy_def action_defs SubnetPolicy_qubitum_def split: option.splits)

lemma update_miner_eq:
  "update_miner i f s =
    (case miners s i of None \<Rightarrow> (Inl UnknownMiner, s)
     | Some m \<Rightarrow> (Inr (), s\<lparr>miners := (miners s)(i \<mapsto> f m)\<rparr>))"
  by (simp add: update_miner_def action_defs split: option.splits)

lemma protocol_create_subnet_inv: "preserves (protocol_inv d) (create_subnet owner domain amount)"
proof (rule preservesI)
  fix s r s'
  assume inv: "protocol_inv d s" and run: "create_subnet owner domain amount s = (r, s')"
  note eq = burn_eq [OF protocol_inv_bound [OF inv], of owner amount]
  let ?t = "(put_ledger owner ((ledger s owner)\<lparr>free := free (ledger s owner) - amount\<rparr>) s)
    \<lparr>total_burned := total_burned s + amount\<rparr>"
  let ?c = "\<lparr>sc_id = next_subnet_id s, sc_owner = owner, sc_domain = domain,
    sc_policy = SubnetPolicy_qubitum, sc_active = True\<rparr>"
  consider "s' = s" | "s' = touch owner s"
    | "s' = ?t" "amount \<le> free (ledger s owner)"
    | "s' = ?t\<lparr>next_subnet_id := Suc (next_subnet_id ?t),
         subnets := (subnets ?t)(next_subnet_id ?t \<mapsto> ?c)\<rparr>" "amount \<le> free (ledger s owner)"
    using run
    by (auto simp: create_subnet_def action_defs eq Let_def checked_add_def
        split: if_splits sum.splits)
  then show "protocol_inv d s'"
    using inv_touch [OF inv] inv_after_burn [OF inv, of amount owner]
      protocol_inv_add_subnet [of d ?t ?c]
    by cases (auto simp: inv subnet_ok_def)
qed

lemma protocol_register_miner_inv: "preserves (protocol_inv d) (register_miner operator sid model system)"
proof (rule preservesI)
  fix s r s'
  assume inv: "protocol_inv d s" and run: "register_miner operator sid model system s = (r, s')"
  let ?x = MINER_REGISTRATION_BURN
  note eq = burn_eq [OF protocol_inv_bound [OF inv], of operator ?x]
  let ?t = "(put_ledger operator ((ledger s operator)\<lparr>free := free (ledger s operator) - ?x\<rparr>) s)
    \<lparr>total_burned := total_burned s + ?x\<rparr>"
  let ?m = "\<lparr>mr_id = next_miner_id s, mr_operator = operator, mr_subnet_id = sid,
    mr_model_commitment = model, mr_proof_system = system, mr_bond = 0, mr_status = Pending,
    mr_shielded_identity_commitment = None, mr_endpoint_commitment = None\<rparr>"
  have policy: "sc_policy c = SubnetPolicy_qubitum" if "subnets s sid = Some c" for c
    using known_subnet(2) [OF inv that] .
  consider "s' = s" | "s' = touch operator s"
    | "s' = ?t" "?x \<le> free (ledger s operator)"
    | c where "s' = ?t\<lparr>next_miner_id := Suc (next_miner_id ?t),
         miners := (miners ?t)(next_miner_id ?t \<mapsto> ?m)\<rparr>" "?x \<le> free (ledger s operator)"
        "subnets s sid = Some c" "system = RiscZeroStark" "model \<noteq> 0"
    using run policy eq
    by (auto simp: register_miner_def action_defs Let_def checked_add_def ensure_commitment_def
        SubnetPolicy_qubitum_def MinerBondPolicy_qubitum_def split: if_splits option.splits)
  then show "protocol_inv d s'"
    using inv_touch [OF inv] inv_after_burn [OF inv, of ?x operator] protocol_inv_add_miner [of d ?t ?m]
      known_subnet(1) [OF inv]
    by cases (auto simp: inv miner_ok_def)
qed

text \<open>The state after a lock or unlock of \<open>x\<close>, as \<open>lock_eq\<close> and \<open>unlock_eq\<close> give it.\<close>

definition after_lock :: "AccountId \<Rightarrow> Balance \<Rightarrow> ProtocolState \<Rightarrow> ProtocolState" where
  "after_lock a x s =
     put_ledger a \<lparr>free = free (ledger s a) - x, locked = locked (ledger s a) + x\<rparr> s"

definition after_unlock :: "AccountId \<Rightarrow> Balance \<Rightarrow> ProtocolState \<Rightarrow> ProtocolState" where
  "after_unlock a x s =
     put_ledger a \<lparr>free = free (ledger s a) + x, locked = locked (ledger s a) - x\<rparr> s"

definition after_burn_locked :: "AccountId \<Rightarrow> Balance \<Rightarrow> ProtocolState \<Rightarrow> ProtocolState" where
  "after_burn_locked a x s =
     (put_ledger a ((ledger s a)\<lparr>locked := locked (ledger s a) - x\<rparr>) s)
       \<lparr>total_burned := total_burned s + x\<rparr>"

lemma supply_after_lock:
  "x \<le> free (ledger s a) \<Longrightarrow> total_supply (after_lock a x s) = total_supply s"
  by (simp add: after_lock_def supply_put_same)

lemma supply_after_unlock:
  "x \<le> locked (ledger s a) \<Longrightarrow> total_supply (after_unlock a x s) = total_supply s"
  by (simp add: after_unlock_def supply_put_same)

lemma supply_after_burn_locked:
  assumes "x \<le> locked (ledger s a)"
  shows "total_supply (after_burn_locked a x s) = total_supply s"
  using assms supply_put [of a "(ledger s a)\<lparr>locked := locked (ledger s a) - x\<rparr>" s]
    supply_burned [of "total_burned s + x"
      "put_ledger a ((ledger s a)\<lparr>locked := locked (ledger s a) - x\<rparr>) s"]
  by (simp add: after_burn_locked_def)

lemma activate_miner_eq:
  assumes "protocol_inv d s"
  shows "activate_miner i b s =
    (case miners s i of None \<Rightarrow> (Inl UnknownMiner, s)
     | Some m \<Rightarrow>
         if b < MIN_MINER_BOND \<or> MAX_MINER_BOND < b then (Inl InvalidBond, s)
         else if free (ledger s (mr_operator m)) < b
              then (Inl InsufficientBalance, touch (mr_operator m) s)
         else (Inr (), (after_lock (mr_operator m) b s)
                \<lparr>miners := (miners s)(i \<mapsto> m\<lparr>mr_bond := b, mr_status := Active\<rparr>)\<rparr>))"
  by (simp add: activate_miner_def and_then_def miner_and_policy_eq [OF assms] update_miner_eq
      lock_eq [OF protocol_inv_bound [OF assms]] lift_result_def validate_bond_def
      MinerBondPolicy_qubitum_def after_lock_def split: option.splits)

lemma begin_miner_exit_eq:
  assumes "protocol_inv d s"
  shows "begin_miner_exit i now s =
    (case miners s i of None \<Rightarrow> (Inl UnknownMiner, s)
     | Some m \<Rightarrow>
         if now + BOND_EXIT_COOLDOWN_BLOCKS < 2 ^ 64
         then (Inr (), s\<lparr>miners := (miners s)(i \<mapsto>
                 m\<lparr>mr_status := Exiting (now + BOND_EXIT_COOLDOWN_BLOCKS)\<rparr>)\<rparr>)
         else (Inl ArithmeticOverflow, s))"
  by (simp add: begin_miner_exit_def and_then_def miner_and_policy_eq [OF assms] update_miner_eq
      lift_result_def policy_exit_available_at_def ok_or_r_def checked_add_def
      MinerBondPolicy_qubitum_def split: option.splits)

lemma complete_miner_exit_eq:
  assumes "protocol_inv d s"
  shows "complete_miner_exit i now s =
    (case miners s i of None \<Rightarrow> (Inl UnknownMiner, s)
     | Some m \<Rightarrow>
        (case mr_status m of
           Exiting available \<Rightarrow>
             if now < available then (Inl CooldownNotComplete, s)
             else (Inr (), (after_unlock (mr_operator m) (mr_bond m) s)
                    \<lparr>miners := (miners s)(i \<mapsto> m\<lparr>mr_bond := 0, mr_status := Disabled\<rparr>)\<rparr>)
         | _ \<Rightarrow> (Inl NotActive, s)))"
  using known_miner(4) [OF assms, of i]
  by (auto simp: complete_miner_exit_def action_basic_defs update_miner_eq not_le [symmetric]
      unlock_eq [OF protocol_inv_bound [OF assms]] after_unlock_def
      split: option.splits RegistryStatus.splits)

text \<open>A slash of a bonded miner never exceeds the bond, hence never the locked balance.\<close>

definition slashed_miner :: "MinerRegistration \<Rightarrow> Balance \<Rightarrow> MinerRegistration" where
  "slashed_miner m x =
     (if mr_bond m - x < MIN_MINER_BOND then m\<lparr>mr_bond := mr_bond m - x, mr_status := Slashed\<rparr>
      else m\<lparr>mr_bond := mr_bond m - x\<rparr>)"

lemma slash_miner_eq:
  assumes "protocol_inv d s"
  shows "slash_miner i bps s =
    (case miners s i of None \<Rightarrow> (Inl UnknownMiner, s)
     | Some m \<Rightarrow>
         if bps < MIN_INVALID_PROOF_SLASH_BPS \<or> MAX_INVALID_PROOF_SLASH_BPS < bps
         then (Inl InvalidSlashPercent, s)
         else let x = mr_bond m * bps div BPS_DENOMINATOR in
           (Inr x, (after_burn_locked (mr_operator m) x s)
              \<lparr>miners := (miners s)(i \<mapsto> slashed_miner m x)\<rparr>))"
proof (cases "miners s i")
  case (Some m)
  have bond: "mr_bond m \<le> 10000000000000"
    using known_miner(1) [OF assms Some] by (simp add: miner_ok_def)
  show ?thesis
  proof (cases "bps < 1000 \<or> 10000 < bps")
    case False
    then have bps: "bps \<le> 10000" by simp
    with bond have "mr_bond m * bps \<le> 10000000000000 * 10000" by (rule mult_le_mono)
    then have prod: "mr_bond m * bps < 2 ^ 128" by simp
    have le: "mr_bond m * bps div 10000 \<le> mr_bond m" using bps by (rule share_le)
    then have locked: "mr_bond m * bps div 10000 \<le> locked (ledger s (mr_operator m))"
      using known_miner(4) [OF assms Some] by simp
    show ?thesis
      using Some False prod le locked
      by (auto simp: slash_miner_def action_basic_defs miner_and_policy_eq [OF assms] update_miner_eq
          slash_amount_def pro_rata_def checked_mul_def checked_div_def checked_sub_def
          MinerBondPolicy_qubitum_def burn_locked_eq [OF protocol_inv_bound [OF assms]]
          after_burn_locked_def slashed_miner_def Let_def)
  qed (use Some in \<open>auto simp: slash_miner_def action_basic_defs miner_and_policy_eq [OF assms]
        slash_amount_def MinerBondPolicy_qubitum_def\<close>)
qed (simp add: slash_miner_def action_basic_defs miner_and_policy_eq [OF assms])

lemma protocol_activate_miner_inv: "preserves (protocol_inv d) (activate_miner i b)"
proof (rule preservesI)
  fix s r s' assume inv: "protocol_inv d s" and run: "activate_miner i b s = (r, s')"
  show "protocol_inv d s'"
  proof (cases "\<exists>m. miners s i = Some m \<and> MIN_MINER_BOND \<le> b \<and> b \<le> MAX_MINER_BOND \<and>
      b \<le> free (ledger s (mr_operator m))")
    case True
    then obtain m where m: "miners s i = Some m" and b: "MIN_MINER_BOND \<le> b" "b \<le> MAX_MINER_BOND"
        "b \<le> free (ledger s (mr_operator m))" by blast
    have s': "s' = (after_lock (mr_operator m) b s)
        \<lparr>miners := (miners s)(i \<mapsto> m\<lparr>mr_bond := b, mr_status := Active\<rparr>)\<rparr>"
      using run m b by (simp add: activate_miner_eq [OF inv])
    show ?thesis
      unfolding s' using known_miner(1) [OF inv m] b
      by (intro inv_replace_miner [OF inv m] supply_after_lock)
        (auto simp: after_lock_def miner_ok_def)
  next
    case False
    then show ?thesis
      using run inv inv_touch [OF inv]
      by (auto simp: activate_miner_eq [OF inv] not_less split: option.splits if_splits)
  qed
qed

lemma begin_miner_exit_inv: "preserves (protocol_inv d) (begin_miner_exit i now)"
proof (rule preservesI)
  fix s r s' assume inv: "protocol_inv d s" and run: "begin_miner_exit i now s = (r, s')"
  have "protocol_inv d (s\<lparr>miners := (miners s)(i \<mapsto> m\<lparr>mr_status := Exiting x\<rparr>)\<rparr>)"
    if "miners s i = Some m" for m x
    using known_miner(1) [OF inv that]
    by (intro inv_replace_miner [OF inv that]) (auto simp: miner_ok_def)
  then show "protocol_inv d s'"
    using run inv by (auto simp: begin_miner_exit_eq [OF inv] split: option.splits if_splits)
qed

lemma complete_miner_exit_inv: "preserves (protocol_inv d) (complete_miner_exit i now)"
proof (rule preservesI)
  fix s r s' assume inv: "protocol_inv d s" and run: "complete_miner_exit i now s = (r, s')"
  have "protocol_inv d ((after_unlock (mr_operator m) (mr_bond m) s)
      \<lparr>miners := (miners s)(i \<mapsto> m\<lparr>mr_bond := 0, mr_status := Disabled\<rparr>)\<rparr>)"
    if m: "miners s i = Some m" for m
    using known_miner(1,4) [OF inv m]
    by (intro inv_replace_miner [OF inv m] supply_after_unlock)
      (auto simp: miner_ok_def after_unlock_def)
  then show "protocol_inv d s'"
    using run inv
    by (auto simp: complete_miner_exit_eq [OF inv]
        split: option.splits if_splits RegistryStatus.splits)
qed

lemma slash_miner_inv: "preserves (protocol_inv d) (slash_miner i bps)"
proof (rule preservesI)
  fix s r s' assume inv: "protocol_inv d s" and run: "slash_miner i bps s = (r, s')"
  have "protocol_inv d ((after_burn_locked (mr_operator m) x s)
      \<lparr>miners := (miners s)(i \<mapsto> slashed_miner m x)\<rparr>)"
    if m: "miners s i = Some m" and x: "x \<le> mr_bond m" for m x
    using known_miner(1,4) [OF inv m] x
    by (intro inv_replace_miner [OF inv m] supply_after_burn_locked)
      (auto simp: miner_ok_def after_burn_locked_def slashed_miner_def)
  then show "protocol_inv d s'"
    using run inv share_le [of bps 10000]
    by (auto simp: slash_miner_eq [OF inv] Let_def split: option.splits if_splits)
qed

lemma protocol_register_validator_inv: "preserves (protocol_inv d) (register_validator operator sid stake)"
proof (rule preservesI)
  fix s r s'
  assume inv: "protocol_inv d s" and run: "register_validator operator sid stake s = (r, s')"
  note eq = lock_eq [OF protocol_inv_bound [OF inv], of operator stake]
  let ?v = "\<lparr>vr_id = next_validator_id s, vr_operator = operator, vr_staked = stake,
    vr_routing_subnets = [sid], vr_status = Active\<rparr>"
  have policy: "sc_policy c = SubnetPolicy_qubitum" if "subnets s sid = Some c" for c
    using known_subnet(2) [OF inv that] .
  consider "s' = s" | "s' = touch operator s"
    | "s' = after_lock operator stake s" "stake \<le> free (ledger s operator)"
    | c where "s' = (after_lock operator stake s)
         \<lparr>next_validator_id := Suc (next_validator_id s),
          validators := (validators s)(next_validator_id s \<mapsto> ?v)\<rparr>"
        "stake \<le> free (ledger s operator)" "subnets s sid = Some c" "MIN_MINER_BOND \<le> stake"
    using run policy eq
    by (auto simp: register_validator_def action_defs checked_add_def validate_validator_stake_def
        SubnetPolicy_qubitum_def after_lock_def split: if_splits option.splits)
  then show "protocol_inv d s'"
  proof cases
    case 3
    then show ?thesis
      by (intro inv_ledger_change [OF inv]) (auto simp: after_lock_def supply_put_same)
  next
    case (4 c)
    then show ?thesis
      using protocol_inv_add_validator [OF inv, of ?v] known_subnet(1) [OF inv 4(3)]
      by (simp add: validator_ok_def after_lock_def)
  qed (simp_all add: inv inv_touch)
qed

text \<open>Records carry no balance, and three transfers by the payer keep the invariant.\<close>

lemma transfer_inv: "preserves (protocol_inv d) (transfer a b x)"
  by (rule preservesI)
    (auto simp: transfer_eq [OF protocol_inv_bound] not_less inv_touch inv_after_transfer
      split: if_splits)

lemma records_inv: "protocol_inv d s \<Longrightarrow> protocol_inv d (s\<lparr>records := r\<rparr>)"
  by (erule inv_ledger_change) simp_all

lemma submit_valid_proof_inv: "preserves (protocol_inv d) (submit_valid_proof payer sub p v t)"
  unfolding submit_valid_proof_def Let_def
  by (intro preserves_intros transfer_inv records_inv)

lemma process_proof_inv: "preserves (protocol_inv d) (process_proof payer sub p v t verify)"
proof -
  have branch: "preserves (protocol_inv d)
      (case outcome of
         Valid \<Rightarrow> and_then (submit_valid_proof payer sub p v t) (\<lambda>record. ret (Accepted record))
       | Invalid bps \<Rightarrow> and_then (slash_miner (miner_id sub) bps) (\<lambda>x. ret (Rejected x))
       | VerificationFailure \<Rightarrow> throw VerifierError)" for outcome
    by (cases outcome)
      (auto intro!: preserves_intros submit_valid_proof_inv slash_miner_inv)
  show ?thesis
    unfolding process_proof_def by (intro preserves_intros branch)
qed

section \<open>Genesis\<close>

lemma endow_supply:
  "total_supply s = issued \<Longrightarrow> endow issued endowed s = (Inr n, s') \<Longrightarrow>
   total_supply s' = n \<and>
   (\<exists>acc. s' = s\<lparr>accounts := acc\<rparr>) \<and> (\<forall>a. locked (ledger s' a) = locked (ledger s a))"
proof (induction issued endowed arbitrary: s rule: endow.induct)
  case (1 issued)
  then show ?case by (auto simp: ok_simps intro: exI [of _ "accounts s"])
next
  case (2 issued account amount endowed)
  let ?l = "(ledger s account)\<lparr>free := free (ledger s account) + amount\<rparr>"
  from 2(3) have run: "endow (issued + amount) endowed (put_ledger account ?l s) = (Inr n, s')"
    by (auto simp: ok_simps credit_eq split: if_splits)
  have "total_supply (put_ledger account ?l s) = issued + amount"
    using supply_put [of account ?l s] 2(2) by simp
  from 2(1) [OF this run] show ?case
    by (auto simp: put_ledger_def ledger_def fun_eq_iff split: if_splits)
qed

lemma new_supply [simp]: "total_supply (ProtocolState_new t) = 0"
  by (simp add: total_supply_def holdings_def ProtocolState_new_def ledger_def default_ledger_def)

lemma protocol_genesis_inv:
  assumes "with_genesis treasury endowed = Inr s"
  shows "protocol_inv (\<lambda>_. 0) s"
proof -
  obtain n s1 where endow: "endow 0 endowed (ProtocolState_new treasury) = (Inr n, s1)"
      and n: "n \<le> INITIAL_SUPPLY" and cr: "credit treasury (INITIAL_SUPPLY - n) s1 = (Inr (), s)"
    using assms by (auto simp: with_genesis_def ok_simps not_less split: prod.splits sum.splits)
  from endow_supply [OF new_supply endow] obtain acc
    where s1: "total_supply s1 = n" "s1 = (ProtocolState_new treasury)\<lparr>accounts := acc\<rparr>" by auto
  let ?l = "(ledger s1 treasury)\<lparr>free := free (ledger s1 treasury) + (INITIAL_SUPPLY - n)\<rparr>"
  have s: "s = put_ledger treasury ?l s1"
    using cr by (auto simp: credit_eq split: if_splits)
  have "total_supply s = INITIAL_SUPPLY"
    using supply_put [of treasury ?l s1] s1(1) n by (simp add: s)
  moreover have "registry_wf s" "backed (\<lambda>_. 0) s"
    by (simp_all add: s s1(2) ProtocolState_new_def registry_wf_def backed_def bonded_def put_ledger_def)
  ultimately show ?thesis by (simp add: protocol_inv_def)
qed

section \<open>Reachable states\<close>

text \<open>One step runs a public method.  A method that returned an error leaves the state it had
  reached: the callers of the state machine do not roll back.\<close>

inductive protocol_step :: "ProtocolState \<Rightarrow> ProtocolState \<Rightarrow> bool" where
  "protocol_step s (snd (create_subnet owner domain amount s))"
| "protocol_step s (snd (register_miner operator sid model system s))"
| "protocol_step s (snd (activate_miner i bond s))"
| "protocol_step s (snd (begin_miner_exit i now s))"
| "protocol_step s (snd (complete_miner_exit i now s))"
| "protocol_step s (snd (register_validator operator sid stake s))"
| "protocol_step s (snd (submit_valid_proof payer sub p v t s))"
| "protocol_step s (snd (slash_miner i bps s))"
| "protocol_step s (snd (process_proof payer sub p v t verify s))"

inductive reachable :: "ProtocolState \<Rightarrow> bool" where
  genesis: "with_genesis treasury endowed = Inr s \<Longrightarrow> reachable s"
| step: "reachable s \<Longrightarrow> protocol_step s s' \<Longrightarrow> reachable s'"

lemmas method_invs =
  protocol_create_subnet_inv protocol_register_miner_inv protocol_activate_miner_inv begin_miner_exit_inv
  complete_miner_exit_inv protocol_register_validator_inv submit_valid_proof_inv slash_miner_inv
  process_proof_inv

lemma protocol_step_inv: "protocol_step s s' \<Longrightarrow> protocol_inv d s \<Longrightarrow> protocol_inv d s'"
  by (induction rule: protocol_step.induct) (auto intro: method_invs [THEN preserves_snd])

lemma steps_inv: "protocol_step\<^sup>*\<^sup>* s s' \<Longrightarrow> protocol_inv d s \<Longrightarrow> protocol_inv d s'"
  by (induction rule: rtranclp_induct) (auto intro: protocol_step_inv)

lemma protocol_reachable_inv: "reachable s \<Longrightarrow> protocol_inv (\<lambda>_. 0) s"
  by (induction rule: reachable.induct) (auto intro: protocol_genesis_inv protocol_step_inv)

text \<open>Balance that is locked without a bond or stake on record, and the tightest margin.\<close>

definition stranded :: "ProtocolState \<Rightarrow> AccountId \<Rightarrow> nat" where
  "stranded s a = locked (ledger s a) - bonded s a"

lemma backed_locked: "protocol_inv d s \<Longrightarrow> bonded s a + d a \<le> locked (ledger s a)"
  by (simp add: protocol_inv_def backed_def)

lemma stranded_inv: "protocol_inv d s \<Longrightarrow> protocol_inv (stranded s) s"
  using backed_locked [of d s, THEN add_leD1] by (simp add: protocol_inv_def backed_def stranded_def)

lemma inv_stranded: "protocol_inv d s \<Longrightarrow> d a \<le> stranded s a"
  using backed_locked [of d s a] by (simp add: stranded_def)

end
