(* ===== verification/Protocol_Properties.thy ===== *)
theory Protocol_Properties
  imports Protocol_Invariants
begin

text \<open>
  The properties of the protocol state machine over all reachable states, with the runs that
  show their hypotheses hold.
\<close>

section \<open>A concrete run\<close>

text \<open>Accounts 1 (miner and subnet owner), 2 (validator) and 3 (payer) are endowed; account 9 is the
  treasury.  The run creates a subnet, registers and activates a miner and adds a validator.\<close>

definition demo_genesis :: ProtocolState where
  "demo_genesis = (ProtocolState_new 9)\<lparr>accounts := [
     1 \<mapsto> \<lparr>free = 1000000000000, locked = 0\<rparr>,
     2 \<mapsto> \<lparr>free = 1000000000000, locked = 0\<rparr>,
     3 \<mapsto> \<lparr>free = 1000, locked = 0\<rparr>,
     9 \<mapsto> \<lparr>free = 20997999999999000, locked = 0\<rparr>]\<rparr>"

definition sample_miner :: MinerRegistration where
  "sample_miner = \<lparr>mr_id = 0, mr_operator = 1, mr_subnet_id = 0, mr_model_commitment = 5,
     mr_proof_system = RiscZeroStark, mr_bond = 100000000000, mr_status = Active,
     mr_shielded_identity_commitment = None, mr_endpoint_commitment = None\<rparr>"

definition sample_validator :: ValidatorRegistration where
  "sample_validator = \<lparr>vr_id = 0, vr_operator = 2, vr_staked = 100000000000,
     vr_routing_subnets = [0], vr_status = Active\<rparr>"

definition sample_subnet :: SubnetConfig where
  "sample_subnet = \<lparr>sc_id = 0, sc_owner = 1, sc_domain = General, sc_policy = SubnetPolicy_qubitum,
     sc_active = True\<rparr>"

definition demo_state :: ProtocolState where
  "demo_state = \<lparr>treasury_account = 9, accounts = [
       3 \<mapsto> \<lparr>free = 1000, locked = 0\<rparr>,
       9 \<mapsto> \<lparr>free = 20997999999999000, locked = 0\<rparr>,
       1 \<mapsto> \<lparr>free = 880000000000, locked = 100000000000\<rparr>,
       2 \<mapsto> \<lparr>free = 900000000000, locked = 100000000000\<rparr>],
     subnets = [0 \<mapsto> sample_subnet], miners = [0 \<mapsto> sample_miner],
     validators = [0 \<mapsto> sample_validator], records = Map.empty,
     total_burned = 20000000000, next_subnet_id = 1, next_miner_id = 1, next_validator_id = 1\<rparr>"

definition sample_submission :: InferenceProofSubmission where
  "sample_submission = \<lparr>request_id = 7, subnet_id = 0, miner_id = 0, validator_id = 0,
     input_commitment = 11, output_commitment = 12, model_commitment = 5,
     envelope = risc_zero_v1 13 14 15, proof_system = RiscZeroStark,
     proof_size_bytes = 51200, verification_latency_ms = 100, submitted_at = 3\<rparr>"

lemmas sample_defs = demo_state_def sample_miner_def sample_validator_def sample_subnet_def
  sample_submission_def

lemma demo_genesis_run:
  "with_genesis 9 [(1, 1000000000000), (2, 1000000000000), (3, 1000)] = Inr demo_genesis"
  by (simp add: with_genesis_def ProtocolState_new_def demo_genesis_def action_defs credit_eq
      checked_add_def checked_sub_def ledger_def put_ledger_def default_ledger_def)

lemmas demo_eval = action_defs burn_def lock_def credit_eq debit_free_eq add_burned_def
  entry_or_default_def set_locked_def checked_add_def ledger_def put_ledger_def
  miner_and_policy_def update_miner_def validate_creation_burn_def validate_bond_def
  validate_validator_stake_def ensure_commitment_def SubnetPolicy_qubitum_def
  MinerBondPolicy_qubitum_def Let_def

lemma demo_run:
  "demo_state = snd (register_validator 2 0 100000000000
     (snd (activate_miner 0 100000000000
     (snd (register_miner 1 0 5 RiscZeroStark
     (snd (create_subnet 1 General 10000000000 demo_genesis)))))))"
  by (simp add: create_subnet_def register_miner_def activate_miner_def register_validator_def
      demo_eval sample_defs demo_genesis_def ProtocolState_new_def)

lemma demo_reachable: "reachable demo_state"
  unfolding demo_run
  by (intro reachable.step [OF _ protocol_step.intros(6)] reachable.step [OF _ protocol_step.intros(3)]
      reachable.step [OF _ protocol_step.intros(2)] reachable.step [OF _ protocol_step.intros(1)]
      reachable.genesis [OF demo_genesis_run])

section \<open>Accepted proofs\<close>

lemma transfer_ok:
  assumes inv: "protocol_inv d s" and run: "transfer a b x s = (Inr u, s')"
  shows "protocol_inv d s'" "treasury_account s' = treasury_account s" "records s' = records s"
    and "locked (ledger s' c) = locked (ledger s c)"
    and "free (ledger s' c) + (if c = a then x else 0) = free (ledger s c) + (if c = b then x else 0)"
proof -
  have x: "x \<le> free (ledger s a)" and s': "s' = after_transfer a b x s"
    using run transfer_eq [OF protocol_inv_bound [OF inv], of a b x] by (auto split: if_splits)
  show "protocol_inv d s'" unfolding s' by (rule inv_after_transfer [OF inv x])
  show "free (ledger s' c) + (if c = a then x else 0) = free (ledger s c) + (if c = b then x else 0)"
    unfolding s' by (rule free_after_transfer [OF x])
qed (use run transfer_eq [OF protocol_inv_bound [OF inv], of a b x] in \<open>auto split: if_splits\<close>)

lemma submit_ok:
  assumes inv: "protocol_inv d s"
    and run: "submit_valid_proof payer sub p vb tb s = (Inr record, s')"
  obtains m v st where "miners s (miner_id sub) = Some m" "mr_status m = Active"
    "mr_subnet_id m = subnet_id sub" "validators s (validator_id sub) = Some v"
    "vr_status v = Active" "subnet_id sub \<in> set (vr_routing_subnets v)"
    "settle_inference_payment p vb tb = Inr st"
    "record = from_valid_submission sub"
    "records s' = (records s)(request_id sub \<mapsto> record)"
    "\<And>a. locked (ledger s' a) = locked (ledger s a)"
    "\<And>a. free (ledger s' a) + (if a = payer then p else 0) = free (ledger s a)
       + (if a = mr_operator m then miner_payment st else 0)
       + (if a = vr_operator v then validator_fee st else 0)
       + (if a = treasury_account s then treasury_fee st else 0)"
proof -
  from run obtain m v st s1 s2 s3 where
    m: "miners s (miner_id sub) = Some m" "mr_status m = Active" "mr_subnet_id m = subnet_id sub"
    and v: "validators s (validator_id sub) = Some v" "vr_status v = Active"
      "subnet_id sub \<in> set (vr_routing_subnets v)"
    and st: "settle_inference_payment p vb tb = Inr st"
    and t1: "transfer payer (mr_operator m) (miner_payment st) s = (Inr (), s1)"
    and t2: "transfer payer (vr_operator v) (validator_fee st) s1 = (Inr (), s2)"
    and t3: "transfer payer (treasury_account s2) (treasury_fee st) s2 = (Inr (), s3)"
    and rcd: "record = from_valid_submission sub"
    and s': "s' = s3\<lparr>records := (records s3)(request_id sub \<mapsto> record)\<rparr>"
    by (auto simp: submit_valid_proof_def ok_simps from_valid_submission_def Let_def)
  note r1 = transfer_ok [OF inv t1]
  note r2 = transfer_ok [OF r1(1) t2]
  note r3 = transfer_ok [OF r2(1) t3]
  have parts: "miner_payment st + validator_fee st + treasury_fee st = p"
    using protocol_split.parts_sum [of p vb tb "miner_payment st" "validator_fee st" "treasury_fee st"]
      st by (simp add: settlement_parts_def)
  show thesis
  proof
    fix a
    show "free (ledger s' a) + (if a = payer then p else 0) = free (ledger s a)
       + (if a = mr_operator m then miner_payment st else 0)
       + (if a = vr_operator v then validator_fee st else 0)
       + (if a = treasury_account s then treasury_fee st else 0)"
      using r1(5) [of a] r2(5) [of a] r3(5) [of a] parts r1(2) r2(2)
      by (simp add: s' split: if_splits)
  qed (use m v st rcd r1(2-4) r2(2-4) r3(2-4) s' in auto)
qed

section \<open>Properties\<close>

text \<open>
  C35: No sequence of calls, whether they succeed or fail half-way, creates or destroys supply:
  free and locked balances of all accounts and the burned total always add up to the initial
  supply.
\<close>

theorem supply_conserved:
  assumes "reachable s"
  shows "holdings s + total_burned s = INITIAL_SUPPLY"
  using protocol_reachable_inv [OF assms] by (simp add: protocol_inv_def total_supply_def)

theorem supply_conserved_witness:
  "reachable demo_state \<and> total_burned demo_state = 20000000000 \<and>
   holdings demo_state = INITIAL_SUPPLY - 20000000000"
  using supply_conserved [OF demo_reachable] demo_reachable by (simp add: demo_state_def)

text \<open>
  C36: In every reachable state the locked balance of an account covers all bonds of the miners
  and all stakes of the validators it operates.
\<close>

theorem bonds_backed:
  assumes "reachable s"
  shows "bonded s a \<le> locked (ledger s a)"
  using backed_locked [OF protocol_reachable_inv [OF assms], of a] by simp

theorem bonds_backed_witness:
  "reachable demo_state \<and> bonded demo_state 1 = 100000000000 \<and>
   100000000000 \<le> locked (ledger demo_state 1)"
  using bonds_backed [OF demo_reachable, of 1] demo_reachable
  by (simp add: bonded_def sample_defs lessThan_Suc)

text \<open>
  A miner that has begun its exit can complete it as soon as the cool-down is over, and not
  before: the call then cannot fail, it moves exactly the bond from locked to free balance of the
  operator, touches no other account, and disables the miner.
\<close>

theorem exit_returns_bond:
  assumes "reachable s" and "miners s i = Some m" and "mr_status m = Exiting available"
  shows "if now < available then complete_miner_exit i now s = (Inl CooldownNotComplete, s)
    else (\<exists>s'. complete_miner_exit i now s = (Inr (), s') \<and>
      mr_bond m \<le> locked (ledger s (mr_operator m)) \<and>
      ledger s' = (ledger s)(mr_operator m := \<lparr>
        free = free (ledger s (mr_operator m)) + mr_bond m,
        locked = locked (ledger s (mr_operator m)) - mr_bond m\<rparr>) \<and>
      miners s' = (miners s)(i \<mapsto> m\<lparr>mr_bond := 0, mr_status := Disabled\<rparr>))"
  using assms(2,3) known_miner(4) [OF protocol_reachable_inv [OF assms(1)] assms(2)]
  by (simp add: complete_miner_exit_eq [OF protocol_reachable_inv [OF assms(1)]] after_unlock_def)

definition demo_exiting :: ProtocolState where
  "demo_exiting = snd (begin_miner_exit 0 10 demo_state)"

lemma demo_exiting_reachable: "reachable demo_exiting"
  unfolding demo_exiting_def by (rule reachable.step [OF demo_reachable protocol_step.intros(4)])

lemma demo_exiting_miner:
  "miners demo_exiting 0 = Some (sample_miner\<lparr>mr_status := Exiting 50410\<rparr>)"
  unfolding demo_exiting_def begin_miner_exit_eq [OF protocol_reachable_inv [OF demo_reachable]]
  by (simp add: demo_state_def)

theorem exit_returns_bond_witness:
  "\<exists>s'. complete_miner_exit 0 50410 demo_exiting = (Inr (), s') \<and>
     complete_miner_exit 0 50409 demo_exiting = (Inl CooldownNotComplete, demo_exiting) \<and>
     free (ledger s' 1) = free (ledger demo_exiting 1) + 100000000000"
  using exit_returns_bond [OF demo_exiting_reachable demo_exiting_miner, of 50410 50410]
    exit_returns_bond [OF demo_exiting_reachable demo_exiting_miner, of 50410 50409]
  by (auto simp: sample_miner_def)

text \<open>
  Slashing a registered miner by an admissible percentage cannot fail: exactly that share of
  the bond is burned out of the locked balance of the operator, and the miner becomes slashed
  exactly when the rest is below the minimum bond.
\<close>

theorem slash_burns_share:
  assumes "reachable s" and "miners s i = Some m" and "1000 \<le> bps" and "bps \<le> 10000"
  shows "\<exists>s' m'. slash_miner i bps s = (Inr (mr_bond m * bps div 10000), s') \<and>
    total_burned s' = total_burned s + mr_bond m * bps div 10000 \<and>
    locked (ledger s' (mr_operator m)) + mr_bond m * bps div 10000 =
      locked (ledger s (mr_operator m)) \<and>
    miners s' = (miners s)(i \<mapsto> m') \<and> mr_bond m' + mr_bond m * bps div 10000 = mr_bond m \<and>
    mr_status m' = (if mr_bond m' < MIN_MINER_BOND then Slashed else mr_status m)"
proof -
  let ?x = "mr_bond m * bps div 10000"
  show ?thesis
    using assms share_le [of bps 10000 "mr_bond m"]
      known_miner(4) [OF protocol_reachable_inv [OF assms(1)] assms(2)]
    by (intro exI [of _ "(after_burn_locked (mr_operator m) ?x s)
            \<lparr>miners := (miners s)(i \<mapsto> slashed_miner m ?x)\<rparr>"]
          exI [of _ "slashed_miner m ?x"])
      (simp add: slash_miner_eq [OF protocol_reachable_inv [OF assms(1)]] Let_def after_burn_locked_def
        slashed_miner_def)
qed

theorem slash_burns_share_witness:
  "\<exists>s'. slash_miner 0 2500 demo_state = (Inr 25000000000, s') \<and>
     map_option mr_status (miners s' 0) = Some Slashed \<and> total_burned s' = 45000000000"
proof -
  have m: "miners demo_state 0 = Some sample_miner" by (simp add: demo_state_def)
  show ?thesis
    using slash_burns_share [OF demo_reachable m, of 2500]
    by (auto simp: sample_miner_def demo_state_def)
qed

text \<open>
  An accepted proof settles exactly: the miner and the validator were active on the subnet of
  the submission, the payer pays the whole payment, the miner operator, the validator operator
  and the treasury receive the three parts of its settlement, no locked balance moves, and the
  record of the submission is stored under its request id.
\<close>

theorem accepted_proof_settles:
  assumes "reachable s" and "submit_valid_proof payer sub p vb tb s = (Inr rcd, s')"
  shows "\<exists>m v st. miners s (miner_id sub) = Some m \<and> mr_status m = Active \<and>
    mr_subnet_id m = subnet_id sub \<and> validators s (validator_id sub) = Some v \<and>
    vr_status v = Active \<and> subnet_id sub \<in> set (vr_routing_subnets v) \<and>
    settle_inference_payment p vb tb = Inr st \<and>
    records s' = (records s)(request_id sub \<mapsto> from_valid_submission sub) \<and>
    (\<forall>a. locked (ledger s' a) = locked (ledger s a) \<and>
       free (ledger s' a) + (if a = payer then p else 0) = free (ledger s a)
         + (if a = mr_operator m then miner_payment st else 0)
         + (if a = vr_operator v then validator_fee st else 0)
         + (if a = treasury_account s then treasury_fee st else 0))"
  by (rule submit_ok [OF protocol_reachable_inv [OF assms(1)] assms(2)]) blast

lemma demo_submit:
  "\<exists>s'. submit_valid_proof 3 sample_submission 1000 250 50 demo_state =
     (Inr (from_valid_submission sample_submission), s')"
  by (simp add: submit_valid_proof_def transfer_def demo_eval sample_defs validate_shape_def
      ProofEnvelope_validate_def risc_zero_v1_def settle_inference_payment_eq
      from_valid_submission_def)

theorem accepted_proof_settles_witness:
  "\<exists>s'. submit_valid_proof 3 sample_submission 1000 250 50 demo_state =
     (Inr (from_valid_submission sample_submission), s') \<and>
     free (ledger s' 3) = 0 \<and> free (ledger s' 1) = free (ledger demo_state 1) + 970"
proof -
  obtain s' where run: "submit_valid_proof 3 sample_submission 1000 250 50 demo_state =
     (Inr (from_valid_submission sample_submission), s')" using demo_submit by blast
  show ?thesis
    using accepted_proof_settles [OF demo_reachable run] run
    by (auto simp: settle_inference_payment_eq sample_defs ledger_def split: if_splits
        dest: spec [of _ "1::AccountId"] spec [of _ "3::AccountId"])
qed

text \<open>
  Accepting a proof is not atomic.  A payer that can cover the miner payment but not the
  fees gets an error, yet the miner has been paid and no record is stored.
\<close>

theorem failed_submission_still_pays:
  "\<exists>s'. reachable demo_state \<and>
     submit_valid_proof 3 sample_submission 1020 250 50 demo_state = (Inl InsufficientBalance, s') \<and>
     records s' = records demo_state \<and>
     free (ledger demo_state 3) = 1000 \<and> free (ledger s' 3) = 10 \<and>
     free (ledger s' 1) = free (ledger demo_state 1) + 990"
proof -
  have "\<exists>s'. submit_valid_proof 3 sample_submission 1020 250 50 demo_state =
      (Inl InsufficientBalance, s') \<and> records s' = records demo_state \<and>
      free (ledger demo_state 3) = 1000 \<and> free (ledger s' 3) = 10 \<and>
      free (ledger s' 1) = free (ledger demo_state 1) + 990"
    by (simp add: submit_valid_proof_def transfer_def demo_eval sample_defs validate_shape_def
        ProofEnvelope_validate_def risc_zero_v1_def settle_inference_payment_eq touch_def)
  with demo_reachable show ?thesis by blast
qed

text \<open>
  C37: Activating a miner that already has a bond forgets the old one: the operator's balance that
  is locked without any bond or stake on record grows by exactly the old bond, and no further
  sequence of calls ever makes that unaccounted amount smaller.
\<close>

theorem reactivation_strands_bond:
  assumes "reachable s" and "miners s i = Some m" and "activate_miner i b s = (Inr (), s')"
    and "protocol_step\<^sup>*\<^sup>* s' t"
  shows "stranded s' (mr_operator m) = stranded s (mr_operator m) + mr_bond m \<and>
    stranded s (mr_operator m) + mr_bond m \<le> stranded t (mr_operator m)"
proof -
  note inv = protocol_reachable_inv [OF assms(1)]
  let ?a = "mr_operator m"
  have s': "s' = (after_lock ?a b s)
      \<lparr>miners := (miners s)(i \<mapsto> m\<lparr>mr_bond := b, mr_status := Active\<rparr>)\<rparr>"
    using assms(2,3) by (auto simp: activate_miner_eq [OF inv] split: if_splits)
  have dense: "dense (miners s) (next_miner_id s)"
    using inv by (simp add: protocol_inv_def registry_wf_def)
  have "bonded s' ?a + mr_bond m = bonded s ?a + b"
    using sum_replace [OF dense assms(2), of "miner_backing ?a" "m\<lparr>mr_bond := b, mr_status := Active\<rparr>"]
    by (simp add: s' bonded_def after_lock_def)
  then have eq: "stranded s' ?a = stranded s ?a + mr_bond m"
    using backed_locked [OF inv, of ?a] by (simp add: stranded_def s' after_lock_def)
  have "protocol_inv (\<lambda>_. 0) s'"
    using preservesD [OF protocol_activate_miner_inv inv assms(3)] .
  from inv_stranded [OF steps_inv [OF assms(4) stranded_inv [OF this]], of ?a] eq
  show ?thesis by simp
qed

theorem reactivation_strands_bond_witness:
  "\<exists>s'. activate_miner 0 100000000000 demo_state = (Inr (), s') \<and> 100000000000 \<le> stranded s' 1"
proof -
  have m: "miners demo_state 0 = Some sample_miner" by (simp add: demo_state_def)
  obtain s' where run: "activate_miner 0 100000000000 demo_state = (Inr (), s')"
    by (simp add: activate_miner_def demo_eval sample_defs)
  show ?thesis
    using reactivation_strands_bond [OF demo_reachable m run rtranclp.rtrancl_refl] run
    by (auto simp: sample_miner_def)
qed

section \<open>Clients of the verifier contract\<close>

context shape_checking_verifier
begin

lemma processed_cases:
  assumes "process_proof payer sub p vb tb verify s = (Inr out, s')"
  shows "\<exists>c. subnets s (subnet_id sub) = Some c \<and> validate_shape sub (sc_policy c) = Inr sub \<and>
    (case out of
       Accepted rcd \<Rightarrow> verify sub (sc_policy c) = Inr Valid \<and>
         submit_valid_proof payer sub p vb tb s = (Inr rcd, s')
     | Rejected x \<Rightarrow> \<exists>bps. verify sub (sc_policy c) = Inr (Invalid bps) \<and>
         slash_miner (miner_id sub) bps s = (Inr x, s'))"
proof -
  from assms obtain c outcome where c: "subnets s (subnet_id sub) = Some c"
      and v: "verify sub (sc_policy c) = Inr outcome"
    by (auto simp: process_proof_def ok_simps)
  show ?thesis
    using assms c v outcome_shape [OF v] outcome_cases [OF v]
    by (auto simp: process_proof_def ok_simps split: VerificationOutcome.splits)
qed

end

text \<open>
  Whatever the deterministic verifier is configured to do, processing a proof changes the
  state only for a well-formed submission to a known subnet: it either settles exactly as a
  valid submission does, or slashes the submitting miner, by the forced percentage or by the
  minimum percentage for a proof commitment that is not the expected one.
\<close>

theorem mock_processing_outcomes:
  assumes "process_proof payer sub p vb tb (MockVerifier_verify mock) s = (Inr out, s')"
  shows "\<exists>c. subnets s (subnet_id sub) = Some c \<and> validate_shape sub (sc_policy c) = Inr sub \<and>
    (case out of
       Accepted rcd \<Rightarrow> forced_invalid_slash_bps mock = None \<and>
         (case expected_proof_commitment mock of None \<Rightarrow> True
          | Some e \<Rightarrow> e = proof_commitment (envelope sub)) \<and>
         submit_valid_proof payer sub p vb tb s = (Inr rcd, s')
     | Rejected x \<Rightarrow>
         slash_miner (miner_id sub)
           (case forced_invalid_slash_bps mock of Some bps \<Rightarrow> bps
            | None \<Rightarrow> min_invalid_proof_slash_bps (miner_bond (sc_policy c))) s = (Inr x, s'))"
  using mock_verifier.processed_cases [OF assms]
  by (auto simp: MockVerifier_verify_def split: ProofProcessing.splits option.splits if_splits)

theorem mock_processing_outcomes_witness:
  "\<exists>s'. process_proof 3 sample_submission 1000 250 50 (MockVerifier_verify (expecting 99)) demo_state =
     (Inr (Rejected 10000000000), s') \<and>
     slash_miner 0 1000 demo_state = (Inr 10000000000, s')"
proof -
  have "\<exists>s'. process_proof 3 sample_submission 1000 250 50 (MockVerifier_verify (expecting 99))
      demo_state = (Inr (Rejected 10000000000), s')"
    by (simp add: process_proof_def MockVerifier_verify_def expecting_def slash_miner_def
        burn_locked_def slash_amount_def pro_rata_def checked_mul_def checked_div_def
        checked_sub_def demo_eval sample_defs validate_shape_def ProofEnvelope_validate_def
        risc_zero_v1_def)
  then obtain s' where run: "process_proof 3 sample_submission 1000 250 50
      (MockVerifier_verify (expecting 99)) demo_state = (Inr (Rejected 10000000000), s')" by blast
  show ?thesis
    using mock_processing_outcomes [OF run] run
    by (auto simp: expecting_def sample_defs SubnetPolicy_qubitum_def MinerBondPolicy_qubitum_def)
qed

end
