(* ===== verification/Post_Quantum.thy ===== *)
theory Post_Quantum
  imports Protocol_Types
begin

text \<open>
  The signature migration policy of \<^verbatim>\<open>primitives/qubitum-protocol/src/post_quantum.rs\<close>:
  algorithm families, signature bundles and what each roadmap mode accepts.
\<close>

section \<open>Model\<close>

datatype SignatureAlgorithm =
  Ecdsa | Sr25519 | Ed25519 | Dilithium3 | Dilithium5 | Falcon512 | SphincsPlus

fun is_classical :: "SignatureAlgorithm \<Rightarrow> bool" where
  "is_classical Ecdsa = True"
| "is_classical Sr25519 = True"
| "is_classical Ed25519 = True"
| "is_classical _ = False"

fun is_post_quantum :: "SignatureAlgorithm \<Rightarrow> bool" where
  "is_post_quantum Dilithium3 = True"
| "is_post_quantum Dilithium5 = True"
| "is_post_quantum Falcon512 = True"
| "is_post_quantum SphincsPlus = True"
| "is_post_quantum _ = False"

fun is_dilithium :: "SignatureAlgorithm \<Rightarrow> bool" where
  "is_dilithium Dilithium3 = True"
| "is_dilithium Dilithium5 = True"
| "is_dilithium _ = False"

record SignatureCommitment =
  algorithm :: SignatureAlgorithm
  public_key_commitment :: Commitment
  signature_commitment :: Commitment

record SignatureBundle =
  classical :: "SignatureCommitment option"
  post_quantum :: "SignatureCommitment option"

record SignaturePolicy =
  sig_mode :: SignatureMode

definition SignaturePolicy_new :: "SignatureMode \<Rightarrow> SignaturePolicy" where
  "SignaturePolicy_new m = \<lparr>sig_mode = m\<rparr>"

definition ensure_well_formed_commitments :: "SignatureCommitment \<Rightarrow> ProtocolError + unit" where
  "ensure_well_formed_commitments sig =
     (if public_key_commitment sig = 0 \<or> signature_commitment sig = 0 then Inl MissingCommitment
      else if public_key_commitment sig = signature_commitment sig
           then Inl AmbiguousSignatureCommitment
      else Inr ())"

definition validate_classical :: "SignatureCommitment \<Rightarrow> ProtocolError + unit" where
  "validate_classical sig =
     bind_r (ensure_well_formed_commitments sig) (\<lambda>_.
     if is_classical (algorithm sig) then Inr () else Inl UnsupportedSignatureAlgorithm)"

definition validate_dilithium :: "SignatureCommitment \<Rightarrow> ProtocolError + unit" where
  "validate_dilithium sig =
     bind_r (ensure_well_formed_commitments sig) (\<lambda>_.
     if is_dilithium (algorithm sig) then Inr () else Inl UnsupportedSignatureAlgorithm)"

definition require_classical :: "SignatureCommitment option \<Rightarrow> ProtocolError + unit" where
  "require_classical sig = bind_r (ok_or_r sig MissingClassicalSignature) validate_classical"

definition require_dilithium :: "SignatureCommitment option \<Rightarrow> ProtocolError + unit" where
  "require_dilithium sig = bind_r (ok_or_r sig MissingPostQuantumSignature) validate_dilithium"

definition reject_classical :: "SignatureCommitment option \<Rightarrow> ProtocolError + unit" where
  "reject_classical sig = (if sig \<noteq> None then Inl ClassicalSignatureDisallowed else Inr ())"

definition validate_optional_dilithium :: "SignatureCommitment option \<Rightarrow> ProtocolError + unit" where
  "validate_optional_dilithium sig =
     (case sig of
        Some s \<Rightarrow> bind_r (validate_dilithium s) (\<lambda>_. Inr ())
      | None \<Rightarrow> Inr ())"

definition ensure_bundle_commitments_are_domain_separated ::
  "SignatureBundle \<Rightarrow> ProtocolError + unit" where
  "ensure_bundle_commitments_are_domain_separated bundle =
     (case (classical bundle, post_quantum bundle) of
        (Some c, Some q) \<Rightarrow>
          (let classical_commitments = [public_key_commitment c, signature_commitment c];
               post_quantum_commitments = [public_key_commitment q, signature_commitment q]
           in if list_ex (\<lambda>x. List.member post_quantum_commitments x) classical_commitments
              then Inl AmbiguousSignatureCommitment
              else Inr ())
      | _ \<Rightarrow> Inr ())"

definition SignaturePolicy_validate ::
  "SignaturePolicy \<Rightarrow> SignatureBundle \<Rightarrow> ProtocolError + SignatureBundle" where
  "SignaturePolicy_validate policy bundle =
     bind_r
       (case sig_mode policy of
          ClassicalEcdsa \<Rightarrow>
            bind_r (require_classical (classical bundle)) (\<lambda>_.
            validate_optional_dilithium (post_quantum bundle))
        | HybridDilithium \<Rightarrow>
            bind_r (require_classical (classical bundle)) (\<lambda>_.
            require_dilithium (post_quantum bundle))
        | FullPostQuantum \<Rightarrow>
            bind_r (reject_classical (classical bundle)) (\<lambda>_.
            require_dilithium (post_quantum bundle))) (\<lambda>_.
     bind_r (ensure_bundle_commitments_are_domain_separated bundle) (\<lambda>_.
     Inr bundle))"

section \<open>What is accepted\<close>

definition well_formed_signature :: "SignatureCommitment \<Rightarrow> bool" where
  "well_formed_signature sig \<longleftrightarrow>
     public_key_commitment sig \<noteq> 0 \<and> signature_commitment sig \<noteq> 0 \<and>
     public_key_commitment sig \<noteq> signature_commitment sig"

text \<open>The commitments a bundle carries, in order.\<close>

definition bundle_commitments :: "SignatureBundle \<Rightarrow> Commitment list" where
  "bundle_commitments bundle =
     concat (map (\<lambda>s. case s of None \<Rightarrow> []
                        | Some x \<Rightarrow> [public_key_commitment x, signature_commitment x])
               [classical bundle, post_quantum bundle])"

lemma ensure_well_formed_commitments_ok [ok_simps]:
  "ensure_well_formed_commitments sig = Inr u \<longleftrightarrow> well_formed_signature sig"
  by (simp add: ensure_well_formed_commitments_def well_formed_signature_def)

lemma validate_classical_ok [ok_simps]:
  "validate_classical sig = Inr u \<longleftrightarrow> well_formed_signature sig \<and> is_classical (algorithm sig)"
  by (simp add: validate_classical_def ok_simps)

lemma validate_dilithium_ok [ok_simps]:
  "validate_dilithium sig = Inr u \<longleftrightarrow> well_formed_signature sig \<and> is_dilithium (algorithm sig)"
  by (simp add: validate_dilithium_def ok_simps)

lemma require_classical_ok [ok_simps]:
  "require_classical sig = Inr u \<longleftrightarrow>
     (\<exists>x. sig = Some x \<and> well_formed_signature x \<and> is_classical (algorithm x))"
  by (auto simp: require_classical_def ok_simps)

lemma require_dilithium_ok [ok_simps]:
  "require_dilithium sig = Inr u \<longleftrightarrow>
     (\<exists>x. sig = Some x \<and> well_formed_signature x \<and> is_dilithium (algorithm x))"
  by (auto simp: require_dilithium_def ok_simps)

lemma reject_classical_ok [ok_simps]: "reject_classical sig = Inr u \<longleftrightarrow> sig = None"
  by (simp add: reject_classical_def)

lemma validate_optional_dilithium_ok [ok_simps]:
  "validate_optional_dilithium sig = Inr u \<longleftrightarrow>
     (\<forall>x. sig = Some x \<longrightarrow> well_formed_signature x \<and> is_dilithium (algorithm x))"
  by (auto simp: validate_optional_dilithium_def ok_simps split: option.splits)

lemma domain_separated_ok [ok_simps]:
  "ensure_bundle_commitments_are_domain_separated bundle = Inr u \<longleftrightarrow>
     (\<forall>c q. classical bundle = Some c \<longrightarrow> post_quantum bundle = Some q \<longrightarrow>
        {public_key_commitment c, signature_commitment c} \<inter>
        {public_key_commitment q, signature_commitment q} = {})"
  by (auto simp: ensure_bundle_commitments_are_domain_separated_def Let_def split: option.splits)

lemma SignaturePolicy_validate_ok:
  "SignaturePolicy_validate policy bundle = Inr b \<longleftrightarrow>
     b = bundle \<and> is_ok (ensure_bundle_commitments_are_domain_separated bundle) \<and>
     (case sig_mode policy of
        ClassicalEcdsa \<Rightarrow> is_ok (require_classical (classical bundle)) \<and>
          is_ok (validate_optional_dilithium (post_quantum bundle))
      | HybridDilithium \<Rightarrow> is_ok (require_classical (classical bundle)) \<and>
          is_ok (require_dilithium (post_quantum bundle))
      | FullPostQuantum \<Rightarrow> classical bundle = None \<and>
          is_ok (require_dilithium (post_quantum bundle)))"
  by (auto simp: SignaturePolicy_validate_def is_ok_iff ok_simps split: SignatureMode.splits)

lemmas accepted_simps =
  SignaturePolicy_validate_ok SignaturePolicy_new_def is_ok_iff ok_simps well_formed_signature_def

section \<open>Properties\<close>

text \<open>
  Under every roadmap mode, the commitments of an accepted signature bundle are non-zero and
  pairwise distinct, so that no public key or signature commitment can stand in for another.
\<close>

theorem accepted_bundle_commitments_distinct:
  assumes "SignaturePolicy_validate (SignaturePolicy_new m) bundle = Inr b"
  shows "distinct (bundle_commitments bundle) \<and> 0 \<notin> set (bundle_commitments bundle)"
  using assms
  by (cases "classical bundle"; cases "post_quantum bundle"; cases m)
    (auto simp: accepted_simps bundle_commitments_def)

text \<open>A dual bundle that the hybrid mode accepts, used by the witnesses below.\<close>

definition sample_dual_bundle :: SignatureBundle where
  "sample_dual_bundle = \<lparr>
     classical = Some \<lparr>algorithm = Ecdsa, public_key_commitment = 1, signature_commitment = 2\<rparr>,
     post_quantum = Some \<lparr>algorithm = Dilithium3, public_key_commitment = 3,
       signature_commitment = 4\<rparr>\<rparr>"

lemma sample_dual_bundle_accepted:
  "SignaturePolicy_validate (SignaturePolicy_new HybridDilithium) sample_dual_bundle =
     Inr sample_dual_bundle"
  by (simp add: accepted_simps sample_dual_bundle_def)

theorem accepted_bundle_commitments_distinct_witness:
  "distinct (bundle_commitments sample_dual_bundle) \<and>
   length (bundle_commitments sample_dual_bundle) = 4"
  using accepted_bundle_commitments_distinct [OF sample_dual_bundle_accepted]
  by (simp add: bundle_commitments_def sample_dual_bundle_def)

text \<open>
  The migration is staged: the hybrid mode accepts only bundles the classical mode also
  accepts, while the full post-quantum mode accepts no bundle that an earlier mode accepts, and
  whatever it accepts is a well-formed Dilithium commitment without a classical signature.
\<close>

theorem signature_mode_migration:
  "(is_ok (SignaturePolicy_validate (SignaturePolicy_new HybridDilithium) bundle) \<longrightarrow>
      is_ok (SignaturePolicy_validate (SignaturePolicy_new ClassicalEcdsa) bundle)) \<and>
   (is_ok (SignaturePolicy_validate (SignaturePolicy_new FullPostQuantum) bundle) \<longrightarrow>
      \<not> is_ok (SignaturePolicy_validate (SignaturePolicy_new ClassicalEcdsa) bundle) \<and>
      \<not> is_ok (SignaturePolicy_validate (SignaturePolicy_new HybridDilithium) bundle) \<and>
      classical bundle = None \<and>
      (\<exists>q. post_quantum bundle = Some q \<and> is_dilithium (algorithm q) \<and> well_formed_signature q))"
  by (auto simp: accepted_simps)

theorem signature_mode_migration_witness:
  "is_ok (SignaturePolicy_validate (SignaturePolicy_new HybridDilithium) sample_dual_bundle) \<and>
   is_ok (SignaturePolicy_validate (SignaturePolicy_new ClassicalEcdsa) sample_dual_bundle) \<and>
   is_ok (SignaturePolicy_validate (SignaturePolicy_new FullPostQuantum)
     (sample_dual_bundle\<lparr>classical := None\<rparr>)) \<and>
   \<not> is_ok (SignaturePolicy_validate (SignaturePolicy_new ClassicalEcdsa)
     (sample_dual_bundle\<lparr>classical := None\<rparr>))"
proof -
  have "is_ok (SignaturePolicy_validate (SignaturePolicy_new FullPostQuantum)
      (sample_dual_bundle\<lparr>classical := None\<rparr>))"
    by (simp add: accepted_simps sample_dual_bundle_def)
  then show ?thesis
    using signature_mode_migration [of sample_dual_bundle]
      signature_mode_migration [of "sample_dual_bundle\<lparr>classical := None\<rparr>"]
      sample_dual_bundle_accepted
    by simp
qed

end
