(* ===== verification/Pallet_Types.thy ===== *)
theory Pallet_Types
  imports Post_Quantum
begin

text \<open>
  Data, storage and configuration of the chain pallet, \<^verbatim>\<open>pallets/qubitum/src/lib.rs\<close>.

  Three things the pallet uses are not part of the repository and are parameters, fields of the
  \<open>Config\<close> record: the digest \<open>blake2_256\<close> over SCALE encodings, the fungible currency with its
  holds (\<open>Currency\<close>), and the origin check of the shield pallet.  The digest takes a value of
  \<open>preimage\<close>, which has one constructor for each tuple the pallet hashes.  Associated constants
  of the \<open>Config\<close> trait are fields with the names the source gives them.
\<close>

section \<open>Errors, events, origins\<close>

datatype PalletError =
    Error_ArithmeticOverflow | Error_UnknownSubnet | Error_UnknownMiner | Error_UnknownValidator
  | Error_ProofSystemMismatch | Error_UnsupportedProofSystem | Error_InvalidBond
  | Error_InvalidStake | Error_NotActive | Error_InvalidMinerStatus | Error_MinerExitUnavailable
  | Error_NotOperator | Error_InvalidValidatorStatus | Error_ValidatorExitUnavailable
  | Error_NotValidatorOperator | Error_MissingCommitment | Error_ModelCommitmentMismatch
  | Error_DuplicateProof | Error_DuplicateRequest | Error_InvalidRequestId | Error_UnknownRequest
  | Error_RequestAlreadySettled | Error_RequestCancelUnavailable | Error_NotRequestOwner
  | Error_RequestMismatch | Error_ParticipantMismatch | Error_SelfValidation
  | Error_NoRouteAvailable | Error_AssignmentMismatch | Error_PendingAssignedRequests
  | Error_PendingAssignmentUnderflow | Error_RequestStatusCounterUnderflow
  | Error_TooManyActiveMiners | Error_TooManyActiveValidators | Error_InvalidPayment
  | Error_InvalidFeeSplit | Error_RouteAssignmentMustBeHidden
  | Error_UnsupportedCommittedRequestPayload | Error_InvalidProofSize | Error_LatencyExceeded
  | Error_ProofSubmittedFromFuture | Error_ProofSubmissionExpired | Error_ProofTranscriptMismatch
  | Error_ChallengeProofValid | Error_InvalidSlashPercent | Error_InvalidSignatureBundle
  | Error_MissingSignatureBundle | Error_MissingCapitalRecord | Error_VerifierError
  | Error_PublicCallPayloadDisallowed

text \<open>Errors of the currency are its own; the pallet only passes them on.\<close>

datatype DispatchError =
  ModuleError PalletError | OtherError string | BadOrigin | CurrencyError nat

datatype PalletEvent =
    PrivateActivity | SubnetCreated | MinerRegistered | MinerActivated | MinerExitStarted
  | MinerBondWithdrawn | ValidatorRegistered | ValidatorExitStarted | ValidatorStakeWithdrawn
  | MinerIdentityCommitmentsUpdated | ValidatorIdentityCommitmentsUpdated | InferenceRequested
  | ProofAccepted | ProofChallengeAccepted | InferenceSettled | InferenceCancelled
  | InferenceRefunded | InferenceExpired | ProofRejected | MinerSlashed | ValidatorSlashed

text \<open>The origins that the dispatchables distinguish: FRAME's system origins and the origin with
  which the shield pallet dispatches decrypted payloads.\<close>

datatype RuntimeOrigin =
  RootOrigin | SignedOrigin AccountId | UnsignedOrigin | ShieldedPayload AccountId

section \<open>Proof and identity verifiers\<close>

record ProofVerificationPolicy =
  pv_proof_system :: ProofSystem
  pv_model_commitment :: Commitment
  pv_min_proof_size_bytes :: nat
  pv_max_proof_size_bytes :: nat
  pv_max_verification_latency_ms :: nat

record IdentitySignatureVerificationPolicy =
  iv_signature_mode :: SignatureMode
  iv_challenge :: Commitment

datatype ProofVerifierMode = ProofFailClosed | ShapeOnly | ProductionZk | ProofTestOnly

datatype IdentitySignatureVerifierMode =
  IdentityFailClosed | CommitmentBindingOnly | ProductionCrypto | IdentityTestOnly

definition production_crypto_verification :: "IdentitySignatureVerifierMode \<Rightarrow> bool" where
  "production_crypto_verification mode = (mode = ProductionCrypto)"

definition identity_signature_verification_mode :: "IdentitySignatureVerifierMode \<Rightarrow> bool" where
  "identity_signature_verification_mode mode = production_crypto_verification mode"

definition proof_settlement_enabled_mode :: "ProofVerifierMode \<Rightarrow> bool" where
  "proof_settlement_enabled_mode mode = (mode \<noteq> ProofFailClosed)"

definition production_zk_verifier_mode :: "ProofVerifierMode \<Rightarrow> bool" where
  "production_zk_verifier_mode mode = (mode = ProductionZk)"

type_synonym VerifyProof =
  "InferenceProofSubmission \<Rightarrow> ProofVerificationPolicy \<Rightarrow> DispatchError + VerificationOutcome"

type_synonym VerifyIdentitySignature =
  "SignatureCommitment \<Rightarrow> IdentitySignatureVerificationPolicy \<Rightarrow> bool"

definition FailClosedIdentitySignatureVerifier_verify :: VerifyIdentitySignature where
  "FailClosedIdentitySignatureVerifier_verify sig policy = False"

definition FailClosedProofVerifier_verify :: VerifyProof where
  "FailClosedProofVerifier_verify sub policy = Inr VerificationFailure"

datatype ShapeVerifierError =
    Shape_MissingCommitment | Shape_ProofSystemMismatch | Shape_ModelCommitmentMismatch
  | Shape_InvalidProofSize | Shape_LatencyExceeded

fun shape_error_into :: "ShapeVerifierError \<Rightarrow> DispatchError" where
  "shape_error_into Shape_MissingCommitment = OtherError ''MissingCommitment''"
| "shape_error_into Shape_ProofSystemMismatch = OtherError ''ProofSystemMismatch''"
| "shape_error_into Shape_ModelCommitmentMismatch = OtherError ''ModelCommitmentMismatch''"
| "shape_error_into Shape_InvalidProofSize = OtherError ''InvalidProofSize''"
| "shape_error_into Shape_LatencyExceeded = OtherError ''LatencyExceeded''"

definition ShapeProofVerifier_verify :: VerifyProof where
  "ShapeProofVerifier_verify sub policy =
     (let need = \<lambda>b e. ensure_r b (shape_error_into e) in
     bind_r (need (input_commitment sub \<noteq> 0) Shape_MissingCommitment) (\<lambda>_.
     bind_r (need (output_commitment sub \<noteq> 0) Shape_MissingCommitment) (\<lambda>_.
     bind_r (need (model_commitment sub \<noteq> 0) Shape_MissingCommitment) (\<lambda>_.
     bind_r (need (proof_commitment (envelope sub) \<noteq> 0) Shape_MissingCommitment) (\<lambda>_.
     bind_r (need (journal_commitment (envelope sub) \<noteq> 0) Shape_MissingCommitment) (\<lambda>_.
     bind_r (need (image_id (envelope sub) \<noteq> 0) Shape_MissingCommitment) (\<lambda>_.
     bind_r (need (supports (verifier_version (envelope sub)) (proof_system sub))
       Shape_ProofSystemMismatch) (\<lambda>_.
     bind_r (need (proof_system sub = pv_proof_system policy) Shape_ProofSystemMismatch) (\<lambda>_.
     bind_r (need (model_commitment sub = pv_model_commitment policy)
       Shape_ModelCommitmentMismatch) (\<lambda>_.
     bind_r (need (pv_min_proof_size_bytes policy \<le> proof_size_bytes sub
                   \<and> proof_size_bytes sub \<le> pv_max_proof_size_bytes policy)
       Shape_InvalidProofSize) (\<lambda>_.
     bind_r (need (verification_latency_ms sub \<le> pv_max_verification_latency_ms policy)
       Shape_LatencyExceeded) (\<lambda>_.
     Inr Valid))))))))))))"

section \<open>Registry, request and proof records\<close>

datatype HoldReason = MinerBond | ValidatorStake | InferencePayment

datatype InferenceRequestStatus =
  Request_Pending | Request_Settled | Request_Cancelled | Request_Rejected | Request_Expired

record ChainSubnet =
  cs_id :: SubnetId
  cs_owner_commitment :: Commitment
  cs_domain :: SubnetDomain
  cs_proof_system :: ProofSystem
  cs_policy_commitment :: Commitment
  cs_active :: bool

record ChainMiner =
  cm_id :: MinerId
  cm_operator_commitment :: Commitment
  cm_subnet_id :: SubnetId
  cm_model_commitment :: Commitment
  cm_proof_system :: ProofSystem
  cm_bond_commitment :: Commitment
  cm_status :: RegistryStatus

record ChainValidator =
  cv_id :: ValidatorId
  cv_operator_commitment :: Commitment
  cv_subnet_id :: SubnetId
  cv_stake_commitment :: Commitment
  cv_status :: RegistryStatus

record ChainIdentityCommitments =
  shielded_identity_commitment :: "Commitment option"
  endpoint_commitment :: "Commitment option"

record ChainProofRecord =
  cp_request_id :: RequestId
  cp_subnet_id :: SubnetId
  cp_assignment_commitment :: Commitment
  cp_audit_commitment :: Commitment
  cp_proof_system :: ProofSystem

record ChainInferenceRequest =
  cr_request_id :: RequestId
  cr_user_commitment :: Commitment
  cr_subnet_id :: SubnetId
  cr_assignment_commitment :: Commitment
  cr_input_commitment :: Commitment
  cr_terms_commitment :: Commitment
  cr_timing_commitment :: Commitment
  cr_status :: InferenceRequestStatus

record ChainAssignment =
  as_request_id :: RequestId
  as_subnet_id :: SubnetId
  as_miner_id :: MinerId
  as_validator_id :: ValidatorId

record ChainRequestStatusCounts =
  count_pending :: nat
  count_settled :: nat
  count_cancelled :: nat
  count_rejected :: nat
  count_expired :: nat

section \<open>Call parameters\<close>

record InferenceRequestParams =
  rp_subnet_id :: SubnetId
  rp_miner_id :: MinerId
  rp_validator_id :: ValidatorId
  rp_input_commitment :: Commitment
  rp_assignment_blinding :: Commitment
  rp_timing_blinding :: Commitment
  rp_terms_blinding :: Commitment
  rp_payment :: Balance
  rp_validator_fee_bps :: nat
  rp_treasury_fee_bps :: nat

record AutoRouteInferenceRequestParams =
  ap_subnet_id :: SubnetId
  ap_input_commitment :: Commitment
  ap_assignment_blinding :: Commitment
  ap_timing_blinding :: Commitment
  ap_terms_blinding :: Commitment
  ap_payment :: Balance
  ap_validator_fee_bps :: nat
  ap_treasury_fee_bps :: nat

record InferenceRequestCommitmentParams =
  kp_subnet_id :: SubnetId
  kp_input_commitment :: Commitment
  kp_assignment_commitment :: Commitment
  kp_created_at :: BlockNumber
  kp_timing_commitment :: Commitment
  kp_terms_commitment :: Commitment
  kp_payment :: Balance
  kp_validator_fee_bps :: nat
  kp_treasury_fee_bps :: nat

record InferenceRequestTerms =
  payment :: Balance
  validator_fee_bps :: nat
  treasury_fee_bps :: nat

record InferenceRequestTermsWitness =
  terms :: InferenceRequestTerms
  terms_blinding :: Commitment

record InferenceRequestTimingWitness =
  created_at :: BlockNumber
  timing_blinding :: Commitment

section \<open>Digest preimages\<close>

text \<open>One constructor per tuple that is SCALE-encoded and hashed; a string argument is the domain
  separation tag of the tuple.\<close>

datatype preimage =
    AccountPre AccountId
  | RolePre string AccountId
  | CapitalPre string nat Commitment RegistryStatus
  | ChallengePre string nat Commitment "Commitment option" "Commitment option" SignatureMode
  | BindingPre string Commitment SignatureAlgorithm Commitment SignatureMode
  | SubnetPolicyPre SubnetId SubnetDomain ProofSystem Balance Balance Balance Balance Balance nat nat
  | AssignmentPre string RequestId SubnetId MinerId ValidatorId Commitment
  | LegacyAssignmentPre RequestId SubnetId MinerId ValidatorId
  | TimingPre string RequestId BlockNumber Commitment
  | LegacyTimingPre RequestId BlockNumber
  | TermsPre string RequestId Balance nat nat Commitment
  | LegacyTermsPre RequestId Balance nat nat
  | AuditPre RequestId SubnetId Commitment Commitment Commitment Commitment ProofEnvelope
      ProofSystem nat nat BlockNumber BlockNumber
  | TranscriptPre RequestId SubnetId MinerId ValidatorId Commitment Commitment Commitment
      ProofSystem Commitment Commitment ProofVerifierVersion nat nat BlockNumber
  | RouteSeedPre string RequestId SubnetId Commitment

section \<open>Currency, configuration and storage\<close>

text \<open>The fungible traits as the pallet calls them, with the precision, preservation and fortitude
  it passes fixed (\<open>Exact\<close>, \<open>Expendable\<close>, \<open>Polite\<close> or \<open>Force\<close> for slashes).\<close>

record 'cur FungibleHold =
  balance_on_hold :: "HoldReason \<Rightarrow> AccountId \<Rightarrow> 'cur \<Rightarrow> Balance"
  cur_hold :: "HoldReason \<Rightarrow> AccountId \<Rightarrow> Balance \<Rightarrow> ('cur, DispatchError, unit) action"
  cur_release :: "HoldReason \<Rightarrow> AccountId \<Rightarrow> Balance \<Rightarrow> ('cur, DispatchError, Balance) action"
  cur_transfer_on_hold ::
    "HoldReason \<Rightarrow> AccountId \<Rightarrow> AccountId \<Rightarrow> Balance \<Rightarrow> ('cur, DispatchError, Balance) action"
  cur_burn_held :: "HoldReason \<Rightarrow> AccountId \<Rightarrow> Balance \<Rightarrow> ('cur, DispatchError, Balance) action"
  cur_burn_from :: "AccountId \<Rightarrow> Balance \<Rightarrow> ('cur, DispatchError, Balance) action"

record 'cur Config =
  Currency :: "'cur FungibleHold"
  SubnetCreationBurn :: Balance
  MinerRegistrationBurn :: Balance
  MinMinerBond :: Balance
  MaxMinerBond :: Balance
  MaxActiveMinersPerSubnet :: nat
  MaxActiveValidatorsPerSubnet :: nat
  MinValidatorStake :: Balance
  MinInvalidProofSlashBps :: nat
  MaxInvalidProofSlashBps :: nat
  MinProofSizeBytes :: nat
  MaxProofSizeBytes :: nat
  MaxVerificationLatencyMs :: nat
  MaxProofSubmissionAgeBlocks :: BlockNumber
  Config_SignatureMode :: SignatureMode
  IdentitySignatureVerifier_mode :: IdentitySignatureVerifierMode
  IdentitySignatureVerifier_verify :: VerifyIdentitySignature
  ShieldedCallPayloads :: bool
  ShieldedCallPayloadExecution :: bool
  PrivateEventMetadata :: bool
  ShieldedOrigin_try_origin :: "RuntimeOrigin \<Rightarrow> AccountId option"
  ProofVerifier_mode :: ProofVerifierMode
  ProofVerifier_verify :: VerifyProof
  ProtocolTreasury :: AccountId
  MinerExitCooldownBlocks :: BlockNumber
  ValidatorExitCooldownBlocks :: BlockNumber
  RequestCancelDelayBlocks :: BlockNumber
  blake2_256 :: "preimage \<Rightarrow> Commitment"

text \<open>A \<open>ValueQuery\<close> counter map keeps absent and zero apart, as \<open>try_mutate_exists\<close> does.  The
  last three fields are the system's: block number, event log and currency state.\<close>

record 'cur Storage =
  SubnetCount :: SubnetId
  MinerCount :: MinerId
  ValidatorCount :: ValidatorId
  Subnets :: "SubnetId \<rightharpoonup> ChainSubnet"
  Miners :: "MinerId \<rightharpoonup> ChainMiner"
  Validators :: "ValidatorId \<rightharpoonup> ChainValidator"
  MinerIdentityCommitments :: "MinerId \<rightharpoonup> ChainIdentityCommitments"
  MinerIdentitySignatureBundles :: "MinerId \<rightharpoonup> SignatureBundle"
  MinerIdentitySignatureChallenges :: "MinerId \<rightharpoonup> Commitment"
  ValidatorIdentityCommitments :: "ValidatorId \<rightharpoonup> ChainIdentityCommitments"
  ValidatorIdentitySignatureBundles :: "ValidatorId \<rightharpoonup> SignatureBundle"
  ValidatorIdentitySignatureChallenges :: "ValidatorId \<rightharpoonup> Commitment"
  ProofRecords :: "RequestId \<rightharpoonup> ChainProofRecord"
  InferenceRequests :: "RequestId \<rightharpoonup> ChainInferenceRequest"
  RequestCount :: RequestId
  ActiveMinersBySubnet :: "SubnetId \<Rightarrow> MinerId list"
  ActiveValidatorsBySubnet :: "SubnetId \<Rightarrow> ValidatorId list"
  MinerLockedBond :: "MinerId \<rightharpoonup> Balance"
  ValidatorLockedStake :: "ValidatorId \<rightharpoonup> Balance"
  PendingMinerRequests :: "MinerId \<rightharpoonup> RequestId"
  PendingValidatorRequests :: "ValidatorId \<rightharpoonup> RequestId"
  PendingInferenceRequestCount :: RequestId
  SettledInferenceRequestCount :: RequestId
  CancelledInferenceRequestCount :: RequestId
  RejectedInferenceRequestCount :: RequestId
  ExpiredInferenceRequestCount :: RequestId
  TotalBurned :: Balance
  TotalInferenceEscrowed :: Balance
  TotalMinerPayouts :: Balance
  TotalValidatorFees :: Balance
  TotalTreasuryFees :: Balance
  TotalInferenceRefunded :: Balance
  LegacyAccountingMigrationFailures :: nat
  LegacyRoutingIndexMigrationFailures :: nat
  LegacyCapitalRecordMigrationFailures :: nat
  block_number :: BlockNumber
  events :: "PalletEvent list"
  currency :: 'cur

type_synonym ('cur, 'a) pallet = "('cur Storage, DispatchError, 'a) action"

abbreviation err :: "PalletError \<Rightarrow> DispatchError" where
  "err \<equiv> ModuleError"

definition pending_of :: "(nat \<rightharpoonup> RequestId) \<Rightarrow> nat \<Rightarrow> RequestId" where
  "pending_of m i = (case m i of None \<Rightarrow> 0 | Some n \<Rightarrow> n)"

text \<open>Running a currency operation on the currency state inside the storage.\<close>

definition with_currency :: "('cur, DispatchError, 'a) action \<Rightarrow> ('cur, 'a) pallet" where
  "with_currency m = (\<lambda>s. let (r, c) = m (currency s) in (r, s\<lparr>currency := c\<rparr>))"

text \<open>Balances of the runtime are 64 bits wide.\<close>

definition balance_bits :: nat where [simp]: "balance_bits = 64"

end
