(* ===== verification/Pallet_Commitments.thy ===== *)
theory Pallet_Commitments
  imports Pallet_Types
begin

text \<open>
  Commitments of the pallet and the checks that open them: accounts and roles, capital state,
  identity challenges, request assignment, timing and terms, proof audit and transcript, and the
  signature bundles of participants.  Checks that read no storage are plain results.
\<close>

section \<open>Origin, events and small guards\<close>

definition deposit_event :: "PalletEvent \<Rightarrow> ('cur, unit) pallet" where
  "deposit_event ev = modify (\<lambda>s. s\<lparr>events := events s @ [ev]\<rparr>)"

fun deposit_each :: "PalletEvent list \<Rightarrow> ('cur, unit) pallet" where
  "deposit_each [] = ret ()"
| "deposit_each (ev # evs) = and_then (deposit_event ev) (\<lambda>_. deposit_each evs)"

definition deposit_activity_events :: "'cur Config \<Rightarrow> PalletEvent list \<Rightarrow> ('cur, unit) pallet" where
  "deposit_activity_events cfg evs =
     (if PrivateEventMetadata cfg then deposit_event PrivateActivity else deposit_each evs)"

definition deposit_activity_event :: "'cur Config \<Rightarrow> PalletEvent \<Rightarrow> ('cur, unit) pallet" where
  "deposit_activity_event cfg ev = deposit_activity_events cfg [ev]"

text \<open>FRAME's \<open>ensure_signed\<close> and \<open>ensure_root\<close>.\<close>

definition ensure_signed :: "RuntimeOrigin \<Rightarrow> DispatchError + AccountId" where
  "ensure_signed origin = (case origin of SignedOrigin who \<Rightarrow> Inr who | _ \<Rightarrow> Inl BadOrigin)"

definition ensure_root :: "RuntimeOrigin \<Rightarrow> DispatchError + unit" where
  "ensure_root origin = (if origin = RootOrigin then Inr () else Inl BadOrigin)"

definition ensure_payload_signer :: "'cur Config \<Rightarrow> RuntimeOrigin \<Rightarrow> DispatchError + AccountId" where
  "ensure_payload_signer cfg origin =
     (if ShieldedCallPayloads cfg
      then ok_or_r (ShieldedOrigin_try_origin cfg origin) (err Error_PublicCallPayloadDisallowed)
      else ensure_signed origin)"

definition ensure_public_call_payload_allowed :: "'cur Config \<Rightarrow> DispatchError + unit" where
  "ensure_public_call_payload_allowed cfg =
     ensure_r (\<not> ShieldedCallPayloads cfg) (err Error_PublicCallPayloadDisallowed)"

text \<open>The free functions at the end of the file.\<close>

definition ensure_commitment_d :: "Commitment \<Rightarrow> DispatchError + unit" where
  "ensure_commitment_d commitment = ensure_r (commitment \<noteq> 0) (err Error_MissingCommitment)"

definition ensure_proof_envelope :: "ProofEnvelope \<Rightarrow> ProofSystem \<Rightarrow> DispatchError + unit" where
  "ensure_proof_envelope env system =
     bind_r (ensure_commitment_d (proof_commitment env)) (\<lambda>_.
     bind_r (ensure_commitment_d (journal_commitment env)) (\<lambda>_.
     bind_r (ensure_commitment_d (image_id env)) (\<lambda>_.
     ensure_r (supports (verifier_version env) system) (err Error_ProofSystemMismatch))))"

definition pro_rata_d :: "Balance \<Rightarrow> nat \<Rightarrow> DispatchError + Balance" where
  "pro_rata_d amount bps =
     ok_or_r (case checked_mul balance_bits amount bps of
                None \<Rightarrow> None
              | Some value \<Rightarrow> checked_div value BPS_DENOMINATOR)
       (err Error_ArithmeticOverflow)"

definition ensure_optional_commitment :: "Commitment option \<Rightarrow> DispatchError + unit" where
  "ensure_optional_commitment commitment =
     (case commitment of Some c \<Rightarrow> ensure_commitment_d c | None \<Rightarrow> Inr ())"

definition ensure_supported_proof_system :: "ProofSystem \<Rightarrow> DispatchError + unit" where
  "ensure_supported_proof_system system =
     ensure_r (case system of RiscZeroStark \<Rightarrow> True | Stark \<Rightarrow> True | _ \<Rightarrow> False)
       (err Error_UnsupportedProofSystem)"

section \<open>Account and capital commitments\<close>

definition account_commitment :: "'cur Config \<Rightarrow> AccountId \<Rightarrow> Commitment" where
  "account_commitment cfg who = blake2_256 cfg (AccountPre who)"

definition role_account_commitment :: "'cur Config \<Rightarrow> string \<Rightarrow> AccountId \<Rightarrow> Commitment" where
  "role_account_commitment cfg domain who = blake2_256 cfg (RolePre domain who)"

definition subnet_owner_commitment :: "'cur Config \<Rightarrow> AccountId \<Rightarrow> Commitment" where
  "subnet_owner_commitment cfg who = role_account_commitment cfg ''qubitum.subnet.owner.v1'' who"

definition operator_commitment :: "'cur Config \<Rightarrow> AccountId \<Rightarrow> Commitment" where
  "operator_commitment cfg who = role_account_commitment cfg ''qubitum.operator.v1'' who"

definition request_user_commitment :: "'cur Config \<Rightarrow> AccountId \<Rightarrow> Commitment" where
  "request_user_commitment cfg who = role_account_commitment cfg ''qubitum.request.user.v1'' who"

definition participant_capital_commitment ::
  "'cur Config \<Rightarrow> string \<Rightarrow> nat \<Rightarrow> Commitment \<Rightarrow> RegistryStatus \<Rightarrow> Commitment" where
  "participant_capital_commitment cfg domain pid opc status =
     blake2_256 cfg (CapitalPre domain pid opc status)"

definition miner_bond_commitment ::
  "'cur Config \<Rightarrow> MinerId \<Rightarrow> Commitment \<Rightarrow> RegistryStatus \<Rightarrow> Commitment" where
  "miner_bond_commitment cfg mid opc status =
     participant_capital_commitment cfg ''qubitum.miner.bond.state.v1'' mid opc status"

definition validator_stake_commitment ::
  "'cur Config \<Rightarrow> ValidatorId \<Rightarrow> Commitment \<Rightarrow> RegistryStatus \<Rightarrow> Commitment" where
  "validator_stake_commitment cfg vid opc status =
     participant_capital_commitment cfg ''qubitum.validator.stake.state.v1'' vid opc status"

definition subnet_policy_commitment ::
  "'cur Config \<Rightarrow> SubnetId \<Rightarrow> SubnetDomain \<Rightarrow> ProofSystem \<Rightarrow> Commitment" where
  "subnet_policy_commitment cfg sid domain system =
     blake2_256 cfg (SubnetPolicyPre sid domain system (SubnetCreationBurn cfg)
       (MinerRegistrationBurn cfg) (MinMinerBond cfg) (MaxMinerBond cfg) (MinValidatorStake cfg)
       (MaxActiveMinersPerSubnet cfg) (MaxActiveValidatorsPerSubnet cfg))"

definition operator_commitment_matches :: "'cur Config \<Rightarrow> Commitment \<Rightarrow> AccountId \<Rightarrow> bool" where
  "operator_commitment_matches cfg stored operator =
     (stored = operator_commitment cfg operator \<or> stored = account_commitment cfg operator)"

definition ensure_miner_operator ::
  "'cur Config \<Rightarrow> ChainMiner \<Rightarrow> AccountId \<Rightarrow> DispatchError + unit" where
  "ensure_miner_operator cfg miner operator =
     ensure_r (operator_commitment_matches cfg (cm_operator_commitment miner) operator)
       (err Error_NotOperator)"

definition ensure_validator_operator ::
  "'cur Config \<Rightarrow> ChainValidator \<Rightarrow> AccountId \<Rightarrow> DispatchError + unit" where
  "ensure_validator_operator cfg validator operator =
     ensure_r (operator_commitment_matches cfg (cv_operator_commitment validator) operator)
       (err Error_NotOperator)"

definition ensure_validator_submission_operator ::
  "'cur Config \<Rightarrow> ChainValidator \<Rightarrow> AccountId \<Rightarrow> DispatchError + unit" where
  "ensure_validator_submission_operator cfg validator operator =
     ensure_r (operator_commitment_matches cfg (cv_operator_commitment validator) operator)
       (err Error_NotValidatorOperator)"

definition request_user_commitment_matches :: "'cur Config \<Rightarrow> Commitment \<Rightarrow> AccountId \<Rightarrow> bool" where
  "request_user_commitment_matches cfg stored user =
     (stored = request_user_commitment cfg user \<or> stored = account_commitment cfg user)"

definition ensure_request_user ::
  "'cur Config \<Rightarrow> ChainInferenceRequest \<Rightarrow> AccountId \<Rightarrow> DispatchError + unit" where
  "ensure_request_user cfg request user =
     ensure_r (request_user_commitment_matches cfg (cr_user_commitment request) user)
       (err Error_NotRequestOwner)"

definition ensure_distinct_operators :: "ChainMiner \<Rightarrow> ChainValidator \<Rightarrow> DispatchError + unit" where
  "ensure_distinct_operators miner validator =
     ensure_r (cm_operator_commitment miner \<noteq> cv_operator_commitment validator)
       (err Error_SelfValidation)"

section \<open>Request commitments and their witnesses\<close>

definition LEGACY_ASSIGNMENT_BLINDING :: Commitment where "LEGACY_ASSIGNMENT_BLINDING = 0"
definition LEGACY_TIMING_BLINDING :: Commitment where "LEGACY_TIMING_BLINDING = 0"
definition LEGACY_TERMS_BLINDING :: Commitment where "LEGACY_TERMS_BLINDING = 0"

definition request_assignment_commitment ::
  "'cur Config \<Rightarrow> RequestId \<Rightarrow> SubnetId \<Rightarrow> MinerId \<Rightarrow> ValidatorId \<Rightarrow> Commitment \<Rightarrow> Commitment" where
  "request_assignment_commitment cfg rid sid mid vid blinding =
     blake2_256 cfg (AssignmentPre ''qubitum.request.assignment.v1'' rid sid mid vid blinding)"

definition legacy_request_assignment_commitment ::
  "'cur Config \<Rightarrow> RequestId \<Rightarrow> SubnetId \<Rightarrow> MinerId \<Rightarrow> ValidatorId \<Rightarrow> Commitment" where
  "legacy_request_assignment_commitment cfg rid sid mid vid =
     blake2_256 cfg (LegacyAssignmentPre rid sid mid vid)"

definition request_timing_commitment ::
  "'cur Config \<Rightarrow> RequestId \<Rightarrow> BlockNumber \<Rightarrow> Commitment \<Rightarrow> Commitment" where
  "request_timing_commitment cfg rid created blinding =
     blake2_256 cfg (TimingPre ''qubitum.request.timing.v1'' rid created blinding)"

definition legacy_request_timing_commitment ::
  "'cur Config \<Rightarrow> RequestId \<Rightarrow> BlockNumber \<Rightarrow> Commitment" where
  "legacy_request_timing_commitment cfg rid created = blake2_256 cfg (LegacyTimingPre rid created)"

definition request_terms_commitment ::
  "'cur Config \<Rightarrow> RequestId \<Rightarrow> Balance \<Rightarrow> nat \<Rightarrow> nat \<Rightarrow> Commitment \<Rightarrow> Commitment" where
  "request_terms_commitment cfg rid pay vbps tbps blinding =
     blake2_256 cfg (TermsPre ''qubitum.request.terms.v1'' rid pay vbps tbps blinding)"

definition legacy_request_terms_commitment ::
  "'cur Config \<Rightarrow> RequestId \<Rightarrow> Balance \<Rightarrow> nat \<Rightarrow> nat \<Rightarrow> Commitment" where
  "legacy_request_terms_commitment cfg rid pay vbps tbps =
     blake2_256 cfg (LegacyTermsPre rid pay vbps tbps)"

definition validate_fee_split :: "nat \<Rightarrow> nat \<Rightarrow> DispatchError + unit" where
  "validate_fee_split vbps tbps =
     bind_r (ok_or_r (checked_add 16 vbps tbps) (err Error_ArithmeticOverflow)) (\<lambda>combined.
     ensure_r (combined \<le> BPS_DENOMINATOR) (err Error_InvalidFeeSplit))"

definition resolve_request_assignment_commitment ::
  "'cur Config \<Rightarrow> ChainInferenceRequest \<Rightarrow> MinerId \<Rightarrow> ValidatorId \<Rightarrow> Commitment \<Rightarrow>
   DispatchError + Commitment" where
  "resolve_request_assignment_commitment cfg request mid vid blinding =
     (let blinded = request_assignment_commitment cfg (cr_request_id request)
            (cr_subnet_id request) mid vid blinding;
          legacy = legacy_request_assignment_commitment cfg (cr_request_id request)
            (cr_subnet_id request) mid vid;
          assignment_matches = (cr_assignment_commitment request = blinded
            \<or> (blinding = LEGACY_ASSIGNMENT_BLINDING \<and> cr_assignment_commitment request = legacy))
      in
      bind_r (ensure_r assignment_matches (err Error_AssignmentMismatch)) (\<lambda>_.
      bind_r (ensure_r (blinding \<noteq> LEGACY_ASSIGNMENT_BLINDING
                        \<or> cr_assignment_commitment request = legacy)
        (err Error_MissingCommitment)) (\<lambda>_.
      Inr (cr_assignment_commitment request))))"

definition ensure_request_assignment_witness ::
  "'cur Config \<Rightarrow> ChainInferenceRequest \<Rightarrow> MinerId \<Rightarrow> ValidatorId \<Rightarrow> Commitment \<Rightarrow>
   DispatchError + unit" where
  "ensure_request_assignment_witness cfg request mid vid blinding =
     bind_r (resolve_request_assignment_commitment cfg request mid vid blinding) (\<lambda>_. Inr ())"

definition ensure_request_timing_witness ::
  "'cur Config \<Rightarrow> ChainInferenceRequest \<Rightarrow> InferenceRequestTimingWitness \<Rightarrow> DispatchError + unit" where
  "ensure_request_timing_witness cfg request witness =
     (let blinded = request_timing_commitment cfg (cr_request_id request)
            (created_at witness) (timing_blinding witness);
          legacy = legacy_request_timing_commitment cfg (cr_request_id request) (created_at witness);
          timing_matches = (cr_timing_commitment request = blinded
            \<or> (timing_blinding witness = LEGACY_TIMING_BLINDING
                \<and> cr_timing_commitment request = legacy))
      in
      bind_r (ensure_r timing_matches (err Error_RequestMismatch)) (\<lambda>_.
      ensure_r (timing_blinding witness \<noteq> LEGACY_TIMING_BLINDING
                \<or> cr_timing_commitment request = legacy)
        (err Error_MissingCommitment)))"

definition ensure_request_terms_witness ::
  "'cur Config \<Rightarrow> ChainInferenceRequest \<Rightarrow> InferenceRequestTermsWitness \<Rightarrow> DispatchError + unit" where
  "ensure_request_terms_witness cfg request witness =
     (let t = terms witness in
      bind_r (ensure_r (payment t > 0) (err Error_InvalidPayment)) (\<lambda>_.
      bind_r (validate_fee_split (validator_fee_bps t) (treasury_fee_bps t)) (\<lambda>_.
      let blinded = request_terms_commitment cfg (cr_request_id request) (payment t)
            (validator_fee_bps t) (treasury_fee_bps t) (terms_blinding witness);
          legacy = legacy_request_terms_commitment cfg (cr_request_id request) (payment t)
            (validator_fee_bps t) (treasury_fee_bps t);
          terms_match = (cr_terms_commitment request = blinded
            \<or> (terms_blinding witness = LEGACY_TERMS_BLINDING \<and> cr_terms_commitment request = legacy))
      in
      bind_r (ensure_r terms_match (err Error_RequestMismatch)) (\<lambda>_.
      ensure_r (terms_blinding witness \<noteq> LEGACY_TERMS_BLINDING \<or> cr_terms_commitment request = legacy)
        (err Error_MissingCommitment)))))"

section \<open>Proof audit and transcript\<close>

definition proof_audit_commitment_for_assignment ::
  "'cur Config \<Rightarrow> InferenceProofSubmission \<Rightarrow> BlockNumber \<Rightarrow> Commitment \<Rightarrow> Commitment" where
  "proof_audit_commitment_for_assignment cfg sub accepted_at ac =
     blake2_256 cfg (AuditPre (request_id sub) (subnet_id sub) ac (input_commitment sub)
       (output_commitment sub) (model_commitment sub) (envelope sub) (proof_system sub)
       (proof_size_bytes sub) (verification_latency_ms sub) (submitted_at sub) accepted_at)"

definition proof_transcript_commitment ::
  "'cur Config \<Rightarrow> InferenceProofSubmission \<Rightarrow> Commitment" where
  "proof_transcript_commitment cfg sub =
     blake2_256 cfg (TranscriptPre (request_id sub) (subnet_id sub) (miner_id sub)
       (validator_id sub) (input_commitment sub) (output_commitment sub) (model_commitment sub)
       (proof_system sub) (proof_commitment (envelope sub)) (image_id (envelope sub))
       (verifier_version (envelope sub)) (proof_size_bytes sub) (verification_latency_ms sub)
       (submitted_at sub))"

definition ensure_proof_transcript_witness ::
  "'cur Config \<Rightarrow> InferenceProofSubmission \<Rightarrow> DispatchError + unit" where
  "ensure_proof_transcript_witness cfg sub =
     ensure_r (journal_commitment (envelope sub) = proof_transcript_commitment cfg sub)
       (err Error_ProofTranscriptMismatch)"

section \<open>Identity challenges and signature bundles\<close>

definition identity_signature_binding_for_mode ::
  "'cur Config \<Rightarrow> SignatureMode \<Rightarrow> Commitment \<Rightarrow> SignatureCommitment \<Rightarrow> Commitment" where
  "identity_signature_binding_for_mode cfg mode challenge sig =
     blake2_256 cfg (BindingPre ''qubitum.identity.signature.binding.v1'' challenge
       (algorithm sig) (public_key_commitment sig) mode)"

definition CommitmentBindingIdentitySignatureVerifier_verify ::
  "'cur Config \<Rightarrow> VerifyIdentitySignature" where
  "CommitmentBindingIdentitySignatureVerifier_verify cfg sig policy =
     (signature_commitment sig =
        identity_signature_binding_for_mode cfg (iv_signature_mode policy) (iv_challenge policy) sig)"

definition identity_signature_challenge ::
  "'cur Config \<Rightarrow> string \<Rightarrow> nat \<Rightarrow> Commitment \<Rightarrow> Commitment option \<Rightarrow> Commitment option \<Rightarrow> Commitment"
where
  "identity_signature_challenge cfg domain subject opc shielded endpoint =
     blake2_256 cfg (ChallengePre domain subject opc shielded endpoint (Config_SignatureMode cfg))"

definition miner_identity_signature_challenge ::
  "'cur Config \<Rightarrow> MinerId \<Rightarrow> Commitment \<Rightarrow> Commitment option \<Rightarrow> Commitment option \<Rightarrow> Commitment" where
  "miner_identity_signature_challenge cfg mid opc shielded endpoint =
     identity_signature_challenge cfg ''qubitum.identity.miner.v1'' mid opc shielded endpoint"

definition validator_identity_signature_challenge ::
  "'cur Config \<Rightarrow> ValidatorId \<Rightarrow> Commitment \<Rightarrow> Commitment option \<Rightarrow> Commitment option \<Rightarrow> Commitment"
where
  "validator_identity_signature_challenge cfg vid opc shielded endpoint =
     identity_signature_challenge cfg ''qubitum.identity.validator.v1'' vid opc shielded endpoint"

definition ensure_signature_bundle :: "'cur Config \<Rightarrow> SignatureBundle \<Rightarrow> DispatchError + unit" where
  "ensure_signature_bundle cfg bundle =
     (case SignaturePolicy_validate (SignaturePolicy_new (Config_SignatureMode cfg)) bundle of
        Inr _ \<Rightarrow> Inr ()
      | Inl _ \<Rightarrow> Inl (err Error_InvalidSignatureBundle))"

definition ensure_signature_commitment_bound_to_challenge ::
  "'cur Config \<Rightarrow> SignatureCommitment \<Rightarrow> Commitment \<Rightarrow> DispatchError + unit" where
  "ensure_signature_commitment_bound_to_challenge cfg sig challenge =
     ensure_r (IdentitySignatureVerifier_verify cfg sig
         \<lparr>iv_signature_mode = Config_SignatureMode cfg, iv_challenge = challenge\<rparr>)
       (err Error_InvalidSignatureBundle)"

definition ensure_signature_bundle_bound_to_challenge ::
  "'cur Config \<Rightarrow> SignatureBundle \<Rightarrow> Commitment \<Rightarrow> DispatchError + unit" where
  "ensure_signature_bundle_bound_to_challenge cfg bundle challenge =
     bind_r (ensure_signature_bundle cfg bundle) (\<lambda>_.
     bind_r (case classical bundle of
               Some sig \<Rightarrow> ensure_signature_commitment_bound_to_challenge cfg sig challenge
             | None \<Rightarrow> Inr ()) (\<lambda>_.
     case post_quantum bundle of
       Some sig \<Rightarrow> ensure_signature_commitment_bound_to_challenge cfg sig challenge
     | None \<Rightarrow> Inr ()))"

definition ensure_signature_commitment_not_reserved ::
  "SignatureCommitment \<Rightarrow> Commitment option list \<Rightarrow> DispatchError + unit" where
  "ensure_signature_commitment_not_reserved sig reserved =
     ensure_r (list_all (\<lambda>maybe. case maybe of
                 Some c \<Rightarrow> public_key_commitment sig \<noteq> c \<and> signature_commitment sig \<noteq> c
               | None \<Rightarrow> True) reserved)
       (err Error_InvalidSignatureBundle)"

definition ensure_identity_signature_bundle_bound ::
  "'cur Config \<Rightarrow> SignatureBundle \<Rightarrow> Commitment \<Rightarrow> Commitment \<Rightarrow> Commitment option \<Rightarrow>
   Commitment option \<Rightarrow> DispatchError + unit" where
  "ensure_identity_signature_bundle_bound cfg bundle challenge opc shielded endpoint =
     bind_r (ensure_signature_bundle_bound_to_challenge cfg bundle challenge) (\<lambda>_.
     let reserved = [Some opc, Some challenge, shielded, endpoint] in
     bind_r (case classical bundle of
               Some sig \<Rightarrow> ensure_signature_commitment_not_reserved sig reserved
             | None \<Rightarrow> Inr ()) (\<lambda>_.
     case post_quantum bundle of
       Some sig \<Rightarrow> ensure_signature_commitment_not_reserved sig reserved
     | None \<Rightarrow> Inr ()))"

definition ensure_miner_signature_bundle_bound ::
  "'cur Config \<Rightarrow> 'cur Storage \<Rightarrow> MinerId \<Rightarrow> ChainMiner \<Rightarrow> DispatchError + unit" where
  "ensure_miner_signature_bundle_bound cfg s mid miner =
     bind_r (ok_or_r (MinerIdentityCommitments s mid) (err Error_MissingSignatureBundle))
       (\<lambda>commitments.
     bind_r (ok_or_r (MinerIdentitySignatureChallenges s mid) (err Error_MissingSignatureBundle))
       (\<lambda>stored_challenge.
     let expected_challenge = miner_identity_signature_challenge cfg mid
           (cm_operator_commitment miner) (shielded_identity_commitment commitments)
           (endpoint_commitment commitments) in
     bind_r (ensure_r (stored_challenge = expected_challenge) (err Error_InvalidSignatureBundle))
       (\<lambda>_.
     bind_r (ok_or_r (MinerIdentitySignatureBundles s mid) (err Error_MissingSignatureBundle))
       (\<lambda>bundle.
     ensure_identity_signature_bundle_bound cfg bundle expected_challenge
       (cm_operator_commitment miner) (shielded_identity_commitment commitments)
       (endpoint_commitment commitments)))))"

definition ensure_validator_signature_bundle_bound ::
  "'cur Config \<Rightarrow> 'cur Storage \<Rightarrow> ValidatorId \<Rightarrow> ChainValidator \<Rightarrow> DispatchError + unit" where
  "ensure_validator_signature_bundle_bound cfg s vid validator =
     bind_r (ok_or_r (ValidatorIdentityCommitments s vid) (err Error_MissingSignatureBundle))
       (\<lambda>commitments.
     bind_r (ok_or_r (ValidatorIdentitySignatureChallenges s vid)
       (err Error_MissingSignatureBundle)) (\<lambda>stored_challenge.
     let expected_challenge = validator_identity_signature_challenge cfg vid
           (cv_operator_commitment validator) (shielded_identity_commitment commitments)
           (endpoint_commitment commitments) in
     bind_r (ensure_r (stored_challenge = expected_challenge) (err Error_InvalidSignatureBundle))
       (\<lambda>_.
     bind_r (ok_or_r (ValidatorIdentitySignatureBundles s vid) (err Error_MissingSignatureBundle))
       (\<lambda>bundle.
     ensure_identity_signature_bundle_bound cfg bundle expected_challenge
       (cv_operator_commitment validator) (shielded_identity_commitment commitments)
       (endpoint_commitment commitments)))))"

definition ensure_participant_signature_bundles ::
  "'cur Config \<Rightarrow> 'cur Storage \<Rightarrow> MinerId \<Rightarrow> ValidatorId \<Rightarrow> DispatchError + unit" where
  "ensure_participant_signature_bundles cfg s mid vid =
     bind_r (ok_or_r (Miners s mid) (err Error_UnknownMiner)) (\<lambda>miner.
     bind_r (ok_or_r (Validators s vid) (err Error_UnknownValidator)) (\<lambda>validator.
     bind_r (ensure_miner_signature_bundle_bound cfg s mid miner) (\<lambda>_.
     ensure_validator_signature_bundle_bound cfg s vid validator)))"

end
