(* ===== verification/Pallet_Routing.thy ===== *)
theory Pallet_Routing
  imports Pallet_Commitments "HOL-Library.More_List"
begin

text \<open>
  Capital records of participants, eligibility for routing, capacity checks and the
  deterministic assignment of a miner and a validator to a request.  All of it reads storage and
  writes none.
\<close>

section \<open>Registry records\<close>

definition registry_records :: "(nat \<rightharpoonup> 'r) \<Rightarrow> nat \<Rightarrow> (nat \<times> 'r) list" where
  "registry_records m n = List.map_filter (\<lambda>i. map_option (Pair i) (m i)) [0..<n]"

definition miner_records :: "'cur Storage \<Rightarrow> (MinerId \<times> ChainMiner) list" where
  "miner_records s = registry_records (Miners s) (MinerCount s)"

definition validator_records :: "'cur Storage \<Rightarrow> (ValidatorId \<times> ChainValidator) list" where
  "validator_records s = registry_records (Validators s) (ValidatorCount s)"

definition request_records :: "'cur Storage \<Rightarrow> (RequestId \<times> ChainInferenceRequest) list" where
  "request_records s = registry_records (InferenceRequests s) (RequestCount s)"

section \<open>Capital records\<close>

definition held_miner_bond :: "'cur Config \<Rightarrow> 'cur Storage \<Rightarrow> AccountId \<Rightarrow> Balance" where
  "held_miner_bond cfg s operator = balance_on_hold (Currency cfg) MinerBond operator (currency s)"

definition held_validator_stake :: "'cur Config \<Rightarrow> 'cur Storage \<Rightarrow> AccountId \<Rightarrow> Balance" where
  "held_validator_stake cfg s operator =
     balance_on_hold (Currency cfg) ValidatorStake operator (currency s)"

definition miner_capital_bearing_status :: "RegistryStatus \<Rightarrow> bool" where
  "miner_capital_bearing_status status =
     (case status of Active \<Rightarrow> True | Slashed \<Rightarrow> True | Exiting _ \<Rightarrow> True | _ \<Rightarrow> False)"

definition validator_capital_bearing_status :: "RegistryStatus \<Rightarrow> bool" where
  "validator_capital_bearing_status status =
     (case status of Pending \<Rightarrow> True | Active \<Rightarrow> True | Slashed \<Rightarrow> True | Exiting _ \<Rightarrow> True
      | Disabled \<Rightarrow> False)"

definition miner_capital_record_count :: "'cur Storage \<Rightarrow> Commitment \<Rightarrow> nat" where
  "miner_capital_record_count s opc =
     fold (\<lambda>_ count. saturating_add 32 count 1)
       (filter (\<lambda>(_, miner). cm_operator_commitment miner = opc
                 \<and> miner_capital_bearing_status (cm_status miner)) (miner_records s)) 0"

definition validator_capital_record_count :: "'cur Storage \<Rightarrow> Commitment \<Rightarrow> nat" where
  "validator_capital_record_count s opc =
     fold (\<lambda>_ count. saturating_add 32 count 1)
       (filter (\<lambda>(_, validator). cv_operator_commitment validator = opc
                 \<and> validator_capital_bearing_status (cv_status validator)) (validator_records s)) 0"

definition locked_miner_bond ::
  "'cur Config \<Rightarrow> 'cur Storage \<Rightarrow> MinerId \<Rightarrow> AccountId \<Rightarrow> DispatchError + Balance" where
  "locked_miner_bond cfg s mid operator =
     (case MinerLockedBond s mid of
        Some bond \<Rightarrow> Inr bond
      | None \<Rightarrow>
          bind_r (ok_or_r (Miners s mid) (err Error_UnknownMiner)) (\<lambda>miner.
          bind_r (ensure_miner_operator cfg miner operator) (\<lambda>_.
          bind_r (ensure_r (miner_capital_bearing_status (cm_status miner)
                    \<and> miner_capital_record_count s (cm_operator_commitment miner) = 1)
            (err Error_MissingCapitalRecord)) (\<lambda>_.
          Inr (held_miner_bond cfg s operator)))))"

definition locked_validator_stake ::
  "'cur Config \<Rightarrow> 'cur Storage \<Rightarrow> ValidatorId \<Rightarrow> AccountId \<Rightarrow> DispatchError + Balance" where
  "locked_validator_stake cfg s vid operator =
     (case ValidatorLockedStake s vid of
        Some stake \<Rightarrow> Inr stake
      | None \<Rightarrow>
          bind_r (ok_or_r (Validators s vid) (err Error_UnknownValidator)) (\<lambda>validator.
          bind_r (ensure_validator_operator cfg validator operator) (\<lambda>_.
          bind_r (ensure_r (validator_capital_bearing_status (cv_status validator)
                    \<and> validator_capital_record_count s (cv_operator_commitment validator) = 1)
            (err Error_MissingCapitalRecord)) (\<lambda>_.
          Inr (held_validator_stake cfg s operator)))))"

definition miner_has_active_locked_bond_record :: "'cur Config \<Rightarrow> 'cur Storage \<Rightarrow> MinerId \<Rightarrow> bool" where
  "miner_has_active_locked_bond_record cfg s mid =
     (case MinerLockedBond s mid of Some bond \<Rightarrow> bond \<ge> MinMinerBond cfg | None \<Rightarrow> False)"

definition ensure_miner_locked_bond_record ::
  "'cur Config \<Rightarrow> 'cur Storage \<Rightarrow> MinerId \<Rightarrow> DispatchError + unit" where
  "ensure_miner_locked_bond_record cfg s mid =
     ensure_r (miner_has_active_locked_bond_record cfg s mid) (err Error_MissingCapitalRecord)"

definition validator_has_active_locked_stake_record ::
  "'cur Config \<Rightarrow> 'cur Storage \<Rightarrow> ValidatorId \<Rightarrow> bool" where
  "validator_has_active_locked_stake_record cfg s vid =
     (case ValidatorLockedStake s vid of Some stake \<Rightarrow> stake \<ge> MinValidatorStake cfg | None \<Rightarrow> False)"

definition ensure_validator_locked_stake_record ::
  "'cur Config \<Rightarrow> 'cur Storage \<Rightarrow> ValidatorId \<Rightarrow> DispatchError + unit" where
  "ensure_validator_locked_stake_record cfg s vid =
     ensure_r (validator_has_active_locked_stake_record cfg s vid) (err Error_MissingCapitalRecord)"

section \<open>Eligibility and capacity\<close>

definition miner_is_route_eligible ::
  "'cur Config \<Rightarrow> 'cur Storage \<Rightarrow> MinerId \<Rightarrow> ChainMiner \<Rightarrow> bool" where
  "miner_is_route_eligible cfg s mid miner =
     (cm_status miner = Active \<and> miner_has_active_locked_bond_record cfg s mid
      \<and> is_ok (ensure_miner_signature_bundle_bound cfg s mid miner))"

definition validator_is_route_eligible ::
  "'cur Config \<Rightarrow> 'cur Storage \<Rightarrow> ValidatorId \<Rightarrow> ChainValidator \<Rightarrow> bool" where
  "validator_is_route_eligible cfg s vid validator =
     (cv_status validator = Active \<and> validator_has_active_locked_stake_record cfg s vid
      \<and> is_ok (ensure_validator_signature_bundle_bound cfg s vid validator))"

definition active_miner_route_ids :: "'cur Config \<Rightarrow> 'cur Storage \<Rightarrow> SubnetId \<Rightarrow> MinerId list" where
  "active_miner_route_ids cfg s sid =
     sort (map fst (filter (\<lambda>(mid, miner). cm_subnet_id miner = sid
                              \<and> miner_is_route_eligible cfg s mid miner) (miner_records s)))"

definition active_validator_route_ids ::
  "'cur Config \<Rightarrow> 'cur Storage \<Rightarrow> SubnetId \<Rightarrow> ValidatorId list" where
  "active_validator_route_ids cfg s sid =
     sort (map fst (filter (\<lambda>(vid, validator). cv_subnet_id validator = sid
                              \<and> validator_is_route_eligible cfg s vid validator)
                      (validator_records s)))"

definition ensure_route_capacity ::
  "nat list \<Rightarrow> nat option \<Rightarrow> nat \<Rightarrow> PalletError \<Rightarrow> DispatchError + unit" where
  "ensure_route_capacity ids candidate capacity e =
     (let count = length ids mod 2 ^ 32;
          already_included = (case candidate of Some c \<Rightarrow> c \<in> set ids | None \<Rightarrow> False)
      in if already_included then ensure_r (count \<le> capacity) (err e)
         else ensure_r (count < capacity) (err e))"

definition ensure_active_miner_capacity ::
  "'cur Config \<Rightarrow> 'cur Storage \<Rightarrow> SubnetId \<Rightarrow> MinerId option \<Rightarrow> DispatchError + unit" where
  "ensure_active_miner_capacity cfg s sid candidate =
     ensure_route_capacity (active_miner_route_ids cfg s sid) candidate
       (MaxActiveMinersPerSubnet cfg) Error_TooManyActiveMiners"

definition ensure_active_validator_capacity ::
  "'cur Config \<Rightarrow> 'cur Storage \<Rightarrow> SubnetId \<Rightarrow> ValidatorId option \<Rightarrow> DispatchError + unit" where
  "ensure_active_validator_capacity cfg s sid candidate =
     ensure_route_capacity (active_validator_route_ids cfg s sid) candidate
       (MaxActiveValidatorsPerSubnet cfg) Error_TooManyActiveValidators"

definition insert_active_miner ::
  "'cur Config \<Rightarrow> 'cur Storage \<Rightarrow> SubnetId \<Rightarrow> MinerId \<Rightarrow> DispatchError + unit" where
  "insert_active_miner cfg s sid mid = ensure_active_miner_capacity cfg s sid (Some mid)"

definition insert_active_validator ::
  "'cur Config \<Rightarrow> 'cur Storage \<Rightarrow> SubnetId \<Rightarrow> ValidatorId \<Rightarrow> DispatchError + unit" where
  "insert_active_validator cfg s sid vid = ensure_active_validator_capacity cfg s sid (Some vid)"

text \<open>Both removals have an empty body in the source.\<close>

definition remove_active_miner :: "SubnetId \<Rightarrow> MinerId \<Rightarrow> ('cur, unit) pallet" where
  "remove_active_miner sid mid = ret ()"

definition remove_active_validator :: "SubnetId \<Rightarrow> ValidatorId \<Rightarrow> ('cur, unit) pallet" where
  "remove_active_validator sid vid = ret ()"

text \<open>Sorted insertion into a bounded index; \<open>cap\<close> is the bound of the vector.\<close>

definition insert_sorted_id ::
  "nat \<Rightarrow> PalletError \<Rightarrow> nat list \<Rightarrow> nat \<Rightarrow> PalletError + (bool \<times> nat list)" where
  "insert_sorted_id cap e ids new_id =
     (if new_id \<in> set ids then Inr (False, ids)
      else let sorted_ids = sort (ids @ [new_id])
           in if length sorted_ids \<le> cap then Inr (True, sorted_ids) else Inl e)"

definition insert_sorted_miner_id ::
  "'cur Config \<Rightarrow> MinerId list \<Rightarrow> MinerId \<Rightarrow> PalletError + (bool \<times> MinerId list)" where
  "insert_sorted_miner_id cfg ids mid =
     insert_sorted_id (MaxActiveMinersPerSubnet cfg) Error_TooManyActiveMiners ids mid"

definition insert_sorted_validator_id ::
  "'cur Config \<Rightarrow> ValidatorId list \<Rightarrow> ValidatorId \<Rightarrow> PalletError + (bool \<times> ValidatorId list)" where
  "insert_sorted_validator_id cfg ids vid =
     insert_sorted_id (MaxActiveValidatorsPerSubnet cfg) Error_TooManyActiveValidators ids vid"

section \<open>Route assignment\<close>

text \<open>The runtime executes as 32-bit WebAssembly.\<close>

definition usize_bits :: nat where "usize_bits = 32"

text \<open>The first eight digest bytes, little endian, of a digest read as a little-endian number.\<close>

definition route_seed :: "'cur Config \<Rightarrow> string \<Rightarrow> RequestId \<Rightarrow> SubnetId \<Rightarrow> Commitment \<Rightarrow> nat" where
  "route_seed cfg domain rid sid blinding =
     unat (blake2_256 cfg (RouteSeedPre domain rid sid blinding)) mod 2 ^ 64"

definition route_index :: "nat \<Rightarrow> nat \<Rightarrow> nat option" where
  "route_index seed len =
     (case checked_rem seed len of
        None \<Rightarrow> None
      | Some i \<Rightarrow> if i < 2 ^ usize_bits then Some i else None)"

text \<open>\<open>start.checked_add(offset)?.checked_rem(len)?\<close> and the lookup of the target.\<close>

definition route_target :: "nat list \<Rightarrow> nat \<Rightarrow> nat \<Rightarrow> nat option" where
  "route_target ids start offset =
     (case checked_add usize_bits start offset of
        None \<Rightarrow> None
      | Some i \<Rightarrow>
          (case checked_rem i (length ids) of
             None \<Rightarrow> None
           | Some target \<Rightarrow> if target < length ids then Some (ids ! target) else None))"

fun route_validator_loop ::
  "'cur Config \<Rightarrow> 'cur Storage \<Rightarrow> SubnetId \<Rightarrow> Commitment \<Rightarrow> nat list \<Rightarrow> nat \<Rightarrow> nat list \<Rightarrow>
   ValidatorId option" where
  "route_validator_loop cfg s sid opc ids start [] = None"
| "route_validator_loop cfg s sid opc ids start (offset # offsets) =
     (case route_target ids start offset of
        None \<Rightarrow> None
      | Some vid \<Rightarrow>
          (case Validators s vid of
             None \<Rightarrow> route_validator_loop cfg s sid opc ids start offsets
           | Some validator \<Rightarrow>
               if cv_subnet_id validator = sid \<and> cv_status validator = Active
                  \<and> validator_has_active_locked_stake_record cfg s vid
                  \<and> cv_operator_commitment validator \<noteq> opc
                  \<and> is_ok (ensure_validator_signature_bundle_bound cfg s vid validator)
               then Some vid
               else route_validator_loop cfg s sid opc ids start offsets))"

definition route_active_validator ::
  "'cur Config \<Rightarrow> 'cur Storage \<Rightarrow> SubnetId \<Rightarrow> nat \<Rightarrow> Commitment \<Rightarrow> ValidatorId option" where
  "route_active_validator cfg s sid seed opc =
     (let ids = active_validator_route_ids cfg s sid in
      if ids = [] then None
      else case route_index seed (length ids) of
             None \<Rightarrow> None
           | Some start \<Rightarrow> route_validator_loop cfg s sid opc ids start [0..<length ids])"

fun route_miner_loop ::
  "'cur Config \<Rightarrow> 'cur Storage \<Rightarrow> SubnetId \<Rightarrow> RequestId \<Rightarrow> nat \<Rightarrow> nat list \<Rightarrow> nat \<Rightarrow> nat list \<Rightarrow>
   ChainAssignment option" where
  "route_miner_loop cfg s sid rid vseed ids start [] = None"
| "route_miner_loop cfg s sid rid vseed ids start (offset # offsets) =
     (case route_target ids start offset of
        None \<Rightarrow> None
      | Some mid \<Rightarrow>
          (case Miners s mid of
             None \<Rightarrow> route_miner_loop cfg s sid rid vseed ids start offsets
           | Some miner \<Rightarrow>
               if cm_subnet_id miner \<noteq> sid \<or> cm_status miner \<noteq> Active
                  \<or> \<not> miner_has_active_locked_bond_record cfg s mid
                  \<or> \<not> is_ok (ensure_miner_signature_bundle_bound cfg s mid miner)
               then route_miner_loop cfg s sid rid vseed ids start offsets
               else (case route_active_validator cfg s sid vseed (cm_operator_commitment miner) of
                       None \<Rightarrow> route_miner_loop cfg s sid rid vseed ids start offsets
                     | Some vid \<Rightarrow>
                         (case Validators s vid of
                            None \<Rightarrow> route_miner_loop cfg s sid rid vseed ids start offsets
                          | Some validator \<Rightarrow>
                              if is_ok (ensure_distinct_operators miner validator)
                              then Some \<lparr>as_request_id = rid, as_subnet_id = sid,
                                         as_miner_id = mid, as_validator_id = vid\<rparr>
                              else None))))"

definition route_assignment ::
  "'cur Config \<Rightarrow> 'cur Storage \<Rightarrow> SubnetId \<Rightarrow> RequestId \<Rightarrow> Commitment \<Rightarrow> ChainAssignment option" where
  "route_assignment cfg s sid rid blinding =
     (case Subnets s sid of
        None \<Rightarrow> None
      | Some subnet \<Rightarrow>
          if \<not> cs_active subnet then None
          else
            let miner_ids = active_miner_route_ids cfg s sid in
            if miner_ids = [] then None
            else
              let miner_seed = route_seed cfg ''qubitum.route.miner.v1'' rid sid blinding in
              case route_index miner_seed (length miner_ids) of
                None \<Rightarrow> None
              | Some miner_start \<Rightarrow>
                  let validator_seed = route_seed cfg ''qubitum.route.validator.v1'' rid sid blinding
                  in route_miner_loop cfg s sid rid validator_seed miner_ids miner_start
                       [0..<length miner_ids])"

end
