(* ===== verification/Pallet_Registry.thy ===== *)
theory Pallet_Registry
  imports Pallet_Routing
begin

text \<open>
  The dispatchables that manage subnets, miners and validators: creation, registration,
  activation, identity metadata, exit, withdrawal and slashing.  Every dispatchable takes the
  configuration and the origin first.  \<open>try_mutate\<close> works on a copy of the entry that is written
  back when the closure succeeds, so the body sees the old entry in storage.
\<close>

section \<open>Shared steps\<close>

definition try_mutate_miner ::
  "MinerId \<Rightarrow> (ChainMiner \<Rightarrow> ('cur, ChainMiner \<times> 'a) pallet) \<Rightarrow> ('cur, 'a) pallet" where
  "try_mutate_miner mid body =
     and_then (fetch (\<lambda>s. Miners s mid) (err Error_UnknownMiner)) (\<lambda>miner.
     and_then (body miner) (\<lambda>(miner', x).
     and_then (modify (\<lambda>s. s\<lparr>Miners := (Miners s)(mid \<mapsto> miner')\<rparr>)) (\<lambda>_.
     ret x)))"

definition try_mutate_validator ::
  "ValidatorId \<Rightarrow> (ChainValidator \<Rightarrow> ('cur, ChainValidator \<times> 'a) pallet) \<Rightarrow> ('cur, 'a) pallet" where
  "try_mutate_validator vid body =
     and_then (fetch (\<lambda>s. Validators s vid) (err Error_UnknownValidator)) (\<lambda>validator.
     and_then (body validator) (\<lambda>(validator', x).
     and_then (modify (\<lambda>s. s\<lparr>Validators := (Validators s)(vid \<mapsto> validator')\<rparr>)) (\<lambda>_.
     ret x)))"

definition next_subnet_id :: "('cur, SubnetId) pallet" where
  "next_subnet_id =
     and_then (gets SubnetCount) (\<lambda>new_id.
     and_then (ok_or (checked_add 16 new_id 1) (err Error_ArithmeticOverflow)) (\<lambda>n.
     and_then (modify (\<lambda>s. s\<lparr>SubnetCount := n\<rparr>)) (\<lambda>_.
     ret new_id)))"

definition next_miner_id :: "('cur, MinerId) pallet" where
  "next_miner_id =
     and_then (gets MinerCount) (\<lambda>new_id.
     and_then (ok_or (checked_add 64 new_id 1) (err Error_ArithmeticOverflow)) (\<lambda>n.
     and_then (modify (\<lambda>s. s\<lparr>MinerCount := n\<rparr>)) (\<lambda>_.
     ret new_id)))"

definition next_validator_id :: "('cur, ValidatorId) pallet" where
  "next_validator_id =
     and_then (gets ValidatorCount) (\<lambda>new_id.
     and_then (ok_or (checked_add 64 new_id 1) (err Error_ArithmeticOverflow)) (\<lambda>n.
     and_then (modify (\<lambda>s. s\<lparr>ValidatorCount := n\<rparr>)) (\<lambda>_.
     ret new_id)))"

definition ensure_burned_can_record :: "Balance \<Rightarrow> ('cur, unit) pallet" where
  "ensure_burned_can_record amount = ret ()"

definition clear_burned_total :: "('cur, unit) pallet" where
  "clear_burned_total = modify (\<lambda>s. s\<lparr>TotalBurned := 0\<rparr>)"

definition record_burned :: "Balance \<Rightarrow> ('cur, unit) pallet" where
  "record_burned amount = clear_burned_total"

definition burn_free :: "'cur Config \<Rightarrow> AccountId \<Rightarrow> Balance \<Rightarrow> ('cur, unit) pallet" where
  "burn_free cfg who amount =
     and_then (ensure_burned_can_record amount) (\<lambda>_.
     and_then (with_currency (cur_burn_from (Currency cfg) who amount)) (\<lambda>burned.
     record_burned burned))"

definition hold_for ::
  "'cur Config \<Rightarrow> HoldReason \<Rightarrow> AccountId \<Rightarrow> Balance \<Rightarrow> ('cur, unit) pallet" where
  "hold_for cfg reason who amount = with_currency (cur_hold (Currency cfg) reason who amount)"

definition release_for ::
  "'cur Config \<Rightarrow> HoldReason \<Rightarrow> AccountId \<Rightarrow> Balance \<Rightarrow> ('cur, Balance) pallet" where
  "release_for cfg reason who amount =
     with_currency (cur_release (Currency cfg) reason who amount)"

section \<open>Subnets and registration\<close>

definition create_subnet ::
  "'cur Config \<Rightarrow> RuntimeOrigin \<Rightarrow> SubnetDomain \<Rightarrow> ProofSystem \<Rightarrow> ('cur, unit) pallet" where
  "create_subnet cfg origin domain system = transactional (
     and_then (lift_result (ensure_payload_signer cfg origin)) (\<lambda>owner.
     and_then (lift_result (ensure_supported_proof_system system)) (\<lambda>_.
     and_then (burn_free cfg owner (SubnetCreationBurn cfg)) (\<lambda>_.
     and_then next_subnet_id (\<lambda>sid.
     and_then (modify (\<lambda>s. s\<lparr>Subnets := (Subnets s)(sid \<mapsto> \<lparr>
         cs_id = sid,
         cs_owner_commitment = subnet_owner_commitment cfg owner,
         cs_domain = domain,
         cs_proof_system = system,
         cs_policy_commitment = subnet_policy_commitment cfg sid domain system,
         cs_active = True\<rparr>)\<rparr>)) (\<lambda>_.
     deposit_activity_event cfg SubnetCreated))))))"

definition register_miner ::
  "'cur Config \<Rightarrow> RuntimeOrigin \<Rightarrow> SubnetId \<Rightarrow> Commitment \<Rightarrow> ProofSystem \<Rightarrow> ('cur, unit) pallet" where
  "register_miner cfg origin sid model system = transactional (
     and_then (lift_result (ensure_payload_signer cfg origin)) (\<lambda>operator.
     and_then (lift_result (ensure_commitment_d model)) (\<lambda>_.
     and_then (lift_result (ensure_supported_proof_system system)) (\<lambda>_.
     and_then (fetch (\<lambda>s. Subnets s sid) (err Error_UnknownSubnet)) (\<lambda>subnet.
     and_then (ensure (cs_proof_system subnet = system) (err Error_ProofSystemMismatch)) (\<lambda>_.
     and_then (burn_free cfg operator (MinerRegistrationBurn cfg)) (\<lambda>_.
     and_then next_miner_id (\<lambda>mid.
     let opc = operator_commitment cfg operator; status = Pending in
     and_then (modify (\<lambda>s. s\<lparr>Miners := (Miners s)(mid \<mapsto> \<lparr>
         cm_id = mid,
         cm_operator_commitment = opc,
         cm_subnet_id = sid,
         cm_model_commitment = model,
         cm_proof_system = system,
         cm_bond_commitment = miner_bond_commitment cfg mid opc status,
         cm_status = status\<rparr>)\<rparr>)) (\<lambda>_.
     deposit_activity_event cfg MinerRegistered)))))))))"

definition register_validator ::
  "'cur Config \<Rightarrow> RuntimeOrigin \<Rightarrow> SubnetId \<Rightarrow> Balance \<Rightarrow> ('cur, unit) pallet" where
  "register_validator cfg origin sid stake = transactional (
     and_then (lift_result (ensure_payload_signer cfg origin)) (\<lambda>operator.
     and_then (require (\<lambda>s. Subnets s sid \<noteq> None) (err Error_UnknownSubnet)) (\<lambda>_.
     and_then (ensure (stake \<ge> MinValidatorStake cfg) (err Error_InvalidStake)) (\<lambda>_.
     and_then next_validator_id (\<lambda>vid.
     and_then (query (\<lambda>s. ensure_active_validator_capacity cfg s sid None)) (\<lambda>_.
     and_then (hold_for cfg ValidatorStake operator stake) (\<lambda>_.
     let opc = operator_commitment cfg operator; status = Pending in
     and_then (modify (\<lambda>s. s\<lparr>Validators := (Validators s)(vid \<mapsto> \<lparr>
         cv_id = vid,
         cv_operator_commitment = opc,
         cv_subnet_id = sid,
         cv_stake_commitment = validator_stake_commitment cfg vid opc status,
         cv_status = status\<rparr>)\<rparr>)) (\<lambda>_.
     and_then (modify (\<lambda>s. s\<lparr>ValidatorLockedStake := (ValidatorLockedStake s)(vid \<mapsto> stake)\<rparr>)) (\<lambda>_.
     deposit_activity_event cfg ValidatorRegistered)))))))))"

definition activate_miner ::
  "'cur Config \<Rightarrow> RuntimeOrigin \<Rightarrow> MinerId \<Rightarrow> Balance \<Rightarrow> ('cur, unit) pallet" where
  "activate_miner cfg origin mid bond = transactional (
     and_then (lift_result (ensure_payload_signer cfg origin)) (\<lambda>operator.
     and_then (try_mutate_miner mid (\<lambda>miner.
       and_then (lift_result (ensure_miner_operator cfg miner operator)) (\<lambda>_.
       and_then (ensure (cm_status miner = Pending) (err Error_InvalidMinerStatus)) (\<lambda>_.
       and_then (require (\<lambda>s. Subnets s (cm_subnet_id miner) \<noteq> None) (err Error_UnknownSubnet)) (\<lambda>_.
       and_then (ensure (bond \<ge> MinMinerBond cfg \<and> bond \<le> MaxMinerBond cfg)
         (err Error_InvalidBond)) (\<lambda>_.
       and_then (query (\<lambda>s. ensure_miner_signature_bundle_bound cfg s mid miner)) (\<lambda>_.
       and_then (hold_for cfg MinerBond operator bond) (\<lambda>_.
       and_then (query (\<lambda>s. insert_active_miner cfg s (cm_subnet_id miner) mid)) (\<lambda>_.
       and_then (modify (\<lambda>s. s\<lparr>MinerLockedBond := (MinerLockedBond s)(mid \<mapsto> bond)\<rparr>)) (\<lambda>_.
       ret (miner\<lparr>cm_status := Active,
                  cm_bond_commitment :=
                    miner_bond_commitment cfg mid (cm_operator_commitment miner) Active\<rparr>, ())
       ))))))))))
     (\<lambda>_. deposit_activity_event cfg MinerActivated)))"

section \<open>Exit\<close>

definition current_block :: "'cur Storage \<Rightarrow> BlockNumber" where
  "current_block s = min (block_number s) (uint_max 64)"

definition deactivate_miner :: "'cur Config \<Rightarrow> RuntimeOrigin \<Rightarrow> MinerId \<Rightarrow> ('cur, unit) pallet" where
  "deactivate_miner cfg origin mid =
     and_then (lift_result (ensure_payload_signer cfg origin)) (\<lambda>operator.
     and_then (fetch (\<lambda>s. checked_add 64 (current_block s) (MinerExitCooldownBlocks cfg))
       (err Error_ArithmeticOverflow)) (\<lambda>available_at.
     and_then (try_mutate_miner mid (\<lambda>miner.
       and_then (lift_result (ensure_miner_operator cfg miner operator)) (\<lambda>_.
       and_then (ensure (cm_status miner = Active \<or> cm_status miner = Slashed)
         (err Error_InvalidMinerStatus)) (\<lambda>_.
       and_then (require (\<lambda>s. pending_of (PendingMinerRequests s) mid = 0)
         (err Error_PendingAssignedRequests)) (\<lambda>_.
       and_then (remove_active_miner (cm_subnet_id miner) mid) (\<lambda>_.
       ret (miner\<lparr>cm_status := Exiting available_at,
                  cm_bond_commitment := miner_bond_commitment cfg mid
                    (cm_operator_commitment miner) (Exiting available_at)\<rparr>, ())))))))
     (\<lambda>_. deposit_activity_event cfg MinerExitStarted)))"

definition withdraw_miner_bond :: "'cur Config \<Rightarrow> RuntimeOrigin \<Rightarrow> MinerId \<Rightarrow> ('cur, unit) pallet" where
  "withdraw_miner_bond cfg origin mid = transactional (
     and_then (lift_result (ensure_payload_signer cfg origin)) (\<lambda>operator.
     and_then (try_mutate_miner mid (\<lambda>miner.
       and_then (lift_result (ensure_miner_operator cfg miner operator)) (\<lambda>_.
       case cm_status miner of
         Exiting available_at \<Rightarrow>
           and_then (require (\<lambda>s. current_block s \<ge> available_at)
             (err Error_MinerExitUnavailable)) (\<lambda>_.
           and_then (query (\<lambda>s. locked_miner_bond cfg s mid operator)) (\<lambda>bond.
           and_then (if bond \<noteq> 0
                     then and_then (release_for cfg MinerBond operator bond) (\<lambda>_. ret ())
                     else ret ()) (\<lambda>_.
           and_then (modify (\<lambda>s. s\<lparr>MinerLockedBond := (MinerLockedBond s)(mid := None)\<rparr>)) (\<lambda>_.
           ret (miner\<lparr>cm_status := Disabled,
                      cm_bond_commitment := miner_bond_commitment cfg mid
                        (cm_operator_commitment miner) Disabled\<rparr>, ())))))
       | _ \<Rightarrow> throw (err Error_InvalidMinerStatus))))
     (\<lambda>_. deposit_activity_event cfg MinerBondWithdrawn)))"

definition deactivate_validator ::
  "'cur Config \<Rightarrow> RuntimeOrigin \<Rightarrow> ValidatorId \<Rightarrow> ('cur, unit) pallet" where
  "deactivate_validator cfg origin vid =
     and_then (lift_result (ensure_payload_signer cfg origin)) (\<lambda>operator.
     and_then (fetch (\<lambda>s. checked_add 64 (current_block s) (ValidatorExitCooldownBlocks cfg))
       (err Error_ArithmeticOverflow)) (\<lambda>available_at.
     and_then (try_mutate_validator vid (\<lambda>validator.
       and_then (lift_result (ensure_validator_operator cfg validator operator)) (\<lambda>_.
       and_then (ensure (cv_status validator = Pending \<or> cv_status validator = Active
                         \<or> cv_status validator = Slashed)
         (err Error_InvalidValidatorStatus)) (\<lambda>_.
       and_then (require (\<lambda>s. pending_of (PendingValidatorRequests s) vid = 0)
         (err Error_PendingAssignedRequests)) (\<lambda>_.
       and_then (remove_active_validator (cv_subnet_id validator) vid) (\<lambda>_.
       ret (validator\<lparr>cv_status := Exiting available_at,
                      cv_stake_commitment := validator_stake_commitment cfg vid
                        (cv_operator_commitment validator) (Exiting available_at)\<rparr>, ())))))))
     (\<lambda>_. deposit_activity_event cfg ValidatorExitStarted)))"

definition withdraw_validator_stake ::
  "'cur Config \<Rightarrow> RuntimeOrigin \<Rightarrow> ValidatorId \<Rightarrow> ('cur, unit) pallet" where
  "withdraw_validator_stake cfg origin vid = transactional (
     and_then (lift_result (ensure_payload_signer cfg origin)) (\<lambda>operator.
     and_then (try_mutate_validator vid (\<lambda>validator.
       and_then (lift_result (ensure_validator_operator cfg validator operator)) (\<lambda>_.
       case cv_status validator of
         Exiting available_at \<Rightarrow>
           and_then (require (\<lambda>s. current_block s \<ge> available_at)
             (err Error_ValidatorExitUnavailable)) (\<lambda>_.
           and_then (query (\<lambda>s. locked_validator_stake cfg s vid operator)) (\<lambda>stake.
           and_then (if stake \<noteq> 0
                     then and_then (release_for cfg ValidatorStake operator stake) (\<lambda>_. ret ())
                     else ret ()) (\<lambda>_.
           and_then (modify (\<lambda>s. s\<lparr>ValidatorLockedStake := (ValidatorLockedStake s)(vid := None)\<rparr>))
             (\<lambda>_.
           ret (validator\<lparr>cv_status := Disabled,
                          cv_stake_commitment := validator_stake_commitment cfg vid
                            (cv_operator_commitment validator) Disabled\<rparr>, ())))))
       | _ \<Rightarrow> throw (err Error_InvalidValidatorStatus))))
     (\<lambda>_. deposit_activity_event cfg ValidatorStakeWithdrawn)))"

section \<open>Slashing\<close>

definition is_exiting :: "RegistryStatus \<Rightarrow> bool" where
  "is_exiting status = (case status of Exiting _ \<Rightarrow> True | _ \<Rightarrow> False)"

definition ensure_slash_percent :: "'cur Config \<Rightarrow> nat \<Rightarrow> ('cur, unit) pallet" where
  "ensure_slash_percent cfg bps =
     ensure (bps \<ge> MinInvalidProofSlashBps cfg \<and> bps \<le> MaxInvalidProofSlashBps cfg)
       (err Error_InvalidSlashPercent)"

definition slash_miner_bond ::
  "'cur Config \<Rightarrow> MinerId \<Rightarrow> AccountId \<Rightarrow> nat \<Rightarrow> ('cur, Balance) pallet" where
  "slash_miner_bond cfg mid operator bps =
     and_then (ensure_slash_percent cfg bps) (\<lambda>_.
     and_then (try_mutate_miner mid (\<lambda>miner.
       and_then (lift_result (ensure_miner_operator cfg miner operator)) (\<lambda>_.
       and_then (query (\<lambda>s. locked_miner_bond cfg s mid operator)) (\<lambda>current_bond.
       and_then (lift_result (pro_rata_d current_bond bps)) (\<lambda>amount.
       and_then (ensure_burned_can_record amount) (\<lambda>_.
       and_then (with_currency (cur_burn_held (Currency cfg) MinerBond operator amount)) (\<lambda>burned.
       and_then (ok_or (checked_sub current_bond burned) (err Error_ArithmeticOverflow)) (\<lambda>remaining.
       and_then (modify (\<lambda>s. s\<lparr>MinerLockedBond := (MinerLockedBond s)(mid \<mapsto> remaining)\<rparr>)) (\<lambda>_.
       let status = (if remaining < MinMinerBond cfg \<and> \<not> is_exiting (cm_status miner)
                     then Slashed else cm_status miner) in
       ret (miner\<lparr>cm_status := status,
                  cm_bond_commitment :=
                    miner_bond_commitment cfg mid (cm_operator_commitment miner) status\<rparr>,
            burned))))))))))
     (\<lambda>amount. and_then (record_burned amount) (\<lambda>_. ret amount)))"

definition slash_validator_stake ::
  "'cur Config \<Rightarrow> ValidatorId \<Rightarrow> AccountId \<Rightarrow> nat \<Rightarrow> ('cur, Balance) pallet" where
  "slash_validator_stake cfg vid operator bps =
     and_then (ensure_slash_percent cfg bps) (\<lambda>_.
     and_then (try_mutate_validator vid (\<lambda>validator.
       and_then (lift_result (ensure_validator_operator cfg validator operator)) (\<lambda>_.
       and_then (query (\<lambda>s. locked_validator_stake cfg s vid operator)) (\<lambda>current_stake.
       and_then (lift_result (pro_rata_d current_stake bps)) (\<lambda>amount.
       and_then (ensure_burned_can_record amount) (\<lambda>_.
       and_then (with_currency (cur_burn_held (Currency cfg) ValidatorStake operator amount)) (\<lambda>burned.
       and_then (ok_or (checked_sub current_stake burned) (err Error_ArithmeticOverflow))
         (\<lambda>remaining.
       and_then (modify (\<lambda>s. s\<lparr>ValidatorLockedStake := (ValidatorLockedStake s)(vid \<mapsto> remaining)\<rparr>))
         (\<lambda>_.
       let status = (if remaining < MinValidatorStake cfg \<and> \<not> is_exiting (cv_status validator)
                     then Slashed else cv_status validator) in
       ret (validator\<lparr>cv_status := status,
                      cv_stake_commitment := validator_stake_commitment cfg vid
                        (cv_operator_commitment validator) status\<rparr>,
            burned))))))))))
     (\<lambda>amount. and_then (record_burned amount) (\<lambda>_. ret amount)))"

definition slash_miner ::
  "'cur Config \<Rightarrow> RuntimeOrigin \<Rightarrow> MinerId \<Rightarrow> AccountId \<Rightarrow> nat \<Rightarrow> ('cur, unit) pallet" where
  "slash_miner cfg origin mid operator bps = transactional (
     and_then (lift_result (ensure_public_call_payload_allowed cfg)) (\<lambda>_.
     and_then (lift_result (ensure_root origin)) (\<lambda>_.
     and_then (ensure_slash_percent cfg bps) (\<lambda>_.
     and_then (require (\<lambda>s. pending_of (PendingMinerRequests s) mid = 0)
       (err Error_PendingAssignedRequests)) (\<lambda>_.
     and_then (slash_miner_bond cfg mid operator bps) (\<lambda>_.
     deposit_activity_event cfg MinerSlashed))))))"

definition slash_validator ::
  "'cur Config \<Rightarrow> RuntimeOrigin \<Rightarrow> ValidatorId \<Rightarrow> AccountId \<Rightarrow> nat \<Rightarrow> ('cur, unit) pallet" where
  "slash_validator cfg origin vid operator bps = transactional (
     and_then (lift_result (ensure_public_call_payload_allowed cfg)) (\<lambda>_.
     and_then (lift_result (ensure_root origin)) (\<lambda>_.
     and_then (ensure_slash_percent cfg bps) (\<lambda>_.
     and_then (require (\<lambda>s. pending_of (PendingValidatorRequests s) vid = 0)
       (err Error_PendingAssignedRequests)) (\<lambda>_.
     and_then (slash_validator_stake cfg vid operator bps) (\<lambda>_.
     deposit_activity_event cfg ValidatorSlashed))))))"

section \<open>Identity metadata\<close>

definition set_miner_identity_commitments ::
  "'cur Config \<Rightarrow> RuntimeOrigin \<Rightarrow> MinerId \<Rightarrow> Commitment option \<Rightarrow> Commitment option \<Rightarrow>
   SignatureBundle \<Rightarrow> ('cur, unit) pallet" where
  "set_miner_identity_commitments cfg origin mid shielded endpoint bundle = transactional (
     and_then (lift_result (ensure_payload_signer cfg origin)) (\<lambda>operator.
     and_then (fetch (\<lambda>s. Miners s mid) (err Error_UnknownMiner)) (\<lambda>miner.
     and_then (lift_result (ensure_miner_operator cfg miner operator)) (\<lambda>_.
     and_then (lift_result (ensure_optional_commitment shielded)) (\<lambda>_.
     and_then (lift_result (ensure_optional_commitment endpoint)) (\<lambda>_.
     and_then (require (\<lambda>s. pending_of (PendingMinerRequests s) mid = 0)
       (err Error_PendingAssignedRequests)) (\<lambda>_.
     and_then
      (if shielded \<noteq> None \<or> endpoint \<noteq> None
       then
         (let challenge = miner_identity_signature_challenge cfg mid
                (cm_operator_commitment miner) shielded endpoint in
          and_then (lift_result (ensure_identity_signature_bundle_bound cfg bundle challenge
            (cm_operator_commitment miner) shielded endpoint)) (\<lambda>_.
          and_then (modify (\<lambda>s. s\<lparr>
            MinerIdentityCommitments := (MinerIdentityCommitments s)(mid \<mapsto>
              \<lparr>shielded_identity_commitment = shielded, endpoint_commitment = endpoint\<rparr>),
            MinerIdentitySignatureBundles := (MinerIdentitySignatureBundles s)(mid \<mapsto> bundle),
            MinerIdentitySignatureChallenges :=
              (MinerIdentitySignatureChallenges s)(mid \<mapsto> challenge)\<rparr>)) (\<lambda>_.
          if cm_status miner = Active
          then and_then (query (\<lambda>s. ensure_miner_locked_bond_record cfg s mid)) (\<lambda>_.
               query (\<lambda>s. insert_active_miner cfg s (cm_subnet_id miner) mid))
          else ret ())))
       else
         and_then (gets (\<lambda>s. MinerIdentityCommitments s mid \<noteq> None
             \<or> MinerIdentitySignatureBundles s mid \<noteq> None
             \<or> MinerIdentitySignatureChallenges s mid \<noteq> None)) (\<lambda>recorded.
         and_then (if recorded
             then lift_result (ensure_identity_signature_bundle_bound cfg bundle
               (miner_identity_signature_challenge cfg mid (cm_operator_commitment miner) None None)
               (cm_operator_commitment miner) None None)
             else ret ()) (\<lambda>_.
         and_then (modify (\<lambda>s. s\<lparr>
            MinerIdentityCommitments := (MinerIdentityCommitments s)(mid := None),
            MinerIdentitySignatureBundles := (MinerIdentitySignatureBundles s)(mid := None),
            MinerIdentitySignatureChallenges :=
              (MinerIdentitySignatureChallenges s)(mid := None)\<rparr>)) (\<lambda>_.
         if cm_status miner = Active then remove_active_miner (cm_subnet_id miner) mid
         else ret ()))))
      (\<lambda>_. deposit_activity_event cfg MinerIdentityCommitmentsUpdated))))))))"

definition set_validator_identity_commitments ::
  "'cur Config \<Rightarrow> RuntimeOrigin \<Rightarrow> ValidatorId \<Rightarrow> Commitment option \<Rightarrow> Commitment option \<Rightarrow>
   SignatureBundle \<Rightarrow> ('cur, unit) pallet" where
  "set_validator_identity_commitments cfg origin vid shielded endpoint bundle = transactional (
     and_then (lift_result (ensure_payload_signer cfg origin)) (\<lambda>operator.
     and_then (fetch (\<lambda>s. Validators s vid) (err Error_UnknownValidator)) (\<lambda>validator.
     and_then (lift_result (ensure_validator_operator cfg validator operator)) (\<lambda>_.
     and_then (lift_result (ensure_optional_commitment shielded)) (\<lambda>_.
     and_then (lift_result (ensure_optional_commitment endpoint)) (\<lambda>_.
     and_then (require (\<lambda>s. pending_of (PendingValidatorRequests s) vid = 0)
       (err Error_PendingAssignedRequests)) (\<lambda>_.
     and_then
      (if shielded \<noteq> None \<or> endpoint \<noteq> None
       then
         (let challenge = validator_identity_signature_challenge cfg vid
                (cv_operator_commitment validator) shielded endpoint in
          and_then (lift_result (ensure_identity_signature_bundle_bound cfg bundle challenge
            (cv_operator_commitment validator) shielded endpoint)) (\<lambda>_.
          and_then (if cv_status validator = Pending
             then query (\<lambda>s. ensure_validator_locked_stake_record cfg s vid)
             else ret ()) (\<lambda>_.
          and_then (modify (\<lambda>s. s\<lparr>
            ValidatorIdentityCommitments := (ValidatorIdentityCommitments s)(vid \<mapsto>
              \<lparr>shielded_identity_commitment = shielded, endpoint_commitment = endpoint\<rparr>),
            ValidatorIdentitySignatureBundles :=
              (ValidatorIdentitySignatureBundles s)(vid \<mapsto> bundle),
            ValidatorIdentitySignatureChallenges :=
              (ValidatorIdentitySignatureChallenges s)(vid \<mapsto> challenge)\<rparr>)) (\<lambda>_.
          try_mutate_validator vid (\<lambda>v.
            and_then (ensure (cv_status v = Active \<or> cv_status v = Pending)
              (err Error_InvalidValidatorStatus)) (\<lambda>_.
            let status = (if cv_status v = Pending then Active else cv_status v) in
            and_then (query (\<lambda>s. insert_active_validator cfg s (cv_subnet_id v) vid)) (\<lambda>_.
            ret (v\<lparr>cv_status := status,
                   cv_stake_commitment := validator_stake_commitment cfg vid
                     (cv_operator_commitment v) status\<rparr>, ()))))))))
       else
         and_then (gets (\<lambda>s. ValidatorIdentityCommitments s vid \<noteq> None
             \<or> ValidatorIdentitySignatureBundles s vid \<noteq> None
             \<or> ValidatorIdentitySignatureChallenges s vid \<noteq> None)) (\<lambda>recorded.
         and_then (if recorded
             then lift_result (ensure_identity_signature_bundle_bound cfg bundle
               (validator_identity_signature_challenge cfg vid (cv_operator_commitment validator)
                  None None)
               (cv_operator_commitment validator) None None)
             else ret ()) (\<lambda>_.
         and_then (modify (\<lambda>s. s\<lparr>
            ValidatorIdentityCommitments := (ValidatorIdentityCommitments s)(vid := None),
            ValidatorIdentitySignatureBundles := (ValidatorIdentitySignatureBundles s)(vid := None),
            ValidatorIdentitySignatureChallenges :=
              (ValidatorIdentitySignatureChallenges s)(vid := None)\<rparr>)) (\<lambda>_.
         if cv_status validator = Active
         then try_mutate_validator vid (\<lambda>v.
            and_then (remove_active_validator (cv_subnet_id v) vid) (\<lambda>_.
            ret (v\<lparr>cv_status := Pending,
                   cv_stake_commitment := validator_stake_commitment cfg vid
                     (cv_operator_commitment v) Pending\<rparr>, ())))
         else ret ()))))
      (\<lambda>_. deposit_activity_event cfg ValidatorIdentityCommitmentsUpdated))))))))"

end
