(* ===== verification/Pallet_Requests.thy ===== *)
theory Pallet_Requests
  imports Pallet_Registry
begin

text \<open>
  Inference requests: opening with escrow, cancellation, expiry, proof submission with
  settlement, rejection with refund, challenges, and the counters they maintain.
\<close>

section \<open>Counters\<close>

definition ensure_request_id_matches_next :: "RequestId \<Rightarrow> ('cur, unit) pallet" where
  "ensure_request_id_matches_next rid =
     require (\<lambda>s. rid = RequestCount s) (err Error_InvalidRequestId)"

definition ensure_request_id_can_advance :: "RequestId \<Rightarrow> ('cur, RequestId) pallet" where
  "ensure_request_id_can_advance rid =
     and_then (ensure_request_id_matches_next rid) (\<lambda>_.
     ok_or (checked_add 64 rid 1) (err Error_ArithmeticOverflow))"

definition ensure_next_request_id :: "RequestId \<Rightarrow> ('cur, unit) pallet" where
  "ensure_next_request_id rid =
     and_then (ensure_request_id_can_advance rid) (\<lambda>n.
     modify (\<lambda>s. s\<lparr>RequestCount := n\<rparr>))"

definition increment_pending_assignment :: "MinerId \<Rightarrow> ValidatorId \<Rightarrow> ('cur, unit) pallet" where
  "increment_pending_assignment mid vid =
     and_then (fetch (\<lambda>s. checked_add 64 (pending_of (PendingMinerRequests s) mid) 1)
       (err Error_ArithmeticOverflow)) (\<lambda>n.
     and_then (modify (\<lambda>s. s\<lparr>PendingMinerRequests := (PendingMinerRequests s)(mid \<mapsto> n)\<rparr>)) (\<lambda>_.
     and_then (fetch (\<lambda>s. checked_add 64 (pending_of (PendingValidatorRequests s) vid) 1)
       (err Error_ArithmeticOverflow)) (\<lambda>n'.
     modify (\<lambda>s. s\<lparr>PendingValidatorRequests := (PendingValidatorRequests s)(vid \<mapsto> n')\<rparr>))))"

text \<open>The closure that both \<open>try_mutate_exists\<close> calls run: the counter must exist and be positive;
  an entry that reaches zero is removed.\<close>

definition decremented :: "RequestId option \<Rightarrow> DispatchError + RequestId option" where
  "decremented maybe_count =
     bind_r (ok_or_r maybe_count (err Error_PendingAssignmentUnderflow)) (\<lambda>count.
     bind_r (ok_or_r (checked_sub count 1) (err Error_PendingAssignmentUnderflow)) (\<lambda>n.
     Inr (if n = 0 then None else Some n)))"

definition decrement_pending_assignment :: "MinerId \<Rightarrow> ValidatorId \<Rightarrow> ('cur, unit) pallet" where
  "decrement_pending_assignment mid vid =
     and_then (query (\<lambda>s. decremented (PendingMinerRequests s mid))) (\<lambda>n.
     and_then (modify (\<lambda>s. s\<lparr>PendingMinerRequests := (PendingMinerRequests s)(mid := n)\<rparr>)) (\<lambda>_.
     and_then (query (\<lambda>s. decremented (PendingValidatorRequests s vid))) (\<lambda>n'.
     modify (\<lambda>s. s\<lparr>PendingValidatorRequests := (PendingValidatorRequests s)(vid := n')\<rparr>))))"

fun status_count :: "InferenceRequestStatus \<Rightarrow> 'cur Storage \<Rightarrow> RequestId" where
  "status_count Request_Pending s = PendingInferenceRequestCount s"
| "status_count Request_Settled s = SettledInferenceRequestCount s"
| "status_count Request_Cancelled s = CancelledInferenceRequestCount s"
| "status_count Request_Rejected s = RejectedInferenceRequestCount s"
| "status_count Request_Expired s = ExpiredInferenceRequestCount s"

fun put_status_count :: "InferenceRequestStatus \<Rightarrow> RequestId \<Rightarrow> 'cur Storage \<Rightarrow> 'cur Storage" where
  "put_status_count Request_Pending n s = s\<lparr>PendingInferenceRequestCount := n\<rparr>"
| "put_status_count Request_Settled n s = s\<lparr>SettledInferenceRequestCount := n\<rparr>"
| "put_status_count Request_Cancelled n s = s\<lparr>CancelledInferenceRequestCount := n\<rparr>"
| "put_status_count Request_Rejected n s = s\<lparr>RejectedInferenceRequestCount := n\<rparr>"
| "put_status_count Request_Expired n s = s\<lparr>ExpiredInferenceRequestCount := n\<rparr>"

definition increment_request_count :: "RequestId \<Rightarrow> DispatchError + RequestId" where
  "increment_request_count count = ok_or_r (checked_add 64 count 1) (err Error_ArithmeticOverflow)"

definition decrement_request_count :: "RequestId \<Rightarrow> DispatchError + RequestId" where
  "decrement_request_count count =
     ok_or_r (checked_sub count 1) (err Error_RequestStatusCounterUnderflow)"

definition increment_request_status_count :: "InferenceRequestStatus \<Rightarrow> ('cur, unit) pallet" where
  "increment_request_status_count status =
     and_then (query (\<lambda>s. increment_request_count (status_count status s))) (\<lambda>n.
     modify (put_status_count status n))"

definition decrement_request_status_count :: "InferenceRequestStatus \<Rightarrow> ('cur, unit) pallet" where
  "decrement_request_status_count status =
     and_then (query (\<lambda>s. decrement_request_count (status_count status s))) (\<lambda>n.
     modify (put_status_count status n))"

definition transition_request_status ::
  "InferenceRequestStatus \<Rightarrow> InferenceRequestStatus \<Rightarrow> ('cur, unit) pallet" where
  "transition_request_status old new =
     (if old = new then ret ()
      else and_then (decrement_request_status_count old) (\<lambda>_.
           increment_request_status_count new))"

section \<open>Accounting totals\<close>

definition clear_inference_accounting_totals :: "('cur, unit) pallet" where
  "clear_inference_accounting_totals = modify (\<lambda>s. s\<lparr>
     TotalInferenceEscrowed := 0, TotalMinerPayouts := 0, TotalValidatorFees := 0,
     TotalTreasuryFees := 0, TotalInferenceRefunded := 0\<rparr>)"

definition record_inference_escrow :: "Balance \<Rightarrow> ('cur, unit) pallet" where
  "record_inference_escrow pay = clear_inference_accounting_totals"

definition record_inference_settlement ::
  "Balance \<Rightarrow> Balance \<Rightarrow> Balance \<Rightarrow> ('cur, unit) pallet" where
  "record_inference_settlement miner_pay vfee tfee = clear_inference_accounting_totals"

definition record_inference_refund :: "Balance \<Rightarrow> ('cur, unit) pallet" where
  "record_inference_refund pay = clear_inference_accounting_totals"

definition ensure_inference_escrow_can_record :: "Balance \<Rightarrow> ('cur, unit) pallet" where
  "ensure_inference_escrow_can_record pay = ret ()"

definition ensure_inference_settlement_can_record ::
  "Balance \<Rightarrow> Balance \<Rightarrow> Balance \<Rightarrow> ('cur, unit) pallet" where
  "ensure_inference_settlement_can_record miner_pay vfee tfee = ret ()"

definition ensure_inference_refund_can_record :: "Balance \<Rightarrow> ('cur, unit) pallet" where
  "ensure_inference_refund_can_record pay = ret ()"

section \<open>Opening a request\<close>

definition ensure_inference_request_openable ::
  "RequestId \<Rightarrow> SubnetId \<Rightarrow> Commitment \<Rightarrow> Commitment \<Rightarrow> Commitment \<Rightarrow> Commitment \<Rightarrow>
   Balance \<Rightarrow> nat \<Rightarrow> nat \<Rightarrow> ('cur, unit) pallet" where
  "ensure_inference_request_openable rid sid input ablind tblind sblind pay vbps tbps =
     and_then (lift_result (ensure_commitment_d input)) (\<lambda>_.
     and_then (lift_result (ensure_commitment_d ablind)) (\<lambda>_.
     and_then (lift_result (ensure_commitment_d tblind)) (\<lambda>_.
     and_then (lift_result (ensure_commitment_d sblind)) (\<lambda>_.
     and_then (require (\<lambda>s. InferenceRequests s rid = None) (err Error_DuplicateRequest)) (\<lambda>_.
     and_then (ensure (pay > 0) (err Error_InvalidPayment)) (\<lambda>_.
     and_then (lift_result (validate_fee_split vbps tbps)) (\<lambda>_.
     and_then (fetch (\<lambda>s. Subnets s sid) (err Error_UnknownSubnet)) (\<lambda>subnet.
     ensure (cs_active subnet) (err Error_NotActive)))))))))"

definition ensure_committed_request_payload_preflight ::
  "'cur Config \<Rightarrow> RequestId \<Rightarrow> InferenceRequestCommitmentParams \<Rightarrow> ('cur, unit) pallet" where
  "ensure_committed_request_payload_preflight cfg rid params =
     and_then (lift_result (ensure_commitment_d (kp_input_commitment params))) (\<lambda>_.
     and_then (lift_result (ensure_commitment_d (kp_assignment_commitment params))) (\<lambda>_.
     and_then (lift_result (ensure_commitment_d (kp_timing_commitment params))) (\<lambda>_.
     and_then (lift_result (ensure_commitment_d (kp_terms_commitment params))) (\<lambda>_.
     and_then (require (\<lambda>s. InferenceRequests s rid = None) (err Error_DuplicateRequest)) (\<lambda>_.
     and_then (ensure_request_id_matches_next rid) (\<lambda>_.
     and_then (require (\<lambda>s. kp_created_at params = current_block s) (err Error_RequestMismatch)) (\<lambda>_.
     and_then (ensure (kp_timing_commitment params
                 \<noteq> legacy_request_timing_commitment cfg rid (kp_created_at params))
       (err Error_MissingCommitment)) (\<lambda>_.
     and_then (ensure (kp_payment params > 0) (err Error_InvalidPayment)) (\<lambda>_.
     and_then (lift_result (validate_fee_split (kp_validator_fee_bps params)
       (kp_treasury_fee_bps params))) (\<lambda>_.
     and_then (ensure (kp_terms_commitment params
                 \<noteq> legacy_request_terms_commitment cfg rid (kp_payment params)
                     (kp_validator_fee_bps params) (kp_treasury_fee_bps params))
       (err Error_MissingCommitment)) (\<lambda>_.
     and_then (fetch (\<lambda>s. Subnets s (kp_subnet_id params)) (err Error_UnknownSubnet)) (\<lambda>subnet.
     ensure (cs_active subnet) (err Error_NotActive)))))))))))))"

definition ensure_request_assignment ::
  "'cur Config \<Rightarrow> SubnetId \<Rightarrow> MinerId \<Rightarrow> ValidatorId \<Rightarrow> ('cur, unit) pallet" where
  "ensure_request_assignment cfg sid mid vid =
     and_then (fetch (\<lambda>s. Miners s mid) (err Error_UnknownMiner)) (\<lambda>miner.
     and_then (fetch (\<lambda>s. Validators s vid) (err Error_UnknownValidator)) (\<lambda>validator.
     and_then (ensure (cm_subnet_id miner = sid \<and> cv_subnet_id validator = sid)
       (err Error_ParticipantMismatch)) (\<lambda>_.
     and_then (ensure (cm_status miner = Active \<and> cv_status validator = Active)
       (err Error_NotActive)) (\<lambda>_.
     and_then (lift_result (ensure_distinct_operators miner validator)) (\<lambda>_.
     query (\<lambda>s. ensure_participant_signature_bundles cfg s mid vid))))))"

definition open_inference_request_with_commitments ::
  "'cur Config \<Rightarrow> AccountId \<Rightarrow> RequestId \<Rightarrow> SubnetId \<Rightarrow> MinerId \<Rightarrow> ValidatorId \<Rightarrow> Commitment \<Rightarrow>
   Commitment \<Rightarrow> Commitment \<Rightarrow> Commitment \<Rightarrow> Balance \<Rightarrow> ('cur, unit) pallet" where
  "open_inference_request_with_commitments cfg user rid sid mid vid input assignment_c terms_c
     timing_c pay =
     and_then (ensure_request_assignment cfg sid mid vid) (\<lambda>_.
     and_then (ensure_next_request_id rid) (\<lambda>_.
     and_then (ensure_inference_escrow_can_record pay) (\<lambda>_.
     and_then (hold_for cfg InferencePayment user pay) (\<lambda>_.
     and_then (increment_pending_assignment mid vid) (\<lambda>_.
     and_then (increment_request_status_count Request_Pending) (\<lambda>_.
     and_then (record_inference_escrow pay) (\<lambda>_.
     and_then (modify (\<lambda>s. s\<lparr>InferenceRequests := (InferenceRequests s)(rid \<mapsto> \<lparr>
         cr_request_id = rid,
         cr_user_commitment = request_user_commitment cfg user,
         cr_subnet_id = sid,
         cr_assignment_commitment = assignment_c,
         cr_input_commitment = input,
         cr_terms_commitment = terms_c,
         cr_timing_commitment = timing_c,
         cr_status = Request_Pending\<rparr>)\<rparr>)) (\<lambda>_.
     deposit_activity_event cfg InferenceRequested))))))))"

definition open_inference_request ::
  "'cur Config \<Rightarrow> AccountId \<Rightarrow> RequestId \<Rightarrow> SubnetId \<Rightarrow> MinerId \<Rightarrow> ValidatorId \<Rightarrow> Commitment \<Rightarrow>
   Commitment \<Rightarrow> Commitment \<Rightarrow> Commitment \<Rightarrow> Balance \<Rightarrow> nat \<Rightarrow> nat \<Rightarrow> ('cur, unit) pallet" where
  "open_inference_request cfg user rid sid mid vid input ablind tblind sblind pay vbps tbps =
     and_then (gets current_block) (\<lambda>created.
     let assignment_c = request_assignment_commitment cfg rid sid mid vid ablind;
         terms_c = request_terms_commitment cfg rid pay vbps tbps sblind;
         timing_c = request_timing_commitment cfg rid created tblind
     in open_inference_request_with_commitments cfg user rid sid mid vid input assignment_c
          terms_c timing_c pay)"

text \<open>The part that \<open>request_inference\<close> and \<open>request_inference_auto_route\<close> have in common.\<close>

definition route_and_open ::
  "'cur Config \<Rightarrow> AccountId \<Rightarrow> RequestId \<Rightarrow> AutoRouteInferenceRequestParams \<Rightarrow> ('cur, unit) pallet" where
  "route_and_open cfg user rid params =
     and_then (ensure_inference_request_openable rid (ap_subnet_id params)
       (ap_input_commitment params) (ap_assignment_blinding params) (ap_timing_blinding params)
       (ap_terms_blinding params) (ap_payment params) (ap_validator_fee_bps params)
       (ap_treasury_fee_bps params)) (\<lambda>_.
     and_then (ensure_request_id_can_advance rid) (\<lambda>_.
     and_then (fetch (\<lambda>s. route_assignment cfg s (ap_subnet_id params) rid
         (ap_assignment_blinding params)) (err Error_NoRouteAvailable)) (\<lambda>assignment.
     open_inference_request cfg user rid (ap_subnet_id params) (as_miner_id assignment)
       (as_validator_id assignment) (ap_input_commitment params) (ap_assignment_blinding params)
       (ap_timing_blinding params) (ap_terms_blinding params) (ap_payment params)
       (ap_validator_fee_bps params) (ap_treasury_fee_bps params))))"

definition request_inference ::
  "'cur Config \<Rightarrow> RuntimeOrigin \<Rightarrow> RequestId \<Rightarrow> InferenceRequestParams \<Rightarrow> ('cur, unit) pallet" where
  "request_inference cfg origin rid params = transactional (
     and_then (lift_result (ensure_payload_signer cfg origin)) (\<lambda>user.
     and_then (ensure (rp_miner_id params = 0 \<and> rp_validator_id params = 0)
       (err Error_RouteAssignmentMustBeHidden)) (\<lambda>_.
     route_and_open cfg user rid \<lparr>
       ap_subnet_id = rp_subnet_id params,
       ap_input_commitment = rp_input_commitment params,
       ap_assignment_blinding = rp_assignment_blinding params,
       ap_timing_blinding = rp_timing_blinding params,
       ap_terms_blinding = rp_terms_blinding params,
       ap_payment = rp_payment params,
       ap_validator_fee_bps = rp_validator_fee_bps params,
       ap_treasury_fee_bps = rp_treasury_fee_bps params\<rparr>)))"

definition request_inference_auto_route ::
  "'cur Config \<Rightarrow> RuntimeOrigin \<Rightarrow> RequestId \<Rightarrow> AutoRouteInferenceRequestParams \<Rightarrow>
   ('cur, unit) pallet" where
  "request_inference_auto_route cfg origin rid params = transactional (
     and_then (lift_result (ensure_payload_signer cfg origin)) (\<lambda>user.
     route_and_open cfg user rid params))"

definition request_inference_commitments ::
  "'cur Config \<Rightarrow> RuntimeOrigin \<Rightarrow> RequestId \<Rightarrow> InferenceRequestCommitmentParams \<Rightarrow>
   ('cur, unit) pallet" where
  "request_inference_commitments cfg origin rid params = transactional (
     and_then (lift_result (ensure_payload_signer cfg origin)) (\<lambda>user.
     and_then (ensure_committed_request_payload_preflight cfg rid params) (\<lambda>_.
     throw (err Error_UnsupportedCommittedRequestPayload))))"

section \<open>Closing a request\<close>

definition try_mutate_request ::
  "RequestId \<Rightarrow> (ChainInferenceRequest \<Rightarrow> ('cur, ChainInferenceRequest \<times> 'a) pallet) \<Rightarrow>
   ('cur, 'a) pallet" where
  "try_mutate_request rid body =
     and_then (fetch (\<lambda>s. InferenceRequests s rid) (err Error_UnknownRequest)) (\<lambda>request.
     and_then (body request) (\<lambda>(request', x).
     and_then (modify (\<lambda>s. s\<lparr>InferenceRequests := (InferenceRequests s)(rid \<mapsto> request')\<rparr>)) (\<lambda>_.
     ret x)))"

text \<open>\<open>cancel_inference\<close> and \<open>expire_inference\<close> differ in who may call, whose escrow is released,
  the final status and the event.\<close>

definition close_stale_request ::
  "'cur Config \<Rightarrow> RequestId \<Rightarrow> AccountId \<Rightarrow> MinerId \<Rightarrow> ValidatorId \<Rightarrow> Commitment \<Rightarrow>
   InferenceRequestTimingWitness \<Rightarrow> InferenceRequestTermsWitness \<Rightarrow> InferenceRequestStatus \<Rightarrow>
   ('cur, unit) pallet" where
  "close_stale_request cfg rid user mid vid ablind timing_witness terms_witness final_status =
     and_then (try_mutate_request rid (\<lambda>request.
       and_then (lift_result (ensure_request_user cfg request user)) (\<lambda>_.
       and_then (lift_result (ensure_request_assignment_witness cfg request mid vid ablind)) (\<lambda>_.
       and_then (lift_result (ensure_request_timing_witness cfg request timing_witness)) (\<lambda>_.
       and_then (lift_result (ensure_request_terms_witness cfg request terms_witness)) (\<lambda>_.
       and_then (ensure (cr_status request = Request_Pending) (err Error_RequestAlreadySettled)) (\<lambda>_.
       and_then (ok_or (checked_add 64 (created_at timing_witness) (RequestCancelDelayBlocks cfg))
         (err Error_ArithmeticOverflow)) (\<lambda>available_at.
       and_then (require (\<lambda>s. current_block s \<ge> available_at)
         (err Error_RequestCancelUnavailable)) (\<lambda>_.
       and_then (ensure_inference_refund_can_record (payment (terms terms_witness))) (\<lambda>_.
       and_then (release_for cfg InferencePayment user (payment (terms terms_witness))) (\<lambda>_.
       ret (request\<lparr>cr_status := final_status\<rparr>, payment (terms terms_witness)))))))))))))
     (\<lambda>pay.
     and_then (decrement_pending_assignment mid vid) (\<lambda>_.
     and_then (transition_request_status Request_Pending final_status) (\<lambda>_.
     record_inference_refund pay)))"

definition cancel_inference ::
  "'cur Config \<Rightarrow> RuntimeOrigin \<Rightarrow> RequestId \<Rightarrow> MinerId \<Rightarrow> ValidatorId \<Rightarrow> Commitment \<Rightarrow>
   InferenceRequestTimingWitness \<Rightarrow> InferenceRequestTermsWitness \<Rightarrow> ('cur, unit) pallet" where
  "cancel_inference cfg origin rid mid vid ablind timing_witness terms_witness = transactional (
     and_then (lift_result (ensure_payload_signer cfg origin)) (\<lambda>user.
     and_then (close_stale_request cfg rid user mid vid ablind timing_witness terms_witness
       Request_Cancelled) (\<lambda>_.
     deposit_activity_event cfg InferenceCancelled)))"

definition expire_inference ::
  "'cur Config \<Rightarrow> RuntimeOrigin \<Rightarrow> RequestId \<Rightarrow> AccountId \<Rightarrow> MinerId \<Rightarrow> ValidatorId \<Rightarrow> Commitment \<Rightarrow>
   InferenceRequestTimingWitness \<Rightarrow> InferenceRequestTermsWitness \<Rightarrow> ('cur, unit) pallet" where
  "expire_inference cfg origin rid request_user mid vid ablind timing_witness terms_witness =
     transactional (
     and_then (lift_result (ensure_payload_signer cfg origin)) (\<lambda>keeper.
     and_then (close_stale_request cfg rid request_user mid vid ablind timing_witness terms_witness
       Request_Expired) (\<lambda>_.
     deposit_activity_event cfg InferenceExpired)))"

section \<open>Proof validation\<close>

definition ensure_submission_fresh :: "'cur Config \<Rightarrow> BlockNumber \<Rightarrow> ('cur, unit) pallet" where
  "ensure_submission_fresh cfg submitted =
     and_then (gets current_block) (\<lambda>current.
     and_then (ensure (submitted \<le> current) (err Error_ProofSubmittedFromFuture)) (\<lambda>_.
     ensure (submitted \<ge> saturating_sub current (MaxProofSubmissionAgeBlocks cfg))
       (err Error_ProofSubmissionExpired)))"

definition validate_submission_for_request ::
  "'cur Config \<Rightarrow> InferenceProofSubmission \<Rightarrow> Commitment \<Rightarrow>
   ('cur, ProofVerificationPolicy \<times> ChainMiner \<times> ChainValidator) pallet" where
  "validate_submission_for_request cfg sub ablind =
     and_then (lift_result (ensure_commitment_d (input_commitment sub))) (\<lambda>_.
     and_then (lift_result (ensure_commitment_d (output_commitment sub))) (\<lambda>_.
     and_then (lift_result (ensure_commitment_d (model_commitment sub))) (\<lambda>_.
     and_then (lift_result (ensure_proof_envelope (envelope sub) (proof_system sub))) (\<lambda>_.
     and_then (require (\<lambda>s. ProofRecords s (request_id sub) = None) (err Error_DuplicateProof)) (\<lambda>_.
     and_then (fetch (\<lambda>s. InferenceRequests s (request_id sub)) (err Error_UnknownRequest)) (\<lambda>request.
     and_then (ensure (cr_status request = Request_Pending) (err Error_RequestAlreadySettled)) (\<lambda>_.
     and_then (ensure (cr_subnet_id request = subnet_id sub
                       \<and> cr_input_commitment request = input_commitment sub)
       (err Error_RequestMismatch)) (\<lambda>_.
     and_then (lift_result (ensure_request_assignment_witness cfg request (miner_id sub)
       (validator_id sub) ablind)) (\<lambda>_.
     and_then (fetch (\<lambda>s. Subnets s (subnet_id sub)) (err Error_UnknownSubnet)) (\<lambda>subnet.
     and_then (ensure (cs_proof_system subnet = proof_system sub) (err Error_ProofSystemMismatch)) (\<lambda>_.
     and_then (ensure (proof_size_bytes sub \<ge> MinProofSizeBytes cfg
                       \<and> proof_size_bytes sub \<le> MaxProofSizeBytes cfg)
       (err Error_InvalidProofSize)) (\<lambda>_.
     and_then (ensure (verification_latency_ms sub \<le> MaxVerificationLatencyMs cfg)
       (err Error_LatencyExceeded)) (\<lambda>_.
     and_then (ensure_submission_fresh cfg (submitted_at sub)) (\<lambda>_.
     and_then (lift_result (ensure_proof_transcript_witness cfg sub)) (\<lambda>_.
     and_then (fetch (\<lambda>s. Miners s (miner_id sub)) (err Error_UnknownMiner)) (\<lambda>miner.
     and_then (ensure (cm_subnet_id miner = subnet_id sub \<and> cm_status miner = Active)
       (err Error_NotActive)) (\<lambda>_.
     and_then (ensure (cm_model_commitment miner = model_commitment sub)
       (err Error_ModelCommitmentMismatch)) (\<lambda>_.
     and_then (fetch (\<lambda>s. Validators s (validator_id sub)) (err Error_UnknownValidator)) (\<lambda>validator.
     and_then (ensure (cv_subnet_id validator = subnet_id sub \<and> cv_status validator = Active)
       (err Error_NotActive)) (\<lambda>_.
     and_then (lift_result (ensure_distinct_operators miner validator)) (\<lambda>_.
     and_then (query (\<lambda>s. ensure_participant_signature_bundles cfg s (miner_id sub)
       (validator_id sub))) (\<lambda>_.
     ret (\<lparr>pv_proof_system = cs_proof_system subnet,
           pv_model_commitment = cm_model_commitment miner,
           pv_min_proof_size_bytes = MinProofSizeBytes cfg,
           pv_max_proof_size_bytes = MaxProofSizeBytes cfg,
           pv_max_verification_latency_ms = MaxVerificationLatencyMs cfg\<rparr>,
          miner, validator)))))))))))))))))))))))"

definition validate_submission ::
  "'cur Config \<Rightarrow> InferenceProofSubmission \<Rightarrow> AccountId \<Rightarrow> AccountId \<Rightarrow> Commitment \<Rightarrow>
   ('cur, ProofVerificationPolicy) pallet" where
  "validate_submission cfg sub validator_operator miner_operator ablind =
     and_then (validate_submission_for_request cfg sub ablind) (\<lambda>(policy, miner, validator).
     and_then (lift_result (ensure_miner_operator cfg miner miner_operator)) (\<lambda>_.
     and_then (lift_result (ensure_validator_submission_operator cfg validator
       validator_operator)) (\<lambda>_.
     ret policy)))"

definition validate_challenge_submission ::
  "'cur Config \<Rightarrow> InferenceProofSubmission \<Rightarrow> AccountId \<Rightarrow> Commitment \<Rightarrow>
   ('cur, ProofVerificationPolicy) pallet" where
  "validate_challenge_submission cfg sub miner_operator ablind =
     and_then (validate_submission_for_request cfg sub ablind) (\<lambda>(policy, miner, validator).
     and_then (lift_result (ensure_miner_operator cfg miner miner_operator)) (\<lambda>_.
     ret policy))"

section \<open>Settlement and refund\<close>

definition payment_split ::
  "Balance \<Rightarrow> nat \<Rightarrow> nat \<Rightarrow> DispatchError + (Balance \<times> Balance \<times> Balance)" where
  "payment_split pay vbps tbps =
     bind_r (validate_fee_split vbps tbps) (\<lambda>_.
     bind_r (pro_rata_d pay vbps) (\<lambda>vfee.
     bind_r (pro_rata_d pay tbps) (\<lambda>tfee.
     bind_r (ok_or_r (checked_add balance_bits vfee tfee) (err Error_ArithmeticOverflow))
       (\<lambda>assigned.
     bind_r (ok_or_r (checked_sub pay assigned) (err Error_ArithmeticOverflow)) (\<lambda>miner_pay.
     Inr (miner_pay, vfee, tfee))))))"

definition transfer_held_payment ::
  "'cur Config \<Rightarrow> AccountId \<Rightarrow> AccountId \<Rightarrow> Balance \<Rightarrow> ('cur, unit) pallet" where
  "transfer_held_payment cfg source dest amount =
     (if amount = 0 then ret ()
      else and_then (with_currency
             (cur_transfer_on_hold (Currency cfg) InferencePayment source dest amount)) (\<lambda>_.
           ret ()))"

definition settle_request_payment ::
  "'cur Config \<Rightarrow> InferenceProofSubmission \<Rightarrow> AccountId \<Rightarrow> AccountId \<Rightarrow> AccountId \<Rightarrow> Commitment \<Rightarrow>
   InferenceRequestTermsWitness \<Rightarrow> ('cur, Balance \<times> Balance \<times> Balance) pallet" where
  "settle_request_payment cfg sub request_user miner_operator validator_operator ablind
     terms_witness =
     try_mutate_request (request_id sub) (\<lambda>request.
       and_then (ensure (cr_status request = Request_Pending) (err Error_RequestAlreadySettled)) (\<lambda>_.
       and_then (ensure (cr_subnet_id request = subnet_id sub
                         \<and> cr_input_commitment request = input_commitment sub)
         (err Error_RequestMismatch)) (\<lambda>_.
       and_then (lift_result (ensure_request_assignment_witness cfg request (miner_id sub)
         (validator_id sub) ablind)) (\<lambda>_.
       and_then (lift_result (ensure_request_user cfg request request_user)) (\<lambda>_.
       and_then (lift_result (ensure_request_terms_witness cfg request terms_witness)) (\<lambda>_.
       let t = terms terms_witness in
       and_then (fetch (\<lambda>s. Miners s (miner_id sub)) (err Error_UnknownMiner)) (\<lambda>miner.
       and_then (fetch (\<lambda>s. Validators s (validator_id sub)) (err Error_UnknownValidator)) (\<lambda>validator.
       and_then (lift_result (ensure_miner_operator cfg miner miner_operator)) (\<lambda>_.
       and_then (lift_result (ensure_validator_operator cfg validator validator_operator)) (\<lambda>_.
       and_then (lift_result (payment_split (payment t) (validator_fee_bps t)
         (treasury_fee_bps t))) (\<lambda>(miner_pay, vfee, tfee).
       and_then (ensure_inference_settlement_can_record miner_pay vfee tfee) (\<lambda>_.
       and_then (transfer_held_payment cfg request_user miner_operator miner_pay) (\<lambda>_.
       and_then (transfer_held_payment cfg request_user validator_operator vfee) (\<lambda>_.
       and_then (transfer_held_payment cfg request_user (ProtocolTreasury cfg) tfee) (\<lambda>_.
       and_then (decrement_pending_assignment (miner_id sub) (validator_id sub)) (\<lambda>_.
       and_then (transition_request_status Request_Pending Request_Settled) (\<lambda>_.
       and_then (record_inference_settlement miner_pay vfee tfee) (\<lambda>_.
       ret (request\<lparr>cr_status := Request_Settled\<rparr>, (miner_pay, vfee, tfee))))))))))))))))))))"

definition ensure_rejected_request_witnesses ::
  "'cur Config \<Rightarrow> ChainInferenceRequest \<Rightarrow> InferenceProofSubmission \<Rightarrow> AccountId \<Rightarrow> Commitment \<Rightarrow>
   InferenceRequestTermsWitness \<Rightarrow> DispatchError + unit" where
  "ensure_rejected_request_witnesses cfg request sub request_user ablind terms_witness =
     bind_r (ensure_r (cr_status request = Request_Pending) (err Error_RequestAlreadySettled)) (\<lambda>_.
     bind_r (ensure_r (cr_subnet_id request = subnet_id sub
                       \<and> cr_input_commitment request = input_commitment sub)
       (err Error_RequestMismatch)) (\<lambda>_.
     bind_r (ensure_request_assignment_witness cfg request (miner_id sub) (validator_id sub)
       ablind) (\<lambda>_.
     bind_r (ensure_request_user cfg request request_user) (\<lambda>_.
     ensure_request_terms_witness cfg request terms_witness))))"

definition ensure_rejected_request_refundable ::
  "'cur Config \<Rightarrow> InferenceProofSubmission \<Rightarrow> AccountId \<Rightarrow> Commitment \<Rightarrow>
   InferenceRequestTermsWitness \<Rightarrow> ('cur, unit) pallet" where
  "ensure_rejected_request_refundable cfg sub request_user ablind terms_witness =
     and_then (fetch (\<lambda>s. InferenceRequests s (request_id sub)) (err Error_UnknownRequest)) (\<lambda>request.
     and_then (lift_result (ensure_rejected_request_witnesses cfg request sub request_user ablind
       terms_witness)) (\<lambda>_.
     ensure_inference_refund_can_record (payment (terms terms_witness))))"

definition refund_rejected_request ::
  "'cur Config \<Rightarrow> InferenceProofSubmission \<Rightarrow> AccountId \<Rightarrow> Commitment \<Rightarrow>
   InferenceRequestTermsWitness \<Rightarrow> ('cur, Balance) pallet" where
  "refund_rejected_request cfg sub request_user ablind terms_witness =
     try_mutate_request (request_id sub) (\<lambda>request.
       and_then (lift_result (ensure_rejected_request_witnesses cfg request sub request_user ablind
         terms_witness)) (\<lambda>_.
       let t = terms terms_witness in
       and_then (ensure_inference_refund_can_record (payment t)) (\<lambda>_.
       and_then (release_for cfg InferencePayment request_user (payment t)) (\<lambda>_.
       and_then (decrement_pending_assignment (miner_id sub) (validator_id sub)) (\<lambda>_.
       and_then (transition_request_status Request_Pending Request_Rejected) (\<lambda>_.
       and_then (record_inference_refund (payment t)) (\<lambda>_.
       ret (request\<lparr>cr_status := Request_Rejected\<rparr>, payment t))))))))"

section \<open>Submitting and challenging proofs\<close>

definition submission_assignment_commitment ::
  "'cur Config \<Rightarrow> InferenceProofSubmission \<Rightarrow> Commitment \<Rightarrow> ('cur, Commitment) pallet" where
  "submission_assignment_commitment cfg sub ablind =
     and_then (fetch (\<lambda>s. InferenceRequests s (request_id sub)) (err Error_UnknownRequest)) (\<lambda>request.
     lift_result (resolve_request_assignment_commitment cfg request (miner_id sub)
       (validator_id sub) ablind))"

definition submit_proof ::
  "'cur Config \<Rightarrow> RuntimeOrigin \<Rightarrow> InferenceProofSubmission \<Rightarrow> AccountId \<Rightarrow> AccountId \<Rightarrow>
   Commitment \<Rightarrow> InferenceRequestTermsWitness \<Rightarrow> ('cur, unit) pallet" where
  "submit_proof cfg origin sub request_user miner_operator ablind terms_witness = transactional (
     and_then (lift_result (ensure_payload_signer cfg origin)) (\<lambda>validator_operator.
     and_then (validate_submission cfg sub validator_operator miner_operator ablind) (\<lambda>policy.
     and_then (lift_result (ProofVerifier_verify cfg sub policy)) (\<lambda>outcome.
     case outcome of
       Invalid bps \<Rightarrow>
         and_then (ensure_rejected_request_refundable cfg sub request_user ablind
           terms_witness) (\<lambda>_.
         and_then (slash_miner_bond cfg (miner_id sub) miner_operator bps) (\<lambda>_.
         and_then (slash_validator_stake cfg (validator_id sub) validator_operator bps) (\<lambda>_.
         and_then (refund_rejected_request cfg sub request_user ablind terms_witness) (\<lambda>_.
         deposit_activity_events cfg
           [MinerSlashed, ValidatorSlashed, ProofRejected, InferenceRefunded]))))
     | VerificationFailure \<Rightarrow> throw (err Error_VerifierError)
     | Valid \<Rightarrow>
         and_then (submission_assignment_commitment cfg sub ablind) (\<lambda>assignment_c.
         and_then (gets (\<lambda>s. proof_audit_commitment_for_assignment cfg sub (current_block s)
           assignment_c)) (\<lambda>audit_c.
         and_then (settle_request_payment cfg sub request_user miner_operator validator_operator
           ablind terms_witness) (\<lambda>_.
         and_then (modify (\<lambda>s. s\<lparr>ProofRecords := (ProofRecords s)(request_id sub \<mapsto> \<lparr>
             cp_request_id = request_id sub,
             cp_subnet_id = subnet_id sub,
             cp_assignment_commitment = assignment_c,
             cp_audit_commitment = audit_c,
             cp_proof_system = proof_system sub\<rparr>)\<rparr>)) (\<lambda>_.
         deposit_activity_events cfg [ProofAccepted, InferenceSettled]))))))))"

definition challenge_proof ::
  "'cur Config \<Rightarrow> RuntimeOrigin \<Rightarrow> InferenceProofSubmission \<Rightarrow> AccountId \<Rightarrow> AccountId \<Rightarrow>
   Commitment \<Rightarrow> InferenceRequestTermsWitness \<Rightarrow> ('cur, unit) pallet" where
  "challenge_proof cfg origin sub request_user miner_operator ablind terms_witness = transactional (
     and_then (lift_result (ensure_payload_signer cfg origin)) (\<lambda>challenger.
     and_then (validate_challenge_submission cfg sub miner_operator ablind) (\<lambda>policy.
     and_then (lift_result (ProofVerifier_verify cfg sub policy)) (\<lambda>outcome.
     case outcome of
       Invalid bps \<Rightarrow>
         and_then (ensure_rejected_request_refundable cfg sub request_user ablind
           terms_witness) (\<lambda>_.
         and_then (slash_miner_bond cfg (miner_id sub) miner_operator bps) (\<lambda>_.
         and_then (refund_rejected_request cfg sub request_user ablind terms_witness) (\<lambda>_.
         deposit_activity_events cfg
           [MinerSlashed, ProofRejected, ProofChallengeAccepted, InferenceRefunded])))
     | Valid \<Rightarrow> throw (err Error_ChallengeProofValid)
     | VerificationFailure \<Rightarrow> throw (err Error_VerifierError)))))"

end
