(* ===== verification/Pallet_Params.thy ===== *)
theory Pallet_Params
  imports Pallet_Requests
begin

text \<open>
  The public queries of the pallet: protocol parameters with the readiness blockers, and the
  redacted views of records and totals.
\<close>

section \<open>Readiness blockers\<close>

record ChainReadinessBlockers =
  proof_settlement_disabled :: bool
  production_zk_verifier_missing :: bool
  committed_request_payloads_missing :: bool
  shielded_call_payloads_missing :: bool
  shield_submitter_origin_privacy_missing :: bool
  shield_key_window_privacy_missing :: bool
  private_route_selection_missing :: bool
  account_commitment_blinding_missing :: bool
  private_routing_indexes_missing :: bool
  private_storage_keys_missing :: bool
  private_capital_accounting_missing :: bool
  private_event_metadata_missing :: bool
  signature_mode_not_full_post_quantum :: bool
  post_quantum_account_signatures_missing :: bool
  post_quantum_signature_crypto_verification_missing :: bool
  identity_signature_verification_missing :: bool
  external_audit_missing :: bool

definition privacy_blocked :: "ChainReadinessBlockers \<Rightarrow> bool" where
  "privacy_blocked b =
     (committed_request_payloads_missing b \<or> shielded_call_payloads_missing b
      \<or> shield_submitter_origin_privacy_missing b \<or> shield_key_window_privacy_missing b
      \<or> private_route_selection_missing b \<or> account_commitment_blinding_missing b
      \<or> private_routing_indexes_missing b \<or> private_storage_keys_missing b
      \<or> private_capital_accounting_missing b \<or> private_event_metadata_missing b)"

definition post_quantum_blocked :: "ChainReadinessBlockers \<Rightarrow> bool" where
  "post_quantum_blocked b =
     (signature_mode_not_full_post_quantum b \<or> post_quantum_account_signatures_missing b
      \<or> post_quantum_signature_crypto_verification_missing b
      \<or> identity_signature_verification_missing b)"

definition production_blocked :: "ChainReadinessBlockers \<Rightarrow> bool" where
  "production_blocked b =
     (proof_settlement_disabled b \<or> production_zk_verifier_missing b
      \<or> privacy_blocked b \<or> post_quantum_blocked b \<or> external_audit_missing b)"

section \<open>Protocol parameters\<close>

record ChainProtocolParams =
  pp_subnet_creation_burn :: Balance
  pp_miner_registration_burn :: Balance
  pp_min_miner_bond :: Balance
  pp_max_miner_bond :: Balance
  pp_max_active_miners_per_subnet :: nat
  pp_max_active_validators_per_subnet :: nat
  pp_min_validator_stake :: Balance
  pp_min_invalid_proof_slash_bps :: nat
  pp_max_invalid_proof_slash_bps :: nat
  pp_min_proof_size_bytes :: nat
  pp_max_proof_size_bytes :: nat
  pp_max_verification_latency_ms :: nat
  pp_max_proof_submission_age_blocks :: BlockNumber
  pp_proof_verifier_mode :: ProofVerifierMode
  pp_proof_settlement_enabled :: bool
  pp_production_zk_verifier :: bool
  pp_signature_mode :: SignatureMode
  pp_committed_request_payloads :: bool
  pp_shielded_call_payloads :: bool
  pp_shield_submitter_origin_privacy :: bool
  pp_shield_key_window_privacy :: bool
  pp_private_route_selection :: bool
  pp_account_commitment_blinding :: bool
  pp_private_routing_indexes :: bool
  pp_private_storage_keys :: bool
  pp_private_capital_accounting :: bool
  pp_private_event_metadata :: bool
  pp_public_event_payloads_redacted :: bool
  pp_public_query_ids_redacted :: bool
  pp_public_subnet_records_redacted :: bool
  pp_route_availability_ids_redacted :: bool
  pp_public_route_availability_redacted :: bool
  pp_public_accounting_totals_redacted :: bool
  pp_public_accounting_migration_failures_redacted :: bool
  pp_public_migration_health_redacted :: bool
  pp_public_request_status_counts_redacted :: bool
  pp_public_registry_records_redacted :: bool
  pp_public_request_records_redacted :: bool
  pp_public_proof_records_redacted :: bool
  pp_public_next_request_id_redacted :: bool
  pp_public_registry_counts_redacted :: bool
  pp_public_total_burned_redacted :: bool
  pp_public_identity_metadata_redacted :: bool
  pp_post_quantum_account_signatures :: bool
  pp_post_quantum_signature_crypto_verification :: bool
  pp_privacy_complete :: bool
  pp_post_quantum_complete :: bool
  pp_production_ready :: bool
  pp_identity_signature_commitment_policy :: bool
  pp_identity_signature_challenge_binding :: bool
  pp_identity_signature_verification :: bool
  pp_readiness_blockers :: ChainReadinessBlockers
  pp_miner_exit_cooldown_blocks :: BlockNumber
  pp_validator_exit_cooldown_blocks :: BlockNumber
  pp_request_cancel_delay_blocks :: BlockNumber

definition readiness_blockers :: "'cur Config \<Rightarrow> ChainReadinessBlockers" where
  "readiness_blockers cfg =
     (let mode = ProofVerifier_mode cfg;
          settlement_enabled = proof_settlement_enabled_mode mode;
          production_zk = production_zk_verifier_mode mode;
          signature_mode = Config_SignatureMode cfg;
          identity_mode = IdentitySignatureVerifier_mode cfg;
          committed_request_payloads = False;
          shielded_call_payloads = ShieldedCallPayloads cfg;
          shielded_call_payload_execution =
            (shielded_call_payloads \<and> ShieldedCallPayloadExecution cfg);
          shield_submitter_origin_privacy = False;
          shield_key_window_privacy = False;
          account_commitment_blinding = False;
          private_routing_indexes = True;
          private_storage_keys = True;
          private_capital_accounting = False;
          private_event_metadata = PrivateEventMetadata cfg;
          public_route_availability_redacted = True;
          public_request_records_redacted = True;
          public_proof_records_redacted = True;
          private_route_selection =
            (shielded_call_payload_execution \<and> shield_submitter_origin_privacy
             \<and> shield_key_window_privacy \<and> account_commitment_blinding \<and> private_routing_indexes
             \<and> private_storage_keys \<and> private_event_metadata \<and> public_route_availability_redacted
             \<and> public_request_records_redacted \<and> public_proof_records_redacted);
          post_quantum_account_signatures = False;
          post_quantum_signature_crypto_verification = production_crypto_verification identity_mode;
          identity_signature_verification = identity_signature_verification_mode identity_mode
      in \<lparr>
        proof_settlement_disabled = \<not> settlement_enabled,
        production_zk_verifier_missing = \<not> production_zk,
        committed_request_payloads_missing = \<not> committed_request_payloads,
        shielded_call_payloads_missing = \<not> shielded_call_payload_execution,
        shield_submitter_origin_privacy_missing = \<not> shield_submitter_origin_privacy,
        shield_key_window_privacy_missing = \<not> shield_key_window_privacy,
        private_route_selection_missing = \<not> private_route_selection,
        account_commitment_blinding_missing = \<not> account_commitment_blinding,
        private_routing_indexes_missing = \<not> private_routing_indexes,
        private_storage_keys_missing = \<not> private_storage_keys,
        private_capital_accounting_missing = \<not> private_capital_accounting,
        private_event_metadata_missing = \<not> private_event_metadata,
        signature_mode_not_full_post_quantum = (signature_mode \<noteq> FullPostQuantum),
        post_quantum_account_signatures_missing = \<not> post_quantum_account_signatures,
        post_quantum_signature_crypto_verification_missing =
          \<not> post_quantum_signature_crypto_verification,
        identity_signature_verification_missing = \<not> identity_signature_verification,
        external_audit_missing = True\<rparr>)"

text \<open>The flags that the source binds to literal values are written as those literals.\<close>

definition protocol_params :: "'cur Config \<Rightarrow> ChainProtocolParams" where
  "protocol_params cfg =
     (let blockers = readiness_blockers cfg in \<lparr>
        pp_subnet_creation_burn = SubnetCreationBurn cfg,
        pp_miner_registration_burn = MinerRegistrationBurn cfg,
        pp_min_miner_bond = MinMinerBond cfg,
        pp_max_miner_bond = MaxMinerBond cfg,
        pp_max_active_miners_per_subnet = MaxActiveMinersPerSubnet cfg,
        pp_max_active_validators_per_subnet = MaxActiveValidatorsPerSubnet cfg,
        pp_min_validator_stake = MinValidatorStake cfg,
        pp_min_invalid_proof_slash_bps = MinInvalidProofSlashBps cfg,
        pp_max_invalid_proof_slash_bps = MaxInvalidProofSlashBps cfg,
        pp_min_proof_size_bytes = MinProofSizeBytes cfg,
        pp_max_proof_size_bytes = MaxProofSizeBytes cfg,
        pp_max_verification_latency_ms = MaxVerificationLatencyMs cfg,
        pp_max_proof_submission_age_blocks = MaxProofSubmissionAgeBlocks cfg,
        pp_proof_verifier_mode = ProofVerifier_mode cfg,
        pp_proof_settlement_enabled = proof_settlement_enabled_mode (ProofVerifier_mode cfg),
        pp_production_zk_verifier = production_zk_verifier_mode (ProofVerifier_mode cfg),
        pp_signature_mode = Config_SignatureMode cfg,
        pp_committed_request_payloads = False,
        pp_shielded_call_payloads = ShieldedCallPayloads cfg,
        pp_shield_submitter_origin_privacy = False,
        pp_shield_key_window_privacy = False,
        pp_private_route_selection = \<not> private_route_selection_missing blockers,
        pp_account_commitment_blinding = False,
        pp_private_routing_indexes = True,
        pp_private_storage_keys = True,
        pp_private_capital_accounting = False,
        pp_private_event_metadata = PrivateEventMetadata cfg,
        pp_public_event_payloads_redacted = True,
        pp_public_query_ids_redacted = True,
        pp_public_subnet_records_redacted = True,
        pp_route_availability_ids_redacted = True,
        pp_public_route_availability_redacted = True,
        pp_public_accounting_totals_redacted = True,
        pp_public_accounting_migration_failures_redacted = True,
        pp_public_migration_health_redacted = True,
        pp_public_request_status_counts_redacted = True,
        pp_public_registry_records_redacted = True,
        pp_public_request_records_redacted = True,
        pp_public_proof_records_redacted = True,
        pp_public_next_request_id_redacted = True,
        pp_public_registry_counts_redacted = True,
        pp_public_total_burned_redacted = True,
        pp_public_identity_metadata_redacted = True,
        pp_post_quantum_account_signatures = False,
        pp_post_quantum_signature_crypto_verification =
          production_crypto_verification (IdentitySignatureVerifier_mode cfg),
        pp_privacy_complete = \<not> privacy_blocked blockers,
        pp_post_quantum_complete = \<not> post_quantum_blocked blockers,
        pp_production_ready = \<not> production_blocked blockers,
        pp_identity_signature_commitment_policy = True,
        pp_identity_signature_challenge_binding = True,
        pp_identity_signature_verification =
          identity_signature_verification_mode (IdentitySignatureVerifier_mode cfg),
        pp_readiness_blockers = blockers,
        pp_miner_exit_cooldown_blocks = MinerExitCooldownBlocks cfg,
        pp_validator_exit_cooldown_blocks = ValidatorExitCooldownBlocks cfg,
        pp_request_cancel_delay_blocks = RequestCancelDelayBlocks cfg\<rparr>)"

section \<open>Redacted views\<close>

datatype PublicRegistryStatus =
  Public_Pending | Public_Active | Public_Exiting | Public_Slashed | Public_Disabled

fun public_status_from :: "RegistryStatus \<Rightarrow> PublicRegistryStatus" where
  "public_status_from Pending = Public_Pending"
| "public_status_from Active = Public_Active"
| "public_status_from (Exiting _) = Public_Exiting"
| "public_status_from Slashed = Public_Slashed"
| "public_status_from Disabled = Public_Disabled"

record ChainPublicSubnet =
  ps_domain :: SubnetDomain
  ps_proof_system :: ProofSystem
  ps_active :: bool

record ChainPublicMiner =
  pm_proof_system :: ProofSystem
  pm_status :: PublicRegistryStatus

record ChainPublicValidator =
  pval_status :: PublicRegistryStatus

record ChainPublicIdentity =
  has_shielded_identity_commitment :: bool
  has_endpoint_commitment :: bool
  signature_commitment_recorded :: bool
  signature_challenge_bound :: bool
  signature_verified :: bool
  challenge_available :: bool

record ChainPublicInferenceRequest =
  pr_status :: InferenceRequestStatus

record ChainPublicProofRecord =
  ppr_proof_system :: ProofSystem

record ChainRouteAvailability =
  available :: bool

record ChainAccounting =
  total_inference_escrowed :: Balance
  total_miner_payouts :: Balance
  total_validator_fees :: Balance
  total_treasury_fees :: Balance
  total_inference_refunded :: Balance
  legacy_migration_failures :: nat

record ChainMigrationHealth =
  legacy_accounting_failures :: nat
  legacy_routing_index_failures :: nat
  legacy_capital_record_failures :: nat

definition accounting :: "'cur Storage \<Rightarrow> ChainAccounting" where
  "accounting s = \<lparr>total_inference_escrowed = 0, total_miner_payouts = 0,
     total_validator_fees = 0, total_treasury_fees = 0, total_inference_refunded = 0,
     legacy_migration_failures = 0\<rparr>"

definition raw_accounting :: "'cur Storage \<Rightarrow> ChainAccounting" where
  "raw_accounting s = \<lparr>
     total_inference_escrowed = TotalInferenceEscrowed s,
     total_miner_payouts = TotalMinerPayouts s,
     total_validator_fees = TotalValidatorFees s,
     total_treasury_fees = TotalTreasuryFees s,
     total_inference_refunded = TotalInferenceRefunded s,
     legacy_migration_failures = LegacyAccountingMigrationFailures s\<rparr>"

definition raw_migration_health :: "'cur Storage \<Rightarrow> ChainMigrationHealth" where
  "raw_migration_health s = \<lparr>
     legacy_accounting_failures = LegacyAccountingMigrationFailures s,
     legacy_routing_index_failures = LegacyRoutingIndexMigrationFailures s,
     legacy_capital_record_failures = LegacyCapitalRecordMigrationFailures s\<rparr>"

definition migration_health :: "'cur Storage \<Rightarrow> ChainMigrationHealth" where
  "migration_health s = \<lparr>legacy_accounting_failures = 0, legacy_routing_index_failures = 0,
     legacy_capital_record_failures = 0\<rparr>"

definition raw_request_status_counts :: "'cur Storage \<Rightarrow> ChainRequestStatusCounts" where
  "raw_request_status_counts s = \<lparr>
     count_pending = PendingInferenceRequestCount s,
     count_settled = SettledInferenceRequestCount s,
     count_cancelled = CancelledInferenceRequestCount s,
     count_rejected = RejectedInferenceRequestCount s,
     count_expired = ExpiredInferenceRequestCount s\<rparr>"

definition request_status_counts :: "'cur Storage \<Rightarrow> ChainRequestStatusCounts" where
  "request_status_counts s = \<lparr>count_pending = 0, count_settled = 0, count_cancelled = 0,
     count_rejected = 0, count_expired = 0\<rparr>"

definition next_route_availability :: "'cur Storage \<Rightarrow> SubnetId \<Rightarrow> ChainRouteAvailability" where
  "next_route_availability s sid = \<lparr>available = False\<rparr>"

definition public_subnet :: "'cur Storage \<Rightarrow> SubnetId \<Rightarrow> ChainPublicSubnet option" where
  "public_subnet s sid = None"

definition public_miner :: "'cur Storage \<Rightarrow> MinerId \<Rightarrow> ChainPublicMiner option" where
  "public_miner s mid = None"

definition public_validator :: "'cur Storage \<Rightarrow> ValidatorId \<Rightarrow> ChainPublicValidator option" where
  "public_validator s vid = None"

definition public_miner_identity :: "'cur Storage \<Rightarrow> MinerId \<Rightarrow> ChainPublicIdentity option" where
  "public_miner_identity s mid = None"

definition public_validator_identity ::
  "'cur Storage \<Rightarrow> ValidatorId \<Rightarrow> ChainPublicIdentity option" where
  "public_validator_identity s vid = None"

definition public_inference_request ::
  "'cur Storage \<Rightarrow> RequestId \<Rightarrow> ChainPublicInferenceRequest option" where
  "public_inference_request s rid = None"

definition public_proof_record :: "'cur Storage \<Rightarrow> RequestId \<Rightarrow> ChainPublicProofRecord option" where
  "public_proof_record s rid = None"

section \<open>Properties\<close>

text \<open>
  No configuration reports itself ready: whatever verifiers and flags a runtime chooses, the
  published parameters say that it is not production ready, that its privacy and its
  post-quantum migration are incomplete, and that routes are not selected privately.
\<close>

theorem never_production_ready:
  "\<not> pp_production_ready (protocol_params cfg) \<and> \<not> pp_privacy_complete (protocol_params cfg) \<and>
   \<not> pp_post_quantum_complete (protocol_params cfg) \<and>
   \<not> pp_private_route_selection (protocol_params cfg) \<and>
   pp_proof_settlement_enabled (protocol_params cfg) = (ProofVerifier_mode cfg \<noteq> ProofFailClosed)"
  by (simp add: protocol_params_def readiness_blockers_def production_blocked_def
      privacy_blocked_def post_quantum_blocked_def proof_settlement_enabled_mode_def Let_def)

end
