(* ===== verification/Pallet_Runs.thy ===== *)
theory Pallet_Runs
  imports Pallet_Requests
begin

text \<open>
  What a successful dispatchable of the pallet did: its guards held and the storage it leaves is
  an explicit update of the storage it found.  A dispatchable that fails leaves the storage as it
  was.
\<close>

section \<open>Building blocks\<close>

lemma with_currency_ok [ok_simps]:
  "with_currency m s = (Inr x, s') \<longleftrightarrow>
     (\<exists>c. m (currency s) = (Inr x, c) \<and> s' = s\<lparr>currency := c\<rparr>)"
  by (auto simp: with_currency_def Let_def split: prod.splits)

definition log_events :: "'cur Config \<Rightarrow> PalletEvent list \<Rightarrow> 'cur Storage \<Rightarrow> 'cur Storage" where
  "log_events cfg evs s =
     s\<lparr>events := events s @ (if PrivateEventMetadata cfg then [PrivateActivity] else evs)\<rparr>"

lemma deposit_each_run: "deposit_each evs s = (Inr (), s\<lparr>events := events s @ evs\<rparr>)"
  by (induction evs arbitrary: s) (simp_all add: deposit_event_def action_defs)

lemma deposit_activity_events_run: "deposit_activity_events cfg evs s = (Inr (), log_events cfg evs s)"
  by (simp add: deposit_activity_events_def deposit_each_run log_events_def deposit_event_def
      modify_def)

lemma deposit_ok [ok_simps]:
  "deposit_activity_events cfg evs s = (Inr u, s') \<longleftrightarrow> s' = log_events cfg evs s"
  "deposit_activity_event cfg ev s = (Inr u, s') \<longleftrightarrow> s' = log_events cfg [ev] s"
  by (auto simp: deposit_activity_event_def deposit_activity_events_run)

lemma log_events_sel [simp]:
  "SubnetCount (log_events cfg evs s) = SubnetCount s"
  "MinerCount (log_events cfg evs s) = MinerCount s"
  "ValidatorCount (log_events cfg evs s) = ValidatorCount s"
  "Subnets (log_events cfg evs s) = Subnets s" "Miners (log_events cfg evs s) = Miners s"
  "Validators (log_events cfg evs s) = Validators s"
  "MinerIdentityCommitments (log_events cfg evs s) = MinerIdentityCommitments s"
  "MinerIdentitySignatureBundles (log_events cfg evs s) = MinerIdentitySignatureBundles s"
  "MinerIdentitySignatureChallenges (log_events cfg evs s) = MinerIdentitySignatureChallenges s"
  "ValidatorIdentityCommitments (log_events cfg evs s) = ValidatorIdentityCommitments s"
  "ValidatorIdentitySignatureBundles (log_events cfg evs s) = ValidatorIdentitySignatureBundles s"
  "ValidatorIdentitySignatureChallenges (log_events cfg evs s) =
     ValidatorIdentitySignatureChallenges s"
  "ProofRecords (log_events cfg evs s) = ProofRecords s"
  "InferenceRequests (log_events cfg evs s) = InferenceRequests s"
  "RequestCount (log_events cfg evs s) = RequestCount s"
  "ActiveMinersBySubnet (log_events cfg evs s) = ActiveMinersBySubnet s"
  "ActiveValidatorsBySubnet (log_events cfg evs s) = ActiveValidatorsBySubnet s"
  "MinerLockedBond (log_events cfg evs s) = MinerLockedBond s"
  "ValidatorLockedStake (log_events cfg evs s) = ValidatorLockedStake s"
  "PendingMinerRequests (log_events cfg evs s) = PendingMinerRequests s"
  "PendingValidatorRequests (log_events cfg evs s) = PendingValidatorRequests s"
  "status_count st (log_events cfg evs s) = status_count st s"
  "TotalBurned (log_events cfg evs s) = TotalBurned s"
  "TotalInferenceEscrowed (log_events cfg evs s) = TotalInferenceEscrowed s"
  "TotalMinerPayouts (log_events cfg evs s) = TotalMinerPayouts s"
  "TotalValidatorFees (log_events cfg evs s) = TotalValidatorFees s"
  "TotalTreasuryFees (log_events cfg evs s) = TotalTreasuryFees s"
  "TotalInferenceRefunded (log_events cfg evs s) = TotalInferenceRefunded s"
  "LegacyAccountingMigrationFailures (log_events cfg evs s) = LegacyAccountingMigrationFailures s"
  "LegacyRoutingIndexMigrationFailures (log_events cfg evs s) =
     LegacyRoutingIndexMigrationFailures s"
  "LegacyCapitalRecordMigrationFailures (log_events cfg evs s) =
     LegacyCapitalRecordMigrationFailures s"
  "block_number (log_events cfg evs s) = block_number s"
  "currency (log_events cfg evs s) = currency s"
  by (cases st; simp add: log_events_def)+

lemma remove_active_ok [ok_simps]:
  "remove_active_miner sid mid s = (Inr u, s') \<longleftrightarrow> s' = s"
  "remove_active_validator sid vid s = (Inr u, s') \<longleftrightarrow> s' = s"
  by (auto simp: remove_active_miner_def remove_active_validator_def ok_simps)

lemma record_ok [ok_simps]:
  "ensure_burned_can_record x s = (Inr u, s') \<longleftrightarrow> s' = s"
  "record_burned x s = (Inr u, s') \<longleftrightarrow> s' = s\<lparr>TotalBurned := 0\<rparr>"
  "ensure_inference_escrow_can_record x s = (Inr u, s') \<longleftrightarrow> s' = s"
  "ensure_inference_settlement_can_record x y z s = (Inr u, s') \<longleftrightarrow> s' = s"
  "ensure_inference_refund_can_record x s = (Inr u, s') \<longleftrightarrow> s' = s"
  by (auto simp: ensure_burned_can_record_def record_burned_def clear_burned_total_def
      ensure_inference_escrow_can_record_def ensure_inference_settlement_can_record_def
      ensure_inference_refund_can_record_def ok_simps)

lemma burn_free_ok [ok_simps]:
  "burn_free cfg who x s = (Inr u, s') \<longleftrightarrow>
     (\<exists>y c. cur_burn_from (Currency cfg) who x (currency s) = (Inr y, c) \<and>
        s' = s\<lparr>currency := c, TotalBurned := 0\<rparr>)"
  by (auto simp: burn_free_def ok_simps)

lemma hold_for_ok [ok_simps]:
  "hold_for cfg r who x s = (Inr u, s') \<longleftrightarrow>
     (\<exists>c. cur_hold (Currency cfg) r who x (currency s) = (Inr u, c) \<and> s' = s\<lparr>currency := c\<rparr>)"
  by (auto simp: hold_for_def ok_simps)

lemma release_for_ok [ok_simps]:
  "release_for cfg r who x s = (Inr y, s') \<longleftrightarrow>
     (\<exists>c. cur_release (Currency cfg) r who x (currency s) = (Inr y, c) \<and> s' = s\<lparr>currency := c\<rparr>)"
  by (auto simp: release_for_def ok_simps)

lemma next_ids_ok [ok_simps]:
  "next_subnet_id s = (Inr i, s') \<longleftrightarrow>
     i = SubnetCount s \<and> Suc i < 2 ^ 16 \<and> s' = s\<lparr>SubnetCount := Suc i\<rparr>"
  "next_miner_id s = (Inr i, s') \<longleftrightarrow>
     i = MinerCount s \<and> Suc i < 2 ^ 64 \<and> s' = s\<lparr>MinerCount := Suc i\<rparr>"
  "next_validator_id s = (Inr i, s') \<longleftrightarrow>
     i = ValidatorCount s \<and> Suc i < 2 ^ 64 \<and> s' = s\<lparr>ValidatorCount := Suc i\<rparr>"
  by (auto simp: next_subnet_id_def next_miner_id_def next_validator_id_def ok_simps)

lemma pure_guards_ok [ok_simps]:
  "ensure_commitment_d c = Inr u \<longleftrightarrow> c \<noteq> 0"
  "ensure_miner_operator cfg m a = Inr u \<longleftrightarrow>
     operator_commitment_matches cfg (cm_operator_commitment m) a"
  "ensure_validator_operator cfg v a = Inr u \<longleftrightarrow>
     operator_commitment_matches cfg (cv_operator_commitment v) a"
  "ensure_validator_submission_operator cfg v a = Inr u \<longleftrightarrow>
     operator_commitment_matches cfg (cv_operator_commitment v) a"
  "ensure_distinct_operators m v = Inr u \<longleftrightarrow> cm_operator_commitment m \<noteq> cv_operator_commitment v"
  "ensure_request_user cfg q a = Inr u \<longleftrightarrow>
     request_user_commitment_matches cfg (cr_user_commitment q) a"
  "validate_fee_split vb tb = Inr u \<longleftrightarrow> vb + tb \<le> 10000"
  "pro_rata_d x b = Inr y \<longleftrightarrow> x * b < 2 ^ 64 \<and> y = x * b div 10000"
  by (auto simp: ensure_commitment_d_def ensure_miner_operator_def ensure_validator_operator_def
      ensure_validator_submission_operator_def ensure_distinct_operators_def
      ensure_request_user_def validate_fee_split_def pro_rata_d_def ok_simps
      split: option.splits)

lemma capital_guards_ok [ok_simps]:
  "ensure_miner_locked_bond_record cfg s i = Inr u \<longleftrightarrow> miner_has_active_locked_bond_record cfg s i"
  "ensure_validator_locked_stake_record cfg s i = Inr u \<longleftrightarrow>
     validator_has_active_locked_stake_record cfg s i"
  by (auto simp: ensure_miner_locked_bond_record_def ensure_validator_locked_stake_record_def
      ok_simps)

lemma ensure_slash_percent_ok [ok_simps]:
  "ensure_slash_percent cfg b s = (Inr u, s') \<longleftrightarrow>
     MinInvalidProofSlashBps cfg \<le> b \<and> b \<le> MaxInvalidProofSlashBps cfg \<and> s' = s"
  by (auto simp: ensure_slash_percent_def ok_simps)

lemma try_mutate_miner_ok [ok_simps]:
  "try_mutate_miner i body s = (Inr x, s') \<longleftrightarrow>
     (\<exists>m m' t. Miners s i = Some m \<and> body m s = (Inr (m', x), t) \<and>
        s' = t\<lparr>Miners := (Miners t)(i \<mapsto> m')\<rparr>)"
  by (auto simp: try_mutate_miner_def ok_simps)

lemma try_mutate_validator_ok [ok_simps]:
  "try_mutate_validator i body s = (Inr x, s') \<longleftrightarrow>
     (\<exists>m m' t. Validators s i = Some m \<and> body m s = (Inr (m', x), t) \<and>
        s' = t\<lparr>Validators := (Validators t)(i \<mapsto> m')\<rparr>)"
  by (auto simp: try_mutate_validator_def ok_simps)

lemma try_mutate_request_ok [ok_simps]:
  "try_mutate_request i body s = (Inr x, s') \<longleftrightarrow>
     (\<exists>m m' t. InferenceRequests s i = Some m \<and> body m s = (Inr (m', x), t) \<and>
        s' = t\<lparr>InferenceRequests := (InferenceRequests t)(i \<mapsto> m')\<rparr>)"
  by (auto simp: try_mutate_request_def ok_simps)

section \<open>Registry dispatchables\<close>

lemma create_subnet_ok:
  assumes "create_subnet cfg origin domain system s = (Inr u, s')"
  obtains owner c where "ensure_payload_signer cfg origin = Inr owner"
    "Suc (SubnetCount s) < 2 ^ 16"
    "\<exists>y. cur_burn_from (Currency cfg) owner (SubnetCreationBurn cfg) (currency s) = (Inr y, c)"
    "s' = log_events cfg [SubnetCreated] (s\<lparr>currency := c, TotalBurned := 0,
       SubnetCount := Suc (SubnetCount s),
       Subnets := (Subnets s)(SubnetCount s \<mapsto> \<lparr>cs_id = SubnetCount s,
         cs_owner_commitment = subnet_owner_commitment cfg owner, cs_domain = domain,
         cs_proof_system = system,
         cs_policy_commitment = subnet_policy_commitment cfg (SubnetCount s) domain system,
         cs_active = True\<rparr>)\<rparr>)"
proof -
  show thesis
    using assms by (clarsimp simp: create_subnet_def ok_simps) (rule that; (assumption | (rule exI, assumption) | simp))
qed

lemma register_miner_ok:
  assumes "register_miner cfg origin sid model system s = (Inr u, s')"
  obtains operator subnet c where "ensure_payload_signer cfg origin = Inr operator"
    "model \<noteq> 0" "Subnets s sid = Some subnet" "cs_proof_system subnet = system"
    "Suc (MinerCount s) < 2 ^ 64"
    "\<exists>y. cur_burn_from (Currency cfg) operator (MinerRegistrationBurn cfg) (currency s) = (Inr y, c)"
    "s' = log_events cfg [MinerRegistered] (s\<lparr>currency := c, TotalBurned := 0,
       MinerCount := Suc (MinerCount s),
       Miners := (Miners s)(MinerCount s \<mapsto> \<lparr>cm_id = MinerCount s,
         cm_operator_commitment = operator_commitment cfg operator, cm_subnet_id = sid,
         cm_model_commitment = model, cm_proof_system = system,
         cm_bond_commitment = miner_bond_commitment cfg (MinerCount s)
           (operator_commitment cfg operator) Pending,
         cm_status = Pending\<rparr>)\<rparr>)"
proof -
  show thesis
    using assms by (clarsimp simp: register_miner_def ok_simps Let_def)
      (rule that; (assumption | (rule exI, assumption) | simp))
qed

lemma register_validator_ok:
  assumes "register_validator cfg origin sid stake s = (Inr u, s')"
  obtains operator c where "ensure_payload_signer cfg origin = Inr operator"
    "Subnets s sid \<noteq> None" "MinValidatorStake cfg \<le> stake" "Suc (ValidatorCount s) < 2 ^ 64"
    "cur_hold (Currency cfg) ValidatorStake operator stake (currency s) = (Inr (), c)"
    "s' = log_events cfg [ValidatorRegistered] (s\<lparr>
       ValidatorCount := Suc (ValidatorCount s), currency := c,
       Validators := (Validators s)(ValidatorCount s \<mapsto> \<lparr>cv_id = ValidatorCount s,
         cv_operator_commitment = operator_commitment cfg operator, cv_subnet_id = sid,
         cv_stake_commitment = validator_stake_commitment cfg (ValidatorCount s)
           (operator_commitment cfg operator) Pending,
         cv_status = Pending\<rparr>),
       ValidatorLockedStake := (ValidatorLockedStake s)(ValidatorCount s \<mapsto> stake)\<rparr>)"
proof -
  show thesis
    using assms by (clarsimp simp: register_validator_def ok_simps Let_def)
      (rule that; (assumption | (rule exI, assumption) | simp))
qed

text \<open>A miner or validator entry after a status change, with its capital commitment renewed.\<close>

definition with_miner_status ::
  "'cur Config \<Rightarrow> MinerId \<Rightarrow> ChainMiner \<Rightarrow> RegistryStatus \<Rightarrow> ChainMiner" where
  "with_miner_status cfg i m st = m\<lparr>cm_status := st,
     cm_bond_commitment := miner_bond_commitment cfg i (cm_operator_commitment m) st\<rparr>"

definition with_validator_status ::
  "'cur Config \<Rightarrow> ValidatorId \<Rightarrow> ChainValidator \<Rightarrow> RegistryStatus \<Rightarrow> ChainValidator" where
  "with_validator_status cfg i v st = v\<lparr>cv_status := st,
     cv_stake_commitment := validator_stake_commitment cfg i (cv_operator_commitment v) st\<rparr>"

lemma activate_miner_ok:
  assumes "activate_miner cfg origin i bond s = (Inr u, s')"
  obtains operator m c where "ensure_payload_signer cfg origin = Inr operator"
    "Miners s i = Some m" "operator_commitment_matches cfg (cm_operator_commitment m) operator"
    "cm_status m = Pending" "MinMinerBond cfg \<le> bond" "bond \<le> MaxMinerBond cfg"
    "ensure_miner_signature_bundle_bound cfg s i m = Inr ()"
    "cur_hold (Currency cfg) MinerBond operator bond (currency s) = (Inr (), c)"
    "insert_active_miner cfg (s\<lparr>currency := c\<rparr>) (cm_subnet_id m) i = Inr ()"
    "s' = log_events cfg [MinerActivated] (s\<lparr>currency := c,
       MinerLockedBond := (MinerLockedBond s)(i \<mapsto> bond),
       Miners := (Miners s)(i \<mapsto> with_miner_status cfg i m Active)\<rparr>)"
proof -
  show thesis
    using assms by (clarsimp simp: activate_miner_def ok_simps)
      (rule that; (assumption | simp add: with_miner_status_def))
qed

lemma deactivate_miner_ok:
  assumes "deactivate_miner cfg origin i s = (Inr u, s')"
  obtains operator m where "ensure_payload_signer cfg origin = Inr operator"
    "Miners s i = Some m" "operator_commitment_matches cfg (cm_operator_commitment m) operator"
    "cm_status m = Active \<or> cm_status m = Slashed" "pending_of (PendingMinerRequests s) i = 0"
    "s' = log_events cfg [MinerExitStarted] (s\<lparr>Miners := (Miners s)(i \<mapsto>
       with_miner_status cfg i m (Exiting (current_block s + MinerExitCooldownBlocks cfg)))\<rparr>)"
  using assms that by (auto simp: deactivate_miner_def ok_simps with_miner_status_def)

lemma deactivate_validator_ok:
  assumes "deactivate_validator cfg origin i s = (Inr u, s')"
  obtains operator v where "ensure_payload_signer cfg origin = Inr operator"
    "Validators s i = Some v" "operator_commitment_matches cfg (cv_operator_commitment v) operator"
    "cv_status v = Pending \<or> cv_status v = Active \<or> cv_status v = Slashed"
    "pending_of (PendingValidatorRequests s) i = 0"
    "s' = log_events cfg [ValidatorExitStarted] (s\<lparr>Validators := (Validators s)(i \<mapsto>
       with_validator_status cfg i v (Exiting (current_block s + ValidatorExitCooldownBlocks cfg)))\<rparr>)"
  using assms that by (auto simp: deactivate_validator_def ok_simps with_validator_status_def)

lemma release_unless_zero_ok:
  "(if x \<noteq> 0 then and_then (release_for cfg r who x) (\<lambda>_. ret ()) else ret ()) s = (Inr u, s') \<longleftrightarrow>
     (if x = 0 then s' = s
      else \<exists>y c. cur_release (Currency cfg) r who x (currency s) = (Inr y, c) \<and>
             s' = s\<lparr>currency := c\<rparr>)"
  by (auto simp: ok_simps)

lemma case_exiting_ok [ok_simps]:
  "(case st of Exiting a \<Rightarrow> f a | _ \<Rightarrow> throw e) s = (Inr x, s') \<longleftrightarrow>
     (\<exists>a. st = Exiting a \<and> f a s = (Inr x, s'))"
  by (cases st) (auto simp: ok_simps)

lemma withdraw_miner_bond_ok:
  assumes "withdraw_miner_bond cfg origin i s = (Inr u, s')"
  obtains operator m available_at bond c where "ensure_payload_signer cfg origin = Inr operator"
    "Miners s i = Some m" "operator_commitment_matches cfg (cm_operator_commitment m) operator"
    "cm_status m = Exiting available_at" "available_at \<le> current_block s"
    "locked_miner_bond cfg s i operator = Inr bond"
    "if bond = 0 then c = currency s
     else \<exists>y. cur_release (Currency cfg) MinerBond operator bond (currency s) = (Inr y, c)"
    "s' = log_events cfg [MinerBondWithdrawn] (s\<lparr>currency := c,
       MinerLockedBond := (MinerLockedBond s)(i := None),
       Miners := (Miners s)(i \<mapsto> with_miner_status cfg i m Disabled)\<rparr>)"
proof -
  from assms obtain operator m available_at bond s1 where
    g: "ensure_payload_signer cfg origin = Inr operator" "Miners s i = Some m"
      "operator_commitment_matches cfg (cm_operator_commitment m) operator"
      "cm_status m = Exiting available_at" "available_at \<le> current_block s"
      "locked_miner_bond cfg s i operator = Inr bond"
    and rel: "(if bond \<noteq> 0 then and_then (release_for cfg MinerBond operator bond) (\<lambda>_. ret ())
        else ret ()) s = (Inr (), s1)"
    and s': "s' = log_events cfg [MinerBondWithdrawn]
      (s1\<lparr>MinerLockedBond := (MinerLockedBond s1)(i := None),
       Miners := (Miners s1)(i \<mapsto> with_miner_status cfg i m Disabled)\<rparr>)"
  proof -
    show thesis
      using assms
      by (clarsimp simp: withdraw_miner_bond_def ok_simps simp del: if_split neq0_conv)
        (rule that; (assumption | simp add: with_miner_status_def))
  qed
  from rel obtain c where c: "s1 = s\<lparr>currency := c\<rparr>"
      "if bond = 0 then c = currency s
       else \<exists>y. cur_release (Currency cfg) MinerBond operator bond (currency s) = (Inr y, c)"
    unfolding release_unless_zero_ok by (cases "bond = 0") auto
  show thesis
    using s' c(1) by (intro that [OF g c(2)]) simp
qed

lemma withdraw_validator_stake_ok:
  assumes "withdraw_validator_stake cfg origin i s = (Inr u, s')"
  obtains operator v available_at stake c where "ensure_payload_signer cfg origin = Inr operator"
    "Validators s i = Some v" "operator_commitment_matches cfg (cv_operator_commitment v) operator"
    "cv_status v = Exiting available_at" "available_at \<le> current_block s"
    "locked_validator_stake cfg s i operator = Inr stake"
    "if stake = 0 then c = currency s
     else \<exists>y. cur_release (Currency cfg) ValidatorStake operator stake (currency s) = (Inr y, c)"
    "s' = log_events cfg [ValidatorStakeWithdrawn] (s\<lparr>currency := c,
       ValidatorLockedStake := (ValidatorLockedStake s)(i := None),
       Validators := (Validators s)(i \<mapsto> with_validator_status cfg i v Disabled)\<rparr>)"
proof -
  from assms obtain operator v available_at stake s1 where
    g: "ensure_payload_signer cfg origin = Inr operator" "Validators s i = Some v"
      "operator_commitment_matches cfg (cv_operator_commitment v) operator"
      "cv_status v = Exiting available_at" "available_at \<le> current_block s"
      "locked_validator_stake cfg s i operator = Inr stake"
    and rel: "(if stake \<noteq> 0 then and_then (release_for cfg ValidatorStake operator stake) (\<lambda>_. ret ())
        else ret ()) s = (Inr (), s1)"
    and s': "s' = log_events cfg [ValidatorStakeWithdrawn]
      (s1\<lparr>ValidatorLockedStake := (ValidatorLockedStake s1)(i := None),
       Validators := (Validators s1)(i \<mapsto> with_validator_status cfg i v Disabled)\<rparr>)"
  proof -
    show thesis
      using assms
      by (clarsimp simp: withdraw_validator_stake_def ok_simps simp del: if_split neq0_conv)
        (rule that; (assumption | simp add: with_validator_status_def))
  qed
  from rel obtain c where c: "s1 = s\<lparr>currency := c\<rparr>"
      "if stake = 0 then c = currency s
       else \<exists>y. cur_release (Currency cfg) ValidatorStake operator stake (currency s) = (Inr y, c)"
    unfolding release_unless_zero_ok by (cases "stake = 0") auto
  show thesis
    using s' c(1) by (intro that [OF g c(2)]) simp
qed

section \<open>Slashing\<close>

lemma slash_miner_bond_ok:
  assumes "slash_miner_bond cfg i operator bps s = (Inr x, s')"
  obtains m bond c where "Miners s i = Some m"
    "operator_commitment_matches cfg (cm_operator_commitment m) operator"
    "locked_miner_bond cfg s i operator = Inr bond"
    "MinInvalidProofSlashBps cfg \<le> bps" "bps \<le> MaxInvalidProofSlashBps cfg"
    "bond * bps < 2 ^ 64" "x \<le> bond"
    "cur_burn_held (Currency cfg) MinerBond operator (bond * bps div 10000) (currency s) = (Inr x, c)"
    "s' = s\<lparr>currency := c, MinerLockedBond := (MinerLockedBond s)(i \<mapsto> bond - x),
       Miners := (Miners s)(i \<mapsto> with_miner_status cfg i m
         (if bond - x < MinMinerBond cfg \<and> \<not> is_exiting (cm_status m) then Slashed
          else cm_status m)),
       TotalBurned := 0\<rparr>"
proof -
  show thesis
    using assms by (clarsimp simp: slash_miner_bond_def ok_simps Let_def simp del: if_split)
      (rule that; (assumption | simp add: with_miner_status_def))
qed

lemma slash_validator_stake_ok:
  assumes "slash_validator_stake cfg i operator bps s = (Inr x, s')"
  obtains v stake c where "Validators s i = Some v"
    "operator_commitment_matches cfg (cv_operator_commitment v) operator"
    "locked_validator_stake cfg s i operator = Inr stake"
    "MinInvalidProofSlashBps cfg \<le> bps" "bps \<le> MaxInvalidProofSlashBps cfg"
    "stake * bps < 2 ^ 64" "x \<le> stake"
    "cur_burn_held (Currency cfg) ValidatorStake operator (stake * bps div 10000) (currency s) =
       (Inr x, c)"
    "s' = s\<lparr>currency := c, ValidatorLockedStake := (ValidatorLockedStake s)(i \<mapsto> stake - x),
       Validators := (Validators s)(i \<mapsto> with_validator_status cfg i v
         (if stake - x < MinValidatorStake cfg \<and> \<not> is_exiting (cv_status v) then Slashed
          else cv_status v)),
       TotalBurned := 0\<rparr>"
proof -
  show thesis
    using assms by (clarsimp simp: slash_validator_stake_def ok_simps Let_def simp del: if_split)
      (rule that; (assumption | simp add: with_validator_status_def))
qed

lemma slash_miner_ok:
  assumes "slash_miner cfg origin i operator bps s = (Inr u, s')"
  obtains x t where "\<not> ShieldedCallPayloads cfg" "origin = RootOrigin"
    "pending_of (PendingMinerRequests s) i = 0" "slash_miner_bond cfg i operator bps s = (Inr x, t)"
    "s' = log_events cfg [MinerSlashed] t"
  using assms that
  by (auto simp: slash_miner_def ok_simps ensure_root_def ensure_public_call_payload_allowed_def
      split: if_splits)

lemma slash_validator_ok:
  assumes "slash_validator cfg origin i operator bps s = (Inr u, s')"
  obtains x t where "\<not> ShieldedCallPayloads cfg" "origin = RootOrigin"
    "pending_of (PendingValidatorRequests s) i = 0"
    "slash_validator_stake cfg i operator bps s = (Inr x, t)"
    "s' = log_events cfg [ValidatorSlashed] t"
  using assms that
  by (auto simp: slash_validator_def ok_simps ensure_root_def
      ensure_public_call_payload_allowed_def split: if_splits)

section \<open>Identity metadata\<close>

definition put_miner_identity ::
  "MinerId \<Rightarrow> (ChainIdentityCommitments \<times> SignatureBundle \<times> Commitment) option \<Rightarrow>
   'cur Storage \<Rightarrow> 'cur Storage" where
  "put_miner_identity i x s = s\<lparr>
     MinerIdentityCommitments := (MinerIdentityCommitments s)(i := map_option fst x),
     MinerIdentitySignatureBundles :=
       (MinerIdentitySignatureBundles s)(i := map_option (fst \<circ> snd) x),
     MinerIdentitySignatureChallenges :=
       (MinerIdentitySignatureChallenges s)(i := map_option (snd \<circ> snd) x)\<rparr>"

definition put_validator_identity ::
  "ValidatorId \<Rightarrow> (ChainIdentityCommitments \<times> SignatureBundle \<times> Commitment) option \<Rightarrow>
   'cur Storage \<Rightarrow> 'cur Storage" where
  "put_validator_identity i x s = s\<lparr>
     ValidatorIdentityCommitments := (ValidatorIdentityCommitments s)(i := map_option fst x),
     ValidatorIdentitySignatureBundles :=
       (ValidatorIdentitySignatureBundles s)(i := map_option (fst \<circ> snd) x),
     ValidatorIdentitySignatureChallenges :=
       (ValidatorIdentitySignatureChallenges s)(i := map_option (snd \<circ> snd) x)\<rparr>"

lemma set_miner_identity_ok:
  assumes "set_miner_identity_commitments cfg origin i shielded endpoint bundle s = (Inr u, s')"
  obtains operator m x where "ensure_payload_signer cfg origin = Inr operator"
    "Miners s i = Some m" "operator_commitment_matches cfg (cm_operator_commitment m) operator"
    "pending_of (PendingMinerRequests s) i = 0"
    "s' = log_events cfg [MinerIdentityCommitmentsUpdated] (put_miner_identity i x s)"
    "if shielded \<noteq> None \<or> endpoint \<noteq> None
     then x = Some (\<lparr>shielded_identity_commitment = shielded, endpoint_commitment = endpoint\<rparr>, bundle,
            miner_identity_signature_challenge cfg i (cm_operator_commitment m) shielded endpoint) \<and>
          ensure_identity_signature_bundle_bound cfg bundle
            (miner_identity_signature_challenge cfg i (cm_operator_commitment m) shielded endpoint)
            (cm_operator_commitment m) shielded endpoint = Inr () \<and>
          (cm_status m = Active \<longrightarrow>
             insert_active_miner cfg (put_miner_identity i x s) (cm_subnet_id m) i = Inr ())
     else x = None"
proof -
  show thesis
  proof (cases "shielded \<noteq> None \<or> endpoint \<noteq> None")
    case True
    then show thesis
      using assms
      by (clarsimp simp: set_miner_identity_commitments_def ok_simps Let_def simp del: not_None_eq)
        (rule that [where x = "Some (\<lparr>shielded_identity_commitment = shielded,
            endpoint_commitment = endpoint\<rparr>, bundle, miner_identity_signature_challenge cfg i
            (cm_operator_commitment m) shielded endpoint)" for m];
          (assumption | auto simp: put_miner_identity_def o_def ok_simps split: if_splits))
  next
    case False
    then show thesis
      using assms
      by (clarsimp simp: set_miner_identity_commitments_def ok_simps simp del: not_None_eq)
        (rule that [where x = None];
          (assumption | simp add: put_miner_identity_def o_def ok_simps split: if_splits))
  qed
qed

lemma if_query_ok:
  "(if b then query f else ret ()) s = (Inr u, s') \<longleftrightarrow> s' = s \<and> (b \<longrightarrow> f s = Inr ())"
  by (auto simp: ok_simps)

lemma set_validator_identity_ok:
  assumes "set_validator_identity_commitments cfg origin i shielded endpoint bundle s = (Inr u, s')"
    and "shielded \<noteq> None \<or> endpoint \<noteq> None"
  obtains operator v x where "ensure_payload_signer cfg origin = Inr operator"
    "Validators s i = Some v" "operator_commitment_matches cfg (cv_operator_commitment v) operator"
    "pending_of (PendingValidatorRequests s) i = 0"
    "x = Some (\<lparr>shielded_identity_commitment = shielded, endpoint_commitment = endpoint\<rparr>, bundle,
       validator_identity_signature_challenge cfg i (cv_operator_commitment v) shielded endpoint)"
    "cv_status v = Active \<or> cv_status v = Pending"
    "cv_status v = Pending \<Longrightarrow> validator_has_active_locked_stake_record cfg s i"
    "insert_active_validator cfg (put_validator_identity i x s) (cv_subnet_id v) i = Inr ()"
    "s' = log_events cfg [ValidatorIdentityCommitmentsUpdated] ((put_validator_identity i x s)
       \<lparr>Validators := (Validators s)(i \<mapsto> with_validator_status cfg i v
          (if cv_status v = Pending then Active else cv_status v))\<rparr>)"
proof -
  show thesis
    using assms
    by (clarsimp simp: set_validator_identity_commitments_def ok_simps if_query_ok Let_def
        simp del: not_None_eq split del: if_split)
      (rule that [where x = "Some (\<lparr>shielded_identity_commitment = shielded,
          endpoint_commitment = endpoint\<rparr>, bundle, validator_identity_signature_challenge cfg i
          (cv_operator_commitment v) shielded endpoint)" for v];
        (assumption
          | simp add: put_validator_identity_def o_def with_validator_status_def split del: if_split
          | auto simp: put_validator_identity_def o_def ok_simps
              ensure_validator_locked_stake_record_def split: if_splits))
qed

lemma clear_validator_identity_ok:
  assumes "set_validator_identity_commitments cfg origin i None None bundle s = (Inr u, s')"
  obtains operator v where "ensure_payload_signer cfg origin = Inr operator"
    "Validators s i = Some v" "operator_commitment_matches cfg (cv_operator_commitment v) operator"
    "pending_of (PendingValidatorRequests s) i = 0"
    "s' = log_events cfg [ValidatorIdentityCommitmentsUpdated] ((put_validator_identity i None s)
       \<lparr>Validators := (if cv_status v = Active
           then (Validators s)(i \<mapsto> with_validator_status cfg i v Pending) else Validators s)\<rparr>)"
proof -
  show thesis
    using assms
    by (clarsimp simp: set_validator_identity_commitments_def ok_simps)
      (rule that; (assumption | auto simp: put_validator_identity_def o_def ok_simps
         with_validator_status_def split: if_splits))
qed

section \<open>Requests\<close>

definition bump :: "(nat \<rightharpoonup> RequestId) \<Rightarrow> nat \<Rightarrow> (nat \<rightharpoonup> RequestId)" where
  "bump p i = p(i \<mapsto> Suc (pending_of p i))"

definition unbump :: "(nat \<rightharpoonup> RequestId) \<Rightarrow> nat \<Rightarrow> (nat \<rightharpoonup> RequestId)" where
  "unbump p i = p(i := if pending_of p i \<le> 1 then None else Some (pending_of p i - 1))"

text \<open>The storage after the counters of a closing request have been updated.\<close>

definition closed ::
  "MinerId \<Rightarrow> ValidatorId \<Rightarrow> InferenceRequestStatus \<Rightarrow> 'cur Storage \<Rightarrow> 'cur Storage" where
  "closed mid vid fin s =
     (let t = s\<lparr>PendingMinerRequests := unbump (PendingMinerRequests s) mid,
                PendingValidatorRequests := unbump (PendingValidatorRequests s) vid\<rparr>
      in (put_status_count fin (Suc (status_count fin t))
           (put_status_count Request_Pending (status_count Request_Pending t - 1) t))
         \<lparr>TotalInferenceEscrowed := 0, TotalMinerPayouts := 0, TotalValidatorFees := 0,
          TotalTreasuryFees := 0, TotalInferenceRefunded := 0\<rparr>)"

lemma decrement_pending_assignment_ok [ok_simps]:
  "decrement_pending_assignment mid vid s = (Inr u, s') \<longleftrightarrow>
     0 < pending_of (PendingMinerRequests s) mid \<and> 0 < pending_of (PendingValidatorRequests s) vid \<and>
     s' = s\<lparr>PendingMinerRequests := unbump (PendingMinerRequests s) mid,
            PendingValidatorRequests := unbump (PendingValidatorRequests s) vid\<rparr>"
proof -
  have drop: "decremented x = Inr y \<longleftrightarrow> 0 < (case x of None \<Rightarrow> 0 | Some n \<Rightarrow> n) \<and>
      y = (if (case x of None \<Rightarrow> 0 | Some n \<Rightarrow> n) \<le> 1 then None
           else Some ((case x of None \<Rightarrow> 0 | Some n \<Rightarrow> n) - 1))" for x y
    by (cases x) (auto simp: decremented_def ok_simps)
  show ?thesis
    unfolding decrement_pending_assignment_def unbump_def pending_of_def
    by (auto simp: and_then_ok query_ok modify_ok drop)
qed

lemma transition_ok [ok_simps]:
  "fin \<noteq> Request_Pending \<Longrightarrow>
   transition_request_status Request_Pending fin s = (Inr u, s') \<longleftrightarrow>
     0 < status_count Request_Pending s \<and> Suc (status_count fin s) < 2 ^ 64 \<and>
     s' = put_status_count fin (Suc (status_count fin s))
       (put_status_count Request_Pending (status_count Request_Pending s - 1) s)"
  by (cases fin)
    (auto simp: transition_request_status_def decrement_request_status_count_def
      increment_request_status_count_def increment_request_count_def decrement_request_count_def
      ok_simps)

lemma clear_totals_ok [ok_simps]:
  "clear_inference_accounting_totals s = (Inr u, s') \<longleftrightarrow> s' = s\<lparr>
     TotalInferenceEscrowed := 0, TotalMinerPayouts := 0, TotalValidatorFees := 0,
     TotalTreasuryFees := 0, TotalInferenceRefunded := 0\<rparr>"
  by (auto simp: clear_inference_accounting_totals_def ok_simps)

text \<open>Closing the counters: a request must be pending for the miner and the validator.\<close>

definition closable :: "MinerId \<Rightarrow> ValidatorId \<Rightarrow> InferenceRequestStatus \<Rightarrow> 'cur Storage \<Rightarrow> bool" where
  "closable mid vid fin s \<longleftrightarrow>
     0 < pending_of (PendingMinerRequests s) mid \<and> 0 < pending_of (PendingValidatorRequests s) vid \<and>
     0 < PendingInferenceRequestCount s \<and> Suc (status_count fin s) < 2 ^ 64"

lemma closing_run:
  assumes "decrement_pending_assignment mid vid s = (Inr u, s1)"
    and "transition_request_status Request_Pending fin s1 = (Inr u', s2)"
    and "clear_inference_accounting_totals s2 = (Inr u'', s3)" and "fin \<noteq> Request_Pending"
  shows "closable mid vid fin s" and "s3 = closed mid vid fin s"
  using assms by (cases fin; simp add: ok_simps closed_def closable_def Let_def)+

lemma closed_put_requests:
  "(closed mid vid fin s)\<lparr>InferenceRequests := r\<rparr> = closed mid vid fin (s\<lparr>InferenceRequests := r\<rparr>)"
  by (cases s; cases fin) (simp_all add: closed_def Let_def)

text \<open>The storage after a pending request was closed with final status \<open>fin\<close>.\<close>

definition finish ::
  "RequestId \<Rightarrow> ChainInferenceRequest \<Rightarrow> InferenceRequestStatus \<Rightarrow> MinerId \<Rightarrow> ValidatorId \<Rightarrow>
   'cur \<Rightarrow> 'cur Storage \<Rightarrow> 'cur Storage" where
  "finish rid q fin mid vid c s = closed mid vid fin (s\<lparr>currency := c,
     InferenceRequests := (InferenceRequests s)(rid \<mapsto> q\<lparr>cr_status := fin\<rparr>)\<rparr>)"

text \<open>The storage after a request was opened.\<close>

definition opened ::
  "RequestId \<Rightarrow> ChainInferenceRequest \<Rightarrow> MinerId \<Rightarrow> ValidatorId \<Rightarrow> 'cur \<Rightarrow> 'cur Storage \<Rightarrow>
   'cur Storage" where
  "opened rid q mid vid c s = s\<lparr>
     RequestCount := Suc rid, currency := c,
     PendingMinerRequests := bump (PendingMinerRequests s) mid,
     PendingValidatorRequests := bump (PendingValidatorRequests s) vid,
     PendingInferenceRequestCount := Suc (PendingInferenceRequestCount s),
     TotalInferenceEscrowed := 0, TotalMinerPayouts := 0, TotalValidatorFees := 0,
     TotalTreasuryFees := 0, TotalInferenceRefunded := 0,
     InferenceRequests := (InferenceRequests s)(rid \<mapsto> q)\<rparr>"

lemma increment_pending_assignment_ok [ok_simps]:
  "increment_pending_assignment mid vid s = (Inr u, s') \<longleftrightarrow>
     Suc (pending_of (PendingMinerRequests s) mid) < 2 ^ 64 \<and>
     Suc (pending_of (PendingValidatorRequests s) vid) < 2 ^ 64 \<and>
     s' = s\<lparr>PendingMinerRequests := bump (PendingMinerRequests s) mid,
            PendingValidatorRequests := bump (PendingValidatorRequests s) vid\<rparr>"
  by (auto simp: increment_pending_assignment_def ok_simps bump_def)

lemma request_id_ok [ok_simps]:
  "ensure_request_id_can_advance rid s = (Inr n, s') \<longleftrightarrow>
     rid = RequestCount s \<and> Suc rid < 2 ^ 64 \<and> n = Suc rid \<and> s' = s"
  "ensure_next_request_id rid s = (Inr u, s') \<longleftrightarrow>
     rid = RequestCount s \<and> Suc rid < 2 ^ 64 \<and> s' = s\<lparr>RequestCount := Suc rid\<rparr>"
  by (auto simp: ensure_request_id_can_advance_def ensure_request_id_matches_next_def
      ensure_next_request_id_def ok_simps)

lemma increment_status_ok [ok_simps]:
  "increment_request_status_count Request_Pending s = (Inr u, s') \<longleftrightarrow>
     Suc (PendingInferenceRequestCount s) < 2 ^ 64 \<and>
     s' = s\<lparr>PendingInferenceRequestCount := Suc (PendingInferenceRequestCount s)\<rparr>"
  by (auto simp: increment_request_status_count_def increment_request_count_def ok_simps)

lemma ensure_request_assignment_ok [ok_simps]:
  "ensure_request_assignment cfg sid mid vid s = (Inr u, s') \<longleftrightarrow>
     s' = s \<and> (\<exists>m v. Miners s mid = Some m \<and> Validators s vid = Some v \<and>
       cm_subnet_id m = sid \<and> cv_subnet_id v = sid \<and> cm_status m = Active \<and> cv_status v = Active \<and>
       cm_operator_commitment m \<noteq> cv_operator_commitment v \<and>
       ensure_miner_signature_bundle_bound cfg s mid m = Inr () \<and>
       ensure_validator_signature_bundle_bound cfg s vid v = Inr ())"
  by (auto simp: ensure_request_assignment_def ensure_participant_signature_bundles_def ok_simps)

text \<open>The entry that opening a request stores.\<close>

definition new_request ::
  "'cur Config \<Rightarrow> AccountId \<Rightarrow> RequestId \<Rightarrow> MinerId \<Rightarrow> ValidatorId \<Rightarrow> BlockNumber \<Rightarrow>
   AutoRouteInferenceRequestParams \<Rightarrow> ChainInferenceRequest" where
  "new_request cfg user rid mid vid created p = \<lparr>
     cr_request_id = rid,
     cr_user_commitment = request_user_commitment cfg user,
     cr_subnet_id = ap_subnet_id p,
     cr_assignment_commitment = request_assignment_commitment cfg rid (ap_subnet_id p) mid vid
       (ap_assignment_blinding p),
     cr_input_commitment = ap_input_commitment p,
     cr_terms_commitment = request_terms_commitment cfg rid (ap_payment p)
       (ap_validator_fee_bps p) (ap_treasury_fee_bps p) (ap_terms_blinding p),
     cr_timing_commitment = request_timing_commitment cfg rid created (ap_timing_blinding p),
     cr_status = Request_Pending\<rparr>"

lemma open_run:
  assumes "open_inference_request cfg user rid (ap_subnet_id p) mid vid (ap_input_commitment p)
    (ap_assignment_blinding p) (ap_timing_blinding p) (ap_terms_blinding p) (ap_payment p)
    (ap_validator_fee_bps p) (ap_treasury_fee_bps p) s = (Inr u, s')"
  obtains c m v where "cur_hold (Currency cfg) InferencePayment user (ap_payment p) (currency s) =
      (Inr (), c)"
    "rid = RequestCount s" "Suc rid < 2 ^ 64" "Suc (PendingInferenceRequestCount s) < 2 ^ 64"
    "Miners s mid = Some m" "Validators s vid = Some v"
    "cm_subnet_id m = ap_subnet_id p" "cv_subnet_id v = ap_subnet_id p"
    "cm_status m = Active" "cv_status v = Active"
    "cm_operator_commitment m \<noteq> cv_operator_commitment v"
    "s' = log_events cfg [InferenceRequested]
       (opened rid (new_request cfg user rid mid vid (current_block s) p) mid vid c s)"
proof -
  show thesis
    using assms
    by (clarsimp simp: open_inference_request_def open_inference_request_with_commitments_def
        record_inference_escrow_def ok_simps Let_def)
      (rule that; (assumption | simp add: opened_def new_request_def))
qed

lemma route_and_open_ok:
  assumes "route_and_open cfg user rid p s = (Inr u, s')"
  obtains a c m v subnet where "route_assignment cfg s (ap_subnet_id p) rid (ap_assignment_blinding p) =
      Some a"
    "ap_input_commitment p \<noteq> 0" "ap_assignment_blinding p \<noteq> 0" "ap_timing_blinding p \<noteq> 0"
    "ap_terms_blinding p \<noteq> 0" "0 < ap_payment p"
    "ap_validator_fee_bps p + ap_treasury_fee_bps p \<le> 10000"
    "Subnets s (ap_subnet_id p) = Some subnet" "cs_active subnet"
    "cur_hold (Currency cfg) InferencePayment user (ap_payment p) (currency s) = (Inr (), c)"
    "rid = RequestCount s" "Suc rid < 2 ^ 64" "Suc (PendingInferenceRequestCount s) < 2 ^ 64"
    "Miners s (as_miner_id a) = Some m" "Validators s (as_validator_id a) = Some v"
    "cm_subnet_id m = ap_subnet_id p" "cv_subnet_id v = ap_subnet_id p"
    "cm_status m = Active" "cv_status v = Active"
    "cm_operator_commitment m \<noteq> cv_operator_commitment v"
    "s' = log_events cfg [InferenceRequested] (opened rid (new_request cfg user rid (as_miner_id a)
       (as_validator_id a) (current_block s) p) (as_miner_id a) (as_validator_id a) c s)"
proof -
  from assms obtain a subnet where
    g: "route_assignment cfg s (ap_subnet_id p) rid (ap_assignment_blinding p) = Some a"
      "ap_input_commitment p \<noteq> 0" "ap_assignment_blinding p \<noteq> 0" "ap_timing_blinding p \<noteq> 0"
      "ap_terms_blinding p \<noteq> 0" "0 < ap_payment p"
      "ap_validator_fee_bps p + ap_treasury_fee_bps p \<le> 10000"
      "Subnets s (ap_subnet_id p) = Some subnet" "cs_active subnet"
    and run: "open_inference_request cfg user rid (ap_subnet_id p) (as_miner_id a)
      (as_validator_id a) (ap_input_commitment p) (ap_assignment_blinding p)
      (ap_timing_blinding p) (ap_terms_blinding p) (ap_payment p) (ap_validator_fee_bps p)
      (ap_treasury_fee_bps p) s = (Inr u, s')"
    by (auto simp: route_and_open_def ensure_inference_request_openable_def ok_simps)
  show thesis
    by (rule open_run [OF run]) (rule that [OF g]; assumption)
qed

lemma closable_update [simp]:
  "closable mid vid fin (s\<lparr>currency := c\<rparr>) = closable mid vid fin s"
  "closable mid vid fin (s\<lparr>InferenceRequests := r\<rparr>) = closable mid vid fin s"
  by (cases fin; simp add: closable_def)+

lemma close_stale_request_ok:
  assumes "close_stale_request cfg rid user mid vid ablind tw sw fin s = (Inr u, s')"
    and fin: "fin \<noteq> Request_Pending"
  obtains q y c where "InferenceRequests s rid = Some q" "cr_status q = Request_Pending"
    "request_user_commitment_matches cfg (cr_user_commitment q) user"
    "ensure_request_assignment_witness cfg q mid vid ablind = Inr ()"
    "ensure_request_timing_witness cfg q tw = Inr ()"
    "ensure_request_terms_witness cfg q sw = Inr ()"
    "created_at tw + RequestCancelDelayBlocks cfg \<le> current_block s"
    "cur_release (Currency cfg) InferencePayment user (payment (terms sw)) (currency s) = (Inr y, c)"
    "closable mid vid fin s" "s' = finish rid q fin mid vid c s"
proof -
  obtain q y c s1 s2 where g: "InferenceRequests s rid = Some q" "cr_status q = Request_Pending"
      "request_user_commitment_matches cfg (cr_user_commitment q) user"
      "ensure_request_assignment_witness cfg q mid vid ablind = Inr ()"
      "ensure_request_timing_witness cfg q tw = Inr ()"
      "ensure_request_terms_witness cfg q sw = Inr ()"
      "created_at tw + RequestCancelDelayBlocks cfg \<le> current_block s"
      "cur_release (Currency cfg) InferencePayment user (payment (terms sw)) (currency s) = (Inr y, c)"
    and run: "decrement_pending_assignment mid vid (s\<lparr>currency := c,
        InferenceRequests := (InferenceRequests s)(rid \<mapsto> q\<lparr>cr_status := fin\<rparr>)\<rparr>) = (Inr (), s1)"
      "transition_request_status Request_Pending fin s1 = (Inr (), s2)"
      "clear_inference_accounting_totals s2 = (Inr (), s')"
  proof -
    show thesis
      using assms
      by (clarsimp simp: close_stale_request_def record_inference_refund_def and_then_ok
          try_mutate_request_ok lift_result_ok ensure_ok ok_or_ok require_ok record_ok
          release_for_ok ret_ok pure_guards_ok)
        (rule that; assumption)
  qed
  show thesis
    using closing_run [OF run fin] by (intro that [OF g]) (simp_all add: finish_def)
qed

text \<open>The pallet splits payments by the contract of the protocol crate, at 64 bits.\<close>

lemma two_shares_fit:
  "x < 2 ^ 64 \<Longrightarrow> y < 2 ^ 64 \<Longrightarrow> x div 10000 + y div 10000 < (2 ^ 64 :: nat)"
  by simp

interpretation pallet_split: fee_splitter 64 payment_split
proof
  fix p v t m vf tf
  show "payment_split p v t = Inr (m, vf, tf) \<longleftrightarrow>
      v + t \<le> 10000 \<and> p * v < 2 ^ 64 \<and> p * t < 2 ^ 64 \<and>
      vf = p * v div 10000 \<and> tf = p * t div 10000 \<and> m = p - (vf + tf)"
    using two_shares_le [of v t 10000 p] two_shares_fit [of "p * v" "p * t"]
    by (auto simp: payment_split_def ok_simps)
qed

text \<open>A transfer of held escrow: zero amounts are skipped.\<close>

definition held_transfer ::
  "'cur Config \<Rightarrow> AccountId \<Rightarrow> AccountId \<Rightarrow> Balance \<Rightarrow> 'cur \<Rightarrow> 'cur \<Rightarrow> bool" where
  "held_transfer cfg source dest x c c' \<longleftrightarrow>
     (if x = 0 then c' = c
      else \<exists>y. cur_transfer_on_hold (Currency cfg) InferencePayment source dest x c = (Inr y, c'))"

lemma transfer_held_payment_ok [ok_simps]:
  "transfer_held_payment cfg source dest x s = (Inr u, s') \<longleftrightarrow>
     (\<exists>c. held_transfer cfg source dest x (currency s) c \<and> s' = s\<lparr>currency := c\<rparr>)"
  by (auto simp: transfer_held_payment_def held_transfer_def ok_simps)

lemma settle_request_payment_ok:
  assumes "settle_request_payment cfg sub user mop vop ablind sw s = (Inr x, s')"
  obtains q m v mp vf tf c1 c2 c3 where "x = (mp, vf, tf)"
    "InferenceRequests s (request_id sub) = Some q" "cr_status q = Request_Pending"
    "ensure_request_assignment_witness cfg q (miner_id sub) (validator_id sub) ablind = Inr ()"
    "request_user_commitment_matches cfg (cr_user_commitment q) user"
    "ensure_request_terms_witness cfg q sw = Inr ()"
    "Miners s (miner_id sub) = Some m" "Validators s (validator_id sub) = Some v"
    "operator_commitment_matches cfg (cm_operator_commitment m) mop"
    "operator_commitment_matches cfg (cv_operator_commitment v) vop"
    "payment_split (payment (terms sw)) (validator_fee_bps (terms sw)) (treasury_fee_bps (terms sw)) =
       Inr (mp, vf, tf)"
    "held_transfer cfg user mop mp (currency s) c1" "held_transfer cfg user vop vf c1 c2"
    "held_transfer cfg user (ProtocolTreasury cfg) tf c2 c3"
    "closable (miner_id sub) (validator_id sub) Request_Settled s"
    "s' = finish (request_id sub) q Request_Settled (miner_id sub) (validator_id sub) c3 s"
proof -
  obtain q m v mp vf tf c1 c2 c3 s1 s2 s3 where g: "x = (mp, vf, tf)"
    "InferenceRequests s (request_id sub) = Some q" "cr_status q = Request_Pending"
    "ensure_request_assignment_witness cfg q (miner_id sub) (validator_id sub) ablind = Inr ()"
    "request_user_commitment_matches cfg (cr_user_commitment q) user"
    "ensure_request_terms_witness cfg q sw = Inr ()"
    "Miners s (miner_id sub) = Some m" "Validators s (validator_id sub) = Some v"
    "operator_commitment_matches cfg (cm_operator_commitment m) mop"
    "operator_commitment_matches cfg (cv_operator_commitment v) vop"
    "payment_split (payment (terms sw)) (validator_fee_bps (terms sw)) (treasury_fee_bps (terms sw)) =
       Inr (mp, vf, tf)"
    "held_transfer cfg user mop mp (currency s) c1" "held_transfer cfg user vop vf c1 c2"
    "held_transfer cfg user (ProtocolTreasury cfg) tf c2 c3"
    and run: "decrement_pending_assignment (miner_id sub) (validator_id sub) (s\<lparr>currency := c3\<rparr>) =
        (Inr (), s1)"
      "transition_request_status Request_Pending Request_Settled s1 = (Inr (), s2)"
      "clear_inference_accounting_totals s2 = (Inr (), s3)"
    and s': "s' = s3\<lparr>InferenceRequests := (InferenceRequests s3)(request_id sub \<mapsto>
        q\<lparr>cr_status := Request_Settled\<rparr>)\<rparr>"
  proof -
    show thesis
      using assms
      by (clarsimp simp: settle_request_payment_def record_inference_settlement_def Let_def
          and_then_ok try_mutate_request_ok lift_result_ok ensure_ok fetch_ok record_ok
          transfer_held_payment_ok ret_ok pure_guards_ok split: prod.splits)
        (rule that; (assumption | simp))
  qed
  note close = closing_run [OF run, simplified]
  have "InferenceRequests s3 = InferenceRequests s"
    unfolding close(2) by (simp add: closed_def Let_def)
  then show thesis
    using close s' by (intro that [OF g]) (simp_all add: finish_def closed_put_requests)
qed

lemma refund_rejected_request_ok:
  assumes "refund_rejected_request cfg sub user ablind sw s = (Inr x, s')"
  obtains q y c where "x = payment (terms sw)"
    "InferenceRequests s (request_id sub) = Some q" "cr_status q = Request_Pending"
    "ensure_request_assignment_witness cfg q (miner_id sub) (validator_id sub) ablind = Inr ()"
    "request_user_commitment_matches cfg (cr_user_commitment q) user"
    "ensure_request_terms_witness cfg q sw = Inr ()"
    "cur_release (Currency cfg) InferencePayment user (payment (terms sw)) (currency s) = (Inr y, c)"
    "closable (miner_id sub) (validator_id sub) Request_Rejected s"
    "s' = finish (request_id sub) q Request_Rejected (miner_id sub) (validator_id sub) c s"
proof -
  obtain q y c s1 s2 s3 where g: "x = payment (terms sw)"
    "InferenceRequests s (request_id sub) = Some q" "cr_status q = Request_Pending"
    "ensure_request_assignment_witness cfg q (miner_id sub) (validator_id sub) ablind = Inr ()"
    "request_user_commitment_matches cfg (cr_user_commitment q) user"
    "ensure_request_terms_witness cfg q sw = Inr ()"
    "cur_release (Currency cfg) InferencePayment user (payment (terms sw)) (currency s) = (Inr y, c)"
    and run: "decrement_pending_assignment (miner_id sub) (validator_id sub) (s\<lparr>currency := c\<rparr>) =
        (Inr (), s1)"
      "transition_request_status Request_Pending Request_Rejected s1 = (Inr (), s2)"
      "clear_inference_accounting_totals s2 = (Inr (), s3)"
    and s': "s' = s3\<lparr>InferenceRequests := (InferenceRequests s3)(request_id sub \<mapsto>
        q\<lparr>cr_status := Request_Rejected\<rparr>)\<rparr>"
  proof -
    show thesis
      using assms
      by (clarsimp simp: refund_rejected_request_def record_inference_refund_def Let_def
          ensure_rejected_request_witnesses_def and_then_ok try_mutate_request_ok lift_result_ok
          bind_r_ok ensure_r_ok record_ok release_for_ok ret_ok pure_guards_ok)
        (rule that; (assumption | simp))
  qed
  note close = closing_run [OF run, simplified]
  have "InferenceRequests s3 = InferenceRequests s"
    unfolding close(2) by (simp add: closed_def Let_def)
  then show thesis
    using close s' by (intro that [OF g]) (simp_all add: finish_def closed_put_requests)
qed

section \<open>Proof submissions\<close>

text \<open>What a submission satisfies once it has passed validation.\<close>

definition submission_valid ::
  "'cur Config \<Rightarrow> InferenceProofSubmission \<Rightarrow> Commitment \<Rightarrow> 'cur Storage \<Rightarrow>
   ChainInferenceRequest \<Rightarrow> ChainMiner \<Rightarrow> ChainValidator \<Rightarrow> bool" where
  "submission_valid cfg sub ablind s q m v \<longleftrightarrow>
     ProofRecords s (request_id sub) = None \<and>
     InferenceRequests s (request_id sub) = Some q \<and> cr_status q = Request_Pending \<and>
     cr_subnet_id q = subnet_id sub \<and> cr_input_commitment q = input_commitment sub \<and>
     ensure_request_assignment_witness cfg q (miner_id sub) (validator_id sub) ablind = Inr () \<and>
     (\<exists>subnet. Subnets s (subnet_id sub) = Some subnet \<and> cs_proof_system subnet = proof_system sub) \<and>
     output_commitment sub \<noteq> 0 \<and> supports (verifier_version (envelope sub)) (proof_system sub) \<and>
     MinProofSizeBytes cfg \<le> proof_size_bytes sub \<and> proof_size_bytes sub \<le> MaxProofSizeBytes cfg \<and>
     verification_latency_ms sub \<le> MaxVerificationLatencyMs cfg \<and>
     submitted_at sub \<le> current_block s \<and>
     current_block s - MaxProofSubmissionAgeBlocks cfg \<le> submitted_at sub \<and>
     journal_commitment (envelope sub) = proof_transcript_commitment cfg sub \<and>
     Miners s (miner_id sub) = Some m \<and> cm_subnet_id m = subnet_id sub \<and> cm_status m = Active \<and>
     cm_model_commitment m = model_commitment sub \<and>
     Validators s (validator_id sub) = Some v \<and> cv_subnet_id v = subnet_id sub \<and>
     cv_status v = Active \<and> cm_operator_commitment m \<noteq> cv_operator_commitment v"

lemma validate_submission_for_request_ok:
  assumes "validate_submission_for_request cfg sub ablind s = (Inr (policy, m, v), s')"
  shows "s' = s" and "\<exists>q. submission_valid cfg sub ablind s q m v"
proof -
  have "s' = s \<and> (\<exists>q. submission_valid cfg sub ablind s q m v)"
    using assms
    by (clarsimp simp: validate_submission_for_request_def ensure_submission_fresh_def
        ensure_proof_transcript_witness_def ensure_proof_envelope_def submission_valid_def
        saturating_sub_def ok_simps)
  then show "s' = s" and "\<exists>q. submission_valid cfg sub ablind s q m v" by simp_all
qed

lemma validate_submission_ok:
  assumes "validate_submission cfg sub vop mop ablind s = (Inr policy, s')"
  shows "s' = s" and "\<exists>q m v. submission_valid cfg sub ablind s q m v \<and>
    operator_commitment_matches cfg (cm_operator_commitment m) mop \<and>
    operator_commitment_matches cfg (cv_operator_commitment v) vop"
proof -
  obtain m v where run: "validate_submission_for_request cfg sub ablind s = (Inr (policy, m, v), s')"
      and "operator_commitment_matches cfg (cm_operator_commitment m) mop"
      "operator_commitment_matches cfg (cv_operator_commitment v) vop"
    using assms unfolding validate_submission_def
    by (auto simp: and_then_ok lift_result_ok ret_ok pure_guards_ok split: prod.splits)
  then show "s' = s" and "\<exists>q m v. submission_valid cfg sub ablind s q m v \<and>
      operator_commitment_matches cfg (cm_operator_commitment m) mop \<and>
      operator_commitment_matches cfg (cv_operator_commitment v) vop"
    using validate_submission_for_request_ok [OF run] by blast+
qed

lemma validate_challenge_submission_ok:
  assumes "validate_challenge_submission cfg sub mop ablind s = (Inr policy, s')"
  shows "s' = s" and "\<exists>q m v. submission_valid cfg sub ablind s q m v \<and>
    operator_commitment_matches cfg (cm_operator_commitment m) mop"
proof -
  obtain m v where run: "validate_submission_for_request cfg sub ablind s = (Inr (policy, m, v), s')"
      and "operator_commitment_matches cfg (cm_operator_commitment m) mop"
    using assms unfolding validate_challenge_submission_def
    by (auto simp: and_then_ok lift_result_ok ret_ok pure_guards_ok split: prod.splits)
  then show "s' = s" and "\<exists>q m v. submission_valid cfg sub ablind s q m v \<and>
      operator_commitment_matches cfg (cm_operator_commitment m) mop"
    using validate_submission_for_request_ok [OF run] by blast+
qed

lemma submit_proof_ok:
  assumes "submit_proof cfg origin sub user mop ablind sw s = (Inr u, s')"
  obtains (settled) vop q m v policy x t ac where
    "ensure_payload_signer cfg origin = Inr vop"
    "submission_valid cfg sub ablind s q m v"
    "operator_commitment_matches cfg (cm_operator_commitment m) mop"
    "operator_commitment_matches cfg (cv_operator_commitment v) vop"
    "ProofVerifier_verify cfg sub policy = Inr Valid"
    "settle_request_payment cfg sub user mop vop ablind sw s = (Inr x, t)"
    "s' = log_events cfg [ProofAccepted, InferenceSettled] (t\<lparr>ProofRecords :=
       (ProofRecords t)(request_id sub \<mapsto> \<lparr>cp_request_id = request_id sub,
         cp_subnet_id = subnet_id sub, cp_assignment_commitment = ac,
         cp_audit_commitment =
           proof_audit_commitment_for_assignment cfg sub (current_block s) ac,
         cp_proof_system = proof_system sub\<rparr>)\<rparr>)"
  | (rejected) vop q m v policy bps x1 x2 x3 s1 s2 t where
    "ensure_payload_signer cfg origin = Inr vop"
    "submission_valid cfg sub ablind s q m v"
    "operator_commitment_matches cfg (cm_operator_commitment m) mop"
    "operator_commitment_matches cfg (cv_operator_commitment v) vop"
    "ProofVerifier_verify cfg sub policy = Inr (Invalid bps)"
    "slash_miner_bond cfg (miner_id sub) mop bps s = (Inr x1, s1)"
    "slash_validator_stake cfg (validator_id sub) vop bps s1 = (Inr x2, s2)"
    "refund_rejected_request cfg sub user ablind sw s2 = (Inr x3, t)"
    "s' = log_events cfg [MinerSlashed, ValidatorSlashed, ProofRejected, InferenceRefunded] t"
  using assms [unfolded submit_proof_def transactional_ok and_then_ok lift_result_ok]
proof (elim exE conjE, goal_cases)
  case (1 vop s0 policy s1 outcome s2)
  then have signer: "ensure_payload_signer cfg origin = Inr vop"
    and val: "validate_submission cfg sub vop mop ablind s = (Inr policy, s1)"
    and ver: "ProofVerifier_verify cfg sub policy = Inr outcome"
    by simp_all
  have s2: "s2 = s" using 1 validate_submission_ok(1) [OF val] by simp
  from validate_submission_ok(2) [OF val] obtain q m v
    where q: "submission_valid cfg sub ablind s q m v"
      "operator_commitment_matches cfg (cm_operator_commitment m) mop"
      "operator_commitment_matches cfg (cv_operator_commitment v) vop" by blast
  show thesis
  proof (cases outcome)
    case Valid
    then show thesis
      using 1(6) unfolding s2 by (clarsimp simp: submission_assignment_commitment_def ok_simps)
        (rule settled [OF signer q ver [unfolded Valid]]; (assumption | simp))
  next
    case (Invalid bps)
    then show thesis
      using 1(6) unfolding s2 by (clarsimp simp: ensure_rejected_request_refundable_def ok_simps)
        (rule rejected [OF signer q ver [unfolded Invalid]]; (assumption | simp))
  next
    case VerificationFailure
    with 1(6) show thesis by (simp add: ok_simps)
  qed
qed

lemma challenge_proof_ok:
  assumes "challenge_proof cfg origin sub user mop ablind sw s = (Inr u, s')"
  obtains challenger q m v policy bps x1 x2 s1 t where
    "ensure_payload_signer cfg origin = Inr challenger"
    "submission_valid cfg sub ablind s q m v"
    "operator_commitment_matches cfg (cm_operator_commitment m) mop"
    "ProofVerifier_verify cfg sub policy = Inr (Invalid bps)"
    "slash_miner_bond cfg (miner_id sub) mop bps s = (Inr x1, s1)"
    "refund_rejected_request cfg sub user ablind sw s1 = (Inr x2, t)"
    "s' = log_events cfg
       [MinerSlashed, ProofRejected, ProofChallengeAccepted, InferenceRefunded] t"
  using assms [unfolded challenge_proof_def transactional_ok and_then_ok lift_result_ok]
proof (elim exE conjE, goal_cases)
  case (1 challenger s0 policy s1 outcome s2)
  then have signer: "ensure_payload_signer cfg origin = Inr challenger"
    and val: "validate_challenge_submission cfg sub mop ablind s = (Inr policy, s1)"
    and ver: "ProofVerifier_verify cfg sub policy = Inr outcome"
    by simp_all
  have s2: "s2 = s" using 1 validate_challenge_submission_ok(1) [OF val] by simp
  from validate_challenge_submission_ok(2) [OF val] obtain q m v
    where q: "submission_valid cfg sub ablind s q m v"
      "operator_commitment_matches cfg (cm_operator_commitment m) mop" by blast
  show thesis
  proof (cases outcome)
    case Valid
    with 1(5) show thesis by (simp add: ok_simps)
  next
    case (Invalid bps)
    then show thesis
      using 1(5) unfolding s2 by (clarsimp simp: ensure_rejected_request_refundable_def ok_simps)
        (rule that [OF signer q ver [unfolded Invalid]]; (assumption | simp))
  next
    case VerificationFailure
    with 1(5) show thesis by (simp add: ok_simps)
  qed
qed

section \<open>Failed dispatchables\<close>

lemma deactivate_miner_err:
  "deactivate_miner cfg origin i s = (Inl e, s') \<Longrightarrow> s' = s"
  by (auto simp: deactivate_miner_def try_mutate_miner_def err_simps ok_simps
      deposit_activity_event_def deposit_activity_events_run remove_active_miner_def)

lemma deactivate_validator_err:
  "deactivate_validator cfg origin i s = (Inl e, s') \<Longrightarrow> s' = s"
  by (auto simp: deactivate_validator_def try_mutate_validator_def err_simps ok_simps
      deposit_activity_event_def deposit_activity_events_run remove_active_validator_def)

end
