(* ===== verification/Pallet_Registries.thy ===== *)
theory Pallet_Registries
  imports Pallet_Runs
begin

text \<open>
  Miners and validators share one discipline: an entry per identifier, a capital record exactly
  while the status bears capital, a pending counter only for entries that may be assigned, and a
  bounded number of entries that are eligible for routing.  The discipline is stated once, its
  preservation is proved in the locale \<open>participant_registry\<close>, and both registries of the pallet
  are instances.
\<close>

section \<open>The discipline\<close>

definition registry_ok ::
  "('r \<Rightarrow> RegistryStatus) \<Rightarrow> (RegistryStatus \<Rightarrow> bool) \<Rightarrow> nat \<Rightarrow> (nat \<rightharpoonup> 'r) \<Rightarrow> nat \<Rightarrow>
   (nat \<rightharpoonup> Balance) \<Rightarrow> (nat \<rightharpoonup> RequestId) \<Rightarrow> bool" where
  "registry_ok st bears least reg n cap pend \<longleftrightarrow>
     dense reg n \<and>
     (\<forall>i. reg i = None \<longrightarrow> cap i = None \<and> pend i = None) \<and>
     (\<forall>i r. reg i = Some r \<longrightarrow>
        (cap i \<noteq> None \<longleftrightarrow> bears (st r)) \<and>
        (\<forall>c. st r = Active \<longrightarrow> cap i = Some c \<longrightarrow> least \<le> c) \<and>
        (\<forall>p. pend i = Some p \<longrightarrow> 0 < p \<and> (st r = Active \<or> st r = Slashed)))"

definition pending_total :: "nat \<Rightarrow> (nat \<rightharpoonup> RequestId) \<Rightarrow> nat" where
  "pending_total n pend = (\<Sum>i<n. pending_of pend i)"

locale participant_registry =
  fixes st :: "'r \<Rightarrow> RegistryStatus" and bears :: "RegistryStatus \<Rightarrow> bool" and least :: nat
  assumes bears_active: "bears Active"
    and bears_slashed: "bears Slashed"
    and bears_exiting: "bears (Exiting b)"
    and not_bears_disabled: "\<not> bears Disabled"
begin

lemma empty_ok: "registry_ok st bears least Map.empty 0 Map.empty Map.empty"
  by (simp add: registry_ok_def)

lemma insert_ok:
  assumes "registry_ok st bears least reg n cap pend" and "st r = Pending"
    and "c \<noteq> None \<longleftrightarrow> bears Pending"
  shows "registry_ok st bears least (reg(n \<mapsto> r)) (Suc n) (cap(n := c)) pend"
  using assms dense_fresh [of reg n] by (auto simp: registry_ok_def dense_insert)

lemma replace_ok:
  assumes "registry_ok st bears least reg n cap pend" and "reg i = Some r"
    and "c \<noteq> None \<longleftrightarrow> bears (st r')"
    and "\<And>x. st r' = Active \<Longrightarrow> c = Some x \<Longrightarrow> least \<le> x"
    and "\<And>p. pend i = Some p \<Longrightarrow> st r' = Active \<or> st r' = Slashed"
  shows "registry_ok st bears least (reg(i \<mapsto> r')) n (cap(i := c)) pend"
  using assms by (auto simp: registry_ok_def dense_update)

lemma replace_same_capital:
  assumes "registry_ok st bears least reg n cap pend" and "reg i = Some r"
    and "bears (st r') = bears (st r)" and "st r' = Active \<Longrightarrow> st r = Active"
    and "\<And>p. pend i = Some p \<Longrightarrow> st r' = Active \<or> st r' = Slashed"
  shows "registry_ok st bears least (reg(i \<mapsto> r')) n cap pend"
proof -
  have "registry_ok st bears least (reg(i \<mapsto> r')) n (cap(i := cap i)) pend"
    by (rule replace_ok [OF assms(1,2)]) (use assms in \<open>auto simp: registry_ok_def\<close>)
  then show ?thesis by simp
qed

lemma entry:
  assumes "registry_ok st bears least reg n cap pend" and "reg i = Some r"
  shows "cap i \<noteq> None \<longleftrightarrow> bears (st r)"
    and "st r = Active \<Longrightarrow> cap i = Some c \<Longrightarrow> least \<le> c"
    and "pend i = Some p \<Longrightarrow> 0 < p"
    and "pend i = Some p \<Longrightarrow> st r = Active \<or> st r = Slashed"
  using assms unfolding registry_ok_def by blast+

lemma no_pending:
  assumes "registry_ok st bears least reg n cap pend" and "pending_of pend i = 0"
  shows "pend i = None"
proof (cases "pend i")
  case (Some p)
  with assms(1) obtain r where "reg i = Some r"
    by (cases "reg i") (auto simp: registry_ok_def)
  with Some assms(1) have "0 < p" unfolding registry_ok_def by blast
  with Some assms(2) show ?thesis by (simp add: pending_of_def)
qed

lemma bump_ok:
  assumes "registry_ok st bears least reg n cap pend" and "reg i = Some r" and "st r = Active"
  shows "registry_ok st bears least reg n cap (bump pend i)"
  using assms by (auto simp: registry_ok_def bump_def)

lemma unbump_ok:
  assumes "registry_ok st bears least reg n cap pend"
  shows "registry_ok st bears least reg n cap (unbump pend i)"
  using assms by (auto simp: registry_ok_def unbump_def pending_of_def split: option.splits)

lemma pending_known:
  assumes "registry_ok st bears least reg n cap pend" and "0 < pending_of pend i"
  obtains r where "reg i = Some r" "st r = Active \<or> st r = Slashed" "i < n"
proof -
  from assms obtain r where r: "reg i = Some r"
    by (cases "reg i") (auto simp: registry_ok_def pending_of_def)
  moreover have "st r = Active \<or> st r = Slashed"
    using assms r by (auto simp: registry_ok_def pending_of_def split: option.splits)
  moreover have "i < n" using assms(1) r dense_less by (auto simp: registry_ok_def)
  ultimately show thesis by (rule that)
qed

lemma bump_total: "i < n \<Longrightarrow> pending_total n (bump pend i) = Suc (pending_total n pend)"
  using sum_update [of "{..<n}" i "\<lambda>x. case x of None \<Rightarrow> 0 | Some n \<Rightarrow> n" pend
      "Some (Suc (pending_of pend i))"]
  by (simp add: pending_total_def bump_def pending_of_def)

lemma unbump_total:
  assumes "i < n" and "0 < pending_of pend i"
  shows "Suc (pending_total n (unbump pend i)) = pending_total n pend"
proof -
  define x where "x = (if pending_of pend i \<le> 1 then None else Some (pending_of pend i - 1))"
  have "(case x of None \<Rightarrow> 0 | Some n \<Rightarrow> n) = pending_of pend i - 1" by (simp add: x_def)
  then show ?thesis
    using sum_update [of "{..<n}" i "\<lambda>x. case x of None \<Rightarrow> 0 | Some n \<Rightarrow> n" pend x] assms
    unfolding pending_total_def unbump_def x_def [symmetric] by (simp add: pending_of_def)
qed

lemma grow_total:
  assumes "registry_ok st bears least reg n cap pend"
  shows "pending_total (Suc n) pend = pending_total n pend"
  using assms dense_fresh [of reg n] by (auto simp: registry_ok_def pending_total_def pending_of_def)

end

interpretation miner_registry: participant_registry cm_status miner_capital_bearing_status least
  for least
  by unfold_locales (simp_all add: miner_capital_bearing_status_def)

interpretation validator_registry:
  participant_registry cv_status validator_capital_bearing_status least for least
  by unfold_locales (simp_all add: validator_capital_bearing_status_def)

section \<open>Records of a dense registry\<close>

lemma registry_records_Suc:
  "registry_records m (Suc n) =
     registry_records m n @ (case m n of None \<Rightarrow> [] | Some r \<Rightarrow> [(n, r)])"
  by (simp add: registry_records_def List.map_filter_def split: option.splits)

lemma set_registry_records: "set (registry_records m n) = {(i, r). i < n \<and> m i = Some r}"
  by (induction n)
    (auto simp: registry_records_Suc registry_records_def List.map_filter_def less_Suc_eq
      split: option.splits)

lemma distinct_registry_ids: "distinct (map fst (registry_records m n))"
  by (induction n)
    (auto simp: registry_records_Suc set_registry_records registry_records_def List.map_filter_def
      split: option.splits)

lemma filter_ids:
  assumes "dense m n"
  shows "distinct (map fst (filter P (registry_records m n)))"
    and "set (map fst (filter P (registry_records m n))) = {i. \<exists>r. m i = Some r \<and> P (i, r)}"
  using distinct_registry_ids [of m n] dense_less [OF assms]
  by (auto simp: distinct_map_filter set_registry_records image_iff) blast

section \<open>Routing capacity\<close>

definition eligible_miners :: "'cur Config \<Rightarrow> 'cur Storage \<Rightarrow> SubnetId \<Rightarrow> MinerId set" where
  "eligible_miners cfg s sid =
     {i. \<exists>m. Miners s i = Some m \<and> cm_subnet_id m = sid \<and> miner_is_route_eligible cfg s i m}"

definition eligible_validators :: "'cur Config \<Rightarrow> 'cur Storage \<Rightarrow> SubnetId \<Rightarrow> ValidatorId set" where
  "eligible_validators cfg s sid =
     {i. \<exists>v. Validators s i = Some v \<and> cv_subnet_id v = sid \<and> validator_is_route_eligible cfg s i v}"

lemma active_miner_ids:
  assumes "dense (Miners s) (MinerCount s)"
  shows "set (active_miner_route_ids cfg s sid) = eligible_miners cfg s sid"
    and "length (active_miner_route_ids cfg s sid) = card (eligible_miners cfg s sid)"
    and "finite (eligible_miners cfg s sid)"
    and "distinct (active_miner_route_ids cfg s sid)"
proof -
  note ids = filter_ids [OF assms, of "\<lambda>(i, m). cm_subnet_id m = sid \<and>
    miner_is_route_eligible cfg s i m"]
  show set: "set (active_miner_route_ids cfg s sid) = eligible_miners cfg s sid"
    using ids(2) by (simp add: active_miner_route_ids_def miner_records_def eligible_miners_def)
  show "finite (eligible_miners cfg s sid)"
    unfolding set [symmetric] by simp
  show distinct: "distinct (active_miner_route_ids cfg s sid)"
    using ids(1) by (simp add: active_miner_route_ids_def miner_records_def)
  show "length (active_miner_route_ids cfg s sid) = card (eligible_miners cfg s sid)"
    unfolding set [symmetric]
    by (rule distinct_card [symmetric, OF distinct])
qed

lemma active_validator_ids:
  assumes "dense (Validators s) (ValidatorCount s)"
  shows "set (active_validator_route_ids cfg s sid) = eligible_validators cfg s sid"
    and "length (active_validator_route_ids cfg s sid) = card (eligible_validators cfg s sid)"
    and "finite (eligible_validators cfg s sid)"
    and "distinct (active_validator_route_ids cfg s sid)"
proof -
  note ids = filter_ids [OF assms, of "\<lambda>(i, v). cv_subnet_id v = sid \<and>
    validator_is_route_eligible cfg s i v"]
  show set: "set (active_validator_route_ids cfg s sid) = eligible_validators cfg s sid"
    using ids(2)
    by (simp add: active_validator_route_ids_def validator_records_def eligible_validators_def)
  show "finite (eligible_validators cfg s sid)"
    unfolding set [symmetric] by simp
  show distinct: "distinct (active_validator_route_ids cfg s sid)"
    using ids(1) by (simp add: active_validator_route_ids_def validator_records_def)
  show "length (active_validator_route_ids cfg s sid) = card (eligible_validators cfg s sid)"
    unfolding set [symmetric]
    by (rule distinct_card [symmetric, OF distinct])
qed

text \<open>A capacity check that passed leaves room for its candidate.\<close>

lemma capacity_check:
  assumes "ensure_route_capacity ids (Some i) cap e = Inr u" and "distinct ids"
    and "length ids < 2 ^ 32"
  shows "card (insert i (set ids)) \<le> cap"
  using assms distinct_card [of ids]
  by (auto simp: ensure_route_capacity_def ok_simps insert_absorb Let_def split: if_splits)

lemma card_le_insert:
  "finite E \<Longrightarrow> E' \<subseteq> insert i E \<Longrightarrow> card (insert i E) \<le> n \<Longrightarrow> card E' \<le> n"
  by (meson card_mono finite.insertI le_trans)

end
