(* ===== verification/Pallet_Invariants.thy ===== *)
theory Pallet_Invariants
  imports Pallet_Registries
begin

text \<open>
  The storage invariant of the pallet and its preservation by every storage update that a
  dispatchable performs.  The invariant needs no assumption on the digest or the currency.
\<close>

section \<open>The invariant\<close>

definition subnets_ok :: "'cur Storage \<Rightarrow> bool" where
  "subnets_ok s \<longleftrightarrow> dense (Subnets s) (SubnetCount s) \<and>
     (\<forall>i c. Subnets s i = Some c \<longrightarrow> cs_id c = i \<and> cs_active c)"

definition miners_ok :: "'cur Config \<Rightarrow> 'cur Storage \<Rightarrow> bool" where
  "miners_ok cfg s \<longleftrightarrow>
     registry_ok cm_status miner_capital_bearing_status (MinMinerBond cfg) (Miners s)
       (MinerCount s) (MinerLockedBond s) (PendingMinerRequests s) \<and>
     (\<forall>i m. Miners s i = Some m \<longrightarrow> cm_id m = i \<and> cm_model_commitment m \<noteq> 0 \<and>
        (\<exists>c. Subnets s (cm_subnet_id m) = Some c \<and> cs_proof_system c = cm_proof_system m) \<and>
        cm_bond_commitment m =
          miner_bond_commitment cfg i (cm_operator_commitment m) (cm_status m)) \<and>
     (\<forall>i b. MinerLockedBond s i = Some b \<longrightarrow> b \<le> MaxMinerBond cfg)"

definition validators_ok :: "'cur Config \<Rightarrow> 'cur Storage \<Rightarrow> bool" where
  "validators_ok cfg s \<longleftrightarrow>
     registry_ok cv_status validator_capital_bearing_status (MinValidatorStake cfg) (Validators s)
       (ValidatorCount s) (ValidatorLockedStake s) (PendingValidatorRequests s) \<and>
     (\<forall>i v. Validators s i = Some v \<longrightarrow> cv_id v = i \<and> Subnets s (cv_subnet_id v) \<noteq> None \<and>
        cv_stake_commitment v =
          validator_stake_commitment cfg i (cv_operator_commitment v) (cv_status v))"

definition capacity_ok :: "'cur Config \<Rightarrow> 'cur Storage \<Rightarrow> bool" where
  "capacity_ok cfg s \<longleftrightarrow>
     (\<forall>sid. card (eligible_miners cfg s sid) \<le> MaxActiveMinersPerSubnet cfg) \<and>
     (\<forall>sid. card (eligible_validators cfg s sid) \<le> MaxActiveValidatorsPerSubnet cfg)"

fun has_status :: "InferenceRequestStatus \<Rightarrow> ChainInferenceRequest option \<Rightarrow> nat" where
  "has_status st None = 0"
| "has_status st (Some q) = (if cr_status q = st then 1 else 0)"

definition requests_with :: "InferenceRequestStatus \<Rightarrow> 'cur Storage \<Rightarrow> nat" where
  "requests_with st s = (\<Sum>r<RequestCount s. has_status st (InferenceRequests s r))"

definition requests_ok :: "'cur Storage \<Rightarrow> bool" where
  "requests_ok s \<longleftrightarrow>
     dense (InferenceRequests s) (RequestCount s) \<and> RequestCount s < 2 ^ 64 \<and>
     (\<forall>r q. InferenceRequests s r = Some q \<longrightarrow>
        cr_request_id q = r \<and> cr_input_commitment q \<noteq> 0 \<and> Subnets s (cr_subnet_id q) \<noteq> None) \<and>
     (\<forall>st. status_count st s = requests_with st s) \<and>
     pending_total (MinerCount s) (PendingMinerRequests s) = PendingInferenceRequestCount s \<and>
     pending_total (ValidatorCount s) (PendingValidatorRequests s) = PendingInferenceRequestCount s"

definition proofs_ok :: "'cur Storage \<Rightarrow> bool" where
  "proofs_ok s \<longleftrightarrow>
     (\<forall>r. ProofRecords s r \<noteq> None \<longleftrightarrow>
        (\<exists>q. InferenceRequests s r = Some q \<and> cr_status q = Request_Settled)) \<and>
     (\<forall>r p. ProofRecords s r = Some p \<longrightarrow> cp_request_id p = r)"

definition nothing_published :: "'cur Storage \<Rightarrow> bool" where
  "nothing_published s \<longleftrightarrow>
     TotalBurned s = 0 \<and> TotalInferenceEscrowed s = 0 \<and> TotalMinerPayouts s = 0 \<and>
     TotalValidatorFees s = 0 \<and> TotalTreasuryFees s = 0 \<and> TotalInferenceRefunded s = 0 \<and>
     ActiveMinersBySubnet s = (\<lambda>_. []) \<and> ActiveValidatorsBySubnet s = (\<lambda>_. [])"

definition pallet_inv :: "'cur Config \<Rightarrow> 'cur Storage \<Rightarrow> bool" where
  "pallet_inv cfg s \<longleftrightarrow> subnets_ok s \<and> miners_ok cfg s \<and> validators_ok cfg s \<and> capacity_ok cfg s \<and>
     requests_ok s \<and> proofs_ok s \<and> nothing_published s"

named_theorems inv_defs

lemmas inv_parts [inv_defs] = pallet_inv_def subnets_ok_def miners_ok_def validators_ok_def
  capacity_ok_def requests_ok_def proofs_ok_def nothing_published_def

text \<open>The configured capacities are 32-bit constants, and the pallet counts candidates in 32 bits.\<close>

definition config_ok :: "'cur Config \<Rightarrow> bool" where
  "config_ok cfg \<longleftrightarrow> Suc (MaxActiveMinersPerSubnet cfg) < 2 ^ 32 \<and>
     Suc (MaxActiveValidatorsPerSubnet cfg) < 2 ^ 32"

lemma inv_dense:
  assumes "pallet_inv cfg s"
  shows "dense (Miners s) (MinerCount s)" "dense (Validators s) (ValidatorCount s)"
    "dense (Subnets s) (SubnetCount s)" "dense (InferenceRequests s) (RequestCount s)"
  using assms by (auto simp: inv_defs registry_ok_def)

section \<open>Eligibility under updates\<close>

lemma miner_eligible_cong:
  assumes "MinerLockedBond s' i = MinerLockedBond s i"
    and "MinerIdentityCommitments s' i = MinerIdentityCommitments s i"
    and "MinerIdentitySignatureChallenges s' i = MinerIdentitySignatureChallenges s i"
    and "MinerIdentitySignatureBundles s' i = MinerIdentitySignatureBundles s i"
  shows "miner_is_route_eligible cfg s' i m = miner_is_route_eligible cfg s i m"
  using assms by (simp add: miner_is_route_eligible_def miner_has_active_locked_bond_record_def
      ensure_miner_signature_bundle_bound_def)

lemma validator_eligible_cong:
  assumes "ValidatorLockedStake s' i = ValidatorLockedStake s i"
    and "ValidatorIdentityCommitments s' i = ValidatorIdentityCommitments s i"
    and "ValidatorIdentitySignatureChallenges s' i = ValidatorIdentitySignatureChallenges s i"
    and "ValidatorIdentitySignatureBundles s' i = ValidatorIdentitySignatureBundles s i"
  shows "validator_is_route_eligible cfg s' i v = validator_is_route_eligible cfg s i v"
  using assms by (simp add: validator_is_route_eligible_def
      validator_has_active_locked_stake_record_def ensure_validator_signature_bundle_bound_def)

lemma eligible_miners_cong:
  assumes "Miners s' = Miners s" and "MinerLockedBond s' = MinerLockedBond s"
    and "MinerIdentityCommitments s' = MinerIdentityCommitments s"
    and "MinerIdentitySignatureChallenges s' = MinerIdentitySignatureChallenges s"
    and "MinerIdentitySignatureBundles s' = MinerIdentitySignatureBundles s"
  shows "eligible_miners cfg s' = eligible_miners cfg s"
  using assms by (auto simp: eligible_miners_def miner_eligible_cong [of s' _ s])

lemma eligible_validators_cong:
  assumes "Validators s' = Validators s" and "ValidatorLockedStake s' = ValidatorLockedStake s"
    and "ValidatorIdentityCommitments s' = ValidatorIdentityCommitments s"
    and "ValidatorIdentitySignatureChallenges s' = ValidatorIdentitySignatureChallenges s"
    and "ValidatorIdentitySignatureBundles s' = ValidatorIdentitySignatureBundles s"
  shows "eligible_validators cfg s' = eligible_validators cfg s"
  using assms by (auto simp: eligible_validators_def validator_eligible_cong [of s' _ s])

text \<open>An update at one identifier changes the eligible set at that identifier only.\<close>

lemma eligible_miners_at:
  assumes "\<And>j. j \<noteq> i \<Longrightarrow> Miners s' j = Miners s j \<and> MinerLockedBond s' j = MinerLockedBond s j \<and>
      MinerIdentityCommitments s' j = MinerIdentityCommitments s j \<and>
      MinerIdentitySignatureChallenges s' j = MinerIdentitySignatureChallenges s j \<and>
      MinerIdentitySignatureBundles s' j = MinerIdentitySignatureBundles s j"
  shows "insert i (eligible_miners cfg s' sid) = insert i (eligible_miners cfg s sid)"
    and "i \<notin> eligible_miners cfg s' sid \<or> i \<in> eligible_miners cfg s sid \<Longrightarrow>
      eligible_miners cfg s' sid \<subseteq> eligible_miners cfg s sid"
proof -
  have same: "j \<in> eligible_miners cfg s' sid \<longleftrightarrow> j \<in> eligible_miners cfg s sid" if "j \<noteq> i" for j
    using assms [OF that] miner_eligible_cong [of s' j s cfg] by (simp add: eligible_miners_def)
  show "insert i (eligible_miners cfg s' sid) = insert i (eligible_miners cfg s sid)"
    using same by blast
  show "eligible_miners cfg s' sid \<subseteq> eligible_miners cfg s sid"
    if "i \<notin> eligible_miners cfg s' sid \<or> i \<in> eligible_miners cfg s sid"
    using same that by (metis subsetI)
qed

lemma eligible_validators_at:
  assumes "\<And>j. j \<noteq> i \<Longrightarrow> Validators s' j = Validators s j \<and>
      ValidatorLockedStake s' j = ValidatorLockedStake s j \<and>
      ValidatorIdentityCommitments s' j = ValidatorIdentityCommitments s j \<and>
      ValidatorIdentitySignatureChallenges s' j = ValidatorIdentitySignatureChallenges s j \<and>
      ValidatorIdentitySignatureBundles s' j = ValidatorIdentitySignatureBundles s j"
  shows "insert i (eligible_validators cfg s' sid) = insert i (eligible_validators cfg s sid)"
    and "i \<notin> eligible_validators cfg s' sid \<or> i \<in> eligible_validators cfg s sid \<Longrightarrow>
      eligible_validators cfg s' sid \<subseteq> eligible_validators cfg s sid"
proof -
  have same: "j \<in> eligible_validators cfg s' sid \<longleftrightarrow> j \<in> eligible_validators cfg s sid" if "j \<noteq> i" for j
    using assms [OF that] validator_eligible_cong [of s' j s cfg]
    by (simp add: eligible_validators_def)
  show "insert i (eligible_validators cfg s' sid) = insert i (eligible_validators cfg s sid)"
    using same by blast
  show "eligible_validators cfg s' sid \<subseteq> eligible_validators cfg s sid"
    if "i \<notin> eligible_validators cfg s' sid \<or> i \<in> eligible_validators cfg s sid"
    using same that by (metis subsetI)
qed

lemma capacity_mono:
  assumes "capacity_ok cfg s" and "dense (Miners s) (MinerCount s)"
    and "dense (Validators s) (ValidatorCount s)"
    and "\<And>sid. eligible_miners cfg s' sid \<subseteq> eligible_miners cfg s sid"
    and "\<And>sid. eligible_validators cfg s' sid \<subseteq> eligible_validators cfg s sid"
  shows "capacity_ok cfg s'"
  unfolding capacity_ok_def
  using assms(1) card_mono [OF active_miner_ids(3) [OF assms(2)] assms(4)]
    card_mono [OF active_validator_ids(3) [OF assms(3)] assms(5)]
  by (meson capacity_ok_def le_trans)

section \<open>Updates that keep the invariant\<close>

text \<open>Each part reads its own fields; registries of subnets may grow.\<close>

lemma subnets_frame:
  assumes "subnets_ok s" and "Subnets s' = Subnets s" and "SubnetCount s' = SubnetCount s"
  shows "subnets_ok s'"
  using assms unfolding subnets_ok_def by simp

lemma miners_frame:
  assumes "miners_ok cfg s" and "Subnets s \<subseteq>\<^sub>m Subnets s'" and "Miners s' = Miners s"
    and "MinerCount s' = MinerCount s" and "MinerLockedBond s' = MinerLockedBond s"
    and "PendingMinerRequests s' = PendingMinerRequests s"
  shows "miners_ok cfg s'"
  using assms(1,2) unfolding miners_ok_def assms(3-6) map_le_def by (metis domI)

lemma validators_frame:
  assumes "validators_ok cfg s" and "Subnets s \<subseteq>\<^sub>m Subnets s'" and "Validators s' = Validators s"
    and "ValidatorCount s' = ValidatorCount s" and "ValidatorLockedStake s' = ValidatorLockedStake s"
    and "PendingValidatorRequests s' = PendingValidatorRequests s"
  shows "validators_ok cfg s'"
  using assms(1,2) unfolding validators_ok_def assms(3-6) map_le_def by (metis domIff)

lemma requests_frame:
  assumes "requests_ok s" and "Subnets s \<subseteq>\<^sub>m Subnets s'"
    and "InferenceRequests s' = InferenceRequests s" and "RequestCount s' = RequestCount s"
    and status: "\<And>st. status_count st s' = status_count st s"
    and "pending_total (MinerCount s') (PendingMinerRequests s') =
      pending_total (MinerCount s) (PendingMinerRequests s)"
    and "pending_total (ValidatorCount s') (PendingValidatorRequests s') =
      pending_total (ValidatorCount s) (PendingValidatorRequests s)"
  shows "requests_ok s'"
proof -
  have known: "Subnets s' i \<noteq> None" if "Subnets s i \<noteq> None" for i
    using assms(2) that unfolding map_le_def by (metis domIff)
  have pending: "PendingInferenceRequestCount s' = PendingInferenceRequestCount s"
    using status [of Request_Pending] by simp
  show ?thesis
    using assms(1) known unfolding requests_ok_def requests_with_def assms(3,4,6,7) status pending
    by blast
qed

lemma proofs_frame:
  assumes "proofs_ok s" and "InferenceRequests s' = InferenceRequests s"
    and "ProofRecords s' = ProofRecords s"
  shows "proofs_ok s'"
  using assms unfolding proofs_ok_def by simp

text \<open>The invariant reads the pallet's own storage only.\<close>

lemma inv_frame:
  assumes "SubnetCount s' = SubnetCount s" "MinerCount s' = MinerCount s"
    "ValidatorCount s' = ValidatorCount s" "Subnets s' = Subnets s" "Miners s' = Miners s"
    "Validators s' = Validators s" "MinerIdentityCommitments s' = MinerIdentityCommitments s"
    "MinerIdentitySignatureBundles s' = MinerIdentitySignatureBundles s"
    "MinerIdentitySignatureChallenges s' = MinerIdentitySignatureChallenges s"
    "ValidatorIdentityCommitments s' = ValidatorIdentityCommitments s"
    "ValidatorIdentitySignatureBundles s' = ValidatorIdentitySignatureBundles s"
    "ValidatorIdentitySignatureChallenges s' = ValidatorIdentitySignatureChallenges s"
    "ProofRecords s' = ProofRecords s" "InferenceRequests s' = InferenceRequests s"
    "RequestCount s' = RequestCount s" "ActiveMinersBySubnet s' = ActiveMinersBySubnet s"
    "ActiveValidatorsBySubnet s' = ActiveValidatorsBySubnet s"
    "MinerLockedBond s' = MinerLockedBond s" "ValidatorLockedStake s' = ValidatorLockedStake s"
    "PendingMinerRequests s' = PendingMinerRequests s"
    "PendingValidatorRequests s' = PendingValidatorRequests s" "TotalBurned s' = TotalBurned s"
    "TotalInferenceEscrowed s' = TotalInferenceEscrowed s"
    "TotalMinerPayouts s' = TotalMinerPayouts s" "TotalValidatorFees s' = TotalValidatorFees s"
    "TotalTreasuryFees s' = TotalTreasuryFees s"
    "TotalInferenceRefunded s' = TotalInferenceRefunded s"
    and status: "\<And>st. status_count st s' = status_count st s"
  shows "pallet_inv cfg s' = pallet_inv cfg s"
proof -
  note eqs = assms(1-27)
  have "eligible_miners cfg s' = eligible_miners cfg s"
    "eligible_validators cfg s' = eligible_validators cfg s"
    by (rule eligible_miners_cong eligible_validators_cong; simp add: eqs)+
  then have "capacity_ok cfg s' = capacity_ok cfg s" by (simp add: capacity_ok_def)
  moreover have "requests_ok s' = requests_ok s"
    unfolding requests_ok_def requests_with_def eqs status
    using status [of Request_Pending] by simp
  moreover have "subnets_ok s' = subnets_ok s" "miners_ok cfg s' = miners_ok cfg s"
    "validators_ok cfg s' = validators_ok cfg s" "proofs_ok s' = proofs_ok s"
    "nothing_published s' = nothing_published s"
    unfolding subnets_ok_def miners_ok_def validators_ok_def proofs_ok_def nothing_published_def eqs
    by (rule refl)+
  ultimately show ?thesis by (simp add: pallet_inv_def)
qed

lemma status_count_environment [simp]:
  "status_count st (s\<lparr>currency := c\<rparr>) = status_count st s"
  "status_count st (s\<lparr>block_number := b\<rparr>) = status_count st s"
  by (cases st; simp)+

lemma inv_environment [simp]:
  "pallet_inv cfg (log_events cfg' evs s) = pallet_inv cfg s"
  "pallet_inv cfg (s\<lparr>currency := c\<rparr>) = pallet_inv cfg s"
  "pallet_inv cfg (s\<lparr>block_number := b\<rparr>) = pallet_inv cfg s"
  by (rule inv_frame; simp)+

lemma inv_add_subnet:
  assumes "pallet_inv cfg s" and "cs_id x = SubnetCount s" and "cs_active x"
  shows "pallet_inv cfg (s\<lparr>currency := c, TotalBurned := 0, SubnetCount := Suc (SubnetCount s),
    Subnets := (Subnets s)(SubnetCount s \<mapsto> x)\<rparr>)" (is "pallet_inv cfg ?s")
proof -
  note parts = assms(1) [unfolded pallet_inv_def]
  have grow: "Subnets s \<subseteq>\<^sub>m Subnets ?s"
    using dense_fresh [OF inv_dense(3) [OF assms(1)]] by (auto simp: map_le_def)
  have status: "status_count st ?s = status_count st s" for st by (cases st) simp_all
  have "eligible_miners cfg ?s = eligible_miners cfg s"
      "eligible_validators cfg ?s = eligible_validators cfg s"
    by (rule eligible_miners_cong eligible_validators_cong; simp)+
  then have "capacity_ok cfg ?s" using parts by (simp add: capacity_ok_def)
  moreover have "subnets_ok ?s" using parts assms(2,3) by (auto simp: subnets_ok_def dense_insert)
  moreover have "miners_ok cfg ?s" by (rule miners_frame [OF _ grow]) (use parts in simp_all)
  moreover have "validators_ok cfg ?s" by (rule validators_frame [OF _ grow]) (use parts in simp_all)
  moreover have "requests_ok ?s"
    by (rule requests_frame [OF _ grow]) (use parts status in simp_all)
  moreover have "proofs_ok ?s" by (rule proofs_frame) (use parts in simp_all)
  moreover have "nothing_published ?s" using parts by (simp add: nothing_published_def)
  ultimately show ?thesis by (simp add: pallet_inv_def)
qed

lemma inv_burned: "pallet_inv cfg s \<Longrightarrow> pallet_inv cfg (s\<lparr>TotalBurned := 0\<rparr>)"
proof -
  assume inv: "pallet_inv cfg s"
  have "status_count st (s\<lparr>TotalBurned := 0\<rparr>) = status_count st s" for st by (cases st) simp_all
  moreover have "TotalBurned s = 0" using inv by (simp add: pallet_inv_def nothing_published_def)
  ultimately have "pallet_inv cfg (s\<lparr>TotalBurned := 0\<rparr>) = pallet_inv cfg s"
    by (intro inv_frame) simp_all
  with inv show ?thesis by simp
qed

subsection \<open>Miners\<close>

text \<open>Storing an entry and its capital record.\<close>

definition put_miner :: "MinerId \<Rightarrow> ChainMiner \<Rightarrow> Balance option \<Rightarrow> 'cur Storage \<Rightarrow> 'cur Storage" where
  "put_miner i m b s =
     s\<lparr>MinerLockedBond := (MinerLockedBond s)(i := b), Miners := (Miners s)(i \<mapsto> m)\<rparr>"

definition put_validator ::
  "ValidatorId \<Rightarrow> ChainValidator \<Rightarrow> Balance option \<Rightarrow> 'cur Storage \<Rightarrow> 'cur Storage" where
  "put_validator i v b s =
     s\<lparr>ValidatorLockedStake := (ValidatorLockedStake s)(i := b), Validators := (Validators s)(i \<mapsto> v)\<rparr>"

lemma capacity_miner:
  assumes "pallet_inv cfg s"
    and "eligible_validators cfg s' = eligible_validators cfg s"
    and "\<And>j. j \<noteq> i \<Longrightarrow> Miners s' j = Miners s j \<and> MinerLockedBond s' j = MinerLockedBond s j \<and>
      MinerIdentityCommitments s' j = MinerIdentityCommitments s j \<and>
      MinerIdentitySignatureChallenges s' j = MinerIdentitySignatureChallenges s j \<and>
      MinerIdentitySignatureBundles s' j = MinerIdentitySignatureBundles s j"
    and room: "\<And>sid. i \<in> eligible_miners cfg s' sid \<Longrightarrow> i \<in> eligible_miners cfg s sid \<or>
      card (insert i (eligible_miners cfg s sid)) \<le> MaxActiveMinersPerSubnet cfg"
  shows "capacity_ok cfg s'"
proof -
  note fin = active_miner_ids(3) [OF inv_dense(1) [OF assms(1)], of cfg]
  have cap: "card (eligible_miners cfg s sid) \<le> MaxActiveMinersPerSubnet cfg" for sid
    using assms(1) by (simp add: pallet_inv_def capacity_ok_def)
  have "card (eligible_miners cfg s' sid) \<le> MaxActiveMinersPerSubnet cfg" for sid
  proof (cases "i \<notin> eligible_miners cfg s' sid \<or> i \<in> eligible_miners cfg s sid")
    case True
    from eligible_miners_at(2) [of i s' s, OF assms(3) this] show ?thesis
      using card_mono [OF fin] cap le_trans by blast
  next
    case False
    have "eligible_miners cfg s' sid \<subseteq> insert i (eligible_miners cfg s sid)"
      using eligible_miners_at(1) [of i s' s, OF assms(3), of cfg sid] by auto
    moreover have "card (insert i (eligible_miners cfg s sid)) \<le> MaxActiveMinersPerSubnet cfg"
      using False room [of sid] by simp
    ultimately show ?thesis by (rule card_le_insert [OF fin])
  qed
  with assms(1,2) show ?thesis by (simp add: pallet_inv_def capacity_ok_def)
qed

lemma capacity_validator:
  assumes "pallet_inv cfg s"
    and "eligible_miners cfg s' = eligible_miners cfg s"
    and "\<And>j. j \<noteq> i \<Longrightarrow> Validators s' j = Validators s j \<and>
      ValidatorLockedStake s' j = ValidatorLockedStake s j \<and>
      ValidatorIdentityCommitments s' j = ValidatorIdentityCommitments s j \<and>
      ValidatorIdentitySignatureChallenges s' j = ValidatorIdentitySignatureChallenges s j \<and>
      ValidatorIdentitySignatureBundles s' j = ValidatorIdentitySignatureBundles s j"
    and room: "\<And>sid. i \<in> eligible_validators cfg s' sid \<Longrightarrow> i \<in> eligible_validators cfg s sid \<or>
      card (insert i (eligible_validators cfg s sid)) \<le> MaxActiveValidatorsPerSubnet cfg"
  shows "capacity_ok cfg s'"
proof -
  note fin = active_validator_ids(3) [OF inv_dense(2) [OF assms(1)], of cfg]
  have cap: "card (eligible_validators cfg s sid) \<le> MaxActiveValidatorsPerSubnet cfg" for sid
    using assms(1) by (simp add: pallet_inv_def capacity_ok_def)
  have "card (eligible_validators cfg s' sid) \<le> MaxActiveValidatorsPerSubnet cfg" for sid
  proof (cases "i \<notin> eligible_validators cfg s' sid \<or> i \<in> eligible_validators cfg s sid")
    case True
    from eligible_validators_at(2) [of i s' s, OF assms(3) this] show ?thesis
      using card_mono [OF fin] cap le_trans by blast
  next
    case False
    have "eligible_validators cfg s' sid \<subseteq> insert i (eligible_validators cfg s sid)"
      using eligible_validators_at(1) [of i s' s, OF assms(3), of cfg sid] by auto
    moreover have "card (insert i (eligible_validators cfg s sid)) \<le> MaxActiveValidatorsPerSubnet cfg"
      using False room [of sid] by simp
    ultimately show ?thesis by (rule card_le_insert [OF fin])
  qed
  with assms(1,2) show ?thesis by (simp add: pallet_inv_def capacity_ok_def)
qed

text \<open>A capacity check that passed, on a storage that may already hold changes at \<open>i\<close>.\<close>

lemma miner_room:
  assumes inv: "pallet_inv cfg s" and "config_ok cfg" and "insert_active_miner cfg s' sid i = Inr u"
    and dense: "dense (Miners s') (MinerCount s')"
    and same: "\<And>j. j \<noteq> i \<Longrightarrow> Miners s' j = Miners s j \<and> MinerLockedBond s' j = MinerLockedBond s j \<and>
      MinerIdentityCommitments s' j = MinerIdentityCommitments s j \<and>
      MinerIdentitySignatureChallenges s' j = MinerIdentitySignatureChallenges s j \<and>
      MinerIdentitySignatureBundles s' j = MinerIdentitySignatureBundles s j"
  shows "card (insert i (eligible_miners cfg s sid)) \<le> MaxActiveMinersPerSubnet cfg"
proof -
  note fin = active_miner_ids(3) [OF inv_dense(1) [OF inv], of cfg]
  note ins = eligible_miners_at(1) [of i s' s, OF same, of cfg sid]
  note ids = active_miner_ids [OF dense, of cfg sid]
  have "card (eligible_miners cfg s' sid) \<le> card (insert i (eligible_miners cfg s sid))"
    using fin [of sid] ins by (intro card_mono) auto
  also have "\<dots> \<le> Suc (MaxActiveMinersPerSubnet cfg)"
    using inv fin [of sid]
    by (simp add: pallet_inv_def capacity_ok_def card_insert_if le_SucI)
  also have "\<dots> < 2 ^ 32" using assms(2) by (simp add: config_ok_def)
  finally have "card (insert i (set (active_miner_route_ids cfg s' sid))) \<le>
      MaxActiveMinersPerSubnet cfg"
    using assms(3) ids
    by (intro capacity_check) (simp_all add: insert_active_miner_def ensure_active_miner_capacity_def)
  then show ?thesis by (simp add: ids ins)
qed

lemma validator_room:
  assumes inv: "pallet_inv cfg s" and "config_ok cfg" and "insert_active_validator cfg s' sid i = Inr u"
    and dense: "dense (Validators s') (ValidatorCount s')"
    and same: "\<And>j. j \<noteq> i \<Longrightarrow> Validators s' j = Validators s j \<and> ValidatorLockedStake s' j = ValidatorLockedStake s j \<and>
      ValidatorIdentityCommitments s' j = ValidatorIdentityCommitments s j \<and>
      ValidatorIdentitySignatureChallenges s' j = ValidatorIdentitySignatureChallenges s j \<and>
      ValidatorIdentitySignatureBundles s' j = ValidatorIdentitySignatureBundles s j"
  shows "card (insert i (eligible_validators cfg s sid)) \<le> MaxActiveValidatorsPerSubnet cfg"
proof -
  note fin = active_validator_ids(3) [OF inv_dense(2) [OF inv], of cfg]
  note ins = eligible_validators_at(1) [of i s' s, OF same, of cfg sid]
  note ids = active_validator_ids [OF dense, of cfg sid]
  have "card (eligible_validators cfg s' sid) \<le> card (insert i (eligible_validators cfg s sid))"
    using fin [of sid] ins by (intro card_mono) auto
  also have "\<dots> \<le> Suc (MaxActiveValidatorsPerSubnet cfg)"
    using inv fin [of sid]
    by (simp add: pallet_inv_def capacity_ok_def card_insert_if le_SucI)
  also have "\<dots> < 2 ^ 32" using assms(2) by (simp add: config_ok_def)
  finally have "card (insert i (set (active_validator_route_ids cfg s' sid))) \<le>
      MaxActiveValidatorsPerSubnet cfg"
    using assms(3) ids
    by (intro capacity_check) (simp_all add: insert_active_validator_def ensure_active_validator_capacity_def)
  then show ?thesis by (simp add: ids ins)
qed

lemma inv_put_miner:
  assumes inv: "pallet_inv cfg s" and m: "Miners s i = Some m"
    and reg: "registry_ok cm_status miner_capital_bearing_status (MinMinerBond cfg)
      ((Miners s)(i \<mapsto> with_miner_status cfg i m st)) (MinerCount s) ((MinerLockedBond s)(i := b))
      (PendingMinerRequests s)"
    and "\<And>x. b = Some x \<Longrightarrow> x \<le> MaxMinerBond cfg"
    and cap: "capacity_ok cfg (put_miner i (with_miner_status cfg i m st) b s)"
  shows "pallet_inv cfg (put_miner i (with_miner_status cfg i m st) b s)" (is "pallet_inv cfg ?s")
proof -
  note parts = inv [unfolded pallet_inv_def]
  have status: "status_count x ?s = status_count x s" for x by (cases x) (simp_all add: put_miner_def)
  have "miners_ok cfg ?s"
    using parts m reg assms(4) unfolding miners_ok_def
    by (simp add: put_miner_def with_miner_status_def)
  moreover have "subnets_ok ?s" "nothing_published ?s"
    using parts by (simp_all add: put_miner_def subnets_ok_def nothing_published_def)
  moreover have "validators_ok cfg ?s"
    by (rule validators_frame) (use parts in \<open>simp_all add: put_miner_def\<close>)
  moreover have "requests_ok ?s"
    by (rule requests_frame) (use parts status in \<open>simp_all add: put_miner_def\<close>)
  moreover have "proofs_ok ?s" by (rule proofs_frame) (use parts in \<open>simp_all add: put_miner_def\<close>)
  ultimately show ?thesis using cap by (simp add: pallet_inv_def)
qed

lemma inv_put_validator:
  assumes inv: "pallet_inv cfg s" and v: "Validators s i = Some v"
    and reg: "registry_ok cv_status validator_capital_bearing_status (MinValidatorStake cfg)
      ((Validators s)(i \<mapsto> with_validator_status cfg i v st)) (ValidatorCount s)
      ((ValidatorLockedStake s)(i := b)) (PendingValidatorRequests s)"
    and cap: "capacity_ok cfg (put_validator i (with_validator_status cfg i v st) b s)"
  shows "pallet_inv cfg (put_validator i (with_validator_status cfg i v st) b s)"
    (is "pallet_inv cfg ?s")
proof -
  note parts = inv [unfolded pallet_inv_def]
  have status: "status_count x ?s = status_count x s" for x
    by (cases x) (simp_all add: put_validator_def)
  have "validators_ok cfg ?s"
    using parts v reg unfolding validators_ok_def
    by (simp add: put_validator_def with_validator_status_def)
  moreover have "subnets_ok ?s" "nothing_published ?s"
    using parts by (simp_all add: put_validator_def subnets_ok_def nothing_published_def)
  moreover have "miners_ok cfg ?s"
    by (rule miners_frame) (use parts in \<open>simp_all add: put_validator_def\<close>)
  moreover have "requests_ok ?s"
    by (rule requests_frame) (use parts status in \<open>simp_all add: put_validator_def\<close>)
  moreover have "proofs_ok ?s"
    by (rule proofs_frame) (use parts in \<open>simp_all add: put_validator_def\<close>)
  ultimately show ?thesis using cap by (simp add: pallet_inv_def)
qed

text \<open>New entries are pending, hence not eligible.\<close>

lemma inv_add_miner:
  assumes inv: "pallet_inv cfg s" and "cm_id m = MinerCount s" and "cm_status m = Pending"
    and "cm_model_commitment m \<noteq> 0"
    and "Subnets s (cm_subnet_id m) = Some x" and "cs_proof_system x = cm_proof_system m"
    and "cm_bond_commitment m =
      miner_bond_commitment cfg (MinerCount s) (cm_operator_commitment m) Pending"
  shows "pallet_inv cfg (s\<lparr>currency := c, TotalBurned := 0, MinerCount := Suc (MinerCount s),
    Miners := (Miners s)(MinerCount s \<mapsto> m)\<rparr>)" (is "pallet_inv cfg ?s")
proof -
  note parts = inv [unfolded pallet_inv_def]
  have status: "status_count st ?s = status_count st s" for st by (cases st) simp_all
  have reg: "registry_ok cm_status miner_capital_bearing_status (MinMinerBond cfg) (Miners s)
      (MinerCount s) (MinerLockedBond s) (PendingMinerRequests s)"
    using parts by (simp add: miners_ok_def)
  have fresh: "MinerLockedBond s (MinerCount s) = None"
    using reg dense_fresh by (auto simp: registry_ok_def)
  have "capacity_ok cfg ?s"
    by (rule capacity_miner [OF inv, where i = "MinerCount s"])
      (use assms(3) in \<open>auto intro!: eligible_validators_cong
        simp: eligible_miners_def miner_is_route_eligible_def\<close>)
  moreover have "registry_ok cm_status miner_capital_bearing_status (MinMinerBond cfg)
      ((Miners s)(MinerCount s \<mapsto> m)) (Suc (MinerCount s)) (MinerLockedBond s)
      (PendingMinerRequests s)"
    using miner_registry.insert_ok [OF reg assms(3), of None] fresh
    by (simp add: miner_capital_bearing_status_def fun_upd_idem)
  then have "miners_ok cfg ?s"
    using parts assms(2-7) unfolding miners_ok_def by simp
  moreover have "subnets_ok ?s" "nothing_published ?s"
    using parts by (simp_all add: subnets_ok_def nothing_published_def)
  moreover have "validators_ok cfg ?s" by (rule validators_frame) (use parts in simp_all)
  moreover have "requests_ok ?s"
    by (rule requests_frame)
      (use parts status miner_registry.grow_total [OF reg] in simp_all)
  moreover have "proofs_ok ?s" by (rule proofs_frame) (use parts in simp_all)
  ultimately show ?thesis by (simp add: pallet_inv_def)
qed

lemma inv_add_validator:
  assumes inv: "pallet_inv cfg s" and "cv_id v = ValidatorCount s" and "cv_status v = Pending"
    and "Subnets s (cv_subnet_id v) \<noteq> None"
    and "cv_stake_commitment v =
      validator_stake_commitment cfg (ValidatorCount s) (cv_operator_commitment v) Pending"
  shows "pallet_inv cfg (s\<lparr>ValidatorCount := Suc (ValidatorCount s), currency := c,
    Validators := (Validators s)(ValidatorCount s \<mapsto> v),
    ValidatorLockedStake := (ValidatorLockedStake s)(ValidatorCount s \<mapsto> stake)\<rparr>)"
    (is "pallet_inv cfg ?s")
proof -
  note parts = inv [unfolded pallet_inv_def]
  have status: "status_count st ?s = status_count st s" for st by (cases st) simp_all
  have reg: "registry_ok cv_status validator_capital_bearing_status (MinValidatorStake cfg)
      (Validators s) (ValidatorCount s) (ValidatorLockedStake s) (PendingValidatorRequests s)"
    using parts by (simp add: validators_ok_def)
  have "capacity_ok cfg ?s"
    by (rule capacity_validator [OF inv, where i = "ValidatorCount s"])
      (use assms(3) in \<open>auto intro!: eligible_miners_cong
        simp: eligible_validators_def validator_is_route_eligible_def\<close>)
  moreover have "validators_ok cfg ?s"
    using parts assms(2-5) validator_registry.insert_ok [OF reg assms(3), of "Some stake"]
    unfolding validators_ok_def by (simp add: validator_capital_bearing_status_def)
  moreover have "subnets_ok ?s" "nothing_published ?s"
    using parts by (simp_all add: subnets_ok_def nothing_published_def)
  moreover have "miners_ok cfg ?s" by (rule miners_frame) (use parts in simp_all)
  moreover have "requests_ok ?s"
    by (rule requests_frame)
      (use parts status validator_registry.grow_total [OF reg] in simp_all)
  moreover have "proofs_ok ?s" by (rule proofs_frame) (use parts in simp_all)
  ultimately show ?thesis by (simp add: pallet_inv_def)
qed

text \<open>Identity metadata only matters for eligibility.\<close>

lemma inv_put_miner_identity:
  assumes inv: "pallet_inv cfg s" and cap: "capacity_ok cfg (put_miner_identity i x s)"
  shows "pallet_inv cfg (put_miner_identity i x s)" (is "pallet_inv cfg ?s")
proof -
  note parts = inv [unfolded pallet_inv_def]
  have status: "status_count st ?s = status_count st s" for st
    by (cases st) (simp_all add: put_miner_identity_def)
  have "subnets_ok ?s" "nothing_published ?s"
    using parts by (simp_all add: put_miner_identity_def subnets_ok_def nothing_published_def)
  moreover have "miners_ok cfg ?s"
    by (rule miners_frame) (use parts in \<open>simp_all add: put_miner_identity_def\<close>)
  moreover have "validators_ok cfg ?s"
    by (rule validators_frame) (use parts in \<open>simp_all add: put_miner_identity_def\<close>)
  moreover have "requests_ok ?s"
    by (rule requests_frame) (use parts status in \<open>simp_all add: put_miner_identity_def\<close>)
  moreover have "proofs_ok ?s"
    by (rule proofs_frame) (use parts in \<open>simp_all add: put_miner_identity_def\<close>)
  ultimately show ?thesis using cap by (simp add: pallet_inv_def)
qed

lemma inv_put_validator_identity:
  assumes inv: "pallet_inv cfg s" and cap: "capacity_ok cfg (put_validator_identity i x s)"
  shows "pallet_inv cfg (put_validator_identity i x s)" (is "pallet_inv cfg ?s")
proof -
  note parts = inv [unfolded pallet_inv_def]
  have status: "status_count st ?s = status_count st s" for st
    by (cases st) (simp_all add: put_validator_identity_def)
  have "subnets_ok ?s" "nothing_published ?s"
    using parts by (simp_all add: put_validator_identity_def subnets_ok_def nothing_published_def)
  moreover have "miners_ok cfg ?s"
    by (rule miners_frame) (use parts in \<open>simp_all add: put_validator_identity_def\<close>)
  moreover have "validators_ok cfg ?s"
    by (rule validators_frame) (use parts in \<open>simp_all add: put_validator_identity_def\<close>)
  moreover have "requests_ok ?s"
    by (rule requests_frame) (use parts status in \<open>simp_all add: put_validator_identity_def\<close>)
  moreover have "proofs_ok ?s"
    by (rule proofs_frame) (use parts in \<open>simp_all add: put_validator_identity_def\<close>)
  ultimately show ?thesis using cap by (simp add: pallet_inv_def)
qed

subsection \<open>Requests\<close>

lemma status_count_opened:
  "status_count st (opened rid q mid vid c s) =
     status_count st s + (if st = Request_Pending then 1 else 0)"
  by (cases st) (simp_all add: opened_def)

lemma requests_with_opened:
  assumes "rid = RequestCount s" and "cr_status q = Request_Pending"
  shows "requests_with st (opened rid q mid vid c s) =
    requests_with st s + (if st = Request_Pending then 1 else 0)"
  using assms sum_insert_next [of "has_status st" "InferenceRequests s" rid q]
  by (auto simp: requests_with_def opened_def)

lemma unrequested_proof:
  "proofs_ok s \<Longrightarrow> InferenceRequests s r = None \<Longrightarrow> ProofRecords s r = None"
  unfolding proofs_ok_def by (metis option.distinct(1))

lemma inv_opened:
  assumes inv: "pallet_inv cfg s" and rid: "rid = RequestCount s" "Suc rid < 2 ^ 64"
    and m: "Miners s mid = Some m" "cm_status m = Active"
    and v: "Validators s vid = Some v" "cv_status v = Active"
    and q: "cr_request_id q = rid" "cr_input_commitment q \<noteq> 0" "Subnets s (cr_subnet_id q) \<noteq> None"
      "cr_status q = Request_Pending"
  shows "pallet_inv cfg (opened rid q mid vid c s)" (is "pallet_inv cfg ?s")
proof -
  note parts = inv [unfolded pallet_inv_def]
  have mreg: "registry_ok cm_status miner_capital_bearing_status (MinMinerBond cfg) (Miners s)
      (MinerCount s) (MinerLockedBond s) (PendingMinerRequests s)"
    and vreg: "registry_ok cv_status validator_capital_bearing_status (MinValidatorStake cfg)
      (Validators s) (ValidatorCount s) (ValidatorLockedStake s) (PendingValidatorRequests s)"
    using parts by (simp_all add: miners_ok_def validators_ok_def)
  have known: "mid < MinerCount s" "vid < ValidatorCount s"
    using dense_less [OF inv_dense(1) [OF inv] m(1)] dense_less [OF inv_dense(2) [OF inv] v(1)]
    by simp_all
  have "eligible_miners cfg ?s = eligible_miners cfg s"
      "eligible_validators cfg ?s = eligible_validators cfg s"
    by (rule eligible_miners_cong eligible_validators_cong; simp add: opened_def)+
  then have "capacity_ok cfg ?s" using parts by (simp add: capacity_ok_def)
  moreover have "subnets_ok ?s" "nothing_published ?s"
    using parts by (simp_all add: opened_def subnets_ok_def nothing_published_def)
  moreover have "miners_ok cfg ?s"
    using parts miner_registry.bump_ok [OF mreg m] unfolding miners_ok_def
    by (simp add: opened_def)
  moreover have "validators_ok cfg ?s"
    using parts validator_registry.bump_ok [OF vreg v] unfolding validators_ok_def
    by (simp add: opened_def)
  moreover have "requests_ok ?s"
  proof -
    have "\<forall>st. status_count st ?s = requests_with st ?s"
      using parts by (simp add: status_count_opened requests_with_opened [OF rid(1) q(4)]
          requests_ok_def)
    moreover have "pending_total (MinerCount ?s) (PendingMinerRequests ?s) =
        PendingInferenceRequestCount ?s"
      "pending_total (ValidatorCount ?s) (PendingValidatorRequests ?s) =
        PendingInferenceRequestCount ?s"
      using parts miner_registry.bump_total [OF known(1)] validator_registry.bump_total [OF known(2)]
      by (simp_all add: opened_def requests_ok_def)
    moreover have "dense (InferenceRequests ?s) (RequestCount ?s)"
      using inv_dense(4) [OF inv] rid(1) by (simp add: opened_def dense_insert)
    ultimately show ?thesis
      using parts rid q(1-3) unfolding requests_ok_def by (simp add: opened_def)
  qed
  moreover have "proofs_ok ?s"
  proof -
    have none: "InferenceRequests s rid = None"
      using dense_fresh [OF inv_dense(4) [OF inv]] rid(1) by simp
    then have "ProofRecords s rid = None" using parts unrequested_proof by blast
    with none show ?thesis using parts q(4) unfolding proofs_ok_def by (simp add: opened_def)
  qed
  ultimately show ?thesis by (simp add: pallet_inv_def)
qed

lemma finish_sel [simp]:
  "SubnetCount (finish rid q fin mid vid c s) = SubnetCount s"
  "MinerCount (finish rid q fin mid vid c s) = MinerCount s"
  "ValidatorCount (finish rid q fin mid vid c s) = ValidatorCount s"
  "Subnets (finish rid q fin mid vid c s) = Subnets s"
  "Miners (finish rid q fin mid vid c s) = Miners s"
  "Validators (finish rid q fin mid vid c s) = Validators s"
  "MinerIdentityCommitments (finish rid q fin mid vid c s) = MinerIdentityCommitments s"
  "MinerIdentitySignatureBundles (finish rid q fin mid vid c s) = MinerIdentitySignatureBundles s"
  "MinerIdentitySignatureChallenges (finish rid q fin mid vid c s) = MinerIdentitySignatureChallenges s"
  "ValidatorIdentityCommitments (finish rid q fin mid vid c s) = ValidatorIdentityCommitments s"
  "ValidatorIdentitySignatureBundles (finish rid q fin mid vid c s) =
     ValidatorIdentitySignatureBundles s"
  "ValidatorIdentitySignatureChallenges (finish rid q fin mid vid c s) =
     ValidatorIdentitySignatureChallenges s"
  "ProofRecords (finish rid q fin mid vid c s) = ProofRecords s"
  "RequestCount (finish rid q fin mid vid c s) = RequestCount s"
  "ActiveMinersBySubnet (finish rid q fin mid vid c s) = ActiveMinersBySubnet s"
  "ActiveValidatorsBySubnet (finish rid q fin mid vid c s) = ActiveValidatorsBySubnet s"
  "MinerLockedBond (finish rid q fin mid vid c s) = MinerLockedBond s"
  "ValidatorLockedStake (finish rid q fin mid vid c s) = ValidatorLockedStake s"
  "TotalBurned (finish rid q fin mid vid c s) = TotalBurned s"
  "block_number (finish rid q fin mid vid c s) = block_number s"
  "events (finish rid q fin mid vid c s) = events s"
  "currency (finish rid q fin mid vid c s) = c"
  "InferenceRequests (finish rid q fin mid vid c s) =
     (InferenceRequests s)(rid \<mapsto> q\<lparr>cr_status := fin\<rparr>)"
  "PendingMinerRequests (finish rid q fin mid vid c s) = unbump (PendingMinerRequests s) mid"
  "PendingValidatorRequests (finish rid q fin mid vid c s) =
     unbump (PendingValidatorRequests s) vid"
  by (cases fin; simp add: finish_def closed_def Let_def)+

lemma finish_totals:
  assumes "nothing_published s"
  shows "nothing_published (finish rid q fin mid vid c s)"
  using assms
  by (cases fin) (simp_all add: finish_def closed_def Let_def nothing_published_def)

lemma status_count_finish:
  "fin \<noteq> Request_Pending \<Longrightarrow> status_count st (finish rid q fin mid vid c s) =
     (if st = fin then Suc (status_count st s)
      else if st = Request_Pending then status_count st s - 1 else status_count st s)"
  by (cases st; cases fin) (simp_all add: finish_def closed_def Let_def)

lemma requests_with_finish:
  assumes "requests_ok s" and "InferenceRequests s rid = Some q" and "cr_status q = Request_Pending"
    and "fin \<noteq> Request_Pending"
  shows "requests_with st (finish rid q fin mid vid c s) =
    status_count st (finish rid q fin mid vid c s)"
proof -
  have dense: "dense (InferenceRequests s) (RequestCount s)"
    and counts: "status_count x s = requests_with x s" for x
    using assms(1) by (simp_all add: requests_ok_def)
  note replace = sum_replace [OF dense assms(2), of "has_status st" "q\<lparr>cr_status := fin\<rparr>"]
  show ?thesis
    using replace assms(3,4) unfolding status_count_finish [OF assms(4)] counts requests_with_def
    by (auto split: if_splits)
qed

lemma inv_finish:
  assumes inv: "pallet_inv cfg s" and q: "InferenceRequests s rid = Some q"
    "cr_status q = Request_Pending" and fin: "fin \<noteq> Request_Pending"
    and closable: "closable mid vid fin s"
  shows "subnets_ok (finish rid q fin mid vid c s)" "miners_ok cfg (finish rid q fin mid vid c s)"
    "validators_ok cfg (finish rid q fin mid vid c s)" "capacity_ok cfg (finish rid q fin mid vid c s)"
    "requests_ok (finish rid q fin mid vid c s)" "nothing_published (finish rid q fin mid vid c s)"
proof -
  let ?s = "finish rid q fin mid vid c s"
  note parts = inv [unfolded pallet_inv_def]
  have mreg: "registry_ok cm_status miner_capital_bearing_status (MinMinerBond cfg) (Miners s)
      (MinerCount s) (MinerLockedBond s) (PendingMinerRequests s)"
    and vreg: "registry_ok cv_status validator_capital_bearing_status (MinValidatorStake cfg)
      (Validators s) (ValidatorCount s) (ValidatorLockedStake s) (PendingValidatorRequests s)"
    using parts by (simp_all add: miners_ok_def validators_ok_def)
  have pend: "0 < pending_of (PendingMinerRequests s) mid"
      "0 < pending_of (PendingValidatorRequests s) vid"
    using closable by (simp_all add: closable_def)
  obtain "mid < MinerCount s" "vid < ValidatorCount s"
    using miner_registry.pending_known [OF mreg pend(1)]
      validator_registry.pending_known [OF vreg pend(2)] by metis
  then have totals: "pending_total (MinerCount s) (unbump (PendingMinerRequests s) mid) =
        pending_total (MinerCount s) (PendingMinerRequests s) - 1"
      "pending_total (ValidatorCount s) (unbump (PendingValidatorRequests s) vid) =
        pending_total (ValidatorCount s) (PendingValidatorRequests s) - 1"
    using miner_registry.unbump_total [of mid, OF _ pend(1)]
      validator_registry.unbump_total [of vid, OF _ pend(2)]
    by (metis diff_Suc_1)+
  show "subnets_ok ?s" using parts by (simp add: subnets_ok_def)
  show "nothing_published ?s" using parts by (simp add: finish_totals)
  have "eligible_miners cfg ?s = eligible_miners cfg s"
      "eligible_validators cfg ?s = eligible_validators cfg s"
    by (rule eligible_miners_cong eligible_validators_cong; simp)+
  then show "capacity_ok cfg ?s" using parts by (simp add: capacity_ok_def)
  show "miners_ok cfg ?s"
    using parts miner_registry.unbump_ok [OF mreg] unfolding miners_ok_def by simp
  show "validators_ok cfg ?s"
    using parts validator_registry.unbump_ok [OF vreg] unfolding validators_ok_def by simp
  have "PendingInferenceRequestCount ?s = PendingInferenceRequestCount s - 1"
    using status_count_finish [OF fin, of Request_Pending] fin by simp
  moreover have "dense ((InferenceRequests s)(rid \<mapsto> q\<lparr>cr_status := fin\<rparr>)) (RequestCount s)"
    using dense_update [OF inv_dense(4) [OF inv] q(1)] .
  ultimately show "requests_ok ?s"
    using parts q totals requests_with_finish [OF _ q fin, symmetric] unfolding requests_ok_def
    by simp
qed

lemma inv_finish_unproved:
  assumes "pallet_inv cfg s" and "InferenceRequests s rid = Some q" "cr_status q = Request_Pending"
    and "fin \<noteq> Request_Pending" "fin \<noteq> Request_Settled" and "closable mid vid fin s"
  shows "pallet_inv cfg (finish rid q fin mid vid c s)"
proof -
  have "proofs_ok s" using assms(1) by (simp add: pallet_inv_def)
  then have "proofs_ok (finish rid q fin mid vid c s)"
    using assms(2,3,5) unfolding proofs_ok_def by simp
  then show ?thesis
    using inv_finish [OF assms(1-4,6)] by (simp add: pallet_inv_def)
qed

text \<open>Settlement stores the proof record together with the final status.\<close>

lemma inv_finish_proved:
  assumes "pallet_inv cfg s" and "InferenceRequests s rid = Some q" "cr_status q = Request_Pending"
    and "closable mid vid Request_Settled s" and "cp_request_id p = rid"
  shows "pallet_inv cfg ((finish rid q Request_Settled mid vid c s)\<lparr>ProofRecords :=
    (ProofRecords (finish rid q Request_Settled mid vid c s))(rid \<mapsto> p)\<rparr>)" (is "pallet_inv cfg ?s")
proof -
  let ?t = "finish rid q Request_Settled mid vid c s"
  note fin = inv_finish [OF assms(1-3) _ assms(4), simplified, where c = c]
  have status: "status_count st (t\<lparr>ProofRecords := x\<rparr>) = status_count st t" for st t x
    by (cases st) simp_all
  have "eligible_miners cfg ?s = eligible_miners cfg ?t"
      "eligible_validators cfg ?s = eligible_validators cfg ?t"
    by (rule eligible_miners_cong eligible_validators_cong; simp)+
  then have "capacity_ok cfg ?s" using fin(4) by (simp add: capacity_ok_def)
  moreover have "subnets_ok ?s" "nothing_published ?s"
    using fin(1,6) by (simp_all add: subnets_ok_def nothing_published_def)
  moreover have "miners_ok cfg ?s" by (rule miners_frame [OF fin(2)]) simp_all
  moreover have "validators_ok cfg ?s" by (rule validators_frame [OF fin(3)]) simp_all
  moreover have "requests_ok ?s" by (rule requests_frame [OF fin(5)]) (simp_all add: status)
  moreover have "proofs_ok s" using assms(1) by (simp add: pallet_inv_def)
  then have "proofs_ok ?s" using assms(2,5) unfolding proofs_ok_def by simp
  ultimately show ?thesis by (simp add: pallet_inv_def)
qed

end
