(* ===== verification/Pallet_Steps.thy ===== *)
theory Pallet_Steps
  imports Pallet_Invariants
begin

text \<open>
  The calls of the pallet as one type, their dispatch, atomicity of failing calls, preservation of
  the storage invariant by every call, and the runs of the chain as a step relation.
\<close>

section \<open>Calls\<close>

datatype Call =
    Call_create_subnet SubnetDomain ProofSystem
  | Call_register_miner SubnetId Commitment ProofSystem
  | Call_activate_miner MinerId Balance
  | Call_register_validator SubnetId Balance
  | Call_submit_proof InferenceProofSubmission AccountId AccountId Commitment
      InferenceRequestTermsWitness
  | Call_challenge_proof InferenceProofSubmission AccountId AccountId Commitment
      InferenceRequestTermsWitness
  | Call_slash_miner MinerId AccountId nat
  | Call_request_inference RequestId InferenceRequestParams
  | Call_request_inference_auto_route RequestId AutoRouteInferenceRequestParams
  | Call_request_inference_commitments RequestId InferenceRequestCommitmentParams
  | Call_cancel_inference RequestId MinerId ValidatorId Commitment InferenceRequestTimingWitness
      InferenceRequestTermsWitness
  | Call_deactivate_miner MinerId
  | Call_withdraw_miner_bond MinerId
  | Call_deactivate_validator ValidatorId
  | Call_withdraw_validator_stake ValidatorId
  | Call_slash_validator ValidatorId AccountId nat
  | Call_expire_inference RequestId AccountId MinerId ValidatorId Commitment
      InferenceRequestTimingWitness InferenceRequestTermsWitness
  | Call_set_miner_identity_commitments MinerId "Commitment option" "Commitment option"
      SignatureBundle
  | Call_set_validator_identity_commitments ValidatorId "Commitment option" "Commitment option"
      SignatureBundle

fun dispatch :: "'cur Config \<Rightarrow> RuntimeOrigin \<Rightarrow> Call \<Rightarrow> ('cur, unit) pallet" where
  "dispatch cfg origin (Call_create_subnet domain system) = create_subnet cfg origin domain system"
| "dispatch cfg origin (Call_register_miner sid model system) =
     register_miner cfg origin sid model system"
| "dispatch cfg origin (Call_activate_miner mid bond) = activate_miner cfg origin mid bond"
| "dispatch cfg origin (Call_register_validator sid stake) = register_validator cfg origin sid stake"
| "dispatch cfg origin (Call_submit_proof sub user mop ablind sw) =
     submit_proof cfg origin sub user mop ablind sw"
| "dispatch cfg origin (Call_challenge_proof sub user mop ablind sw) =
     challenge_proof cfg origin sub user mop ablind sw"
| "dispatch cfg origin (Call_slash_miner mid mop bps) = slash_miner cfg origin mid mop bps"
| "dispatch cfg origin (Call_request_inference rid params) = request_inference cfg origin rid params"
| "dispatch cfg origin (Call_request_inference_auto_route rid params) =
     request_inference_auto_route cfg origin rid params"
| "dispatch cfg origin (Call_request_inference_commitments rid params) =
     request_inference_commitments cfg origin rid params"
| "dispatch cfg origin (Call_cancel_inference rid mid vid ablind tw sw) =
     cancel_inference cfg origin rid mid vid ablind tw sw"
| "dispatch cfg origin (Call_deactivate_miner mid) = deactivate_miner cfg origin mid"
| "dispatch cfg origin (Call_withdraw_miner_bond mid) = withdraw_miner_bond cfg origin mid"
| "dispatch cfg origin (Call_deactivate_validator vid) = deactivate_validator cfg origin vid"
| "dispatch cfg origin (Call_withdraw_validator_stake vid) = withdraw_validator_stake cfg origin vid"
| "dispatch cfg origin (Call_slash_validator vid vop bps) = slash_validator cfg origin vid vop bps"
| "dispatch cfg origin (Call_expire_inference rid user mid vid ablind tw sw) =
     expire_inference cfg origin rid user mid vid ablind tw sw"
| "dispatch cfg origin (Call_set_miner_identity_commitments mid shielded endpoint bundle) =
     set_miner_identity_commitments cfg origin mid shielded endpoint bundle"
| "dispatch cfg origin (Call_set_validator_identity_commitments vid shielded endpoint bundle) =
     set_validator_identity_commitments cfg origin vid shielded endpoint bundle"

section \<open>Failing calls\<close>

lemma atomic_transactional: "fst (transactional m s) = Inl e \<Longrightarrow> snd (transactional m s) = s"
  by (simp add: transactional_def split: prod.splits sum.splits)

lemma dispatch_atomic: "fst (dispatch cfg origin call s) = Inl e \<Longrightarrow> snd (dispatch cfg origin call s) = s"
  by (cases call)
    (auto simp: create_subnet_def register_miner_def activate_miner_def register_validator_def
      submit_proof_def challenge_proof_def slash_miner_def request_inference_def
      request_inference_auto_route_def request_inference_commitments_def cancel_inference_def
      withdraw_miner_bond_def withdraw_validator_stake_def slash_validator_def
      expire_inference_def set_miner_identity_commitments_def
      set_validator_identity_commitments_def
      intro: atomic_transactional deactivate_miner_err [OF prod_eqI]
        deactivate_validator_err [OF prod_eqI])

lemma dispatch_result:
  assumes "P s" and "\<And>u s'. dispatch cfg origin call s = (Inr u, s') \<Longrightarrow> P s'"
  shows "P (snd (dispatch cfg origin call s))"
proof (cases "fst (dispatch cfg origin call s)")
  case (Inl e)
  with assms(1) show ?thesis by (simp add: dispatch_atomic)
next
  case (Inr u)
  then show ?thesis by (intro assms(2) [of u]) (simp add: prod_eq_iff)
qed

section \<open>Preservation\<close>

lemma create_subnet_inv:
  assumes "create_subnet cfg origin domain system s = (Inr u, s')" and "pallet_inv cfg s"
  shows "pallet_inv cfg s'"
  using assms(1)
  by (rule create_subnet_ok) (use assms(2) in \<open>simp add: inv_add_subnet\<close>)

lemma register_miner_inv:
  assumes "register_miner cfg origin sid model system s = (Inr u, s')" and "pallet_inv cfg s"
  shows "pallet_inv cfg s'"
  using assms(1)
  by (rule register_miner_ok) (use assms(2) in \<open>simp add: inv_add_miner\<close>)

lemma register_validator_inv:
  assumes "register_validator cfg origin sid stake s = (Inr u, s')" and "pallet_inv cfg s"
  shows "pallet_inv cfg s'"
  using assms(1)
  by (rule register_validator_ok) (use assms(2) in \<open>simp add: inv_add_validator\<close>)

lemma inv_registries:
  assumes "pallet_inv cfg s"
  shows "registry_ok cm_status miner_capital_bearing_status (MinMinerBond cfg) (Miners s)
      (MinerCount s) (MinerLockedBond s) (PendingMinerRequests s)"
    and "registry_ok cv_status validator_capital_bearing_status (MinValidatorStake cfg)
      (Validators s) (ValidatorCount s) (ValidatorLockedStake s) (PendingValidatorRequests s)"
  using assms by (simp_all add: pallet_inv_def miners_ok_def validators_ok_def)

lemma with_status_sel [simp]:
  "cm_status (with_miner_status cfg i m st) = st"
  "cm_subnet_id (with_miner_status cfg i m st) = cm_subnet_id m"
  "cm_operator_commitment (with_miner_status cfg i m st) = cm_operator_commitment m"
  "cv_status (with_validator_status cfg i v st) = st"
  "cv_subnet_id (with_validator_status cfg i v st) = cv_subnet_id v"
  "cv_operator_commitment (with_validator_status cfg i v st) = cv_operator_commitment v"
  by (simp_all add: with_miner_status_def with_validator_status_def)

lemma put_participant_sel [simp]:
  "Miners (put_miner i m b s) = (Miners s)(i \<mapsto> m)"
  "MinerLockedBond (put_miner i m b s) = (MinerLockedBond s)(i := b)"
  "MinerIdentityCommitments (put_miner i m b s) = MinerIdentityCommitments s"
  "MinerIdentitySignatureChallenges (put_miner i m b s) = MinerIdentitySignatureChallenges s"
  "MinerIdentitySignatureBundles (put_miner i m b s) = MinerIdentitySignatureBundles s"
  "eligible_validators cfg (put_miner i m b s) = eligible_validators cfg s"
  "Validators (put_validator i v b s) = (Validators s)(i \<mapsto> v)"
  "ValidatorLockedStake (put_validator i v b s) = (ValidatorLockedStake s)(i := b)"
  "ValidatorIdentityCommitments (put_validator i v b s) = ValidatorIdentityCommitments s"
  "ValidatorIdentitySignatureChallenges (put_validator i v b s) =
     ValidatorIdentitySignatureChallenges s"
  "ValidatorIdentitySignatureBundles (put_validator i v b s) = ValidatorIdentitySignatureBundles s"
  "eligible_miners cfg (put_validator i v b s) = eligible_miners cfg s"
  by (simp_all add: put_miner_def put_validator_def)
    (rule eligible_validators_cong eligible_miners_cong; simp)+

lemma activate_miner_inv:
  assumes "activate_miner cfg origin i bond s = (Inr u, s')" and inv: "pallet_inv cfg s"
    and "config_ok cfg"
  shows "pallet_inv cfg s'"
  using assms(1)
proof (rule activate_miner_ok)
  fix operator m c
  assume m: "Miners s i = Some m" "cm_status m = Pending"
    and bond: "MinMinerBond cfg \<le> bond" "bond \<le> MaxMinerBond cfg"
    and room: "insert_active_miner cfg (s\<lparr>currency := c\<rparr>) (cm_subnet_id m) i = Inr ()"
    and s': "s' = log_events cfg [MinerActivated] (s\<lparr>currency := c,
       MinerLockedBond := (MinerLockedBond s)(i \<mapsto> bond),
       Miners := (Miners s)(i \<mapsto> with_miner_status cfg i m Active)\<rparr>)"
  let ?t = "s\<lparr>currency := c\<rparr>"
  have inv_t: "pallet_inv cfg ?t" using inv by simp
  have "pallet_inv cfg (put_miner i (with_miner_status cfg i m Active) (Some bond) ?t)"
  proof (rule inv_put_miner [OF inv_t])
    show "capacity_ok cfg (put_miner i (with_miner_status cfg i m Active) (Some bond) ?t)"
    proof (rule capacity_miner [OF inv_t, where i = i])
      fix sid
      assume "i \<in> eligible_miners cfg (put_miner i (with_miner_status cfg i m Active) (Some bond) ?t) sid"
      then have "sid = cm_subnet_id m" by (simp add: eligible_miners_def)
      then show "i \<in> eligible_miners cfg ?t sid \<or>
          card (insert i (eligible_miners cfg ?t sid)) \<le> MaxActiveMinersPerSubnet cfg"
        using miner_room [OF inv_t assms(3) room] inv_dense(1) [OF inv] by simp
    qed simp_all
    have "PendingMinerRequests s i \<noteq> Some p" for p
      using miner_registry.entry(4) [OF inv_registries(1) [OF inv] m(1)] m(2) by fastforce
    then show "registry_ok cm_status miner_capital_bearing_status (MinMinerBond cfg)
        ((Miners ?t)(i \<mapsto> with_miner_status cfg i m Active)) (MinerCount ?t)
        ((MinerLockedBond ?t)(i := Some bond)) (PendingMinerRequests ?t)"
      by (intro miner_registry.replace_ok [OF inv_registries(1) [OF inv_t]])
        (use m(1) bond in \<open>simp_all add: miner_capital_bearing_status_def\<close>)
  qed (use m bond in simp_all)
  then show "pallet_inv cfg s'" by (simp add: s' put_miner_def)
qed

text \<open>A status change that takes an entry out of the active set.\<close>

lemma inv_retire_miner:
  assumes inv: "pallet_inv cfg s" and m: "Miners s i = Some m"
    and idle: "pending_of (PendingMinerRequests s) i = 0"
    and st: "st = Exiting b \<and> c = MinerLockedBond s i \<and> c \<noteq> None \<or> st = Disabled \<and> c = None"
  shows "pallet_inv cfg (put_miner i (with_miner_status cfg i m st) c s)"
proof (rule inv_put_miner [OF inv m])
  show "capacity_ok cfg (put_miner i (with_miner_status cfg i m st) c s)"
    by (rule capacity_miner [OF inv, where i = i])
      (use st in \<open>auto simp: eligible_miners_def miner_is_route_eligible_def\<close>)
  show "registry_ok cm_status miner_capital_bearing_status (MinMinerBond cfg)
      ((Miners s)(i \<mapsto> with_miner_status cfg i m st)) (MinerCount s) ((MinerLockedBond s)(i := c))
      (PendingMinerRequests s)"
    using miner_registry.no_pending [OF inv_registries(1) [OF inv] idle] st
    by (intro miner_registry.replace_ok [OF inv_registries(1) [OF inv] m])
      (auto simp: miner_capital_bearing_status_def)
  show "x \<le> MaxMinerBond cfg" if "c = Some x" for x
    using that st inv by (auto simp: pallet_inv_def miners_ok_def)
qed

lemma inv_retire_validator:
  assumes inv: "pallet_inv cfg s" and v: "Validators s i = Some v"
    and idle: "pending_of (PendingValidatorRequests s) i = 0"
    and st: "st = Exiting b \<and> c = ValidatorLockedStake s i \<and> c \<noteq> None \<or> st = Disabled \<and> c = None \<or>
      st = Pending \<and> c = ValidatorLockedStake s i \<and> c \<noteq> None"
  shows "pallet_inv cfg (put_validator i (with_validator_status cfg i v st) c s)"
proof (rule inv_put_validator [OF inv v])
  show "capacity_ok cfg (put_validator i (with_validator_status cfg i v st) c s)"
    by (rule capacity_validator [OF inv, where i = i])
      (use st in \<open>auto simp: eligible_validators_def validator_is_route_eligible_def\<close>)
  show "registry_ok cv_status validator_capital_bearing_status (MinValidatorStake cfg)
      ((Validators s)(i \<mapsto> with_validator_status cfg i v st)) (ValidatorCount s)
      ((ValidatorLockedStake s)(i := c)) (PendingValidatorRequests s)"
    using validator_registry.no_pending [OF inv_registries(2) [OF inv] idle] st
    by (intro validator_registry.replace_ok [OF inv_registries(2) [OF inv] v])
      (auto simp: validator_capital_bearing_status_def)
qed

lemma locked_miner_bond_recorded:
  assumes "pallet_inv cfg s" and "Miners s i = Some m" and "locked_miner_bond cfg s i who = Inr b"
  shows "MinerLockedBond s i = Some b" and "miner_capital_bearing_status (cm_status m)"
proof -
  note e = miner_registry.entry(1) [OF inv_registries(1) [OF assms(1)] assms(2)]
  show "MinerLockedBond s i = Some b"
    using assms(2,3) e by (auto simp: locked_miner_bond_def ok_simps split: option.splits)
  then show "miner_capital_bearing_status (cm_status m)" using e by simp
qed

lemma deactivate_miner_inv:
  assumes "deactivate_miner cfg origin i s = (Inr u, s')" and inv: "pallet_inv cfg s"
  shows "pallet_inv cfg s'"
  using assms(1)
proof (rule deactivate_miner_ok)
  fix operator m
  assume m: "Miners s i = Some m" "cm_status m = Active \<or> cm_status m = Slashed"
    and idle: "pending_of (PendingMinerRequests s) i = 0"
    and s': "s' = log_events cfg [MinerExitStarted] (s\<lparr>Miners := (Miners s)(i \<mapsto>
       with_miner_status cfg i m (Exiting (current_block s + MinerExitCooldownBlocks cfg)))\<rparr>)"
  have "MinerLockedBond s i \<noteq> None"
    using miner_registry.entry(1) [OF inv_registries(1) [OF inv] m(1)] m(2)
    by (auto simp: miner_capital_bearing_status_def)
  then have "pallet_inv cfg (put_miner i (with_miner_status cfg i m
      (Exiting (current_block s + MinerExitCooldownBlocks cfg))) (MinerLockedBond s i) s)"
    by (intro inv_retire_miner [OF inv m(1) idle]) simp
  then show "pallet_inv cfg s'" by (simp add: s' put_miner_def)
qed

lemma withdraw_miner_bond_inv:
  assumes "withdraw_miner_bond cfg origin i s = (Inr u, s')" and inv: "pallet_inv cfg s"
  shows "pallet_inv cfg s'"
  using assms(1)
proof (rule withdraw_miner_bond_ok)
  fix operator m available_at bond c
  assume m: "Miners s i = Some m" "cm_status m = Exiting available_at"
    and s': "s' = log_events cfg [MinerBondWithdrawn] (s\<lparr>currency := c,
       MinerLockedBond := (MinerLockedBond s)(i := None),
       Miners := (Miners s)(i \<mapsto> with_miner_status cfg i m Disabled)\<rparr>)"
  have inv_t: "pallet_inv cfg (s\<lparr>currency := c\<rparr>)" using inv by simp
  have "PendingMinerRequests s i \<noteq> Some p" for p
    using miner_registry.entry(4) [OF inv_registries(1) [OF inv] m(1)] m(2) by fastforce
  then have "pending_of (PendingMinerRequests (s\<lparr>currency := c\<rparr>)) i = 0"
    by (simp add: pending_of_def split: option.splits)
  then have "pallet_inv cfg (put_miner i (with_miner_status cfg i m Disabled) None
      (s\<lparr>currency := c\<rparr>))"
    by (intro inv_retire_miner [OF inv_t]) (simp_all add: m)
  then show "pallet_inv cfg s'" by (simp add: s' put_miner_def)
qed

lemma slash_miner_bond_inv:
  assumes "slash_miner_bond cfg i who bps s = (Inr x, s')" and inv: "pallet_inv cfg s"
  shows "pallet_inv cfg s'"
  using assms(1)
proof (rule slash_miner_bond_ok)
  fix m :: ChainMiner and bond c
  define st where "st = (if bond - x < MinMinerBond cfg \<and> \<not> is_exiting (cm_status m) then Slashed
    else cm_status m)"
  assume m: "Miners s i = Some m" and bond: "locked_miner_bond cfg s i who = Inr bond" "x \<le> bond"
    and s': "s' = s\<lparr>currency := c, MinerLockedBond := (MinerLockedBond s)(i \<mapsto> bond - x),
       Miners := (Miners s)(i \<mapsto> with_miner_status cfg i m
         (if bond - x < MinMinerBond cfg \<and> \<not> is_exiting (cm_status m) then Slashed
          else cm_status m)),
       TotalBurned := 0\<rparr>"
  let ?t = "s\<lparr>currency := c\<rparr>" and ?m = "with_miner_status cfg i m st"
  note locked = locked_miner_bond_recorded [OF inv m bond(1)]
  note entry = miner_registry.entry [OF inv_registries(1) [OF inv] m]
  have inv_t: "pallet_inv cfg ?t" using inv by simp
  have bounded: "bond \<le> MaxMinerBond cfg"
    using inv locked(1) unfolding pallet_inv_def miners_ok_def by blast
  have keep: "st = Active \<Longrightarrow> cm_status m = Active \<and> MinMinerBond cfg \<le> bond - x"
    by (auto simp: st_def is_exiting_def split: if_splits)
  have slashed: "cm_status m = Active \<or> cm_status m = Slashed \<Longrightarrow> st = Active \<or> st = Slashed"
    by (auto simp: st_def)
  have bears: "miner_capital_bearing_status st"
    using locked(2) by (simp add: st_def miner_capital_bearing_status_def)
  have "pallet_inv cfg (put_miner i ?m (Some (bond - x)) ?t)"
  proof (rule inv_put_miner [OF inv_t])
    have "miner_is_route_eligible cfg ?t i m"
      if "miner_is_route_eligible cfg (put_miner i ?m (Some (bond - x)) ?t) i ?m"
      using that keep locked(1)
      by (auto simp: miner_is_route_eligible_def miner_has_active_locked_bond_record_def
          ensure_miner_signature_bundle_bound_def)
    then show "capacity_ok cfg (put_miner i ?m (Some (bond - x)) ?t)"
      by (intro capacity_miner [OF inv_t, where i = i]) (use m in \<open>simp_all add: eligible_miners_def\<close>)
    show "registry_ok cm_status miner_capital_bearing_status (MinMinerBond cfg)
        ((Miners ?t)(i \<mapsto> ?m)) (MinerCount ?t) ((MinerLockedBond ?t)(i := Some (bond - x)))
        (PendingMinerRequests ?t)"
      by (rule miner_registry.replace_ok [OF inv_registries(1) [OF inv_t]])
        (use m entry(4) keep bears slashed in simp_all)
    show "y \<le> MaxMinerBond cfg" if "Some (bond - x) = Some y" for y
      using that bounded by simp
  qed (use m in simp_all)
  from inv_burned [OF this] show "pallet_inv cfg s'" by (simp add: s' put_miner_def st_def)
qed

lemma locked_validator_stake_recorded:
  assumes "pallet_inv cfg s" and "Validators s i = Some v" and "locked_validator_stake cfg s i who = Inr b"
  shows "ValidatorLockedStake s i = Some b" and "validator_capital_bearing_status (cv_status v)"
proof -
  note e = validator_registry.entry(1) [OF inv_registries(2) [OF assms(1)] assms(2)]
  show "ValidatorLockedStake s i = Some b"
    using assms(2,3) e by (auto simp: locked_validator_stake_def ok_simps split: option.splits)
  then show "validator_capital_bearing_status (cv_status v)" using e by simp
qed

lemma deactivate_validator_inv:
  assumes "deactivate_validator cfg origin i s = (Inr u, s')" and inv: "pallet_inv cfg s"
  shows "pallet_inv cfg s'"
  using assms(1)
proof (rule deactivate_validator_ok)
  fix operator v
  assume v: "Validators s i = Some v" "cv_status v = Pending \<or> cv_status v = Active \<or> cv_status v = Slashed"
    and idle: "pending_of (PendingValidatorRequests s) i = 0"
    and s': "s' = log_events cfg [ValidatorExitStarted] (s\<lparr>Validators := (Validators s)(i \<mapsto>
       with_validator_status cfg i v (Exiting (current_block s + ValidatorExitCooldownBlocks cfg)))\<rparr>)"
  have "ValidatorLockedStake s i \<noteq> None"
    using validator_registry.entry(1) [OF inv_registries(2) [OF inv] v(1)] v(2)
    by (auto simp: validator_capital_bearing_status_def)
  then have "pallet_inv cfg (put_validator i (with_validator_status cfg i v
      (Exiting (current_block s + ValidatorExitCooldownBlocks cfg))) (ValidatorLockedStake s i) s)"
    by (intro inv_retire_validator [OF inv v(1) idle]) simp
  then show "pallet_inv cfg s'" by (simp add: s' put_validator_def)
qed

lemma withdraw_validator_stake_inv:
  assumes "withdraw_validator_stake cfg origin i s = (Inr u, s')" and inv: "pallet_inv cfg s"
  shows "pallet_inv cfg s'"
  using assms(1)
proof (rule withdraw_validator_stake_ok)
  fix operator v available_at stake c
  assume v: "Validators s i = Some v" "cv_status v = Exiting available_at"
    and s': "s' = log_events cfg [ValidatorStakeWithdrawn] (s\<lparr>currency := c,
       ValidatorLockedStake := (ValidatorLockedStake s)(i := None),
       Validators := (Validators s)(i \<mapsto> with_validator_status cfg i v Disabled)\<rparr>)"
  have inv_t: "pallet_inv cfg (s\<lparr>currency := c\<rparr>)" using inv by simp
  have "PendingValidatorRequests s i \<noteq> Some p" for p
    using validator_registry.entry(4) [OF inv_registries(2) [OF inv] v(1)] v(2) by fastforce
  then have "pending_of (PendingValidatorRequests (s\<lparr>currency := c\<rparr>)) i = 0"
    by (simp add: pending_of_def split: option.splits)
  then have "pallet_inv cfg (put_validator i (with_validator_status cfg i v Disabled) None
      (s\<lparr>currency := c\<rparr>))"
    by (intro inv_retire_validator [OF inv_t]) (simp_all add: v)
  then show "pallet_inv cfg s'" by (simp add: s' put_validator_def)
qed

lemma slash_validator_stake_inv:
  assumes "slash_validator_stake cfg i who bps s = (Inr x, s')" and inv: "pallet_inv cfg s"
  shows "pallet_inv cfg s'"
  using assms(1)
proof (rule slash_validator_stake_ok)
  fix v :: ChainValidator and stake c
  define st where "st = (if stake - x < MinValidatorStake cfg \<and> \<not> is_exiting (cv_status v) then Slashed
    else cv_status v)"
  assume v: "Validators s i = Some v" and stake: "locked_validator_stake cfg s i who = Inr stake" "x \<le> stake"
    and s': "s' = s\<lparr>currency := c, ValidatorLockedStake := (ValidatorLockedStake s)(i \<mapsto> stake - x),
       Validators := (Validators s)(i \<mapsto> with_validator_status cfg i v
         (if stake - x < MinValidatorStake cfg \<and> \<not> is_exiting (cv_status v) then Slashed
          else cv_status v)),
       TotalBurned := 0\<rparr>"
  let ?t = "s\<lparr>currency := c\<rparr>" and ?v = "with_validator_status cfg i v st"
  note locked = locked_validator_stake_recorded [OF inv v stake(1)]
  note entry = validator_registry.entry [OF inv_registries(2) [OF inv] v]
  have inv_t: "pallet_inv cfg ?t" using inv by simp
  have keep: "st = Active \<Longrightarrow> cv_status v = Active \<and> MinValidatorStake cfg \<le> stake - x"
    by (auto simp: st_def is_exiting_def split: if_splits)
  have slashed: "cv_status v = Active \<or> cv_status v = Slashed \<Longrightarrow> st = Active \<or> st = Slashed"
    by (auto simp: st_def)
  have bears: "validator_capital_bearing_status st"
    using locked(2) by (simp add: st_def validator_capital_bearing_status_def)
  have "pallet_inv cfg (put_validator i ?v (Some (stake - x)) ?t)"
  proof (rule inv_put_validator [OF inv_t])
    have "validator_is_route_eligible cfg ?t i v"
      if "validator_is_route_eligible cfg (put_validator i ?v (Some (stake - x)) ?t) i ?v"
      using that keep locked(1)
      by (auto simp: validator_is_route_eligible_def validator_has_active_locked_stake_record_def
          ensure_validator_signature_bundle_bound_def)
    then show "capacity_ok cfg (put_validator i ?v (Some (stake - x)) ?t)"
      by (intro capacity_validator [OF inv_t, where i = i]) (use v in \<open>simp_all add: eligible_validators_def\<close>)
    show "registry_ok cv_status validator_capital_bearing_status (MinValidatorStake cfg)
        ((Validators ?t)(i \<mapsto> ?v)) (ValidatorCount ?t) ((ValidatorLockedStake ?t)(i := Some (stake - x)))
        (PendingValidatorRequests ?t)"
      by (rule validator_registry.replace_ok [OF inv_registries(2) [OF inv_t]])
        (use v entry(4) keep bears slashed in simp_all)
  qed (use v in simp_all)
  from inv_burned [OF this] show "pallet_inv cfg s'" by (simp add: s' put_validator_def st_def)
qed

text \<open>Identity metadata\<close>

lemma put_validator_same:
  "put_validator i v (ValidatorLockedStake s i) s = s\<lparr>Validators := (Validators s)(i \<mapsto> v)\<rparr>"
  unfolding put_validator_def fun_upd_triv by simp

lemma put_identity_sel [simp]:
  "Miners (put_miner_identity i x s) = Miners s"
  "MinerCount (put_miner_identity i x s) = MinerCount s"
  "MinerLockedBond (put_miner_identity i x s) = MinerLockedBond s"
  "Validators (put_validator_identity i x s) = Validators s"
  "ValidatorCount (put_validator_identity i x s) = ValidatorCount s"
  "ValidatorLockedStake (put_validator_identity i x s) = ValidatorLockedStake s"
  "PendingValidatorRequests (put_validator_identity i x s) = PendingValidatorRequests s"
  "eligible_validators cfg (put_miner_identity i x s) = eligible_validators cfg s"
  "eligible_miners cfg (put_validator_identity i x s) = eligible_miners cfg s"
  by (simp_all add: put_miner_identity_def put_validator_identity_def)
    (rule eligible_validators_cong eligible_miners_cong; simp)+

lemma put_identity_other:
  "j \<noteq> i \<Longrightarrow> MinerIdentityCommitments (put_miner_identity i x s) j = MinerIdentityCommitments s j"
  "j \<noteq> i \<Longrightarrow> MinerIdentitySignatureChallenges (put_miner_identity i x s) j =
     MinerIdentitySignatureChallenges s j"
  "j \<noteq> i \<Longrightarrow> MinerIdentitySignatureBundles (put_miner_identity i x s) j =
     MinerIdentitySignatureBundles s j"
  "j \<noteq> i \<Longrightarrow> ValidatorIdentityCommitments (put_validator_identity i x s) j =
     ValidatorIdentityCommitments s j"
  "j \<noteq> i \<Longrightarrow> ValidatorIdentitySignatureChallenges (put_validator_identity i x s) j =
     ValidatorIdentitySignatureChallenges s j"
  "j \<noteq> i \<Longrightarrow> ValidatorIdentitySignatureBundles (put_validator_identity i x s) j =
     ValidatorIdentitySignatureBundles s j"
  by (simp_all add: put_miner_identity_def put_validator_identity_def)

lemma cleared_identity:
  "\<not> miner_is_route_eligible cfg (put_miner_identity i None s) i m"
  "\<not> validator_is_route_eligible cfg (put_validator_identity i None s) i v"
  by (simp_all add: put_miner_identity_def put_validator_identity_def miner_is_route_eligible_def
      validator_is_route_eligible_def ensure_miner_signature_bundle_bound_def
      ensure_validator_signature_bundle_bound_def ok_or_r_def bind_r_def is_ok_def)

lemma set_miner_identity_inv:
  assumes "set_miner_identity_commitments cfg origin i shielded endpoint bundle s = (Inr u, s')"
    and inv: "pallet_inv cfg s" and "config_ok cfg"
  shows "pallet_inv cfg s'"
  using assms(1)
proof (rule set_miner_identity_ok, goal_cases)
  case (1 operator m x)
  let ?t = "put_miner_identity i x s"
  have "capacity_ok cfg ?t"
  proof (rule capacity_miner [OF inv, where i = i])
    fix sid
    assume "i \<in> eligible_miners cfg ?t sid"
    then have sid: "sid = cm_subnet_id m" and eligible: "miner_is_route_eligible cfg ?t i m"
      using 1(2) by (simp_all add: eligible_miners_def)
    then have "cm_status m = Active" by (simp add: miner_is_route_eligible_def)
    moreover have "x \<noteq> None" using eligible cleared_identity(1) by metis
    ultimately have room: "insert_active_miner cfg ?t (cm_subnet_id m) i = Inr ()"
      using 1(6) by (metis (no_types, lifting))
    show "i \<in> eligible_miners cfg s sid \<or>
        card (insert i (eligible_miners cfg s sid)) \<le> MaxActiveMinersPerSubnet cfg"
      using miner_room [OF inv assms(3) room] inv_dense(1) [OF inv]
      by (simp add: sid put_identity_other)
  qed (simp_all add: put_identity_other)
  then show ?case
    using inv_put_miner_identity [OF inv] by (simp add: 1(5))
qed

lemma clear_validator_identity_inv:
  assumes "set_validator_identity_commitments cfg origin i None None bundle s = (Inr u, s')"
    and inv: "pallet_inv cfg s"
  shows "pallet_inv cfg s'"
  using assms(1)
proof (rule clear_validator_identity_ok, goal_cases)
  case (1 operator v)
  let ?t = "put_validator_identity i None s"
  have "capacity_ok cfg ?t"
    by (rule capacity_validator [OF inv, where i = i])
      (simp_all add: put_identity_other eligible_validators_def cleared_identity)
  then have inv_t: "pallet_inv cfg ?t" by (rule inv_put_validator_identity [OF inv])
  show ?case
  proof (cases "cv_status v = Active")
    case True
    have "ValidatorLockedStake ?t i \<noteq> None"
      using validator_registry.entry(1) [OF inv_registries(2) [OF inv] 1(2)] True
      by (simp add: validator_capital_bearing_status_def)
    then have "pallet_inv cfg (put_validator i (with_validator_status cfg i v Pending)
        (ValidatorLockedStake ?t i) ?t)"
      using 1 by (intro inv_retire_validator [OF inv_t]) simp_all
    then show ?thesis using True unfolding put_validator_same by (simp add: 1(5))
  next
    case False
    then have "s' = log_events cfg [ValidatorIdentityCommitmentsUpdated] ?t"
      by (simp add: 1(5) put_validator_identity_def)
    then show ?thesis using inv_t by simp
  qed
qed

lemma set_validator_identity_inv:
  assumes "set_validator_identity_commitments cfg origin i shielded endpoint bundle s = (Inr u, s')"
    and "shielded \<noteq> None \<or> endpoint \<noteq> None" and inv: "pallet_inv cfg s" and "config_ok cfg"
  shows "pallet_inv cfg s'"
  using assms(1,2)
proof (rule set_validator_identity_ok, goal_cases)
  case (1 operator v x)
  let ?t = "put_validator_identity i x s" and ?v = "with_validator_status cfg i v Active"
  have st: "(if cv_status v = Pending then Active else cv_status v) = Active" using 1(6) by auto
  note entry = validator_registry.entry [OF inv_registries(2) [OF inv] 1(2)]
  have room: "card (insert i (eligible_validators cfg s (cv_subnet_id v))) \<le>
      MaxActiveValidatorsPerSubnet cfg"
    using validator_room [OF inv assms(4) 1(8)] inv_dense(2) [OF inv]
    by (simp add: put_identity_other)
  have "capacity_ok cfg ?t"
    by (rule capacity_validator [OF inv, where i = i])
      (use 1(2) room in \<open>auto simp: put_identity_other eligible_validators_def [of _ ?t]\<close>)
  then have inv_t: "pallet_inv cfg ?t" by (rule inv_put_validator_identity [OF inv])
  have grown: "insert i (eligible_validators cfg ?t sid) = insert i (eligible_validators cfg s sid)" for sid
    by (rule eligible_validators_at(1)) (simp add: put_identity_other)
  have "pallet_inv cfg (put_validator i ?v (ValidatorLockedStake ?t i) ?t)"
  proof (rule inv_put_validator [OF inv_t])
    show "capacity_ok cfg (put_validator i ?v (ValidatorLockedStake ?t i) ?t)"
      by (rule capacity_validator [OF inv_t, where i = i])
        (use room in \<open>auto simp: grown eligible_validators_def [of _ "put_validator _ _ _ _"]\<close>)
    have "\<exists>y. ValidatorLockedStake s i = Some y \<and> MinValidatorStake cfg \<le> y"
      using 1(6,7) entry(1,2)
      by (auto simp: validator_has_active_locked_stake_record_def validator_capital_bearing_status_def
          split: option.splits)
    then show "registry_ok cv_status validator_capital_bearing_status (MinValidatorStake cfg)
        ((Validators ?t)(i \<mapsto> ?v)) (ValidatorCount ?t)
        ((ValidatorLockedStake ?t)(i := ValidatorLockedStake ?t i)) (PendingValidatorRequests ?t)"
      by (intro validator_registry.replace_ok [OF inv_registries(2) [OF inv_t]])
        (use 1(2) in \<open>auto simp: validator_capital_bearing_status_def\<close>)
  qed (simp add: 1(2))
  then show ?case unfolding put_validator_same by (simp add: 1(9) st)
qed

lemma route_and_open_inv:
  assumes "route_and_open cfg user rid p s = (Inr u, s')" and inv: "pallet_inv cfg s"
  shows "pallet_inv cfg s'"
  using assms(1)
proof (rule route_and_open_ok, goal_cases)
  case (1 a c m v subnet)
  show ?case
    unfolding 1(21) inv_environment
    by (rule inv_opened [OF inv 1(11,12,14) _ 1(15)]) (use 1 in \<open>simp_all add: new_request_def\<close>)
qed

lemma close_stale_request_inv:
  assumes "close_stale_request cfg rid user mid vid ablind tw sw fin s = (Inr u, s')"
    and "fin = Request_Cancelled \<or> fin = Request_Expired" and inv: "pallet_inv cfg s"
  shows "pallet_inv cfg s'"
proof -
  have fin: "fin \<noteq> Request_Pending" "fin \<noteq> Request_Settled" using assms(2) by auto
  show ?thesis
    using assms(1) fin(1)
    by (rule close_stale_request_ok) (simp add: inv_finish_unproved [OF inv _ _ fin])
qed

lemma refund_rejected_request_inv:
  assumes "refund_rejected_request cfg sub user ablind sw s = (Inr x, s')" and inv: "pallet_inv cfg s"
  shows "pallet_inv cfg s'"
  using assms(1)
  by (rule refund_rejected_request_ok) (simp add: inv_finish_unproved [OF inv])

lemma submit_proof_inv:
  assumes "submit_proof cfg origin sub user mop ablind sw s = (Inr u, s')" and inv: "pallet_inv cfg s"
  shows "pallet_inv cfg s'"
  using assms(1)
proof (cases rule: submit_proof_ok)
  case (settled vop q m v policy x t ac)
  from settled(6) show ?thesis
    by (rule settle_request_payment_ok)
      (simp add: settled(7) inv_finish_proved [OF inv, simplified])
next
  case (rejected vop q m v policy bps x1 x2 x3 s1 s2 t)
  have "pallet_inv cfg s2"
    using slash_validator_stake_inv [OF rejected(7)] slash_miner_bond_inv [OF rejected(6) inv]
    by simp
  from refund_rejected_request_inv [OF rejected(8) this] show ?thesis by (simp add: rejected(9))
qed

lemma challenge_proof_inv:
  assumes "challenge_proof cfg origin sub user mop ablind sw s = (Inr u, s')"
    and inv: "pallet_inv cfg s"
  shows "pallet_inv cfg s'"
  using assms(1)
proof (rule challenge_proof_ok, goal_cases)
  case (1 challenger q m v policy bps x1 x2 s1 t)
  from refund_rejected_request_inv [OF 1(6) slash_miner_bond_inv [OF 1(5) inv]]
  show ?case by (simp add: 1(7))
qed

text \<open>A request without an explicit route, in the form the automatic route takes.\<close>

definition hidden_params :: "InferenceRequestParams \<Rightarrow> AutoRouteInferenceRequestParams" where
  "hidden_params params = \<lparr>
     ap_subnet_id = rp_subnet_id params, ap_input_commitment = rp_input_commitment params,
     ap_assignment_blinding = rp_assignment_blinding params,
     ap_timing_blinding = rp_timing_blinding params, ap_terms_blinding = rp_terms_blinding params,
     ap_payment = rp_payment params, ap_validator_fee_bps = rp_validator_fee_bps params,
     ap_treasury_fee_bps = rp_treasury_fee_bps params\<rparr>"

lemma request_inference_run:
  assumes "request_inference cfg origin rid params s = (Inr u, s')"
  obtains user where "ensure_payload_signer cfg origin = Inr user"
    "rp_miner_id params = 0" "rp_validator_id params = 0"
    "route_and_open cfg user rid (hidden_params params) s = (Inr (), s')"
  using assms that unfolding request_inference_def hidden_params_def
  by (auto simp: transactional_ok and_then_ok lift_result_ok ensure_ok)

lemma request_inference_auto_route_run:
  assumes "request_inference_auto_route cfg origin rid params s = (Inr u, s')"
  obtains user where "ensure_payload_signer cfg origin = Inr user"
    "route_and_open cfg user rid params s = (Inr (), s')"
  using assms that unfolding request_inference_auto_route_def
  by (auto simp: transactional_ok and_then_ok lift_result_ok)

lemma request_inference_commitments_run:
  "request_inference_commitments cfg origin rid params s \<noteq> (Inr u, s')"
  unfolding request_inference_commitments_def
  by (auto simp: transactional_ok and_then_ok lift_result_ok throw_ok)

lemma cancel_inference_run:
  assumes "cancel_inference cfg origin rid mid vid ablind tw sw s = (Inr u, s')"
  obtains user t where "ensure_payload_signer cfg origin = Inr user"
    "close_stale_request cfg rid user mid vid ablind tw sw Request_Cancelled s = (Inr (), t)"
    "s' = log_events cfg [InferenceCancelled] t"
  using assms that unfolding cancel_inference_def
  by (auto simp: transactional_ok and_then_ok lift_result_ok deposit_ok)

lemma expire_inference_run:
  assumes "expire_inference cfg origin rid user mid vid ablind tw sw s = (Inr u, s')"
  obtains keeper t where "ensure_payload_signer cfg origin = Inr keeper"
    "close_stale_request cfg rid user mid vid ablind tw sw Request_Expired s = (Inr (), t)"
    "s' = log_events cfg [InferenceExpired] t"
  using assms that unfolding expire_inference_def
  by (auto simp: transactional_ok and_then_ok lift_result_ok deposit_ok)

lemma dispatch_ok_inv:
  assumes "dispatch cfg origin call s = (Inr u, s')" and inv: "pallet_inv cfg s" and "config_ok cfg"
  shows "pallet_inv cfg s'"
proof (cases call)
  case (Call_request_inference rid params)
  with assms(1) show ?thesis
    by (auto elim!: request_inference_run intro: route_and_open_inv [OF _ inv])
next
  case (Call_request_inference_auto_route rid params)
  with assms(1) show ?thesis
    by (auto elim!: request_inference_auto_route_run intro: route_and_open_inv [OF _ inv])
next
  case (Call_request_inference_commitments rid params)
  with assms(1) show ?thesis by (simp add: request_inference_commitments_run)
next
  case (Call_cancel_inference rid mid vid ablind tw sw)
  with assms(1) show ?thesis
    by (auto elim!: cancel_inference_run intro: close_stale_request_inv [OF _ _ inv])
next
  case (Call_expire_inference rid user mid vid ablind tw sw)
  with assms(1) show ?thesis
    by (auto elim!: expire_inference_run intro: close_stale_request_inv [OF _ _ inv])
next
  case (Call_slash_miner mid who bps)
  with assms(1) show ?thesis by (auto elim!: slash_miner_ok intro: slash_miner_bond_inv [OF _ inv])
next
  case (Call_slash_validator vid who bps)
  with assms(1) show ?thesis
    by (auto elim!: slash_validator_ok intro: slash_validator_stake_inv [OF _ inv])
next
  case (Call_set_validator_identity_commitments vid shielded endpoint b)
  then show ?thesis
    using assms(1) set_validator_identity_inv [OF _ _ inv assms(3)]
      clear_validator_identity_inv [OF _ inv]
    by (cases "shielded \<noteq> None \<or> endpoint \<noteq> None") auto
qed (use assms in \<open>auto intro: create_subnet_inv register_miner_inv activate_miner_inv
    register_validator_inv submit_proof_inv challenge_proof_inv deactivate_miner_inv
    withdraw_miner_bond_inv deactivate_validator_inv withdraw_validator_stake_inv
    set_miner_identity_inv\<close>)

text \<open>Every call, whatever its outcome.\<close>

lemma dispatch_inv:
  assumes "pallet_inv cfg s" and "config_ok cfg"
  shows "pallet_inv cfg (snd (dispatch cfg origin call s))"
  by (rule dispatch_result) (use assms dispatch_ok_inv in blast)+

section \<open>Runs of the chain\<close>

text \<open>The storage of a chain whose genesis has no entry of the pallet.\<close>

definition genesis :: "'cur \<Rightarrow> 'cur Storage" where
  "genesis c = \<lparr>
     SubnetCount = 0, MinerCount = 0, ValidatorCount = 0,
     Subnets = Map.empty, Miners = Map.empty, Validators = Map.empty,
     MinerIdentityCommitments = Map.empty, MinerIdentitySignatureBundles = Map.empty,
     MinerIdentitySignatureChallenges = Map.empty,
     ValidatorIdentityCommitments = Map.empty, ValidatorIdentitySignatureBundles = Map.empty,
     ValidatorIdentitySignatureChallenges = Map.empty,
     ProofRecords = Map.empty, InferenceRequests = Map.empty, RequestCount = 0,
     ActiveMinersBySubnet = (\<lambda>_. []), ActiveValidatorsBySubnet = (\<lambda>_. []),
     MinerLockedBond = Map.empty, ValidatorLockedStake = Map.empty,
     PendingMinerRequests = Map.empty, PendingValidatorRequests = Map.empty,
     PendingInferenceRequestCount = 0, SettledInferenceRequestCount = 0,
     CancelledInferenceRequestCount = 0, RejectedInferenceRequestCount = 0,
     ExpiredInferenceRequestCount = 0,
     TotalBurned = 0, TotalInferenceEscrowed = 0, TotalMinerPayouts = 0, TotalValidatorFees = 0,
     TotalTreasuryFees = 0, TotalInferenceRefunded = 0,
     LegacyAccountingMigrationFailures = 0, LegacyRoutingIndexMigrationFailures = 0,
     LegacyCapitalRecordMigrationFailures = 0,
     block_number = 0, events = [], currency = c\<rparr>"

text \<open>
  A step is a dispatched call, a new block, or activity of other pallets on the currency, which
  cannot touch balances held for the reasons of this pallet.
\<close>

inductive pallet_step :: "'cur Config \<Rightarrow> 'cur Storage \<Rightarrow> 'cur Storage \<Rightarrow> bool" for cfg where
  call: "pallet_step cfg s (snd (dispatch cfg origin c s))"
| block: "block_number s \<le> b \<Longrightarrow> pallet_step cfg s (s\<lparr>block_number := b\<rparr>)"
| environment: "(\<And>r who. balance_on_hold (Currency cfg) r who c =
      balance_on_hold (Currency cfg) r who (currency s)) \<Longrightarrow>
    pallet_step cfg s (s\<lparr>currency := c\<rparr>)"

inductive pallet_reachable :: "'cur Config \<Rightarrow> 'cur Storage \<Rightarrow> bool" for cfg where
  start: "pallet_reachable cfg (genesis c)"
| step: "pallet_reachable cfg s \<Longrightarrow> pallet_step cfg s s' \<Longrightarrow> pallet_reachable cfg s'"

inductive_cases pallet_stepE: "pallet_step cfg s s'"

lemma genesis_inv: "pallet_inv cfg (genesis c)"
proof -
  have "status_count st (genesis c) = 0" for st by (cases st) (simp_all add: genesis_def)
  then show ?thesis
    by (simp add: inv_defs genesis_def registry_ok_def requests_with_def eligible_miners_def
        eligible_validators_def pending_total_def)
qed

lemma step_inv: "pallet_step cfg s s' \<Longrightarrow> pallet_inv cfg s \<Longrightarrow> config_ok cfg \<Longrightarrow> pallet_inv cfg s'"
  by (erule pallet_stepE) (simp_all add: dispatch_inv)

lemma reachable_inv: "pallet_reachable cfg s \<Longrightarrow> config_ok cfg \<Longrightarrow> pallet_inv cfg s"
  by (induction rule: pallet_reachable.induct) (auto simp: genesis_inv intro: step_inv)

end
