(* ===== verification/Pallet_Try_State.thy ===== *)
theory Pallet_Try_State
  imports Pallet_Steps Pallet_Params
begin

text \<open>
  The consistency check that the \<open>try_state\<close> hook runs over the whole storage, and the theorem
  that it accepts every storage a chain can reach.
\<close>

section \<open>The check\<close>

text \<open>A loop whose body may leave it with an error.\<close>

fun for_each :: "('a \<Rightarrow> 'e + unit) \<Rightarrow> 'a list \<Rightarrow> 'e + unit" where
  "for_each body [] = Inr ()"
| "for_each body (x # xs) = bind_r (body x) (\<lambda>_. for_each body xs)"

lemma for_each_ok: "for_each body xs = Inr () \<longleftrightarrow> (\<forall>x \<in> set xs. body x = Inr ())"
  by (induction xs) (auto simp: ok_simps)

definition audit_subnet :: "'cur Config \<Rightarrow> 'cur Storage \<Rightarrow> SubnetId \<Rightarrow> string + unit" where
  "audit_subnet cfg s sid =
     bind_r (ensure_r (ActiveMinersBySubnet s sid = [])
       ''Qubitum active miner route index publishes participant ids'') (\<lambda>_.
     bind_r (ensure_r (ActiveValidatorsBySubnet s sid = [])
       ''Qubitum active validator route index publishes participant ids'') (\<lambda>_.
     bind_r (ensure_r (length (active_miner_route_ids cfg s sid) mod 2 ^ 32
                       \<le> MaxActiveMinersPerSubnet cfg)
       ''Qubitum active miner route set exceeds configured capacity'') (\<lambda>_.
     ensure_r (length (active_validator_route_ids cfg s sid) mod 2 ^ 32
               \<le> MaxActiveValidatorsPerSubnet cfg)
       ''Qubitum active validator route set exceeds configured capacity'')))"

definition pending_allowed :: "RegistryStatus \<Rightarrow> bool" where
  "pending_allowed status =
     (case status of Active \<Rightarrow> True | Slashed \<Rightarrow> True | Exiting _ \<Rightarrow> True | _ \<Rightarrow> False)"

definition audit_miner :: "'cur Storage \<Rightarrow> MinerId \<times> ChainMiner \<Rightarrow> string + unit" where
  "audit_miner s = (\<lambda>(mid, _).
     let count = pending_of (PendingMinerRequests s) mid in
     if count = 0 then Inr ()
     else bind_r (ensure_r (count > 0) ''Qubitum pending miner counter is zero'') (\<lambda>_.
          bind_r (ok_or_r (Miners s mid)
            ''Qubitum pending miner counter references missing miner'') (\<lambda>miner.
          ensure_r (pending_allowed (cm_status miner))
            ''Qubitum pending miner counter references invalid miner status'')))"

definition audit_validator :: "'cur Storage \<Rightarrow> ValidatorId \<times> ChainValidator \<Rightarrow> string + unit" where
  "audit_validator s = (\<lambda>(vid, _).
     let count = pending_of (PendingValidatorRequests s) vid in
     if count = 0 then Inr ()
     else bind_r (ensure_r (count > 0) ''Qubitum pending validator counter is zero'') (\<lambda>_.
          bind_r (ok_or_r (Validators s vid)
            ''Qubitum pending validator counter references missing validator'') (\<lambda>validator.
          ensure_r (pending_allowed (cv_status validator))
            ''Qubitum pending validator counter references invalid validator status'')))"

text \<open>The loop body that counts one request.\<close>

definition count_request ::
  "RequestId \<times> ChainInferenceRequest \<Rightarrow> ChainRequestStatusCounts \<Rightarrow> ChainRequestStatusCounts" where
  "count_request = (\<lambda>(_, request) counts.
     case cr_status request of
       Request_Pending \<Rightarrow> counts\<lparr>count_pending := saturating_add 64 (count_pending counts) 1\<rparr>
     | Request_Settled \<Rightarrow> counts\<lparr>count_settled := saturating_add 64 (count_settled counts) 1\<rparr>
     | Request_Cancelled \<Rightarrow> counts\<lparr>count_cancelled := saturating_add 64 (count_cancelled counts) 1\<rparr>
     | Request_Rejected \<Rightarrow> counts\<lparr>count_rejected := saturating_add 64 (count_rejected counts) 1\<rparr>
     | Request_Expired \<Rightarrow> counts\<lparr>count_expired := saturating_add 64 (count_expired counts) 1\<rparr>)"

definition expected_status_counts :: "'cur Storage \<Rightarrow> ChainRequestStatusCounts" where
  "expected_status_counts s = fold count_request (request_records s)
     \<lparr>count_pending = 0, count_settled = 0, count_cancelled = 0, count_rejected = 0,
      count_expired = 0\<rparr>"

definition ensure_active_routing_indexes_match :: "'cur Config \<Rightarrow> 'cur Storage \<Rightarrow> string + unit" where
  "ensure_active_routing_indexes_match cfg s =
     bind_r (for_each (audit_subnet cfg s) [0..<SubnetCount s]) (\<lambda>_.
     bind_r (for_each (audit_miner s) (miner_records s)) (\<lambda>_.
     bind_r (for_each (audit_validator s) (validator_records s)) (\<lambda>_.
     ensure_r (raw_request_status_counts s = expected_status_counts s)
       ''Qubitum request status counter mismatch'')))"

definition try_state :: "'cur Config \<Rightarrow> 'cur Storage \<Rightarrow> string + unit" where
  "try_state cfg s = bind_r (ensure_active_routing_indexes_match cfg s) (\<lambda>_. Inr ())"

section \<open>It accepts every storage with the invariant\<close>

definition count_of :: "InferenceRequestStatus \<Rightarrow> ChainRequestStatusCounts \<Rightarrow> nat" where
  "count_of st c = (case st of Request_Pending \<Rightarrow> count_pending c | Request_Settled \<Rightarrow> count_settled c
     | Request_Cancelled \<Rightarrow> count_cancelled c | Request_Rejected \<Rightarrow> count_rejected c
     | Request_Expired \<Rightarrow> count_expired c)"

lemma count_request_of:
  "count_of st (count_request (r, q) c) =
     (if cr_status q = st then saturating_add 64 (count_of st c) 1 else count_of st c)"
  by (cases st; cases "cr_status q") (simp_all add: count_of_def count_request_def)

lemma counts_eqI: "(\<And>st. count_of st c = count_of st c') \<Longrightarrow> c = c'"
proof -
  assume "\<And>st. count_of st c = count_of st c'"
  from this [of Request_Pending] this [of Request_Settled] this [of Request_Cancelled]
    this [of Request_Rejected] this [of Request_Expired]
  show "c = c'" by (simp add: count_of_def)
qed

lemma fold_count_request:
  assumes "n < 2 ^ 64"
  shows "count_of st (fold count_request (registry_records m n)
      \<lparr>count_pending = 0, count_settled = 0, count_cancelled = 0, count_rejected = 0,
       count_expired = 0\<rparr>) = (\<Sum>r<n. has_status st (m r))" (is "?count n = ?sum n")
  using assms
proof (induction n)
  case 0
  show ?case by (cases st) (simp_all add: registry_records_def List.map_filter_def count_of_def)
next
  case (Suc n)
  then have IH: "?count n = ?sum n" by simp
  have bound: "?sum n \<le> n"
  proof -
    have "?sum n \<le> (\<Sum>r<n. 1)"
    proof (rule sum_mono)
      show "has_status st (m r) \<le> 1" for r by (cases "m r") simp_all
    qed
    then show ?thesis by simp
  qed
  show ?case
  proof (cases "m n")
    case None
    then show ?thesis using IH by (simp add: registry_records_Suc)
  next
    case (Some q)
    then show ?thesis
      using IH bound Suc.prems
      by (simp add: registry_records_Suc count_request_of saturating_add_def uint_max_def)
  qed
qed

lemma expected_counts:
  assumes "requests_ok s"
  shows "raw_request_status_counts s = expected_status_counts s"
proof (rule counts_eqI)
  fix st
  have "count_of st (raw_request_status_counts s) = status_count st s"
    by (cases st) (simp_all add: count_of_def raw_request_status_counts_def)
  also have "\<dots> = requests_with st s" using assms by (simp add: requests_ok_def)
  also have "\<dots> = count_of st (expected_status_counts s)"
    using assms fold_count_request [of "RequestCount s" st "InferenceRequests s"]
    by (simp add: requests_ok_def requests_with_def expected_status_counts_def request_records_def)
  finally show "count_of st (raw_request_status_counts s) = count_of st (expected_status_counts s)" .
qed

lemma audit_subnet_ok:
  assumes "pallet_inv cfg s"
  shows "audit_subnet cfg s sid = Inr ()"
proof -
  have "length (active_miner_route_ids cfg s sid) \<le> MaxActiveMinersPerSubnet cfg"
    "length (active_validator_route_ids cfg s sid) \<le> MaxActiveValidatorsPerSubnet cfg"
    using assms active_miner_ids(2) [OF inv_dense(1) [OF assms]]
      active_validator_ids(2) [OF inv_dense(2) [OF assms]]
    by (simp_all add: pallet_inv_def capacity_ok_def)
  then have "length (active_miner_route_ids cfg s sid) mod 2 ^ 32 \<le> MaxActiveMinersPerSubnet cfg"
    "length (active_validator_route_ids cfg s sid) mod 2 ^ 32 \<le> MaxActiveValidatorsPerSubnet cfg"
    using mod_less_eq_dividend le_trans by blast+
  moreover have "ActiveMinersBySubnet s sid = []" "ActiveValidatorsBySubnet s sid = []"
    using assms by (simp_all add: pallet_inv_def nothing_published_def)
  ultimately show ?thesis by (simp add: audit_subnet_def ok_simps)
qed

lemma audit_miner_ok:
  assumes "pallet_inv cfg s"
  shows "audit_miner s x = Inr ()"
proof (cases x)
  case (Pair i r)
  show ?thesis
  proof (cases "pending_of (PendingMinerRequests s) i = 0")
    case False
    then obtain m where "Miners s i = Some m" "cm_status m = Active \<or> cm_status m = Slashed"
      using miner_registry.pending_known [OF inv_registries(1) [OF assms]] by blast
    then show ?thesis
      using False by (auto simp: Pair audit_miner_def Let_def ok_simps pending_allowed_def)
  qed (simp add: Pair audit_miner_def)
qed

lemma audit_validator_ok:
  assumes "pallet_inv cfg s"
  shows "audit_validator s x = Inr ()"
proof (cases x)
  case (Pair i r)
  show ?thesis
  proof (cases "pending_of (PendingValidatorRequests s) i = 0")
    case False
    then obtain v where "Validators s i = Some v" "cv_status v = Active \<or> cv_status v = Slashed"
      using validator_registry.pending_known [OF inv_registries(2) [OF assms]] by blast
    then show ?thesis
      using False by (auto simp: Pair audit_validator_def Let_def ok_simps pending_allowed_def)
  qed (simp add: Pair audit_validator_def)
qed

lemma inv_try_state:
  assumes "pallet_inv cfg s"
  shows "try_state cfg s = Inr ()"
proof -
  have "requests_ok s" using assms by (simp add: pallet_inv_def)
  then show ?thesis
    by (simp add: try_state_def ensure_active_routing_indexes_match_def ok_simps for_each_ok
        audit_subnet_ok [OF assms] audit_miner_ok [OF assms] audit_validator_ok [OF assms]
        expected_counts)
qed

end
