(* ===== verification/Pallet_Behaviour.thy ===== *)
theory Pallet_Behaviour
  imports Pallet_Steps
begin

text \<open>
  What a dispatched call can do to the requests and to the event log, and how requests evolve
  along a run.
\<close>

section \<open>Requests\<close>

inductive requests_evolve :: "'cur Storage \<Rightarrow> 'cur Storage \<Rightarrow> bool" for s s' where
  same: "InferenceRequests s' = InferenceRequests s \<Longrightarrow> requests_evolve s s'"
| opens: "InferenceRequests s' = (InferenceRequests s)(RequestCount s \<mapsto> q) \<Longrightarrow>
    cr_status q = Request_Pending \<Longrightarrow> requests_evolve s s'"
| closes: "InferenceRequests s r = Some q \<Longrightarrow> cr_status q = Request_Pending \<Longrightarrow>
    fin \<noteq> Request_Pending \<Longrightarrow>
    InferenceRequests s' = (InferenceRequests s)(r \<mapsto> q\<lparr>cr_status := fin\<rparr>) \<Longrightarrow>
    requests_evolve s s'"

inductive_cases requests_evolveE: "requests_evolve s s'"

lemma put_identity_requests [simp]:
  "InferenceRequests (put_miner_identity i x s) = InferenceRequests s"
  "InferenceRequests (put_validator_identity i x s) = InferenceRequests s"
  by (simp_all add: put_miner_identity_def put_validator_identity_def)

lemma slash_keeps_requests:
  "slash_miner_bond cfg i who bps s = (Inr x, s') \<Longrightarrow> InferenceRequests s' = InferenceRequests s"
  "slash_validator_stake cfg j who' bps' t = (Inr y, t') \<Longrightarrow> InferenceRequests t' = InferenceRequests t"
  by (auto elim!: slash_miner_bond_ok slash_validator_stake_ok)

lemma route_and_open_evolves:
  "route_and_open cfg user rid p s = (Inr u, s') \<Longrightarrow> requests_evolve s s'"
  by (erule route_and_open_ok, rule requests_evolve.opens, simp add: opened_def)
    (simp add: new_request_def)

lemma close_stale_request_evolves:
  "close_stale_request cfg rid user mid vid b tw sw fin s = (Inr u, t) \<Longrightarrow> fin \<noteq> Request_Pending \<Longrightarrow>
   requests_evolve s (log_events cfg evs t)"
  by (erule (1) close_stale_request_ok, rule requests_evolve.closes) simp_all

lemma refund_rejected_request_evolves:
  "refund_rejected_request cfg sub user b sw s1 = (Inr x, t) \<Longrightarrow>
   InferenceRequests s1 = InferenceRequests s \<Longrightarrow> requests_evolve s (log_events cfg evs t)"
  by (erule refund_rejected_request_ok,
      rule requests_evolve.closes [where r = "request_id sub" and fin = Request_Rejected]) simp_all

lemma submit_proof_evolves:
  assumes "submit_proof cfg origin sub user mop b sw s = (Inr u, s')"
  shows "requests_evolve s s'"
  using assms
proof (cases rule: submit_proof_ok)
  case (settled vop q m v policy x t ac)
  from settled(6) show ?thesis
    by (rule settle_request_payment_ok)
      (rule requests_evolve.closes [where r = "request_id sub" and fin = Request_Settled],
       simp_all add: settled(7))
next
  case (rejected vop q m v policy bps x1 x2 x3 s1 s2 t)
  from refund_rejected_request_evolves [OF rejected(8)] show ?thesis
    using slash_keeps_requests(1) [OF rejected(6)] slash_keeps_requests(2) [OF rejected(7)]
    by (simp add: rejected(9))
qed

lemma challenge_proof_evolves:
  assumes "challenge_proof cfg origin sub user mop b sw s = (Inr u, s')"
  shows "requests_evolve s s'"
  using assms
proof (rule challenge_proof_ok, goal_cases)
  case (1 challenger q m v policy bps x1 x2 s1 t)
  from refund_rejected_request_evolves [OF 1(6)] slash_keeps_requests(1) [OF 1(5)]
  show ?case by (simp add: 1(7))
qed

lemma set_validator_identity_requests:
  assumes "set_validator_identity_commitments cfg origin i shielded endpoint bundle s = (Inr u, s')"
  shows "InferenceRequests s' = InferenceRequests s"
proof (cases "shielded \<noteq> None \<or> endpoint \<noteq> None")
  case True
  with assms show ?thesis by (rule set_validator_identity_ok) simp
next
  case False
  with assms show ?thesis by (auto elim!: clear_validator_identity_ok)
qed

lemma registry_call_requests:
  "create_subnet cfg origin domain system s = (Inr u, s') \<Longrightarrow> InferenceRequests s' = InferenceRequests s"
  "register_miner cfg origin sid model system s = (Inr u, s') \<Longrightarrow> InferenceRequests s' = InferenceRequests s"
  "register_validator cfg origin sid stake s = (Inr u, s') \<Longrightarrow> InferenceRequests s' = InferenceRequests s"
  "activate_miner cfg origin i bond s = (Inr u, s') \<Longrightarrow> InferenceRequests s' = InferenceRequests s"
  "deactivate_miner cfg origin i s = (Inr u, s') \<Longrightarrow> InferenceRequests s' = InferenceRequests s"
  "deactivate_validator cfg origin i s = (Inr u, s') \<Longrightarrow> InferenceRequests s' = InferenceRequests s"
  "withdraw_miner_bond cfg origin i s = (Inr u, s') \<Longrightarrow> InferenceRequests s' = InferenceRequests s"
  "withdraw_validator_stake cfg origin i s = (Inr u, s') \<Longrightarrow> InferenceRequests s' = InferenceRequests s"
  "slash_miner cfg origin i who bps s = (Inr u, s') \<Longrightarrow> InferenceRequests s' = InferenceRequests s"
  "slash_validator cfg origin i who bps s = (Inr u, s') \<Longrightarrow> InferenceRequests s' = InferenceRequests s"
  "set_miner_identity_commitments cfg origin i shielded endpoint bundle s = (Inr u, s') \<Longrightarrow>
     InferenceRequests s' = InferenceRequests s"
  by (auto elim!: create_subnet_ok register_miner_ok register_validator_ok activate_miner_ok
      deactivate_miner_ok deactivate_validator_ok withdraw_miner_bond_ok withdraw_validator_stake_ok
      slash_miner_ok slash_validator_ok set_miner_identity_ok simp: slash_keeps_requests
      simp del: if_split)

lemma dispatch_evolves:
  "dispatch cfg origin call s = (Inr u, s') \<Longrightarrow> requests_evolve s s'"
  by (cases call)
    (auto intro: requests_evolve.same registry_call_requests set_validator_identity_requests
        submit_proof_evolves challenge_proof_evolves route_and_open_evolves
        close_stale_request_evolves
      elim!: request_inference_run request_inference_auto_route_run cancel_inference_run
        expire_inference_run
      simp: request_inference_commitments_run)

lemma step_evolves: "pallet_step cfg s s' \<Longrightarrow> requests_evolve s s'"
  by (erule pallet_stepE)
    (auto intro: requests_evolve.same dispatch_result [where P = "requests_evolve s"] dispatch_evolves)

text \<open>A stored request never changes but for its status, and a closed one not at all.\<close>

definition request_kept :: "ChainInferenceRequest \<Rightarrow> ChainInferenceRequest \<Rightarrow> bool" where
  "request_kept q q' \<longleftrightarrow> q' = q\<lparr>cr_status := cr_status q'\<rparr> \<and>
     (cr_status q = Request_Pending \<or> cr_status q' = cr_status q)"

lemma request_kept_trans: "request_kept p q \<Longrightarrow> request_kept q r \<Longrightarrow> request_kept p r"
  by (cases p; cases q; cases r) (auto simp: request_kept_def)

lemma evolve_keeps:
  assumes "requests_evolve s s'" and "InferenceRequests s r = Some q"
    and "dense (InferenceRequests s) (RequestCount s)"
  shows "\<exists>q'. InferenceRequests s' r = Some q' \<and> request_kept q q'"
  using assms(1)
proof (cases rule: requests_evolve.cases)
  case same
  with assms(2) show ?thesis by (simp add: request_kept_def)
next
  case (opens q')
  with assms(2) dense_fresh [OF assms(3)] show ?thesis by (auto simp: request_kept_def)
next
  case (closes r' q' fin)
  with assms(2) show ?thesis by (auto simp: request_kept_def)
qed

lemma steps_keep:
  assumes "(pallet_step cfg)\<^sup>*\<^sup>* s t" and "pallet_inv cfg s" and "config_ok cfg"
    and "InferenceRequests s r = Some q"
  shows "pallet_inv cfg t \<and> (\<exists>q'. InferenceRequests t r = Some q' \<and> request_kept q q')"
  using assms(1)
proof (induction rule: rtranclp_induct)
  case base
  from assms(2,4) show ?case by (simp add: request_kept_def)
next
  case (step t t')
  then obtain q' where q': "InferenceRequests t r = Some q'" "request_kept q q'" by blast
  from step have inv: "pallet_inv cfg t" by blast
  from evolve_keeps [OF step_evolves [OF step(2)] q'(1) inv_dense(4) [OF inv]]
  obtain q'' where "InferenceRequests t' r = Some q''" "request_kept q' q''" by blast
  with request_kept_trans [OF q'(2)] step_inv [OF step(2) inv assms(3)] show ?case by blast
qed

section \<open>Events\<close>

text \<open>A successful call logs one redacted event, or the events of the call when they are public.\<close>

definition logs_once :: "'cur Config \<Rightarrow> 'cur Storage \<Rightarrow> 'cur Storage \<Rightarrow> bool" where
  "logs_once cfg s s' \<longleftrightarrow>
     (\<exists>evs. evs \<noteq> [] \<and> PrivateActivity \<notin> set evs \<and>
        events s' = events s @ (if PrivateEventMetadata cfg then [PrivateActivity] else evs))"

lemma logs_onceI:
  "events t = events s \<Longrightarrow> evs \<noteq> [] \<Longrightarrow> PrivateActivity \<notin> set evs \<Longrightarrow> logs_once cfg s (log_events cfg evs t)"
  by (auto simp: logs_once_def log_events_def)

lemma events_kept [simp]:
  "events (put_miner_identity i x s) = events s" "events (put_validator_identity i x s) = events s"
  "events (opened rid q mid vid c s) = events s" "events (finish rid q fin mid vid c s) = events s"
  by (simp_all add: put_miner_identity_def put_validator_identity_def opened_def)

lemma slash_keeps_events:
  "slash_miner_bond cfg i who bps s = (Inr x, s') \<Longrightarrow> events s' = events s"
  "slash_validator_stake cfg j who' bps' t = (Inr y, t') \<Longrightarrow> events t' = events t"
  by (auto elim!: slash_miner_bond_ok slash_validator_stake_ok)

lemma closing_keeps_events:
  "close_stale_request cfg rid user mid vid b tw sw fin s = (Inr u, t) \<Longrightarrow> fin \<noteq> Request_Pending \<Longrightarrow>
     events t = events s"
  "refund_rejected_request cfg sub user b sw s = (Inr x, t) \<Longrightarrow> events t = events s"
  "settle_request_payment cfg sub user mop vop b sw s = (Inr y, t) \<Longrightarrow> events t = events s"
  by (auto elim!: close_stale_request_ok refund_rejected_request_ok settle_request_payment_ok)

lemma registry_call_logs:
  "create_subnet cfg origin domain system s = (Inr u, s') \<Longrightarrow> logs_once cfg s s'"
  "register_miner cfg origin sid model system s = (Inr u, s') \<Longrightarrow> logs_once cfg s s'"
  "register_validator cfg origin sid stake s = (Inr u, s') \<Longrightarrow> logs_once cfg s s'"
  "activate_miner cfg origin i bond s = (Inr u, s') \<Longrightarrow> logs_once cfg s s'"
  "deactivate_miner cfg origin i s = (Inr u, s') \<Longrightarrow> logs_once cfg s s'"
  "deactivate_validator cfg origin i s = (Inr u, s') \<Longrightarrow> logs_once cfg s s'"
  "withdraw_miner_bond cfg origin i s = (Inr u, s') \<Longrightarrow> logs_once cfg s s'"
  "withdraw_validator_stake cfg origin i s = (Inr u, s') \<Longrightarrow> logs_once cfg s s'"
  "slash_miner cfg origin i who bps s = (Inr u, s') \<Longrightarrow> logs_once cfg s s'"
  "slash_validator cfg origin i who bps s = (Inr u, s') \<Longrightarrow> logs_once cfg s s'"
  "set_miner_identity_commitments cfg origin i shielded endpoint bundle s = (Inr u, s') \<Longrightarrow>
     logs_once cfg s s'"
  by (auto elim!: create_subnet_ok register_miner_ok register_validator_ok activate_miner_ok
      deactivate_miner_ok deactivate_validator_ok withdraw_miner_bond_ok withdraw_validator_stake_ok
      slash_miner_ok slash_validator_ok set_miner_identity_ok
      intro!: logs_onceI simp: slash_keeps_events simp del: if_split)

lemma set_validator_identity_logs:
  assumes "set_validator_identity_commitments cfg origin i shielded endpoint bundle s = (Inr u, s')"
  shows "logs_once cfg s s'"
proof (cases "shielded \<noteq> None \<or> endpoint \<noteq> None")
  case True
  with assms show ?thesis by (rule set_validator_identity_ok) (simp add: logs_onceI)
next
  case False
  with assms show ?thesis by (auto elim!: clear_validator_identity_ok intro!: logs_onceI)
qed

lemma request_call_logs:
  "route_and_open cfg user rid p s = (Inr u, s') \<Longrightarrow> logs_once cfg s s'"
  "cancel_inference cfg origin rid mid vid b tw sw s = (Inr u, s') \<Longrightarrow> logs_once cfg s s'"
  "expire_inference cfg origin rid user mid vid b tw sw s = (Inr u, s') \<Longrightarrow> logs_once cfg s s'"
  "submit_proof cfg origin sub user mop b sw s = (Inr u, s') \<Longrightarrow> logs_once cfg s s'"
  "challenge_proof cfg origin sub user mop b sw s = (Inr u, s') \<Longrightarrow> logs_once cfg s s'"
  by (auto elim!: route_and_open_ok cancel_inference_run expire_inference_run submit_proof_ok
      challenge_proof_ok intro!: logs_onceI simp: closing_keeps_events slash_keeps_events)

lemma dispatch_logs: "dispatch cfg origin call s = (Inr u, s') \<Longrightarrow> logs_once cfg s s'"
  by (cases call)
    (auto intro: registry_call_logs set_validator_identity_logs request_call_logs
      elim!: request_inference_run request_inference_auto_route_run
      simp: request_inference_commitments_run)

section \<open>Fail-closed identity verification\<close>

text \<open>Every signature mode demands at least one signature, so a verifier that accepts none lets no
  bundle through.\<close>

lemma accepted_bundle_signed:
  "is_ok (SignaturePolicy_validate (SignaturePolicy_new m) bundle) \<Longrightarrow>
   classical bundle \<noteq> None \<or> post_quantum bundle \<noteq> None"
  by (cases m; cases "classical bundle"; cases "post_quantum bundle") (auto simp: accepted_simps)

lemma fail_closed_bundle:
  assumes "IdentitySignatureVerifier_verify cfg = FailClosedIdentitySignatureVerifier_verify"
  shows "ensure_identity_signature_bundle_bound cfg bundle challenge opc shielded endpoint \<noteq> Inr u"
proof
  assume "ensure_identity_signature_bundle_bound cfg bundle challenge opc shielded endpoint = Inr u"
  then have ok: "ensure_signature_bundle cfg bundle = Inr ()"
      "\<And>sig. classical bundle = Some sig \<or> post_quantum bundle = Some sig \<Longrightarrow>
         ensure_signature_commitment_bound_to_challenge cfg sig challenge = Inr ()"
    by (auto simp: ensure_identity_signature_bundle_bound_def ok_simps
        ensure_signature_bundle_bound_to_challenge_def split: option.splits)
  from ok(1) have "classical bundle \<noteq> None \<or> post_quantum bundle \<noteq> None"
    by (intro accepted_bundle_signed [of "Config_SignatureMode cfg"])
      (auto simp: ensure_signature_bundle_def is_ok_iff split: sum.splits)
  with ok(2) show False
    using assms
    by (auto simp: ensure_signature_commitment_bound_to_challenge_def ok_simps
        FailClosedIdentitySignatureVerifier_verify_def)
qed

lemma fail_closed_miner:
  "IdentitySignatureVerifier_verify cfg = FailClosedIdentitySignatureVerifier_verify \<Longrightarrow>
   ensure_miner_signature_bundle_bound cfg s i m \<noteq> Inr u"
  by (auto simp: ensure_miner_signature_bundle_bound_def ok_simps fail_closed_bundle Let_def)

lemma fail_closed_validator_identity:
  assumes "IdentitySignatureVerifier_verify cfg = FailClosedIdentitySignatureVerifier_verify"
    and "shielded \<noteq> None \<or> endpoint \<noteq> None"
  shows "set_validator_identity_commitments cfg origin i shielded endpoint bundle s \<noteq> (Inr u, s')"
  using assms(2)
  by (auto simp: set_validator_identity_commitments_def ok_simps fail_closed_bundle [OF assms(1)]
      Let_def)

definition dormant :: "'cur Storage \<Rightarrow> bool" where
  "dormant s \<longleftrightarrow> InferenceRequests s = Map.empty \<and> MinerLockedBond s = Map.empty \<and>
     (\<forall>i m. Miners s i = Some m \<longrightarrow> cm_status m = Pending) \<and>
     (\<forall>i v. Validators s i = Some v \<longrightarrow> cv_status v \<noteq> Active)"

lemma dormant_frame [simp]:
  "dormant (log_events cfg evs s) = dormant s" "dormant (put_miner_identity i x s) = dormant s"
  by (simp_all add: dormant_def put_miner_identity_def)

lemma dormant_no_bond: "dormant s \<Longrightarrow> locked_miner_bond cfg s i who \<noteq> Inr b"
  by (auto simp: dormant_def locked_miner_bond_def miner_capital_bearing_status_def ok_simps)

lemma dormant_registry_calls:
  assumes "dormant s"
  shows "create_subnet cfg origin domain system s = (Inr u, s') \<Longrightarrow> dormant s'"
    "register_miner cfg origin sid model system s = (Inr u, s') \<Longrightarrow> dormant s'"
    "register_validator cfg origin sid stake s = (Inr u, s') \<Longrightarrow> dormant s'"
    "deactivate_miner cfg origin i s = (Inr u, s') \<Longrightarrow> dormant s'"
    "deactivate_validator cfg origin i s = (Inr u, s') \<Longrightarrow> dormant s'"
    "withdraw_miner_bond cfg origin i s = (Inr u, s') \<Longrightarrow> dormant s'"
    "withdraw_validator_stake cfg origin i s = (Inr u, s') \<Longrightarrow> dormant s'"
    "slash_miner_bond cfg i who bps s = (Inr x, s') \<Longrightarrow> dormant s'"
    "slash_validator_stake cfg i who bps s = (Inr x, s') \<Longrightarrow> dormant s'"
  using assms dormant_no_bond [OF assms]
  by (auto elim!: create_subnet_ok register_miner_ok register_validator_ok
      deactivate_miner_ok deactivate_validator_ok withdraw_miner_bond_ok withdraw_validator_stake_ok
      slash_miner_bond_ok slash_validator_stake_ok
      simp: dormant_def with_validator_status_def simp del: if_split split: if_splits)

lemma dormant_request_calls:
  assumes "dormant s"
  shows "route_and_open cfg user rid p s \<noteq> (Inr u, s')"
    "close_stale_request cfg rid user mid vid b tw sw fin s = (Inr u, s') \<Longrightarrow> fin = Request_Pending"
    "submit_proof cfg origin sub user mop b sw s \<noteq> (Inr u, s')"
    "challenge_proof cfg origin sub user mop b sw s \<noteq> (Inr u, s')"
  using assms
  by (auto elim!: route_and_open_ok submit_proof_ok challenge_proof_ok
      elim: close_stale_request_ok simp: dormant_def submission_valid_def)

lemma dormant_set_miner_identity:
  assumes "set_miner_identity_commitments cfg origin i shielded endpoint bundle s = (Inr u, s')"
    and "dormant s"
  shows "dormant s'"
  using assms(1) by (rule set_miner_identity_ok) (use assms(2) in simp)

lemma dormant_set_validator_identity:
  assumes "set_validator_identity_commitments cfg origin i shielded endpoint bundle s = (Inr u, s')"
    and "IdentitySignatureVerifier_verify cfg = FailClosedIdentitySignatureVerifier_verify"
    and "dormant s"
  shows "dormant s'"
proof -
  have "shielded = None" "endpoint = None"
    using fail_closed_validator_identity [OF assms(2)] assms(1) by blast+
  with assms(1,3) show ?thesis
    by (auto elim!: clear_validator_identity_ok
        simp: dormant_def put_validator_identity_def split: if_splits)
qed

lemma dormant_dispatch:
  assumes "dispatch cfg origin call s = (Inr u, s')" and "dormant s"
    and "IdentitySignatureVerifier_verify cfg = FailClosedIdentitySignatureVerifier_verify"
  shows "dormant s'"
  using assms
  by (cases call)
    (auto intro: dormant_registry_calls dormant_set_miner_identity dormant_set_validator_identity
      elim!: request_inference_run request_inference_auto_route_run cancel_inference_run
        expire_inference_run activate_miner_ok slash_miner_ok slash_validator_ok
      simp: request_inference_commitments_run dormant_request_calls fail_closed_miner
      dest: dormant_request_calls(2))

lemma dormant_reachable:
  assumes "pallet_reachable cfg s"
    and "IdentitySignatureVerifier_verify cfg = FailClosedIdentitySignatureVerifier_verify"
  shows "dormant s"
  using assms(1)
proof (induction rule: pallet_reachable.induct)
  case (start c)
  show ?case by (simp add: dormant_def genesis_def)
next
  case (step s s')
  from step(2) show ?case
  proof (cases rule: pallet_step.cases)
    case (call origin c)
    from step.IH dormant_dispatch [OF _ step.IH assms(2)] show ?thesis
      unfolding call by (rule dispatch_result)
  qed (use step.IH in \<open>simp_all add: dormant_def\<close>)
qed

section \<open>Fail-closed proof verification\<close>

lemma fail_closed_proofs:
  assumes "ProofVerifier_verify cfg = FailClosedProofVerifier_verify"
  shows "submit_proof cfg origin sub user mop b sw s \<noteq> (Inr u, s')"
    and "challenge_proof cfg origin sub user mop b sw s \<noteq> (Inr u, s')"
  using assms
  by (auto elim!: submit_proof_ok challenge_proof_ok simp: FailClosedProofVerifier_verify_def)

section \<open>Shielded payloads\<close>

lemma shielded_dispatch:
  assumes "ShieldedCallPayloads cfg"
  shows "(ShieldedOrigin_try_origin cfg origin = None \<longrightarrow>
      dispatch cfg origin call s = (Inl (err Error_PublicCallPayloadDisallowed), s)) \<and>
    dispatch cfg origin (Call_slash_miner mid who bps) s =
      (Inl (err Error_PublicCallPayloadDisallowed), s) \<and>
    dispatch cfg origin (Call_slash_validator vid who bps) s =
      (Inl (err Error_PublicCallPayloadDisallowed), s)"
proof -
  have closed: "ensure_public_call_payload_allowed cfg = Inl (err Error_PublicCallPayloadDisallowed)"
    using assms by (simp add: ensure_public_call_payload_allowed_def ensure_r_def)
  have slash: "slash_miner cfg origin mid who bps s = (Inl (err Error_PublicCallPayloadDisallowed), s)"
    "slash_validator cfg origin mid who bps s = (Inl (err Error_PublicCallPayloadDisallowed), s)"
    for mid who bps by (simp_all add: slash_miner_def slash_validator_def closed action_defs)
  have "dispatch cfg origin call s = (Inl (err Error_PublicCallPayloadDisallowed), s)"
    if "ShieldedOrigin_try_origin cfg origin = None"
  proof -
    have "ensure_payload_signer cfg origin = Inl (err Error_PublicCallPayloadDisallowed)"
      using assms that by (simp add: ensure_payload_signer_def ok_or_r_def)
    then show ?thesis
      by (cases call)
        (simp_all add: create_subnet_def register_miner_def activate_miner_def
          register_validator_def submit_proof_def challenge_proof_def slash request_inference_def
          request_inference_auto_route_def request_inference_commitments_def cancel_inference_def
          deactivate_miner_def withdraw_miner_bond_def deactivate_validator_def
          withdraw_validator_stake_def expire_inference_def set_miner_identity_commitments_def
          set_validator_identity_commitments_def action_defs)
  qed
  with slash show ?thesis by simp
qed

end
