(* ===== verification/Pallet_Funds.thy ===== *)
theory Pallet_Funds
  imports Pallet_Behaviour
begin

text \<open>
  Every balance the pallet holds is accounted for: the bonds and stakes on hold for an account are
  the capital records of the participants it operates, and its payments on hold are the payments
  of its pending requests.

  The pallet stores digests in place of accounts and terms.  Digests do collide over all
  preimages, so the statements speak of a set \<open>K\<close> of preimages on which the digest is injective,
  and of runs whose calls present preimages of \<open>K\<close> only.  What the currency promises is the
  predicate \<open>fungible_laws\<close>.
\<close>

section \<open>What the currency promises\<close>

text \<open>A successful operation on holds with exact precision moves exactly the given amount, and
  no operation touches a hold of another reason or account.\<close>

definition draws_hold ::
  "'cur FungibleHold \<Rightarrow> HoldReason \<Rightarrow> AccountId \<Rightarrow> Balance \<Rightarrow> ('cur, DispatchError, Balance) action \<Rightarrow>
   bool" where
  "draws_hold cur r who x m \<longleftrightarrow>
     (\<forall>y c c'. m c = (Inr y, c') \<longrightarrow> y = x \<and>
        (\<forall>r' u. balance_on_hold cur r' u c =
           balance_on_hold cur r' u c' + (if r' = r \<and> u = who then x else 0)))"

definition fungible_laws :: "'cur FungibleHold \<Rightarrow> bool" where
  "fungible_laws cur \<longleftrightarrow>
     (\<forall>r who x c c'. cur_hold cur r who x c = (Inr (), c') \<longrightarrow>
        (\<forall>r' u. balance_on_hold cur r' u c' =
           balance_on_hold cur r' u c + (if r' = r \<and> u = who then x else 0))) \<and>
     (\<forall>r who x. draws_hold cur r who x (cur_release cur r who x)) \<and>
     (\<forall>r who dest x. draws_hold cur r who x (cur_transfer_on_hold cur r who dest x)) \<and>
     (\<forall>r who x. draws_hold cur r who x (cur_burn_held cur r who x)) \<and>
     (\<forall>who x y c c'. cur_burn_from cur who x c = (Inr y, c') \<longrightarrow>
        (\<forall>r u. balance_on_hold cur r u c' = balance_on_hold cur r u c))"

text \<open>A release succeeds when the amount is on hold.\<close>

definition release_available :: "'cur FungibleHold \<Rightarrow> bool" where
  "release_available cur \<longleftrightarrow>
     (\<forall>r who x c. x \<le> balance_on_hold cur r who c \<longrightarrow> (\<exists>c'. cur_release cur r who x c = (Inr x, c')))"

lemma draws_holdD:
  assumes "draws_hold cur r who x m" and "m c = (Inr y, c')"
  shows "y = x" and "balance_on_hold cur r' u c =
    balance_on_hold cur r' u c' + (if r' = r \<and> u = who then x else 0)"
  using assms unfolding draws_hold_def by blast+

lemma hold_rule:
  assumes "fungible_laws cur" and "cur_hold cur r who x c = (Inr (), c')"
  shows "balance_on_hold cur r' u c' =
    balance_on_hold cur r' u c + (if r' = r \<and> u = who then x else 0)"
  using conjunct1 [OF assms(1) [unfolded fungible_laws_def]] assms(2) by simp

lemma burn_from_rule:
  assumes "fungible_laws cur" and "cur_burn_from cur who x c = (Inr y, c')"
  shows "balance_on_hold cur r u c' = balance_on_hold cur r u c"
  using assms unfolding fungible_laws_def by blast

lemma draw_rules:
  assumes "fungible_laws cur"
  shows "draws_hold cur r who x (cur_release cur r who x)"
    and "draws_hold cur r who x (cur_transfer_on_hold cur r who dest x)"
    and "draws_hold cur r who x (cur_burn_held cur r who x)"
  using assms unfolding fungible_laws_def by blast+

section \<open>Capital\<close>

definition operator_known :: "'cur Config \<Rightarrow> preimage set \<Rightarrow> Commitment \<Rightarrow> AccountId \<Rightarrow> bool" where
  "operator_known cfg K opc who \<longleftrightarrow>
     opc = operator_commitment cfg who \<and> RolePre ''qubitum.operator.v1'' who \<in> K"

text \<open>The preimages that naming an account hashes.\<close>

definition account_pres :: "AccountId \<Rightarrow> preimage set" where
  "account_pres who = {RolePre ''qubitum.operator.v1'' who, RolePre ''qubitum.request.user.v1'' who,
     AccountPre who}"

lemma operator_unique:
  assumes "inj_on (blake2_256 cfg) K" and "operator_known cfg K opc who"
    and "operator_commitment_matches cfg opc who'" and "account_pres who' \<subseteq> K"
  shows "who' = who"
  using assms
  by (auto simp: operator_known_def operator_commitment_matches_def operator_commitment_def
      account_commitment_def role_account_commitment_def account_pres_def dest: inj_onD)

definition capital_of :: "Balance option \<Rightarrow> Balance" where
  "capital_of b = (case b of None \<Rightarrow> 0 | Some x \<Rightarrow> x)"

lemma capital_of_simps [simp]: "capital_of None = 0" "capital_of (Some x) = x"
  by (simp_all add: capital_of_def)

definition capital_total ::
  "(nat \<Rightarrow> AccountId) \<Rightarrow> nat \<Rightarrow> (nat \<rightharpoonup> Balance) \<Rightarrow> AccountId \<Rightarrow> Balance" where
  "capital_total owner n cap u = (\<Sum>i<n. if owner i = u then capital_of (cap i) else 0)"

definition capital_backed ::
  "'cur Config \<Rightarrow> preimage set \<Rightarrow> ('r \<Rightarrow> Commitment) \<Rightarrow> HoldReason \<Rightarrow> (nat \<Rightarrow> AccountId) \<Rightarrow>
   (nat \<rightharpoonup> 'r) \<Rightarrow> nat \<Rightarrow> (nat \<rightharpoonup> Balance) \<Rightarrow> 'cur \<Rightarrow> bool" where
  "capital_backed cfg K opc reason owner reg n cap c \<longleftrightarrow>
     (\<forall>i r. reg i = Some r \<longrightarrow> operator_known cfg K (opc r) (owner i)) \<and>
     (\<forall>u. balance_on_hold (Currency cfg) reason u c = capital_total owner n cap u)"

lemma capital_total_update:
  assumes "i < n"
  shows "capital_total owner n (cap(i := b)) u + (if owner i = u then capital_of (cap i) else 0) =
    capital_total owner n cap u + (if owner i = u then capital_of b else 0)"
proof -
  let ?f = "\<lambda>cap i. if owner i = u then capital_of (cap i) else 0"
  have "(\<Sum>j\<in>{..<n} - {i}. ?f (cap(i := b)) j) = (\<Sum>j\<in>{..<n} - {i}. ?f cap j)"
    by (rule sum.cong) auto
  then show ?thesis
    using assms sum.remove [of "{..<n}" i "?f (cap(i := b))"] sum.remove [of "{..<n}" i "?f cap"]
    by (simp add: capital_total_def)
qed

lemma capital_backed_replace:
  assumes "capital_backed cfg K opc reason owner reg n cap c"
    and "reg i = Some r" and "i < n" and "opc r' = opc r"
    and "\<And>u. balance_on_hold (Currency cfg) reason u c' + (if owner i = u then capital_of (cap i) else 0)
      = balance_on_hold (Currency cfg) reason u c + (if owner i = u then capital_of b else 0)"
  shows "capital_backed cfg K opc reason owner (reg(i \<mapsto> r')) n (cap(i := b)) c'"
proof -
  have "balance_on_hold (Currency cfg) reason u c' = capital_total owner n (cap(i := b)) u" for u
    using assms(1,5) capital_total_update [OF assms(3), of owner cap b u]
    unfolding capital_backed_def by (metis add_right_cancel)
  with assms show ?thesis by (auto simp: capital_backed_def)
qed

lemma capital_backed_status:
  assumes "capital_backed cfg K opc reason owner reg n cap c"
    and "reg i = Some r" and "opc r' = opc r"
    and "\<And>u. balance_on_hold (Currency cfg) reason u c' = balance_on_hold (Currency cfg) reason u c"
  shows "capital_backed cfg K opc reason owner (reg(i \<mapsto> r')) n cap c'"
  using assms by (auto simp: capital_backed_def)

lemma capital_backed_insert:
  assumes "capital_backed cfg K opc reason owner reg n cap c" and "dense reg n"
    and "operator_known cfg K (opc r) who"
    and "\<And>u. balance_on_hold (Currency cfg) reason u c' =
      balance_on_hold (Currency cfg) reason u c + (if u = who then capital_of b else 0)"
  shows "capital_backed cfg K opc reason (owner(n := who)) (reg(n \<mapsto> r)) (Suc n) (cap(n := b)) c'"
proof -
  have "capital_total (owner(n := who)) (Suc n) (cap(n := b)) u =
      capital_total owner n cap u + (if u = who then capital_of b else 0)" for u
  proof -
    have "(\<Sum>i<n. if (owner(n := who)) i = u then capital_of ((cap(n := b)) i) else 0) =
        (\<Sum>i<n. if owner i = u then capital_of (cap i) else 0)"
      by (rule sum.cong) auto
    then show ?thesis by (auto simp: capital_total_def)
  qed
  with assms show ?thesis
    using dense_fresh [OF assms(2)] by (auto simp: capital_backed_def)
qed

lemma capital_backed_frame:
  assumes "capital_backed cfg K opc reason owner reg n cap c"
    and "\<And>u. balance_on_hold (Currency cfg) reason u c' = balance_on_hold (Currency cfg) reason u c"
  shows "capital_backed cfg K opc reason owner reg n cap c'"
  using assms by (simp add: capital_backed_def)

abbreviation miner_bonds_backed where
  "miner_bonds_backed cfg K owner s \<equiv> capital_backed cfg K cm_operator_commitment MinerBond owner
     (Miners s) (MinerCount s) (MinerLockedBond s) (currency s)"

abbreviation validator_stakes_backed where
  "validator_stakes_backed cfg K owner s \<equiv> capital_backed cfg K cv_operator_commitment ValidatorStake owner
     (Validators s) (ValidatorCount s) (ValidatorLockedStake s) (currency s)"

section \<open>Payments\<close>

text \<open>What a stored request commits to.\<close>

record Opening =
  op_user :: AccountId
  op_miner :: MinerId
  op_validator :: ValidatorId
  op_payment :: Balance

definition opened_by ::
  "'cur Config \<Rightarrow> preimage set \<Rightarrow> RequestId \<Rightarrow> ChainInferenceRequest \<Rightarrow> Opening \<Rightarrow> bool" where
  "opened_by cfg K rid q o' \<longleftrightarrow>
     cr_request_id q = rid \<and>
     cr_user_commitment q = request_user_commitment cfg (op_user o') \<and>
     RolePre ''qubitum.request.user.v1'' (op_user o') \<in> K \<and>
     (\<exists>b. cr_assignment_commitment q = request_assignment_commitment cfg rid (cr_subnet_id q)
            (op_miner o') (op_validator o') b \<and>
        AssignmentPre ''qubitum.request.assignment.v1'' rid (cr_subnet_id q) (op_miner o')
          (op_validator o') b \<in> K) \<and>
     (\<exists>vbps tbps b. cr_terms_commitment q =
            request_terms_commitment cfg rid (op_payment o') vbps tbps b \<and>
        TermsPre ''qubitum.request.terms.v1'' rid (op_payment o') vbps tbps b \<in> K)"

definition assignment_pres ::
  "RequestId \<Rightarrow> SubnetId \<Rightarrow> MinerId \<Rightarrow> ValidatorId \<Rightarrow> Commitment \<Rightarrow> preimage set" where
  "assignment_pres rid sid mid vid b =
     {AssignmentPre ''qubitum.request.assignment.v1'' rid sid mid vid b,
      LegacyAssignmentPre rid sid mid vid}"

definition terms_pres :: "RequestId \<Rightarrow> InferenceRequestTermsWitness \<Rightarrow> preimage set" where
  "terms_pres rid sw =
     {TermsPre ''qubitum.request.terms.v1'' rid (payment (terms sw)) (validator_fee_bps (terms sw))
        (treasury_fee_bps (terms sw)) (terms_blinding sw),
      LegacyTermsPre rid (payment (terms sw)) (validator_fee_bps (terms sw))
        (treasury_fee_bps (terms sw))}"

lemma user_unique:
  assumes "inj_on (blake2_256 cfg) K" and "opened_by cfg K rid q o'"
    and "request_user_commitment_matches cfg (cr_user_commitment q) user" and "account_pres user \<subseteq> K"
  shows "user = op_user o'"
  using assms
  by (auto simp: opened_by_def request_user_commitment_matches_def request_user_commitment_def
      account_commitment_def role_account_commitment_def account_pres_def dest: inj_onD)

lemma assignment_unique:
  assumes inj: "inj_on (blake2_256 cfg) K" and "opened_by cfg K rid q o'"
    and "ensure_request_assignment_witness cfg q mid vid b = Inr ()"
    and pres: "assignment_pres rid (cr_subnet_id q) mid vid b \<subseteq> K"
  shows "mid = op_miner o' \<and> vid = op_validator o'"
proof -
  let ?pre = "AssignmentPre ''qubitum.request.assignment.v1'' rid (cr_subnet_id q)"
  from assms(2) obtain b0 where rid: "cr_request_id q = rid"
    and stored: "cr_assignment_commitment q = blake2_256 cfg (?pre (op_miner o') (op_validator o') b0)"
    and in_K: "?pre (op_miner o') (op_validator o') b0 \<in> K"
    unfolding opened_by_def request_assignment_commitment_def by blast
  from assms(3) rid have "cr_assignment_commitment q = blake2_256 cfg (?pre mid vid b) \<or>
      cr_assignment_commitment q = blake2_256 cfg (LegacyAssignmentPre rid (cr_subnet_id q) mid vid)"
    by (auto simp: ensure_request_assignment_witness_def resolve_request_assignment_commitment_def
        request_assignment_commitment_def legacy_request_assignment_commitment_def Let_def ok_simps)
  then show ?thesis
  proof
    assume "cr_assignment_commitment q = blake2_256 cfg (?pre mid vid b)"
    then have "?pre (op_miner o') (op_validator o') b0 = ?pre mid vid b"
      using pres in_K stored by (intro inj_onD [OF inj]) (simp_all add: assignment_pres_def)
    then show ?thesis by simp
  next
    assume "cr_assignment_commitment q = blake2_256 cfg (LegacyAssignmentPre rid (cr_subnet_id q) mid vid)"
    then have "?pre (op_miner o') (op_validator o') b0 =
        LegacyAssignmentPre rid (cr_subnet_id q) mid vid"
      using pres in_K stored by (intro inj_onD [OF inj]) (simp_all add: assignment_pres_def)
    then show ?thesis by simp
  qed
qed

lemma payment_unique:
  assumes inj: "inj_on (blake2_256 cfg) K" and "opened_by cfg K rid q o'"
    and "ensure_request_terms_witness cfg q sw = Inr ()" and pres: "terms_pres rid sw \<subseteq> K"
  shows "payment (terms sw) = op_payment o'"
proof -
  let ?pre = "TermsPre ''qubitum.request.terms.v1'' rid"
  let ?t = "terms sw"
  let ?blinded = "?pre (payment ?t) (validator_fee_bps ?t) (treasury_fee_bps ?t) (terms_blinding sw)"
  let ?legacy = "LegacyTermsPre rid (payment ?t) (validator_fee_bps ?t) (treasury_fee_bps ?t)"
  from assms(2) obtain v0 t0 b0 where rid: "cr_request_id q = rid"
    and stored: "cr_terms_commitment q = blake2_256 cfg (?pre (op_payment o') v0 t0 b0)"
    and in_K: "?pre (op_payment o') v0 t0 b0 \<in> K"
    unfolding opened_by_def request_terms_commitment_def by blast
  from assms(3) rid have "cr_terms_commitment q = blake2_256 cfg ?blinded \<or>
      cr_terms_commitment q = blake2_256 cfg ?legacy"
    by (auto simp: ensure_request_terms_witness_def request_terms_commitment_def
        legacy_request_terms_commitment_def Let_def ok_simps)
  then show ?thesis
  proof
    assume "cr_terms_commitment q = blake2_256 cfg ?blinded"
    then have "?pre (op_payment o') v0 t0 b0 = ?blinded"
      using pres in_K stored by (intro inj_onD [OF inj]) (simp_all add: terms_pres_def)
    then show ?thesis by simp
  next
    assume "cr_terms_commitment q = blake2_256 cfg ?legacy"
    then have "?pre (op_payment o') v0 t0 b0 = ?legacy"
      using pres in_K stored by (intro inj_onD [OF inj]) (simp_all add: terms_pres_def)
    then show ?thesis by simp
  qed
qed

text \<open>A quantity summed over the pending requests.\<close>

definition pending_sum :: "(Opening \<Rightarrow> nat) \<Rightarrow> (RequestId \<Rightarrow> Opening) \<Rightarrow> 'cur Storage \<Rightarrow> nat" where
  "pending_sum f op s =
     (\<Sum>r<RequestCount s. case InferenceRequests s r of
        None \<Rightarrow> 0 | Some q \<Rightarrow> if cr_status q = Request_Pending then f (op r) else 0)"

definition payment_by :: "AccountId \<Rightarrow> Opening \<Rightarrow> Balance" where
  "payment_by u o' = (if op_user o' = u then op_payment o' else 0)"

definition served_by :: "MinerId \<Rightarrow> Opening \<Rightarrow> nat" where
  "served_by i o' = (if op_miner o' = i then 1 else 0)"

definition validated_by :: "ValidatorId \<Rightarrow> Opening \<Rightarrow> nat" where
  "validated_by i o' = (if op_validator o' = i then 1 else 0)"

definition requests_backed ::
  "'cur Config \<Rightarrow> preimage set \<Rightarrow> (RequestId \<Rightarrow> Opening) \<Rightarrow> 'cur Storage \<Rightarrow> bool" where
  "requests_backed cfg K op s \<longleftrightarrow>
     (\<forall>r q. InferenceRequests s r = Some q \<longrightarrow> opened_by cfg K r q (op r)) \<and>
     (\<forall>u. balance_on_hold (Currency cfg) InferencePayment u (currency s) =
        pending_sum (payment_by u) op s) \<and>
     (\<forall>i. pending_of (PendingMinerRequests s) i = pending_sum (served_by i) op s) \<and>
     (\<forall>i. pending_of (PendingValidatorRequests s) i = pending_sum (validated_by i) op s)"

lemma pending_sum_opened:
  fixes s :: "'cur Storage"
  defines "rid \<equiv> RequestCount s"
  assumes "cr_status q = Request_Pending"
  shows "pending_sum f (op(rid := o')) (opened rid q mid vid c s) = pending_sum f op s + f o'"
proof -
  have "(\<Sum>r<rid. case ((InferenceRequests s)(rid \<mapsto> q)) r of
        None \<Rightarrow> 0 | Some q \<Rightarrow> if cr_status q = Request_Pending then f ((op(rid := o')) r) else 0) =
      (\<Sum>r<rid. case InferenceRequests s r of
        None \<Rightarrow> 0 | Some q \<Rightarrow> if cr_status q = Request_Pending then f (op r) else 0)"
    by (rule sum.cong) (auto split: option.splits)
  then show ?thesis using assms(2) by (simp add: pending_sum_def opened_def rid_def [symmetric])
qed

lemma pending_sum_finish:
  assumes "dense (InferenceRequests s) (RequestCount s)" and "InferenceRequests s rid = Some q"
    and "cr_status q = Request_Pending" and "fin \<noteq> Request_Pending"
  shows "pending_sum f op (finish rid q fin mid vid c s) + f (op rid) = pending_sum f op s"
proof -
  let ?g = "\<lambda>m r. case m r of
        None \<Rightarrow> 0 | Some q \<Rightarrow> if cr_status q = Request_Pending then f (op r) else 0"
  let ?m = "(InferenceRequests s)(rid \<mapsto> q\<lparr>cr_status := fin\<rparr>)"
  have rid: "rid \<in> {..<RequestCount s}" using dense_less [OF assms(1,2)] by simp
  have "(\<Sum>r\<in>{..<RequestCount s} - {rid}. ?g ?m r) =
      (\<Sum>r\<in>{..<RequestCount s} - {rid}. ?g (InferenceRequests s) r)"
    by (rule sum.cong) auto
  then show ?thesis
    using sum.remove [OF _ rid, of "?g ?m"] sum.remove [OF _ rid, of "?g (InferenceRequests s)"]
      assms(2-4)
    by (simp add: pending_sum_def)
qed

lemma pending_of_bump: "pending_of (bump p i) j = pending_of p j + (if i = j then 1 else 0)"
  by (simp add: bump_def pending_of_def)

lemma pending_of_unbump:
  "0 < pending_of p i \<Longrightarrow> pending_of (unbump p i) j + (if i = j then 1 else 0) = pending_of p j"
  by (auto simp: unbump_def pending_of_def split: option.splits)

section \<open>The invariant and its frames\<close>

definition funds_inv :: "'cur Config \<Rightarrow> preimage set \<Rightarrow> 'cur Storage \<Rightarrow> bool" where
  "funds_inv cfg K s \<longleftrightarrow>
     (\<exists>owner. miner_bonds_backed cfg K owner s) \<and> (\<exists>owner. validator_stakes_backed cfg K owner s) \<and>
     (\<exists>op. requests_backed cfg K op s)"

lemma funds_invI:
  assumes "miner_bonds_backed cfg K mo s" and "validator_stakes_backed cfg K vo s" and "requests_backed cfg K op s"
  shows "funds_inv cfg K s"
  using assms unfolding funds_inv_def by blast

lemma funds_invE:
  assumes "funds_inv cfg K s"
  obtains mo vo op where "miner_bonds_backed cfg K mo s" "validator_stakes_backed cfg K vo s"
    "requests_backed cfg K op s"
  using assms unfolding funds_inv_def by blast

lemma funds_log_events [simp]: "funds_inv cfg K (log_events cfg' evs s) = funds_inv cfg K s"
  by (simp add: funds_inv_def requests_backed_def pending_sum_def)

lemma bonds_frame:
  assumes "miner_bonds_backed cfg K mo s" and "Miners s' = Miners s" and "MinerCount s' = MinerCount s"
    and "MinerLockedBond s' = MinerLockedBond s"
    and "\<And>u. balance_on_hold (Currency cfg) MinerBond u (currency s') =
      balance_on_hold (Currency cfg) MinerBond u (currency s)"
  shows "miner_bonds_backed cfg K mo s'"
  using assms by (simp add: capital_backed_def)

lemma stakes_frame:
  assumes "validator_stakes_backed cfg K vo s" and "Validators s' = Validators s"
    and "ValidatorCount s' = ValidatorCount s"
    and "ValidatorLockedStake s' = ValidatorLockedStake s"
    and "\<And>u. balance_on_hold (Currency cfg) ValidatorStake u (currency s') =
      balance_on_hold (Currency cfg) ValidatorStake u (currency s)"
  shows "validator_stakes_backed cfg K vo s'"
  using assms by (simp add: capital_backed_def)

lemma payments_frame:
  assumes "requests_backed cfg K op s" and "InferenceRequests s' = InferenceRequests s"
    and "RequestCount s' = RequestCount s" and "PendingMinerRequests s' = PendingMinerRequests s"
    and "PendingValidatorRequests s' = PendingValidatorRequests s"
    and "\<And>u. balance_on_hold (Currency cfg) InferencePayment u (currency s') =
      balance_on_hold (Currency cfg) InferencePayment u (currency s)"
  shows "requests_backed cfg K op s'"
  using assms by (simp add: requests_backed_def pending_sum_def)

lemma hold_other:
  assumes "fungible_laws cur" and "cur_hold cur r who x c = (Inr (), c')" and "r' \<noteq> r"
  shows "balance_on_hold cur r' u c' = balance_on_hold cur r' u c"
  using hold_rule [OF assms(1,2)] assms(3) by simp

lemma draw_other:
  assumes "draws_hold cur r who x m" and "m c = (Inr y, c')" and "r' \<noteq> r"
  shows "balance_on_hold cur r' u c' = balance_on_hold cur r' u c"
  using draws_holdD(2) [OF assms(1,2), of r' u] assms(3) by simp

section \<open>Calls keep funds accounted for\<close>

lemma create_subnet_funds:
  assumes "create_subnet cfg origin domain system s = (Inr u, s')" and "funds_inv cfg K s"
    and laws: "fungible_laws (Currency cfg)"
  shows "funds_inv cfg K s'"
  using assms(1)
proof (rule create_subnet_ok, goal_cases)
  case (1 owner c)
  from 1(3) have free: "balance_on_hold (Currency cfg) r u c =
      balance_on_hold (Currency cfg) r u (currency s)" for r u
    using burn_from_rule [OF laws] by blast
  from assms(2) show ?case
    unfolding 1(4) funds_log_events
    by (rule funds_invE)
      (rule funds_invI; (rule bonds_frame stakes_frame payments_frame, assumption);
        simp add: free)
qed

lemma register_miner_funds:
  assumes "register_miner cfg origin sid model system s = (Inr u, s')" and "funds_inv cfg K s"
    and laws: "fungible_laws (Currency cfg)" and inv: "pallet_inv cfg s"
    and named: "\<And>who. ensure_payload_signer cfg origin = Inr who \<Longrightarrow> account_pres who \<subseteq> K"
  shows "funds_inv cfg K s'"
  using assms(1)
proof (rule register_miner_ok, goal_cases)
  case (1 who subnet c)
  from 1(6) have free: "balance_on_hold (Currency cfg) r u c =
      balance_on_hold (Currency cfg) r u (currency s)" for r u
    using burn_from_rule [OF laws] by blast
  have known: "operator_known cfg K (operator_commitment cfg who) who"
    using named [OF 1(1)] by (simp add: operator_known_def account_pres_def)
  have "MinerLockedBond s (MinerCount s) = None"
    using inv_registries(1) [OF inv] dense_fresh [OF inv_dense(1) [OF inv]]
    by (simp add: registry_ok_def)
  then have none: "(MinerLockedBond s)(MinerCount s := None) = MinerLockedBond s"
    by (simp add: fun_upd_idem)
  from assms(2) obtain mo vo op where backed: "miner_bonds_backed cfg K mo s" "validator_stakes_backed cfg K vo s" "requests_backed cfg K op s"
    by (rule funds_invE)
  note bonds = capital_backed_insert [OF backed(1) inv_dense(1) [OF inv], where b = None and c' = c,
      unfolded none]
  show ?case
    unfolding 1(7) funds_log_events
    by (rule funds_invI [where mo = "mo(MinerCount s := who)"])
      (use bonds known free in simp, (rule stakes_frame [OF backed(2)]; simp add: free),
        (rule payments_frame [OF backed(3)]; simp add: free))
qed

lemma register_validator_funds:
  assumes "register_validator cfg origin sid stake s = (Inr u, s')" and "funds_inv cfg K s"
    and laws: "fungible_laws (Currency cfg)" and inv: "pallet_inv cfg s"
    and named: "\<And>who. ensure_payload_signer cfg origin = Inr who \<Longrightarrow> account_pres who \<subseteq> K"
  shows "funds_inv cfg K s'"
  using assms(1)
proof (rule register_validator_ok, goal_cases)
  case (1 who c)
  note held = hold_rule [OF laws 1(5)] and other = hold_other [OF laws 1(5)]
  have known: "operator_known cfg K (operator_commitment cfg who) who"
    using named [OF 1(1)] by (simp add: operator_known_def account_pres_def)
  from assms(2) obtain mo vo op where backed: "miner_bonds_backed cfg K mo s" "validator_stakes_backed cfg K vo s" "requests_backed cfg K op s"
    by (rule funds_invE)
  note stakes = capital_backed_insert [OF backed(2) inv_dense(2) [OF inv],
      where b = "Some stake" and c' = c]
  show ?case
    unfolding 1(6) funds_log_events
    by (rule funds_invI [where vo = "vo(ValidatorCount s := who)"],
        (rule bonds_frame [OF backed(1)]; simp add: other), (use stakes known held in simp),
        (rule payments_frame [OF backed(3)]; simp add: other))
qed

text \<open>Moving an amount in or out of the hold of an entry's operator.\<close>

lemma capital_in:
  assumes "capital_backed cfg K opc reason owner reg n cap c" and "reg i = Some r" and "i < n"
    and "opc r' = opc r" and "owner i = who" and "cap i = None"
    and "\<And>u. balance_on_hold (Currency cfg) reason u c' =
      balance_on_hold (Currency cfg) reason u c + (if u = who then x else 0)"
  shows "capital_backed cfg K opc reason owner (reg(i \<mapsto> r')) n (cap(i \<mapsto> x)) c'"
  by (rule capital_backed_replace [OF assms(1-4)]) (use assms(5-7) in auto)

lemma capital_out:
  assumes "capital_backed cfg K opc reason owner reg n cap c" and "reg i = Some r" and "i < n"
    and "opc r' = opc r" and "owner i = who" and "cap i = Some y" and "capital_of b + x = y"
    and "\<And>u. balance_on_hold (Currency cfg) reason u c =
      balance_on_hold (Currency cfg) reason u c' + (if u = who then x else 0)"
  shows "capital_backed cfg K opc reason owner (reg(i \<mapsto> r')) n (cap(i := b)) c'"
  by (rule capital_backed_replace [OF assms(1-4)]) (use assms(5-8) in auto)

lemma operator_of_entry:
  assumes "capital_backed cfg K opc reason owner reg n cap c" and "reg i = Some r"
    and "inj_on (blake2_256 cfg) K" and "operator_commitment_matches cfg (opc r) who"
    and "account_pres who \<subseteq> K"
  shows "owner i = who"
  using assms operator_unique [OF assms(3) _ assms(4,5)] by (auto simp: capital_backed_def)

lemma activate_miner_funds:
  assumes "activate_miner cfg origin i bond s = (Inr u, s')" and "funds_inv cfg K s"
    and laws: "fungible_laws (Currency cfg)" and inv: "pallet_inv cfg s"
    and inj: "inj_on (blake2_256 cfg) K"
    and named: "\<And>who. ensure_payload_signer cfg origin = Inr who \<Longrightarrow> account_pres who \<subseteq> K"
  shows "funds_inv cfg K s'"
  using assms(1)
proof (rule activate_miner_ok, goal_cases)
  case (1 who m c)
  note held = hold_rule [OF laws 1(8)] and other = hold_other [OF laws 1(8)]
  have none: "MinerLockedBond s i = None"
    using miner_registry.entry(1) [OF inv_registries(1) [OF inv] 1(2)] 1(4)
    by (simp add: miner_capital_bearing_status_def)
  from assms(2) obtain mo vo op where backed: "miner_bonds_backed cfg K mo s" "validator_stakes_backed cfg K vo s" "requests_backed cfg K op s"
    by (rule funds_invE)
  note owner = operator_of_entry [OF backed(1) 1(2) inj 1(3) named [OF 1(1)]]
  note bonds = capital_in [OF backed(1) 1(2) dense_less [OF inv_dense(1) [OF inv] 1(2)] _ owner none]
  show ?case
    unfolding 1(10) funds_log_events
    by (rule funds_invI [where mo = mo], (use bonds [where c' = c] held in simp),
        (rule stakes_frame [OF backed(2)]; simp add: other),
        (rule payments_frame [OF backed(3)]; simp add: other))
qed

lemma deactivate_miner_funds:
  assumes "deactivate_miner cfg origin i s = (Inr u, s')" and "funds_inv cfg K s"
  shows "funds_inv cfg K s'"
  using assms(1)
proof (rule deactivate_miner_ok, goal_cases)
  case (1 who m)
  from assms(2) obtain mo vo op where backed: "miner_bonds_backed cfg K mo s" "validator_stakes_backed cfg K vo s" "requests_backed cfg K op s"
    by (rule funds_invE)
  show ?case
    unfolding 1(6) funds_log_events
    by (rule funds_invI [where mo = mo], (use capital_backed_status [OF backed(1) 1(2)] in simp),
        (rule stakes_frame [OF backed(2)]; simp), (rule payments_frame [OF backed(3)]; simp))
qed

lemma withdraw_miner_bond_funds:
  assumes "withdraw_miner_bond cfg origin i s = (Inr u, s')" and "funds_inv cfg K s"
    and laws: "fungible_laws (Currency cfg)" and inv: "pallet_inv cfg s"
    and inj: "inj_on (blake2_256 cfg) K"
    and named: "\<And>who. ensure_payload_signer cfg origin = Inr who \<Longrightarrow> account_pres who \<subseteq> K"
  shows "funds_inv cfg K s'"
  using assms(1)
proof (rule withdraw_miner_bond_ok, goal_cases)
  case (1 who m available_at bond c)
  note locked = locked_miner_bond_recorded(1) [OF inv 1(2,6)]
  have held: "balance_on_hold (Currency cfg) r u (currency s) =
      balance_on_hold (Currency cfg) r u c + (if r = MinerBond \<and> u = who then bond else 0)" for r u
    using 1(7) draws_holdD(2) [OF draw_rules(1) [OF laws]] by (auto split: if_splits)
  from assms(2) obtain mo vo op where backed: "miner_bonds_backed cfg K mo s" "validator_stakes_backed cfg K vo s" "requests_backed cfg K op s"
    by (rule funds_invE)
  note owner = operator_of_entry [OF backed(1) 1(2) inj 1(3) named [OF 1(1)]]
  note bonds = capital_out [OF backed(1) 1(2) dense_less [OF inv_dense(1) [OF inv] 1(2)] _ owner
      locked, where b = None and c' = c and x = bond]
  show ?case
    unfolding 1(8) funds_log_events
    by (rule funds_invI [where mo = mo], (use bonds held in simp),
        (rule stakes_frame [OF backed(2)]; simp add: held),
        (rule payments_frame [OF backed(3)]; simp add: held))
qed

lemma deactivate_validator_funds:
  assumes "deactivate_validator cfg origin i s = (Inr u, s')" and "funds_inv cfg K s"
  shows "funds_inv cfg K s'"
  using assms(1)
proof (rule deactivate_validator_ok, goal_cases)
  case (1 who v)
  from assms(2) obtain mo vo op where backed: "miner_bonds_backed cfg K mo s" "validator_stakes_backed cfg K vo s" "requests_backed cfg K op s"
    by (rule funds_invE)
  show ?case
    unfolding 1(6) funds_log_events
    by (rule funds_invI [where vo = vo], (rule bonds_frame [OF backed(1)]; simp),
        (use capital_backed_status [OF backed(2) 1(2)] in simp), (rule payments_frame [OF backed(3)]; simp))
qed

lemma withdraw_validator_stake_funds:
  assumes "withdraw_validator_stake cfg origin i s = (Inr u, s')" and "funds_inv cfg K s"
    and laws: "fungible_laws (Currency cfg)" and inv: "pallet_inv cfg s"
    and inj: "inj_on (blake2_256 cfg) K"
    and named: "\<And>who. ensure_payload_signer cfg origin = Inr who \<Longrightarrow> account_pres who \<subseteq> K"
  shows "funds_inv cfg K s'"
  using assms(1)
proof (rule withdraw_validator_stake_ok, goal_cases)
  case (1 who v available_at stake c)
  note locked = locked_validator_stake_recorded(1) [OF inv 1(2,6)]
  have held: "balance_on_hold (Currency cfg) r u (currency s) =
      balance_on_hold (Currency cfg) r u c + (if r = ValidatorStake \<and> u = who then stake else 0)" for r u
    using 1(7) draws_holdD(2) [OF draw_rules(1) [OF laws]] by (auto split: if_splits)
  from assms(2) obtain mo vo op where backed: "miner_bonds_backed cfg K mo s" "validator_stakes_backed cfg K vo s" "requests_backed cfg K op s"
    by (rule funds_invE)
  note owner = operator_of_entry [OF backed(2) 1(2) inj 1(3) named [OF 1(1)]]
  note stakes = capital_out [OF backed(2) 1(2) dense_less [OF inv_dense(2) [OF inv] 1(2)] _ owner
      locked, where b = None and c' = c and x = stake]
  show ?case
    unfolding 1(8) funds_log_events
    by (rule funds_invI [where vo = vo], (rule bonds_frame [OF backed(1)]; simp add: held),
        (use stakes held in simp),
        (rule payments_frame [OF backed(3)]; simp add: held))
qed

lemma slash_miner_bond_funds:
  assumes "slash_miner_bond cfg i who bps s = (Inr x, s')" and "funds_inv cfg K s"
    and laws: "fungible_laws (Currency cfg)" and inv: "pallet_inv cfg s"
    and inj: "inj_on (blake2_256 cfg) K" and named: "account_pres who \<subseteq> K"
  shows "funds_inv cfg K s'"
  using assms(1)
proof (rule slash_miner_bond_ok, goal_cases)
  case (1 m bond c)
  note locked = locked_miner_bond_recorded(1) [OF inv 1(1,3)]
  note exact = draws_holdD(1) [OF draw_rules(3) [OF laws] 1(8)]
  note held = draws_holdD(2) [OF draw_rules(3) [OF laws] 1(8), folded exact]
  from assms(2) obtain mo vo op where backed: "miner_bonds_backed cfg K mo s" "validator_stakes_backed cfg K vo s"
      "requests_backed cfg K op s"
    by (rule funds_invE)
  note owner = operator_of_entry [OF backed(1) 1(1) inj 1(2) named]
  note bonds = capital_out [OF backed(1) 1(1) dense_less [OF inv_dense(1) [OF inv] 1(1)] _ owner
      locked, where b = "Some (bond - x)" and c' = c and x = x]
  show ?case
    unfolding 1(9)
    by (rule funds_invI [where mo = mo], (use bonds held 1(7) in \<open>simp split del: if_split\<close>),
        (rule stakes_frame [OF backed(2)]; simp add: held),
        (rule payments_frame [OF backed(3)]; simp add: held))
qed

lemma slash_validator_stake_funds:
  assumes "slash_validator_stake cfg i who bps s = (Inr x, s')" and "funds_inv cfg K s"
    and laws: "fungible_laws (Currency cfg)" and inv: "pallet_inv cfg s"
    and inj: "inj_on (blake2_256 cfg) K" and named: "account_pres who \<subseteq> K"
  shows "funds_inv cfg K s'"
  using assms(1)
proof (rule slash_validator_stake_ok, goal_cases)
  case (1 v stake c)
  note locked = locked_validator_stake_recorded(1) [OF inv 1(1,3)]
  note exact = draws_holdD(1) [OF draw_rules(3) [OF laws] 1(8)]
  note held = draws_holdD(2) [OF draw_rules(3) [OF laws] 1(8), folded exact]
  from assms(2) obtain mo vo op where backed: "miner_bonds_backed cfg K mo s" "validator_stakes_backed cfg K vo s"
      "requests_backed cfg K op s"
    by (rule funds_invE)
  note owner = operator_of_entry [OF backed(2) 1(1) inj 1(2) named]
  note stakes = capital_out [OF backed(2) 1(1) dense_less [OF inv_dense(2) [OF inv] 1(1)] _ owner
      locked, where b = "Some (stake - x)" and c' = c and x = x]
  show ?case
    unfolding 1(9)
    by (rule funds_invI [where vo = vo], (rule bonds_frame [OF backed(1)]; simp add: held),
        (use stakes held 1(7) in \<open>simp split del: if_split\<close>),
        (rule payments_frame [OF backed(3)]; simp add: held))
qed

lemma set_miner_identity_funds:
  assumes "set_miner_identity_commitments cfg origin i shielded endpoint b s = (Inr u, s')"
    and "funds_inv cfg K s"
  shows "funds_inv cfg K s'"
  using assms(1)
proof (rule set_miner_identity_ok, goal_cases)
  case (1 operator m x)
  from assms(2) show ?case
    unfolding 1(5) funds_log_events
    by (rule funds_invE) (rule funds_invI;
        (rule bonds_frame stakes_frame payments_frame, assumption); simp add: put_miner_identity_def)
qed

lemma validator_status_funds:
  assumes "funds_inv cfg K s" and "Validators s i = Some v"
  shows "funds_inv cfg K ((put_validator_identity i x s)
    \<lparr>Validators := (Validators s)(i \<mapsto> with_validator_status cfg i v st)\<rparr>)"
proof -
  from assms(1) obtain mo vo op where backed: "miner_bonds_backed cfg K mo s" "validator_stakes_backed cfg K vo s"
      "requests_backed cfg K op s"
    by (rule funds_invE)
  show ?thesis
    by (rule funds_invI [where vo = vo],
        (rule bonds_frame [OF backed(1)]; simp add: put_validator_identity_def),
        (use capital_backed_status [OF backed(2) assms(2)] in
          \<open>simp add: put_validator_identity_def\<close>),
        (rule payments_frame [OF backed(3)]; simp add: put_validator_identity_def))
qed

lemma put_validator_identity_funds:
  assumes "funds_inv cfg K s"
  shows "funds_inv cfg K (put_validator_identity i x s)"
  using assms
  by (rule funds_invE) (rule funds_invI;
      (rule bonds_frame stakes_frame payments_frame, assumption);
      simp add: put_validator_identity_def)

lemma set_validator_identity_funds:
  assumes "set_validator_identity_commitments cfg origin i shielded endpoint b s = (Inr u, s')"
    and funds: "funds_inv cfg K s"
  shows "funds_inv cfg K s'"
proof (cases "shielded \<noteq> None \<or> endpoint \<noteq> None")
  case True
  with assms(1) show ?thesis
    by (rule set_validator_identity_ok) (simp add: validator_status_funds [OF funds])
next
  case False
  with assms(1) have "set_validator_identity_commitments cfg origin i None None b s = (Inr u, s')"
    by simp
  then show ?thesis
  proof (rule clear_validator_identity_ok, goal_cases)
    case (1 operator v)
    have same: "(put_validator_identity i None s)\<lparr>Validators := Validators s\<rparr> =
        put_validator_identity i None s"
      by (simp add: put_validator_identity_def)
    show ?case
    proof (cases "cv_status v = Active")
      case True
      then show ?thesis
        using validator_status_funds [OF funds 1(2)] by (simp add: 1(5))
    next
      case False
      then have "s' = log_events cfg [ValidatorIdentityCommitmentsUpdated]
          (put_validator_identity i None s)"
        unfolding 1(5) by (simp only: if_False same)
      then show ?thesis using put_validator_identity_funds [OF funds] by simp
    qed
  qed
qed

lemma finish_backed:
  assumes backed: "requests_backed cfg K op s" and inv: "pallet_inv cfg s"
    and q: "InferenceRequests s rid = Some q" "cr_status q = Request_Pending"
    and fin: "fin \<noteq> Request_Pending" and closable: "closable mid vid fin s"
    and o: "op_miner (op rid) = mid" "op_validator (op rid) = vid"
    and held: "\<And>u. balance_on_hold (Currency cfg) InferencePayment u (currency s) =
      balance_on_hold (Currency cfg) InferencePayment u c + payment_by u (op rid)"
  shows "requests_backed cfg K op (finish rid q fin mid vid c s)"
proof -
  note drop = pending_sum_finish [OF inv_dense(4) [OF inv] q fin, of _ op mid vid c]
  have known: "opened_by cfg K rid (q\<lparr>cr_status := fin\<rparr>) (op rid)"
    using backed q(1) unfolding requests_backed_def by (auto simp: opened_by_def)
  have "balance_on_hold (Currency cfg) InferencePayment u c =
      pending_sum (payment_by u) op (finish rid q fin mid vid c s)" for u
    using backed held [of u] drop [of "payment_by u"] unfolding requests_backed_def
    by (metis add_right_cancel)
  moreover have "pending_of (unbump (PendingMinerRequests s) mid) i =
      pending_sum (served_by i) op (finish rid q fin mid vid c s)" for i
    using backed drop [of "served_by i"] closable o(1)
      pending_of_unbump [of "PendingMinerRequests s" mid i]
    unfolding requests_backed_def closable_def served_by_def
    by (metis add_right_cancel)
  moreover have "pending_of (unbump (PendingValidatorRequests s) vid) i =
      pending_sum (validated_by i) op (finish rid q fin mid vid c s)" for i
    using backed drop [of "validated_by i"] closable o(2)
      pending_of_unbump [of "PendingValidatorRequests s" vid i]
    unfolding requests_backed_def closable_def validated_by_def
    by (metis add_right_cancel)
  ultimately show ?thesis
    using backed known unfolding requests_backed_def by simp
qed

text \<open>The witnesses that closing a request takes.\<close>

definition closing_pres ::
  "'cur Storage \<Rightarrow> RequestId \<Rightarrow> AccountId \<Rightarrow> MinerId \<Rightarrow> ValidatorId \<Rightarrow> Commitment \<Rightarrow>
   InferenceRequestTermsWitness \<Rightarrow> preimage set" where
  "closing_pres s rid user mid vid b sw =
     account_pres user \<union> terms_pres rid sw \<union>
     (case InferenceRequests s rid of None \<Rightarrow> {}
      | Some q \<Rightarrow> assignment_pres rid (cr_subnet_id q) mid vid b)"

lemma finish_funds:
  assumes "funds_inv cfg K s" and inv: "pallet_inv cfg s" and inj: "inj_on (blake2_256 cfg) K"
    and q: "InferenceRequests s rid = Some q" "cr_status q = Request_Pending"
    and fin: "fin \<noteq> Request_Pending" and closable: "closable mid vid fin s"
    and wit: "request_user_commitment_matches cfg (cr_user_commitment q) user"
      "ensure_request_assignment_witness cfg q mid vid b = Inr ()"
      "ensure_request_terms_witness cfg q sw = Inr ()"
    and pres: "closing_pres s rid user mid vid b sw \<subseteq> K"
    and held: "\<And>r u. balance_on_hold (Currency cfg) r u (currency s) =
      balance_on_hold (Currency cfg) r u c +
        (if r = InferencePayment \<and> u = user then payment (terms sw) else 0)"
  shows "funds_inv cfg K (finish rid q fin mid vid c s)"
proof -
  from assms(1) obtain mo vo op where backed: "miner_bonds_backed cfg K mo s" "validator_stakes_backed cfg K vo s"
      "requests_backed cfg K op s"
    by (rule funds_invE)
  have opened: "opened_by cfg K rid q (op rid)"
    using backed(3) q(1) by (simp add: requests_backed_def)
  have sub: "account_pres user \<subseteq> K" "terms_pres rid sw \<subseteq> K"
      "assignment_pres rid (cr_subnet_id q) mid vid b \<subseteq> K"
    using pres q(1) by (auto simp: closing_pres_def)
  note eqs = user_unique [OF inj opened wit(1) sub(1)] payment_unique [OF inj opened wit(3) sub(2)]
    assignment_unique [OF inj opened wit(2) sub(3)]
  have payments: "requests_backed cfg K op (finish rid q fin mid vid c s)"
    by (rule finish_backed [OF backed(3) inv q fin closable])
      (use eqs in \<open>auto simp: held payment_by_def\<close>)
  show ?thesis
    by (rule funds_invI [OF bonds_frame [OF backed(1)] stakes_frame [OF backed(2)] payments])
      (simp_all add: held)
qed

lemma close_stale_request_funds:
  assumes "close_stale_request cfg rid user mid vid b tw sw fin s = (Inr u, s')"
    and "fin \<noteq> Request_Pending" and "funds_inv cfg K s" and "pallet_inv cfg s"
    and laws: "fungible_laws (Currency cfg)" and "inj_on (blake2_256 cfg) K"
    and "closing_pres s rid user mid vid b sw \<subseteq> K"
  shows "funds_inv cfg K s'"
  using assms(1,2)
proof (rule close_stale_request_ok, goal_cases)
  case (1 q y c)
  show ?case
    unfolding 1(10)
    by (rule finish_funds [OF assms(3,4,6) 1(1,2) assms(2) 1(9,3,4,6) assms(7)])
      (rule draws_holdD(2) [OF draw_rules(1) [OF laws] 1(8)])
qed

lemma refund_rejected_request_funds:
  assumes "refund_rejected_request cfg sub user b sw s = (Inr x, s')"
    and "funds_inv cfg K s" and "pallet_inv cfg s"
    and laws: "fungible_laws (Currency cfg)" and "inj_on (blake2_256 cfg) K"
    and "closing_pres s (request_id sub) user (miner_id sub) (validator_id sub) b sw \<subseteq> K"
  shows "funds_inv cfg K s'"
  using assms(1)
proof (rule refund_rejected_request_ok, goal_cases)
  case (1 q y c)
  show ?case
    unfolding 1(9)
    by (rule finish_funds [OF assms(2,3,5) 1(2,3) _ 1(8,5,4,6) assms(6)])
      (simp_all add: draws_holdD(2) [OF draw_rules(1) [OF laws] 1(7)])
qed

lemma held_transfer_rule:
  assumes "fungible_laws (Currency cfg)" and "held_transfer cfg user dest x c c'"
  shows "balance_on_hold (Currency cfg) r u c = balance_on_hold (Currency cfg) r u c' +
    (if r = InferencePayment \<and> u = user then x else 0)"
  using assms(2) draws_holdD(2) [OF draw_rules(2) [OF assms(1)]]
  by (auto simp: held_transfer_def split: if_splits)

lemma settle_request_payment_funds:
  assumes "settle_request_payment cfg sub user mop vop b sw s = (Inr x, s')"
    and "funds_inv cfg K s" and "pallet_inv cfg s"
    and laws: "fungible_laws (Currency cfg)" and "inj_on (blake2_256 cfg) K"
    and "closing_pres s (request_id sub) user (miner_id sub) (validator_id sub) b sw \<subseteq> K"
  shows "funds_inv cfg K s'"
  using assms(1)
proof (rule settle_request_payment_ok, goal_cases)
  case (1 q m v mp vf tf c1 c2 c3)
  note moved = held_transfer_rule [OF laws 1(12)] held_transfer_rule [OF laws 1(13)]
    held_transfer_rule [OF laws 1(14)]
  show ?case
    unfolding 1(16)
    by (rule finish_funds [OF assms(2,3,5) 1(2,3) _ 1(15,5,4,6) assms(6)])
      (simp_all add: moved pallet_split.parts_sum [OF 1(11), symmetric])
qed

lemma route_and_open_funds:
  assumes "route_and_open cfg user rid p s = (Inr u, s')" and "funds_inv cfg K s"
    and laws: "fungible_laws (Currency cfg)"
    and named: "account_pres user \<subseteq> K"
    and terms: "TermsPre ''qubitum.request.terms.v1'' rid (ap_payment p) (ap_validator_fee_bps p)
      (ap_treasury_fee_bps p) (ap_terms_blinding p) \<in> K"
    and route: "\<And>a. route_assignment cfg s (ap_subnet_id p) rid (ap_assignment_blinding p) = Some a \<Longrightarrow>
      AssignmentPre ''qubitum.request.assignment.v1'' rid (ap_subnet_id p) (as_miner_id a)
        (as_validator_id a) (ap_assignment_blinding p) \<in> K"
  shows "funds_inv cfg K s'"
  using assms(1)
proof (rule route_and_open_ok, goal_cases)
  case (1 a c m v subnet)
  note held = hold_rule [OF laws 1(10)] and rid = 1(11)
  define q where "q = new_request cfg user rid (as_miner_id a) (as_validator_id a) (current_block s) p"
  define o' where "o' = \<lparr>op_user = user, op_miner = as_miner_id a, op_validator = as_validator_id a,
    op_payment = ap_payment p\<rparr>"
  let ?s = "opened rid q (as_miner_id a) (as_validator_id a) c s"
  from assms(2) obtain mo vo op where backed: "miner_bonds_backed cfg K mo s" "validator_stakes_backed cfg K vo s"
      "requests_backed cfg K op s"
    by (rule funds_invE)
  have "opened_by cfg K rid q o'"
    using named terms route [OF 1(1)] unfolding opened_by_def q_def o'_def new_request_def account_pres_def
    by auto
  moreover have "cr_status q = Request_Pending" by (simp add: q_def new_request_def)
  note grow = pending_sum_opened [OF this, where s = s and op = op and o' = o', folded rid]
  ultimately have payments: "requests_backed cfg K (op(rid := o')) ?s"
    using backed(3) unfolding requests_backed_def grow
    by (simp add: opened_def held pending_of_bump payment_by_def served_by_def validated_by_def o'_def)
  have "funds_inv cfg K ?s"
    by (rule funds_invI [OF bonds_frame [OF backed(1)] stakes_frame [OF backed(2)] payments])
      (simp_all add: held opened_def)
  then show ?case unfolding 1(21) funds_log_events q_def .
qed

lemma funds_proof_record:
  "funds_inv cfg K (s\<lparr>ProofRecords := p\<rparr>) = funds_inv cfg K s"
  by (simp add: funds_inv_def requests_backed_def pending_sum_def)

lemma submit_proof_funds:
  assumes "submit_proof cfg origin sub user mop b sw s = (Inr u, s')"
    and funds: "funds_inv cfg K s" and inv: "pallet_inv cfg s"
    and env: "fungible_laws (Currency cfg)" "inj_on (blake2_256 cfg) K"
    and pres: "closing_pres s (request_id sub) user (miner_id sub) (validator_id sub) b sw \<subseteq> K"
      "account_pres mop \<subseteq> K"
    and named: "\<And>who. ensure_payload_signer cfg origin = Inr who \<Longrightarrow> account_pres who \<subseteq> K"
  shows "funds_inv cfg K s'"
  using assms(1)
proof (cases rule: submit_proof_ok)
  case (settled vop q m v policy x t ac)
  from settle_request_payment_funds [OF settled(6) funds inv env pres(1)] show ?thesis
    by (simp add: settled(7) funds_proof_record)
next
  case (rejected vop q m v policy bps x1 x2 x3 s1 s2 t)
  note inv1 = slash_miner_bond_inv [OF rejected(6) inv]
  note funds1 = slash_miner_bond_funds [OF rejected(6) funds env(1) inv env(2) pres(2)]
  note inv2 = slash_validator_stake_inv [OF rejected(7) inv1]
  note funds2 = slash_validator_stake_funds [OF rejected(7) funds1 env(1) inv1 env(2)
      named [OF rejected(1)]]
  have "closing_pres s2 (request_id sub) user (miner_id sub) (validator_id sub) b sw \<subseteq> K"
    using pres(1) slash_keeps_requests(1) [OF rejected(6)] slash_keeps_requests(2) [OF rejected(7)]
    by (simp add: closing_pres_def)
  from refund_rejected_request_funds [OF rejected(8) funds2 inv2 env this] show ?thesis
    by (simp add: rejected(9))
qed

lemma challenge_proof_funds:
  assumes "challenge_proof cfg origin sub user mop b sw s = (Inr u, s')"
    and funds: "funds_inv cfg K s" and inv: "pallet_inv cfg s"
    and env: "fungible_laws (Currency cfg)" "inj_on (blake2_256 cfg) K"
    and pres: "closing_pres s (request_id sub) user (miner_id sub) (validator_id sub) b sw \<subseteq> K"
      "account_pres mop \<subseteq> K"
  shows "funds_inv cfg K s'"
  using assms(1)
proof (rule challenge_proof_ok, goal_cases)
  case (1 challenger q m v policy bps x1 x2 s1 t)
  have "closing_pres s1 (request_id sub) user (miner_id sub) (validator_id sub) b sw \<subseteq> K"
    using pres(1) slash_keeps_requests(1) [OF 1(5)] by (simp add: closing_pres_def)
  from refund_rejected_request_funds [OF 1(6)
      slash_miner_bond_funds [OF 1(5) funds env(1) inv env(2) pres(2)]
      slash_miner_bond_inv [OF 1(5) inv] env this]
  show ?case by (simp add: 1(7))
qed

section \<open>Runs\<close>

definition opening_pres ::
  "'cur Config \<Rightarrow> 'cur Storage \<Rightarrow> RequestId \<Rightarrow> AutoRouteInferenceRequestParams \<Rightarrow> preimage set" where
  "opening_pres cfg s rid p =
     {TermsPre ''qubitum.request.terms.v1'' rid (ap_payment p) (ap_validator_fee_bps p)
        (ap_treasury_fee_bps p) (ap_terms_blinding p)} \<union>
     (case route_assignment cfg s (ap_subnet_id p) rid (ap_assignment_blinding p) of
        None \<Rightarrow> {}
      | Some a \<Rightarrow> {AssignmentPre ''qubitum.request.assignment.v1'' rid (ap_subnet_id p)
          (as_miner_id a) (as_validator_id a) (ap_assignment_blinding p)})"

text \<open>The preimages of accounts, assignments and terms that a call hashes.\<close>

fun argument_pres :: "'cur Config \<Rightarrow> 'cur Storage \<Rightarrow> Call \<Rightarrow> preimage set" where
  "argument_pres cfg s (Call_submit_proof sub user mop b sw) = account_pres mop \<union>
     closing_pres s (request_id sub) user (miner_id sub) (validator_id sub) b sw"
| "argument_pres cfg s (Call_challenge_proof sub user mop b sw) = account_pres mop \<union>
     closing_pres s (request_id sub) user (miner_id sub) (validator_id sub) b sw"
| "argument_pres cfg s (Call_slash_miner mid who bps) = account_pres who"
| "argument_pres cfg s (Call_slash_validator vid who bps) = account_pres who"
| "argument_pres cfg s (Call_request_inference rid params) =
     opening_pres cfg s rid (hidden_params params)"
| "argument_pres cfg s (Call_request_inference_auto_route rid params) = opening_pres cfg s rid params"
| "argument_pres cfg s (Call_expire_inference rid user mid vid b tw sw) =
     closing_pres s rid user mid vid b sw"
| "argument_pres cfg s (Call_cancel_inference rid mid vid b tw sw) =
     (terms_pres rid sw \<union>
      (case InferenceRequests s rid of None \<Rightarrow> {}
       | Some q \<Rightarrow> assignment_pres rid (cr_subnet_id q) mid vid b))"
| "argument_pres cfg s _ = {}"

definition presented :: "'cur Config \<Rightarrow> RuntimeOrigin \<Rightarrow> Call \<Rightarrow> 'cur Storage \<Rightarrow> preimage set" where
  "presented cfg origin call s =
     (case ensure_payload_signer cfg origin of Inl _ \<Rightarrow> {} | Inr who \<Rightarrow> account_pres who) \<union>
     argument_pres cfg s call"

lemma presented_parts:
  assumes "presented cfg origin call s \<subseteq> K"
  shows "ensure_payload_signer cfg origin = Inr who \<Longrightarrow> account_pres who \<subseteq> K"
    and "argument_pres cfg s call \<subseteq> K"
  using assms by (auto simp: presented_def)

lemma opening_funds:
  assumes "route_and_open cfg user rid p s = (Inr u, s')" and "funds_inv cfg K s"
    and "fungible_laws (Currency cfg)" and "account_pres user \<subseteq> K" and "opening_pres cfg s rid p \<subseteq> K"
  shows "funds_inv cfg K s'"
  by (rule route_and_open_funds [OF assms(1-4)]) (use assms(5) in \<open>auto simp: opening_pres_def\<close>)

lemma dispatch_ok_funds:
  assumes run: "dispatch cfg origin call s = (Inr u, s')" and funds: "funds_inv cfg K s"
    and inv: "pallet_inv cfg s" and env: "fungible_laws (Currency cfg)" "inj_on (blake2_256 cfg) K"
    and pres: "presented cfg origin call s \<subseteq> K"
  shows "funds_inv cfg K s'"
proof (cases call)
  case (Call_request_inference rid params)
  with run presented_parts [OF pres] show ?thesis
    by (auto elim!: request_inference_run intro: opening_funds [OF _ funds env(1)])
next
  case (Call_request_inference_auto_route rid params)
  with run presented_parts [OF pres] show ?thesis
    by (auto elim!: request_inference_auto_route_run intro: opening_funds [OF _ funds env(1)])
next
  case (Call_request_inference_commitments rid params)
  with run show ?thesis by (simp add: request_inference_commitments_run)
next
  case (Call_cancel_inference rid mid vid b tw sw)
  with run have "cancel_inference cfg origin rid mid vid b tw sw s = (Inr u, s')" by simp
  then show ?thesis
  proof (rule cancel_inference_run, goal_cases)
    case (1 user t)
    have "closing_pres s rid user mid vid b sw \<subseteq> K"
      using presented_parts [OF pres] 1(1) Call_cancel_inference by (auto simp: closing_pres_def)
    from close_stale_request_funds [OF 1(2) _ funds inv env this] show ?case by (simp add: 1(3))
  qed
next
  case (Call_expire_inference rid user mid vid b tw sw)
  with run presented_parts(2) [OF pres] show ?thesis
    by (auto elim!: expire_inference_run intro: close_stale_request_funds [OF _ _ funds inv env])
next
  case (Call_slash_miner mid who bps)
  with run presented_parts(2) [OF pres] show ?thesis
    by (auto elim!: slash_miner_ok intro: slash_miner_bond_funds [OF _ funds env(1) inv env(2)])
next
  case (Call_slash_validator vid who bps)
  with run presented_parts(2) [OF pres] show ?thesis
    by (auto elim!: slash_validator_ok
        intro: slash_validator_stake_funds [OF _ funds env(1) inv env(2)])
next
  case (Call_submit_proof sub user mop b sw)
  with run presented_parts [OF pres] show ?thesis
    by (intro submit_proof_funds [OF _ funds inv env]) auto
next
  case (Call_challenge_proof sub user mop b sw)
  with run presented_parts(2) [OF pres] show ?thesis
    by (intro challenge_proof_funds [OF _ funds inv env]) auto
qed (use run funds inv env presented_parts(1) [OF pres] in
  \<open>auto intro: create_subnet_funds register_miner_funds register_validator_funds
    activate_miner_funds deactivate_miner_funds withdraw_miner_bond_funds
    deactivate_validator_funds withdraw_validator_stake_funds set_miner_identity_funds
    set_validator_identity_funds\<close>)

text \<open>Runs that start with nothing on hold and present preimages of \<open>K\<close> only.\<close>

inductive funded_reachable :: "'cur Config \<Rightarrow> preimage set \<Rightarrow> 'cur Storage \<Rightarrow> bool" for cfg K where
  start: "(\<And>r u. balance_on_hold (Currency cfg) r u c = 0) \<Longrightarrow> funded_reachable cfg K (genesis c)"
| call: "funded_reachable cfg K s \<Longrightarrow> presented cfg origin c s \<subseteq> K \<Longrightarrow>
    funded_reachable cfg K (snd (dispatch cfg origin c s))"
| block: "funded_reachable cfg K s \<Longrightarrow> block_number s \<le> b \<Longrightarrow>
    funded_reachable cfg K (s\<lparr>block_number := b\<rparr>)"
| environment: "funded_reachable cfg K s \<Longrightarrow>
    (\<And>r who. balance_on_hold (Currency cfg) r who c =
       balance_on_hold (Currency cfg) r who (currency s)) \<Longrightarrow>
    funded_reachable cfg K (s\<lparr>currency := c\<rparr>)"

lemma funded_is_reachable: "funded_reachable cfg K s \<Longrightarrow> pallet_reachable cfg s"
  by (induction rule: funded_reachable.induct)
    (auto intro: pallet_reachable.intros pallet_step.intros)

lemma genesis_funds:
  assumes "\<And>r u. balance_on_hold (Currency cfg) r u c = 0"
  shows "funds_inv cfg K (genesis c)"
  using assms
  by (simp add: funds_inv_def genesis_def capital_backed_def capital_total_def requests_backed_def
      pending_sum_def pending_of_def)

lemma dispatch_funds:
  assumes "funds_inv cfg K s" and "pallet_inv cfg s"
    and "fungible_laws (Currency cfg)" "inj_on (blake2_256 cfg) K"
    and "presented cfg origin call s \<subseteq> K"
  shows "funds_inv cfg K (snd (dispatch cfg origin call s))"
  by (rule dispatch_result) (rule assms(1), rule dispatch_ok_funds [OF _ assms])

lemma funded_inv:
  assumes "funded_reachable cfg K s" and "config_ok cfg"
    and "fungible_laws (Currency cfg)" "inj_on (blake2_256 cfg) K"
  shows "funds_inv cfg K s"
  using assms(1)
proof (induction rule: funded_reachable.induct)
  case (start c)
  then show ?case by (rule genesis_funds)
next
  case (call s origin c)
  have "pallet_inv cfg s" using funded_is_reachable [OF call(1)] assms(2) by (rule reachable_inv)
  from dispatch_funds [OF call(3) this assms(3,4) call(2)] show ?case .
next
  case (block s b)
  from block(3) show ?case by (simp add: funds_inv_def requests_backed_def pending_sum_def)
next
  case (environment s c)
  from environment(3) show ?case
    by (rule funds_invE) (rule funds_invI;
        (rule bonds_frame stakes_frame payments_frame, assumption); simp add: environment(2))
qed

end
