(* ===== verification/Pallet_Liveness.thy ===== *)
theory Pallet_Liveness
  imports Pallet_Funds
begin

text \<open>
  What cannot fail: refunds of stale requests and withdrawals of bonds and stakes after the
  cool-down.  The lemmas run the dispatchables forward; the funds invariant provides the balance
  and the counters they need.
\<close>

section \<open>Open requests are covered\<close>

lemma pending_sum_covers:
  assumes "dense (InferenceRequests s) (RequestCount s)" and "InferenceRequests s r = Some q"
    and "cr_status q = Request_Pending"
  shows "f (op r) \<le> pending_sum f op s"
proof -
  let ?g = "\<lambda>r. case InferenceRequests s r of
        None \<Rightarrow> 0 | Some q \<Rightarrow> if cr_status q = Request_Pending then f (op r) else 0"
  have "?g r \<le> (\<Sum>r<RequestCount s. ?g r)"
    by (rule member_le_sum) (use dense_less [OF assms(1,2)] in auto)
  with assms show ?thesis by (simp add: pending_sum_def)
qed

text \<open>The request counters leave room for one more closed request.\<close>

lemma requests_with_le: "requests_with st s + requests_with st' s \<le> RequestCount s" if "st \<noteq> st'"
proof -
  have "(\<Sum>r<RequestCount s. has_status st (InferenceRequests s r) +
      has_status st' (InferenceRequests s r)) \<le> (\<Sum>r<RequestCount s. 1)"
  proof (rule sum_mono)
    fix r
    show "has_status st (InferenceRequests s r) + has_status st' (InferenceRequests s r) \<le> 1"
      using that by (cases "InferenceRequests s r") auto
  qed
  then show ?thesis by (simp add: requests_with_def sum.distrib)
qed

lemma requests_with_pos:
  assumes "dense (InferenceRequests s) (RequestCount s)" and "InferenceRequests s r = Some q"
  shows "0 < requests_with (cr_status q) s"
proof -
  have "has_status (cr_status q) (InferenceRequests s r) \<le> requests_with (cr_status q) s"
    unfolding requests_with_def
    by (rule member_le_sum) (use dense_less [OF assms] in auto)
  with assms(2) show ?thesis by simp
qed

lemma room_for_closed:
  assumes "pallet_inv cfg s" and "InferenceRequests s r = Some q"
    and "cr_status q = Request_Pending" and "fin \<noteq> Request_Pending"
  shows "0 < PendingInferenceRequestCount s" and "Suc (status_count fin s) < 2 ^ 64"
proof -
  have req: "requests_ok s" using assms(1) by (simp add: pallet_inv_def)
  then have count: "status_count st s = requests_with st s" for st by (simp add: requests_ok_def)
  have pos: "0 < requests_with Request_Pending s"
    using requests_with_pos [OF inv_dense(4) [OF assms(1)] assms(2)] assms(3) by simp
  then show "0 < PendingInferenceRequestCount s" using count [of Request_Pending] by simp
  have "requests_with fin s + requests_with Request_Pending s \<le> RequestCount s"
    using assms(4) by (rule requests_with_le)
  with pos req show "Suc (status_count fin s) < 2 ^ 64" by (simp add: count requests_ok_def)
qed

text \<open>Whoever can open the commitments of a pending request can close it.\<close>

lemma pending_request_covered:
  assumes "funds_inv cfg K s" and inv: "pallet_inv cfg s" and inj: "inj_on (blake2_256 cfg) K"
    and q: "InferenceRequests s rid = Some q" "cr_status q = Request_Pending"
    and user: "request_user_commitment_matches cfg (cr_user_commitment q) user"
    and assignment: "ensure_request_assignment_witness cfg q mid vid b = Inr ()"
    and terms: "ensure_request_terms_witness cfg q sw = Inr ()"
    and pres: "closing_pres s rid user mid vid b sw \<subseteq> K"
    and fin: "fin \<noteq> Request_Pending"
  shows "payment (terms sw) \<le> balance_on_hold (Currency cfg) InferencePayment user (currency s)"
    and "closable mid vid fin s"
proof -
  from assms(1) obtain op where op: "requests_backed cfg K op s" by (rule funds_invE)
  with q(1) have opened: "opened_by cfg K rid q (op rid)" by (auto simp: requests_backed_def)
  have sub: "account_pres user \<subseteq> K" "terms_pres rid sw \<subseteq> K"
      "assignment_pres rid (cr_subnet_id q) mid vid b \<subseteq> K"
    using pres q(1) by (auto simp: closing_pres_def)
  note eqs = user_unique [OF inj opened user sub(1)] payment_unique [OF inj opened terms sub(2)]
    assignment_unique [OF inj opened assignment sub(3)]
  note covers = pending_sum_covers [OF inv_dense(4) [OF inv] q]
  show "payment (terms sw) \<le> balance_on_hold (Currency cfg) InferencePayment user (currency s)"
    using op covers [of "payment_by user" op] eqs by (simp add: requests_backed_def payment_by_def)
  have "0 < pending_of (PendingMinerRequests s) mid"
    using op covers [of "served_by mid" op] eqs by (simp add: requests_backed_def served_by_def)
  moreover have "0 < pending_of (PendingValidatorRequests s) vid"
    using op covers [of "validated_by vid" op] eqs by (simp add: requests_backed_def validated_by_def)
  ultimately show "closable mid vid fin s"
    using room_for_closed [OF inv q fin] by (simp add: closable_def)
qed

section \<open>Refunds\<close>

lemma and_then_run: "m s = (Inr x, t) \<Longrightarrow> f x t = r \<Longrightarrow> and_then m f s = r"
  by (simp add: and_then_def)

lemma closing_succeeds:
  assumes "closable mid vid fin s" and "fin \<noteq> Request_Pending"
  shows "and_then (decrement_pending_assignment mid vid) (\<lambda>_.
      and_then (transition_request_status Request_Pending fin) (\<lambda>_.
      clear_inference_accounting_totals)) s = (Inr (), closed mid vid fin s)"
proof -
  let ?s1 = "s\<lparr>PendingMinerRequests := unbump (PendingMinerRequests s) mid,
    PendingValidatorRequests := unbump (PendingValidatorRequests s) vid\<rparr>"
  let ?s2 = "put_status_count fin (Suc (status_count fin ?s1))
    (put_status_count Request_Pending (status_count Request_Pending ?s1 - 1) ?s1)"
  have "decrement_pending_assignment mid vid s = (Inr (), ?s1)"
    using assms(1) by (simp add: decrement_pending_assignment_ok closable_def)
  moreover have "transition_request_status Request_Pending fin ?s1 = (Inr (), ?s2)"
    using assms by (cases fin) (simp_all add: transition_ok closable_def)
  moreover have "clear_inference_accounting_totals ?s2 = (Inr (), closed mid vid fin s)"
    by (simp add: clear_totals_ok closed_def Let_def)
  ultimately show ?thesis by (simp add: and_then_def)
qed

lemma close_stale_request_succeeds:
  assumes "InferenceRequests s rid = Some q" "cr_status q = Request_Pending"
    and "request_user_commitment_matches cfg (cr_user_commitment q) user"
    and "ensure_request_assignment_witness cfg q mid vid b = Inr ()"
    and "ensure_request_timing_witness cfg q tw = Inr ()"
    and "ensure_request_terms_witness cfg q sw = Inr ()"
    and "created_at tw + RequestCancelDelayBlocks cfg \<le> current_block s"
    and "cur_release (Currency cfg) InferencePayment user (payment (terms sw)) (currency s) = (Inr y, c)"
    and "closable mid vid fin s" and fin: "fin \<noteq> Request_Pending"
  shows "close_stale_request cfg rid user mid vid b tw sw fin s =
    (Inr (), finish rid q fin mid vid c s)"
proof -
  let ?s1 = "s\<lparr>currency := c, InferenceRequests := (InferenceRequests s)(rid \<mapsto> q\<lparr>cr_status := fin\<rparr>)\<rparr>"
  have "created_at tw + RequestCancelDelayBlocks cfg < 2 ^ 64"
    using assms(7) by (simp add: current_block_def uint_max_def)
  moreover have "ensure_request_user cfg q user = Inr ()"
    using assms(3) by (simp add: pure_guards_ok)
  ultimately show ?thesis
    unfolding close_stale_request_def record_inference_refund_def
  proof (intro and_then_run [where x = "payment (terms sw)" and t = ?s1], goal_cases)
    case 1
    then show ?case
      using assms(1-8)
      by (simp add: try_mutate_request_def release_for_def with_currency_def checked_add_def
          ensure_inference_refund_can_record_def action_defs)
  next
    case 2
    have "closable mid vid fin ?s1" using assms(9) by simp
    from closing_succeeds [OF this fin] show ?case by (simp add: finish_def)
  qed
qed

text \<open>The storage and the balance after a refund of \<open>pay\<close> to \<open>user\<close>.\<close>

definition refunded ::
  "'cur Config \<Rightarrow> RequestId \<Rightarrow> ChainInferenceRequest \<Rightarrow> InferenceRequestStatus \<Rightarrow> AccountId \<Rightarrow> Balance \<Rightarrow>
   'cur Storage \<Rightarrow> 'cur Storage \<Rightarrow> bool" where
  "refunded cfg rid q fin user pay s s' \<longleftrightarrow>
     InferenceRequests s' = (InferenceRequests s)(rid \<mapsto> q\<lparr>cr_status := fin\<rparr>) \<and>
     balance_on_hold (Currency cfg) InferencePayment user (currency s) =
       balance_on_hold (Currency cfg) InferencePayment user (currency s') + pay \<and>
     (\<exists>y. cur_release (Currency cfg) InferencePayment user pay (currency s) = (Inr y, currency s'))"

lemma stale_request_refundable:
  assumes funds: "funds_inv cfg K s" "pallet_inv cfg s" "inj_on (blake2_256 cfg) K"
    and cur: "fungible_laws (Currency cfg)" "release_available (Currency cfg)"
    and q: "InferenceRequests s rid = Some q" "cr_status q = Request_Pending"
    and user: "request_user_commitment_matches cfg (cr_user_commitment q) user"
    and assignment: "ensure_request_assignment_witness cfg q mid vid b = Inr ()"
    and timing: "ensure_request_timing_witness cfg q tw = Inr ()"
    and trm: "ensure_request_terms_witness cfg q sw = Inr ()"
    and due: "created_at tw + RequestCancelDelayBlocks cfg \<le> current_block s"
    and pres: "closing_pres s rid user mid vid b sw \<subseteq> K" and fin: "fin \<noteq> Request_Pending"
  shows "\<exists>t. close_stale_request cfg rid user mid vid b tw sw fin s = (Inr (), t) \<and>
    refunded cfg rid q fin user (payment (terms sw)) s t"
proof -
  note covered = pending_request_covered [OF funds q user assignment trm pres fin]
  from cur(2) covered(1) obtain c where
    c: "cur_release (Currency cfg) InferencePayment user (payment (terms sw)) (currency s) =
      (Inr (payment (terms sw)), c)"
    unfolding release_available_def by blast
  note run = close_stale_request_succeeds [OF q user assignment timing trm due c covered(2) fin]
  have "refunded cfg rid q fin user (payment (terms sw)) s (finish rid q fin mid vid c s)"
    using c draws_holdD(2) [OF draw_rules(1) [OF cur(1)] c] by (simp add: refunded_def)
  with run show ?thesis by blast
qed

lemma refunded_log [simp]:
  "refunded cfg rid q fin user pay s (log_events cfg evs t) = refunded cfg rid q fin user pay s t"
  by (simp add: refunded_def)

lemma stale_request_calls:
  assumes "close_stale_request cfg rid user mid vid b tw sw Request_Cancelled s = (Inr (), t)"
    and "close_stale_request cfg rid user mid vid b tw sw Request_Expired s = (Inr (), t')"
  shows "ensure_payload_signer cfg origin = Inr user \<Longrightarrow>
      cancel_inference cfg origin rid mid vid b tw sw s =
        (Inr (), log_events cfg [InferenceCancelled] t)"
    and "ensure_payload_signer cfg origin = Inr keeper \<Longrightarrow>
      expire_inference cfg origin rid user mid vid b tw sw s =
        (Inr (), log_events cfg [InferenceExpired] t')"
  using assms
  by (simp_all add: cancel_inference_def expire_inference_def transactional_def and_then_def
      lift_result_def deposit_activity_event_def deposit_activity_events_run)

section \<open>Withdrawals\<close>

lemma capital_covered:
  assumes "capital_backed cfg K opc reason owner reg n cap c" and "dense reg n"
    and "inj_on (blake2_256 cfg) K" and "reg i = Some r"
    and "operator_commitment_matches cfg (opc r) who" and "account_pres who \<subseteq> K"
  shows "capital_of (cap i) \<le> balance_on_hold (Currency cfg) reason who c"
proof -
  have "operator_known cfg K (opc r) (owner i)" using assms(1,4) by (auto simp: capital_backed_def)
  from operator_unique [OF assms(3) this assms(5,6)] have owner: "owner i = who" by simp
  let ?f = "\<lambda>i. if owner i = who then capital_of (cap i) else 0"
  have "?f i \<le> (\<Sum>i<n. ?f i)"
    by (rule member_le_sum) (use dense_less [OF assms(2,4)] in auto)
  with owner assms(1) show ?thesis by (simp add: capital_backed_def capital_total_def)
qed

lemma released_unless_zero:
  assumes "release_available cur" and "x \<le> balance_on_hold cur r who (currency s)" and "cur = Currency cfg"
  shows "\<exists>c. (if x \<noteq> 0 then and_then (release_for cfg r who x) (\<lambda>_. ret ()) else ret ()) s =
      (Inr (), s\<lparr>currency := c\<rparr>) \<and>
    (if x = 0 then c = currency s else cur_release cur r who x (currency s) = (Inr x, c))"
proof (cases "x = 0")
  case True
  then show ?thesis by (intro exI [of _ "currency s"]) (simp add: ret_def)
next
  case False
  from assms(1,2) obtain c where "cur_release cur r who x (currency s) = (Inr x, c)"
    unfolding release_available_def by blast
  with False assms(3) show ?thesis
    by (intro exI [of _ c]) (simp add: release_for_def with_currency_def and_then_def ret_def)
qed

lemma released_amount:
  assumes "fungible_laws cur"
    and "if x = 0 then c' = c else cur_release cur r who x c = (Inr x, c')"
  shows "balance_on_hold cur r who c = balance_on_hold cur r who c' + x"
  using assms(2) draws_holdD(2) [OF draw_rules(1) [OF assms(1)], of r who x c x c' r who]
  by (simp split: if_splits)

lemma withdraw_miner_bond_succeeds:
  assumes "ensure_payload_signer cfg origin = Inr who" and "Miners s i = Some m"
    and "operator_commitment_matches cfg (cm_operator_commitment m) who"
    and "cm_status m = Exiting available" and "available \<le> current_block s"
    and "MinerLockedBond s i = Some bond"
    and "release_available (Currency cfg)"
    and "bond \<le> balance_on_hold (Currency cfg) MinerBond who (currency s)"
  shows "\<exists>c. withdraw_miner_bond cfg origin i s =
      (Inr (), log_events cfg [MinerBondWithdrawn] (s\<lparr>currency := c,
         MinerLockedBond := (MinerLockedBond s)(i := None),
         Miners := (Miners s)(i \<mapsto> with_miner_status cfg i m Disabled)\<rparr>)) \<and>
    (if bond = 0 then c = currency s
     else cur_release (Currency cfg) MinerBond who bond (currency s) = (Inr bond, c))"
proof -
  from released_unless_zero [OF assms(7,8) refl] obtain c where
    c: "(if bond \<noteq> 0 then and_then (release_for cfg MinerBond who bond) (\<lambda>_. ret ()) else ret ()) s =
      (Inr (), s\<lparr>currency := c\<rparr>)"
    "if bond = 0 then c = currency s
     else cur_release (Currency cfg) MinerBond who bond (currency s) = (Inr bond, c)" by blast
  have "locked_miner_bond cfg s i who = Inr bond" using assms(6) by (simp add: locked_miner_bond_def)
  moreover have "ensure_miner_operator cfg m who = Inr ()" using assms(3) by (simp add: pure_guards_ok)
  ultimately show ?thesis
    using assms(1-6) c
    by (intro exI [of _ c])
      (simp add: withdraw_miner_bond_def try_mutate_miner_def transactional_def and_then_def
        lift_result_def fetch_def ok_or_def require_def ensure_def query_def modify_def ret_def
        deposit_activity_event_def deposit_activity_events_run with_miner_status_def)
qed

lemma withdraw_validator_stake_succeeds:
  assumes "ensure_payload_signer cfg origin = Inr who" and "Validators s i = Some v"
    and "operator_commitment_matches cfg (cv_operator_commitment v) who"
    and "cv_status v = Exiting available" and "available \<le> current_block s"
    and "ValidatorLockedStake s i = Some stake"
    and "release_available (Currency cfg)"
    and "stake \<le> balance_on_hold (Currency cfg) ValidatorStake who (currency s)"
  shows "\<exists>c. withdraw_validator_stake cfg origin i s =
      (Inr (), log_events cfg [ValidatorStakeWithdrawn] (s\<lparr>currency := c,
         ValidatorLockedStake := (ValidatorLockedStake s)(i := None),
         Validators := (Validators s)(i \<mapsto> with_validator_status cfg i v Disabled)\<rparr>)) \<and>
    (if stake = 0 then c = currency s
     else cur_release (Currency cfg) ValidatorStake who stake (currency s) = (Inr stake, c))"
proof -
  from released_unless_zero [OF assms(7,8) refl] obtain c where
    c: "(if stake \<noteq> 0 then and_then (release_for cfg ValidatorStake who stake) (\<lambda>_. ret ()) else ret ()) s =
      (Inr (), s\<lparr>currency := c\<rparr>)"
    "if stake = 0 then c = currency s
     else cur_release (Currency cfg) ValidatorStake who stake (currency s) = (Inr stake, c)" by blast
  have "locked_validator_stake cfg s i who = Inr stake" using assms(6) by (simp add: locked_validator_stake_def)
  moreover have "ensure_validator_operator cfg v who = Inr ()" using assms(3) by (simp add: pure_guards_ok)
  ultimately show ?thesis
    using assms(1-6) c
    by (intro exI [of _ c])
      (simp add: withdraw_validator_stake_def try_mutate_validator_def transactional_def and_then_def
        lift_result_def fetch_def ok_or_def require_def ensure_def query_def modify_def ret_def
        deposit_activity_event_def deposit_activity_events_run with_validator_status_def)
qed

lemma exiting_bears_capital:
  "miner_capital_bearing_status (Exiting a)" "validator_capital_bearing_status (Exiting a)"
  by (simp_all add: miner_capital_bearing_status_def validator_capital_bearing_status_def)

lemma miner_bond_withdrawable:
  assumes inv: "funds_inv cfg K s" "pallet_inv cfg s" "inj_on (blake2_256 cfg) K"
    and cur: "fungible_laws (Currency cfg)" "release_available (Currency cfg)"
    and signer: "ensure_payload_signer cfg origin = Inr who" "account_pres who \<subseteq> K"
    and due: "due \<le> current_block s"
    and m: "Miners s i = Some m" "cm_status m = Exiting due"
      "operator_commitment_matches cfg (cm_operator_commitment m) who"
  shows "\<exists>bond s'. MinerLockedBond s i = Some bond \<and> withdraw_miner_bond cfg origin i s = (Inr (), s') \<and>
    held_miner_bond cfg s who = held_miner_bond cfg s' who + bond \<and> MinerLockedBond s' i = None \<and>
    map_option cm_status (Miners s' i) = Some Disabled"
proof -
  obtain mo where backed: "miner_bonds_backed cfg K mo s" using inv(1) by (rule funds_invE)
  obtain bond where bond: "MinerLockedBond s i = Some bond"
    using miner_registry.entry(1) [OF inv_registries(1) [OF inv(2)] m(1)] m(2) exiting_bears_capital
    by auto
  have "bond \<le> balance_on_hold (Currency cfg) MinerBond who (currency s)"
    using capital_covered [OF backed inv_dense(1) [OF inv(2)] inv(3) m(1) m(3) signer(2)] bond by simp
  from withdraw_miner_bond_succeeds [OF signer(1) m(1,3,2) due bond cur(2) this]
  obtain c where run: "withdraw_miner_bond cfg origin i s =
      (Inr (), log_events cfg [MinerBondWithdrawn] (s\<lparr>currency := c,
         MinerLockedBond := (MinerLockedBond s)(i := None),
         Miners := (Miners s)(i \<mapsto> with_miner_status cfg i m Disabled)\<rparr>))"
    and c: "if bond = 0 then c = currency s
      else cur_release (Currency cfg) MinerBond who bond (currency s) = (Inr bond, c)" by blast
  have "balance_on_hold (Currency cfg) MinerBond who (currency s) =
      balance_on_hold (Currency cfg) MinerBond who c + bond"
    using released_amount [OF cur(1) c] .
  with run bond show ?thesis by (simp add: held_miner_bond_def with_miner_status_def)
qed

lemma validator_stake_withdrawable:
  assumes inv: "funds_inv cfg K s" "pallet_inv cfg s" "inj_on (blake2_256 cfg) K"
    and cur: "fungible_laws (Currency cfg)" "release_available (Currency cfg)"
    and signer: "ensure_payload_signer cfg origin = Inr who" "account_pres who \<subseteq> K"
    and due: "due \<le> current_block s"
    and v: "Validators s i = Some v" "cv_status v = Exiting due"
      "operator_commitment_matches cfg (cv_operator_commitment v) who"
  shows "\<exists>stake s'. ValidatorLockedStake s i = Some stake \<and>
    withdraw_validator_stake cfg origin i s = (Inr (), s') \<and>
    held_validator_stake cfg s who = held_validator_stake cfg s' who + stake \<and>
    ValidatorLockedStake s' i = None \<and> map_option cv_status (Validators s' i) = Some Disabled"
proof -
  obtain vo where backed: "validator_stakes_backed cfg K vo s" using inv(1) by (rule funds_invE)
  obtain stake where stake: "ValidatorLockedStake s i = Some stake"
    using validator_registry.entry(1) [OF inv_registries(2) [OF inv(2)] v(1)] v(2) exiting_bears_capital
    by auto
  have "stake \<le> balance_on_hold (Currency cfg) ValidatorStake who (currency s)"
    using capital_covered [OF backed inv_dense(2) [OF inv(2)] inv(3) v(1) v(3) signer(2)] stake by simp
  from withdraw_validator_stake_succeeds [OF signer(1) v(1,3,2) due stake cur(2) this]
  obtain c where run: "withdraw_validator_stake cfg origin i s =
      (Inr (), log_events cfg [ValidatorStakeWithdrawn] (s\<lparr>currency := c,
         ValidatorLockedStake := (ValidatorLockedStake s)(i := None),
         Validators := (Validators s)(i \<mapsto> with_validator_status cfg i v Disabled)\<rparr>))"
    and c: "if stake = 0 then c = currency s
      else cur_release (Currency cfg) ValidatorStake who stake (currency s) = (Inr stake, c)" by blast
  have "balance_on_hold (Currency cfg) ValidatorStake who (currency s) =
      balance_on_hold (Currency cfg) ValidatorStake who c + stake"
    using released_amount [OF cur(1) c] .
  with run stake show ?thesis by (simp add: held_validator_stake_def with_validator_status_def)
qed

end
