(* ===== verification/Pallet_Route.thy ===== *)
theory Pallet_Route
  imports Pallet_Invariants
begin

text \<open>
  The route search is a search over a rotation of the eligible participants: it returns a pair
  with different operators whenever one exists, and nothing else.
\<close>

section \<open>The rotation\<close>

lemma rotation_covers:
  assumes "start < n"
  shows "(\<lambda>k. (start + k) mod n) ` {..<n} = {..<(n :: nat)}"
proof
  show "(\<lambda>k. (start + k) mod n) ` {..<n} \<subseteq> {..<n}" using assms by auto
  show "{..<n} \<subseteq> (\<lambda>k. (start + k) mod n) ` {..<n}"
  proof
    fix j assume j: "j \<in> {..<n}"
    have "(start + (j + n - start) mod n) mod n = (start + (j + n - start)) mod n"
      by (rule mod_add_right_eq)
    also have "\<dots> = j" using assms j by simp
    finally have "j = (start + (j + n - start) mod n) mod n" by simp
    with assms show "j \<in> (\<lambda>k. (start + k) mod n) ` {..<n}" by (intro image_eqI [where x = "(j + n - start) mod n"]) auto
  qed
qed

text \<open>The identifiers in the order in which the search visits them.\<close>

definition rotated :: "nat list \<Rightarrow> nat \<Rightarrow> nat list" where
  "rotated ids start = map (\<lambda>k. ids ! ((start + k) mod length ids)) [0..<length ids]"

lemma set_rotated: "start < length ids \<Longrightarrow> set (rotated ids start) = set ids"
proof -
  assume start: "start < length ids"
  have "set (rotated ids start) =
      (\<lambda>j. ids ! j) ` (\<lambda>k. (start + k) mod length ids) ` {..<length ids}"
    by (auto simp: rotated_def)
  also have "\<dots> = set ids" unfolding rotation_covers [OF start] by (auto simp: set_conv_nth)
  finally show ?thesis .
qed

lemma route_target_run:
  assumes "start < length ids" and "k < length ids" and "2 * length ids \<le> 2 ^ 32"
  shows "route_target ids start k = Some (ids ! ((start + k) mod length ids))"
proof -
  have "start + k < 2 ^ usize_bits" using assms by (simp add: usize_bits_def)
  moreover have "(start + k) mod length ids < length ids" using assms(1) by (intro mod_less_divisor) linarith
  ultimately show ?thesis
    using assms(1) by (auto simp: route_target_def checked_add_def checked_rem_def)
qed

lemma route_index_run:
  assumes "ids \<noteq> []" and "length ids \<le> 2 ^ 32"
  shows "route_index seed (length ids) = Some (seed mod length ids)"
    and "seed mod length ids < length ids"
proof -
  show "seed mod length ids < length ids" using assms(1) by simp
  then have "seed mod length ids < 2 ^ usize_bits" using assms(2) by (simp add: usize_bits_def)
  with assms(1) show "route_index seed (length ids) = Some (seed mod length ids)"
    by (simp add: route_index_def checked_rem_def)
qed

section \<open>Validators\<close>

definition validates :: "'cur Config \<Rightarrow> 'cur Storage \<Rightarrow> SubnetId \<Rightarrow> Commitment \<Rightarrow> ValidatorId \<Rightarrow> bool" where
  "validates cfg s sid opc vid \<longleftrightarrow>
     (\<exists>v. Validators s vid = Some v \<and> cv_subnet_id v = sid \<and> validator_is_route_eligible cfg s vid v \<and>
        cv_operator_commitment v \<noteq> opc)"

lemma route_validator_loop_find:
  assumes "\<And>k. k \<in> set ks \<Longrightarrow> route_target ids start k = Some (t k)"
  shows "route_validator_loop cfg s sid opc ids start ks = List.find (validates cfg s sid opc) (map t ks)"
  using assms
  by (induction ks)
    (auto simp: validates_def validator_is_route_eligible_def split: option.splits)

lemma route_active_validator_find:
  assumes "2 * length (active_validator_route_ids cfg s sid) \<le> 2 ^ 32"
  shows "route_active_validator cfg s sid seed opc = List.find (validates cfg s sid opc)
    (rotated (active_validator_route_ids cfg s sid) (seed mod length (active_validator_route_ids cfg s sid)))"
proof (cases "active_validator_route_ids cfg s sid = []")
  case True
  then show ?thesis by (simp add: route_active_validator_def rotated_def)
next
  case False
  note index = route_index_run [OF False, of seed]
  from assms have le: "length (active_validator_route_ids cfg s sid) \<le> 2 ^ 32" by simp
  show ?thesis
    using False index(1) [OF le] index(2) [OF le] assms
    by (simp add: route_active_validator_def Let_def rotated_def)
      (intro route_validator_loop_find route_target_run; simp)
qed

lemma route_active_validator_iff:
  assumes "2 * length (active_validator_route_ids cfg s sid) \<le> 2 ^ 32"
    and "dense (Validators s) (ValidatorCount s)"
  shows "route_active_validator cfg s sid seed opc = Some vid \<Longrightarrow> validates cfg s sid opc vid"
    and "route_active_validator cfg s sid seed opc = None \<longleftrightarrow> \<not> (\<exists>vid. validates cfg s sid opc vid)"
proof -
  let ?ids = "active_validator_route_ids cfg s sid"
  show "route_active_validator cfg s sid seed opc = Some vid \<Longrightarrow> validates cfg s sid opc vid"
    by (auto simp: route_active_validator_find [OF assms(1)] find_Some_iff)
  have "validates cfg s sid opc vid \<Longrightarrow> vid \<in> set ?ids" for vid
    unfolding active_validator_ids(1) [OF assms(2)] by (auto simp: validates_def eligible_validators_def)
  moreover have "set (rotated ?ids (seed mod length ?ids)) = set ?ids"
  proof (cases "?ids = []")
    case False
    then show ?thesis by (intro set_rotated) simp
  qed (simp add: rotated_def)
  ultimately show "route_active_validator cfg s sid seed opc = None \<longleftrightarrow>
      \<not> (\<exists>vid. validates cfg s sid opc vid)"
    by (auto simp: route_active_validator_find [OF assms(1)] find_None_iff)
qed

section \<open>Miners\<close>

definition serves :: "'cur Config \<Rightarrow> 'cur Storage \<Rightarrow> SubnetId \<Rightarrow> MinerId \<Rightarrow> bool" where
  "serves cfg s sid mid \<longleftrightarrow>
     (\<exists>m. Miners s mid = Some m \<and> cm_subnet_id m = sid \<and> miner_is_route_eligible cfg s mid m \<and>
        (\<exists>vid. validates cfg s sid (cm_operator_commitment m) vid))"

text \<open>A pair that can serve a request on the subnet.\<close>

definition serving_pair :: "'cur Config \<Rightarrow> 'cur Storage \<Rightarrow> SubnetId \<Rightarrow> MinerId \<Rightarrow> ValidatorId \<Rightarrow> bool" where
  "serving_pair cfg s sid mid vid \<longleftrightarrow>
     mid \<in> eligible_miners cfg s sid \<and> vid \<in> eligible_validators cfg s sid \<and>
     map_option cm_operator_commitment (Miners s mid) \<noteq>
       map_option cv_operator_commitment (Validators s vid)"

lemma serving_pair_iff:
  "serving_pair cfg s sid mid vid \<longleftrightarrow>
     (\<exists>m. Miners s mid = Some m \<and> cm_subnet_id m = sid \<and> miner_is_route_eligible cfg s mid m \<and>
        validates cfg s sid (cm_operator_commitment m) vid)"
  by (auto simp: serving_pair_def eligible_miners_def eligible_validators_def validates_def)

definition assigns ::
  "'cur Config \<Rightarrow> 'cur Storage \<Rightarrow> SubnetId \<Rightarrow> RequestId \<Rightarrow> ChainAssignment \<Rightarrow> bool" where
  "assigns cfg s sid rid a \<longleftrightarrow> as_request_id a = rid \<and> as_subnet_id a = sid \<and>
     serving_pair cfg s sid (as_miner_id a) (as_validator_id a)"

lemma route_miner_loop_find:
  assumes "2 * length (active_validator_route_ids cfg s sid) \<le> 2 ^ 32"
    and "dense (Validators s) (ValidatorCount s)"
    and "\<And>k. k \<in> set ks \<Longrightarrow> route_target ids start k = Some (t k)"
  shows "map_option as_miner_id (route_miner_loop cfg s sid rid vseed ids start ks) =
      List.find (serves cfg s sid) (map t ks) \<and>
    (\<forall>a. route_miner_loop cfg s sid rid vseed ids start ks = Some a \<longrightarrow> assigns cfg s sid rid a)"
  using assms(3)
proof (induction ks)
  case (Cons k ks)
  note v = route_active_validator_iff [OF assms(1,2)]
  show ?case
  proof (cases "\<exists>m. Miners s (t k) = Some m \<and> cm_subnet_id m = sid \<and> miner_is_route_eligible cfg s (t k) m")
    case False
    with Cons show ?thesis
      by (cases "Miners s (t k)") (auto simp: serves_def miner_is_route_eligible_def)
  next
    case True
    then obtain m where m: "Miners s (t k) = Some m" "cm_subnet_id m = sid"
        "miner_is_route_eligible cfg s (t k) m" by blast
    show ?thesis
    proof (cases "route_active_validator cfg s sid vseed (cm_operator_commitment m)")
      case None
      with v(2) have "\<not> serves cfg s sid (t k)" using m(1) by (auto simp: serves_def)
      with Cons m None show ?thesis by (auto simp: miner_is_route_eligible_def)
    next
      case (Some vid)
      note val = v(1) [OF Some]
      then obtain w where w: "Validators s vid = Some w"
          "cv_operator_commitment w \<noteq> cm_operator_commitment m"
        by (auto simp: validates_def)
      have "is_ok (ensure_distinct_operators m w)" using w(2) by (auto simp: is_ok_iff pure_guards_ok)
      with Cons m Some w(1) val show ?thesis
        by (auto simp: serves_def miner_is_route_eligible_def assigns_def serving_pair_iff)
    qed
  qed
qed simp

lemma route_assignment_search:
  assumes "dense (Miners s) (MinerCount s)" "dense (Validators s) (ValidatorCount s)"
    and "2 * length (active_miner_route_ids cfg s sid) \<le> 2 ^ 32"
      "2 * length (active_validator_route_ids cfg s sid) \<le> 2 ^ 32"
    and "Subnets s sid = Some c" "cs_active c"
  shows "(\<forall>a. route_assignment cfg s sid rid blinding = Some a \<longrightarrow> assigns cfg s sid rid a) \<and>
    (route_assignment cfg s sid rid blinding = None \<longleftrightarrow>
      \<not> (\<exists>mid vid. serving_pair cfg s sid mid vid))"
proof -
  let ?ids = "active_miner_route_ids cfg s sid"
  let ?mseed = "route_seed cfg ''qubitum.route.miner.v1'' rid sid blinding"
  let ?vseed = "route_seed cfg ''qubitum.route.validator.v1'' rid sid blinding"
  let ?start = "?mseed mod length ?ids"
  let ?loop = "route_miner_loop cfg s sid rid ?vseed ?ids ?start [0..<length ?ids]"
  have serves: "serves cfg s sid mid \<longleftrightarrow> (\<exists>vid. serving_pair cfg s sid mid vid)" for mid
    by (auto simp: serves_def serving_pair_iff)
  have ids: "serves cfg s sid mid \<Longrightarrow> mid \<in> set ?ids" for mid
    unfolding active_miner_ids(1) [OF assms(1)] by (auto simp: serves_def eligible_miners_def)
  show ?thesis
  proof (cases "?ids = []")
    case True
    then show ?thesis using assms(5,6) ids serves by (auto simp: route_assignment_def Let_def)
  next
    case False
    from assms(3) have le: "length ?ids \<le> 2 ^ 32" by simp
    note index = route_index_run [OF False le, of ?mseed]
    have run: "route_assignment cfg s sid rid blinding = ?loop"
      using False assms(5,6) index(1) by (simp add: route_assignment_def Let_def)
    have targets: "k \<in> set [0..<length ?ids] \<Longrightarrow>
        route_target ?ids ?start k = Some (?ids ! ((?start + k) mod length ?ids))" for k
      using route_target_run [OF index(2) _ assms(3)] by simp
    note loop = route_miner_loop_find [OF assms(4,2) targets, of "[0..<length ?ids]" rid ?vseed, folded rotated_def]
    then have "?loop = None \<longleftrightarrow> List.find (serves cfg s sid) (rotated ?ids ?start) = None"
      by (metis option.map_disc_iff)
    also have "\<dots> \<longleftrightarrow> \<not> (\<exists>mid. serves cfg s sid mid)"
      using ids set_rotated [OF index(2)] by (auto simp: find_None_iff)
    finally show ?thesis using loop serves unfolding run by blast
  qed
qed

end
