(* ===== verification/Pallet_Lifecycle.thy ===== *)
theory Pallet_Lifecycle
  imports Pallet_Behaviour
begin

text \<open>
  The life of a miner and of a validator as abstract state machines over the registry status,
  and the refinement: every call moves the stored status along an edge of the machine.  The
  machines are parameterised by the block of the step and by the cool-down.
\<close>

section \<open>The machines\<close>

inductive miner_life :: "BlockNumber \<Rightarrow> BlockNumber \<Rightarrow> RegistryStatus \<Rightarrow> RegistryStatus \<Rightarrow> bool" for now cooldown where
  stay: "miner_life now cooldown st st"
| activate: "miner_life now cooldown Pending Active"
| slash: "st = Active \<or> st = Slashed \<Longrightarrow> miner_life now cooldown st Slashed"
| leave: "st = Active \<or> st = Slashed \<Longrightarrow> miner_life now cooldown st (Exiting (now + cooldown))"
| withdraw: "due \<le> now \<Longrightarrow> miner_life now cooldown (Exiting due) Disabled"

inductive validator_life :: "BlockNumber \<Rightarrow> BlockNumber \<Rightarrow> RegistryStatus \<Rightarrow> RegistryStatus \<Rightarrow> bool" for now cooldown where
  stay: "validator_life now cooldown st st"
| identify: "validator_life now cooldown Pending Active"
| retract: "validator_life now cooldown Active Pending"
| slash: "st = Pending \<or> st = Active \<or> st = Slashed \<Longrightarrow> validator_life now cooldown st Slashed"
| leave: "st = Pending \<or> st = Active \<or> st = Slashed \<Longrightarrow>
    validator_life now cooldown st (Exiting (now + cooldown))"
| withdraw: "due \<le> now \<Longrightarrow> validator_life now cooldown (Exiting due) Disabled"

inductive_cases miner_lifeE: "miner_life now cooldown st st'"
inductive_cases validator_lifeE: "validator_life now cooldown st st'"

lemma capital_statuses:
  "miner_capital_bearing_status st \<longleftrightarrow> st = Active \<or> st = Slashed \<or> is_exiting st"
  "validator_capital_bearing_status st \<longleftrightarrow> st = Pending \<or> st = Active \<or> st = Slashed \<or> is_exiting st"
  by (cases st; simp add: miner_capital_bearing_status_def validator_capital_bearing_status_def
      is_exiting_def)+

section \<open>Registries that evolve\<close>

text \<open>Every entry is kept, with all but its status and the commitment to it unchanged, and its
  status moves along an edge.\<close>

definition registry_lives ::
  "('r \<Rightarrow> RegistryStatus) \<Rightarrow> ('r \<Rightarrow> 'r \<Rightarrow> bool) \<Rightarrow> (RegistryStatus \<Rightarrow> RegistryStatus \<Rightarrow> bool) \<Rightarrow>
   (nat \<rightharpoonup> 'r) \<Rightarrow> (nat \<rightharpoonup> 'r) \<Rightarrow> bool" where
  "registry_lives st same life reg reg' \<longleftrightarrow>
     (\<forall>i r. reg i = Some r \<longrightarrow> (\<exists>r'. reg' i = Some r' \<and> same r r' \<and> life (st r) (st r')))"

definition same_miner :: "ChainMiner \<Rightarrow> ChainMiner \<Rightarrow> bool" where
  "same_miner m m' \<longleftrightarrow> m' = m\<lparr>cm_status := cm_status m', cm_bond_commitment := cm_bond_commitment m'\<rparr>"

definition same_validator :: "ChainValidator \<Rightarrow> ChainValidator \<Rightarrow> bool" where
  "same_validator v v' \<longleftrightarrow>
     v' = v\<lparr>cv_status := cv_status v', cv_stake_commitment := cv_stake_commitment v'\<rparr>"

abbreviation miners_live where
  "miners_live cfg s s' \<equiv> registry_lives cm_status same_miner
     (miner_life (current_block s) (MinerExitCooldownBlocks cfg)) (Miners s) (Miners s')"

abbreviation validators_live where
  "validators_live cfg s s' \<equiv> registry_lives cv_status same_validator
     (validator_life (current_block s) (ValidatorExitCooldownBlocks cfg)) (Validators s) (Validators s')"

lemma same_participant [simp]:
  "same_miner m m" "same_miner m (with_miner_status cfg i m st)"
  "same_validator v v" "same_validator v (with_validator_status cfg i v st)"
  by (simp_all add: same_miner_def same_validator_def with_miner_status_def with_validator_status_def)

locale life_cycle =
  fixes st :: "'r \<Rightarrow> RegistryStatus" and same :: "'r \<Rightarrow> 'r \<Rightarrow> bool"
    and life :: "RegistryStatus \<Rightarrow> RegistryStatus \<Rightarrow> bool"
  assumes same_refl: "same r r" and life_refl: "life a a"
begin

lemma lives_same: "registry_lives st same life reg reg"
  by (simp add: registry_lives_def same_refl life_refl)

lemma lives_new: "dense reg n \<Longrightarrow> registry_lives st same life reg (reg(n \<mapsto> r))"
  using dense_fresh [of reg n] by (auto simp: registry_lives_def same_refl life_refl)

lemma lives_put:
  "reg i = Some r \<Longrightarrow> st r = a \<Longrightarrow> same r r' \<Longrightarrow> life a (st r') \<Longrightarrow>
   registry_lives st same life reg (reg(i \<mapsto> r'))"
  by (auto simp: registry_lives_def same_refl life_refl)

end

interpretation miner_cycle: life_cycle cm_status same_miner "miner_life now cooldown" for now cooldown
  by unfold_locales (simp_all add: miner_life.stay)

interpretation validator_cycle:
  life_cycle cv_status same_validator "validator_life now cooldown" for now cooldown
  by unfold_locales (simp_all add: validator_life.stay)

lemmas cycle_rules = miner_cycle.lives_same miner_cycle.lives_new miner_cycle.lives_put
  validator_cycle.lives_same validator_cycle.lives_new validator_cycle.lives_put
  miner_life.intros validator_life.intros

section \<open>Calls\<close>

lemma slash_miner_bond_lives:
  assumes "slash_miner_bond cfg i who bps s = (Inr x, s')" and "pallet_inv cfg s"
  shows "miners_live cfg s s'" "Validators s' = Validators s"
  using assms(1)
proof (atomize (full), rule slash_miner_bond_ok, goal_cases)
  case (1 m bond c)
  from locked_miner_bond_recorded(2) [OF assms(2) 1(1,3)]
  have "cm_status m = Active \<or> cm_status m = Slashed \<or> is_exiting (cm_status m)"
    by (simp add: capital_statuses)
  with 1 show ?case
    by (auto intro!: miner_cycle.lives_put intro: miner_life.stay miner_life.slash)
qed

lemma slash_validator_stake_lives:
  assumes "slash_validator_stake cfg i who bps s = (Inr x, s')" and "pallet_inv cfg s"
  shows "validators_live cfg s s'" "Miners s' = Miners s"
  using assms(1)
proof (atomize (full), rule slash_validator_stake_ok, goal_cases)
  case (1 v stake c)
  from locked_validator_stake_recorded(2) [OF assms(2) 1(1,3)]
  have "cv_status v = Pending \<or> cv_status v = Active \<or> cv_status v = Slashed \<or> is_exiting (cv_status v)"
    by (simp add: capital_statuses)
  with 1 show ?case
    by (auto intro!: validator_cycle.lives_put intro: validator_life.stay validator_life.slash)
qed

lemma closing_keeps_participants:
  "close_stale_request cfg rid user mid vid b tw sw fin s = (Inr u, t) \<Longrightarrow> fin \<noteq> Request_Pending \<Longrightarrow>
     Miners t = Miners s \<and> Validators t = Validators s"
  "refund_rejected_request cfg sub user b sw s = (Inr x, t) \<Longrightarrow>
     Miners t = Miners s \<and> Validators t = Validators s"
  "settle_request_payment cfg sub user mop vop b sw s = (Inr y, t) \<Longrightarrow>
     Miners t = Miners s \<and> Validators t = Validators s"
  by (auto elim!: close_stale_request_ok refund_rejected_request_ok settle_request_payment_ok)

abbreviation participants_live where
  "participants_live cfg s s' \<equiv> miners_live cfg s s' \<and> validators_live cfg s s'"

lemma rejection_lives:
  assumes "slash_miner_bond cfg i who bps s = (Inr x, s1)" and "pallet_inv cfg s"
  shows "refund_rejected_request cfg sub user b sw s1 = (Inr z, t) \<Longrightarrow> participants_live cfg s t"
    and "slash_validator_stake cfg j who' bps' s1 = (Inr y, s2) \<Longrightarrow>
      refund_rejected_request cfg sub user b sw s2 = (Inr z, t) \<Longrightarrow> participants_live cfg s t"
proof -
  note slashed = slash_miner_bond_lives [OF assms] slash_miner_bond_inv [OF assms]
  have now: "current_block s1 = current_block s"
    using assms(1) by (auto elim!: slash_miner_bond_ok simp: current_block_def)
  show "refund_rejected_request cfg sub user b sw s1 = (Inr z, t) \<Longrightarrow> participants_live cfg s t"
    using slashed by (auto dest!: closing_keeps_participants(2) simp: validator_cycle.lives_same)
  show "slash_validator_stake cfg j who' bps' s1 = (Inr y, s2) \<Longrightarrow>
      refund_rejected_request cfg sub user b sw s2 = (Inr z, t) \<Longrightarrow> participants_live cfg s t"
    using slashed slash_validator_stake_lives [OF _ slashed(3)] now
    by (auto dest!: closing_keeps_participants(2))
qed

lemma registry_calls_live:
  assumes "pallet_inv cfg s"
  shows "create_subnet cfg origin domain system s = (Inr u, s') \<Longrightarrow> participants_live cfg s s'"
    "register_miner cfg origin sid model system s = (Inr u, s') \<Longrightarrow> participants_live cfg s s'"
    "register_validator cfg origin sid stake s = (Inr u, s') \<Longrightarrow> participants_live cfg s s'"
    "activate_miner cfg origin i bond s = (Inr u, s') \<Longrightarrow> participants_live cfg s s'"
    "deactivate_miner cfg origin i s = (Inr u, s') \<Longrightarrow> participants_live cfg s s'"
    "deactivate_validator cfg origin i s = (Inr u, s') \<Longrightarrow> participants_live cfg s s'"
    "withdraw_miner_bond cfg origin i s = (Inr u, s') \<Longrightarrow> participants_live cfg s s'"
    "withdraw_validator_stake cfg origin i s = (Inr u, s') \<Longrightarrow> participants_live cfg s s'"
    "set_miner_identity_commitments cfg origin i shielded endpoint bundle s = (Inr u, s') \<Longrightarrow>
       participants_live cfg s s'"
    "slash_miner cfg origin i who bps s = (Inr u, s') \<Longrightarrow> participants_live cfg s s'"
    "slash_validator cfg origin i who bps s = (Inr u, s') \<Longrightarrow> participants_live cfg s s'"
  by (erule create_subnet_ok register_miner_ok register_validator_ok activate_miner_ok
      deactivate_miner_ok deactivate_validator_ok withdraw_miner_bond_ok withdraw_validator_stake_ok
      set_miner_identity_ok slash_miner_ok slash_validator_ok;
    simp add: cycle_rules inv_dense [OF assms] slash_miner_bond_lives [OF _ assms]
      slash_validator_stake_lives [OF _ assms] put_miner_identity_def split del: if_split)+

lemma set_validator_identity_lives:
  assumes "set_validator_identity_commitments cfg origin i shielded endpoint bundle s = (Inr u, s')"
  shows "participants_live cfg s s'"
proof (cases "shielded \<noteq> None \<or> endpoint \<noteq> None")
  case True
  with assms show ?thesis
  proof (rule set_validator_identity_ok, goal_cases)
    case (1 operator v x)
    have "validator_life (current_block s) (ValidatorExitCooldownBlocks cfg) (cv_status v)
        (if cv_status v = Pending then Active else cv_status v)"
      by (simp add: validator_life.stay validator_life.identify)
    with 1(2) show ?case
      by (simp add: 1(9) miner_cycle.lives_same validator_cycle.lives_put put_validator_identity_def)
  qed
next
  case False
  then have "shielded = None" "endpoint = None" by simp_all
  from assms [unfolded this] show ?thesis
  proof (rule clear_validator_identity_ok, goal_cases)
    case (1 operator v)
    then show ?case
      by (simp add: miner_cycle.lives_same validator_cycle.lives_same validator_cycle.lives_put
          validator_life.retract put_validator_identity_def)
  qed
qed

lemma request_calls_live:
  assumes "pallet_inv cfg s"
  shows "route_and_open cfg user rid p s = (Inr u, s') \<Longrightarrow> participants_live cfg s s'"
    "cancel_inference cfg origin rid mid vid b tw sw s = (Inr u, s') \<Longrightarrow> participants_live cfg s s'"
    "expire_inference cfg origin rid user mid vid b tw sw s = (Inr u, s') \<Longrightarrow> participants_live cfg s s'"
    "submit_proof cfg origin sub user mop b sw s = (Inr u, s') \<Longrightarrow> participants_live cfg s s'"
    "challenge_proof cfg origin sub user mop b sw s = (Inr u, s') \<Longrightarrow> participants_live cfg s s'"
  using rejection_lives [OF _ assms]
  by (auto elim!: route_and_open_ok cancel_inference_run expire_inference_run submit_proof_ok
      challenge_proof_ok
      simp: closing_keeps_participants opened_def miner_cycle.lives_same validator_cycle.lives_same)

lemma dispatch_lives:
  assumes "dispatch cfg origin call s = (Inr u, s')" and "pallet_inv cfg s"
  shows "participants_live cfg s s'"
  using assms
  by (cases call)
    (auto dest: registry_calls_live [OF assms(2)] request_calls_live [OF assms(2)]
        set_validator_identity_lives
      elim!: request_inference_run request_inference_auto_route_run
      simp: request_inference_commitments_run)

lemma step_lives:
  assumes "pallet_step cfg s s'" and "pallet_inv cfg s"
  shows "participants_live cfg s s'"
  using assms(1)
proof (cases rule: pallet_step.cases)
  case (call origin c)
  have "participants_live cfg s s" by (simp add: miner_cycle.lives_same validator_cycle.lives_same)
  then show ?thesis
    unfolding call using dispatch_lives [OF _ assms(2)] by (rule dispatch_result)
qed (simp_all add: miner_cycle.lives_same validator_cycle.lives_same)

section \<open>Time\<close>

lemma slash_keeps_block:
  "slash_miner_bond cfg i who bps s = (Inr x, s') \<Longrightarrow> block_number s' = block_number s"
  "slash_validator_stake cfg j who' bps' t = (Inr y, t') \<Longrightarrow> block_number t' = block_number t"
  by (erule slash_miner_bond_ok slash_validator_stake_ok; simp)+

lemma finish_keeps_block [simp]: "block_number (finish rid q fin mid vid c s) = block_number s"
  by (cases fin) (simp_all add: finish_def closed_def Let_def)

lemma closing_keeps_block:
  "close_stale_request cfg rid user mid vid b tw sw fin s = (Inr u, t) \<Longrightarrow> fin \<noteq> Request_Pending \<Longrightarrow>
     block_number t = block_number s"
  "refund_rejected_request cfg sub user b sw s = (Inr x, t) \<Longrightarrow> block_number t = block_number s"
  "settle_request_payment cfg sub user mop vop b sw s = (Inr y, t) \<Longrightarrow> block_number t = block_number s"
  by (auto elim!: close_stale_request_ok refund_rejected_request_ok settle_request_payment_ok)

lemma registry_calls_keep_block:
  "create_subnet cfg origin domain system s = (Inr u, s') \<Longrightarrow> block_number s' = block_number s"
  "register_miner cfg origin sid model system s = (Inr u, s') \<Longrightarrow> block_number s' = block_number s"
  "register_validator cfg origin sid stake s = (Inr u, s') \<Longrightarrow> block_number s' = block_number s"
  "activate_miner cfg origin i bond s = (Inr u, s') \<Longrightarrow> block_number s' = block_number s"
  "deactivate_miner cfg origin i s = (Inr u, s') \<Longrightarrow> block_number s' = block_number s"
  "deactivate_validator cfg origin i s = (Inr u, s') \<Longrightarrow> block_number s' = block_number s"
  "withdraw_miner_bond cfg origin i s = (Inr u, s') \<Longrightarrow> block_number s' = block_number s"
  "withdraw_validator_stake cfg origin i s = (Inr u, s') \<Longrightarrow> block_number s' = block_number s"
  "set_miner_identity_commitments cfg origin i shielded endpoint bundle s = (Inr u, s') \<Longrightarrow>
     block_number s' = block_number s"
  "slash_miner cfg origin i who bps s = (Inr u, s') \<Longrightarrow> block_number s' = block_number s"
  "slash_validator cfg origin i who bps s = (Inr u, s') \<Longrightarrow> block_number s' = block_number s"
  by (erule create_subnet_ok register_miner_ok register_validator_ok activate_miner_ok
      deactivate_miner_ok deactivate_validator_ok withdraw_miner_bond_ok withdraw_validator_stake_ok
      set_miner_identity_ok slash_miner_ok slash_validator_ok;
    simp add: slash_keeps_block put_miner_identity_def split del: if_split)+

lemma set_validator_identity_keeps_block:
  assumes "set_validator_identity_commitments cfg origin i shielded endpoint bundle s = (Inr u, s')"
  shows "block_number s' = block_number s"
proof (cases "shielded \<noteq> None \<or> endpoint \<noteq> None")
  case True
  with assms show ?thesis by (rule set_validator_identity_ok) (simp add: put_validator_identity_def)
next
  case False
  with assms show ?thesis
    by (auto elim!: clear_validator_identity_ok simp: put_validator_identity_def)
qed

lemma request_calls_keep_block:
  "route_and_open cfg user rid p s = (Inr u, s') \<Longrightarrow> block_number s' = block_number s"
  "cancel_inference cfg origin rid mid vid b tw sw s = (Inr u, s') \<Longrightarrow> block_number s' = block_number s"
  "expire_inference cfg origin rid user mid vid b tw sw s = (Inr u, s') \<Longrightarrow>
     block_number s' = block_number s"
  "submit_proof cfg origin sub user mop b sw s = (Inr u, s') \<Longrightarrow> block_number s' = block_number s"
  "challenge_proof cfg origin sub user mop b sw s = (Inr u, s') \<Longrightarrow> block_number s' = block_number s"
  by (auto elim!: route_and_open_ok cancel_inference_run expire_inference_run submit_proof_ok
      challenge_proof_ok simp: closing_keeps_block slash_keeps_block opened_def)

lemma dispatch_keeps_block:
  "dispatch cfg origin call s = (Inr u, s') \<Longrightarrow> block_number s' = block_number s"
  by (cases call)
    (auto dest: registry_calls_keep_block request_calls_keep_block set_validator_identity_keeps_block
      elim!: request_inference_run request_inference_auto_route_run
      simp: request_inference_commitments_run)

lemma step_block: "pallet_step cfg s s' \<Longrightarrow> current_block s \<le> current_block s'"
proof (erule pallet_stepE)
  fix origin call
  assume s': "s' = snd (dispatch cfg origin call s)"
  have "block_number s' = block_number s"
    unfolding s' by (rule dispatch_result [where P = "\<lambda>t. block_number t = block_number s"])
      (simp_all add: dispatch_keeps_block)
  then show ?thesis by (simp add: current_block_def)
qed (auto simp: current_block_def)

section \<open>Leaving takes the cool-down\<close>

text \<open>What a participant that had not begun to leave at block \<open>from\<close> can have come to.\<close>

fun not_left_before :: "BlockNumber \<Rightarrow> BlockNumber \<Rightarrow> RegistryStatus \<Rightarrow> bool" where
  "not_left_before earliest now (Exiting due) = (earliest \<le> due)"
| "not_left_before earliest now Disabled = (earliest \<le> now)"
| "not_left_before earliest now _ = True"

lemma not_left_before_mono:
  "not_left_before e now st \<Longrightarrow> now \<le> now' \<Longrightarrow> not_left_before e now' st"
  by (cases st) auto

lemma life_not_left_before:
  "miner_life now c st st' \<Longrightarrow> not_left_before (from + c) now st \<Longrightarrow> from \<le> now \<Longrightarrow>
     not_left_before (from + c) now st'"
  "validator_life now c st st' \<Longrightarrow> not_left_before (from + c) now st \<Longrightarrow> from \<le> now \<Longrightarrow>
     not_left_before (from + c) now st'"
  by (auto elim!: miner_lifeE validator_lifeE)

lemma same_trans:
  "same_miner m m' \<Longrightarrow> same_miner m' m'' \<Longrightarrow> same_miner m m''"
  "same_validator v v' \<Longrightarrow> same_validator v' v'' \<Longrightarrow> same_validator v v''"
  by (cases m; cases m'; cases m''; simp add: same_miner_def)
    (cases v; cases v'; cases v''; simp add: same_validator_def)

lemma runs_not_left_before:
  assumes "(pallet_step cfg)\<^sup>*\<^sup>* s t" and "pallet_inv cfg s" and "config_ok cfg"
  shows "pallet_inv cfg t \<and> current_block s \<le> current_block t \<and>
    (\<forall>i m. Miners s i = Some m \<and>
       not_left_before (current_block s + MinerExitCooldownBlocks cfg) (current_block s) (cm_status m) \<longrightarrow>
     (\<exists>m'. Miners t i = Some m' \<and> same_miner m m' \<and>
       not_left_before (current_block s + MinerExitCooldownBlocks cfg) (current_block t) (cm_status m'))) \<and>
    (\<forall>i v. Validators s i = Some v \<and>
       not_left_before (current_block s + ValidatorExitCooldownBlocks cfg) (current_block s) (cv_status v) \<longrightarrow>
     (\<exists>v'. Validators t i = Some v' \<and> same_validator v v' \<and>
       not_left_before (current_block s + ValidatorExitCooldownBlocks cfg) (current_block t) (cv_status v')))"
  using assms(1)
proof (induction rule: rtranclp_induct)
  case base
  from assms(2) show ?case by simp
next
  case (step t t')
  from step(3) have inv: "pallet_inv cfg t" and now: "current_block s \<le> current_block t" by blast+
  note later = step_block [OF step(2)]
  note lives = step_lives [OF step(2) inv, unfolded registry_lives_def]
  note mono = not_left_before_mono [OF _ later]
  show ?case
    using step_inv [OF step(2) inv assms(3)] now later
      mono [OF life_not_left_before(1) [OF _ _ now]] mono [OF life_not_left_before(2) [OF _ _ now]]
      conjunct2 [OF conjunct2 [OF step(3)]] lives same_trans
    by (intro conjI; (elim conjE)?; (linarith | assumption | (intro allI impI, meson)))
qed

end
