(* ===== verification/Pallet_Demo.thy ===== *)
theory Pallet_Demo
  imports Pallet_Funds
begin

text \<open>
  A concrete instance of the parameters of the pallet, a ledger with holds and a digest that can
  be evaluated, and a run from genesis over registration and activation to an open request.  The
  theorems with hypotheses are applied to the storages of this run.
\<close>

section \<open>A ledger with holds\<close>

record Bank =
  bank_free :: "AccountId \<Rightarrow> Balance"
  bank_held :: "HoldReason \<Rightarrow> AccountId \<Rightarrow> Balance"

definition bank_draw ::
  "HoldReason \<Rightarrow> AccountId \<Rightarrow> (AccountId \<Rightarrow> Balance \<Rightarrow> Balance) \<Rightarrow> Balance \<Rightarrow>
   (Bank, DispatchError, Balance) action" where
  "bank_draw r who credit_free x = (\<lambda>b.
     if x \<le> bank_held b r who
     then (Inr x, b\<lparr>bank_held := (bank_held b)(r := (bank_held b r)(who := bank_held b r who - x)),
                    bank_free := (\<lambda>u. credit_free u (bank_free b u))\<rparr>)
     else (Inl (CurrencyError 0), b))"

definition bank_currency :: "Bank FungibleHold" where
  "bank_currency = \<lparr>
     balance_on_hold = (\<lambda>r who b. bank_held b r who),
     cur_hold = (\<lambda>r who x b.
       if x \<le> bank_free b who
       then (Inr (), b\<lparr>bank_free := (bank_free b)(who := bank_free b who - x),
              bank_held := (bank_held b)(r := (bank_held b r)(who := bank_held b r who + x))\<rparr>)
       else (Inl (CurrencyError 1), b)),
     cur_release = (\<lambda>r who x. bank_draw r who (\<lambda>u f. if u = who then f + x else f) x),
     cur_transfer_on_hold =
       (\<lambda>r who dest x. bank_draw r who (\<lambda>u f. if u = dest then f + x else f) x),
     cur_burn_held = (\<lambda>r who x. bank_draw r who (\<lambda>u f. f) x),
     cur_burn_from = (\<lambda>who x b.
       if x \<le> bank_free b who then (Inr x, b\<lparr>bank_free := (bank_free b)(who := bank_free b who - x)\<rparr>)
       else (Inl (CurrencyError 2), b))\<rparr>"

lemma bank_draw_draws: "draws_hold bank_currency r who x (bank_draw r who f x)"
  by (auto simp: draws_hold_def bank_draw_def bank_currency_def split: if_splits)

lemma bank_laws: "fungible_laws bank_currency"
proof -
  have "draws_hold bank_currency r who x (cur_release bank_currency r who x)"
    "draws_hold bank_currency r who x (cur_transfer_on_hold bank_currency r who dest x)"
    "draws_hold bank_currency r who x (cur_burn_held bank_currency r who x)" for r who dest x
    using bank_draw_draws by (simp_all add: bank_currency_def)
  then show ?thesis
    unfolding fungible_laws_def by (auto simp: bank_currency_def split: if_splits)
qed

lemma bank_release: "release_available bank_currency"
  by (auto simp: release_available_def bank_currency_def bank_draw_def)

section \<open>Digest and configuration\<close>

fun demo_hash :: "preimage \<Rightarrow> Commitment" where
  "demo_hash (AccountPre a) = 8 * a"
| "demo_hash (RolePre domain a) = 8 * a + (if domain = ''qubitum.operator.v1'' then 1 else 2)"
| "demo_hash (AssignmentPre domain rid sid mid vid b) = 8 * b + 3"
| "demo_hash (LegacyAssignmentPre rid sid mid vid) = 4"
| "demo_hash (TermsPre domain rid p v t b) = 8 * b + 5"
| "demo_hash (LegacyTermsPre rid p v t) = 6"
| "demo_hash _ = 7"

definition demo_cfg :: "Bank Config" where
  "demo_cfg = \<lparr>
     Currency = bank_currency,
     SubnetCreationBurn = 10, MinerRegistrationBurn = 10, MinMinerBond = 100, MaxMinerBond = 1000,
     MaxActiveMinersPerSubnet = 4, MaxActiveValidatorsPerSubnet = 4, MinValidatorStake = 100,
     MinInvalidProofSlashBps = 1000, MaxInvalidProofSlashBps = 10000,
     MinProofSizeBytes = 1, MaxProofSizeBytes = 1000, MaxVerificationLatencyMs = 100,
     MaxProofSubmissionAgeBlocks = 10,
     Config_SignatureMode = HybridDilithium,
     IdentitySignatureVerifier_mode = IdentityTestOnly,
     IdentitySignatureVerifier_verify = (\<lambda>_ _. True),
     ShieldedCallPayloads = False, ShieldedCallPayloadExecution = False,
     PrivateEventMetadata = True,
     ShieldedOrigin_try_origin = (\<lambda>_. None),
     ProofVerifier_mode = ShapeOnly, ProofVerifier_verify = ShapeProofVerifier_verify,
     ProtocolTreasury = 9,
     MinerExitCooldownBlocks = 50, ValidatorExitCooldownBlocks = 50, RequestCancelDelayBlocks = 20,
     blake2_256 = demo_hash\<rparr>"

lemma demo_cfg_simps [simp]:
  "Config_SignatureMode demo_cfg = HybridDilithium"
  "IdentitySignatureVerifier_verify demo_cfg = (\<lambda>_ _. True)"
  "Currency demo_cfg = bank_currency" "blake2_256 demo_cfg = demo_hash"
  "SubnetCreationBurn demo_cfg = 10" "MinerRegistrationBurn demo_cfg = 10"
  "MinMinerBond demo_cfg = 100" "MaxMinerBond demo_cfg = 1000" "MinValidatorStake demo_cfg = 100"
  "MaxActiveMinersPerSubnet demo_cfg = 4" "MaxActiveValidatorsPerSubnet demo_cfg = 4"
  "MinInvalidProofSlashBps demo_cfg = 1000" "MaxInvalidProofSlashBps demo_cfg = 10000"
  "MinProofSizeBytes demo_cfg = 1" "MaxProofSizeBytes demo_cfg = 1000"
  "MaxVerificationLatencyMs demo_cfg = 100" "MaxProofSubmissionAgeBlocks demo_cfg = 10"
  "ShieldedCallPayloads demo_cfg = False" "PrivateEventMetadata demo_cfg = True"
  "ProofVerifier_verify demo_cfg = ShapeProofVerifier_verify" "ProtocolTreasury demo_cfg = 9"
  "MinerExitCooldownBlocks demo_cfg = 50" "ValidatorExitCooldownBlocks demo_cfg = 50"
  "RequestCancelDelayBlocks demo_cfg = 20"
  by (simp_all add: demo_cfg_def)

lemma demo_config_ok: "config_ok demo_cfg"
  by (simp add: config_ok_def)

definition demo_bank :: Bank where
  "demo_bank = \<lparr>bank_free = (\<lambda>_. 5000), bank_held = (\<lambda>_ _. 0)\<rparr>"

definition demo_bundle :: SignatureBundle where
  "demo_bundle = \<lparr>
     classical = Some \<lparr>algorithm = Ecdsa, public_key_commitment = 1001, signature_commitment = 1002\<rparr>,
     post_quantum = Some \<lparr>algorithm = Dilithium3, public_key_commitment = 1003,
       signature_commitment = 1004\<rparr>\<rparr>"

definition demo_params :: AutoRouteInferenceRequestParams where
  "demo_params = \<lparr>ap_subnet_id = 0, ap_input_commitment = 500, ap_assignment_blinding = 600,
     ap_timing_blinding = 601, ap_terms_blinding = 602, ap_payment = 300,
     ap_validator_fee_bps = 1000, ap_treasury_fee_bps = 500\<rparr>"

section \<open>A run to an open request\<close>

definition demo_subnet :: ChainSubnet where
  "demo_subnet = \<lparr>cs_id = 0, cs_owner_commitment = 10, cs_domain = General,
     cs_proof_system = RiscZeroStark, cs_policy_commitment = 7, cs_active = True\<rparr>"

definition demo_miner :: ChainMiner where
  "demo_miner = \<lparr>cm_id = 0, cm_operator_commitment = 17, cm_subnet_id = 0,
     cm_model_commitment = 77, cm_proof_system = RiscZeroStark, cm_bond_commitment = 7,
     cm_status = Pending\<rparr>"

definition demo_validator :: ChainValidator where
  "demo_validator = \<lparr>cv_id = 0, cv_operator_commitment = 25, cv_subnet_id = 0,
     cv_stake_commitment = 7, cv_status = Pending\<rparr>"

definition demo_request :: ChainInferenceRequest where
  "demo_request = \<lparr>cr_request_id = 0, cr_user_commitment = 34, cr_subnet_id = 0,
     cr_assignment_commitment = 4803, cr_input_commitment = 500, cr_terms_commitment = 4821,
     cr_timing_commitment = 7, cr_status = Request_Pending\<rparr>"

definition demo_s1 :: "Bank Storage" where
  "demo_s1 = (genesis demo_bank)\<lparr>SubnetCount := 1, Subnets := [0 \<mapsto> demo_subnet],
     events := [PrivateActivity],
     currency := demo_bank\<lparr>bank_free := (\<lambda>_. 5000)(1 := 4990)\<rparr>\<rparr>"

definition demo_s2 :: "Bank Storage" where
  "demo_s2 = demo_s1\<lparr>MinerCount := 1, Miners := [0 \<mapsto> demo_miner],
     events := [PrivateActivity, PrivateActivity],
     currency := demo_bank\<lparr>bank_free := (\<lambda>_. 5000)(1 := 4990, 2 := 4990)\<rparr>\<rparr>"

definition demo_s3 :: "Bank Storage" where
  "demo_s3 = demo_s2\<lparr>ValidatorCount := 1, Validators := [0 \<mapsto> demo_validator],
     ValidatorLockedStake := [0 \<mapsto> 200], events := [PrivateActivity, PrivateActivity, PrivateActivity],
     currency := \<lparr>bank_free = (\<lambda>_. 5000)(1 := 4990, 2 := 4990, 3 := 4800),
       bank_held = (\<lambda>_ _. 0)(ValidatorStake := (\<lambda>_. 0)(3 := 200))\<rparr>\<rparr>"

definition demo_s4 :: "Bank Storage" where
  "demo_s4 = demo_s3\<lparr>
     MinerIdentityCommitments := [0 \<mapsto> \<lparr>shielded_identity_commitment = Some 2001,
       endpoint_commitment = None\<rparr>],
     MinerIdentitySignatureBundles := [0 \<mapsto> demo_bundle],
     MinerIdentitySignatureChallenges := [0 \<mapsto> 7], events := [PrivateActivity, PrivateActivity, PrivateActivity, PrivateActivity]\<rparr>"

definition demo_s5 :: "Bank Storage" where
  "demo_s5 = demo_s4\<lparr>Miners := [0 \<mapsto> demo_miner\<lparr>cm_status := Active\<rparr>],
     MinerLockedBond := [0 \<mapsto> 150], events := [PrivateActivity, PrivateActivity, PrivateActivity, PrivateActivity, PrivateActivity],
     currency := \<lparr>bank_free = (\<lambda>_. 5000)(1 := 4990, 2 := 4840, 3 := 4800),
       bank_held = (\<lambda>_ _. 0)(ValidatorStake := (\<lambda>_. 0)(3 := 200), MinerBond := (\<lambda>_. 0)(2 := 150))\<rparr>\<rparr>"

definition demo_s6 :: "Bank Storage" where
  "demo_s6 = demo_s5\<lparr>Validators := [0 \<mapsto> demo_validator\<lparr>cv_status := Active\<rparr>],
     ValidatorIdentityCommitments := [0 \<mapsto> \<lparr>shielded_identity_commitment = Some 2002,
       endpoint_commitment = None\<rparr>],
     ValidatorIdentitySignatureBundles := [0 \<mapsto> demo_bundle],
     ValidatorIdentitySignatureChallenges := [0 \<mapsto> 7], events := [PrivateActivity, PrivateActivity, PrivateActivity, PrivateActivity, PrivateActivity, PrivateActivity]\<rparr>"

definition demo_s7 :: "Bank Storage" where
  "demo_s7 = demo_s6\<lparr>RequestCount := 1, InferenceRequests := [0 \<mapsto> demo_request],
     PendingMinerRequests := [0 \<mapsto> 1], PendingValidatorRequests := [0 \<mapsto> 1],
     PendingInferenceRequestCount := 1, events := [PrivateActivity, PrivateActivity, PrivateActivity, PrivateActivity, PrivateActivity, PrivateActivity, PrivateActivity],
     currency := \<lparr>bank_free = (\<lambda>_. 5000)(1 := 4990, 2 := 4840, 3 := 4800, 4 := 4700),
       bank_held = (\<lambda>_ _. 0)(ValidatorStake := (\<lambda>_. 0)(3 := 200), MinerBond := (\<lambda>_. 0)(2 := 150),
         InferencePayment := (\<lambda>_. 0)(4 := 300))\<rparr>\<rparr>"

lemmas demo_defs = demo_bank_def demo_params_def demo_subnet_def
  demo_miner_def demo_validator_def demo_request_def bank_currency_def bank_draw_def genesis_def
  demo_s1_def demo_s2_def demo_s3_def demo_s4_def demo_s5_def demo_s6_def demo_s7_def

lemmas guard_defs = action_defs Let_def ensure_payload_signer_def ensure_signed_def
  ensure_supported_proof_system_def ensure_commitment_d_def ensure_optional_commitment_def
  with_currency_def checked_add_def checked_sub_def checked_mul_def checked_div_def
  checked_rem_def deposit_activity_event_def deposit_activity_events_def deposit_event_def
  ensure_miner_operator_def ensure_validator_operator_def ensure_validator_submission_operator_def
  operator_commitment_matches_def ensure_distinct_operators_def ensure_request_user_def
  request_user_commitment_matches_def pending_of_def current_block_def uint_max_def
  ok_or_r_def

lemmas commitment_defs = role_account_commitment_def subnet_owner_commitment_def
  operator_commitment_def request_user_commitment_def account_commitment_def
  subnet_policy_commitment_def participant_capital_commitment_def miner_bond_commitment_def
  validator_stake_commitment_def request_assignment_commitment_def
  legacy_request_assignment_commitment_def request_timing_commitment_def
  legacy_request_timing_commitment_def request_terms_commitment_def
  legacy_request_terms_commitment_def identity_signature_challenge_def
  miner_identity_signature_challenge_def validator_identity_signature_challenge_def

lemma demo_step1:
  "dispatch demo_cfg (SignedOrigin 1) (Call_create_subnet General RiscZeroStark) (genesis demo_bank) =
     (Inr (), demo_s1)"
  by (simp add: create_subnet_def demo_defs guard_defs commitment_defs
      burn_free_def ensure_burned_can_record_def record_burned_def clear_burned_total_def
      next_subnet_id_def)

lemma demo_step2:
  "dispatch demo_cfg (SignedOrigin 2) (Call_register_miner 0 77 RiscZeroStark) demo_s1 =
     (Inr (), demo_s2)"
  by (simp add: register_miner_def demo_defs guard_defs commitment_defs
      burn_free_def ensure_burned_can_record_def record_burned_def clear_burned_total_def
      next_miner_id_def)

lemmas routing_defs = active_validator_route_ids_def validator_records_def
  active_miner_route_ids_def miner_records_def registry_records_def List.map_filter_def
  ensure_active_validator_capacity_def ensure_active_miner_capacity_def ensure_route_capacity_def
  insert_active_miner_def insert_active_validator_def

lemma demo_bundle_ok: "ensure_signature_bundle demo_cfg demo_bundle = Inr ()"
proof -
  have "SignaturePolicy_validate (SignaturePolicy_new HybridDilithium) demo_bundle = Inr demo_bundle"
    by (simp add: demo_bundle_def accepted_simps)
  then show ?thesis
    by (simp add: ensure_signature_bundle_def)
qed

lemma demo_bundle_simps [simp]:
  "classical demo_bundle =
     Some \<lparr>algorithm = Ecdsa, public_key_commitment = 1001, signature_commitment = 1002\<rparr>"
  "post_quantum demo_bundle =
     Some \<lparr>algorithm = Dilithium3, public_key_commitment = 1003, signature_commitment = 1004\<rparr>"
  by (simp_all add: demo_bundle_def)

lemma demo_identity_ok:
  "opc \<in> {17, 25} \<Longrightarrow> shielded \<in> {Some 2001, Some 2002} \<Longrightarrow>
   ensure_identity_signature_bundle_bound demo_cfg demo_bundle 7 opc shielded None = Inr ()"
  by (auto simp: ensure_identity_signature_bundle_bound_def demo_bundle_ok
      ensure_signature_bundle_bound_to_challenge_def ensure_signature_commitment_not_reserved_def
      ensure_signature_commitment_bound_to_challenge_def action_defs)

lemma demo_step3:
  "dispatch demo_cfg (SignedOrigin 3) (Call_register_validator 0 200) demo_s2 = (Inr (), demo_s3)"
  by (simp add: register_validator_def demo_defs guard_defs commitment_defs
      next_validator_id_def hold_for_def routing_defs)

lemma demo_step4:
  "dispatch demo_cfg (SignedOrigin 2) (Call_set_miner_identity_commitments 0 (Some 2001) None
     demo_bundle) demo_s3 = (Inr (), demo_s4)"
  by (simp add: set_miner_identity_commitments_def demo_defs guard_defs commitment_defs
      demo_identity_ok)

lemma demo_step5:
  "dispatch demo_cfg (SignedOrigin 2) (Call_activate_miner 0 150) demo_s4 = (Inr (), demo_s5)"
  by (simp add: activate_miner_def try_mutate_miner_def demo_defs guard_defs commitment_defs
      ensure_miner_signature_bundle_bound_def demo_identity_ok hold_for_def routing_defs
      miner_is_route_eligible_def fun_upd_twist)

lemma demo_step6:
  "dispatch demo_cfg (SignedOrigin 3) (Call_set_validator_identity_commitments 0 (Some 2002) None
     demo_bundle) demo_s5 = (Inr (), demo_s6)"
  by (simp add: set_validator_identity_commitments_def try_mutate_validator_def demo_defs guard_defs
      commitment_defs demo_identity_ok routing_defs validator_is_route_eligible_def
      ensure_validator_locked_stake_record_def validator_has_active_locked_stake_record_def)

lemma demo_miner_ids: "active_miner_route_ids demo_cfg demo_s6 0 = [0]"
  by (simp add: routing_defs demo_defs guard_defs commitment_defs miner_is_route_eligible_def
      miner_has_active_locked_bond_record_def ensure_miner_signature_bundle_bound_def
      demo_identity_ok)

lemma demo_validator_ids: "active_validator_route_ids demo_cfg demo_s6 0 = [0]"
  by (simp add: routing_defs demo_defs guard_defs commitment_defs validator_is_route_eligible_def
      validator_has_active_locked_stake_record_def ensure_validator_signature_bundle_bound_def
      demo_identity_ok)

lemma demo_signed:
  "ensure_miner_signature_bundle_bound demo_cfg demo_s6 0 (demo_miner\<lparr>cm_status := Active\<rparr>) = Inr ()"
  "ensure_validator_signature_bundle_bound demo_cfg demo_s6 0 (demo_validator\<lparr>cv_status := Active\<rparr>) =
     Inr ()"
  by (simp_all add: demo_defs guard_defs commitment_defs ensure_miner_signature_bundle_bound_def
      ensure_validator_signature_bundle_bound_def demo_identity_ok)

lemma demo_entries:
  "Subnets demo_s6 0 = Some demo_subnet"
  "Miners demo_s6 0 = Some (demo_miner\<lparr>cm_status := Active\<rparr>)"
  "Validators demo_s6 0 = Some (demo_validator\<lparr>cv_status := Active\<rparr>)"
  "MinerLockedBond demo_s6 0 = Some 150" "ValidatorLockedStake demo_s6 0 = Some 200"
  by (simp_all add: demo_defs)

lemma demo_route:
  "route_assignment demo_cfg demo_s6 0 0 600 =
     Some \<lparr>as_request_id = 0, as_subnet_id = 0, as_miner_id = 0, as_validator_id = 0\<rparr>"
  by (simp add: route_assignment_def demo_entries demo_miner_ids demo_validator_ids
      route_active_validator_def route_index_def route_target_def route_seed_def usize_bits_def
      demo_signed [unfolded demo_miner_def demo_validator_def, simplified]
      miner_has_active_locked_bond_record_def demo_subnet_def demo_miner_def demo_validator_def
      validator_has_active_locked_stake_record_def guard_defs)

lemma demo_assigned:
  "ensure_request_assignment demo_cfg 0 0 0 demo_s6 = (Inr (), demo_s6)"
  by (simp add: ensure_request_assignment_def ensure_participant_signature_bundles_def
      demo_entries demo_signed guard_defs) (simp add: demo_miner_def demo_validator_def)

lemma demo_openable:
  "ensure_inference_request_openable 0 0 500 600 601 602 300 1000 500 demo_s6 = (Inr (), demo_s6)"
  by (simp add: ensure_inference_request_openable_def demo_entries guard_defs validate_fee_split_def
      BPS_DENOMINATOR_def) (simp add: demo_defs)

lemma demo_counts:
  "RequestCount demo_s6 = 0" "block_number demo_s6 = 0" "InferenceRequests demo_s6 = Map.empty"
  "PendingMinerRequests demo_s6 = Map.empty" "PendingValidatorRequests demo_s6 = Map.empty"
  "PendingInferenceRequestCount demo_s6 = 0" "events demo_s6 = [PrivateActivity, PrivateActivity, PrivateActivity, PrivateActivity,
     PrivateActivity, PrivateActivity]"
  "bank_free (currency demo_s6) = (\<lambda>_. 5000)(1 := 4990, 2 := 4840, 3 := 4800)"
  by (simp_all add: demo_defs)

lemma demo_step7:
  "dispatch demo_cfg (SignedOrigin 4) (Call_request_inference_auto_route 0 demo_params) demo_s6 =
     (Inr (), demo_s7)"
proof -
  have "route_and_open demo_cfg 4 0 demo_params demo_s6 = (Inr (), demo_s7)"
    by (simp add: route_and_open_def demo_params_def demo_openable demo_route demo_counts
        open_inference_request_def open_inference_request_with_commitments_def demo_assigned
        ensure_next_request_id_def ensure_request_id_can_advance_def guard_defs
        ensure_request_id_matches_next_def)
      (simp add: guard_defs hold_for_def increment_pending_assignment_def
        increment_request_status_count_def increment_request_count_def
        record_inference_escrow_def ensure_inference_escrow_can_record_def
        clear_inference_accounting_totals_def commitment_defs demo_defs)
  then show ?thesis
    by (simp add: request_inference_auto_route_def guard_defs)
qed

section \<open>Settlement of the request\<close>

definition demo_submission :: InferenceProofSubmission where
  "demo_submission = \<lparr>request_id = 0, subnet_id = 0, miner_id = 0, validator_id = 0,
     input_commitment = 500, output_commitment = 501, model_commitment = 77,
     envelope = \<lparr>proof_commitment = 502, journal_commitment = 7, image_id = 503,
       verifier_version = RiscZeroV1\<rparr>,
     proof_system = RiscZeroStark, proof_size_bytes = 100, verification_latency_ms = 10,
     submitted_at = 0\<rparr>"

definition demo_terms :: InferenceRequestTermsWitness where
  "demo_terms = \<lparr>terms = \<lparr>payment = 300, validator_fee_bps = 1000, treasury_fee_bps = 500\<rparr>,
     terms_blinding = 602\<rparr>"

definition demo_s8 :: "Bank Storage" where
  "demo_s8 = demo_s7\<lparr>InferenceRequests := [0 \<mapsto> demo_request\<lparr>cr_status := Request_Settled\<rparr>],
     ProofRecords := [0 \<mapsto> \<lparr>cp_request_id = 0, cp_subnet_id = 0, cp_assignment_commitment = 4803,
       cp_audit_commitment = 7, cp_proof_system = RiscZeroStark\<rparr>],
     PendingMinerRequests := Map.empty, PendingValidatorRequests := Map.empty,
     PendingInferenceRequestCount := 0, SettledInferenceRequestCount := 1,
     events := [PrivateActivity, PrivateActivity, PrivateActivity, PrivateActivity,
       PrivateActivity, PrivateActivity, PrivateActivity, PrivateActivity],
     currency := \<lparr>bank_free =
         (\<lambda>_. 5000)(1 := 4990, 2 := 5095, 3 := 4830, 4 := 4700, 9 := 5015),
       bank_held = (\<lambda>_ _. 0)(ValidatorStake := (\<lambda>_. 0)(3 := 200), MinerBond := (\<lambda>_. 0)(2 := 150))\<rparr>\<rparr>"

lemma demo_entries7:
  "Subnets demo_s7 0 = Some demo_subnet" "ProofRecords demo_s7 = Map.empty"
  "Miners demo_s7 0 = Some (demo_miner\<lparr>cm_status := Active\<rparr>)"
  "Validators demo_s7 0 = Some (demo_validator\<lparr>cv_status := Active\<rparr>)"
  "InferenceRequests demo_s7 0 = Some demo_request" "block_number demo_s7 = 0"
  "ensure_miner_signature_bundle_bound demo_cfg demo_s7 = ensure_miner_signature_bundle_bound demo_cfg demo_s6"
  "ensure_validator_signature_bundle_bound demo_cfg demo_s7 =
     ensure_validator_signature_bundle_bound demo_cfg demo_s6"
  by (simp_all add: demo_defs ensure_miner_signature_bundle_bound_def fun_eq_iff
      ensure_validator_signature_bundle_bound_def)

lemma demo_witnesses:
  "ensure_request_assignment_witness demo_cfg demo_request 0 0 600 = Inr ()"
  "resolve_request_assignment_commitment demo_cfg demo_request 0 0 600 = Inr 4803"
  "ensure_request_user demo_cfg demo_request 4 = Inr ()"
  "ensure_request_terms_witness demo_cfg demo_request demo_terms = Inr ()"
  "ensure_miner_operator demo_cfg (demo_miner\<lparr>cm_status := Active\<rparr>) 2 = Inr ()"
  "ensure_validator_operator demo_cfg (demo_validator\<lparr>cv_status := Active\<rparr>) 3 = Inr ()"
  "ensure_validator_submission_operator demo_cfg (demo_validator\<lparr>cv_status := Active\<rparr>) 3 = Inr ()"
  by (simp_all add: ensure_request_assignment_witness_def resolve_request_assignment_commitment_def
      ensure_request_terms_witness_def demo_request_def demo_terms_def validate_fee_split_def
      demo_miner_def demo_validator_def BPS_DENOMINATOR_def
      LEGACY_ASSIGNMENT_BLINDING_def LEGACY_TERMS_BLINDING_def commitment_defs guard_defs)

lemma demo_validated:
  "validate_submission demo_cfg demo_submission 3 2 600 demo_s7 =
     (Inr \<lparr>pv_proof_system = RiscZeroStark, pv_model_commitment = 77, pv_min_proof_size_bytes = 1,
       pv_max_proof_size_bytes = 1000, pv_max_verification_latency_ms = 100\<rparr>, demo_s7)"
  by (simp add: validate_submission_def validate_submission_for_request_def demo_entries7
      demo_witnesses demo_submission_def ensure_proof_envelope_def action_defs
      ensure_commitment_d_def ensure_submission_fresh_def current_block_def
      ensure_participant_signature_bundles_def demo_signed ensure_proof_transcript_witness_def
      proof_transcript_commitment_def ensure_distinct_operators_def Let_def)
    (simp add: demo_miner_def demo_validator_def demo_subnet_def demo_request_def saturating_sub_def)

lemma demo_verified:
  "ShapeProofVerifier_verify demo_submission \<lparr>pv_proof_system = RiscZeroStark,
     pv_model_commitment = 77, pv_min_proof_size_bytes = 1, pv_max_proof_size_bytes = 1000,
     pv_max_verification_latency_ms = 100\<rparr> = Inr Valid"
  by (simp add: ShapeProofVerifier_verify_def demo_submission_def action_defs Let_def)

lemma demo_split: "payment_split 300 1000 500 = Inr (255, 30, 15)"
  by (simp add: payment_split_def pro_rata_d_def validate_fee_split_def BPS_DENOMINATOR_def
      guard_defs)

lemma demo_submission_simps:
  "request_id demo_submission = 0" "subnet_id demo_submission = 0" "miner_id demo_submission = 0"
  "validator_id demo_submission = 0" "input_commitment demo_submission = 500"
  "proof_system demo_submission = RiscZeroStark" "payment (terms demo_terms) = 300"
  "validator_fee_bps (terms demo_terms) = 1000" "treasury_fee_bps (terms demo_terms) = 500"
  "cr_status demo_request = Request_Pending" "cr_subnet_id demo_request = 0"
  "cr_input_commitment demo_request = 500"
  by (simp_all add: demo_submission_def demo_terms_def demo_request_def)

lemma demo_settled:
  "settle_request_payment demo_cfg demo_submission 4 2 3 600 demo_terms demo_s7 =
     (Inr (255, 30, 15), demo_s8\<lparr>ProofRecords := Map.empty, events := events demo_s7\<rparr>)"
  by (simp add: settle_request_payment_def try_mutate_request_def demo_entries7 demo_witnesses
      demo_submission_simps demo_split Let_def action_defs)
    (simp add: transfer_held_payment_def decrement_pending_assignment_def decremented_def
      transition_request_status_def decrement_request_status_count_def
      increment_request_status_count_def decrement_request_count_def increment_request_count_def
      record_inference_settlement_def ensure_inference_settlement_can_record_def
      clear_inference_accounting_totals_def guard_defs demo_s8_def demo_defs fun_eq_iff)

lemma demo_step8:
  "dispatch demo_cfg (SignedOrigin 3) (Call_submit_proof demo_submission 4 2 600 demo_terms) demo_s7 =
     (Inr (), demo_s8)"
proof -
  have "demo_s8\<lparr>ProofRecords := [0 \<mapsto> \<lparr>cp_request_id = 0, cp_subnet_id = 0,
      cp_assignment_commitment = 4803, cp_audit_commitment = 7, cp_proof_system = RiscZeroStark\<rparr>],
      events := events demo_s7 @ [PrivateActivity]\<rparr> = demo_s8"
    by (simp add: demo_s8_def demo_defs)
  then show ?thesis
    by (simp add: submit_proof_def demo_validated demo_verified [simplified] ensure_payload_signer_def
      ensure_signed_def submission_assignment_commitment_def demo_entries7 demo_witnesses
      demo_submission_simps proof_audit_commitment_for_assignment_def demo_settled
      deposit_activity_events_def deposit_event_def action_defs)
qed

section \<open>The run\<close>

definition demo_presented :: "preimage list" where
  "demo_presented =
     concat (map (\<lambda>who. [RolePre ''qubitum.operator.v1'' who, RolePre ''qubitum.request.user.v1'' who,
       AccountPre who]) [1, 2, 3, 4]) @
     [AssignmentPre ''qubitum.request.assignment.v1'' 0 0 0 0 600, LegacyAssignmentPre 0 0 0 0,
      TermsPre ''qubitum.request.terms.v1'' 0 300 1000 500 602, LegacyTermsPre 0 300 1000 500]"

lemma demo_injective: "inj_on (blake2_256 demo_cfg) (set demo_presented)"
proof -
  have "distinct (map demo_hash demo_presented)" by (simp add: demo_presented_def)
  then show ?thesis by (simp add: distinct_map)
qed

lemma demo_accounts:
  "account_pres 1 \<subseteq> set demo_presented" "account_pres 2 \<subseteq> set demo_presented"
  "account_pres 3 \<subseteq> set demo_presented" "account_pres 4 \<subseteq> set demo_presented"
  by (simp_all add: account_pres_def demo_presented_def)

lemma funded_step:
  assumes "funded_reachable demo_cfg K s"
    and "dispatch demo_cfg (SignedOrigin who) c s = (Inr (), s')"
    and "account_pres who \<subseteq> K" and "argument_pres demo_cfg s c \<subseteq> K"
  shows "funded_reachable demo_cfg K s'"
proof -
  have "presented demo_cfg (SignedOrigin who) c s \<subseteq> K"
    using assms(3,4) by (simp add: presented_def ensure_payload_signer_def ensure_signed_def)
  from funded_reachable.call [OF assms(1) this] assms(2) show ?thesis by simp
qed

lemma demo_opening_presented:
  "argument_pres demo_cfg demo_s6 (Call_request_inference_auto_route 0 demo_params)
     \<subseteq> set demo_presented"
  by (simp add: opening_pres_def demo_params_def demo_route demo_presented_def)

lemma demo_s6_funded: "funded_reachable demo_cfg (set demo_presented) demo_s6"
proof -
  have "funded_reachable demo_cfg (set demo_presented) (genesis demo_bank)"
    by (rule funded_reachable.start) (simp add: bank_currency_def demo_bank_def)
  from funded_step [OF this demo_step1 demo_accounts(1)]
  have "funded_reachable demo_cfg (set demo_presented) demo_s1" by simp
  from funded_step [OF this demo_step2 demo_accounts(2)]
  have "funded_reachable demo_cfg (set demo_presented) demo_s2" by simp
  from funded_step [OF this demo_step3 demo_accounts(3)]
  have "funded_reachable demo_cfg (set demo_presented) demo_s3" by simp
  from funded_step [OF this demo_step4 demo_accounts(2)]
  have "funded_reachable demo_cfg (set demo_presented) demo_s4" by simp
  from funded_step [OF this demo_step5 demo_accounts(2)]
  have "funded_reachable demo_cfg (set demo_presented) demo_s5" by simp
  from funded_step [OF this demo_step6 demo_accounts(3)]
  show ?thesis by simp
qed

lemma demo_s7_funded: "funded_reachable demo_cfg (set demo_presented) demo_s7"
  by (rule funded_step [OF demo_s6_funded demo_step7 demo_accounts(4) demo_opening_presented])

lemma demo_s8_funded: "funded_reachable demo_cfg (set demo_presented) demo_s8"
proof (rule funded_step [OF demo_s7_funded demo_step8 demo_accounts(3)])
  show "argument_pres demo_cfg demo_s7 (Call_submit_proof demo_submission 4 2 600 demo_terms)
      \<subseteq> set demo_presented"
    using demo_accounts
    by (simp add: closing_pres_def demo_entries7 demo_submission_simps assignment_pres_def
        terms_pres_def demo_presented_def demo_terms_def)
qed

lemmas demo_s7_reachable = funded_is_reachable [OF demo_s7_funded]

lemmas demo_s8_reachable = funded_is_reachable [OF demo_s8_funded]

section \<open>An exit\<close>

definition demo_exit :: "Bank Storage" where
  "demo_exit = demo_s6\<lparr>Miners := [0 \<mapsto> demo_miner\<lparr>cm_status := Exiting 50\<rparr>],
     events := events demo_s6 @ [PrivateActivity], block_number := 50\<rparr>"

definition demo_leaving :: "Bank Storage" where
  "demo_leaving = demo_s6\<lparr>Miners := [0 \<mapsto> demo_miner\<lparr>cm_status := Exiting 50\<rparr>],
     events := events demo_s6 @ [PrivateActivity]\<rparr>"

lemma demo_leave:
  "dispatch demo_cfg (SignedOrigin 2) (Call_deactivate_miner 0) demo_s6 = (Inr (), demo_leaving)"
proof -
  have only: "Miners demo_s6 = [0 \<mapsto> demo_miner\<lparr>cm_status := Active\<rparr>]"
    by (simp add: demo_s6_def demo_s5_def)
  show ?thesis
    by (simp add: deactivate_miner_def try_mutate_miner_def guard_defs commitment_defs only
        remove_active_miner_def demo_counts demo_miner_def demo_leaving_def)
qed

lemma demo_exit_block: "demo_exit = demo_leaving\<lparr>block_number := 50\<rparr>" "block_number demo_leaving = 0"
  by (simp_all add: demo_exit_def demo_leaving_def demo_counts)

lemma demo_exit_funded: "funded_reachable demo_cfg (set demo_presented) demo_exit"
proof -
  from funded_step [OF demo_s6_funded demo_leave demo_accounts(2)]
  have "funded_reachable demo_cfg (set demo_presented) demo_leaving" by simp
  from funded_reachable.block [OF this, of 50] show ?thesis by (simp add: demo_exit_block)
qed

definition demo_left :: "Bank Storage" where
  "demo_left = snd (dispatch demo_cfg (SignedOrigin 2) (Call_withdraw_miner_bond 0) demo_exit)"

lemma demo_left_steps: "(pallet_step demo_cfg)\<^sup>*\<^sup>* demo_s6 demo_left"
proof -
  have leave: "pallet_step demo_cfg demo_s6 demo_leaving"
    using pallet_step.call [of demo_cfg demo_s6 "SignedOrigin 2" "Call_deactivate_miner 0"]
    by (simp add: demo_leave del: dispatch.simps)
  have wait: "pallet_step demo_cfg demo_leaving demo_exit"
    unfolding demo_exit_block(1) by (rule pallet_step.block) (simp add: demo_exit_block(2))
  have withdraw: "pallet_step demo_cfg demo_exit demo_left"
    unfolding demo_left_def by (rule pallet_step.call)
  show ?thesis
    by (rule converse_rtranclp_into_rtranclp, rule leave, rule converse_rtranclp_into_rtranclp,
        rule wait, rule r_into_rtranclp, rule withdraw)
qed

lemma demo_left_miner: "map_option cm_status (Miners demo_left 0) = Some Disabled"
proof -
  have "bank_held (currency demo_exit) MinerBond 2 = 150"
    by (simp add: demo_exit_def demo_s6_def demo_s5_def)
  then show ?thesis
    by (simp add: demo_left_def withdraw_miner_bond_def try_mutate_miner_def guard_defs commitment_defs
        demo_exit_def demo_entries locked_miner_bond_def release_for_def bank_currency_def bank_draw_def
        demo_miner_def)
qed

end
