(* ===== verification/Pallet_Properties.thy ===== *)
theory Pallet_Properties
  imports Pallet_Try_State Pallet_Liveness Pallet_Route Pallet_Lifecycle Pallet_Demo
begin

text \<open>
  The properties of the pallet: what holds of every storage that a chain can reach, how balances
  on hold relate to the records, and what the calls do.
\<close>

section \<open>Reachable storages\<close>

text \<open>
  C4: On every storage that a chain starting from an empty pallet can reach by calls, blocks and
  activity of other pallets, the consistency check \<open>try_state\<close> of the pallet succeeds.
\<close>

theorem reachable_try_state:
  assumes "pallet_reachable cfg s" and "config_ok cfg"
  shows "try_state cfg s = Inr ()"
  by (rule inv_try_state [OF reachable_inv [OF assms]])

theorem reachable_try_state_witness: "try_state demo_cfg demo_s8 = Inr ()"
  by (rule reachable_try_state [OF demo_s8_reachable demo_config_ok])

lemma status_counts_total:
  "requests_with Request_Pending s + requests_with Request_Settled s +
   requests_with Request_Cancelled s + requests_with Request_Rejected s +
   requests_with Request_Expired s = (\<Sum>r<RequestCount s. case InferenceRequests s r of
     None \<Rightarrow> 0 | Some q \<Rightarrow> 1)"
  unfolding requests_with_def sum.distrib [symmetric]
proof (rule sum.cong [OF refl])
  fix r
  show "has_status Request_Pending (InferenceRequests s r) +
      has_status Request_Settled (InferenceRequests s r) +
      has_status Request_Cancelled (InferenceRequests s r) +
      has_status Request_Rejected (InferenceRequests s r) +
      has_status Request_Expired (InferenceRequests s r) =
    (case InferenceRequests s r of None \<Rightarrow> 0 | Some q \<Rightarrow> 1)"
    by (cases "InferenceRequests s r"; simp) (metis InferenceRequestStatus.exhaust)
qed

lemma dense_card:
  assumes "dense reg n"
  shows "(\<Sum>r<n. case reg r of None \<Rightarrow> 0 | Some q \<Rightarrow> 1) = (n :: nat)"
proof -
  have "(\<Sum>r<n. case reg r of None \<Rightarrow> 0 | Some q \<Rightarrow> 1) = (\<Sum>r<n. (1 :: nat))"
    using assms by (intro sum.cong) (auto simp: dense_def split: option.splits)
  then show ?thesis by simp
qed

text \<open>
  In a reachable storage the proof records are exactly those of the settled requests, and the
  five status counters add up to the number of requests ever opened.
\<close>

theorem requests_accounted:
  assumes "pallet_reachable cfg s" and "config_ok cfg"
  shows "dom (ProofRecords s) =
      {r. \<exists>q. InferenceRequests s r = Some q \<and> cr_status q = Request_Settled} \<and>
    PendingInferenceRequestCount s + SettledInferenceRequestCount s +
      CancelledInferenceRequestCount s + RejectedInferenceRequestCount s +
      ExpiredInferenceRequestCount s = RequestCount s"
proof
  have inv: "pallet_inv cfg s" by (rule reachable_inv [OF assms])
  then have proofs: "proofs_ok s" and requests: "requests_ok s" by (simp_all add: pallet_inv_def)
  show "dom (ProofRecords s) =
      {r. \<exists>q. InferenceRequests s r = Some q \<and> cr_status q = Request_Settled}"
    using proofs unfolding proofs_ok_def by auto
  have "status_count st s = requests_with st s" for st using requests by (simp add: requests_ok_def)
  from this [of Request_Pending] this [of Request_Settled] this [of Request_Cancelled]
    this [of Request_Rejected] this [of Request_Expired]
  show "PendingInferenceRequestCount s + SettledInferenceRequestCount s +
      CancelledInferenceRequestCount s + RejectedInferenceRequestCount s +
      ExpiredInferenceRequestCount s = RequestCount s"
    using status_counts_total [of s] dense_card [OF inv_dense(4) [OF inv]] by simp
qed

theorem requests_accounted_witness:
  "dom (ProofRecords demo_s8) =
      {r. \<exists>q. InferenceRequests demo_s8 r = Some q \<and> cr_status q = Request_Settled} \<and>
   SettledInferenceRequestCount demo_s8 = 1"
  using requests_accounted [OF demo_s8_reachable demo_config_ok] by (simp add: demo_s8_def)

section \<open>Balances on hold\<close>

text \<open>The promises of the currency and of the digest on the preimages of a run.\<close>

abbreviation environment_ok where
  "environment_ok cfg K \<equiv>
     config_ok cfg \<and> fungible_laws (Currency cfg) \<and> inj_on (blake2_256 cfg) K"

lemma demo_environment_ok: "environment_ok demo_cfg (set demo_presented)"
  using demo_config_ok bank_laws demo_injective by simp

text \<open>
  C1: Payments are escrowed one to one.  In every storage of a run there is an assignment of an
  opening to each request such that the stored commitments of the request are those of its
  opening, and the payments on hold for an account are the payments of the pending requests that
  it opened, no more and no less.
\<close>

theorem payments_escrowed:
  assumes "funded_reachable cfg K s" and "environment_ok cfg K"
  shows "\<exists>op. (\<forall>r q. InferenceRequests s r = Some q \<longrightarrow> opened_by cfg K r q (op r)) \<and>
    (\<forall>u. balance_on_hold (Currency cfg) InferencePayment u (currency s) =
       pending_sum (payment_by u) op s)"
  using funded_inv [OF assms(1)] assms(2) by (auto simp: funds_inv_def requests_backed_def)

theorem payments_escrowed_witness:
  "\<exists>op. opened_by demo_cfg (set demo_presented) 0 demo_request (op 0) \<and>
     pending_sum (payment_by 4) op demo_s7 = 300"
proof -
  have "balance_on_hold (Currency demo_cfg) InferencePayment 4 (currency demo_s7) = 300"
    by (simp add: demo_s7_def bank_currency_def)
  with payments_escrowed [OF demo_s7_funded demo_environment_ok] demo_entries7(5)
  show ?thesis by metis
qed

text \<open>
  C2: Bonds and stakes are backed one to one.  In every storage of a run there is an owner for
  each miner and each validator, namely the account of its operator commitment, such that the
  bonds on hold for an account are the locked-bond records of the miners it operates, and its
  stakes on hold are the locked-stake records of its validators.
\<close>

theorem capital_records_backed:
  assumes "funded_reachable cfg K s" and "environment_ok cfg K"
  shows "\<exists>miner_owner validator_owner.
    (\<forall>i m. Miners s i = Some m \<longrightarrow> operator_known cfg K (cm_operator_commitment m) (miner_owner i)) \<and>
    (\<forall>i v. Validators s i = Some v \<longrightarrow>
       operator_known cfg K (cv_operator_commitment v) (validator_owner i)) \<and>
    (\<forall>u. held_miner_bond cfg s u =
       capital_total miner_owner (MinerCount s) (MinerLockedBond s) u) \<and>
    (\<forall>u. held_validator_stake cfg s u =
       capital_total validator_owner (ValidatorCount s) (ValidatorLockedStake s) u)"
  using funded_inv [OF assms(1)] assms(2)
  unfolding funds_inv_def capital_backed_def held_miner_bond_def held_validator_stake_def by blast

theorem capital_records_backed_witness:
  "\<exists>miner_owner. operator_known demo_cfg (set demo_presented) 17 (miner_owner 0) \<and>
     capital_total miner_owner 1 (MinerLockedBond demo_s7) 2 = 150"
proof -
  have "Miners demo_s7 0 = Some (demo_miner\<lparr>cm_status := Active\<rparr>)" "MinerCount demo_s7 = 1"
    "held_miner_bond demo_cfg demo_s7 2 = 150"
    by (simp_all add: demo_s7_def demo_s6_def demo_s5_def demo_s4_def demo_s3_def demo_s2_def
        held_miner_bond_def bank_currency_def)
  then show ?thesis
    using capital_records_backed [OF demo_s7_funded demo_environment_ok]
    by (force simp: demo_miner_def)
qed

text \<open>
  C7: The pending counters are the numbers of open assignments: for the openings that back the
  stored requests, the counter of a miner (a validator) is the number of pending requests whose
  opening assigns it, so a participant with an open assignment cannot leave.
\<close>

theorem pending_counters_exact:
  assumes "funded_reachable cfg K s" and "environment_ok cfg K"
  shows "\<exists>op. (\<forall>r q. InferenceRequests s r = Some q \<longrightarrow> opened_by cfg K r q (op r)) \<and>
    (\<forall>i. pending_of (PendingMinerRequests s) i = pending_sum (served_by i) op s) \<and>
    (\<forall>i. pending_of (PendingValidatorRequests s) i = pending_sum (validated_by i) op s)"
  using funded_inv [OF assms(1)] assms(2) unfolding funds_inv_def requests_backed_def by blast

theorem pending_counters_exact_witness:
  "\<exists>op. pending_sum (served_by 0) op demo_s7 = 1 \<and> pending_sum (validated_by 0) op demo_s7 = 1"
proof -
  have "pending_of (PendingMinerRequests demo_s7) 0 = 1"
    "pending_of (PendingValidatorRequests demo_s7) 0 = 1"
    by (simp_all add: demo_s7_def pending_of_def)
  with pending_counters_exact [OF demo_s7_funded demo_environment_ok] show ?thesis by metis
qed

section \<open>Calls\<close>

text \<open>
  Every call is atomic: a call that returns an error, at whatever point, leaves the whole
  storage as it was, including balances, counters and events.
\<close>

theorem failed_call_changes_nothing:
  assumes "fst (dispatch cfg origin call s) = Inl e"
  shows "snd (dispatch cfg origin call s) = s"
  using assms by (rule dispatch_atomic)

theorem failed_call_changes_nothing_witness:
  "snd (dispatch demo_cfg (SignedOrigin 3) (Call_activate_miner 0 150) demo_s4) = demo_s4"
proof (rule failed_call_changes_nothing)
  show "fst (dispatch demo_cfg (SignedOrigin 3) (Call_activate_miner 0 150) demo_s4) =
      Inl (err Error_NotOperator)"
    by (simp add: activate_miner_def try_mutate_miner_def guard_defs commitment_defs
        demo_miner_def demo_s2_def demo_s3_def demo_s4_def)
qed

text \<open>
  C8: Along any run a stored request is never removed and none of its commitments changes; only
  its status can, and once it is settled, cancelled, rejected or expired it stays so.  No request
  is therefore paid or refunded twice.
\<close>

theorem requests_final:
  assumes "pallet_reachable cfg s" and "config_ok cfg" and "(pallet_step cfg)\<^sup>*\<^sup>* s t"
    and "InferenceRequests s r = Some q"
  shows "\<exists>q'. InferenceRequests t r = Some q' \<and> q' = q\<lparr>cr_status := cr_status q'\<rparr> \<and>
    (cr_status q = Request_Pending \<or> q' = q)"
  using steps_keep [OF assms(3) reachable_inv [OF assms(1,2)] assms(2,4)]
  by (auto simp: request_kept_def)

theorem requests_final_witness:
  "\<exists>q'. InferenceRequests (snd (dispatch demo_cfg (SignedOrigin 4) (Call_cancel_inference 0 0 0 600
       \<lparr>created_at = 0, timing_blinding = 601\<rparr> demo_terms) demo_s8)) 0 = Some q' \<and>
     cr_status q' = Request_Settled"
proof -
  have q: "InferenceRequests demo_s8 0 = Some (demo_request\<lparr>cr_status := Request_Settled\<rparr>)"
    by (simp add: demo_s8_def)
  have "(pallet_step demo_cfg)\<^sup>*\<^sup>* demo_s8 (snd (dispatch demo_cfg (SignedOrigin 4)
      (Call_cancel_inference 0 0 0 600 \<lparr>created_at = 0, timing_blinding = 601\<rparr> demo_terms) demo_s8))"
    by (rule r_into_rtranclp, rule pallet_step.call)
  from requests_final [OF demo_s8_reachable demo_config_ok this q] show ?thesis by auto
qed

text \<open>
  With private event metadata every successful call, whatever it is, appends exactly one
  event and that is the uniform \<open>PrivateActivity\<close>, so the event log does not tell calls apart.
\<close>

theorem private_events:
  assumes "PrivateEventMetadata cfg" and "dispatch cfg origin call s = (Inr (), s')"
  shows "events s' = events s @ [PrivateActivity]"
  using dispatch_logs [OF assms(2)] assms(1) by (auto simp: logs_once_def)

theorem private_events_witness: "events demo_s8 = events demo_s7 @ [PrivateActivity]"
  by (rule private_events [OF _ demo_step8]) simp

text \<open>
  When call payloads are shielded, every call from an origin that the shield did not issue is
  refused with the same error before it reads anything, the root origin included; and the two
  slashing calls are refused from every origin.
\<close>

theorem shielded_calls_only:
  assumes "ShieldedCallPayloads cfg"
  shows "(ShieldedOrigin_try_origin cfg origin = None \<longrightarrow>
      dispatch cfg origin call s = (Inl (err Error_PublicCallPayloadDisallowed), s)) \<and>
    dispatch cfg origin (Call_slash_miner mid who bps) s =
      (Inl (err Error_PublicCallPayloadDisallowed), s) \<and>
    dispatch cfg origin (Call_slash_validator vid who bps) s =
      (Inl (err Error_PublicCallPayloadDisallowed), s)"
  using assms by (rule shielded_dispatch)

theorem shielded_calls_only_witness:
  "dispatch (demo_cfg\<lparr>ShieldedCallPayloads := True\<rparr>) (SignedOrigin 2) (Call_activate_miner 0 150)
     demo_s4 = (Inl (err Error_PublicCallPayloadDisallowed), demo_s4)"
  using shielded_calls_only [of "demo_cfg\<lparr>ShieldedCallPayloads := True\<rparr>" "SignedOrigin 2"
      "Call_activate_miner 0 150" demo_s4]
  by (simp add: demo_cfg_def)

section \<open>Refunds and withdrawals cannot be blocked\<close>

text \<open>
  C5: A request that is still pending when its delay has passed is always refundable.  In any
  storage of a run its owner can cancel it, and any signer can expire it for the owner, by
  presenting the openings of its commitments: neither call can fail, exactly the escrowed payment
  is released to the owner, and only the status of the request changes.
\<close>

theorem stale_request_refunded:
  assumes "funded_reachable cfg K s" and env: "environment_ok cfg K" "release_available (Currency cfg)"
    and q: "InferenceRequests s rid = Some q" "cr_status q = Request_Pending"
      "request_user_commitment_matches cfg (cr_user_commitment q) user"
      "ensure_request_assignment_witness cfg q mid vid b = Inr ()"
      "ensure_request_timing_witness cfg q tw = Inr ()"
      "ensure_request_terms_witness cfg q sw = Inr ()"
      "created_at tw + RequestCancelDelayBlocks cfg \<le> current_block s"
      "closing_pres s rid user mid vid b sw \<subseteq> K"
  shows "(ensure_payload_signer cfg origin = Inr user \<longrightarrow>
      (\<exists>s'. cancel_inference cfg origin rid mid vid b tw sw s = (Inr (), s') \<and>
         refunded cfg rid q Request_Cancelled user (payment (terms sw)) s s')) \<and>
    (ensure_payload_signer cfg origin = Inr keeper \<longrightarrow>
      (\<exists>s'. expire_inference cfg origin rid user mid vid b tw sw s = (Inr (), s') \<and>
         refunded cfg rid q Request_Expired user (payment (terms sw)) s s'))"
proof -
  have inv: "funds_inv cfg K s" "pallet_inv cfg s" "inj_on (blake2_256 cfg) K" "fungible_laws (Currency cfg)"
    using funded_inv [OF assms(1)] reachable_inv [OF funded_is_reachable [OF assms(1)]] env(1) by auto
  note run = stale_request_refundable [OF inv env(2) q]
  from run [of Request_Cancelled] run [of Request_Expired] obtain t t' where
    t: "close_stale_request cfg rid user mid vid b tw sw Request_Cancelled s = (Inr (), t)"
      "refunded cfg rid q Request_Cancelled user (payment (terms sw)) s t"
    and t': "close_stale_request cfg rid user mid vid b tw sw Request_Expired s = (Inr (), t')"
      "refunded cfg rid q Request_Expired user (payment (terms sw)) s t'" by blast
  from stale_request_calls [OF t(1) t'(1)] t(2) t'(2) show ?thesis by auto
qed

theorem stale_request_refunded_witness:
  "\<exists>s'. cancel_inference demo_cfg (SignedOrigin 4) 0 0 0 600 \<lparr>created_at = 0, timing_blinding = 601\<rparr>
       demo_terms (demo_s7\<lparr>block_number := 20\<rparr>) = (Inr (), s') \<and>
     refunded demo_cfg 0 demo_request Request_Cancelled 4 300 (demo_s7\<lparr>block_number := 20\<rparr>) s'"
proof -
  let ?s = "demo_s7\<lparr>block_number := 20\<rparr>"
  have run: "funded_reachable demo_cfg (set demo_presented) ?s"
    by (rule funded_reachable.block [OF demo_s7_funded]) (simp add: demo_entries7)
  have tw: "ensure_request_timing_witness demo_cfg demo_request \<lparr>created_at = 0, timing_blinding = 601\<rparr> =
      Inr ()"
    by (simp add: ensure_request_timing_witness_def demo_request_def commitment_defs guard_defs
        LEGACY_TIMING_BLINDING_def)
  have pres: "closing_pres ?s 0 4 0 0 600 demo_terms \<subseteq> set demo_presented"
    using demo_accounts
    by (simp add: closing_pres_def demo_entries7 demo_submission_simps assignment_pres_def
        terms_pres_def demo_presented_def demo_terms_def)
  have user: "request_user_commitment_matches demo_cfg (cr_user_commitment demo_request) 4"
    using demo_witnesses(3) by (simp add: pure_guards_ok)
  show ?thesis
    using stale_request_refunded [OF run demo_environment_ok _ _ _ user demo_witnesses(1) tw
        demo_witnesses(4) _ pres, of "SignedOrigin 4"] bank_release
    by (simp add: demo_entries7 demo_submission_simps current_block_def uint_max_def
        ensure_payload_signer_def ensure_signed_def)
qed

text \<open>
  C6: Once the cool-down of an exit is over, the operator can always take the capital out.  In
  any storage of a run the exiting miner has a locked-bond record, withdrawing cannot fail, it
  releases exactly that amount to the operator, removes the record and disables the miner; the
  same holds of an exiting validator and its stake.
\<close>

theorem capital_withdrawable:
  assumes "funded_reachable cfg K s" and "environment_ok cfg K" and "release_available (Currency cfg)"
    and "ensure_payload_signer cfg origin = Inr who" "account_pres who \<subseteq> K" "due \<le> current_block s"
  shows "(\<forall>i m. Miners s i = Some m \<and> cm_status m = Exiting due \<and>
        operator_commitment_matches cfg (cm_operator_commitment m) who \<longrightarrow>
      (\<exists>bond s'. MinerLockedBond s i = Some bond \<and> withdraw_miner_bond cfg origin i s = (Inr (), s') \<and>
         held_miner_bond cfg s who = held_miner_bond cfg s' who + bond \<and> MinerLockedBond s' i = None \<and>
         map_option cm_status (Miners s' i) = Some Disabled)) \<and>
    (\<forall>i v. Validators s i = Some v \<and> cv_status v = Exiting due \<and>
        operator_commitment_matches cfg (cv_operator_commitment v) who \<longrightarrow>
      (\<exists>stake s'. ValidatorLockedStake s i = Some stake \<and>
         withdraw_validator_stake cfg origin i s = (Inr (), s') \<and>
         held_validator_stake cfg s who = held_validator_stake cfg s' who + stake \<and>
         ValidatorLockedStake s' i = None \<and> map_option cv_status (Validators s' i) = Some Disabled))"
proof -
  have inv: "funds_inv cfg K s" "pallet_inv cfg s" "inj_on (blake2_256 cfg) K" "fungible_laws (Currency cfg)"
    using funded_inv [OF assms(1)] reachable_inv [OF funded_is_reachable [OF assms(1)]] assms(2) by auto
  from miner_bond_withdrawable [OF inv assms(3-6)] validator_stake_withdrawable [OF inv assms(3-6)]
  show ?thesis by blast
qed

theorem capital_withdrawable_witness:
  "\<exists>s'. withdraw_miner_bond demo_cfg (SignedOrigin 2) 0 demo_exit = (Inr (), s') \<and>
     held_miner_bond demo_cfg demo_exit 2 = held_miner_bond demo_cfg s' 2 + 150"
proof -
  have "Miners demo_exit 0 = Some (demo_miner\<lparr>cm_status := Exiting 50\<rparr>)"
    "MinerLockedBond demo_exit 0 = Some 150" "current_block demo_exit = 50"
    "operator_commitment_matches demo_cfg 17 2"
    by (simp_all add: demo_exit_def demo_entries current_block_def uint_max_def guard_defs
        commitment_defs)
  then show ?thesis
    using capital_withdrawable [OF demo_exit_funded demo_environment_ok _ _ demo_accounts(2),
        of "SignedOrigin 2" 50] bank_release
    by (force simp: demo_miner_def ensure_payload_signer_def ensure_signed_def)
qed

section \<open>Routing\<close>

text \<open>
  C9: The route search is sound and complete.  On a known subnet of a reachable storage it
  returns an assignment whose miner and validator are eligible and have different operators, and
  it returns none exactly when the subnet has no such pair, whatever the seed.
\<close>

theorem route_found_iff_pair:
  assumes "pallet_reachable cfg s" and "config_ok cfg"
    and "MaxActiveMinersPerSubnet cfg \<le> 2 ^ 31" "MaxActiveValidatorsPerSubnet cfg \<le> 2 ^ 31"
    and "Subnets s sid = Some c"
  shows "(\<forall>a. route_assignment cfg s sid rid blinding = Some a \<longrightarrow> assigns cfg s sid rid a) \<and>
    (route_assignment cfg s sid rid blinding = None \<longleftrightarrow>
      \<not> (\<exists>mid vid. serving_pair cfg s sid mid vid))"
proof -
  have inv: "pallet_inv cfg s" by (rule reachable_inv [OF assms(1,2)])
  then have cap: "capacity_ok cfg s" and subnets: "subnets_ok s" by (simp_all add: pallet_inv_def)
  have "2 * length (active_miner_route_ids cfg s sid) \<le> 2 ^ 32"
    "2 * length (active_validator_route_ids cfg s sid) \<le> 2 ^ 32"
    using cap assms(3,4) le_trans
    unfolding active_miner_ids(2) [OF inv_dense(1) [OF inv]]
      active_validator_ids(2) [OF inv_dense(2) [OF inv]] capacity_ok_def by fastforce+
  moreover have "cs_active c" using subnets assms(5) by (auto simp: subnets_ok_def)
  ultimately show ?thesis
    using route_assignment_search [OF inv_dense(1,2) [OF inv] _ _ assms(5)] by blast
qed

theorem route_found_iff_pair_witness:
  "serving_pair demo_cfg demo_s6 0 0 0 \<and>
   (\<exists>a. route_assignment demo_cfg demo_s6 0 5 601 = Some a \<and> assigns demo_cfg demo_s6 0 5 a)"
proof -
  note route = route_found_iff_pair [OF funded_is_reachable [OF demo_s6_funded] demo_config_ok _ _
      demo_entries(1)]
  have "assigns demo_cfg demo_s6 0 0
      \<lparr>as_request_id = 0, as_subnet_id = 0, as_miner_id = 0, as_validator_id = 0\<rparr>"
    using route [of 0 600] demo_route by simp
  then have "serving_pair demo_cfg demo_s6 0 0 0" by (simp add: assigns_def)
  moreover from this route [of 5 601] have "route_assignment demo_cfg demo_s6 0 5 601 \<noteq> None" by auto
  ultimately show ?thesis using route [of 5 601] by auto
qed

text \<open>
  No subnet ever has more eligible miners or validators than the configured capacity.
\<close>

theorem capacity_respected:
  assumes "pallet_reachable cfg s" and "config_ok cfg"
  shows "length (active_miner_route_ids cfg s sid) \<le> MaxActiveMinersPerSubnet cfg \<and>
    length (active_validator_route_ids cfg s sid) \<le> MaxActiveValidatorsPerSubnet cfg"
proof -
  have inv: "pallet_inv cfg s" by (rule reachable_inv [OF assms])
  then show ?thesis
    unfolding active_miner_ids(2) [OF inv_dense(1) [OF inv]]
      active_validator_ids(2) [OF inv_dense(2) [OF inv]]
    by (simp add: pallet_inv_def capacity_ok_def)
qed

theorem capacity_respected_witness:
  "length (active_miner_route_ids demo_cfg demo_s6 0) = 1 \<and>
   length (active_miner_route_ids demo_cfg demo_s6 0) \<le> 4"
  using capacity_respected [OF funded_is_reachable [OF demo_s6_funded] demo_config_ok, of 0]
    demo_miner_ids by simp

section \<open>Settlement\<close>

text \<open>
  The pallet splits a payment as the protocol crate does: whenever no 64-bit product
  overflows both succeed on the same fee rates with the same three parts, and the parts of a
  split always add up to the payment, rounding in favour of the miner.
\<close>

theorem payment_split_refines:
  "(p * 10000 < 2 ^ 64 \<longrightarrow>
      (payment_split p v t = Inr (m, vf, tf) \<longleftrightarrow>
       settle_inference_payment p v t =
         Inr \<lparr>miner_payment = m, validator_fee = vf, treasury_fee = tf\<rparr>)) \<and>
   (payment_split p v t = Inr (m, vf, tf) \<longrightarrow>
      m + vf + tf = p \<and> p * (10000 - (v + t)) div 10000 \<le> m)"
proof (intro conjI impI)
  assume fits: "p * 10000 < 2 ^ 64"
  have small: "p * x < 2 ^ 64" if "x \<le> 10000" for x
    using fits mult_le_mono2 [OF that, of p] by (rule le_less_trans [rotated])
  have big: "p * x < 2 ^ 128" if "x \<le> 10000" for x
    using small [OF that] by simp
  show "payment_split p v t = Inr (m, vf, tf) \<longleftrightarrow>
      settle_inference_payment p v t =
        Inr \<lparr>miner_payment = m, validator_fee = vf, treasury_fee = tf\<rparr>"
  proof (cases "v + t \<le> 10000")
    case True
    then have "p * v < 2 ^ 64" "p * t < 2 ^ 64" "p * v < 2 ^ 128" "p * t < 2 ^ 128"
      by (intro small big; simp)+
    with True show ?thesis
      unfolding pallet_split.split_fees_ok by (auto simp: settle_inference_payment_eq)
  next
    case False
    then show ?thesis
      unfolding pallet_split.split_fees_ok by (auto simp: settle_inference_payment_eq)
  qed
qed (auto intro: pallet_split.parts_sum pallet_split.rest_covers_share)

theorem payment_split_refines_witness:
  "payment_split 300 1000 500 = Inr (255, 30, 15) \<and>
   settle_inference_payment 300 1000 500 =
     Inr \<lparr>miner_payment = 255, validator_fee = 30, treasury_fee = 15\<rparr> \<and> (255::nat) + 30 + 15 = 300"
  using payment_split_refines [of 300 1000 500 255 30 15] demo_split by simp

text \<open>
  C3: A proof is paid once, exactly and to the right accounts.  A successful submission that the
  verifier accepts was fresh, matched the pending request and the model of the assigned active
  miner, and came from the operator of the assigned active validator, who is not the miner's
  operator; the parts of the payment add up to what the request committed to, exactly that amount
  leaves the escrow of the account that the request names as its owner and no other hold changes; the
  request is settled and its proof recorded.
\<close>

theorem accepted_proof_pays:
  assumes "submit_proof cfg origin sub user mop b sw s = (Inr (), s')"
    and "fungible_laws (Currency cfg)" and "\<forall>policy bps. ProofVerifier_verify cfg sub policy \<noteq> Inr (Invalid bps)"
  shows "\<exists>vop q m v mp vf tf c1 c2. ensure_payload_signer cfg origin = Inr vop \<and>
    submission_valid cfg sub b s q m v \<and>
    operator_commitment_matches cfg (cm_operator_commitment m) mop \<and>
    operator_commitment_matches cfg (cv_operator_commitment v) vop \<and>
    request_user_commitment_matches cfg (cr_user_commitment q) user \<and>
    ensure_request_terms_witness cfg q sw = Inr () \<and>
    mp + vf + tf = payment (terms sw) \<and>
    held_transfer cfg user mop mp (currency s) c1 \<and> held_transfer cfg user vop vf c1 c2 \<and>
    held_transfer cfg user (ProtocolTreasury cfg) tf c2 (currency s') \<and>
    (\<forall>r u. balance_on_hold (Currency cfg) r u (currency s) = balance_on_hold (Currency cfg) r u (currency s') +
       (if r = InferencePayment \<and> u = user then payment (terms sw) else 0)) \<and>
    InferenceRequests s' = (InferenceRequests s)(request_id sub \<mapsto> q\<lparr>cr_status := Request_Settled\<rparr>) \<and>
    ProofRecords s' (request_id sub) \<noteq> None"
  using assms(1)
proof (cases rule: submit_proof_ok)
  case (settled vop q m v policy x t ac)
  show ?thesis
  proof (rule settle_request_payment_ok [OF settled(6)])
    fix q2 m2 v2 mp vf tf c1 c2 c3
    assume q2: "InferenceRequests s (request_id sub) = Some q2"
      and owner: "request_user_commitment_matches cfg (cr_user_commitment q2) user"
      and wit: "ensure_request_terms_witness cfg q2 sw = Inr ()"
      and split: "payment_split (payment (terms sw)) (validator_fee_bps (terms sw))
        (treasury_fee_bps (terms sw)) = Inr (mp, vf, tf)"
      and transfers: "held_transfer cfg user mop mp (currency s) c1" "held_transfer cfg user vop vf c1 c2"
        "held_transfer cfg user (ProtocolTreasury cfg) tf c2 c3"
      and t: "t = finish (request_id sub) q2 Request_Settled (miner_id sub) (validator_id sub) c3 s"
    have "q2 = q" using q2 settled(2) by (simp add: submission_valid_def)
    moreover have "balance_on_hold (Currency cfg) r u (currency s) = balance_on_hold (Currency cfg) r u c3 +
        (if r = InferencePayment \<and> u = user then payment (terms sw) else 0)" for r u
      using held_transfer_rule [OF assms(2) transfers(1), of r u]
        held_transfer_rule [OF assms(2) transfers(2), of r u]
        held_transfer_rule [OF assms(2) transfers(3), of r u] pallet_split.parts_sum [OF split]
      by (auto split: if_splits)
    ultimately show ?thesis
      using settled(1-4,7) owner wit transfers t pallet_split.parts_sum [OF split]
      by (intro exI [of _ vop] exI [of _ q] exI [of _ m] exI [of _ v] exI [of _ mp] exI [of _ vf]
          exI [of _ tf] exI [of _ c1] exI [of _ c2]) simp
  qed
next
  case (rejected vop q m v policy bps x1 x2 x3 s1 s2 t)
  with assms(3) show ?thesis by blast
qed

theorem accepted_proof_pays_witness:
  "balance_on_hold (Currency demo_cfg) InferencePayment 4 (currency demo_s7) =
     balance_on_hold (Currency demo_cfg) InferencePayment 4 (currency demo_s8) + 300"
proof -
  have "submit_proof demo_cfg (SignedOrigin 3) demo_submission 4 2 600 demo_terms demo_s7 = (Inr (), demo_s8)"
    using demo_step8 by simp
  moreover have "\<forall>policy bps. ProofVerifier_verify demo_cfg sub policy \<noteq> Inr (Invalid bps)" for sub
    by (simp add: ShapeProofVerifier_verify_def bind_r_def ensure_r_def Let_def split: if_splits)
  ultimately show ?thesis
    using accepted_proof_pays [of demo_cfg "SignedOrigin 3" demo_submission 4 2 600 demo_terms demo_s7 demo_s8]
      bank_laws demo_submission_simps(7)
    by auto
qed

text \<open>
  C10: Commitments open.  After a request was opened through a route, its stored entry accepts the
  assignment of that route with the blinding of the call, the block of the call with its timing
  blinding, and the payment terms of the call with theirs, so whoever opened the request can later
  present them all.
\<close>

theorem opened_request_opens:
  assumes "request_inference_auto_route cfg origin rid p s = (Inr (), s')"
  shows "\<exists>user a q. ensure_payload_signer cfg origin = Inr user \<and>
    route_assignment cfg s (ap_subnet_id p) rid (ap_assignment_blinding p) = Some a \<and>
    InferenceRequests s' rid = Some q \<and> cr_status q = Request_Pending \<and>
    request_user_commitment_matches cfg (cr_user_commitment q) user \<and>
    ensure_request_assignment_witness cfg q (as_miner_id a) (as_validator_id a)
      (ap_assignment_blinding p) = Inr () \<and>
    ensure_request_timing_witness cfg q
      \<lparr>created_at = current_block s, timing_blinding = ap_timing_blinding p\<rparr> = Inr () \<and>
    ensure_request_terms_witness cfg q
      \<lparr>terms = \<lparr>payment = ap_payment p, validator_fee_bps = ap_validator_fee_bps p,
         treasury_fee_bps = ap_treasury_fee_bps p\<rparr>, terms_blinding = ap_terms_blinding p\<rparr> = Inr ()"
  using assms
proof (rule request_inference_auto_route_run)
  fix user
  assume signer: "ensure_payload_signer cfg origin = Inr user"
    and "route_and_open cfg user rid p s = (Inr (), s')"
  from this(2) show ?thesis
  proof (rule route_and_open_ok, goal_cases)
    case (1 a c m v subnet)
    let ?q = "new_request cfg user rid (as_miner_id a) (as_validator_id a) (current_block s) p"
    have "validate_fee_split (ap_validator_fee_bps p) (ap_treasury_fee_bps p) = Inr ()"
      using 1(7) by (simp add: pure_guards_ok)
    moreover have "InferenceRequests s' rid = Some ?q" by (simp add: 1(21) opened_def)
    ultimately show ?case
      using 1(1-6) signer
      by (intro exI [of _ user] exI [of _ a] exI [of _ ?q])
        (simp add: new_request_def ensure_request_assignment_witness_def ensure_r_def
          resolve_request_assignment_commitment_def ensure_request_timing_witness_def
          ensure_request_terms_witness_def request_user_commitment_matches_def bind_r_def Let_def
          LEGACY_ASSIGNMENT_BLINDING_def LEGACY_TIMING_BLINDING_def LEGACY_TERMS_BLINDING_def)
  qed
qed

theorem opened_request_opens_witness:
  "\<exists>q. InferenceRequests demo_s7 0 = Some q \<and> cr_status q = Request_Pending \<and>
     ensure_request_timing_witness demo_cfg q \<lparr>created_at = 0, timing_blinding = 601\<rparr> = Inr ()"
proof -
  have "request_inference_auto_route demo_cfg (SignedOrigin 4) 0 demo_params demo_s6 = (Inr (), demo_s7)"
    using demo_step7 by simp
  from opened_request_opens [OF this] show ?thesis
    by (auto simp: demo_params_def current_block_def demo_counts)
qed

section \<open>Slashing\<close>

lemma oversized_slash:
  assumes "Validators s i = Some v" and "operator_commitment_matches cfg (cv_operator_commitment v) who"
    and "ValidatorLockedStake s i = Some stake" and "2 ^ 64 \<le> stake * bps"
    and "MinInvalidProofSlashBps cfg \<le> bps" "bps \<le> MaxInvalidProofSlashBps cfg"
  shows "slash_validator_stake cfg i who bps s = (Inl (err Error_ArithmeticOverflow), s)"
proof -
  have "pro_rata_d stake bps = Inl (err Error_ArithmeticOverflow)"
    using assms(4) by (simp add: pro_rata_d_def checked_mul_def ok_or_r_def)
  moreover have "locked_validator_stake cfg s i who = Inr stake"
    using assms(3) by (simp add: locked_validator_stake_def)
  moreover have "ensure_validator_operator cfg v who = Inr ()"
    using assms(2) by (simp add: pure_guards_ok)
  ultimately show ?thesis
    using assms(1,5,6)
    by (simp add: slash_validator_stake_def ensure_slash_percent_def try_mutate_validator_def
        action_defs)
qed

text \<open>
  Slashing and 64-bit arithmetic.  When the largest bond times ten thousand fits into 64 bits,
  as with the production constants, every bond that a reachable storage records can be slashed by
  every admissible percentage without overflow.  A validator stake has no upper limit, and one
  whose product with the percentage does not fit cannot be slashed by it: the slash fails and
  takes nothing.
\<close>

theorem slash_overflow_bounds:
  assumes "pallet_reachable cfg s" and "config_ok cfg" and "MaxMinerBond cfg * 10000 < 2 ^ 64"
    and "MaxInvalidProofSlashBps cfg \<le> 10000"
    and bps: "MinInvalidProofSlashBps cfg \<le> bps" "bps \<le> MaxInvalidProofSlashBps cfg"
  shows "(MinerLockedBond s i = Some bond \<longrightarrow> pro_rata_d bond bps = Inr (bond * bps div 10000)) \<and>
    (Validators s j = Some v \<and> ValidatorLockedStake s j = Some stake \<and> 2 ^ 64 \<le> stake * bps \<and>
       operator_commitment_matches cfg (cv_operator_commitment v) who \<longrightarrow>
     slash_validator_stake cfg j who bps s = (Inl (err Error_ArithmeticOverflow), s))"
proof (intro conjI impI)
  assume bond: "MinerLockedBond s i = Some bond"
  have "bond \<le> MaxMinerBond cfg"
    using reachable_inv [OF assms(1,2)] bond by (auto simp: pallet_inv_def miners_ok_def)
  then have "bond * bps \<le> MaxMinerBond cfg * 10000" using assms(4) bps(2) by (intro mult_le_mono) simp_all
  with assms(3) show "pro_rata_d bond bps = Inr (bond * bps div 10000)" by (simp add: pure_guards_ok)
qed (use bps in \<open>auto intro: oversized_slash\<close>)

definition whale_bank :: Bank where
  "whale_bank = \<lparr>bank_free = (\<lambda>_. 100000000000000000), bank_held = (\<lambda>_ _. 0)\<rparr>"

definition demo_whale :: "Bank Storage" where
  "demo_whale = snd (dispatch demo_cfg (SignedOrigin 3) (Call_register_validator 0 20000000000000000)
     (snd (dispatch demo_cfg (SignedOrigin 1) (Call_create_subnet General RiscZeroStark)
       (genesis whale_bank))))"

theorem slash_overflow_bounds_witness:
  "pro_rata_d 150 2500 = Inr 37 \<and>
   slash_validator_stake demo_cfg 0 3 1000 demo_whale =
     (Inl (err Error_ArithmeticOverflow), demo_whale)"
proof -
  have whale: "Validators demo_whale 0 = Some demo_validator"
    "ValidatorLockedStake demo_whale 0 = Some 20000000000000000"
    by (simp_all add: demo_whale_def create_subnet_def register_validator_def guard_defs
        commitment_defs routing_defs whale_bank_def genesis_def bank_currency_def burn_free_def
        ensure_burned_can_record_def record_burned_def clear_burned_total_def next_subnet_id_def
        next_validator_id_def hold_for_def demo_validator_def)
  have reach: "pallet_reachable demo_cfg demo_whale"
    unfolding demo_whale_def
    by (intro pallet_reachable.step [OF _ pallet_step.call] pallet_reachable.start)
  have bond: "MinerLockedBond demo_s7 0 = Some 150" by (simp add: demo_s7_def demo_entries)
  have matches: "operator_commitment_matches demo_cfg (cv_operator_commitment demo_validator) 3"
    using demo_witnesses(6) by (simp add: pure_guards_ok)
  show ?thesis
    using slash_overflow_bounds [OF demo_s7_reachable demo_config_ok, of 2500 0 150]
      slash_overflow_bounds [OF reach demo_config_ok, of 1000 0 0 0 demo_validator 20000000000000000 3]
      bond whale matches by simp
qed

section \<open>Life cycles\<close>

text \<open>
  C33: The registries implement the life cycles of miners and validators.  Every step of the chain
  keeps every registered miner and validator with its operator, subnet and model, and moves its
  status along an edge of the abstract machine: nothing leaves a pending miner but activation,
  only an active or slashed one can start to leave, and only a leaving one whose cool-down is over
  becomes disabled.
\<close>

theorem life_cycle_refined:
  assumes "pallet_reachable cfg s" and "config_ok cfg" and "pallet_step cfg s s'"
  shows "(\<forall>i m. Miners s i = Some m \<longrightarrow> (\<exists>m'. Miners s' i = Some m' \<and> same_miner m m' \<and>
      miner_life (current_block s) (MinerExitCooldownBlocks cfg) (cm_status m) (cm_status m'))) \<and>
    (\<forall>i v. Validators s i = Some v \<longrightarrow> (\<exists>v'. Validators s' i = Some v' \<and> same_validator v v' \<and>
      validator_life (current_block s) (ValidatorExitCooldownBlocks cfg) (cv_status v) (cv_status v')))"
  using step_lives [OF assms(3) reachable_inv [OF assms(1,2)]] by (simp add: registry_lives_def)

theorem life_cycle_refined_witness:
  "\<exists>m'. Miners demo_leaving 0 = Some m' \<and> miner_life 0 50 Active (cm_status m')"
proof -
  have "current_block demo_s6 = 0" by (simp add: current_block_def demo_counts)
  moreover have "pallet_step demo_cfg demo_s6 demo_leaving"
    using pallet_step.call [of demo_cfg demo_s6 "SignedOrigin 2" "Call_deactivate_miner 0"]
    by (simp add: demo_leave del: dispatch.simps)
  ultimately show ?thesis
    using life_cycle_refined [OF funded_is_reachable [OF demo_s6_funded] demo_config_ok] demo_entries(2)
    by fastforce
qed

text \<open>
  Capital stays at stake for the whole cool-down.  Along any run, a miner that is active or
  slashed at some block and disabled (its bond withdrawn) at a later one has been so for at least
  the configured number of blocks; the same holds of a validator that had not begun to leave.
\<close>

theorem exit_takes_cooldown:
  assumes "pallet_reachable cfg s" and "config_ok cfg" and "(pallet_step cfg)\<^sup>*\<^sup>* s t"
  shows "(Miners s i = Some m \<and> (cm_status m = Active \<or> cm_status m = Slashed) \<and>
      Miners t i = Some m' \<and> cm_status m' = Disabled \<longrightarrow>
      current_block s + MinerExitCooldownBlocks cfg \<le> current_block t) \<and>
    (Validators s j = Some v \<and> (cv_status v = Pending \<or> cv_status v = Active \<or> cv_status v = Slashed) \<and>
      Validators t j = Some v' \<and> cv_status v' = Disabled \<longrightarrow>
      current_block s + ValidatorExitCooldownBlocks cfg \<le> current_block t)"
proof -
  note run = runs_not_left_before [OF assms(3) reachable_inv [OF assms(1,2)] assms(2)]
  have "current_block s + MinerExitCooldownBlocks cfg \<le> current_block t"
    if m: "Miners s i = Some m" "cm_status m = Active \<or> cm_status m = Slashed"
      "Miners t i = Some m'" "cm_status m' = Disabled"
  proof -
    have "not_left_before (current_block s + MinerExitCooldownBlocks cfg) (current_block s) (cm_status m)"
      using m(2) by auto
    with run m(1) obtain m2 where "Miners t i = Some m2"
      "not_left_before (current_block s + MinerExitCooldownBlocks cfg) (current_block t) (cm_status m2)"
      by blast
    with m(3,4) show ?thesis by simp
  qed
  moreover have "current_block s + ValidatorExitCooldownBlocks cfg \<le> current_block t"
    if v: "Validators s j = Some v" "cv_status v = Pending \<or> cv_status v = Active \<or> cv_status v = Slashed"
      "Validators t j = Some v'" "cv_status v' = Disabled"
  proof -
    have "not_left_before (current_block s + ValidatorExitCooldownBlocks cfg) (current_block s) (cv_status v)"
      using v(2) by auto
    with run v(1) obtain v2 where "Validators t j = Some v2"
      "not_left_before (current_block s + ValidatorExitCooldownBlocks cfg) (current_block t) (cv_status v2)"
      by blast
    with v(3,4) show ?thesis by simp
  qed
  ultimately show ?thesis by blast
qed

theorem exit_takes_cooldown_witness: "50 \<le> current_block demo_left"
proof -
  obtain m' where "Miners demo_left 0 = Some m'" "cm_status m' = Disabled" using demo_left_miner by auto
  then show ?thesis
    using exit_takes_cooldown [OF funded_is_reachable [OF demo_s6_funded] demo_config_ok demo_left_steps,
        of 0 "demo_miner\<lparr>cm_status := Active\<rparr>" m'] demo_entries(2)
    by (simp add: current_block_def demo_counts)
qed

end
