(* ===== verification/Runtime_Config.thy ===== *)
theory Runtime_Config
  imports Pallet_Behaviour
begin

text \<open>
  The configuration of the Qubitum pallet in the production runtime, \<^verbatim>\<open>runtime/src/lib.rs\<close>.  The
  currency, the digest and the treasury account, which is derived from a pallet identifier, are
  arguments.  The cool-downs are the production values of \<open>prod_or_fast\<close>, and the verifiers are
  those of a build without benchmarks.
\<close>

definition QubitumSubnetCreationBurn :: Balance where
  "QubitumSubnetCreationBurn = 10000000000"

definition QubitumMinerRegistrationBurn :: Balance where
  "QubitumMinerRegistrationBurn = 10000000000"

definition QubitumMinMinerBond :: Balance where
  "QubitumMinMinerBond = 100000000000"

definition QubitumMaxMinerBond :: Balance where
  "QubitumMaxMinerBond = 10000000000000"

definition QubitumMaxActiveMinersPerSubnet :: nat where
  "QubitumMaxActiveMinersPerSubnet = 4096"

definition QubitumMaxActiveValidatorsPerSubnet :: nat where
  "QubitumMaxActiveValidatorsPerSubnet = 4096"

definition QubitumMinValidatorStake :: Balance where
  "QubitumMinValidatorStake = 100000000000"

definition QubitumMaxProofSubmissionAgeBlocks :: BlockNumber where
  "QubitumMaxProofSubmissionAgeBlocks = 50"

definition QubitumMinerExitCooldownBlocks :: BlockNumber where
  "QubitumMinerExitCooldownBlocks = 7 * 24 * 60 * 60 div 12"

definition QubitumValidatorExitCooldownBlocks :: BlockNumber where
  "QubitumValidatorExitCooldownBlocks = 7 * 24 * 60 * 60 div 12"

definition QubitumRequestCancelDelayBlocks :: BlockNumber where
  "QubitumRequestCancelDelayBlocks = 50"

definition EnsureShieldedQubitumOrigin_try_origin :: "RuntimeOrigin \<Rightarrow> AccountId option" where
  "EnsureShieldedQubitumOrigin_try_origin origin =
     (case origin of ShieldedPayload who \<Rightarrow> Some who | _ \<Rightarrow> None)"

definition Config_for_Runtime ::
  "'cur FungibleHold \<Rightarrow> (preimage \<Rightarrow> Commitment) \<Rightarrow> AccountId \<Rightarrow> 'cur Config" where
  "Config_for_Runtime Balances blake2 QubitumProtocolTreasury = \<lparr>
     Currency = Balances,
     SubnetCreationBurn = QubitumSubnetCreationBurn,
     MinerRegistrationBurn = QubitumMinerRegistrationBurn,
     MinMinerBond = QubitumMinMinerBond,
     MaxMinerBond = QubitumMaxMinerBond,
     MaxActiveMinersPerSubnet = QubitumMaxActiveMinersPerSubnet,
     MaxActiveValidatorsPerSubnet = QubitumMaxActiveValidatorsPerSubnet,
     MinValidatorStake = QubitumMinValidatorStake,
     MinInvalidProofSlashBps = MIN_INVALID_PROOF_SLASH_BPS,
     MaxInvalidProofSlashBps = MAX_INVALID_PROOF_SLASH_BPS,
     MinProofSizeBytes = TARGET_PROOF_SIZE_MIN_BYTES,
     MaxProofSizeBytes = TARGET_PROOF_SIZE_MAX_BYTES,
     MaxVerificationLatencyMs = TARGET_VERIFICATION_MS,
     MaxProofSubmissionAgeBlocks = QubitumMaxProofSubmissionAgeBlocks,
     Config_SignatureMode = FullPostQuantum,
     IdentitySignatureVerifier_mode = IdentityFailClosed,
     IdentitySignatureVerifier_verify = FailClosedIdentitySignatureVerifier_verify,
     ShieldedCallPayloads = True,
     ShieldedCallPayloadExecution = True,
     PrivateEventMetadata = True,
     ShieldedOrigin_try_origin = EnsureShieldedQubitumOrigin_try_origin,
     ProofVerifier_mode = ProofFailClosed,
     ProofVerifier_verify = FailClosedProofVerifier_verify,
     ProtocolTreasury = QubitumProtocolTreasury,
     MinerExitCooldownBlocks = QubitumMinerExitCooldownBlocks,
     ValidatorExitCooldownBlocks = QubitumValidatorExitCooldownBlocks,
     RequestCancelDelayBlocks = QubitumRequestCancelDelayBlocks,
     blake2_256 = blake2\<rparr>"

lemma runtime_config_ok: "config_ok (Config_for_Runtime cur h tr)"
  by (simp add: config_ok_def Config_for_Runtime_def QubitumMaxActiveMinersPerSubnet_def
      QubitumMaxActiveValidatorsPerSubnet_def)

end
