(* ===== verification/Runtime_Properties.thy ===== *)
theory Runtime_Properties
  imports Runtime_Config Pallet_Demo
begin

text \<open>
  What the production configuration makes of the pallet: which storages its chains can reach.
\<close>

text \<open>
  C34: The production runtime is closed.  In every storage it can reach no request was ever
  opened, no proof recorded, no miner bond locked, and no miner or validator is active; and every
  call from any origin other than a decrypted shielded payload is refused.
\<close>

theorem production_runtime_closed:
  assumes "pallet_reachable (Config_for_Runtime cur h tr) s"
  shows "InferenceRequests s = Map.empty \<and> ProofRecords s = Map.empty \<and> MinerLockedBond s = Map.empty \<and>
    (\<forall>i m. Miners s i = Some m \<longrightarrow> cm_status m = Pending) \<and>
    (\<forall>i v. Validators s i = Some v \<longrightarrow> cv_status v \<noteq> Active) \<and>
    (\<forall>origin call. (\<forall>who. origin \<noteq> ShieldedPayload who) \<longrightarrow>
       dispatch (Config_for_Runtime cur h tr) origin call s =
         (Inl (err Error_PublicCallPayloadDisallowed), s))"
proof -
  let ?cfg = "Config_for_Runtime cur h tr"
  have "dormant s" by (rule dormant_reachable [OF assms]) (simp add: Config_for_Runtime_def)
  moreover have "proofs_ok s"
    using reachable_inv [OF assms runtime_config_ok] by (simp add: pallet_inv_def)
  moreover have "dispatch ?cfg origin call s = (Inl (err Error_PublicCallPayloadDisallowed), s)"
    if "\<forall>who. origin \<noteq> ShieldedPayload who" for origin call
  proof -
    have "ShieldedOrigin_try_origin ?cfg origin = None"
      using that by (cases origin)
        (simp_all add: Config_for_Runtime_def EnsureShieldedQubitumOrigin_try_origin_def)
    then show ?thesis using shielded_dispatch [of ?cfg origin call s] by (simp add: Config_for_Runtime_def)
  qed
  ultimately show ?thesis by (auto simp: dormant_def proofs_ok_def)
qed

abbreviation demo_runtime :: "Bank Config" where
  "demo_runtime \<equiv> Config_for_Runtime bank_currency demo_hash 9"

definition rich_bank :: Bank where
  "rich_bank = \<lparr>bank_free = (\<lambda>_. 1000000000000), bank_held = (\<lambda>_ _. 0)\<rparr>"

definition demo_staked :: "Bank Storage" where
  "demo_staked = snd (dispatch demo_runtime (ShieldedPayload 3) (Call_register_validator 0 100000000000)
     (snd (dispatch demo_runtime (ShieldedPayload 1) (Call_create_subnet General RiscZeroStark)
       (genesis rich_bank))))"

lemma demo_staked_reachable: "pallet_reachable demo_runtime demo_staked"
  unfolding demo_staked_def
  by (intro pallet_reachable.step [OF _ pallet_step.call] pallet_reachable.start)

lemma demo_staked_validator:
  "map_option cv_status (Validators demo_staked 0) = Some Pending"
  "ValidatorLockedStake demo_staked 0 = Some 100000000000"
  by (simp_all add: demo_staked_def create_subnet_def register_validator_def guard_defs
      commitment_defs routing_defs Config_for_Runtime_def EnsureShieldedQubitumOrigin_try_origin_def
      rich_bank_def genesis_def bank_currency_def burn_free_def ensure_burned_can_record_def
      record_burned_def clear_burned_total_def next_subnet_id_def next_validator_id_def hold_for_def
      QubitumSubnetCreationBurn_def QubitumMinValidatorStake_def
      QubitumMaxActiveValidatorsPerSubnet_def)

theorem production_runtime_closed_witness:
  "ValidatorLockedStake demo_staked 0 = Some 100000000000 \<and> InferenceRequests demo_staked = Map.empty \<and>
   dispatch demo_runtime RootOrigin (Call_slash_validator 0 3 1000) demo_staked =
     (Inl (err Error_PublicCallPayloadDisallowed), demo_staked)"
  using production_runtime_closed [OF demo_staked_reachable] demo_staked_validator(2)
  by (simp del: dispatch.simps)

end
