(* ===== verification/Shield_Pallet.thy ===== *)
theory Shield_Pallet
  imports Pallet_Commitments
begin

text \<open>
  The shield pallet, \<^verbatim>\<open>pallets/shield/src/lib.rs\<close> and \<^verbatim>\<open>extension.rs\<close>: the rotation of the block authors'
  encryption keys, the acceptance of encrypted wrappers, and the storage of the queue of encrypted
  calls.  How the queue is worked off is in \<open>Shield_Queue\<close>, which needs the runtime's calls.

  Parsing of a wrapper, the ciphertext format of the key encapsulation, the key length and the
  hash come from other crates and are the fields of \<open>ShieldCrypto\<close>.  The block number is an
  argument.
\<close>

section \<open>Data\<close>

type_synonym u8 = "8 word"
type_synonym bytes = "u8 list"
type_synonym AuthorityId = nat

record ShieldedTransaction =
  key_hash :: bytes
  kem_ct :: bytes
  nonce :: bytes
  aead_ct :: bytes

record ShieldCrypto =
  ShieldedTransaction_parse :: "bytes \<Rightarrow> ShieldedTransaction option"
  MlKem768_ciphertext_ok :: "bytes \<Rightarrow> bool"
  MLKEM768_ENC_KEY_LEN :: nat
  twox_128 :: "bytes \<Rightarrow> bytes"

record PendingExtrinsic =
  px_who :: AccountId
  px_encrypted_call :: bytes
  px_submitted_at :: BlockNumber

datatype ShieldError =
    Shield_BadEncKeyLen
  | Shield_BadCiphertext
  | Shield_InvalidShieldedTxPubKeyHash
  | Shield_Unreachable
  | Shield_TooManyPendingExtrinsics
  | Shield_WeightExceedsAbsoluteMax
  | Shield_RecursiveShieldCall
  | Shield_BadOrigin

datatype 'e ShieldEvent =
    EncryptedSubmitted
  | ExtrinsicStored nat
  | ExtrinsicDecodeFailed nat
  | ExtrinsicDispatchFailed nat "ShieldError + 'e"
  | ExtrinsicDispatched nat
  | ExtrinsicExpired nat
  | ExtrinsicPostponed nat
  | MaxPendingExtrinsicsNumberSet nat
  | OnInitializeWeightSet nat
  | ExtrinsicLifetimeSet nat
  | MaxExtrinsicWeightSet nat
  | ExtrinsicWeightExceeded nat

text \<open>\<open>PendingExtrinsics\<close> is a counted map: its counter is the field after it.\<close>

record 'e ShieldStorage =
  CurrentKey :: "bytes option"
  PendingKey :: "bytes option"
  NextKey :: "bytes option"
  AuthorKeys :: "AuthorityId \<rightharpoonup> bytes"
  PendingKeyExpiresAt :: "BlockNumber option"
  NextKeyExpiresAt :: "BlockNumber option"
  MaxPendingExtrinsicsLimit :: nat
  ExtrinsicLifetime :: nat
  OnInitializeWeight :: nat
  MaxExtrinsicWeight :: nat
  PendingExtrinsics :: "nat \<rightharpoonup> PendingExtrinsic"
  PendingExtrinsics_count :: nat
  NextPendingExtrinsicIndex :: nat
  shield_events :: "'e ShieldEvent list"

definition MIN_AEAD_CIPHERTEXT_LEN :: nat where
  "MIN_AEAD_CIPHERTEXT_LEN = 16"

definition DefaultMaxPendingExtrinsics :: nat where
  "DefaultMaxPendingExtrinsics = 100"

definition DEFAULT_EXTRINSIC_LIFETIME :: nat where
  "DEFAULT_EXTRINSIC_LIFETIME = 10"

definition DEFAULT_ON_INITIALIZE_WEIGHT :: nat where
  "DEFAULT_ON_INITIALIZE_WEIGHT = 500000000000"

definition MAX_ON_INITIALIZE_WEIGHT :: nat where
  "MAX_ON_INITIALIZE_WEIGHT = 2000000000000"

definition DEFAULT_MAX_EXTRINSIC_WEIGHT :: nat where
  "DEFAULT_MAX_EXTRINSIC_WEIGHT = 50000000000"

definition shield_genesis :: "'e ShieldStorage" where
  "shield_genesis = \<lparr>
     CurrentKey = None, PendingKey = None, NextKey = None, AuthorKeys = Map.empty,
     PendingKeyExpiresAt = None, NextKeyExpiresAt = None,
     MaxPendingExtrinsicsLimit = DefaultMaxPendingExtrinsics,
     ExtrinsicLifetime = DEFAULT_EXTRINSIC_LIFETIME,
     OnInitializeWeight = DEFAULT_ON_INITIALIZE_WEIGHT,
     MaxExtrinsicWeight = DEFAULT_MAX_EXTRINSIC_WEIGHT,
     PendingExtrinsics = Map.empty, PendingExtrinsics_count = 0,
     NextPendingExtrinsicIndex = 0, shield_events = []\<rparr>"

type_synonym ('e, 'a) shield = "('e ShieldStorage, ShieldError, 'a) action"

definition shield_deposit_event :: "'e ShieldEvent \<Rightarrow> 'e ShieldStorage \<Rightarrow> 'e ShieldStorage" where
  "shield_deposit_event ev s = s\<lparr>shield_events := shield_events s @ [ev]\<rparr>"

definition pending_insert :: "nat \<Rightarrow> PendingExtrinsic \<Rightarrow> 'e ShieldStorage \<Rightarrow> 'e ShieldStorage" where
  "pending_insert i p s = s\<lparr>
     PendingExtrinsics_count :=
       (if PendingExtrinsics s i = None then saturating_add 32 (PendingExtrinsics_count s) 1
        else PendingExtrinsics_count s),
     PendingExtrinsics := (PendingExtrinsics s)(i \<mapsto> p)\<rparr>"

definition pending_remove :: "nat \<Rightarrow> 'e ShieldStorage \<Rightarrow> 'e ShieldStorage" where
  "pending_remove i s = s\<lparr>
     PendingExtrinsics_count :=
       (if PendingExtrinsics s i = None then PendingExtrinsics_count s
        else saturating_sub (PendingExtrinsics_count s) 1),
     PendingExtrinsics := (PendingExtrinsics s)(i := None)\<rparr>"

text \<open>The account of a signed origin, as FRAME's \<open>ensure_signed\<close> finds it.\<close>

definition signer_of :: "RuntimeOrigin \<Rightarrow> AccountId option" where
  "signer_of origin = (case origin of SignedOrigin who \<Rightarrow> Some who | _ \<Rightarrow> None)"

lemma signer_of_Some [simp]: "signer_of origin = Some who \<longleftrightarrow> origin = SignedOrigin who"
  by (cases origin) (simp_all add: signer_of_def)

section \<open>Wrappers\<close>

definition parse_valid_submit_encrypted_ciphertext ::
  "ShieldCrypto \<Rightarrow> bytes \<Rightarrow> ShieldedTransaction option" where
  "parse_valid_submit_encrypted_ciphertext cr ciphertext =
     (case ShieldedTransaction_parse cr ciphertext of
        None \<Rightarrow> None
      | Some tx \<Rightarrow>
          if \<not> MlKem768_ciphertext_ok cr (kem_ct tx) then None
          else if MIN_AEAD_CIPHERTEXT_LEN \<le> length (aead_ct tx) then Some tx else None)"

definition is_shielded_using_current_key ::
  "ShieldCrypto \<Rightarrow> 'e ShieldStorage \<Rightarrow> bytes \<Rightarrow> bool" where
  "is_shielded_using_current_key cr s hash \<longleftrightarrow>
     map_option (twox_128 cr) (PendingKey s) = Some hash"

definition submit_encrypted ::
  "ShieldCrypto \<Rightarrow> RuntimeOrigin \<Rightarrow> bytes \<Rightarrow> ('e, unit) shield" where
  "submit_encrypted cr origin ciphertext = transactional (
     and_then (ok_or (signer_of origin) Shield_BadOrigin) (\<lambda>_.
     and_then (ok_or (parse_valid_submit_encrypted_ciphertext cr ciphertext) Shield_BadCiphertext)
       (\<lambda>tx.
     and_then (require (\<lambda>s. is_shielded_using_current_key cr s (key_hash tx))
       Shield_InvalidShieldedTxPubKeyHash) (\<lambda>_.
     modify (shield_deposit_event EncryptedSubmitted)))))"

datatype ShieldTxError = FailedShieldedTxParsing | InvalidShieldedTxPubKeyHash

text \<open>The check of the transaction extension, made in \<open>validate\<close> and again in \<open>prepare\<close>, of a
  call that is \<open>submit_encrypted\<close>.\<close>

definition CheckShieldedTxValidity_check ::
  "ShieldCrypto \<Rightarrow> 'e ShieldStorage \<Rightarrow> bytes \<Rightarrow> ShieldTxError + unit" where
  "CheckShieldedTxValidity_check cr s ciphertext =
     bind_r (ok_or_r (parse_valid_submit_encrypted_ciphertext cr ciphertext) FailedShieldedTxParsing)
       (\<lambda>tx. ensure_r (is_shielded_using_current_key cr s (key_hash tx)) InvalidShieldedTxPubKeyHash)"

section \<open>Key rotation\<close>

text \<open>The block authors of the round-robin schedule: the slot comes from the digests of the block
  header and is an argument.  Remainder by the length of an empty authority list is a panic of the
  source, the value \<open>Inl ()\<close>.\<close>

definition author_at :: "nat \<Rightarrow> AuthorityId list \<Rightarrow> unit + AuthorityId option" where
  "author_at slot authorities =
     (if authorities = [] then Inl ()
      else let i = slot mod length authorities
           in Inr (if i < length authorities then Some (authorities ! i) else None))"

definition find_current_author ::
  "nat option \<Rightarrow> AuthorityId list \<Rightarrow> unit + AuthorityId option" where
  "find_current_author slot authorities =
     (case slot of None \<Rightarrow> Inr None | Some n \<Rightarrow> author_at n authorities)"

definition find_next_next_author ::
  "nat option \<Rightarrow> AuthorityId list \<Rightarrow> unit + AuthorityId option" where
  "find_next_next_author slot authorities =
     (case Option.bind slot (\<lambda>n. checked_add 64 n 2) of
        None \<Rightarrow> Inr None
      | Some n \<Rightarrow> author_at n authorities)"

text \<open>The inherent of every block.  The two authors are what the configured \<open>FindAuthors\<close>
  returns in that block.\<close>

definition announce_next_key ::
  "ShieldCrypto \<Rightarrow> AuthorityId option \<Rightarrow> AuthorityId option \<Rightarrow> BlockNumber \<Rightarrow> RuntimeOrigin \<Rightarrow>
   bytes option \<Rightarrow> ('e, unit) shield" where
  "announce_next_key cr current next_next now origin enc_key = transactional (
     and_then (ensure (origin = UnsignedOrigin) Shield_BadOrigin) (\<lambda>_.
     and_then (ok_or current Shield_Unreachable) (\<lambda>author.
     and_then (modify (\<lambda>s. s\<lparr>CurrentKey := PendingKey s, PendingKey := None\<rparr>)) (\<lambda>_.
     and_then (modify (\<lambda>s. s\<lparr>PendingKey := NextKey s, NextKey := None\<rparr>)) (\<lambda>_.
     and_then (modify (\<lambda>s. s\<lparr>NextKey := Option.bind next_next (AuthorKeys s)\<rparr>)) (\<lambda>_.
     and_then (case enc_key of
         Some key \<Rightarrow>
           and_then (ensure (length key = MLKEM768_ENC_KEY_LEN cr) Shield_BadEncKeyLen) (\<lambda>_.
           modify (\<lambda>s. s\<lparr>AuthorKeys := (AuthorKeys s)(author \<mapsto> key)\<rparr>))
       | None \<Rightarrow> modify (\<lambda>s. s\<lparr>AuthorKeys := (AuthorKeys s)(author := None)\<rparr>)) (\<lambda>_.
     and_then (modify (\<lambda>s. s\<lparr>PendingKeyExpiresAt :=
       (if PendingKey s \<noteq> None then Some (now + 2) else None)\<rparr>)) (\<lambda>_.
     modify (\<lambda>s. s\<lparr>NextKeyExpiresAt :=
       (if NextKey s \<noteq> None then Some (now + 3) else None)\<rparr>)))))))))"

section \<open>The queue and its parameters\<close>

definition store_encrypted :: "BlockNumber \<Rightarrow> RuntimeOrigin \<Rightarrow> bytes \<Rightarrow> ('e, unit) shield" where
  "store_encrypted now origin encrypted_call = transactional (
     and_then (ok_or (signer_of origin) Shield_BadOrigin) (\<lambda>who.
     and_then (require (\<lambda>s. PendingExtrinsics_count s < MaxPendingExtrinsicsLimit s)
       Shield_TooManyPendingExtrinsics) (\<lambda>_.
     and_then (gets NextPendingExtrinsicIndex) (\<lambda>index.
     and_then (modify (pending_insert index
       \<lparr>px_who = who, px_encrypted_call = encrypted_call, px_submitted_at = now\<rparr>)) (\<lambda>_.
     and_then (modify (\<lambda>s. s\<lparr>NextPendingExtrinsicIndex := saturating_add 32 index 1\<rparr>)) (\<lambda>_.
     modify (shield_deposit_event (ExtrinsicStored index))))))))"

definition set_max_pending_extrinsics_number :: "RuntimeOrigin \<Rightarrow> nat \<Rightarrow> ('e, unit) shield" where
  "set_max_pending_extrinsics_number origin v = transactional (
     and_then (ensure (origin = RootOrigin) Shield_BadOrigin) (\<lambda>_.
     and_then (modify (\<lambda>s. s\<lparr>MaxPendingExtrinsicsLimit := v\<rparr>)) (\<lambda>_.
     modify (shield_deposit_event (MaxPendingExtrinsicsNumberSet v)))))"

definition set_on_initialize_weight :: "RuntimeOrigin \<Rightarrow> nat \<Rightarrow> ('e, unit) shield" where
  "set_on_initialize_weight origin v = transactional (
     and_then (ensure (origin = RootOrigin) Shield_BadOrigin) (\<lambda>_.
     and_then (ensure (v \<le> MAX_ON_INITIALIZE_WEIGHT) Shield_WeightExceedsAbsoluteMax) (\<lambda>_.
     and_then (modify (\<lambda>s. s\<lparr>OnInitializeWeight := v\<rparr>)) (\<lambda>_.
     modify (shield_deposit_event (OnInitializeWeightSet v))))))"

definition set_stored_extrinsic_lifetime :: "RuntimeOrigin \<Rightarrow> nat \<Rightarrow> ('e, unit) shield" where
  "set_stored_extrinsic_lifetime origin v = transactional (
     and_then (ensure (origin = RootOrigin) Shield_BadOrigin) (\<lambda>_.
     and_then (modify (\<lambda>s. s\<lparr>ExtrinsicLifetime := v\<rparr>)) (\<lambda>_.
     modify (shield_deposit_event (ExtrinsicLifetimeSet v)))))"

definition set_max_extrinsic_weight :: "RuntimeOrigin \<Rightarrow> nat \<Rightarrow> ('e, unit) shield" where
  "set_max_extrinsic_weight origin v = transactional (
     and_then (ensure (origin = RootOrigin) Shield_BadOrigin) (\<lambda>_.
     and_then (ensure (v \<le> MAX_ON_INITIALIZE_WEIGHT) Shield_WeightExceedsAbsoluteMax) (\<lambda>_.
     and_then (modify (\<lambda>s. s\<lparr>MaxExtrinsicWeight := v\<rparr>)) (\<lambda>_.
     modify (shield_deposit_event (MaxExtrinsicWeightSet v))))))"

datatype ShieldCall =
    Shield_announce_next_key "bytes option"
  | Shield_submit_encrypted bytes
  | Shield_store_encrypted bytes
  | Shield_set_max_pending_extrinsics_number nat
  | Shield_set_on_initialize_weight nat
  | Shield_set_stored_extrinsic_lifetime nat
  | Shield_set_max_extrinsic_weight nat

text \<open>What the pallet learns about the block it is in.\<close>

record ShieldBlock =
  sb_now :: BlockNumber
  sb_author :: "AuthorityId option"
  sb_next_next :: "AuthorityId option"

fun shield_dispatch ::
  "ShieldCrypto \<Rightarrow> ShieldBlock \<Rightarrow> RuntimeOrigin \<Rightarrow> ShieldCall \<Rightarrow> ('e, unit) shield" where
  "shield_dispatch cr b origin (Shield_announce_next_key k) =
     announce_next_key cr (sb_author b) (sb_next_next b) (sb_now b) origin k"
| "shield_dispatch cr b origin (Shield_submit_encrypted c) = submit_encrypted cr origin c"
| "shield_dispatch cr b origin (Shield_store_encrypted c) = store_encrypted (sb_now b) origin c"
| "shield_dispatch cr b origin (Shield_set_max_pending_extrinsics_number v) =
     set_max_pending_extrinsics_number origin v"
| "shield_dispatch cr b origin (Shield_set_on_initialize_weight v) = set_on_initialize_weight origin v"
| "shield_dispatch cr b origin (Shield_set_stored_extrinsic_lifetime v) =
     set_stored_extrinsic_lifetime origin v"
| "shield_dispatch cr b origin (Shield_set_max_extrinsic_weight v) = set_max_extrinsic_weight origin v"

section \<open>The keys over three blocks\<close>

lemma announce_ok:
  assumes "announce_next_key cr current next_next now origin enc_key s = (Inr (), s')"
  shows "CurrentKey s' = PendingKey s \<and> PendingKey s' = NextKey s \<and>
    NextKey s' = Option.bind next_next (AuthorKeys s) \<and>
    PendingKeyExpiresAt s' = (if NextKey s = None then None else Some (now + 2)) \<and>
    NextKeyExpiresAt s' =
      (if Option.bind next_next (AuthorKeys s) = None then None else Some (now + 3)) \<and>
    (\<exists>author. current = Some author \<and> AuthorKeys s' = (AuthorKeys s)(author := enc_key))"
  using assms by (cases enc_key) (auto simp: announce_next_key_def ok_simps)

end
