(* ===== verification/Runtime_Calls.thy ===== *)
theory Runtime_Calls
  imports Pallet_Steps Shield_Pallet
begin

text \<open>
  The calls of the runtime, \<^verbatim>\<open>runtime/src/lib.rs\<close>, as a data type.  The functions that inspect
  them are in \<open>Runtime_Scanners\<close>, and what dispatching them does in \<open>Runtime_Dispatch\<close>.

  The call type has the variants of \<open>construct_runtime!\<close>.  Calls of the modelled pallets and calls
  that wrap other calls carry their arguments; a call that the runtime only recognises by its
  variant carries an opaque payload, and pallets that are never inspected share one constructor.
  Decoding of bytes belongs to another crate: it is the record \<open>Codec\<close>, with the laws that the
  depth-limited decoders promise as \<open>codec_laws\<close>.
\<close>

section \<open>Calls\<close>

type_synonym opaque = bytes
type_synonym Weight = "nat \<times> nat"

datatype ProxyType =
    PT_Any | PT_Owner | PT_NonCritical | PT_NonTransfer | PT_Senate | PT_NonFungible
  | PT_Triumvirate | PT_Governance | PT_Staking | PT_Registration | PT_Transfer
  | PT_SmallTransfer | PT_RootWeights | PT_ChildKeys | PT_SudoUncheckedSetCode | PT_SwapHotkey
  | PT_SubnetLeaseBeneficiary | PT_RootClaim

datatype SystemCall = System_set_code opaque | System_other opaque

datatype BalancesCall =
    Balances_transfer_keep_alive AccountId Balance
  | Balances_transfer_allow_death AccountId Balance
  | Balances_transfer_all AccountId bool
  | Balances_other opaque

datatype SubtensorName =
    add_stake | add_stake_limit | remove_stake | remove_stake_limit | remove_stake_full_limit
  | unstake_all | unstake_all_alpha | swap_stake | swap_stake_limit | move_stake
  | burned_register | register | register_limit | root_register | schedule_swap_coldkey
  | swap_coldkey | swap_hotkey | set_subnet_identity | update_symbol | dissolve_network
  | set_root_claim_type | set_children | set_childkey_take | start_call | claim_root
  | set_weights | serve_axon | announce_coldkey_swap | swap_coldkey_announced
  | dispute_coldkey_swap | clear_coldkey_swap_announcement | other_subtensor_call

datatype SubtensorCall =
    Subtensor_transfer_stake Balance opaque
  | Subtensor_call SubtensorName opaque

datatype AdminName =
    sudo_set_sn_owner_hotkey | sudo_set_serving_rate_limit | sudo_set_min_difficulty
  | sudo_set_max_difficulty | sudo_set_weights_version_key | sudo_set_adjustment_alpha
  | sudo_set_immunity_period | sudo_set_min_allowed_weights | sudo_set_kappa | sudo_set_rho
  | sudo_set_activity_cutoff | sudo_set_network_registration_allowed
  | sudo_set_network_pow_registration_allowed | sudo_set_max_burn | sudo_set_bonds_moving_average
  | sudo_set_bonds_penalty | sudo_set_commit_reveal_weights_enabled
  | sudo_set_liquid_alpha_enabled | sudo_set_alpha_values
  | sudo_set_commit_reveal_weights_interval | sudo_set_toggle_transfer | other_admin_call

datatype CommitmentsCall = Commitments_set_commitment opaque | Commitments_other opaque

datatype PreimageCall = Preimage_note_preimage bytes | Preimage_other opaque

datatype RuntimeCall =
    RC_System SystemCall
  | RC_Timestamp opaque
  | RC_Balances BalancesCall
  | RC_SubtensorModule SubtensorCall
  | RC_Utility UtilityCall
  | RC_Sudo SudoCall
  | RC_Multisig MultisigCall
  | RC_Preimage PreimageCall
  | RC_Scheduler SchedulerCall
  | RC_Proxy ProxyCall
  | RC_Commitments CommitmentsCall
  | RC_AdminUtils AdminName opaque
  | RC_SafeMode opaque
  | RC_Crowdloan CrowdloanCall
  | RC_MevShield ShieldCall
  | RC_Qubitum Call
  | RC_Other nat opaque
and UtilityCall =
    Utility_batch "RuntimeCall list"
  | Utility_as_derivative nat RuntimeCall
  | Utility_batch_all "RuntimeCall list"
  | Utility_dispatch_as RuntimeOrigin RuntimeCall
  | Utility_force_batch "RuntimeCall list"
  | Utility_with_weight RuntimeCall Weight
  | Utility_if_else RuntimeCall RuntimeCall
  | Utility_dispatch_as_fallible RuntimeOrigin RuntimeCall
and SudoCall =
    Sudo_sudo RuntimeCall
  | Sudo_sudo_unchecked_weight RuntimeCall Weight
  | Sudo_sudo_as AccountId RuntimeCall
  | Sudo_other opaque
and MultisigCall =
    Multisig_as_multi_threshold_1 "AccountId list" RuntimeCall
  | Multisig_as_multi nat "AccountId list" opaque RuntimeCall Weight
  | Multisig_other opaque
and SchedulerCall =
    Scheduler_schedule BlockNumber opaque nat RuntimeCall
  | Scheduler_schedule_named Commitment BlockNumber opaque nat RuntimeCall
  | Scheduler_schedule_after BlockNumber opaque nat RuntimeCall
  | Scheduler_schedule_named_after Commitment BlockNumber opaque nat RuntimeCall
  | Scheduler_other opaque
and ProxyCall =
    Proxy_proxy AccountId "ProxyType option" RuntimeCall
  | Proxy_add_proxy AccountId ProxyType BlockNumber
  | Proxy_remove_proxy AccountId ProxyType BlockNumber
  | Proxy_remove_proxies
  | Proxy_create_pure ProxyType BlockNumber nat
  | Proxy_kill_pure AccountId ProxyType nat BlockNumber nat
  | Proxy_announce AccountId Commitment
  | Proxy_remove_announcement AccountId Commitment
  | Proxy_reject_announcement AccountId Commitment
  | Proxy_proxy_announced AccountId AccountId "ProxyType option" RuntimeCall
  | Proxy_poke_deposit
  | Proxy_set_real_pays_fee AccountId bool
and CrowdloanCall =
    Crowdloan_create Balance Balance Balance BlockNumber "RuntimeCall option" "AccountId option"
  | Crowdloan_contribute nat Balance
  | Crowdloan_withdraw nat
  | Crowdloan_finalize nat
  | Crowdloan_refund nat
  | Crowdloan_dissolve nat
  | Crowdloan_update_min_contribution nat Balance
  | Crowdloan_update_end nat BlockNumber
  | Crowdloan_update_cap nat Balance

section \<open>Decoding\<close>

record Codec =
  decode_all_with_depth_limit :: "nat \<Rightarrow> bytes \<Rightarrow> RuntimeCall option"
  decode_with_depth_limit :: "nat \<Rightarrow> bytes \<Rightarrow> RuntimeCall option"

text \<open>A larger limit decodes whatever a smaller one does, to the same call, and a complete decoding
  is a decoding.\<close>

definition codec_laws :: "Codec \<Rightarrow> bool" where
  "codec_laws cdc \<longleftrightarrow>
     (\<forall>l l' bs c. l \<le> l' \<longrightarrow> decode_with_depth_limit cdc l bs = Some c \<longrightarrow>
        decode_with_depth_limit cdc l' bs = Some c) \<and>
     (\<forall>l bs c. decode_all_with_depth_limit cdc l bs = Some c \<longrightarrow>
        decode_with_depth_limit cdc l bs = Some c)"

lemma codec_laws_all:
  "codec_laws cdc \<Longrightarrow> decode_all_with_depth_limit cdc l bs = Some c \<Longrightarrow> l \<le> l' \<Longrightarrow>
   decode_with_depth_limit cdc l' bs = Some c"
  by (auto simp: codec_laws_def)

lemma codec_laws_mono:
  "codec_laws cdc \<Longrightarrow> decode_with_depth_limit cdc l bs = Some c \<Longrightarrow> l \<le> l' \<Longrightarrow>
   decode_with_depth_limit cdc l' bs = Some c"
  by (auto simp: codec_laws_def)

end
