(* ===== verification/Runtime_Scanners.thy ===== *)
theory Runtime_Scanners
  imports Runtime_Calls
begin

text \<open>
  The functions of the runtime that look into a call for calls nested in it: the privacy extension
  (\<^verbatim>\<open>runtime/src/qubitum_privacy.rs\<close>), the mortality extension (\<^verbatim>\<open>runtime/src/check_mortality.rs\<close>) and the filters
  of \<^verbatim>\<open>runtime/src/lib.rs\<close>.  They descend at most eight levels, count the levels in a \<open>u8\<close> that never exceeds
  eight, and refuse what lies deeper; so they are total, with the remaining depth as the measure.

  The five scanners differ in what they refuse and in the wrappers they look through.  What they
  have in common is the contract \<open>depth_scanner\<close>; its consequence, that nothing refused is hidden
  below any chain of the wrappers that the scanner knows, is proved once.
\<close>

section \<open>The privacy extension\<close>

datatype CustomTransactionError =
    QubitumCallMustBeShielded
  | Tx_FailedShieldedTxParsing
  | Tx_InvalidShieldedTxPubKeyHash
  | ShieldStoreEncryptedDisabled

definition MAX_CALL_SCAN_DEPTH :: nat where
  "MAX_CALL_SCAN_DEPTH = 8"

definition MAX_PREIMAGE_DECODE_PROBE_DEPTH :: nat where
  "MAX_PREIMAGE_DECODE_PROBE_DEPTH = 32"

text \<open>What the runtime scanners read besides the call.\<close>

record 'e ScanEnv =
  se_codec :: Codec
  se_crypto :: ShieldCrypto
  se_shield :: "'e ShieldStorage"

fun find_map :: "('a \<Rightarrow> 'b option) \<Rightarrow> 'a list \<Rightarrow> 'b option" where
  "find_map f [] = None"
| "find_map f (x # xs) = (case f x of None \<Rightarrow> find_map f xs | Some y \<Rightarrow> Some y)"

lemma find_map_None: "find_map f xs = None \<longleftrightarrow> (\<forall>x\<in>set xs. f x = None)"
  by (induction xs) (auto split: option.splits)

definition or_else :: "'a option \<Rightarrow> 'a option \<Rightarrow> 'a option" where
  "or_else a b = (case a of None \<Rightarrow> b | Some x \<Rightarrow> Some x)"

lemma or_else_None [simp]: "or_else a b = None \<longleftrightarrow> a = None \<and> b = None"
  by (auto simp: or_else_def split: option.splits)

text \<open>The attempts of the scanners to read bytes as a call: completely, then with trailing bytes,
  each within the remaining depth; failing that, whether a much larger depth would do.\<close>

datatype decoded = Decoded RuntimeCall | TooDeep | NotACall

definition decode_attempts :: "Codec \<Rightarrow> nat \<Rightarrow> nat \<Rightarrow> bytes \<Rightarrow> decoded" where
  "decode_attempts cdc remaining_depth probe_depth bs =
     (case decode_all_with_depth_limit cdc remaining_depth bs of
        Some call \<Rightarrow> Decoded call
      | None \<Rightarrow>
          (case decode_with_depth_limit cdc remaining_depth bs of
             Some call \<Rightarrow> Decoded call
           | None \<Rightarrow>
               if decode_all_with_depth_limit cdc probe_depth bs \<noteq> None
                  \<or> decode_with_depth_limit cdc probe_depth bs \<noteq> None
               then TooDeep else NotACall))"

function privacy_violation_at_depth ::
    "'e ScanEnv \<Rightarrow> RuntimeCall \<Rightarrow> nat \<Rightarrow> CustomTransactionError option"
  and encoded_bytes_privacy_violation ::
    "'e ScanEnv \<Rightarrow> bytes \<Rightarrow> nat \<Rightarrow> CustomTransactionError option" where
  "privacy_violation_at_depth env call depth =
     (if MAX_CALL_SCAN_DEPTH \<le> depth then Some QubitumCallMustBeShielded
      else case call of
        RC_Qubitum _ \<Rightarrow> Some QubitumCallMustBeShielded
      | RC_Utility inner \<Rightarrow>
          (case inner of
             Utility_batch calls \<Rightarrow>
               find_map (\<lambda>c. privacy_violation_at_depth env c (depth + 1)) calls
           | Utility_batch_all calls \<Rightarrow>
               find_map (\<lambda>c. privacy_violation_at_depth env c (depth + 1)) calls
           | Utility_force_batch calls \<Rightarrow>
               find_map (\<lambda>c. privacy_violation_at_depth env c (depth + 1)) calls
           | Utility_as_derivative _ c \<Rightarrow> privacy_violation_at_depth env c (depth + 1)
           | Utility_dispatch_as _ c \<Rightarrow> privacy_violation_at_depth env c (depth + 1)
           | Utility_with_weight c _ \<Rightarrow> privacy_violation_at_depth env c (depth + 1)
           | Utility_dispatch_as_fallible _ c \<Rightarrow> privacy_violation_at_depth env c (depth + 1)
           | Utility_if_else main fallback \<Rightarrow>
               or_else (privacy_violation_at_depth env main (depth + 1))
                 (privacy_violation_at_depth env fallback (depth + 1)))
      | RC_Proxy inner \<Rightarrow>
          (case inner of
             Proxy_proxy _ _ c \<Rightarrow> privacy_violation_at_depth env c (depth + 1)
           | Proxy_proxy_announced _ _ _ c \<Rightarrow> privacy_violation_at_depth env c (depth + 1)
           | _ \<Rightarrow> None)
      | RC_Sudo inner \<Rightarrow>
          (case inner of
             Sudo_sudo c \<Rightarrow> privacy_violation_at_depth env c (depth + 1)
           | Sudo_sudo_unchecked_weight c _ \<Rightarrow> privacy_violation_at_depth env c (depth + 1)
           | Sudo_sudo_as _ c \<Rightarrow> privacy_violation_at_depth env c (depth + 1)
           | Sudo_other _ \<Rightarrow> None)
      | RC_Multisig inner \<Rightarrow>
          (case inner of
             Multisig_as_multi_threshold_1 _ c \<Rightarrow> privacy_violation_at_depth env c (depth + 1)
           | Multisig_as_multi _ _ _ c _ \<Rightarrow> privacy_violation_at_depth env c (depth + 1)
           | Multisig_other _ \<Rightarrow> None)
      | RC_Scheduler inner \<Rightarrow>
          (case inner of
             Scheduler_schedule _ _ _ c \<Rightarrow> privacy_violation_at_depth env c (depth + 1)
           | Scheduler_schedule_named _ _ _ _ c \<Rightarrow> privacy_violation_at_depth env c (depth + 1)
           | Scheduler_schedule_after _ _ _ c \<Rightarrow> privacy_violation_at_depth env c (depth + 1)
           | Scheduler_schedule_named_after _ _ _ _ c \<Rightarrow> privacy_violation_at_depth env c (depth + 1)
           | Scheduler_other _ \<Rightarrow> None)
      | RC_Preimage inner \<Rightarrow>
          (case inner of
             Preimage_note_preimage bs \<Rightarrow> encoded_bytes_privacy_violation env bs (depth + 1)
           | Preimage_other _ \<Rightarrow> None)
      | RC_MevShield inner \<Rightarrow>
          (case inner of
             Shield_submit_encrypted ciphertext \<Rightarrow>
               (case parse_valid_submit_encrypted_ciphertext (se_crypto env) ciphertext of
                  None \<Rightarrow> Some Tx_FailedShieldedTxParsing
                | Some tx \<Rightarrow>
                    if is_shielded_using_current_key (se_crypto env) (se_shield env) (key_hash tx)
                    then None else Some Tx_InvalidShieldedTxPubKeyHash)
           | Shield_store_encrypted _ \<Rightarrow> Some ShieldStoreEncryptedDisabled
           | _ \<Rightarrow> None)
      | _ \<Rightarrow> None)"
| "encoded_bytes_privacy_violation env bs depth =
     (if MAX_CALL_SCAN_DEPTH \<le> depth then Some QubitumCallMustBeShielded
      else case decode_attempts (se_codec env) (MAX_CALL_SCAN_DEPTH - depth)
                  MAX_PREIMAGE_DECODE_PROBE_DEPTH bs of
        Decoded call \<Rightarrow> privacy_violation_at_depth env call depth
      | TooDeep \<Rightarrow> Some QubitumCallMustBeShielded
      | NotACall \<Rightarrow> None)"
  by pat_completeness auto
termination
  by (relation "measure (\<lambda>x. case x of
      Inl (_, _, d) \<Rightarrow> 2 * (MAX_CALL_SCAN_DEPTH - d)
    | Inr (_, _, d) \<Rightarrow> 2 * (MAX_CALL_SCAN_DEPTH - d) + 1)") auto

declare privacy_violation_at_depth.simps [simp del] encoded_bytes_privacy_violation.simps [simp del]

definition privacy_violation :: "'e ScanEnv \<Rightarrow> RuntimeCall \<Rightarrow> CustomTransactionError option" where
  "privacy_violation env call = privacy_violation_at_depth env call 0"

definition private_runtime_call_violation ::
  "'e ScanEnv \<Rightarrow> RuntimeCall \<Rightarrow> CustomTransactionError option" where
  "private_runtime_call_violation env call = privacy_violation env call"

text \<open>\<open>validate\<close> and \<open>prepare\<close> of the extension make the same check.\<close>

definition CheckQubitumShielding_validate ::
  "'e ScanEnv \<Rightarrow> RuntimeCall \<Rightarrow> CustomTransactionError + unit" where
  "CheckQubitumShielding_validate env call =
     (case privacy_violation env call of Some e \<Rightarrow> Inl e | None \<Rightarrow> Inr ())"

section \<open>The mortality extension\<close>

definition MAX_SHIELD_ERA_PERIOD :: nat where
  "MAX_SHIELD_ERA_PERIOD = 8"

definition MAX_SHIELD_CALL_SCAN_DEPTH :: nat where
  "MAX_SHIELD_CALL_SCAN_DEPTH = 8"

definition MAX_SHIELD_PREIMAGE_DECODE_PROBE_DEPTH :: nat where
  "MAX_SHIELD_PREIMAGE_DECODE_PROBE_DEPTH = 32"

function shield_submit_encrypted_at_depth :: "Codec \<Rightarrow> RuntimeCall \<Rightarrow> nat \<Rightarrow> bool"
  and encoded_runtime_call_contains_shield_submit :: "Codec \<Rightarrow> bytes \<Rightarrow> nat \<Rightarrow> bool" where
  "shield_submit_encrypted_at_depth cdc call depth =
     (if MAX_SHIELD_CALL_SCAN_DEPTH \<le> depth then True
      else case call of
        RC_MevShield inner \<Rightarrow> (case inner of Shield_submit_encrypted _ \<Rightarrow> True | _ \<Rightarrow> False)
      | RC_Utility inner \<Rightarrow>
          (case inner of
             Utility_batch calls \<Rightarrow> list_ex (\<lambda>c. shield_submit_encrypted_at_depth cdc c (depth + 1)) calls
           | Utility_batch_all calls \<Rightarrow> list_ex (\<lambda>c. shield_submit_encrypted_at_depth cdc c (depth + 1)) calls
           | Utility_force_batch calls \<Rightarrow> list_ex (\<lambda>c. shield_submit_encrypted_at_depth cdc c (depth + 1)) calls
           | Utility_as_derivative _ c \<Rightarrow> shield_submit_encrypted_at_depth cdc c (depth + 1)
           | Utility_dispatch_as _ c \<Rightarrow> shield_submit_encrypted_at_depth cdc c (depth + 1)
           | Utility_with_weight c _ \<Rightarrow> shield_submit_encrypted_at_depth cdc c (depth + 1)
           | Utility_dispatch_as_fallible _ c \<Rightarrow> shield_submit_encrypted_at_depth cdc c (depth + 1)
           | Utility_if_else main fallback \<Rightarrow>
               shield_submit_encrypted_at_depth cdc main (depth + 1) \<or> shield_submit_encrypted_at_depth cdc fallback (depth + 1))
      | RC_Proxy inner \<Rightarrow>
          (case inner of
             Proxy_proxy _ _ c \<Rightarrow> shield_submit_encrypted_at_depth cdc c (depth + 1)
           | Proxy_proxy_announced _ _ _ c \<Rightarrow> shield_submit_encrypted_at_depth cdc c (depth + 1)
           | _ \<Rightarrow> False)
      | RC_Sudo inner \<Rightarrow>
          (case inner of
             Sudo_sudo c \<Rightarrow> shield_submit_encrypted_at_depth cdc c (depth + 1)
           | Sudo_sudo_unchecked_weight c _ \<Rightarrow> shield_submit_encrypted_at_depth cdc c (depth + 1)
           | Sudo_sudo_as _ c \<Rightarrow> shield_submit_encrypted_at_depth cdc c (depth + 1)
           | Sudo_other _ \<Rightarrow> False)
      | RC_Multisig inner \<Rightarrow>
          (case inner of
             Multisig_as_multi_threshold_1 _ c \<Rightarrow> shield_submit_encrypted_at_depth cdc c (depth + 1)
           | Multisig_as_multi _ _ _ c _ \<Rightarrow> shield_submit_encrypted_at_depth cdc c (depth + 1)
           | Multisig_other _ \<Rightarrow> False)
      | RC_Scheduler inner \<Rightarrow>
          (case inner of
             Scheduler_schedule _ _ _ c \<Rightarrow> shield_submit_encrypted_at_depth cdc c (depth + 1)
           | Scheduler_schedule_named _ _ _ _ c \<Rightarrow> shield_submit_encrypted_at_depth cdc c (depth + 1)
           | Scheduler_schedule_after _ _ _ c \<Rightarrow> shield_submit_encrypted_at_depth cdc c (depth + 1)
           | Scheduler_schedule_named_after _ _ _ _ c \<Rightarrow> shield_submit_encrypted_at_depth cdc c (depth + 1)
           | Scheduler_other _ \<Rightarrow> False)
      | RC_Preimage inner \<Rightarrow>
          (case inner of
             Preimage_note_preimage bs \<Rightarrow> encoded_runtime_call_contains_shield_submit cdc bs (depth + 1)
           | Preimage_other _ \<Rightarrow> False)
      | _ \<Rightarrow> False)"
| "encoded_runtime_call_contains_shield_submit cdc bs depth =
     (if MAX_SHIELD_CALL_SCAN_DEPTH \<le> depth then True
      else case decode_attempts cdc (MAX_SHIELD_CALL_SCAN_DEPTH - depth)
                  MAX_SHIELD_PREIMAGE_DECODE_PROBE_DEPTH bs of
        Decoded call \<Rightarrow> shield_submit_encrypted_at_depth cdc call depth
      | TooDeep \<Rightarrow> True
      | NotACall \<Rightarrow> False)"
  by pat_completeness auto
termination
  by (relation "measure (\<lambda>x. case x of
      Inl (_, _, d) \<Rightarrow> 2 * (MAX_SHIELD_CALL_SCAN_DEPTH - d)
    | Inr (_, _, d) \<Rightarrow> 2 * (MAX_SHIELD_CALL_SCAN_DEPTH - d) + 1)") auto

declare shield_submit_encrypted_at_depth.simps [simp del]
  encoded_runtime_call_contains_shield_submit.simps [simp del]

definition contains_shield_submit_encrypted :: "Codec \<Rightarrow> RuntimeCall \<Rightarrow> bool" where
  "contains_shield_submit_encrypted cdc call = shield_submit_encrypted_at_depth cdc call 0"

datatype Era = Immortal | Mortal nat nat

datatype InvalidTransaction = Stale | BadSigner

definition ensure_shield_submit_mortal_era ::
  "Codec \<Rightarrow> Era \<Rightarrow> RuntimeCall \<Rightarrow> InvalidTransaction + unit" where
  "ensure_shield_submit_mortal_era cdc era call =
     (if contains_shield_submit_encrypted cdc call
      then let era_too_long = (case era of
                 Immortal \<Rightarrow> True | Mortal period _ \<Rightarrow> period > MAX_SHIELD_ERA_PERIOD)
           in if era_too_long then Inl Stale else Inr ()
      else Inr ())"

section \<open>The filter of the shield queue\<close>

definition MAX_SHIELD_QUEUE_CALL_SCAN_DEPTH :: nat where
  "MAX_SHIELD_QUEUE_CALL_SCAN_DEPTH = 8"

definition MAX_SHIELD_QUEUE_PREIMAGE_DECODE_PROBE_DEPTH :: nat where
  "MAX_SHIELD_QUEUE_PREIMAGE_DECODE_PROBE_DEPTH = 32"

function contains_recursive_shield_queue_call :: "Codec \<Rightarrow> RuntimeCall \<Rightarrow> nat \<Rightarrow> bool"
  and encoded_runtime_call_contains_recursive_shield_queue_call :: "Codec \<Rightarrow> bytes \<Rightarrow> nat \<Rightarrow> bool" where
  "contains_recursive_shield_queue_call cdc call depth =
     (if MAX_SHIELD_QUEUE_CALL_SCAN_DEPTH \<le> depth then True
      else case call of
        RC_MevShield inner \<Rightarrow>
          (case inner of
             Shield_submit_encrypted _ \<Rightarrow> True
           | Shield_store_encrypted _ \<Rightarrow> True
           | _ \<Rightarrow> False)
      | RC_Utility inner \<Rightarrow>
          (case inner of
             Utility_batch calls \<Rightarrow> list_ex (\<lambda>c. contains_recursive_shield_queue_call cdc c (depth + 1)) calls
           | Utility_batch_all calls \<Rightarrow> list_ex (\<lambda>c. contains_recursive_shield_queue_call cdc c (depth + 1)) calls
           | Utility_force_batch calls \<Rightarrow> list_ex (\<lambda>c. contains_recursive_shield_queue_call cdc c (depth + 1)) calls
           | Utility_as_derivative _ c \<Rightarrow> contains_recursive_shield_queue_call cdc c (depth + 1)
           | Utility_dispatch_as _ c \<Rightarrow> contains_recursive_shield_queue_call cdc c (depth + 1)
           | Utility_with_weight c _ \<Rightarrow> contains_recursive_shield_queue_call cdc c (depth + 1)
           | Utility_dispatch_as_fallible _ c \<Rightarrow> contains_recursive_shield_queue_call cdc c (depth + 1)
           | Utility_if_else main fallback \<Rightarrow>
               contains_recursive_shield_queue_call cdc main (depth + 1) \<or> contains_recursive_shield_queue_call cdc fallback (depth + 1))
      | RC_Proxy inner \<Rightarrow>
          (case inner of
             Proxy_proxy _ _ c \<Rightarrow> contains_recursive_shield_queue_call cdc c (depth + 1)
           | Proxy_proxy_announced _ _ _ c \<Rightarrow> contains_recursive_shield_queue_call cdc c (depth + 1)
           | _ \<Rightarrow> False)
      | RC_Sudo inner \<Rightarrow>
          (case inner of
             Sudo_sudo c \<Rightarrow> contains_recursive_shield_queue_call cdc c (depth + 1)
           | Sudo_sudo_unchecked_weight c _ \<Rightarrow> contains_recursive_shield_queue_call cdc c (depth + 1)
           | Sudo_sudo_as _ c \<Rightarrow> contains_recursive_shield_queue_call cdc c (depth + 1)
           | Sudo_other _ \<Rightarrow> False)
      | RC_Multisig inner \<Rightarrow>
          (case inner of
             Multisig_as_multi_threshold_1 _ c \<Rightarrow> contains_recursive_shield_queue_call cdc c (depth + 1)
           | Multisig_as_multi _ _ _ c _ \<Rightarrow> contains_recursive_shield_queue_call cdc c (depth + 1)
           | Multisig_other _ \<Rightarrow> False)
      | RC_Scheduler inner \<Rightarrow>
          (case inner of
             Scheduler_schedule _ _ _ c \<Rightarrow> contains_recursive_shield_queue_call cdc c (depth + 1)
           | Scheduler_schedule_named _ _ _ _ c \<Rightarrow> contains_recursive_shield_queue_call cdc c (depth + 1)
           | Scheduler_schedule_after _ _ _ c \<Rightarrow> contains_recursive_shield_queue_call cdc c (depth + 1)
           | Scheduler_schedule_named_after _ _ _ _ c \<Rightarrow> contains_recursive_shield_queue_call cdc c (depth + 1)
           | Scheduler_other _ \<Rightarrow> False)
      | RC_Preimage inner \<Rightarrow>
          (case inner of
             Preimage_note_preimage bs \<Rightarrow> encoded_runtime_call_contains_recursive_shield_queue_call cdc bs (depth + 1)
           | Preimage_other _ \<Rightarrow> False)
      | _ \<Rightarrow> False)"
| "encoded_runtime_call_contains_recursive_shield_queue_call cdc bs depth =
     (if MAX_SHIELD_QUEUE_CALL_SCAN_DEPTH \<le> depth then True
      else case decode_attempts cdc (MAX_SHIELD_QUEUE_CALL_SCAN_DEPTH - depth)
                  MAX_SHIELD_QUEUE_PREIMAGE_DECODE_PROBE_DEPTH bs of
        Decoded call \<Rightarrow> contains_recursive_shield_queue_call cdc call depth
      | TooDeep \<Rightarrow> True
      | NotACall \<Rightarrow> False)"
  by pat_completeness auto
termination
  by (relation "measure (\<lambda>x. case x of
      Inl (_, _, d) \<Rightarrow> 2 * (MAX_SHIELD_QUEUE_CALL_SCAN_DEPTH - d)
    | Inr (_, _, d) \<Rightarrow> 2 * (MAX_SHIELD_QUEUE_CALL_SCAN_DEPTH - d) + 1)") auto

declare contains_recursive_shield_queue_call.simps [simp del]
  encoded_runtime_call_contains_recursive_shield_queue_call.simps [simp del]

definition encoded_runtime_call_contains_private_queue_call ::
  "'e ScanEnv \<Rightarrow> bytes \<Rightarrow> nat \<Rightarrow> bool" where
  "encoded_runtime_call_contains_private_queue_call env bs depth =
     (if MAX_SHIELD_QUEUE_CALL_SCAN_DEPTH \<le> depth then True
      else case decode_attempts (se_codec env) (MAX_SHIELD_QUEUE_CALL_SCAN_DEPTH - depth)
                  MAX_SHIELD_QUEUE_PREIMAGE_DECODE_PROBE_DEPTH bs of
        Decoded call \<Rightarrow> private_runtime_call_violation env call \<noteq> None
      | TooDeep \<Rightarrow> True
      | NotACall \<Rightarrow> False)"

function contains_persistent_private_queue_call :: "'e ScanEnv \<Rightarrow> RuntimeCall \<Rightarrow> nat \<Rightarrow> bool" where
  "contains_persistent_private_queue_call env call depth =
     (if MAX_SHIELD_QUEUE_CALL_SCAN_DEPTH \<le> depth then True
      else case call of
        RC_Utility inner \<Rightarrow>
          (case inner of
             Utility_batch calls \<Rightarrow> list_ex (\<lambda>c. contains_persistent_private_queue_call env c (depth + 1)) calls
           | Utility_batch_all calls \<Rightarrow> list_ex (\<lambda>c. contains_persistent_private_queue_call env c (depth + 1)) calls
           | Utility_force_batch calls \<Rightarrow> list_ex (\<lambda>c. contains_persistent_private_queue_call env c (depth + 1)) calls
           | Utility_as_derivative _ c \<Rightarrow> contains_persistent_private_queue_call env c (depth + 1)
           | Utility_dispatch_as _ c \<Rightarrow> contains_persistent_private_queue_call env c (depth + 1)
           | Utility_with_weight c _ \<Rightarrow> contains_persistent_private_queue_call env c (depth + 1)
           | Utility_dispatch_as_fallible _ c \<Rightarrow> contains_persistent_private_queue_call env c (depth + 1)
           | Utility_if_else main fallback \<Rightarrow>
               contains_persistent_private_queue_call env main (depth + 1) \<or> contains_persistent_private_queue_call env fallback (depth + 1))
      | RC_Proxy inner \<Rightarrow>
          (case inner of
             Proxy_proxy _ _ c \<Rightarrow> contains_persistent_private_queue_call env c (depth + 1)
           | Proxy_proxy_announced _ _ _ c \<Rightarrow> contains_persistent_private_queue_call env c (depth + 1)
           | _ \<Rightarrow> False)
      | RC_Sudo inner \<Rightarrow>
          (case inner of
             Sudo_sudo c \<Rightarrow> contains_persistent_private_queue_call env c (depth + 1)
           | Sudo_sudo_unchecked_weight c _ \<Rightarrow> contains_persistent_private_queue_call env c (depth + 1)
           | Sudo_sudo_as _ c \<Rightarrow> contains_persistent_private_queue_call env c (depth + 1)
           | Sudo_other _ \<Rightarrow> False)
      | RC_Multisig inner \<Rightarrow>
          (case inner of
             Multisig_as_multi_threshold_1 _ c \<Rightarrow> contains_persistent_private_queue_call env c (depth + 1)
           | Multisig_as_multi _ _ _ c _ \<Rightarrow> contains_persistent_private_queue_call env c (depth + 1)
           | Multisig_other _ \<Rightarrow> False)
      | RC_Scheduler inner \<Rightarrow>
          (case inner of
             Scheduler_schedule _ _ _ c \<Rightarrow> private_runtime_call_violation env c \<noteq> None
           | Scheduler_schedule_named _ _ _ _ c \<Rightarrow> private_runtime_call_violation env c \<noteq> None
           | Scheduler_schedule_after _ _ _ c \<Rightarrow> private_runtime_call_violation env c \<noteq> None
           | Scheduler_schedule_named_after _ _ _ _ c \<Rightarrow> private_runtime_call_violation env c \<noteq> None
           | Scheduler_other _ \<Rightarrow> False)
      | RC_Preimage inner \<Rightarrow>
          (case inner of
             Preimage_note_preimage bs \<Rightarrow> encoded_runtime_call_contains_private_queue_call env bs (depth + 1)
           | Preimage_other _ \<Rightarrow> False)
      | _ \<Rightarrow> False)"
  by pat_completeness auto
termination
  by (relation "measure (\<lambda>(_, _, d). MAX_SHIELD_QUEUE_CALL_SCAN_DEPTH - d)") auto

function contains_unroutable_private_queue_call :: "'e ScanEnv \<Rightarrow> RuntimeCall \<Rightarrow> nat \<Rightarrow> bool" where
  "contains_unroutable_private_queue_call env call depth =
     (if MAX_SHIELD_QUEUE_CALL_SCAN_DEPTH \<le> depth then True
      else case call of
        RC_Qubitum _ \<Rightarrow> False
      | RC_Utility inner \<Rightarrow>
          (case inner of
             Utility_batch calls \<Rightarrow> list_ex (\<lambda>c. contains_unroutable_private_queue_call env c (depth + 1)) calls
           | Utility_batch_all calls \<Rightarrow> list_ex (\<lambda>c. contains_unroutable_private_queue_call env c (depth + 1)) calls
           | Utility_force_batch calls \<Rightarrow> list_ex (\<lambda>c. contains_unroutable_private_queue_call env c (depth + 1)) calls
           | Utility_if_else main fallback \<Rightarrow>
               contains_unroutable_private_queue_call env main (depth + 1) \<or> contains_unroutable_private_queue_call env fallback (depth + 1)
           | Utility_as_derivative _ c \<Rightarrow> private_runtime_call_violation env c \<noteq> None
           | Utility_dispatch_as _ c \<Rightarrow> private_runtime_call_violation env c \<noteq> None
           | Utility_with_weight c _ \<Rightarrow> private_runtime_call_violation env c \<noteq> None
           | Utility_dispatch_as_fallible _ c \<Rightarrow> private_runtime_call_violation env c \<noteq> None)
      | RC_Proxy inner \<Rightarrow>
          (case inner of
             Proxy_proxy _ _ c \<Rightarrow> private_runtime_call_violation env c \<noteq> None
           | Proxy_proxy_announced _ _ _ c \<Rightarrow> private_runtime_call_violation env c \<noteq> None
           | _ \<Rightarrow> False)
      | RC_Sudo inner \<Rightarrow>
          (case inner of
             Sudo_sudo c \<Rightarrow> private_runtime_call_violation env c \<noteq> None
           | Sudo_sudo_unchecked_weight c _ \<Rightarrow> private_runtime_call_violation env c \<noteq> None
           | Sudo_sudo_as _ c \<Rightarrow> private_runtime_call_violation env c \<noteq> None
           | Sudo_other _ \<Rightarrow> False)
      | RC_Multisig inner \<Rightarrow>
          (case inner of
             Multisig_as_multi_threshold_1 _ c \<Rightarrow> private_runtime_call_violation env c \<noteq> None
           | Multisig_as_multi _ _ _ c _ \<Rightarrow> private_runtime_call_violation env c \<noteq> None
           | Multisig_other _ \<Rightarrow> False)
      | RC_Scheduler inner \<Rightarrow>
          (case inner of
             Scheduler_schedule _ _ _ c \<Rightarrow> private_runtime_call_violation env c \<noteq> None
           | Scheduler_schedule_named _ _ _ _ c \<Rightarrow> private_runtime_call_violation env c \<noteq> None
           | Scheduler_schedule_after _ _ _ c \<Rightarrow> private_runtime_call_violation env c \<noteq> None
           | Scheduler_schedule_named_after _ _ _ _ c \<Rightarrow> private_runtime_call_violation env c \<noteq> None
           | Scheduler_other _ \<Rightarrow> False)
      | RC_Preimage inner \<Rightarrow>
          (case inner of
             Preimage_note_preimage bs \<Rightarrow> encoded_runtime_call_contains_private_queue_call env bs (depth + 1)
           | Preimage_other _ \<Rightarrow> False)
      | _ \<Rightarrow> False)"
  by pat_completeness auto
termination
  by (relation "measure (\<lambda>(_, _, d). MAX_SHIELD_QUEUE_CALL_SCAN_DEPTH - d)") auto

declare contains_persistent_private_queue_call.simps [simp del]
  contains_unroutable_private_queue_call.simps [simp del]

definition ShieldQueueCallFilter_contains :: "'e ScanEnv \<Rightarrow> RuntimeCall \<Rightarrow> bool" where
  "ShieldQueueCallFilter_contains env call \<longleftrightarrow>
     \<not> contains_recursive_shield_queue_call (se_codec env) call 0
     \<and> \<not> contains_persistent_private_queue_call env call 0
     \<and> \<not> contains_unroutable_private_queue_call env call 0"

definition ShieldRuntimeQueueOrigin_origin_for ::
  "'e ScanEnv \<Rightarrow> AccountId \<Rightarrow> RuntimeCall \<Rightarrow> RuntimeOrigin" where
  "ShieldRuntimeQueueOrigin_origin_for env who call =
     (if private_runtime_call_violation env call \<noteq> None then ShieldedPayload who
      else SignedOrigin who)"

section \<open>Filters that do not descend\<close>

definition is_batch :: "RuntimeCall \<Rightarrow> bool" where
  "is_batch call = (case call of
     RC_Utility inner \<Rightarrow>
       (case inner of
          Utility_force_batch _ \<Rightarrow> True | Utility_batch_all _ \<Rightarrow> True | Utility_batch _ \<Rightarrow> True
        | _ \<Rightarrow> False)
   | _ \<Rightarrow> False)"

definition NoNestingCallFilter_contains :: "RuntimeCall \<Rightarrow> bool" where
  "NoNestingCallFilter_contains call = (case call of
     RC_Utility inner \<Rightarrow>
       (let calls = (case inner of
            Utility_force_batch calls \<Rightarrow> calls
          | Utility_batch calls \<Rightarrow> calls
          | Utility_batch_all calls \<Rightarrow> calls
          | _ \<Rightarrow> [])
        in \<not> list_ex is_batch calls)
   | _ \<Rightarrow> True)"

definition SafeModeWhitelistedCalls_contains :: "RuntimeCall \<Rightarrow> bool" where
  "SafeModeWhitelistedCalls_contains call = (case call of
     RC_Sudo _ \<Rightarrow> True
   | RC_Multisig _ \<Rightarrow> True
   | RC_System _ \<Rightarrow> True
   | RC_SafeMode _ \<Rightarrow> True
   | RC_Timestamp _ \<Rightarrow> True
   | RC_SubtensorModule (Subtensor_call n _) \<Rightarrow> n = set_weights \<or> n = serve_axon
   | RC_Commitments (Commitments_set_commitment _) \<Rightarrow> True
   | RC_Qubitum c \<Rightarrow>
       (case c of Call_submit_proof _ _ _ _ _ \<Rightarrow> True | Call_challenge_proof _ _ _ _ _ \<Rightarrow> True
        | _ \<Rightarrow> False)
   | _ \<Rightarrow> False)"

definition contains_private_runtime_call :: "'e ScanEnv \<Rightarrow> RuntimeCall \<Rightarrow> bool" where
  "contains_private_runtime_call env call \<longleftrightarrow>
     private_runtime_call_violation env call \<noteq> None
     \<or> contains_shield_submit_encrypted (se_codec env) call"

definition ContractCallFilter_contains :: "'e ScanEnv \<Rightarrow> RuntimeCall \<Rightarrow> bool" where
  "ContractCallFilter_contains env call = (case call of
     RC_Proxy inner \<Rightarrow>
       (case inner of Proxy_proxy _ _ _ \<Rightarrow> True | _ \<Rightarrow> False)
       \<and> private_runtime_call_violation env call = None
       \<and> \<not> contains_shield_submit_encrypted (se_codec env) call
   | _ \<Rightarrow> False)"

end
