(* ===== verification/Runtime_Privacy.thy ===== *)
theory Runtime_Privacy
  imports Runtime_Scanners
begin

text \<open>
  What the scanners of the runtime find.  A scanner refuses a call exactly when some chain of the
  wrappers it looks through leads to something it refuses, or is longer than its limit; this is
  proved once, in the locale \<open>depth_scanner\<close>, from the one equation that every scanner satisfies.
\<close>

section \<open>Scanners of bounded depth\<close>

text \<open>\<open>chain R d x n y\<close>: from \<open>x\<close> at depth \<open>d\<close>, \<open>n\<close> steps of \<open>R\<close> lead to \<open>y\<close>.\<close>

fun chain :: "(nat \<Rightarrow> 'a \<Rightarrow> 'a \<Rightarrow> bool) \<Rightarrow> nat \<Rightarrow> 'a \<Rightarrow> nat \<Rightarrow> 'a \<Rightarrow> bool" where
  "chain R d x 0 y \<longleftrightarrow> x = y"
| "chain R d x (Suc n) y \<longleftrightarrow> (\<exists>z. R d x z \<and> chain R (Suc d) z n y)"

locale depth_scanner =
  fixes scan :: "'c \<Rightarrow> nat \<Rightarrow> bool"
    and below :: "nat \<Rightarrow> 'c \<Rightarrow> 'c \<Rightarrow> bool"
    and refused :: "nat \<Rightarrow> 'c \<Rightarrow> bool"
    and limit :: nat
  assumes scan_iff:
    "scan c d \<longleftrightarrow> limit \<le> d \<or> refused d c \<or> (\<exists>c'. below d c c' \<and> scan c' (Suc d))"
begin

lemma scanned_on_chain:
  "chain below d c n c' \<Longrightarrow> limit \<le> d + n \<or> refused (d + n) c' \<Longrightarrow> scan c d"
proof (induction n arbitrary: c d)
  case 0
  then show ?case using scan_iff [of c d] by auto
next
  case (Suc n)
  then obtain z where "below d c z" "chain below (Suc d) z n c'" by auto
  with Suc.IH [of "Suc d" z] Suc.prems(2) show ?case using scan_iff [of c d] by auto
qed

lemma scanned_has_chain:
  "scan c d \<Longrightarrow> \<exists>n c'. chain below d c n c' \<and> (limit \<le> d + n \<or> refused (d + n) c')"
proof (induction "limit - d" arbitrary: c d)
  case 0
  then show ?case by (intro exI [of _ 0] exI [of _ c]) simp
next
  case (Suc k)
  from Suc.prems scan_iff [of c d] Suc.hyps(2)
  consider "refused d c" | c' where "below d c c'" "scan c' (Suc d)" by auto
  then show ?case
  proof cases
    case 1
    then show ?thesis by (intro exI [of _ 0] exI [of _ c]) simp
  next
    case 2
    moreover have "k = limit - Suc d" using Suc.hyps(2) by simp
    ultimately obtain n c2 where
      "chain below (Suc d) c' n c2" "limit \<le> Suc d + n \<or> refused (Suc d + n) c2"
      using Suc.hyps(1) [of "Suc d" c'] by blast
    with 2(1) show ?thesis by (intro exI [of _ "Suc n"] exI [of _ c2]) auto
  qed
qed

theorem scan_characterised:
  "scan c d \<longleftrightarrow> (\<exists>n c'. chain below d c n c' \<and> (limit \<le> d + n \<or> refused (d + n) c'))"
  using scanned_on_chain scanned_has_chain by blast

lemma clear_chain:
  assumes "\<not> scan c d" and "below d c c'"
  shows "\<not> scan c' (Suc d)"
  using assms scan_iff [of c d] by blast

text \<open>A finer notion of nesting that agrees with \<open>below\<close> on calls the scanner lets pass.\<close>

lemma clear_reaches:
  assumes step: "\<And>c d c'. \<not> scan c d \<Longrightarrow> R c c' \<Longrightarrow> below d c c'"
    and "R\<^sup>*\<^sup>* c c'" and "\<not> scan c d"
  shows "\<exists>k. \<not> scan c' (d + k)"
  using assms(2,3)
proof (induction rule: rtranclp_induct)
  case base
  then show ?case by (intro exI [of _ 0]) simp
next
  case (step y z)
  then obtain k where "\<not> scan y (d + k)" by blast
  with assms(1) step.hyps(2) clear_chain [of y "d + k" z] show ?case
    by (intro exI [of _ "Suc k"]) simp
qed

lemma clear_not_refused: "\<not> scan c d \<Longrightarrow> \<not> refused d c"
  using scan_iff [of c d] by blast

end

section \<open>Calls nested in calls\<close>

text \<open>The calls directly inside a call, through the wrappers that the scanners know.  The call that
  \<open>Crowdloan::create\<close> stores is not among them.\<close>

fun inner_calls :: "RuntimeCall \<Rightarrow> RuntimeCall list" where
  "inner_calls (RC_Utility (Utility_batch calls)) = calls"
| "inner_calls (RC_Utility (Utility_batch_all calls)) = calls"
| "inner_calls (RC_Utility (Utility_force_batch calls)) = calls"
| "inner_calls (RC_Utility (Utility_as_derivative _ c)) = [c]"
| "inner_calls (RC_Utility (Utility_dispatch_as _ c)) = [c]"
| "inner_calls (RC_Utility (Utility_with_weight c _)) = [c]"
| "inner_calls (RC_Utility (Utility_dispatch_as_fallible _ c)) = [c]"
| "inner_calls (RC_Utility (Utility_if_else main fallback)) = [main, fallback]"
| "inner_calls (RC_Proxy (Proxy_proxy _ _ c)) = [c]"
| "inner_calls (RC_Proxy (Proxy_proxy_announced _ _ _ c)) = [c]"
| "inner_calls (RC_Sudo (Sudo_sudo c)) = [c]"
| "inner_calls (RC_Sudo (Sudo_sudo_unchecked_weight c _)) = [c]"
| "inner_calls (RC_Sudo (Sudo_sudo_as _ c)) = [c]"
| "inner_calls (RC_Multisig (Multisig_as_multi_threshold_1 _ c)) = [c]"
| "inner_calls (RC_Multisig (Multisig_as_multi _ _ _ c _)) = [c]"
| "inner_calls (RC_Scheduler (Scheduler_schedule _ _ _ c)) = [c]"
| "inner_calls (RC_Scheduler (Scheduler_schedule_named _ _ _ _ c)) = [c]"
| "inner_calls (RC_Scheduler (Scheduler_schedule_after _ _ _ c)) = [c]"
| "inner_calls (RC_Scheduler (Scheduler_schedule_named_after _ _ _ _ c)) = [c]"
| "inner_calls _ = []"

definition preimage_of :: "RuntimeCall \<Rightarrow> bytes option" where
  "preimage_of call =
     (case call of RC_Preimage (Preimage_note_preimage bs) \<Rightarrow> Some bs | _ \<Rightarrow> None)"

text \<open>Nesting as the scanners see it at a depth, where the remaining depth limits decoding.\<close>

definition nested_at :: "Codec \<Rightarrow> nat \<Rightarrow> RuntimeCall \<Rightarrow> RuntimeCall \<Rightarrow> bool" where
  "nested_at cdc d c c' \<longleftrightarrow> c' \<in> set (inner_calls c) \<or>
     (\<exists>bs. preimage_of c = Some bs \<and> Suc d < 8 \<and> decode_attempts cdc (8 - Suc d) 32 bs = Decoded c')"

definition too_deep_at :: "Codec \<Rightarrow> nat \<Rightarrow> RuntimeCall \<Rightarrow> bool" where
  "too_deep_at cdc d c \<longleftrightarrow>
     (\<exists>bs. preimage_of c = Some bs \<and> (8 \<le> Suc d \<or> decode_attempts cdc (8 - Suc d) 32 bs = TooDeep))"

text \<open>Nesting as such: what the bytes of a preimage decode to within the depth of the probe.\<close>

definition carries :: "Codec \<Rightarrow> RuntimeCall \<Rightarrow> RuntimeCall \<Rightarrow> bool" where
  "carries cdc c c' \<longleftrightarrow> c' \<in> set (inner_calls c) \<or>
     (\<exists>bs. preimage_of c = Some bs \<and> decode_with_depth_limit cdc 32 bs = Some c')"

lemma decode_attempts_lawful:
  assumes "codec_laws cdc" and "decode_with_depth_limit cdc 32 bs = Some c" and "l \<le> 32"
  shows "decode_attempts cdc l 32 bs = Decoded c \<or> decode_attempts cdc l 32 bs = TooDeep"
  using codec_laws_all [OF assms(1) _ assms(3), of bs] codec_laws_mono [OF assms(1) _ assms(3), of bs]
    assms(2)
  by (auto simp: decode_attempts_def split: option.splits)

lemma carries_nested:
  assumes "codec_laws cdc" and "carries cdc c c'" and "\<not> too_deep_at cdc d c"
  shows "nested_at cdc d c c'"
  using assms(2,3) decode_attempts_lawful [OF assms(1), of _ c' "8 - Suc d"]
  by (fastforce simp: carries_def nested_at_def too_deep_at_def not_le)

section \<open>The scanners satisfy the contract\<close>

definition harmful :: "'e ScanEnv \<Rightarrow> RuntimeCall \<Rightarrow> bool" where
  "harmful env c = (case c of
     RC_Qubitum _ \<Rightarrow> True
   | RC_MevShield (Shield_store_encrypted _) \<Rightarrow> True
   | RC_MevShield (Shield_submit_encrypted ciphertext) \<Rightarrow>
       \<not> is_ok (CheckShieldedTxValidity_check (se_crypto env) (se_shield env) ciphertext)
   | _ \<Rightarrow> False)"

lemmas scan_splits =
  RuntimeCall.splits UtilityCall.splits ProxyCall.splits SudoCall.splits MultisigCall.splits
  SchedulerCall.splits PreimageCall.splits ShieldCall.splits

lemmas scan_limits = MAX_CALL_SCAN_DEPTH_def MAX_PREIMAGE_DECODE_PROBE_DEPTH_def
  MAX_SHIELD_CALL_SCAN_DEPTH_def MAX_SHIELD_PREIMAGE_DECODE_PROBE_DEPTH_def
  MAX_SHIELD_QUEUE_CALL_SCAN_DEPTH_def MAX_SHIELD_QUEUE_PREIMAGE_DECODE_PROBE_DEPTH_def

lemma nested_at_inner:
  "preimage_of c = None \<Longrightarrow> nested_at cdc d c c' \<longleftrightarrow> c' \<in> set (inner_calls c)"
  by (simp add: nested_at_def)

lemma nested_at_preimage:
  "nested_at cdc d (RC_Preimage (Preimage_note_preimage bs)) c' \<longleftrightarrow>
     Suc d < 8 \<and> decode_attempts cdc (8 - Suc d) 32 bs = Decoded c'"
  by (simp add: nested_at_def preimage_of_def)

lemmas scan_specs = harmful_def preimage_of_def nested_at_inner nested_at_preimage too_deep_at_def
  find_map_None list_ex_iff scan_limits CheckShieldedTxValidity_check_def is_ok_def bind_r_def
  ensure_r_def ok_or_r_def

interpretation privacy_scan: depth_scanner "\<lambda>c d. privacy_violation_at_depth env c d \<noteq> None"
  "nested_at (se_codec env)" "\<lambda>d c. harmful env c \<or> too_deep_at (se_codec env) d c" 8 for env
proof
  fix c d
  show "privacy_violation_at_depth env c d \<noteq> None \<longleftrightarrow>
      8 \<le> d \<or> (harmful env c \<or> too_deep_at (se_codec env) d c) \<or>
      (\<exists>c'. nested_at (se_codec env) d c c' \<and> privacy_violation_at_depth env c' (Suc d) \<noteq> None)"
    unfolding privacy_violation_at_depth.simps [of env c d]
    by (auto simp: scan_specs encoded_bytes_privacy_violation.simps simp del: not_None_eq
        split: scan_splits option.splits decoded.splits sum.splits)
qed

interpretation submit_scan: depth_scanner "shield_submit_encrypted_at_depth cdc" "nested_at cdc"
  "\<lambda>d c. (\<exists>bs. c = RC_MevShield (Shield_submit_encrypted bs)) \<or> too_deep_at cdc d c" 8 for cdc
proof
  fix c d
  show "shield_submit_encrypted_at_depth cdc c d \<longleftrightarrow>
      8 \<le> d \<or> ((\<exists>bs. c = RC_MevShield (Shield_submit_encrypted bs)) \<or> too_deep_at cdc d c) \<or>
      (\<exists>c'. nested_at cdc d c c' \<and> shield_submit_encrypted_at_depth cdc c' (Suc d))"
    unfolding shield_submit_encrypted_at_depth.simps [of cdc c d]
    by (auto simp: scan_specs encoded_runtime_call_contains_shield_submit.simps
        split: scan_splits decoded.splits)
qed

interpretation recursive_scan: depth_scanner "contains_recursive_shield_queue_call cdc"
  "nested_at cdc" "\<lambda>d c. (\<exists>bs. c = RC_MevShield (Shield_submit_encrypted bs) \<or>
     c = RC_MevShield (Shield_store_encrypted bs)) \<or> too_deep_at cdc d c" 8 for cdc
proof
  fix c d
  show "contains_recursive_shield_queue_call cdc c d \<longleftrightarrow>
      8 \<le> d \<or> ((\<exists>bs. c = RC_MevShield (Shield_submit_encrypted bs) \<or>
         c = RC_MevShield (Shield_store_encrypted bs)) \<or> too_deep_at cdc d c) \<or>
      (\<exists>c'. nested_at cdc d c c' \<and> contains_recursive_shield_queue_call cdc c' (Suc d))"
    unfolding contains_recursive_shield_queue_call.simps [of cdc c d]
    by (auto simp: scan_specs encoded_runtime_call_contains_recursive_shield_queue_call.simps
        split: scan_splits decoded.splits)
qed

text \<open>The two remaining scanners hand the calls inside some wrappers to the privacy scanner.\<close>

fun scheduled_call :: "RuntimeCall \<Rightarrow> RuntimeCall option" where
  "scheduled_call (RC_Scheduler (Scheduler_schedule _ _ _ c)) = Some c"
| "scheduled_call (RC_Scheduler (Scheduler_schedule_named _ _ _ _ c)) = Some c"
| "scheduled_call (RC_Scheduler (Scheduler_schedule_after _ _ _ c)) = Some c"
| "scheduled_call (RC_Scheduler (Scheduler_schedule_named_after _ _ _ _ c)) = Some c"
| "scheduled_call _ = None"

text \<open>Batches and alternatives dispatch their calls with their own origin.\<close>

definition keeps_origin :: "RuntimeCall \<Rightarrow> bool" where
  "keeps_origin c = (is_batch c \<or>
     (case c of RC_Utility (Utility_if_else _ _) \<Rightarrow> True | _ \<Rightarrow> False))"

interpretation unroutable_scan: depth_scanner "contains_unroutable_private_queue_call env"
  "\<lambda>d c c'. keeps_origin c \<and> c' \<in> set (inner_calls c)"
  "\<lambda>d c. \<not> keeps_origin c \<and>
     ((\<exists>c' \<in> set (inner_calls c). private_runtime_call_violation env c' \<noteq> None) \<or>
      (\<exists>bs. preimage_of c = Some bs \<and> encoded_runtime_call_contains_private_queue_call env bs (Suc d)))"
  8 for env
proof
  fix c d
  show "contains_unroutable_private_queue_call env c d \<longleftrightarrow>
      8 \<le> d \<or> (\<not> keeps_origin c \<and>
        ((\<exists>c' \<in> set (inner_calls c). private_runtime_call_violation env c' \<noteq> None) \<or>
         (\<exists>bs. preimage_of c = Some bs \<and>
            encoded_runtime_call_contains_private_queue_call env bs (Suc d)))) \<or>
      (\<exists>c'. (keeps_origin c \<and> c' \<in> set (inner_calls c)) \<and>
         contains_unroutable_private_queue_call env c' (Suc d))"
    unfolding contains_unroutable_private_queue_call.simps [of env c d]
    by (auto simp: scan_specs keeps_origin_def is_batch_def simp del: not_None_eq split: scan_splits)
qed

interpretation persistent_scan: depth_scanner "contains_persistent_private_queue_call env"
  "\<lambda>d c c'. scheduled_call c = None \<and> c' \<in> set (inner_calls c)"
  "\<lambda>d c. (\<exists>c'. scheduled_call c = Some c' \<and> private_runtime_call_violation env c' \<noteq> None) \<or>
     (\<exists>bs. preimage_of c = Some bs \<and> encoded_runtime_call_contains_private_queue_call env bs (Suc d))"
  8 for env
proof
  fix c d
  show "contains_persistent_private_queue_call env c d \<longleftrightarrow>
      8 \<le> d \<or>
      ((\<exists>c'. scheduled_call c = Some c' \<and> private_runtime_call_violation env c' \<noteq> None) \<or>
       (\<exists>bs. preimage_of c = Some bs \<and>
          encoded_runtime_call_contains_private_queue_call env bs (Suc d))) \<or>
      (\<exists>c'. (scheduled_call c = None \<and> c' \<in> set (inner_calls c)) \<and>
         contains_persistent_private_queue_call env c' (Suc d))"
    unfolding contains_persistent_private_queue_call.simps [of env c d]
    by (auto simp: scan_specs simp del: not_None_eq split: scan_splits)
qed

section \<open>Consequences\<close>

lemma clear_call_harmless:
  assumes "codec_laws (se_codec env)" and "privacy_violation_at_depth env c d = None"
    and "(carries (se_codec env))\<^sup>*\<^sup>* c c'"
  shows "\<not> harmful env c'"
proof -
  have "nested_at (se_codec env) d a b"
    if "\<not> privacy_violation_at_depth env a d \<noteq> None" "carries (se_codec env) a b" for a b d
    using privacy_scan.clear_not_refused [OF that(1)] carries_nested [OF assms(1) that(2)] by blast
  from privacy_scan.clear_reaches [OF this assms(3)] assms(2)
  obtain k where "privacy_violation_at_depth env c' (d + k) = None" by auto
  then show ?thesis using privacy_scan.clear_not_refused [of env c' "d + k"] by blast
qed

lemma private_inside:
  assumes "codec_laws (se_codec env)" and "(carries (se_codec env))\<^sup>*\<^sup>* c c'" and "harmful env c'"
  shows "private_runtime_call_violation env c \<noteq> None"
  using clear_call_harmless [OF assms(1) _ assms(2), of 0] assms(3)
  by (auto simp: private_runtime_call_violation_def privacy_violation_def)

lemma harmful_qubitum [simp]: "harmful env (RC_Qubitum q)"
  by (simp add: harmful_def)

text \<open>What a queued call that the filter lets pass can carry: a private call is below nothing but
  batches and alternatives.\<close>

lemma private_preimage_blocked:
  assumes "codec_laws (se_codec env)" and "decode_with_depth_limit (se_codec env) 32 bs = Some c"
    and "(carries (se_codec env))\<^sup>*\<^sup>* c c'" and "harmful env c'"
  shows "encoded_runtime_call_contains_private_queue_call env bs (Suc d)"
proof -
  have "8 - Suc d \<le> 32" by simp
  from decode_attempts_lawful [OF assms(1,2) this] private_inside [OF assms(1,3,4)] show ?thesis
    by (auto simp: encoded_runtime_call_contains_private_queue_call_def scan_limits
        split: decoded.splits)
qed

lemma routable_keeps_origin:
  assumes laws: "codec_laws (se_codec env)"
    and clear: "\<not> contains_unroutable_private_queue_call env c d"
    and inside: "carries (se_codec env) c c1" "(carries (se_codec env))\<^sup>*\<^sup>* c1 (RC_Qubitum q)"
  shows "keeps_origin c" and "c1 \<in> set (inner_calls c)"
proof -
  have "private_runtime_call_violation env c1 \<noteq> None"
    by (rule private_inside [OF laws inside(2) harmful_qubitum])
  moreover have "encoded_runtime_call_contains_private_queue_call env bs (Suc d)"
    if "decode_with_depth_limit (se_codec env) 32 bs = Some c1" for bs
    by (rule private_preimage_blocked [OF laws that inside(2) harmful_qubitum])
  moreover note unroutable_scan.clear_not_refused [OF clear] inside(1)
  ultimately show "keeps_origin c" by (auto simp: carries_def simp del: not_None_eq)
  then have "preimage_of c = None"
    by (auto simp: keeps_origin_def is_batch_def preimage_of_def
        split: RuntimeCall.splits UtilityCall.splits)
  with inside(1) show "c1 \<in> set (inner_calls c)" by (simp add: carries_def)
qed

lemma routable_path:
  assumes laws: "codec_laws (se_codec env)"
    and "(carries (se_codec env))\<^sup>*\<^sup>* c c1" and "(carries (se_codec env))\<^sup>*\<^sup>* c1 (RC_Qubitum q)"
    and "\<not> contains_unroutable_private_queue_call env c d"
  shows "\<exists>k. \<not> contains_unroutable_private_queue_call env c1 k"
  using assms(2,4,3)
proof (induction arbitrary: d rule: converse_rtranclp_induct)
  case base
  then show ?case by blast
next
  case (step y z)
  have "(carries (se_codec env))\<^sup>*\<^sup>* z (RC_Qubitum q)" using step.hyps(2) step.prems(2) by simp
  from routable_keeps_origin [OF laws step.prems(1) step.hyps(1) this]
  have "\<not> contains_unroutable_private_queue_call env z (Suc d)"
    by (intro unroutable_scan.clear_chain [OF step.prems(1)]) simp
  from step.IH [OF this step.prems(2)] show ?case .
qed

lemma carries_qubitum: "\<not> carries cdc (RC_Qubitum q) c"
  by (simp add: carries_def preimage_of_def)

lemma queued_private_path:
  assumes laws: "codec_laws (se_codec env)" and "ShieldQueueCallFilter_contains env c"
    and "(carries (se_codec env))\<^sup>*\<^sup>* c c1" and "(carries (se_codec env))\<^sup>*\<^sup>* c1 (RC_Qubitum q)"
  shows "c1 = RC_Qubitum q \<or> keeps_origin c1"
proof -
  obtain k where clear: "\<not> contains_unroutable_private_queue_call env c1 k"
    using routable_path [OF laws assms(3,4)] assms(2)
    by (auto simp: ShieldQueueCallFilter_contains_def)
  show ?thesis
    using assms(4)
  proof (cases rule: converse_rtranclpE)
    case (step z)
    then show ?thesis using routable_keeps_origin [OF laws clear] by blast
  qed simp
qed

end
