(* ===== verification/Runtime_Weights.thy ===== *)
theory Runtime_Weights
  imports Runtime_Calls
begin

text \<open>
  Declared weights of calls: those of the Qubitum pallet (\<^verbatim>\<open>pallets/qubitum/src/weights.rs\<close> and the weight
  attributes of its calls), those of the utility pallet (\<^verbatim>\<open>pallets/utility/src/weights.rs\<close> and the attributes of
  its calls).  A weight is a pair of reference time and proof size.  Its arithmetic and the
  database costs come from another crate: they are the fields of \<open>WeightApi\<close>, and \<open>weight_laws\<close>
  states what they promise.  The weights of the remaining calls are an argument.
\<close>

record WeightApi =
  weight_add :: "Weight \<Rightarrow> Weight \<Rightarrow> Weight"
  weight_mul :: "Weight \<Rightarrow> nat \<Rightarrow> Weight"
  any_gt :: "Weight \<Rightarrow> Weight \<Rightarrow> bool"
  db_reads :: "nat \<Rightarrow> Weight"
  db_writes :: "nat \<Rightarrow> Weight"
  db_reads_writes :: "nat \<Rightarrow> nat \<Rightarrow> Weight"

definition weight_laws :: "WeightApi \<Rightarrow> bool" where
  "weight_laws w \<longleftrightarrow>
     (\<forall>a b. weight_add w a b =
        (saturating_add 64 (fst a) (fst b), saturating_add 64 (snd a) (snd b))) \<and>
     (\<forall>a b. any_gt w a b \<longleftrightarrow> fst a > fst b \<or> snd a > snd b)"

definition SubstrateWeight ::
  "WeightApi \<Rightarrow> nat \<Rightarrow> nat \<Rightarrow> nat \<Rightarrow> nat \<Rightarrow> Weight" where
  "SubstrateWeight w ref_time proof_size rd wr =
     weight_add w (weight_add w (ref_time, proof_size) (db_reads w rd)) (db_writes w wr)"

text \<open>\<open>max_validators\<close> is \<open>MaxActiveValidatorsPerSubnet\<close>.\<close>

definition request_inference_weight :: "WeightApi \<Rightarrow> nat \<Rightarrow> Weight" where
  "request_inference_weight w max_validators =
     weight_add w
       (weight_add w (weight_add w (50000000, 7000) (db_reads w 27)) (db_reads w max_validators))
       (db_writes w 8)"

fun Qubitum_weight :: "WeightApi \<Rightarrow> nat \<Rightarrow> Call \<Rightarrow> Weight" where
  "Qubitum_weight w mv (Call_create_subnet _ _) = SubstrateWeight w 55000000 6500 3 4"
| "Qubitum_weight w mv (Call_register_miner _ _ _) = SubstrateWeight w 65000000 7000 4 4"
| "Qubitum_weight w mv (Call_activate_miner _ _) = SubstrateWeight w 70000000 7000 3 3"
| "Qubitum_weight w mv (Call_deactivate_miner _) = SubstrateWeight w 45000000 5000 2 1"
| "Qubitum_weight w mv (Call_withdraw_miner_bond _) = SubstrateWeight w 55000000 6500 2 2"
| "Qubitum_weight w mv (Call_register_validator _ _) = SubstrateWeight w 70000000 7000 3 3"
| "Qubitum_weight w mv (Call_deactivate_validator _) = SubstrateWeight w 45000000 5000 2 1"
| "Qubitum_weight w mv (Call_withdraw_validator_stake _) = SubstrateWeight w 55000000 6500 2 2"
| "Qubitum_weight w mv (Call_submit_proof _ _ _ _ _) = SubstrateWeight w 85000000 10000 19 17"
| "Qubitum_weight w mv (Call_challenge_proof _ _ _ _ _) = SubstrateWeight w 80000000 9500 18 14"
| "Qubitum_weight w mv (Call_slash_miner _ _ _) = SubstrateWeight w 75000000 7000 4 3"
| "Qubitum_weight w mv (Call_slash_validator _ _ _) = SubstrateWeight w 75000000 7000 4 3"
| "Qubitum_weight w mv (Call_request_inference _ _) = request_inference_weight w mv"
| "Qubitum_weight w mv (Call_request_inference_auto_route _ _) = request_inference_weight w mv"
| "Qubitum_weight w mv (Call_request_inference_commitments _ _) = request_inference_weight w mv"
| "Qubitum_weight w mv (Call_cancel_inference _ _ _ _ _ _) = SubstrateWeight w 45000000 6500 7 7"
| "Qubitum_weight w mv (Call_expire_inference _ _ _ _ _ _ _) = SubstrateWeight w 45000000 6500 7 7"
| "Qubitum_weight w mv (Call_set_miner_identity_commitments _ _ _ _) =
     SubstrateWeight w 25000000 3500 1 2"
| "Qubitum_weight w mv (Call_set_validator_identity_commitments _ _ _ _) =
     SubstrateWeight w 25000000 3500 1 2"

text \<open>The weight functions of the utility pallet.\<close>

definition WI_batch :: "WeightApi \<Rightarrow> nat \<Rightarrow> Weight" where
  "WI_batch w c = weight_add w (weight_add w (17572558, 3983) (weight_mul w (5233749, 0) c))
     (db_reads w 2)"

definition WI_as_derivative :: "WeightApi \<Rightarrow> Weight" where
  "WI_as_derivative w = weight_add w (15328000, 3983) (db_reads w 2)"

definition WI_batch_all :: "WeightApi \<Rightarrow> nat \<Rightarrow> Weight" where
  "WI_batch_all w c = weight_add w (weight_add w (19169854, 3983) (weight_mul w (5450969, 0) c))
     (db_reads w 2)"

definition WI_dispatch_as :: Weight where
  "WI_dispatch_as = (6762000, 0)"

definition WI_force_batch :: "WeightApi \<Rightarrow> nat \<Rightarrow> Weight" where
  "WI_force_batch w c = weight_add w (weight_add w (18257650, 3983) (weight_mul w (5226981, 0) c))
     (db_reads w 2)"

definition WI_dispatch_as_fallible :: Weight where
  "WI_dispatch_as_fallible = (6753000, 0)"

definition WI_if_else :: "WeightApi \<Rightarrow> Weight" where
  "WI_if_else w = weight_add w (21119000, 3983) (db_reads w 2)"

text \<open>The weight in \<open>get_dispatch_info\<close> of a call; \<open>calls_weight\<close> is the sum of
  \<open>weight_and_dispatch_class\<close>.\<close>

fun call_weight :: "WeightApi \<Rightarrow> nat \<Rightarrow> (RuntimeCall \<Rightarrow> Weight) \<Rightarrow> RuntimeCall \<Rightarrow> Weight"
  and utility_weight :: "WeightApi \<Rightarrow> nat \<Rightarrow> (RuntimeCall \<Rightarrow> Weight) \<Rightarrow> UtilityCall \<Rightarrow> Weight"
  and calls_weight ::
    "WeightApi \<Rightarrow> nat \<Rightarrow> (RuntimeCall \<Rightarrow> Weight) \<Rightarrow> Weight \<Rightarrow> RuntimeCall list \<Rightarrow> Weight"
where
  "call_weight w mv others (RC_Qubitum q) = Qubitum_weight w mv q"
| "call_weight w mv others (RC_Utility u) = utility_weight w mv others u"
| "call_weight w mv others c = others c"

| "utility_weight w mv others (Utility_batch calls) =
     weight_add w (calls_weight w mv others (0, 0) calls) (WI_batch w (length calls))"
| "utility_weight w mv others (Utility_as_derivative _ c) =
     weight_add w (weight_add w (WI_as_derivative w) (db_reads_writes w 1 1))
       (call_weight w mv others c)"
| "utility_weight w mv others (Utility_batch_all calls) =
     weight_add w (calls_weight w mv others (0, 0) calls) (WI_batch_all w (length calls))"
| "utility_weight w mv others (Utility_dispatch_as _ c) =
     weight_add w WI_dispatch_as (call_weight w mv others c)"
| "utility_weight w mv others (Utility_force_batch calls) =
     weight_add w (calls_weight w mv others (0, 0) calls) (WI_force_batch w (length calls))"
| "utility_weight w mv others (Utility_with_weight c weight) = weight"
| "utility_weight w mv others (Utility_if_else main fallback) =
     weight_add w (weight_add w (WI_if_else w) (call_weight w mv others main))
       (call_weight w mv others fallback)"
| "utility_weight w mv others (Utility_dispatch_as_fallible _ c) =
     weight_add w WI_dispatch_as_fallible (call_weight w mv others c)"

| "calls_weight w mv others acc [] = acc"
| "calls_weight w mv others acc (c # calls) =
     calls_weight w mv others (weight_add w acc (call_weight w mv others c)) calls"

lemma weight_add_proof_size:
  "weight_laws w \<Longrightarrow> 0 < snd (weight_add w a b) \<longleftrightarrow> 0 < snd a \<or> 0 < snd b"
  by (cases a; cases b) (auto simp: weight_laws_def saturating_add_def uint_max_def)

text \<open>Every call of the Qubitum pallet declares a proof size.\<close>

lemma Qubitum_proof_size: "weight_laws w \<Longrightarrow> 0 < snd (Qubitum_weight w mv q)"
  by (cases q) (simp_all add: SubstrateWeight_def request_inference_weight_def weight_add_proof_size)

end
