(* ===== verification/Shield_Queue.thy ===== *)
theory Shield_Queue
  imports Runtime_Privacy Runtime_Weights
begin

text \<open>
  How the shield pallet works off its queue at the start of a block, \<^verbatim>\<open>pallets/shield/src/lib.rs\<close>
  (\<open>process_pending_extrinsics\<close>).  The state is the storage of the pallet together with the rest of
  the chain; dispatching a decrypted call, which may change both, is a field of the environment, and so
  is decryption.
\<close>

type_synonym ('e, 'w) chain_state = "'e ShieldStorage \<times> 'w"

text \<open>\<open>Dispatch\<close> returns the error or the actual weight, if it is known.\<close>

type_synonym ('e, 'w) dispatcher =
  "RuntimeOrigin \<Rightarrow> RuntimeCall \<Rightarrow> ('e, 'w) chain_state \<Rightarrow> ('e + Weight option) \<times> ('e, 'w) chain_state"

record 'e QueueEnv =
  q_weights :: WeightApi
  q_call_weight :: "RuntimeCall \<Rightarrow> Weight"
  ExtrinsicDecryptor_decrypt :: "bytes \<Rightarrow> RuntimeCall option"
  QueueCallFilter_contains :: "'e ShieldStorage \<Rightarrow> RuntimeCall \<Rightarrow> bool"
  QueueOrigin_origin_for :: "'e ShieldStorage \<Rightarrow> AccountId \<Rightarrow> RuntimeCall \<Rightarrow> RuntimeOrigin"

definition is_recursive_shield_call :: "RuntimeCall \<Rightarrow> bool" where
  "is_recursive_shield_call call = (case call of
     RC_MevShield inner \<Rightarrow>
       (case inner of Shield_submit_encrypted _ \<Rightarrow> True | Shield_store_encrypted _ \<Rightarrow> True | _ \<Rightarrow> False)
   | _ \<Rightarrow> False)"

definition drop_item ::
  "nat \<Rightarrow> 'e ShieldEvent \<Rightarrow> ('e, 'w) chain_state \<Rightarrow> ('e, 'w) chain_state" where
  "drop_item index ev st = (shield_deposit_event ev (pending_remove index (fst st)), snd st)"

text \<open>One turn of the loop: the new weight and state, and whether the loop goes on.\<close>

definition process_item ::
  "'e QueueEnv \<Rightarrow> ('e, 'w) dispatcher \<Rightarrow> BlockNumber \<Rightarrow> nat \<Rightarrow> Weight \<Rightarrow> ('e, 'w) chain_state \<Rightarrow>
   bool \<times> Weight \<times> ('e, 'w) chain_state" where
  "process_item env D now index weight st = (let w = q_weights env; s = fst st in
     case PendingExtrinsics s index of
       None \<Rightarrow> (True, weight_add w weight (db_reads w 1), st)
     | Some pending \<Rightarrow>
         let remove_weight = db_reads_writes w 1 2;
             age = saturating_sub now (px_submitted_at pending)
         in if age > ExtrinsicLifetime s
            then (True, weight_add w weight remove_weight, drop_item index (ExtrinsicExpired index) st)
            else case ExtrinsicDecryptor_decrypt env (px_encrypted_call pending) of
              None \<Rightarrow> (True, weight_add w weight remove_weight,
                       drop_item index (ExtrinsicDecodeFailed index) st)
            | Some call \<Rightarrow>
                if is_recursive_shield_call call \<or> \<not> QueueCallFilter_contains env s call
                then (True, weight_add w weight remove_weight,
                      drop_item index (ExtrinsicDispatchFailed index (Inl Shield_RecursiveShieldCall)) st)
                else let info_weight = q_call_weight env call;
                         dispatch_weight = weight_add w (db_writes w 2) info_weight
                     in if any_gt w info_weight (MaxExtrinsicWeight s, 0)
                        then (True, weight_add w weight remove_weight,
                              drop_item index (ExtrinsicWeightExceeded index) st)
                        else if any_gt w (weight_add w weight dispatch_weight) (OnInitializeWeight s, 0)
                        then (False, weight,
                              (shield_deposit_event (ExtrinsicPostponed index) s, snd st))
                        else let weight1 = weight_add w weight remove_weight;
                                 origin = QueueOrigin_origin_for env s (px_who pending) call;
                                 st1 = (pending_remove index s, snd st)
                             in case D origin call st1 of
                                  (Inr actual, st2) \<Rightarrow>
                                    (True, weight_add w weight1
                                       (case actual of None \<Rightarrow> info_weight | Some a \<Rightarrow> a),
                                     (shield_deposit_event (ExtrinsicDispatched index) (fst st2), snd st2))
                                | (Inl e, st2) \<Rightarrow>
                                    (True, weight_add w weight1 info_weight,
                                     (shield_deposit_event (ExtrinsicDispatchFailed index (Inr e))
                                        (fst st2), snd st2)))"

fun process_items ::
  "'e QueueEnv \<Rightarrow> ('e, 'w) dispatcher \<Rightarrow> BlockNumber \<Rightarrow> nat list \<Rightarrow> Weight \<Rightarrow> ('e, 'w) chain_state \<Rightarrow>
   Weight \<times> ('e, 'w) chain_state" where
  "process_items env D now [] weight st = (weight, st)"
| "process_items env D now (i # is) weight st =
     (case process_item env D now i weight st of
        (True, weight', st') \<Rightarrow> process_items env D now is weight' st'
      | (False, weight', st') \<Rightarrow> (weight', st'))"

definition process_pending_extrinsics ::
  "'e QueueEnv \<Rightarrow> ('e, 'w) dispatcher \<Rightarrow> BlockNumber \<Rightarrow> ('e, 'w) chain_state \<Rightarrow>
   Weight \<times> ('e, 'w) chain_state" where
  "process_pending_extrinsics env D now st =
     (let s = fst st; next_index = NextPendingExtrinsicIndex s; count = PendingExtrinsics_count s;
          weight = db_reads (q_weights env) 2
      in if count = 0 then (weight, st)
         else process_items env D now [saturating_sub next_index count..<next_index] weight st)"

section \<open>Order of the queue\<close>

text \<open>\<open>queued i s\<close>: exactly the indices from \<open>i\<close> up to the next index are pending.\<close>

definition queued :: "nat \<Rightarrow> 'e ShieldStorage \<Rightarrow> bool" where
  "queued i s \<longleftrightarrow> i \<le> NextPendingExtrinsicIndex s \<and>
     PendingExtrinsics_count s = NextPendingExtrinsicIndex s - i \<and>
     (\<forall>j. PendingExtrinsics s j \<noteq> None \<longleftrightarrow> i \<le> j \<and> j < NextPendingExtrinsicIndex s)"

text \<open>Submissions are in the order of their blocks.\<close>

definition in_order :: "BlockNumber \<Rightarrow> 'e ShieldStorage \<Rightarrow> bool" where
  "in_order now s \<longleftrightarrow>
     (\<forall>i j p q. i \<le> j \<longrightarrow> PendingExtrinsics s i = Some p \<longrightarrow> PendingExtrinsics s j = Some q \<longrightarrow>
        px_submitted_at p \<le> px_submitted_at q) \<and>
     (\<forall>j q. PendingExtrinsics s j = Some q \<longrightarrow> px_submitted_at q \<le> now)"

definition queue_ok :: "BlockNumber \<Rightarrow> 'e ShieldStorage \<Rightarrow> bool" where
  "queue_ok now s \<longleftrightarrow> (\<exists>i. queued i s) \<and> in_order now s"

text \<open>What the queue relies on when it dispatches a call: with an origin other than root the call may
  append to the queue, in this block, and leaves the rest of it and the lifetime alone, as long as
  the counter of indices has not run out.\<close>

definition appended :: "BlockNumber \<Rightarrow> 'e ShieldStorage \<Rightarrow> 'e ShieldStorage \<Rightarrow> bool" where
  "appended now s s' \<longleftrightarrow> NextPendingExtrinsicIndex s \<le> NextPendingExtrinsicIndex s' \<and>
     NextPendingExtrinsicIndex s' \<le> uint_max 32 \<and> ExtrinsicLifetime s' = ExtrinsicLifetime s \<and>
     (\<forall>i. queued i s \<longrightarrow> NextPendingExtrinsicIndex s' < uint_max 32 \<longrightarrow> queued i s' \<and>
       (\<forall>j < NextPendingExtrinsicIndex s. PendingExtrinsics s' j = PendingExtrinsics s j) \<and>
       (\<forall>j p. NextPendingExtrinsicIndex s \<le> j \<longrightarrow> PendingExtrinsics s' j = Some p \<longrightarrow>
          px_submitted_at p = now))"

definition appends_only :: "BlockNumber \<Rightarrow> ('e, 'w) dispatcher \<Rightarrow> bool" where
  "appends_only now D \<longleftrightarrow> (\<forall>origin call st. origin \<noteq> RootOrigin \<longrightarrow>
     NextPendingExtrinsicIndex (fst st) \<le> uint_max 32 \<longrightarrow>
     appended now (fst st) (fst (snd (D origin call st))))"

lemma process_item_cases [consumes 2, case_names dropped dispatched postponed]:
  assumes "process_item env D now i weight (s, x) = (go, weight', st')"
    and "PendingExtrinsics s i = Some p"
  obtains ev where "go" "st' = drop_item i ev (s, x)"
  | call r st2 ev where "go" "ExtrinsicDecryptor_decrypt env (px_encrypted_call p) = Some call"
      "QueueCallFilter_contains env s call"
      "\<not> any_gt (q_weights env) (q_call_weight env call) (MaxExtrinsicWeight s, 0)"
      "D (QueueOrigin_origin_for env s (px_who p) call) call (pending_remove i s, x) = (r, st2)"
      "st' = (shield_deposit_event ev (fst st2), snd st2)"
  | ev where "\<not> go" "now - px_submitted_at p \<le> ExtrinsicLifetime s"
      "st' = (shield_deposit_event ev s, x)"
  using assms unfolding process_item_def Let_def
  by (auto simp: saturating_sub_def split: if_splits option.splits prod.splits sum.splits)

lemma event_fields [simp]:
  "PendingExtrinsics (shield_deposit_event ev s) = PendingExtrinsics s"
  "PendingExtrinsics_count (shield_deposit_event ev s) = PendingExtrinsics_count s"
  "NextPendingExtrinsicIndex (shield_deposit_event ev s) = NextPendingExtrinsicIndex s"
  "ExtrinsicLifetime (shield_deposit_event ev s) = ExtrinsicLifetime s"
  "queued i (shield_deposit_event ev s) = queued i s"
  "in_order now (shield_deposit_event ev s) = in_order now s"
  by (simp_all add: shield_deposit_event_def queued_def in_order_def)

lemma remove_fields [simp]:
  "PendingExtrinsics (pending_remove i s) = (PendingExtrinsics s)(i := None)"
  "NextPendingExtrinsicIndex (pending_remove i s) = NextPendingExtrinsicIndex s"
  "ExtrinsicLifetime (pending_remove i s) = ExtrinsicLifetime s"
  by (simp_all add: pending_remove_def)

lemma queued_free: "queued i s \<Longrightarrow> NextPendingExtrinsicIndex s \<le> j \<Longrightarrow> PendingExtrinsics s j = None"
  unfolding queued_def by (meson leD)

lemma queued_remove:
  assumes "queued i s" and "i < NextPendingExtrinsicIndex s"
  shows "queued (Suc i) (pending_remove i s)"
proof -
  have "PendingExtrinsics s i \<noteq> None" using assms by (simp add: queued_def)
  then show ?thesis using assms
    by (auto simp: queued_def pending_remove_def saturating_sub_def simp del: not_None_eq)
qed

text \<open>The invariant of the loop before it looks at index \<open>i\<close>; \<open>n\<close> is the bound of the loop.\<close>

definition working :: "BlockNumber \<Rightarrow> nat \<Rightarrow> nat \<Rightarrow> 'e ShieldStorage \<Rightarrow> bool" where
  "working now n i s \<longleftrightarrow> queued i s \<and> in_order now s \<and> n \<le> NextPendingExtrinsicIndex s \<and>
     (\<forall>j p. n \<le> j \<longrightarrow> PendingExtrinsics s j = Some p \<longrightarrow> px_submitted_at p = now)"

lemma working_event [simp]: "working now n i (shield_deposit_event ev s) = working now n i s"
  by (simp add: working_def)

lemma working_remove:
  assumes "working now n i s" and "i < n"
  shows "working now n (Suc i) (pending_remove i s)"
  using assms queued_remove [of i s]
  by (fastforce simp: working_def in_order_def split: if_splits)

lemma appends_onlyD:
  assumes "appends_only now D" and "origin \<noteq> RootOrigin" and "D origin call (s, x) = (r, st2)"
    and "NextPendingExtrinsicIndex s \<le> uint_max 32"
  shows "NextPendingExtrinsicIndex s \<le> NextPendingExtrinsicIndex (fst st2)"
    and "NextPendingExtrinsicIndex (fst st2) \<le> uint_max 32"
    and "ExtrinsicLifetime (fst st2) = ExtrinsicLifetime s"
    and "\<lbrakk>queued i s; NextPendingExtrinsicIndex (fst st2) < uint_max 32\<rbrakk> \<Longrightarrow> queued i (fst st2)"
    and "\<lbrakk>queued i s; NextPendingExtrinsicIndex (fst st2) < uint_max 32;
      j < NextPendingExtrinsicIndex s\<rbrakk> \<Longrightarrow>
      PendingExtrinsics (fst st2) j = PendingExtrinsics s j"
    and "\<lbrakk>queued i s; NextPendingExtrinsicIndex (fst st2) < uint_max 32;
      NextPendingExtrinsicIndex s \<le> j; PendingExtrinsics (fst st2) j = Some p\<rbrakk> \<Longrightarrow>
      px_submitted_at p = now"
proof -
  have "appended now s (fst st2)"
    using assms by (metis appends_only_def fst_conv snd_conv)
  then show "NextPendingExtrinsicIndex s \<le> NextPendingExtrinsicIndex (fst st2)"
    "NextPendingExtrinsicIndex (fst st2) \<le> uint_max 32"
    "ExtrinsicLifetime (fst st2) = ExtrinsicLifetime s"
    "\<lbrakk>queued i s; NextPendingExtrinsicIndex (fst st2) < uint_max 32\<rbrakk> \<Longrightarrow> queued i (fst st2)"
    "\<lbrakk>queued i s; NextPendingExtrinsicIndex (fst st2) < uint_max 32;
      j < NextPendingExtrinsicIndex s\<rbrakk> \<Longrightarrow>
      PendingExtrinsics (fst st2) j = PendingExtrinsics s j"
    "\<lbrakk>queued i s; NextPendingExtrinsicIndex (fst st2) < uint_max 32;
      NextPendingExtrinsicIndex s \<le> j; PendingExtrinsics (fst st2) j = Some p\<rbrakk> \<Longrightarrow>
      px_submitted_at p = now"
    by (simp_all add: appended_def)
qed

lemma working_dispatch:
  assumes "working now n i s" and "appends_only now D" and "D origin call (s, x) = (r, st2)"
    and "origin \<noteq> RootOrigin" and "NextPendingExtrinsicIndex s \<le> uint_max 32"
    and "NextPendingExtrinsicIndex (fst st2) < uint_max 32"
  shows "working now n i (fst st2)"
proof -
  let ?s' = "fst st2"
  note law = appends_onlyD [OF assms(2,4,3,5)]
  have queued: "queued i s" using assms(1) by (simp add: working_def)
  note D = law(4) [OF queued assms(6)] law(1,3) law(5,6) [OF queued assms(6)]
  have order: "in_order now s" and n: "n \<le> NextPendingExtrinsicIndex s"
    and new: "\<And>j p. n \<le> j \<Longrightarrow> PendingExtrinsics s j = Some p \<Longrightarrow> px_submitted_at p = now"
    using assms(1) by (simp_all add: working_def)
  have old: "px_submitted_at p \<le> now" if "PendingExtrinsics ?s' j = Some p" for j p
    using that D(4,5) [of j] order by (cases "j < NextPendingExtrinsicIndex s") (auto simp: in_order_def)
  have "in_order now ?s'"
    unfolding in_order_def
  proof (intro conjI allI impI)
    fix j k p q
    assume jk: "j \<le> k" "PendingExtrinsics ?s' j = Some p" "PendingExtrinsics ?s' k = Some q"
    show "px_submitted_at p \<le> px_submitted_at q"
    proof (cases "k < NextPendingExtrinsicIndex s")
      case True
      then have "j < NextPendingExtrinsicIndex s" using jk(1) by simp
      with True jk D(4) order show ?thesis unfolding in_order_def by metis
    next
      case False
      then have "px_submitted_at q = now" using jk(3) D(5) [of k q] by simp
      with old [OF jk(2)] show ?thesis by simp
    qed
  qed (use old in blast)
  moreover have "px_submitted_at p = now" if "n \<le> j" "PendingExtrinsics ?s' j = Some p" for j p
    using that D(4,5) [of j] new [of j] by (cases "j < NextPendingExtrinsicIndex s") auto
  ultimately show "working now n i ?s'" using D(1,2) n by (auto simp: working_def)
qed

definition never_root :: "'e QueueEnv \<Rightarrow> bool" where
  "never_root env \<longleftrightarrow> (\<forall>s who c. QueueOrigin_origin_for env s who c \<noteq> RootOrigin)"

lemma process_item_counter:
  assumes "appends_only now D" and "never_root env"
    and "process_item env D now i weight (s, x) = (go, weight', st')"
    and "NextPendingExtrinsicIndex s \<le> uint_max 32"
  shows "NextPendingExtrinsicIndex s \<le> NextPendingExtrinsicIndex (fst st')"
    and "NextPendingExtrinsicIndex (fst st') \<le> uint_max 32"
    and "ExtrinsicLifetime (fst st') = ExtrinsicLifetime s"
proof -
  have "NextPendingExtrinsicIndex s \<le> NextPendingExtrinsicIndex (fst st') \<and>
    NextPendingExtrinsicIndex (fst st') \<le> uint_max 32 \<and>
    ExtrinsicLifetime (fst st') = ExtrinsicLifetime s"
  proof (cases "PendingExtrinsics s i")
    case None
    then show ?thesis using assms(3,4) by (auto simp: process_item_def Let_def)
  next
    case (Some p)
    from assms(3) Some show ?thesis
    proof (cases rule: process_item_cases)
      case (dispatched call r st2 ev)
      have "NextPendingExtrinsicIndex (pending_remove i s) \<le> uint_max 32" using assms(4) by simp
      from appends_onlyD [OF assms(1) _ dispatched(5) this] assms(2) dispatched(6) show ?thesis
        by (simp add: never_root_def)
    qed (use assms(4) in \<open>auto simp: drop_item_def\<close>)
  qed
  then show "NextPendingExtrinsicIndex s \<le> NextPendingExtrinsicIndex (fst st')"
    "NextPendingExtrinsicIndex (fst st') \<le> uint_max 32"
    "ExtrinsicLifetime (fst st') = ExtrinsicLifetime s"
    by simp_all
qed

lemma process_items_counter:
  assumes "appends_only now D" and "never_root env"
    and "process_items env D now js weight st = (weight', st')"
    and "NextPendingExtrinsicIndex (fst st) \<le> uint_max 32"
  shows "NextPendingExtrinsicIndex (fst st) \<le> NextPendingExtrinsicIndex (fst st')"
  using assms(3,4)
proof (induction js arbitrary: weight st)
  case (Cons j js)
  obtain go w2 st2 where item: "process_item env D now j weight (fst st, snd st) = (go, w2, st2)"
    by (metis prod_cases3)
  note step = process_item_counter [OF assms(1,2) item Cons.prems(2)]
  show ?case
    using Cons.IH [of w2 st2] Cons.prems(1) item step by (cases go) auto
qed simp

lemma process_items_order:
  assumes "appends_only now D" and "never_root env" and "working now n i s" and "i \<le> n"
    and "process_items env D now [i..<n] weight (s, x) = (weight', s', x')"
    and "NextPendingExtrinsicIndex s \<le> uint_max 32" and "NextPendingExtrinsicIndex s' < uint_max 32"
  shows "\<exists>k. i \<le> k \<and> k \<le> n \<and> working now n k s' \<and> ExtrinsicLifetime s' = ExtrinsicLifetime s \<and>
    (\<forall>p. k < n \<longrightarrow> PendingExtrinsics s' k = Some p \<longrightarrow>
       now - px_submitted_at p \<le> ExtrinsicLifetime s)"
  using assms(3-6)
proof (induction "n - i" arbitrary: i s x weight)
  case 0
  then show ?case by (intro exI [of _ i]) auto
next
  case (Suc m)
  then have less: "i < n" by simp
  then have "PendingExtrinsics s i \<noteq> None" using Suc.prems(1) by (simp add: working_def queued_def)
  then obtain p where p: "PendingExtrinsics s i = Some p" by blast
  obtain go w2 s2 x2 where item: "process_item env D now i weight (s, x) = (go, w2, s2, x2)"
    by (metis prod_cases4)
  have list: "[i..<n] = i # [Suc i..<n]" using less by (simp add: upt_conv_Cons)
  note counter = process_item_counter [OF assms(1,2) item Suc.prems(4), simplified]
  have s2: "NextPendingExtrinsicIndex s2 < uint_max 32" if go
    using process_items_counter [OF assms(1,2), of "[Suc i..<n]" w2 "(s2, x2)" weight' "(s', x')"]
      Suc.prems(3) list item that counter(2) assms(7) by auto
  have next_item: ?case if go and "working now n (Suc i) s2"
  proof -
    have "m = n - Suc i" "Suc i \<le> n" using Suc.hyps(2) less by simp_all
    from Suc.hyps(1) [OF this(1) that(2) this(2), of w2 x2] Suc.prems(3) list item that(1) counter(2,3)
    obtain k where "Suc i \<le> k" "k \<le> n" "working now n k s'"
      "ExtrinsicLifetime s' = ExtrinsicLifetime s"
      "\<forall>p. k < n \<longrightarrow> PendingExtrinsics s' k = Some p \<longrightarrow>
         now - px_submitted_at p \<le> ExtrinsicLifetime s"
      by auto
    then show ?thesis by (intro exI [of _ k]) auto
  qed
  note removed = working_remove [OF Suc.prems(1) less]
  from item p show ?case
  proof (cases rule: process_item_cases)
    case (dropped ev)
    with removed show ?thesis by (intro next_item) (auto simp: drop_item_def)
  next
    case (dispatched call r st2 ev)
    with s2 have "NextPendingExtrinsicIndex (fst st2) < uint_max 32" by simp
    with working_dispatch [OF removed assms(1) dispatched(5)] dispatched(1,6) Suc.prems(4) assms(2)
    show ?thesis by (intro next_item) (auto simp: never_root_def)
  next
    case (postponed ev)
    then have "s' = s2" using Suc.prems(3) list item by simp
    with postponed p Suc.prems(1) less show ?thesis by (intro exI [of _ i]) auto
  qed
qed

lemma queue_order_kept:
  assumes "appends_only now D" and "never_root env" and "queue_ok now s"
    and "NextPendingExtrinsicIndex s \<le> uint_max 32" and "NextPendingExtrinsicIndex s' < uint_max 32"
    and "process_pending_extrinsics env D now (s, x) = (weight, s', x')"
  shows "queue_ok now s' \<and>
    (\<forall>j p. PendingExtrinsics s' j = Some p \<longrightarrow> now - px_submitted_at p \<le> ExtrinsicLifetime s')"
proof -
  let ?n = "NextPendingExtrinsicIndex s"
  obtain i where i: "queued i s" and order: "in_order now s" using assms(3) by (auto simp: queue_ok_def)
  then have start: "saturating_sub ?n (PendingExtrinsics_count s) = i" "i \<le> ?n"
    by (simp_all add: queued_def saturating_sub_def)
  from i order queued_free [OF i] have working: "working now ?n i s" by (auto simp: working_def)
  have "process_items env D now [i..<?n] (db_reads (q_weights env) 2) (s, x) = (weight, s', x')"
    using assms(6) start i by (auto simp: process_pending_extrinsics_def Let_def queued_def split: if_splits)
  from process_items_order [OF assms(1,2) working start(2) this assms(4,5)]
  obtain k where k: "i \<le> k" "k \<le> ?n" "working now ?n k s'" "ExtrinsicLifetime s' = ExtrinsicLifetime s"
    "\<forall>p. k < ?n \<longrightarrow> PendingExtrinsics s' k = Some p \<longrightarrow>
       now - px_submitted_at p \<le> ExtrinsicLifetime s"
    by auto
  have "now - px_submitted_at p \<le> ExtrinsicLifetime s'" if p: "PendingExtrinsics s' j = Some p" for j p
  proof (cases "?n \<le> j")
    case True
    then show ?thesis using k(3) p by (auto simp: working_def)
  next
    case False
    have "k \<le> j" using k(3) p unfolding working_def queued_def by (metis option.distinct(1))
    then have "k < ?n" using False by simp
    then have "PendingExtrinsics s' k \<noteq> None" using k(3) by (simp add: working_def queued_def)
    then obtain p0 where p0: "PendingExtrinsics s' k = Some p0" by blast
    then have "px_submitted_at p0 \<le> px_submitted_at p"
      using k(3) p \<open>k \<le> j\<close> unfolding working_def in_order_def by blast
    moreover have "now - px_submitted_at p0 \<le> ExtrinsicLifetime s'" using k(4,5) p0 \<open>k < ?n\<close> by simp
    ultimately show ?thesis by simp
  qed
  with k(3) show ?thesis by (auto simp: queue_ok_def working_def)
qed

text \<open>The pallet's own calls keep the law: with a dispatcher that runs them, and gives every other call
  the rest of the chain only, the queue stays in order.\<close>

definition shield_dispatcher ::
  "ShieldCrypto \<Rightarrow> ShieldBlock \<Rightarrow> (RuntimeOrigin \<Rightarrow> RuntimeCall \<Rightarrow> 'w \<Rightarrow> (ShieldError + Weight option) \<times> 'w) \<Rightarrow>
   (ShieldError, 'w) dispatcher" where
  "shield_dispatcher cr b other origin call st = (case call of
     RC_MevShield c \<Rightarrow>
       (case shield_dispatch cr b origin c (fst st) of
          (Inl e, s) \<Rightarrow> (Inl e, s, snd st)
        | (Inr _, s) \<Rightarrow> (Inr None, s, snd st))
   | _ \<Rightarrow> (case other origin call (snd st) of (r, x) \<Rightarrow> (r, fst st, x)))"

definition same_queue :: "'e ShieldStorage \<Rightarrow> 'e ShieldStorage \<Rightarrow> bool" where
  "same_queue s s' \<longleftrightarrow> PendingExtrinsics s' = PendingExtrinsics s \<and>
     PendingExtrinsics_count s' = PendingExtrinsics_count s \<and>
     NextPendingExtrinsicIndex s' = NextPendingExtrinsicIndex s \<and>
     ExtrinsicLifetime s' = ExtrinsicLifetime s"

lemma same_queue_queued: "same_queue s s' \<Longrightarrow> queued i s' = queued i s"
  by (simp add: same_queue_def queued_def)

lemmas shield_call_defs = announce_next_key_def submit_encrypted_def store_encrypted_def
  set_max_pending_extrinsics_number_def set_on_initialize_weight_def
  set_stored_extrinsic_lifetime_def set_max_extrinsic_weight_def

lemma shield_dispatch_queue:
  assumes "shield_dispatch cr b origin c s = (r, s')" and "origin \<noteq> RootOrigin"
  shows "same_queue s s' \<or> (\<exists>who bs. c = Shield_store_encrypted bs \<and>
    s' = shield_deposit_event (ExtrinsicStored (NextPendingExtrinsicIndex s))
      ((pending_insert (NextPendingExtrinsicIndex s)
        \<lparr>px_who = who, px_encrypted_call = bs, px_submitted_at = sb_now b\<rparr> s)
       \<lparr>NextPendingExtrinsicIndex := saturating_add 32 (NextPendingExtrinsicIndex s) 1\<rparr>))"
proof (cases r)
  case (Inl e)
  with assms(1) have "s' = s" by (cases c) (auto simp: shield_call_defs transactional_err)
  then show ?thesis by (simp add: same_queue_def)
next
  case (Inr u)
  then show ?thesis using assms
    by (cases c) (auto simp: shield_call_defs ok_simps same_queue_def split: option.splits)
qed

lemma stored_appends:
  fixes s :: "'e ShieldStorage"
  defines "n \<equiv> NextPendingExtrinsicIndex s"
  assumes "s' = shield_deposit_event ev ((pending_insert n p s)
      \<lparr>NextPendingExtrinsicIndex := saturating_add 32 n 1\<rparr>)"
    and "queued i s" and "NextPendingExtrinsicIndex s' < uint_max 32"
  shows "queued i s' \<and> (\<forall>j < n. PendingExtrinsics s' j = PendingExtrinsics s j) \<and>
    (\<forall>j q. n \<le> j \<longrightarrow> PendingExtrinsics s' j = Some q \<longrightarrow> q = p)"
proof -
  have "saturating_add 32 n 1 < uint_max 32" using assms(2,4) by simp
  then have n: "n + 1 < 2 ^ 32" by (auto simp: saturating_add_def uint_max_def split: if_splits)
  have free: "PendingExtrinsics s j = None" if "n \<le> j" for j
    using queued_free [OF assms(3)] that by (simp add: n_def)
  have "PendingExtrinsics_count s + 1 < 2 ^ 32" using assms(3) n unfolding queued_def n_def by simp
  then have "PendingExtrinsics_count s' = PendingExtrinsics_count s + 1"
    "NextPendingExtrinsicIndex s' = n + 1" "PendingExtrinsics s' = (PendingExtrinsics s)(n \<mapsto> p)"
    using assms(2) n free by (simp_all add: pending_insert_def)
  with assms(3) free show ?thesis
    unfolding n_def queued_def by (auto simp del: not_None_eq)
qed

text \<open>\<open>stored_by\<close>: the state after a call is stored.\<close>

definition stored_by :: "BlockNumber \<Rightarrow> 'e ShieldStorage \<Rightarrow> 'e ShieldStorage \<Rightarrow> bool" where
  "stored_by now s s' \<longleftrightarrow> (\<exists>who bs. s' = shield_deposit_event
     (ExtrinsicStored (NextPendingExtrinsicIndex s))
     ((pending_insert (NextPendingExtrinsicIndex s)
        \<lparr>px_who = who, px_encrypted_call = bs, px_submitted_at = now\<rparr> s)
      \<lparr>NextPendingExtrinsicIndex := saturating_add 32 (NextPendingExtrinsicIndex s) 1\<rparr>))"

lemma same_queue_appended:
  assumes "same_queue s s'" and "NextPendingExtrinsicIndex s \<le> uint_max 32"
  shows "appended now s s'"
  using assms queued_free [of _ s] same_queue_queued [OF assms(1)]
  by (auto simp: appended_def same_queue_def)

lemma stored_by_appended:
  assumes "stored_by now s s'" and "NextPendingExtrinsicIndex s \<le> uint_max 32"
  shows "appended now s s'"
proof -
  let ?n = "NextPendingExtrinsicIndex s"
  obtain who bs where stored: "s' = shield_deposit_event (ExtrinsicStored ?n)
      ((pending_insert ?n \<lparr>px_who = who, px_encrypted_call = bs, px_submitted_at = now\<rparr> s)
       \<lparr>NextPendingExtrinsicIndex := saturating_add 32 ?n 1\<rparr>)"
    using assms(1) by (auto simp: stored_by_def)
  have "queued i s' \<and> (\<forall>j < ?n. PendingExtrinsics s' j = PendingExtrinsics s j) \<and>
      (\<forall>j p. ?n \<le> j \<longrightarrow> PendingExtrinsics s' j = Some p \<longrightarrow> px_submitted_at p = now)"
    if "queued i s" "NextPendingExtrinsicIndex s' < uint_max 32" for i
    using stored_appends [OF stored that] by fastforce
  moreover have "NextPendingExtrinsicIndex s' = saturating_add 32 ?n 1"
    "ExtrinsicLifetime s' = ExtrinsicLifetime s" unfolding stored by (simp_all add: pending_insert_def)
  moreover have "?n \<le> saturating_add 32 ?n 1" "saturating_add 32 ?n 1 \<le> uint_max 32"
    using assms(2) by (simp_all add: saturating_add_def)
  ultimately show ?thesis unfolding appended_def by metis
qed

lemma shield_dispatcher_appends: "appends_only (sb_now b) (shield_dispatcher cr b other)"
proof -
  have "appended (sb_now b) (fst st) (fst (snd (shield_dispatcher cr b other origin call st)))"
    if origin: "origin \<noteq> RootOrigin" and max: "NextPendingExtrinsicIndex (fst st) \<le> uint_max 32"
    for origin call st
  proof (cases "\<exists>c. call = RC_MevShield c")
    case True
    then obtain c r s' where c: "call = RC_MevShield c"
      "shield_dispatch cr b origin c (fst st) = (r, s')" by (metis surj_pair)
    then have "fst (snd (shield_dispatcher cr b other origin call st)) = s'"
      by (cases r) (simp_all add: shield_dispatcher_def)
    with shield_dispatch_queue [OF c(2) origin] same_queue_appended stored_by_appended max
    show ?thesis by (metis stored_by_def)
  next
    case False
    then have "fst (snd (shield_dispatcher cr b other origin call st)) = fst st"
      by (simp add: shield_dispatcher_def split: RuntimeCall.splits prod.splits)
    with same_queue_appended [OF _ max] show ?thesis by (simp add: same_queue_def)
  qed
  then show ?thesis by (simp add: appends_only_def)
qed

section \<open>The queue of the runtime\<close>

text \<open>The configuration of the pallet in \<^verbatim>\<open>runtime/src/lib.rs\<close>; the decryptor is an argument, and the one
  the runtime chooses, the trivial implementation, is \<open>no_decryptor\<close>.\<close>

definition no_decryptor :: "bytes \<Rightarrow> RuntimeCall option" where
  "no_decryptor data = None"

definition runtime_scan_env :: "Codec \<Rightarrow> ShieldCrypto \<Rightarrow> 'e ShieldStorage \<Rightarrow> 'e ScanEnv" where
  "runtime_scan_env cdc cr s = \<lparr>se_codec = cdc, se_crypto = cr, se_shield = s\<rparr>"

definition shield_Config_for_Runtime ::
  "Codec \<Rightarrow> ShieldCrypto \<Rightarrow> WeightApi \<Rightarrow> nat \<Rightarrow> (RuntimeCall \<Rightarrow> Weight) \<Rightarrow> (bytes \<Rightarrow> RuntimeCall option) \<Rightarrow>
   'e QueueEnv" where
  "shield_Config_for_Runtime cdc cr w mv others decryptor = \<lparr>
     q_weights = w,
     q_call_weight = call_weight w mv others,
     ExtrinsicDecryptor_decrypt = decryptor,
     QueueCallFilter_contains = (\<lambda>s. ShieldQueueCallFilter_contains (runtime_scan_env cdc cr s)),
     QueueOrigin_origin_for = (\<lambda>s. ShieldRuntimeQueueOrigin_origin_for (runtime_scan_env cdc cr s))\<rparr>"

text \<open>A call that declares a proof size never passes the limit on the weight of one extrinsic, whose
  proof size is zero; every Qubitum call, batch and alternative declares one.\<close>

lemma over_limit: "weight_laws w \<Longrightarrow> 0 < snd a \<Longrightarrow> any_gt w a (x, 0)"
  by (cases a) (simp add: weight_laws_def)

lemma keeps_origin_proof_size:
  "weight_laws w \<Longrightarrow> keeps_origin c \<Longrightarrow> 0 < snd (call_weight w mv others c)"
  by (auto simp: keeps_origin_def is_batch_def WI_batch_def WI_batch_all_def WI_force_batch_def
      WI_if_else_def weight_add_proof_size split: RuntimeCall.splits UtilityCall.splits)

definition carries_qubitum_call :: "Codec \<Rightarrow> RuntimeCall \<Rightarrow> bool" where
  "carries_qubitum_call cdc c \<longleftrightarrow> (\<exists>q. (carries cdc)\<^sup>*\<^sup>* c (RC_Qubitum q))"

lemma dispatched_without_qubitum:
  assumes "codec_laws cdc" and "weight_laws w"
    and "ShieldQueueCallFilter_contains (runtime_scan_env cdc cr s) c"
    and "\<not> any_gt w (call_weight w mv others c) (x, 0)"
  shows "\<not> carries_qubitum_call cdc c"
proof
  assume "carries_qubitum_call cdc c"
  then obtain q where "(carries cdc)\<^sup>*\<^sup>* c (RC_Qubitum q)" by (auto simp: carries_qubitum_call_def)
  with queued_private_path [of "runtime_scan_env cdc cr s" c c q] assms(1,3)
  have "c = RC_Qubitum q \<or> keeps_origin c" by (simp add: runtime_scan_env_def)
  then have "0 < snd (call_weight w mv others c)"
    using Qubitum_proof_size [OF assms(2)] keeps_origin_proof_size [OF assms(2)] by auto
  with over_limit [OF assms(2)] assms(4) show False by blast
qed

lemma process_item_ignores_qubitum:
  assumes "codec_laws cdc" and "weight_laws w"
    and "\<And>origin c. \<not> carries_qubitum_call cdc c \<Longrightarrow> D origin c = D' origin c"
  shows "process_item (shield_Config_for_Runtime cdc cr w mv others decryptor) D now i weight st =
    process_item (shield_Config_for_Runtime cdc cr w mv others decryptor) D' now i weight st"
  unfolding process_item_def Let_def
  by (auto simp: shield_Config_for_Runtime_def split: option.splits
      intro!: arg_cong [of "D _ _" "D' _ _" "\<lambda>f. case f _ of (r, st) \<Rightarrow> _ r st"] assms(3))
    (blast dest: dispatched_without_qubitum [OF assms(1,2)])

lemma process_items_ignores_qubitum:
  assumes "codec_laws cdc" and "weight_laws w"
    and "\<And>origin c. \<not> carries_qubitum_call cdc c \<Longrightarrow> D origin c = D' origin c"
  shows "process_items (shield_Config_for_Runtime cdc cr w mv others decryptor) D now js weight st =
    process_items (shield_Config_for_Runtime cdc cr w mv others decryptor) D' now js weight st"
proof (induction js arbitrary: weight st)
  case (Cons j js)
  show ?case
    by (simp add: process_item_ignores_qubitum [OF assms] Cons.IH split: prod.split bool.split)
qed simp

lemma process_item_no_decryptor:
  assumes "PendingExtrinsics s i = Some p"
    and "process_item (shield_Config_for_Runtime cdc cr w mv others no_decryptor) D now i weight (s, x) =
      (go, weight', st')"
  shows "go \<and> (\<exists>ev. st' = drop_item i ev (s, x))"
  using assms by (auto simp: process_item_def Let_def shield_Config_for_Runtime_def no_decryptor_def
      split: if_splits)

lemma runtime_never_root: "never_root (shield_Config_for_Runtime cdc cr w mv others decryptor)"
  by (simp add: never_root_def shield_Config_for_Runtime_def ShieldRuntimeQueueOrigin_origin_for_def)

end
