(* ===== verification/Proxy_Pallet.thy ===== *)
theory Proxy_Pallet
  imports Runtime_Calls "HOL-Library.Product_Lexorder"
begin

text \<open>
  The proxy pallet, \<^verbatim>\<open>pallets/proxy/src/lib.rs\<close>: its storage and every call but the two that dispatch a call for
  another account, which are in \<open>Runtime_Dispatch\<close>; and the permissions of the proxy types of the
  runtime, from \<^verbatim>\<open>runtime/src/lib.rs\<close> and \<^verbatim>\<open>common/src/lib.rs\<close>.

  The reservable currency and the derivation of pure accounts are fields of \<open>ProxyConfig\<close>; account
  lookup is the identity of the runtime's \<open>AccountIdLookup\<close> on accounts.
\<close>

section \<open>Proxy types\<close>

fun u8_of_ProxyType :: "ProxyType \<Rightarrow> nat" where
  "u8_of_ProxyType PT_Any = 0"
| "u8_of_ProxyType PT_Owner = 1"
| "u8_of_ProxyType PT_NonCritical = 2"
| "u8_of_ProxyType PT_NonTransfer = 3"
| "u8_of_ProxyType PT_Senate = 4"
| "u8_of_ProxyType PT_NonFungible = 5"
| "u8_of_ProxyType PT_Triumvirate = 6"
| "u8_of_ProxyType PT_Governance = 7"
| "u8_of_ProxyType PT_Staking = 8"
| "u8_of_ProxyType PT_Registration = 9"
| "u8_of_ProxyType PT_Transfer = 10"
| "u8_of_ProxyType PT_SmallTransfer = 11"
| "u8_of_ProxyType PT_RootWeights = 12"
| "u8_of_ProxyType PT_ChildKeys = 13"
| "u8_of_ProxyType PT_SudoUncheckedSetCode = 14"
| "u8_of_ProxyType PT_SwapHotkey = 15"
| "u8_of_ProxyType PT_SubnetLeaseBeneficiary = 16"
| "u8_of_ProxyType PT_RootClaim = 17"

fun ProxyType_try_from :: "nat \<Rightarrow> ProxyType option" where
  "ProxyType_try_from v =
     (if v = 0 then Some PT_Any
      else if v = 1 then Some PT_Owner
      else if v = 2 then Some PT_NonCritical
      else if v = 3 then Some PT_NonTransfer
      else if v = 4 then Some PT_Senate
      else if v = 5 then Some PT_NonFungible
      else if v = 6 then Some PT_Triumvirate
      else if v = 7 then Some PT_Governance
      else if v = 8 then Some PT_Staking
      else if v = 9 then Some PT_Registration
      else if v = 10 then Some PT_Transfer
      else if v = 11 then Some PT_SmallTransfer
      else if v = 12 then Some PT_RootWeights
      else if v = 13 then Some PT_ChildKeys
      else if v = 14 then Some PT_SudoUncheckedSetCode
      else if v = 15 then Some PT_SwapHotkey
      else if v = 16 then Some PT_SubnetLeaseBeneficiary
      else if v = 17 then Some PT_RootClaim
      else None)"

lemma ProxyType_roundtrip [simp]: "ProxyType_try_from (u8_of_ProxyType t) = Some t"
  by (cases t) simp_all

lemma u8_of_ProxyType_inject [simp]: "u8_of_ProxyType t = u8_of_ProxyType t' \<longleftrightarrow> t = t'"
  by (metis ProxyType_roundtrip option.inject)

text \<open>The derived order of the enumeration.\<close>

instantiation ProxyType :: linorder
begin

definition less_eq_ProxyType :: "ProxyType \<Rightarrow> ProxyType \<Rightarrow> bool" where
  "less_eq_ProxyType t t' \<longleftrightarrow> u8_of_ProxyType t \<le> u8_of_ProxyType t'"

definition less_ProxyType :: "ProxyType \<Rightarrow> ProxyType \<Rightarrow> bool" where
  "less_ProxyType t t' \<longleftrightarrow> u8_of_ProxyType t < u8_of_ProxyType t'"

instance
  by standard (auto simp: less_eq_ProxyType_def less_ProxyType_def)

end

definition SMALL_TRANSFER_LIMIT :: Balance where
  "SMALL_TRANSFER_LIMIT = 500000000"

definition SMALL_ALPHA_TRANSFER_LIMIT :: Balance where
  "SMALL_ALPHA_TRANSFER_LIMIT = 500000000"

definition subtensor_in :: "SubtensorName list \<Rightarrow> RuntimeCall \<Rightarrow> bool" where
  "subtensor_in names c =
     (case c of RC_SubtensorModule (Subtensor_call n _) \<Rightarrow> n \<in> set names | _ \<Rightarrow> False)"

definition is_transfer_stake :: "RuntimeCall \<Rightarrow> bool" where
  "is_transfer_stake c =
     (case c of RC_SubtensorModule (Subtensor_transfer_stake _ _) \<Rightarrow> True | _ \<Rightarrow> False)"

definition is_balances :: "RuntimeCall \<Rightarrow> bool" where
  "is_balances c = (case c of RC_Balances _ \<Rightarrow> True | _ \<Rightarrow> False)"

definition admin_in :: "AdminName list \<Rightarrow> RuntimeCall \<Rightarrow> bool" where
  "admin_in names c = (case c of RC_AdminUtils n _ \<Rightarrow> n \<in> set names | _ \<Rightarrow> False)"

fun ProxyType_filter :: "ProxyType \<Rightarrow> RuntimeCall \<Rightarrow> bool" where
  "ProxyType_filter PT_Any c \<longleftrightarrow> True"
| "ProxyType_filter PT_NonTransfer c \<longleftrightarrow>
     \<not> (is_balances c \<or> is_transfer_stake c \<or> subtensor_in [schedule_swap_coldkey, swap_coldkey] c)"
| "ProxyType_filter PT_NonFungible c \<longleftrightarrow>
     \<not> (is_balances c \<or> is_transfer_stake c \<or>
        subtensor_in [add_stake, add_stake_limit, remove_stake, remove_stake_limit,
          remove_stake_full_limit, unstake_all, unstake_all_alpha, swap_stake, swap_stake_limit,
          move_stake, burned_register, root_register, schedule_swap_coldkey, swap_coldkey,
          swap_hotkey] c)"
| "ProxyType_filter PT_Transfer c \<longleftrightarrow>
     (case c of
        RC_Balances b \<Rightarrow>
          (case b of
             Balances_transfer_keep_alive _ _ \<Rightarrow> True
           | Balances_transfer_allow_death _ _ \<Rightarrow> True
           | Balances_transfer_all _ _ \<Rightarrow> True
           | Balances_other _ \<Rightarrow> False)
      | _ \<Rightarrow> is_transfer_stake c)"
| "ProxyType_filter PT_SmallTransfer c \<longleftrightarrow>
     (case c of
        RC_Balances b \<Rightarrow>
          (case b of
             Balances_transfer_keep_alive _ v \<Rightarrow> v < SMALL_TRANSFER_LIMIT
           | Balances_transfer_allow_death _ v \<Rightarrow> v < SMALL_TRANSFER_LIMIT
           | _ \<Rightarrow> False)
      | RC_SubtensorModule s \<Rightarrow>
          (case s of
             Subtensor_transfer_stake alpha_amount _ \<Rightarrow> alpha_amount < SMALL_ALPHA_TRANSFER_LIMIT
           | _ \<Rightarrow> False)
      | _ \<Rightarrow> False)"
| "ProxyType_filter PT_Owner c \<longleftrightarrow>
     ((case c of RC_AdminUtils _ _ \<Rightarrow> True | _ \<Rightarrow> subtensor_in [set_subnet_identity, update_symbol] c)
      \<and> \<not> admin_in [sudo_set_sn_owner_hotkey] c)"
| "ProxyType_filter PT_NonCritical c \<longleftrightarrow>
     \<not> (subtensor_in [dissolve_network, root_register, burned_register] c
        \<or> (case c of RC_Sudo _ \<Rightarrow> True | _ \<Rightarrow> False))"
| "ProxyType_filter PT_Triumvirate c \<longleftrightarrow> False"
| "ProxyType_filter PT_Senate c \<longleftrightarrow> False"
| "ProxyType_filter PT_Governance c \<longleftrightarrow> False"
| "ProxyType_filter PT_Staking c \<longleftrightarrow>
     subtensor_in [add_stake, remove_stake, unstake_all, unstake_all_alpha, swap_stake,
       swap_stake_limit, move_stake, add_stake_limit, remove_stake_limit, remove_stake_full_limit,
       set_root_claim_type] c"
| "ProxyType_filter PT_Registration c \<longleftrightarrow>
     subtensor_in [burned_register, register, register_limit] c"
| "ProxyType_filter PT_RootWeights c \<longleftrightarrow> False"
| "ProxyType_filter PT_ChildKeys c \<longleftrightarrow> subtensor_in [set_children, set_childkey_take] c"
| "ProxyType_filter PT_SudoUncheckedSetCode c \<longleftrightarrow>
     (case c of
        RC_Sudo (Sudo_sudo_unchecked_weight inner _) \<Rightarrow>
          (case inner of RC_System (System_set_code _) \<Rightarrow> True | _ \<Rightarrow> False)
      | _ \<Rightarrow> False)"
| "ProxyType_filter PT_SwapHotkey c \<longleftrightarrow> subtensor_in [swap_hotkey] c"
| "ProxyType_filter PT_SubnetLeaseBeneficiary c \<longleftrightarrow>
     subtensor_in [start_call] c
     \<or> admin_in [sudo_set_serving_rate_limit, sudo_set_min_difficulty, sudo_set_max_difficulty,
          sudo_set_weights_version_key, sudo_set_adjustment_alpha, sudo_set_immunity_period,
          sudo_set_min_allowed_weights, sudo_set_kappa, sudo_set_rho, sudo_set_activity_cutoff,
          sudo_set_network_registration_allowed, sudo_set_network_pow_registration_allowed,
          sudo_set_max_burn, sudo_set_bonds_moving_average, sudo_set_bonds_penalty,
          sudo_set_commit_reveal_weights_enabled, sudo_set_liquid_alpha_enabled,
          sudo_set_alpha_values, sudo_set_commit_reveal_weights_interval,
          sudo_set_toggle_transfer] c"
| "ProxyType_filter PT_RootClaim c \<longleftrightarrow> subtensor_in [claim_root] c"

definition ProxyType_is_superset :: "ProxyType \<Rightarrow> ProxyType \<Rightarrow> bool" where
  "ProxyType_is_superset x y =
     (if x = y then True
      else if x = PT_Any then True
      else if y = PT_Any then False
      else if x = PT_NonTransfer then \<not> (y = PT_Transfer \<or> y = PT_SmallTransfer)
      else x = PT_Transfer \<and> y = PT_SmallTransfer)"

section \<open>Storage\<close>

record ProxyDefinition =
  pd_delegate :: AccountId
  pd_proxy_type :: ProxyType
  pd_delay :: BlockNumber

record Announcement =
  an_real :: AccountId
  an_call_hash :: Commitment
  an_height :: BlockNumber

datatype DepositKind = ProxiesDeposit | AnnouncementsDeposit

datatype ProxyError =
    Proxy_TooMany
  | Proxy_NotFound
  | Proxy_NotProxy
  | Proxy_Unproxyable
  | Proxy_Duplicate
  | Proxy_NoPermission
  | Proxy_Unannounced
  | Proxy_NoSelfProxy
  | Proxy_AnnouncementDepositInvariantViolated
  | Proxy_InvalidDerivedAccountId
  | Proxy_BadOrigin
  | Proxy_CurrencyError nat

datatype 'e ProxyEvent =
    ProxyExecuted "'e + unit"
  | PureCreated AccountId AccountId ProxyType nat
  | PureKilled AccountId AccountId ProxyType nat
  | Announced AccountId AccountId Commitment
  | ProxyAdded AccountId AccountId ProxyType BlockNumber
  | ProxyRemoved AccountId AccountId ProxyType BlockNumber
  | DepositPoked AccountId DepositKind Balance Balance
  | RealPaysFeeSet AccountId AccountId bool

text \<open>\<open>Proxies\<close> and \<open>Announcements\<close> are value queries: an absent entry reads as an empty vector
  without deposit.\<close>

record ('cur, 'e) ProxyStorage =
  Proxies :: "AccountId \<rightharpoonup> ProxyDefinition list \<times> Balance"
  Announcements :: "AccountId \<rightharpoonup> Announcement list \<times> Balance"
  LastCallResult :: "AccountId \<rightharpoonup> 'e + unit"
  RealPaysFee :: "AccountId \<Rightarrow> AccountId \<Rightarrow> bool"
  proxy_currency :: 'cur
  proxy_events :: "'e ProxyEvent list"

record 'cur ReservableCurrency =
  cur_reserve :: "AccountId \<Rightarrow> Balance \<Rightarrow> 'cur \<Rightarrow> (nat + unit) \<times> 'cur"
  cur_unreserve :: "AccountId \<Rightarrow> Balance \<Rightarrow> 'cur \<Rightarrow> Balance \<times> 'cur"
  cur_reserved :: "AccountId \<Rightarrow> 'cur \<Rightarrow> Balance"

record 'cur ProxyConfig =
  proxy_cur :: "'cur ReservableCurrency"
  ProxyDepositBase :: Balance
  ProxyDepositFactor :: Balance
  MaxProxies :: nat
  MaxPending :: nat
  AnnouncementDepositBase :: Balance
  AnnouncementDepositFactor :: Balance
  CallHasher_hash_of :: "RuntimeCall \<Rightarrow> Commitment"
  pure_entropy :: "AccountId \<Rightarrow> BlockNumber \<Rightarrow> nat \<Rightarrow> ProxyType \<Rightarrow> nat \<Rightarrow> AccountId option"

type_synonym ('cur, 'e, 'a) proxy = "(('cur, 'e) ProxyStorage, ProxyError, 'a) action"

definition proxies_of :: "('cur, 'e) ProxyStorage \<Rightarrow> AccountId \<Rightarrow> ProxyDefinition list \<times> Balance" where
  "proxies_of s a = (case Proxies s a of None \<Rightarrow> ([], 0) | Some x \<Rightarrow> x)"

definition announcements_of :: "('cur, 'e) ProxyStorage \<Rightarrow> AccountId \<Rightarrow> Announcement list \<times> Balance" where
  "announcements_of s a = (case Announcements s a of None \<Rightarrow> ([], 0) | Some x \<Rightarrow> x)"

definition proxy_event :: "'e ProxyEvent \<Rightarrow> ('cur, 'e, unit) proxy" where
  "proxy_event ev = modify (\<lambda>s. s\<lparr>proxy_events := proxy_events s @ [ev]\<rparr>)"

definition proxy_reserve :: "'cur ProxyConfig \<Rightarrow> AccountId \<Rightarrow> Balance \<Rightarrow> ('cur, 'e, unit) proxy" where
  "proxy_reserve cfg who amount = (\<lambda>s.
     case cur_reserve (proxy_cur cfg) who amount (proxy_currency s) of
       (Inl e, c) \<Rightarrow> (Inl (Proxy_CurrencyError e), s\<lparr>proxy_currency := c\<rparr>)
     | (Inr _, c) \<Rightarrow> (Inr (), s\<lparr>proxy_currency := c\<rparr>))"

definition proxy_unreserve :: "'cur ProxyConfig \<Rightarrow> AccountId \<Rightarrow> Balance \<Rightarrow> ('cur, 'e, unit) proxy" where
  "proxy_unreserve cfg who amount = (\<lambda>s.
     case cur_unreserve (proxy_cur cfg) who amount (proxy_currency s) of
       (_, c) \<Rightarrow> (Inr (), s\<lparr>proxy_currency := c\<rparr>))"

section \<open>Helpers\<close>

definition def_key :: "ProxyDefinition \<Rightarrow> AccountId \<times> ProxyType \<times> BlockNumber" where
  "def_key p = (pd_delegate p, pd_proxy_type p, pd_delay p)"

text \<open>Binary search in a sorted vector: the position of the element, or where it belongs.\<close>

definition binary_search :: "ProxyDefinition list \<Rightarrow> ProxyDefinition \<Rightarrow> nat + nat" where
  "binary_search ps p =
     (let i = length (takeWhile (\<lambda>q. def_key q < def_key p) ps)
      in if i < length ps \<and> def_key (ps ! i) = def_key p then Inr i else Inl i)"

definition insert_at :: "nat \<Rightarrow> 'a \<Rightarrow> 'a list \<Rightarrow> 'a list" where
  "insert_at i x xs = take i xs @ x # drop i xs"

definition remove_at :: "nat \<Rightarrow> 'a list \<Rightarrow> 'a list" where
  "remove_at i xs = take i xs @ drop (Suc i) xs"

definition proxy_deposit :: "'cur ProxyConfig \<Rightarrow> nat \<Rightarrow> Balance" where
  "proxy_deposit cfg num_proxies =
     (if num_proxies = 0 then 0
      else saturating_add 64 (ProxyDepositBase cfg)
        (saturating_mul 64 (ProxyDepositFactor cfg) num_proxies))"

definition adjust_deposit ::
  "'cur ProxyConfig \<Rightarrow> AccountId \<Rightarrow> Balance \<Rightarrow> Balance \<Rightarrow> ('cur, 'e, unit) proxy" where
  "adjust_deposit cfg who old_deposit new_deposit =
     (if new_deposit > old_deposit
      then proxy_reserve cfg who (saturating_sub new_deposit old_deposit)
      else if new_deposit < old_deposit
      then proxy_unreserve cfg who (saturating_sub old_deposit new_deposit)
      else ret ())"

definition rejig_deposit ::
  "'cur ProxyConfig \<Rightarrow> AccountId \<Rightarrow> Balance \<Rightarrow> Balance \<Rightarrow> Balance \<Rightarrow> nat \<Rightarrow>
   ('cur, 'e, Balance option) proxy" where
  "rejig_deposit cfg who old_deposit base factor len =
     (let new_deposit = (if len = 0 then 0
            else saturating_add 64 base (saturating_mul 64 factor len))
      in and_then (adjust_deposit cfg who old_deposit new_deposit) (\<lambda>_.
         ret (if len = 0 then None else Some new_deposit)))"

definition edit_announcements ::
  "'cur ProxyConfig \<Rightarrow> AccountId \<Rightarrow> (Announcement \<Rightarrow> bool) \<Rightarrow> ('cur, 'e, unit) proxy" where
  "edit_announcements cfg delegate f =
     and_then (fetch (\<lambda>s. Announcements s delegate) Proxy_NotFound) (\<lambda>(pending, old_deposit).
     let kept = filter f pending in
     and_then (ensure (length kept < length pending) Proxy_NotFound) (\<lambda>_.
     and_then (rejig_deposit cfg delegate old_deposit (AnnouncementDepositBase cfg)
       (AnnouncementDepositFactor cfg) (length kept)) (\<lambda>d.
     modify (\<lambda>s. s\<lparr>Announcements := (Announcements s)(delegate := map_option (\<lambda>x. (kept, x)) d)\<rparr>))))"

definition find_proxy ::
  "('cur, 'e) ProxyStorage \<Rightarrow> AccountId \<Rightarrow> AccountId \<Rightarrow> ProxyType option \<Rightarrow>
   ProxyError + ProxyDefinition" where
  "find_proxy s real delegate force_proxy_type =
     ok_or_r (List.find (\<lambda>x. pd_delegate x = delegate \<and>
         (case force_proxy_type of None \<Rightarrow> True | Some y \<Rightarrow> pd_proxy_type x = y))
       (fst (proxies_of s real))) Proxy_NotProxy"

definition pure_account ::
  "'cur ProxyConfig \<Rightarrow> BlockNumber \<Rightarrow> nat \<Rightarrow> AccountId \<Rightarrow> ProxyType \<Rightarrow> nat \<Rightarrow>
   (BlockNumber \<times> nat) option \<Rightarrow> ProxyError + AccountId" where
  "pure_account cfg now ext who proxy_type index maybe_when =
     (let (height, ext_index) = (case maybe_when of None \<Rightarrow> (now, ext) | Some w \<Rightarrow> w)
      in ok_or_r (pure_entropy cfg who height ext_index proxy_type index)
           Proxy_InvalidDerivedAccountId)"

definition add_proxy_delegate ::
  "'cur ProxyConfig \<Rightarrow> AccountId \<Rightarrow> AccountId \<Rightarrow> ProxyType \<Rightarrow> BlockNumber \<Rightarrow> ('cur, 'e, unit) proxy" where
  "add_proxy_delegate cfg delegator delegatee proxy_type delay =
     and_then (ensure (delegator \<noteq> delegatee) Proxy_NoSelfProxy) (\<lambda>_.
     and_then (gets (\<lambda>s. proxies_of s delegator)) (\<lambda>(ps, dep).
     let proxy_def = \<lparr>pd_delegate = delegatee, pd_proxy_type = proxy_type, pd_delay = delay\<rparr> in
     and_then (lift_result (case binary_search ps proxy_def of
         Inr _ \<Rightarrow> Inl Proxy_Duplicate | Inl i \<Rightarrow> Inr i)) (\<lambda>i.
     and_then (ensure (length ps < MaxProxies cfg) Proxy_TooMany) (\<lambda>_.
     let ps' = insert_at i proxy_def ps; new_deposit = proxy_deposit cfg (length ps') in
     and_then (adjust_deposit cfg delegator dep new_deposit) (\<lambda>_.
     and_then (proxy_event (ProxyAdded delegator delegatee proxy_type delay)) (\<lambda>_.
     modify (\<lambda>s. s\<lparr>Proxies := (Proxies s)(delegator \<mapsto> (ps', new_deposit))\<rparr>)))))))"

definition remove_proxy_delegate ::
  "'cur ProxyConfig \<Rightarrow> AccountId \<Rightarrow> AccountId \<Rightarrow> ProxyType \<Rightarrow> BlockNumber \<Rightarrow> ('cur, 'e, unit) proxy" where
  "remove_proxy_delegate cfg delegator delegatee proxy_type delay =
     and_then (fetch (\<lambda>s. Proxies s delegator) Proxy_NotFound) (\<lambda>(ps, old_deposit).
     let proxy_def = \<lparr>pd_delegate = delegatee, pd_proxy_type = proxy_type, pd_delay = delay\<rparr> in
     and_then (lift_result (case binary_search ps proxy_def of
         Inr i \<Rightarrow> Inr i | Inl _ \<Rightarrow> Inl Proxy_NotFound)) (\<lambda>i.
     let ps' = remove_at i ps; new_deposit = proxy_deposit cfg (length ps') in
     and_then (adjust_deposit cfg delegator old_deposit new_deposit) (\<lambda>_.
     and_then (modify (\<lambda>s. s\<lparr>RealPaysFee :=
       (RealPaysFee s)(delegator := (RealPaysFee s delegator)(delegatee := False))\<rparr>)) (\<lambda>_.
     and_then (proxy_event (ProxyRemoved delegator delegatee proxy_type delay)) (\<lambda>_.
     modify (\<lambda>s. s\<lparr>Proxies := (Proxies s)(delegator :=
       (if ps' \<noteq> [] then Some (ps', new_deposit) else None))\<rparr>))))))"

definition remove_all_proxy_delegates :: "'cur ProxyConfig \<Rightarrow> AccountId \<Rightarrow> ('cur, 'e, unit) proxy" where
  "remove_all_proxy_delegates cfg delegator =
     and_then (gets (\<lambda>s. snd (proxies_of s delegator))) (\<lambda>old_deposit.
     and_then (modify (\<lambda>s. s\<lparr>Proxies := (Proxies s)(delegator := None)\<rparr>)) (\<lambda>_.
     and_then (proxy_unreserve cfg delegator old_deposit) (\<lambda>_.
     modify (\<lambda>s. s\<lparr>RealPaysFee := (RealPaysFee s)(delegator := (\<lambda>_. False))\<rparr>))))"

definition is_real_pays_fee :: "('cur, 'e) ProxyStorage \<Rightarrow> AccountId \<Rightarrow> AccountId \<Rightarrow> bool" where
  "is_real_pays_fee s real delegate = RealPaysFee s real delegate"

section \<open>Calls\<close>

definition proxy_signed :: "RuntimeOrigin \<Rightarrow> ('cur, 'e, AccountId) proxy" where
  "proxy_signed origin = ok_or (signer_of origin) Proxy_BadOrigin"

definition add_proxy ::
  "'cur ProxyConfig \<Rightarrow> RuntimeOrigin \<Rightarrow> AccountId \<Rightarrow> ProxyType \<Rightarrow> BlockNumber \<Rightarrow> ('cur, 'e, unit) proxy" where
  "add_proxy cfg origin delegate proxy_type delay = transactional (
     and_then (proxy_signed origin) (\<lambda>who. add_proxy_delegate cfg who delegate proxy_type delay))"

definition remove_proxy ::
  "'cur ProxyConfig \<Rightarrow> RuntimeOrigin \<Rightarrow> AccountId \<Rightarrow> ProxyType \<Rightarrow> BlockNumber \<Rightarrow> ('cur, 'e, unit) proxy" where
  "remove_proxy cfg origin delegate proxy_type delay = transactional (
     and_then (proxy_signed origin) (\<lambda>who. remove_proxy_delegate cfg who delegate proxy_type delay))"

definition remove_proxies :: "'cur ProxyConfig \<Rightarrow> RuntimeOrigin \<Rightarrow> ('cur, 'e, unit) proxy" where
  "remove_proxies cfg origin = transactional (
     and_then (proxy_signed origin) (\<lambda>who. remove_all_proxy_delegates cfg who))"

definition create_pure ::
  "'cur ProxyConfig \<Rightarrow> BlockNumber \<Rightarrow> nat \<Rightarrow> RuntimeOrigin \<Rightarrow> ProxyType \<Rightarrow> BlockNumber \<Rightarrow> nat \<Rightarrow>
   ('cur, 'e, unit) proxy" where
  "create_pure cfg now ext origin proxy_type delay index = transactional (
     and_then (proxy_signed origin) (\<lambda>who.
     and_then (lift_result (pure_account cfg now ext who proxy_type index None)) (\<lambda>pure.
     and_then (require (\<lambda>s. Proxies s pure = None) Proxy_Duplicate) (\<lambda>_.
     let proxy_def = \<lparr>pd_delegate = who, pd_proxy_type = proxy_type, pd_delay = delay\<rparr> in
     and_then (ensure (1 \<le> MaxProxies cfg) Proxy_TooMany) (\<lambda>_.
     let deposit = saturating_add 64 (ProxyDepositBase cfg) (ProxyDepositFactor cfg) in
     and_then (proxy_reserve cfg who deposit) (\<lambda>_.
     and_then (modify (\<lambda>s. s\<lparr>Proxies := (Proxies s)(pure \<mapsto> ([proxy_def], deposit))\<rparr>)) (\<lambda>_.
     proxy_event (PureCreated pure who proxy_type index))))))))"

definition kill_pure ::
  "'cur ProxyConfig \<Rightarrow> RuntimeOrigin \<Rightarrow> AccountId \<Rightarrow> ProxyType \<Rightarrow> nat \<Rightarrow> BlockNumber \<Rightarrow> nat \<Rightarrow>
   ('cur, 'e, unit) proxy" where
  "kill_pure cfg origin spawner proxy_type index height ext_index = transactional (
     and_then (proxy_signed origin) (\<lambda>who.
     and_then (lift_result (pure_account cfg 0 0 spawner proxy_type index (Some (height, ext_index))))
       (\<lambda>pure.
     and_then (ensure (pure = who) Proxy_NoPermission) (\<lambda>_.
     and_then (gets (\<lambda>s. snd (proxies_of s who))) (\<lambda>deposit.
     and_then (modify (\<lambda>s. s\<lparr>Proxies := (Proxies s)(who := None)\<rparr>)) (\<lambda>_.
     and_then (proxy_unreserve cfg spawner deposit) (\<lambda>_.
     proxy_event (PureKilled who spawner proxy_type index))))))))"

definition announce ::
  "'cur ProxyConfig \<Rightarrow> BlockNumber \<Rightarrow> RuntimeOrigin \<Rightarrow> AccountId \<Rightarrow> Commitment \<Rightarrow>
   ('cur, 'e, unit) proxy" where
  "announce cfg now origin real call_hash = transactional (
     and_then (proxy_signed origin) (\<lambda>who.
     and_then (fetch (\<lambda>s. List.find (\<lambda>x. pd_delegate x = who) (fst (proxies_of s real)))
       Proxy_NotProxy) (\<lambda>_.
     let announcement = \<lparr>an_real = real, an_call_hash = call_hash, an_height = now\<rparr> in
     and_then (gets (\<lambda>s. announcements_of s who)) (\<lambda>(pending, deposit).
     and_then (ensure (length pending < MaxPending cfg) Proxy_TooMany) (\<lambda>_.
     let pending' = pending @ [announcement] in
     and_then (rejig_deposit cfg who deposit (AnnouncementDepositBase cfg)
       (AnnouncementDepositFactor cfg) (length pending')) (\<lambda>maybe.
     and_then (ok_or maybe Proxy_AnnouncementDepositInvariantViolated) (\<lambda>new_deposit.
     and_then (modify (\<lambda>s. s\<lparr>Announcements := (Announcements s)(who \<mapsto> (pending', new_deposit))\<rparr>))
       (\<lambda>_.
     proxy_event (Announced real who call_hash)))))))))"

definition remove_announcement ::
  "'cur ProxyConfig \<Rightarrow> RuntimeOrigin \<Rightarrow> AccountId \<Rightarrow> Commitment \<Rightarrow> ('cur, 'e, unit) proxy" where
  "remove_announcement cfg origin real call_hash = transactional (
     and_then (proxy_signed origin) (\<lambda>who.
     edit_announcements cfg who (\<lambda>ann. an_real ann \<noteq> real \<or> an_call_hash ann \<noteq> call_hash)))"

definition reject_announcement ::
  "'cur ProxyConfig \<Rightarrow> RuntimeOrigin \<Rightarrow> AccountId \<Rightarrow> Commitment \<Rightarrow> ('cur, 'e, unit) proxy" where
  "reject_announcement cfg origin delegate call_hash = transactional (
     and_then (proxy_signed origin) (\<lambda>who.
     edit_announcements cfg delegate (\<lambda>ann. an_real ann \<noteq> who \<or> an_call_hash ann \<noteq> call_hash)))"

text \<open>The two halves of \<open>poke_deposit\<close>, each a \<open>try_mutate_exists\<close> on its map.\<close>

definition poke_proxies :: "'cur ProxyConfig \<Rightarrow> AccountId \<Rightarrow> ('cur, 'e, bool) proxy" where
  "poke_proxies cfg who =
     and_then (gets (\<lambda>s. proxies_of s who)) (\<lambda>(ps, old_deposit).
     and_then (rejig_deposit cfg who old_deposit (ProxyDepositBase cfg) (ProxyDepositFactor cfg)
       (length ps)) (\<lambda>maybe_new_deposit.
     case maybe_new_deposit of
       Some new_deposit \<Rightarrow>
         (if new_deposit \<noteq> old_deposit
          then and_then (modify (\<lambda>s. s\<lparr>Proxies := (Proxies s)(who \<mapsto> (ps, new_deposit))\<rparr>)) (\<lambda>_.
               and_then (proxy_event (DepositPoked who ProxiesDeposit old_deposit new_deposit)) (\<lambda>_.
               ret True))
          else and_then (modify (\<lambda>s. s\<lparr>Proxies := (Proxies s)(who \<mapsto> (ps, old_deposit))\<rparr>)) (\<lambda>_.
               ret False))
     | None \<Rightarrow>
         and_then (modify (\<lambda>s. s\<lparr>Proxies := (Proxies s)(who := None)\<rparr>)) (\<lambda>_.
         if old_deposit \<noteq> 0
         then and_then (proxy_event (DepositPoked who ProxiesDeposit old_deposit 0)) (\<lambda>_. ret True)
         else ret False)))"

definition poke_announcements :: "'cur ProxyConfig \<Rightarrow> AccountId \<Rightarrow> ('cur, 'e, bool) proxy" where
  "poke_announcements cfg who =
     and_then (gets (\<lambda>s. announcements_of s who)) (\<lambda>(pending, old_deposit).
     and_then (rejig_deposit cfg who old_deposit (AnnouncementDepositBase cfg)
       (AnnouncementDepositFactor cfg) (length pending)) (\<lambda>maybe_new_deposit.
     case maybe_new_deposit of
       Some new_deposit \<Rightarrow>
         (if new_deposit \<noteq> old_deposit
          then and_then (modify (\<lambda>s. s\<lparr>Announcements :=
                 (Announcements s)(who \<mapsto> (pending, new_deposit))\<rparr>)) (\<lambda>_.
               and_then (proxy_event (DepositPoked who AnnouncementsDeposit old_deposit new_deposit))
                 (\<lambda>_. ret True))
          else and_then (modify (\<lambda>s. s\<lparr>Announcements :=
                 (Announcements s)(who \<mapsto> (pending, old_deposit))\<rparr>)) (\<lambda>_. ret False))
     | None \<Rightarrow>
         and_then (modify (\<lambda>s. s\<lparr>Announcements := (Announcements s)(who := None)\<rparr>)) (\<lambda>_.
         if old_deposit \<noteq> 0
         then and_then (proxy_event (DepositPoked who AnnouncementsDeposit old_deposit 0))
                (\<lambda>_. ret True)
         else ret False)))"

text \<open>The result says whether the fee is waived.\<close>

definition poke_deposit :: "'cur ProxyConfig \<Rightarrow> RuntimeOrigin \<Rightarrow> ('cur, 'e, bool) proxy" where
  "poke_deposit cfg origin = transactional (
     and_then (proxy_signed origin) (\<lambda>who.
     and_then (poke_proxies cfg who) (\<lambda>a.
     and_then (poke_announcements cfg who) (\<lambda>b. ret (a \<or> b)))))"

definition set_real_pays_fee :: "RuntimeOrigin \<Rightarrow> AccountId \<Rightarrow> bool \<Rightarrow> ('cur, 'e, unit) proxy" where
  "set_real_pays_fee origin delegate pays_fee = transactional (
     and_then (proxy_signed origin) (\<lambda>real.
     and_then (query (\<lambda>s. find_proxy s real delegate None)) (\<lambda>_.
     and_then (modify (\<lambda>s. s\<lparr>RealPaysFee :=
       (RealPaysFee s)(real := (RealPaysFee s real)(delegate := pays_fee))\<rparr>)) (\<lambda>_.
     proxy_event (RealPaysFeeSet real delegate pays_fee)))))"

definition proxy_on_finalize :: "('cur, 'e) ProxyStorage \<Rightarrow> ('cur, 'e) ProxyStorage" where
  "proxy_on_finalize s = s\<lparr>LastCallResult := Map.empty\<rparr>"

end
