(* ===== verification/Runtime_Dispatch.thy ===== *)
theory Runtime_Dispatch
  imports Proxy_Pallet Runtime_Scanners
begin

text \<open>
  Dispatch of a runtime call: the origin with its filter, the dispatch extension of the runtime
  (\<^verbatim>\<open>pallets/subtensor/src/guards/check_coldkey_swap.rs\<close>), the utility pallet
  (\<^verbatim>\<open>pallets/utility/src/lib.rs\<close>) with all its calls, and the calls of the proxy pallet that dispatch another
  call.  Nested calls are parts of the call, so dispatch is recursive on the call and total.

  The sudo and the multisig pallet are not part of the repository.  They are the fields \<open>re_sudo\<close> and
  \<open>re_multisig\<close> of the environment, which get the origin, the call and the means to run the call inside: sudo
  with any origin of its choice and without the filter, multisig through \<open>dispatch\<close> as signed by an
  account.  Calls of the other pallets are the leaves: what they do is the field \<open>re_leaf\<close>.  Among them are
  calls that themselves run calls from elsewhere, see \<open>runs_stored\<close>.

  Weights and post-dispatch information are left out.
\<close>

section \<open>Origins and errors\<close>

record Origin =
  origin_caller :: RuntimeOrigin
  origin_filter :: "RuntimeCall \<Rightarrow> bool"

text \<open>Root is never filtered.\<close>

definition filter_call :: "Origin \<Rightarrow> RuntimeCall \<Rightarrow> bool" where
  "filter_call o' c \<longleftrightarrow> origin_caller o' = RootOrigin \<or> origin_filter o' c"

definition add_filter :: "(RuntimeCall \<Rightarrow> bool) \<Rightarrow> Origin \<Rightarrow> Origin" where
  "add_filter f o' = o'\<lparr>origin_filter := (\<lambda>c. f c \<and> origin_filter o' c)\<rparr>"

datatype 'e RuntimeError =
    CallFiltered
  | ColdkeySwapDisputed
  | ColdkeySwapAnnounced
  | Utility_BadOrigin
  | Utility_TooManyCalls
  | Utility_InvalidDerivedAccount
  | ProxyPalletError ProxyError
  | LeafError 'e

datatype 'e UtilityEvent =
    BatchInterrupted nat "'e RuntimeError"
  | BatchCompleted
  | BatchCompletedWithErrors
  | ItemCompleted
  | ItemFailed "'e RuntimeError"
  | DispatchedAs "'e RuntimeError + unit"
  | IfElseMainSuccess
  | IfElseFallbackCalled "'e RuntimeError"

record ('cur, 'e, 'w) RuntimeState =
  rs_proxy :: "('cur, 'e RuntimeError) ProxyStorage"
  rs_utility_events :: "'e UtilityEvent list"
  rs_rest :: 'w

type_synonym ('cur, 'e, 'w, 'a) runtime = "(('cur, 'e, 'w) RuntimeState, 'e RuntimeError, 'a) action"

record ('cur, 'e, 'w) RuntimeEnv =
  re_leaf :: "Origin \<Rightarrow> RuntimeCall \<Rightarrow> ('cur, 'e, 'w, unit) runtime"
  re_sudo :: "Origin \<Rightarrow> SudoCall \<Rightarrow> (RuntimeOrigin \<Rightarrow> ('cur, 'e, 'w, unit) runtime) \<Rightarrow>
    ('cur, 'e, 'w, unit) runtime"
  re_multisig :: "Origin \<Rightarrow> MultisigCall \<Rightarrow> (AccountId \<Rightarrow> ('cur, 'e, 'w, unit) runtime) \<Rightarrow>
    ('cur, 'e, 'w, unit) runtime"
  ColdkeySwapAnnouncements_contains_key :: "'w \<Rightarrow> AccountId \<Rightarrow> bool"
  ColdkeySwapDisputes_contains_key :: "'w \<Rightarrow> AccountId \<Rightarrow> bool"
  re_proxy :: "'cur ProxyConfig"
  batched_calls_limit :: nat
  derivative_account_id :: "AccountId \<Rightarrow> nat \<Rightarrow> AccountId option"
  BaseCallFilter :: "RuntimeCall \<Rightarrow> bool"
  re_now :: BlockNumber
  re_extrinsic_index :: nat

definition origin_from :: "('cur, 'e, 'w) RuntimeEnv \<Rightarrow> RuntimeOrigin \<Rightarrow> Origin" where
  "origin_from env caller = \<lparr>origin_caller = caller, origin_filter = BaseCallFilter env\<rparr>"

definition utility_event :: "'e UtilityEvent \<Rightarrow> ('cur, 'e, 'w, unit) runtime" where
  "utility_event ev = modify (\<lambda>s. s\<lparr>rs_utility_events := rs_utility_events s @ [ev]\<rparr>)"

definition on_proxy ::
  "('cur, 'e RuntimeError, 'a) proxy \<Rightarrow> ('cur, 'e, 'w, 'a) runtime" where
  "on_proxy m = (\<lambda>s. case m (rs_proxy s) of
     (Inl e, p) \<Rightarrow> (Inl (ProxyPalletError e), s\<lparr>rs_proxy := p\<rparr>)
   | (Inr x, p) \<Rightarrow> (Inr x, s\<lparr>rs_proxy := p\<rparr>))"

text \<open>Run an action and hand its result on, error or not.\<close>

definition catch ::
  "('s, 'e, 'a) action \<Rightarrow> ('e + 'a \<Rightarrow> ('s, 'e, 'b) action) \<Rightarrow> ('s, 'e, 'b) action" where
  "catch m k = (\<lambda>s. case m s of (r, s') \<Rightarrow> k r s')"

text \<open>The dispatch extension: an account whose coldkey is about to be swapped can make few calls.  It looks
  at signed origins only.\<close>

definition CheckColdkeySwap_pre_dispatch ::
  "('cur, 'e, 'w) RuntimeEnv \<Rightarrow> Origin \<Rightarrow> RuntimeCall \<Rightarrow> ('cur, 'e, 'w, unit) runtime" where
  "CheckColdkeySwap_pre_dispatch env o' c = (case signer_of (origin_caller o') of
     None \<Rightarrow> ret ()
   | Some who \<Rightarrow> query (\<lambda>s.
       if ColdkeySwapAnnouncements_contains_key env (rs_rest s) who
       then if ColdkeySwapDisputes_contains_key env (rs_rest s) who then Inl ColdkeySwapDisputed
         else let is_allowed_direct = (case c of
                RC_SubtensorModule (Subtensor_call name _) \<Rightarrow>
                  name \<in> {announce_coldkey_swap, swap_coldkey_announced, dispute_coldkey_swap,
                    clear_coldkey_swap_announcement}
              | _ \<Rightarrow> False);
              is_mev_protected = (case c of RC_MevShield (Shield_submit_encrypted _) \<Rightarrow> True | _ \<Rightarrow> False)
           in if \<not> is_allowed_direct \<and> \<not> is_mev_protected then Inl ColdkeySwapAnnounced else Inr ()
       else Inr ()))"

text \<open>\<open>call.dispatch(origin)\<close>, given what dispatch without the filter does: the filter, the extension,
  the call; and the choice of the utility pallet to bypass the filter for root.\<close>

definition filtered ::
  "('cur, 'e, 'w) RuntimeEnv \<Rightarrow> Origin \<Rightarrow> RuntimeCall \<Rightarrow> ('cur, 'e, 'w, unit) runtime \<Rightarrow>
   ('cur, 'e, 'w, unit) runtime" where
  "filtered env o' c m =
     (if filter_call o' c then and_then (CheckColdkeySwap_pre_dispatch env o' c) (\<lambda>_. m)
      else throw CallFiltered)"

definition filtered_unless_root ::
  "('cur, 'e, 'w) RuntimeEnv \<Rightarrow> Origin \<Rightarrow> RuntimeCall \<Rightarrow> ('cur, 'e, 'w, unit) runtime \<Rightarrow>
   ('cur, 'e, 'w, unit) runtime" where
  "filtered_unless_root env o' c m = (if origin_caller o' = RootOrigin then m else filtered env o' c m)"

definition not_batch_all :: "RuntimeCall \<Rightarrow> bool" where
  "not_batch_all c = (case c of RC_Utility (Utility_batch_all _) \<Rightarrow> False | _ \<Rightarrow> True)"

text \<open>The filter that a call made by proxy is subject to.\<close>

definition proxy_filter :: "ProxyDefinition \<Rightarrow> RuntimeCall \<Rightarrow> bool" where
  "proxy_filter d c = (case c of
     RC_Proxy (Proxy_add_proxy _ t _) \<Rightarrow>
       if \<not> ProxyType_is_superset (pd_proxy_type d) t then False else ProxyType_filter (pd_proxy_type d) c
   | RC_Proxy (Proxy_remove_proxy _ t _) \<Rightarrow>
       if \<not> ProxyType_is_superset (pd_proxy_type d) t then False else ProxyType_filter (pd_proxy_type d) c
   | RC_Proxy Proxy_remove_proxies \<Rightarrow>
       if pd_proxy_type d \<noteq> PT_Any then False else ProxyType_filter (pd_proxy_type d) c
   | RC_Proxy (Proxy_kill_pure _ _ _ _ _) \<Rightarrow>
       if pd_proxy_type d \<noteq> PT_Any then False else ProxyType_filter (pd_proxy_type d) c
   | _ \<Rightarrow> ProxyType_filter (pd_proxy_type d) c)"

definition proxied_origin ::
  "('cur, 'e, 'w) RuntimeEnv \<Rightarrow> ProxyDefinition \<Rightarrow> AccountId \<Rightarrow> Origin" where
  "proxied_origin env d real = add_filter (proxy_filter d) (origin_from env (SignedOrigin real))"

definition record_proxied :: "AccountId \<Rightarrow> 'e RuntimeError + unit \<Rightarrow> ('cur, 'e, 'w, unit) runtime" where
  "record_proxied real r = on_proxy (
     and_then (modify (\<lambda>p. p\<lparr>LastCallResult := (LastCallResult p)(real \<mapsto> r)\<rparr>)) (\<lambda>_.
     proxy_event (ProxyExecuted r)))"

definition batch_guards :: "('cur, 'e, 'w) RuntimeEnv \<Rightarrow> Origin \<Rightarrow> RuntimeCall list \<Rightarrow> ('cur, 'e, 'w, unit) runtime" where
  "batch_guards env o' calls =
     and_then (ensure (origin_caller o' \<noteq> UnsignedOrigin) Utility_BadOrigin) (\<lambda>_.
     ensure (length calls \<le> batched_calls_limit env) Utility_TooManyCalls)"

section \<open>Dispatch\<close>

fun dispatch_bypass_filter ::
    "('cur, 'e, 'w) RuntimeEnv \<Rightarrow> Origin \<Rightarrow> RuntimeCall \<Rightarrow> ('cur, 'e, 'w, unit) runtime"
  and utility_call ::
    "('cur, 'e, 'w) RuntimeEnv \<Rightarrow> Origin \<Rightarrow> UtilityCall \<Rightarrow> ('cur, 'e, 'w, unit) runtime"
  and proxy_call ::
    "('cur, 'e, 'w) RuntimeEnv \<Rightarrow> Origin \<Rightarrow> ProxyCall \<Rightarrow> ('cur, 'e, 'w, unit) runtime"
  and batch_loop ::
    "('cur, 'e, 'w) RuntimeEnv \<Rightarrow> Origin \<Rightarrow> nat \<Rightarrow> RuntimeCall list \<Rightarrow> ('cur, 'e, 'w, unit) runtime"
  and batch_all_loop ::
    "('cur, 'e, 'w) RuntimeEnv \<Rightarrow> Origin \<Rightarrow> RuntimeCall list \<Rightarrow> ('cur, 'e, 'w, unit) runtime"
  and force_batch_loop ::
    "('cur, 'e, 'w) RuntimeEnv \<Rightarrow> Origin \<Rightarrow> bool \<Rightarrow> RuntimeCall list \<Rightarrow> ('cur, 'e, 'w, unit) runtime"
where
  "dispatch_bypass_filter env o' (RC_Utility u) = transactional (utility_call env o' u)"
| "dispatch_bypass_filter env o' (RC_Proxy p) = transactional (proxy_call env o' p)"
| "dispatch_bypass_filter env o' (RC_Sudo (Sudo_sudo c)) =
     transactional (re_sudo env o' (Sudo_sudo c) (\<lambda>caller.
       dispatch_bypass_filter env (origin_from env caller) c))"
| "dispatch_bypass_filter env o' (RC_Sudo (Sudo_sudo_unchecked_weight c w)) =
     transactional (re_sudo env o' (Sudo_sudo_unchecked_weight c w) (\<lambda>caller.
       dispatch_bypass_filter env (origin_from env caller) c))"
| "dispatch_bypass_filter env o' (RC_Sudo (Sudo_sudo_as who c)) =
     transactional (re_sudo env o' (Sudo_sudo_as who c) (\<lambda>caller.
       dispatch_bypass_filter env (origin_from env caller) c))"
| "dispatch_bypass_filter env o' (RC_Multisig (Multisig_as_multi_threshold_1 others c)) =
     transactional (re_multisig env o' (Multisig_as_multi_threshold_1 others c) (\<lambda>who.
       let o2 = origin_from env (SignedOrigin who)
       in filtered env o2 c (dispatch_bypass_filter env o2 c)))"
| "dispatch_bypass_filter env o' (RC_Multisig (Multisig_as_multi threshold others timepoint c w)) =
     transactional (re_multisig env o' (Multisig_as_multi threshold others timepoint c w) (\<lambda>who.
       let o2 = origin_from env (SignedOrigin who)
       in filtered env o2 c (dispatch_bypass_filter env o2 c)))"
| "dispatch_bypass_filter env o' c = re_leaf env o' c"

| "utility_call env o' (Utility_batch calls) =
     and_then (batch_guards env o' calls) (\<lambda>_. batch_loop env o' 0 calls)"
| "utility_call env o' (Utility_as_derivative index c) =
     and_then (ok_or (signer_of (origin_caller o')) Utility_BadOrigin) (\<lambda>who.
     and_then (ok_or (derivative_account_id env who index) Utility_InvalidDerivedAccount) (\<lambda>pseudonym.
     let o2 = o'\<lparr>origin_caller := SignedOrigin pseudonym\<rparr>
     in filtered env o2 c (dispatch_bypass_filter env o2 c)))"
| "utility_call env o' (Utility_batch_all calls) =
     and_then (batch_guards env o' calls) (\<lambda>_. batch_all_loop env o' calls)"
| "utility_call env o' (Utility_dispatch_as as_origin c) =
     and_then (ensure (origin_caller o' = RootOrigin) Utility_BadOrigin) (\<lambda>_.
     catch (dispatch_bypass_filter env (origin_from env as_origin) c) (\<lambda>r.
     utility_event (DispatchedAs r)))"
| "utility_call env o' (Utility_force_batch calls) =
     and_then (batch_guards env o' calls) (\<lambda>_. force_batch_loop env o' False calls)"
| "utility_call env o' (Utility_with_weight c w) =
     and_then (ensure (origin_caller o' = RootOrigin) Utility_BadOrigin) (\<lambda>_.
     dispatch_bypass_filter env (origin_from env RootOrigin) c)"
| "utility_call env o' (Utility_if_else main fallback) =
     and_then (ensure (origin_caller o' \<noteq> UnsignedOrigin) Utility_BadOrigin) (\<lambda>_.
     catch (filtered_unless_root env o' main (dispatch_bypass_filter env o' main)) (\<lambda>r.
     case r of
       Inr _ \<Rightarrow> utility_event IfElseMainSuccess
     | Inl main_error \<Rightarrow>
         and_then (filtered_unless_root env o' fallback (dispatch_bypass_filter env o' fallback)) (\<lambda>_.
         utility_event (IfElseFallbackCalled main_error))))"
| "utility_call env o' (Utility_dispatch_as_fallible as_origin c) =
     and_then (ensure (origin_caller o' = RootOrigin) Utility_BadOrigin) (\<lambda>_.
     and_then (dispatch_bypass_filter env (origin_from env as_origin) c) (\<lambda>_.
     utility_event (DispatchedAs (Inr ()))))"

| "proxy_call env o' (Proxy_proxy real force_proxy_type c) =
     and_then (on_proxy (proxy_signed (origin_caller o'))) (\<lambda>who.
     and_then (on_proxy (query (\<lambda>p. find_proxy p real who force_proxy_type))) (\<lambda>d.
     and_then (ensure (pd_delay d = 0) (ProxyPalletError Proxy_Unannounced)) (\<lambda>_.
     let o2 = proxied_origin env d real
     in catch (filtered env o2 c (dispatch_bypass_filter env o2 c)) (record_proxied real))))"
| "proxy_call env o' (Proxy_proxy_announced delegate real force_proxy_type c) =
     and_then (on_proxy (proxy_signed (origin_caller o'))) (\<lambda>_.
     and_then (on_proxy (query (\<lambda>p. find_proxy p real delegate force_proxy_type))) (\<lambda>d.
     let call_hash = CallHasher_hash_of (re_proxy env) c in
     and_then (catch (on_proxy (edit_announcements (re_proxy env) delegate (\<lambda>ann.
         an_real ann \<noteq> real \<or> an_call_hash ann \<noteq> call_hash
         \<or> saturating_sub (re_now env) (an_height ann) < pd_delay d))) (\<lambda>r.
       lift_result (case r of
         Inl _ \<Rightarrow> Inl (ProxyPalletError Proxy_Unannounced) | Inr _ \<Rightarrow> Inr ()))) (\<lambda>_.
     let o2 = proxied_origin env d real
     in catch (filtered env o2 c (dispatch_bypass_filter env o2 c)) (record_proxied real))))"
| "proxy_call env o' (Proxy_add_proxy delegate t delay) =
     on_proxy (add_proxy (re_proxy env) (origin_caller o') delegate t delay)"
| "proxy_call env o' (Proxy_remove_proxy delegate t delay) =
     on_proxy (remove_proxy (re_proxy env) (origin_caller o') delegate t delay)"
| "proxy_call env o' Proxy_remove_proxies =
     on_proxy (remove_proxies (re_proxy env) (origin_caller o'))"
| "proxy_call env o' (Proxy_create_pure t delay index) =
     on_proxy (create_pure (re_proxy env) (re_now env) (re_extrinsic_index env) (origin_caller o')
       t delay index)"
| "proxy_call env o' (Proxy_kill_pure spawner t index height ext_index) =
     on_proxy (kill_pure (re_proxy env) (origin_caller o') spawner t index height ext_index)"
| "proxy_call env o' (Proxy_announce real call_hash) =
     on_proxy (announce (re_proxy env) (re_now env) (origin_caller o') real call_hash)"
| "proxy_call env o' (Proxy_remove_announcement real call_hash) =
     on_proxy (remove_announcement (re_proxy env) (origin_caller o') real call_hash)"
| "proxy_call env o' (Proxy_reject_announcement delegate call_hash) =
     on_proxy (reject_announcement (re_proxy env) (origin_caller o') delegate call_hash)"
| "proxy_call env o' Proxy_poke_deposit =
     and_then (on_proxy (poke_deposit (re_proxy env) (origin_caller o'))) (\<lambda>_. ret ())"
| "proxy_call env o' (Proxy_set_real_pays_fee delegate pays_fee) =
     on_proxy (set_real_pays_fee (origin_caller o') delegate pays_fee)"

| "batch_loop env o' index [] = utility_event BatchCompleted"
| "batch_loop env o' index (c # calls) =
     catch (filtered_unless_root env o' c (dispatch_bypass_filter env o' c)) (\<lambda>r.
     case r of
       Inl e \<Rightarrow> utility_event (BatchInterrupted index e)
     | Inr _ \<Rightarrow> and_then (utility_event ItemCompleted) (\<lambda>_. batch_loop env o' (index + 1) calls))"

| "batch_all_loop env o' [] = utility_event BatchCompleted"
| "batch_all_loop env o' (c # calls) =
     and_then (if origin_caller o' = RootOrigin then dispatch_bypass_filter env o' c
       else filtered env (add_filter not_batch_all o') c
              (dispatch_bypass_filter env (add_filter not_batch_all o') c)) (\<lambda>_.
     and_then (utility_event ItemCompleted) (\<lambda>_. batch_all_loop env o' calls))"

| "force_batch_loop env o' has_error [] =
     utility_event (if has_error then BatchCompletedWithErrors else BatchCompleted)"
| "force_batch_loop env o' has_error (c # calls) =
     catch (filtered_unless_root env o' c (dispatch_bypass_filter env o' c)) (\<lambda>r.
     case r of
       Inl e \<Rightarrow> and_then (utility_event (ItemFailed e)) (\<lambda>_. force_batch_loop env o' True calls)
     | Inr _ \<Rightarrow> and_then (utility_event ItemCompleted) (\<lambda>_. force_batch_loop env o' has_error calls))"

definition dispatch_call ::
  "('cur, 'e, 'w) RuntimeEnv \<Rightarrow> Origin \<Rightarrow> RuntimeCall \<Rightarrow> ('cur, 'e, 'w, unit) runtime" where
  "dispatch_call env o' c = filtered env o' c (dispatch_bypass_filter env o' c)"

end
