(* ===== verification/Runtime_Confinement.thy ===== *)
theory Runtime_Confinement
  imports Runtime_Dispatch Runtime_Privacy
begin

text \<open>
  What a dispatched call can make the runtime do.  \<open>may_dispatch\<close> is the relation between an origin
  with a call and the origins with calls it hands on to dispatch; \<open>same_leaves\<close> says that nothing
  else is ever run: dispatch does not depend on what the other leaves do.  Facts about all calls a
  transaction can run are then facts about the relation, by rule induction.
\<close>

type_synonym dispatch_job = "Origin \<times> RuntimeCall"

text \<open>The flag says whether calls inside sudo calls count.\<close>

inductive may_dispatch :: "('cur, 'e, 'w) RuntimeEnv \<Rightarrow> bool \<Rightarrow> dispatch_job \<Rightarrow> dispatch_job \<Rightarrow> bool"
  for env su where
  batch: "\<lbrakk>c \<in> set calls; filter_call o' c\<rbrakk> \<Longrightarrow>
    may_dispatch env su (o', RC_Utility (Utility_batch calls)) (o', c)"
| force_batch: "\<lbrakk>c \<in> set calls; filter_call o' c\<rbrakk> \<Longrightarrow>
    may_dispatch env su (o', RC_Utility (Utility_force_batch calls)) (o', c)"
| batch_all_root: "\<lbrakk>c \<in> set calls; origin_caller o' = RootOrigin\<rbrakk> \<Longrightarrow>
    may_dispatch env su (o', RC_Utility (Utility_batch_all calls)) (o', c)"
| batch_all: "\<lbrakk>c \<in> set calls; origin_caller o' \<noteq> RootOrigin; filter_call (add_filter not_batch_all o') c\<rbrakk> \<Longrightarrow>
    may_dispatch env su (o', RC_Utility (Utility_batch_all calls)) (add_filter not_batch_all o', c)"
| if_else_main: "filter_call o' main \<Longrightarrow>
    may_dispatch env su (o', RC_Utility (Utility_if_else main fallback)) (o', main)"
| if_else_fallback: "filter_call o' fallback \<Longrightarrow>
    may_dispatch env su (o', RC_Utility (Utility_if_else main fallback)) (o', fallback)"
| as_derivative: "\<lbrakk>origin_caller o' = SignedOrigin who; derivative_account_id env who i = Some a;
    filter_call (o'\<lparr>origin_caller := SignedOrigin a\<rparr>) c\<rbrakk> \<Longrightarrow>
    may_dispatch env su (o', RC_Utility (Utility_as_derivative i c)) (o'\<lparr>origin_caller := SignedOrigin a\<rparr>, c)"
| dispatch_as: "origin_caller o' = RootOrigin \<Longrightarrow>
    may_dispatch env su (o', RC_Utility (Utility_dispatch_as as_origin c)) (origin_from env as_origin, c)"
| dispatch_as_fallible: "origin_caller o' = RootOrigin \<Longrightarrow>
    may_dispatch env su (o', RC_Utility (Utility_dispatch_as_fallible as_origin c))
      (origin_from env as_origin, c)"
| with_weight: "origin_caller o' = RootOrigin \<Longrightarrow>
    may_dispatch env su (o', RC_Utility (Utility_with_weight c w)) (origin_from env RootOrigin, c)"
| by_proxy: "\<lbrakk>origin_caller o' = SignedOrigin who; filter_call (proxied_origin env d real) c\<rbrakk> \<Longrightarrow>
    may_dispatch env su (o', RC_Proxy (Proxy_proxy real t c)) (proxied_origin env d real, c)"
| by_announced_proxy: "\<lbrakk>origin_caller o' = SignedOrigin who; filter_call (proxied_origin env d real) c\<rbrakk> \<Longrightarrow>
    may_dispatch env su (o', RC_Proxy (Proxy_proxy_announced delegate real t c)) (proxied_origin env d real, c)"
| sudo: "su \<Longrightarrow> may_dispatch env su (o', RC_Sudo (Sudo_sudo c)) (origin_from env caller, c)"
| sudo_unchecked_weight: "su \<Longrightarrow>
    may_dispatch env su (o', RC_Sudo (Sudo_sudo_unchecked_weight c w)) (origin_from env caller, c)"
| sudo_as: "su \<Longrightarrow> may_dispatch env su (o', RC_Sudo (Sudo_sudo_as who c)) (origin_from env caller, c)"
| threshold_1: "filter_call (origin_from env (SignedOrigin a)) c \<Longrightarrow>
    may_dispatch env su (o', RC_Multisig (Multisig_as_multi_threshold_1 others c))
      (origin_from env (SignedOrigin a), c)"
| as_multi: "filter_call (origin_from env (SignedOrigin a)) c \<Longrightarrow>
    may_dispatch env su (o', RC_Multisig (Multisig_as_multi threshold others timepoint c w))
      (origin_from env (SignedOrigin a), c)"

lemma may_dispatch_inner: "may_dispatch env su (o1, c1) (o2, c2) \<Longrightarrow> c2 \<in> set (inner_calls c1)"
  by (erule may_dispatch.cases) auto

text \<open>Calls that run calls which are not inside them: the finalisation of a crowdloan dispatches the
  call stored with it, and the calls of the Ethereum, EVM and contracts pallets, which are among the
  other calls, run code that may dispatch calls.  A call is self-contained for a notion of nesting if
  neither it nor a call nested in it, at any depth, is of that kind.\<close>

definition runs_stored :: "RuntimeCall \<Rightarrow> bool" where
  "runs_stored c = (case c of
     RC_Crowdloan (Crowdloan_finalize _) \<Rightarrow> True | RC_Other _ _ \<Rightarrow> True | _ \<Rightarrow> False)"

definition inside :: "RuntimeCall \<Rightarrow> RuntimeCall \<Rightarrow> bool" where
  "inside c c' \<longleftrightarrow> c' \<in> set (inner_calls c)"

definition self_contained :: "(RuntimeCall \<Rightarrow> RuntimeCall \<Rightarrow> bool) \<Rightarrow> RuntimeCall \<Rightarrow> bool" where
  "self_contained R c \<longleftrightarrow> (\<forall>c'. R\<^sup>*\<^sup>* c c' \<longrightarrow> \<not> runs_stored c')"

lemma self_contained_unfold:
  "self_contained R c \<longleftrightarrow> \<not> runs_stored c \<and> (\<forall>c'. R c c' \<longrightarrow> self_contained R c')"
  unfolding self_contained_def by (metis converse_rtranclpE converse_rtranclp_into_rtranclp rtranclp.rtrancl_refl)

lemma self_contained_inside:
  "self_contained inside c \<longleftrightarrow> \<not> runs_stored c \<and> (\<forall>c' \<in> set (inner_calls c). self_contained inside c')"
  unfolding self_contained_unfold [of inside c] inside_def by blast

lemma self_contained_reach:
  "(may_dispatch env su)\<^sup>*\<^sup>* job job' \<Longrightarrow> self_contained inside (snd job) \<Longrightarrow> \<not> runs_stored (snd job')"
proof -
  assume reach: "(may_dispatch env su)\<^sup>*\<^sup>* job job'" and "self_contained inside (snd job)"
  from reach this have "self_contained inside (snd job')"
  proof (induction rule: rtranclp_induct)
    case (step j k)
    then show ?case
      using self_contained_inside [of "snd j"] may_dispatch_inner [of env su "fst j" "snd j" "fst k" "snd k"]
      by simp
  qed
  then show ?thesis using self_contained_unfold [of inside "snd job'"] by blast
qed

section \<open>Nothing else is run\<close>

text \<open>Two actions that do the same on the states of which \<open>Q\<close> holds, and keep \<open>Q\<close>.\<close>

named_theorems same_intros \<open>actions that do the same\<close>

definition same_on ::
  "('w \<Rightarrow> bool) \<Rightarrow> ('cur, 'e, 'w, 'a) runtime \<Rightarrow> ('cur, 'e, 'w, 'a) runtime \<Rightarrow> bool" where
  "same_on Q m m' \<longleftrightarrow> (\<forall>s. Q (rs_rest s) \<longrightarrow> m' s = m s \<and> Q (rs_rest (snd (m s))))"

lemma same_everywhere: "same_on (\<lambda>_. True) m m' \<longleftrightarrow> m' = m"
  by (auto simp: same_on_def)

lemma same_and_then [same_intros]:
  "same_on Q m m' \<Longrightarrow> (\<And>x s s'. m s = (Inr x, s') \<Longrightarrow> same_on Q (k x) (k' x)) \<Longrightarrow>
   same_on Q (and_then m k) (and_then m' k')"
  unfolding same_on_def and_then_def by (fastforce split: prod.splits sum.splits)

lemma same_catch [same_intros]:
  "same_on Q m m' \<Longrightarrow> (\<And>r. same_on Q (k r) (k' r)) \<Longrightarrow> same_on Q (catch m k) (catch m' k')"
  unfolding same_on_def catch_def by (fastforce split: prod.splits)

lemma same_transactional [same_intros]:
  "same_on Q m m' \<Longrightarrow> same_on Q (transactional m) (transactional m')"
  unfolding same_on_def transactional_def by (fastforce split: prod.splits sum.splits)

lemma same_basic [same_intros]:
  "same_on Q (throw e) (throw e)" "same_on Q (ret x) (ret x)" "same_on Q (ensure b e) (ensure b e)"
  "same_on Q (ok_or opt e) (ok_or opt e)" "same_on Q (query f) (query f)"
  "same_on Q (lift_result r) (lift_result r)" "same_on Q (utility_event ev) (utility_event ev)"
  "same_on Q (on_proxy p) (on_proxy p)" "same_on Q (record_proxied real r') (record_proxied real r')"
  by (auto simp: same_on_def throw_def ret_def ensure_def ok_or_def query_def lift_result_def
      utility_event_def modify_def on_proxy_def record_proxied_def split: option.splits prod.splits sum.splits)

lemma same_guards [same_intros]:
  "same_on Q (CheckColdkeySwap_pre_dispatch env o' c) (CheckColdkeySwap_pre_dispatch env o' c)"
  "same_on Q (batch_guards env o' calls) (batch_guards env o' calls)"
  by (auto simp: CheckColdkeySwap_pre_dispatch_def batch_guards_def intro!: same_intros split: option.split)

lemma same_filtered [same_intros]:
  "(filter_call o' c \<Longrightarrow> same_on Q m m') \<Longrightarrow> same_on Q (filtered env o' c m) (filtered env o' c m')"
  by (auto simp: filtered_def intro!: same_intros)

text \<open>Two environments that differ in the leaves only, on calls that cannot come up.\<close>

definition with_leaf ::
  "(Origin \<Rightarrow> RuntimeCall \<Rightarrow> ('cur, 'e, 'w, unit) runtime) \<Rightarrow> ('cur, 'e, 'w) RuntimeEnv \<Rightarrow>
   ('cur, 'e, 'w) RuntimeEnv" where
  "with_leaf l env = env\<lparr>re_leaf := l\<rparr>"

lemma with_leaf_fields [simp]:
  "re_leaf (with_leaf l env) = l" "re_proxy (with_leaf l env) = re_proxy env"
  "re_sudo (with_leaf l env) = re_sudo env" "re_multisig (with_leaf l env) = re_multisig env"
  "batched_calls_limit (with_leaf l env) = batched_calls_limit env"
  "derivative_account_id (with_leaf l env) = derivative_account_id env"
  "BaseCallFilter (with_leaf l env) = BaseCallFilter env" "re_now (with_leaf l env) = re_now env"
  "re_extrinsic_index (with_leaf l env) = re_extrinsic_index env"
  "ColdkeySwapAnnouncements_contains_key (with_leaf l env) = ColdkeySwapAnnouncements_contains_key env"
  "ColdkeySwapDisputes_contains_key (with_leaf l env) = ColdkeySwapDisputes_contains_key env"
  by (simp_all add: with_leaf_def)

lemma with_leaf_pre_dispatch [simp]:
  "CheckColdkeySwap_pre_dispatch (with_leaf l env) = CheckColdkeySwap_pre_dispatch env"
  unfolding CheckColdkeySwap_pre_dispatch_def with_leaf_fields ..

lemma with_leaf_origins [simp]:
  "origin_from (with_leaf l env) caller = origin_from env caller"
  "proxied_origin (with_leaf l env) d real = proxied_origin env d real"
  "batch_guards (with_leaf l env) o' calls = batch_guards env o' calls"
  "filtered (with_leaf l env) = filtered env"
  "filtered_unless_root (with_leaf l env) = filtered_unless_root env"
  by (simp_all add: origin_from_def proxied_origin_def batch_guards_def filtered_def fun_eq_iff
      filtered_unless_root_def)

text \<open>What is asked of the pallets outside the repository: run on calls that do the same, they do the same.
  Where calls inside sudo calls do not count, sudo must not run its call at all.\<close>

definition sudo_even ::
  "('cur, 'e, 'w) RuntimeEnv \<Rightarrow> ('w \<Rightarrow> bool) \<Rightarrow> bool \<Rightarrow> Origin \<Rightarrow> SudoCall \<Rightarrow> bool" where
  "sudo_even env Q su o' sc \<longleftrightarrow> (\<forall>f f'. (su \<longrightarrow> (\<forall>caller. same_on Q (f caller) (f' caller))) \<longrightarrow>
     same_on Q (re_sudo env o' sc f) (re_sudo env o' sc f'))"

definition multisig_even ::
  "('cur, 'e, 'w) RuntimeEnv \<Rightarrow> ('w \<Rightarrow> bool) \<Rightarrow> Origin \<Rightarrow> MultisigCall \<Rightarrow> bool" where
  "multisig_even env Q o' mc \<longleftrightarrow> (\<forall>f f'. (\<forall>who. same_on Q (f who) (f' who)) \<longrightarrow>
     same_on Q (re_multisig env o' mc f) (re_multisig env o' mc f'))"

lemma even_everywhere: "sudo_even env (\<lambda>_. True) True o' sc" "multisig_even env (\<lambda>_. True) o' mc"
  by (auto simp: sudo_even_def multisig_even_def same_everywhere fun_eq_iff [symmetric])

definition agree ::
  "('cur, 'e, 'w) RuntimeEnv \<Rightarrow> ('w \<Rightarrow> bool) \<Rightarrow> bool \<Rightarrow>
   (Origin \<Rightarrow> RuntimeCall \<Rightarrow> ('cur, 'e, 'w, unit) runtime) \<Rightarrow> dispatch_job \<Rightarrow> bool" where
  "agree env Q su l job \<longleftrightarrow> (\<forall>o2 c2. (may_dispatch env su)\<^sup>*\<^sup>* job (o2, c2) \<longrightarrow>
     same_on Q (re_leaf env o2 c2) (l o2 c2) \<and>
     (\<forall>sc. c2 = RC_Sudo sc \<longrightarrow> sudo_even env Q su o2 sc) \<and>
     (\<forall>mc. c2 = RC_Multisig mc \<longrightarrow> multisig_even env Q o2 mc))"

lemma agree_here:
  assumes "agree env Q su l (o', c)"
  shows "same_on Q (re_leaf env o' c) (l o' c)"
    and "c = RC_Sudo sc \<Longrightarrow> sudo_even env Q su o' sc"
    and "c = RC_Multisig mc \<Longrightarrow> multisig_even env Q o' mc"
  using assms unfolding agree_def by blast+

lemma agree_step: "agree env Q su l job \<Longrightarrow> may_dispatch env su job job' \<Longrightarrow> agree env Q su l job'"
  by (auto simp: agree_def intro: converse_rtranclp_into_rtranclp)

lemma root_not_filtered: "filtered_unless_root env o' c m = filtered env o' c m"
  by (auto simp: filtered_unless_root_def filtered_def filter_call_def CheckColdkeySwap_pre_dispatch_def
      signer_of_def and_then_def ret_def)

text \<open>The hypotheses of the loops: every element that passes the filter may be dispatched.\<close>

definition agree_each ::
  "('cur, 'e, 'w) RuntimeEnv \<Rightarrow> ('w \<Rightarrow> bool) \<Rightarrow> bool \<Rightarrow>
   (Origin \<Rightarrow> RuntimeCall \<Rightarrow> ('cur, 'e, 'w, unit) runtime) \<Rightarrow> Origin \<Rightarrow> RuntimeCall list \<Rightarrow> bool" where
  "agree_each env Q su l o' calls \<longleftrightarrow> (\<forall>c \<in> set calls. filter_call o' c \<longrightarrow> agree env Q su l (o', c))"

lemma agree_each_simps [simp]:
  "agree_each env Q su l o' []"
  "agree_each env Q su l o' (c # calls) \<longleftrightarrow>
     (filter_call o' c \<longrightarrow> agree env Q su l (o', c)) \<and> agree_each env Q su l o' calls"
  by (auto simp: agree_each_def)

lemma agree_steps:
  "agree env Q su l (o', RC_Utility (Utility_batch calls)) \<Longrightarrow> agree_each env Q su l o' calls"
  "agree env Q su l (o', RC_Utility (Utility_force_batch calls)) \<Longrightarrow> agree_each env Q su l o' calls"
  "agree env Q su l (o', RC_Utility (Utility_batch_all calls)) \<Longrightarrow>
     (if origin_caller o' = RootOrigin then \<forall>c \<in> set calls. agree env Q su l (o', c)
      else agree_each env Q su l (add_filter not_batch_all o') calls)"
  "agree env Q su l (o', RC_Utility (Utility_if_else main fallback)) \<Longrightarrow>
     (filter_call o' main \<longrightarrow> agree env Q su l (o', main)) \<and>
     (filter_call o' fallback \<longrightarrow> agree env Q su l (o', fallback))"
  "agree env Q su l (o', RC_Utility (Utility_as_derivative i c)) \<Longrightarrow>
     \<forall>who a. origin_caller o' = SignedOrigin who \<longrightarrow> derivative_account_id env who i = Some a \<longrightarrow>
       filter_call (o'\<lparr>origin_caller := SignedOrigin a\<rparr>) c \<longrightarrow>
       agree env Q su l (o'\<lparr>origin_caller := SignedOrigin a\<rparr>, c)"
  "agree env Q su l (o', RC_Utility (Utility_dispatch_as as_origin c)) \<Longrightarrow>
     origin_caller o' = RootOrigin \<longrightarrow> agree env Q su l (origin_from env as_origin, c)"
  "agree env Q su l (o', RC_Utility (Utility_dispatch_as_fallible as_origin c)) \<Longrightarrow>
     origin_caller o' = RootOrigin \<longrightarrow> agree env Q su l (origin_from env as_origin, c)"
  "agree env Q su l (o', RC_Utility (Utility_with_weight c w)) \<Longrightarrow>
     origin_caller o' = RootOrigin \<longrightarrow> agree env Q su l (origin_from env RootOrigin, c)"
  "agree env Q su l (o', RC_Proxy (Proxy_proxy real t c)) \<Longrightarrow>
     \<forall>who d. origin_caller o' = SignedOrigin who \<longrightarrow> filter_call (proxied_origin env d real) c \<longrightarrow>
       agree env Q su l (proxied_origin env d real, c)"
  "agree env Q su l (o', RC_Proxy (Proxy_proxy_announced delegate real t c)) \<Longrightarrow>
     \<forall>who d. origin_caller o' = SignedOrigin who \<longrightarrow> filter_call (proxied_origin env d real) c \<longrightarrow>
       agree env Q su l (proxied_origin env d real, c)"
  "agree env Q su l (o', RC_Sudo (Sudo_sudo c)) \<Longrightarrow> su \<longrightarrow> (\<forall>caller. agree env Q su l (origin_from env caller, c))"
  "agree env Q su l (o', RC_Sudo (Sudo_sudo_unchecked_weight c w)) \<Longrightarrow>
     su \<longrightarrow> (\<forall>caller. agree env Q su l (origin_from env caller, c))"
  "agree env Q su l (o', RC_Sudo (Sudo_sudo_as who c)) \<Longrightarrow>
     su \<longrightarrow> (\<forall>caller. agree env Q su l (origin_from env caller, c))"
  "agree env Q su l (o', RC_Multisig (Multisig_as_multi_threshold_1 others c)) \<Longrightarrow>
     \<forall>a. filter_call (origin_from env (SignedOrigin a)) c \<longrightarrow>
       agree env Q su l (origin_from env (SignedOrigin a), c)"
  "agree env Q su l (o', RC_Multisig (Multisig_as_multi threshold others timepoint c w)) \<Longrightarrow>
     \<forall>a. filter_call (origin_from env (SignedOrigin a)) c \<longrightarrow>
       agree env Q su l (origin_from env (SignedOrigin a), c)"
  by (auto simp: agree_each_def intro: agree_step may_dispatch.intros)

lemma on_proxy_signed_ok [ok_simps]:
  "on_proxy (proxy_signed caller) s = (Inr who, s') \<longleftrightarrow> caller = SignedOrigin who \<and> s' = s"
  by (auto simp: on_proxy_def proxy_signed_def action_defs signer_of_def
      split: option.splits RuntimeOrigin.splits)

lemma same_sudo:
  "sudo_even env Q su o' sc \<Longrightarrow> (\<And>caller. su \<Longrightarrow> same_on Q (f caller) (f' caller)) \<Longrightarrow>
   same_on Q (re_sudo env o' sc f) (re_sudo env o' sc f')"
  by (simp add: sudo_even_def)

lemma same_multisig:
  "multisig_even env Q o' mc \<Longrightarrow> (\<And>who. same_on Q (f who) (f' who)) \<Longrightarrow>
   same_on Q (re_multisig env o' mc f) (re_multisig env o' mc f')"
  by (simp add: multisig_even_def)

lemma same_leaves_all:
  "agree env Q su l (o', c) \<Longrightarrow>
     same_on Q (dispatch_bypass_filter env o' c) (dispatch_bypass_filter (with_leaf l env) o' c)"
  "agree env Q su l (o', RC_Utility u) \<Longrightarrow> same_on Q (utility_call env o' u) (utility_call (with_leaf l env) o' u)"
  "agree env Q su l (o', RC_Proxy p) \<Longrightarrow> same_on Q (proxy_call env o' p) (proxy_call (with_leaf l env) o' p)"
  "agree_each env Q su l o' calls \<Longrightarrow> same_on Q (batch_loop env o' n calls) (batch_loop (with_leaf l env) o' n calls)"
  "(if origin_caller o' = RootOrigin then \<forall>c \<in> set calls. agree env Q su l (o', c)
    else agree_each env Q su l (add_filter not_batch_all o') calls) \<Longrightarrow>
     same_on Q (batch_all_loop env o' calls) (batch_all_loop (with_leaf l env) o' calls)"
  "agree_each env Q su l o' calls \<Longrightarrow>
     same_on Q (force_batch_loop env o' h calls) (force_batch_loop (with_leaf l env) o' h calls)"
  by (induction env o' c and env o' u and env o' p and env o' n calls and env o' calls
    and env o' h calls
    rule: dispatch_bypass_filter_utility_call_proxy_call_batch_loop_batch_all_loop_force_batch_loop.induct)
   (auto dest: agree_steps agree_here simp: root_not_filtered Let_def ok_simps
      intro!: same_intros same_sudo same_multisig split: sum.split)

lemma same_leaves:
  assumes "filter_call o' c \<Longrightarrow> agree env Q su l (o', c)" and "Q (rs_rest s)"
  shows "dispatch_call (with_leaf l env) o' c s = dispatch_call env o' c s"
proof -
  have "same_on Q (dispatch_call env o' c) (dispatch_call (with_leaf l env) o' c)"
    unfolding dispatch_call_def with_leaf_origins by (intro same_filtered same_leaves_all(1) [of env Q su l o' c] assms(1))
  with assms(2) show ?thesis by (simp add: same_on_def)
qed

text \<open>On all states, sudo and multisig do the same whatever they do.\<close>

lemma same_leaves_everywhere:
  assumes "\<And>o2 c2. (may_dispatch env True)\<^sup>*\<^sup>* (o', c) (o2, c2) \<Longrightarrow> l o2 c2 = re_leaf env o2 c2"
  shows "dispatch_call (with_leaf l env) o' c = dispatch_call env o' c"
proof
  have "agree env (\<lambda>_. True) True l (o', c)"
    unfolding agree_def using assms by (auto simp: same_everywhere even_everywhere)
  then show "dispatch_call (with_leaf l env) o' c s = dispatch_call env o' c s" for s
    by (rule same_leaves) simp
qed

section \<open>No origin above the caller's\<close>

definition below_root :: "('cur, 'e, 'w) RuntimeEnv \<Rightarrow> dispatch_job \<Rightarrow> bool" where
  "below_root env job \<longleftrightarrow> origin_caller (fst job) \<noteq> RootOrigin \<and>
     (\<forall>c. origin_filter (fst job) c \<longrightarrow> BaseCallFilter env c) \<and> BaseCallFilter env (snd job)"

lemma below_root_step:
  "may_dispatch env False job job' \<Longrightarrow> below_root env job \<Longrightarrow> below_root env job'"
  by (induction rule: may_dispatch.induct)
    (auto simp: below_root_def filter_call_def add_filter_def origin_from_def proxied_origin_def)

lemma below_root_reach:
  "(may_dispatch env False)\<^sup>*\<^sup>* job job' \<Longrightarrow> below_root env job \<Longrightarrow> below_root env job'"
  by (induction rule: rtranclp_induct) (auto intro: below_root_step)

text \<open>The laws of the sudo key, which the sudo pallet keeps somewhere in the rest of the state.  \<open>key_refuses\<close>:
  sudo fails for every origin but root and the key.  \<open>key_kept\<close>: leaves that are not run by root, do not run other
  calls and are not signed sudo calls of the key itself leave the key alone.  \<open>key_apart\<close>: a multisig call changes
  the key only through the call it runs.\<close>

definition holds_key :: "('w \<Rightarrow> AccountId option) \<Rightarrow> 'w \<Rightarrow> Origin \<Rightarrow> bool" where
  "holds_key key w o' \<longleftrightarrow> (\<exists>k. key w = Some k \<and> origin_caller o' = SignedOrigin k)"

definition key_refuses :: "('w \<Rightarrow> AccountId option) \<Rightarrow> ('cur, 'e, 'w) RuntimeEnv \<Rightarrow> bool" where
  "key_refuses key env \<longleftrightarrow> (\<forall>o' sc s. origin_caller o' \<noteq> RootOrigin \<longrightarrow> \<not> holds_key key (rs_rest s) o' \<longrightarrow>
     (\<exists>e. \<forall>f. re_sudo env o' sc f s = (Inl e, s)))"

definition key_kept :: "('w \<Rightarrow> AccountId option) \<Rightarrow> ('cur, 'e, 'w) RuntimeEnv \<Rightarrow> bool" where
  "key_kept key env \<longleftrightarrow> (\<forall>o' c s. origin_caller o' \<noteq> RootOrigin \<longrightarrow> \<not> runs_stored c \<longrightarrow>
     \<not> ((\<exists>sc. c = RC_Sudo sc) \<and> holds_key key (rs_rest s) o') \<longrightarrow>
     key (rs_rest (snd (re_leaf env o' c s))) = key (rs_rest s))"

definition key_apart :: "('w \<Rightarrow> AccountId option) \<Rightarrow> ('cur, 'e, 'w) RuntimeEnv \<Rightarrow> bool" where
  "key_apart key env \<longleftrightarrow> (\<forall>k o' mc. multisig_even env (\<lambda>w. key w = k) o' mc)"

definition sudo_laws :: "('w \<Rightarrow> AccountId option) \<Rightarrow> ('cur, 'e, 'w) RuntimeEnv \<Rightarrow> bool" where
  "sudo_laws key env \<longleftrightarrow> key_refuses key env \<and> key_kept key env \<and> key_apart key env"

lemma sudo_even_refused:
  assumes "sudo_laws key env" and "origin_caller o' \<noteq> RootOrigin" and "\<And>a. k = Some a \<Longrightarrow> origin_caller o' \<noteq> SignedOrigin a"
  shows "sudo_even env (\<lambda>w. key w = k) False o' sc"
proof -
  have "re_sudo env o' sc f' s = re_sudo env o' sc f s \<and> snd (re_sudo env o' sc f s) = s"
    if "key (rs_rest s) = k" for f f' s
  proof -
    have "\<not> holds_key key (rs_rest s) o'" using assms(3) that by (auto simp: holds_key_def)
    with assms(1,2) obtain e where "\<forall>f. re_sudo env o' sc f s = (Inl e, s)"
      unfolding sudo_laws_def key_refuses_def by blast
    then show ?thesis by simp
  qed
  then show ?thesis by (simp add: sudo_even_def same_on_def)
qed

lemma confined_dispatch:
  assumes "caller \<noteq> RootOrigin" and "sudo_laws key env" and "self_contained inside c"
    and "\<And>o1 sc. (may_dispatch env False)\<^sup>*\<^sup>* (origin_from env caller, c) (o1, RC_Sudo sc) \<Longrightarrow>
      \<not> holds_key key (rs_rest s) o1"
    and "\<And>o2 c2. origin_caller o2 \<noteq> RootOrigin \<Longrightarrow> BaseCallFilter env c2 \<Longrightarrow> l o2 c2 = re_leaf env o2 c2"
  shows "dispatch_call (with_leaf l env) (origin_from env caller) c s =
    dispatch_call env (origin_from env caller) c s"
proof (rule same_leaves)
  let ?o = "origin_from env caller" and ?Q = "\<lambda>w. key w = key (rs_rest s)"
  assume "filter_call ?o c"
  then have below: "below_root env (?o, c)"
    using assms(1) by (simp add: below_root_def origin_from_def filter_call_def)
  show "agree env ?Q False l (?o, c)"
    unfolding agree_def
  proof (intro allI impI conjI)
    fix o2 c2
    assume reach: "(may_dispatch env False)\<^sup>*\<^sup>* (?o, c) (o2, c2)"
    have job: "below_root env (o2, c2)" by (rule below_root_reach [OF reach below])
    then have o2: "origin_caller o2 \<noteq> RootOrigin" and l: "l o2 c2 = re_leaf env o2 c2"
      using assms(5) by (simp_all add: below_root_def)
    have "\<not> runs_stored c2"
      using self_contained_reach [OF reach] assms(3) by simp
    moreover have key: "\<not> holds_key key w o2" if "c2 = RC_Sudo sc" "key w = key (rs_rest s)" for sc w
      using assms(4) reach that by (simp add: holds_key_def)
    ultimately have "key (rs_rest (snd (re_leaf env o2 c2 t))) = key (rs_rest t)"
      if "key (rs_rest t) = key (rs_rest s)" for t
      using assms(2) o2 that unfolding sudo_laws_def key_kept_def by blast
    then show "same_on ?Q (re_leaf env o2 c2) (l o2 c2)" by (simp add: same_on_def l)
    show "sudo_even env ?Q False o2 sc" if "c2 = RC_Sudo sc" for sc
      using key [OF that refl] by (intro sudo_even_refused [OF assms(2) o2]) (auto simp: holds_key_def)
    show "multisig_even env ?Q o2 mc" if "c2 = RC_Multisig mc" for mc
      using assms(2) by (simp add: sudo_laws_def key_apart_def)
  qed
qed simp

section \<open>Batches\<close>

definition leaves_transactional :: "('cur, 'e, 'w) RuntimeEnv \<Rightarrow> bool" where
  "leaves_transactional env \<longleftrightarrow>
     (\<forall>o' c s e s'. re_leaf env o' c s = (Inl e, s') \<longrightarrow> s' = s)"

lemma dispatch_error:
  assumes "leaves_transactional env" and "dispatch_bypass_filter env o' c s = (Inl e, s')"
  shows "s' = s"
  using assms(2) assms(1) [unfolded leaves_transactional_def, rule_format]
  by (cases "(env, o', c)" rule: dispatch_bypass_filter.cases) (simp_all add: transactional_err)

text \<open>Running calls one after the other until one fails: how many succeeded, the state after them, and
  the error.\<close>

fun run_items ::
  "('cur, 'e, 'w) RuntimeEnv \<Rightarrow> Origin \<Rightarrow> RuntimeCall list \<Rightarrow> ('cur, 'e, 'w) RuntimeState \<Rightarrow>
   nat \<times> 'e RuntimeError option \<times> ('cur, 'e, 'w) RuntimeState" where
  "run_items env o' [] s = (0, None, s)"
| "run_items env o' (c # calls) s =
     (case dispatch_call env o' c s of
        (Inl e, _) \<Rightarrow> (0, Some e, s)
      | (Inr _, s') \<Rightarrow>
          (case run_items env o' calls
              (s'\<lparr>rs_utility_events := rs_utility_events s' @ [ItemCompleted]\<rparr>) of
             (k, r, s2) \<Rightarrow> (Suc k, r, s2)))"

lemma pre_dispatch_reads: "snd (CheckColdkeySwap_pre_dispatch env o' c s) = s"
  by (simp add: CheckColdkeySwap_pre_dispatch_def query_def ret_def split: option.split)

lemma dispatch_call_error:
  "leaves_transactional env \<Longrightarrow> dispatch_call env o' c s = (Inl e, s') \<Longrightarrow> s' = s"
  using pre_dispatch_reads [of env o' c s]
  by (auto simp: dispatch_call_def filtered_def throw_def and_then_def dispatch_error
      split: if_splits prod.splits sum.splits)

lemma batch_loop_runs:
  assumes "leaves_transactional env"
  shows "batch_loop env o' n calls s =
    (case run_items env o' calls s of (k, r, s') \<Rightarrow>
       utility_event (case r of None \<Rightarrow> BatchCompleted | Some e \<Rightarrow> BatchInterrupted (n + k) e) s')"
proof (induction calls arbitrary: n s)
  case (Cons c calls)
  obtain r s1 where r: "dispatch_call env o' c s = (r, s1)" by fastforce
  show ?case
  proof (cases r)
    case (Inl e)
    with r dispatch_call_error [OF assms, of o' c s e s1] show ?thesis
      by (simp add: root_not_filtered catch_def flip: dispatch_call_def)
  next
    case (Inr u)
    with r Cons.IH show ?thesis
      by (simp add: root_not_filtered catch_def and_then_def utility_event_def modify_def
          flip: dispatch_call_def split: prod.split option.split)
  qed
qed simp

lemma batch_all_loop_runs:
  assumes "leaves_transactional env"
  shows "batch_all_loop env o' calls s =
    (case run_items env (if origin_caller o' = RootOrigin then o' else add_filter not_batch_all o') calls s of
       (k, None, s') \<Rightarrow> utility_event BatchCompleted s'
     | (k, Some e, s') \<Rightarrow> (Inl e, s'))"
proof (induction calls arbitrary: s)
  case (Cons c calls)
  define o2 where "o2 = (if origin_caller o' = RootOrigin then o' else add_filter not_batch_all o')"
  have call: "(if origin_caller o' = RootOrigin then dispatch_bypass_filter env o' c
      else filtered env (add_filter not_batch_all o') c
        (dispatch_bypass_filter env (add_filter not_batch_all o') c)) = dispatch_call env o2 c"
    by (simp add: o2_def dispatch_call_def flip: root_not_filtered) (simp add: filtered_unless_root_def)
  obtain r s1 where r: "dispatch_call env o2 c s = (r, s1)" by fastforce
  show ?case
    unfolding batch_all_loop.simps call
    using r Cons.IH dispatch_call_error [OF assms, of o2 c s _ s1]
    by (cases r) (simp_all add: and_then_def utility_event_def modify_def flip: o2_def
        split: prod.split option.split)
qed simp

end
