(* ===== verification/Runtime_Guarantees.thy ===== *)
theory Runtime_Guarantees
  imports Shield_Queue Runtime_Confinement
begin

text \<open>
  The properties of the runtime around its pallets: which calls the privacy extension lets through
  and what they can run, what the shield queue dispatches and how it is kept, the rotation of the
  shield keys, and what batches and proxies can do.
\<close>

section \<open>Shared lemmas\<close>

lemma may_dispatch_carries:
  "(may_dispatch env su)\<^sup>*\<^sup>* (o1, c1) (o2, c2) \<Longrightarrow> (carries cdc)\<^sup>*\<^sup>* c1 c2"
proof (induction "(o2, c2)" arbitrary: o2 c2 rule: rtranclp_induct)
  case (step y)
  obtain o3 c3 where y: "y = (o3, c3)" by fastforce
  have "carries cdc c3 c2" using may_dispatch_inner [of env su o3 c3 o2 c2] step.hyps(2) y by (simp add: carries_def)
  with step.hyps(3) [OF y] show ?case by simp
qed simp

text \<open>On the way to a Qubitum call, a queued call that passed the filter keeps its origin.\<close>

lemma keeps_origin_step:
  "may_dispatch env su job job' \<Longrightarrow> keeps_origin (snd job) \<Longrightarrow>
   origin_caller (fst job') = origin_caller (fst job)"
  by (induction rule: may_dispatch.induct) (auto simp: keeps_origin_def is_batch_def add_filter_def)

lemma queued_caller_kept:
  assumes laws: "codec_laws (se_codec senv)" and filter: "ShieldQueueCallFilter_contains senv c"
    and "(may_dispatch env su)\<^sup>*\<^sup>* job (o2, RC_Qubitum q)" and "(carries (se_codec senv))\<^sup>*\<^sup>* c (snd job)"
  shows "origin_caller o2 = origin_caller (fst job)"
  using assms(3,4)
proof (induction rule: converse_rtranclp_induct)
  case (step j k)
  have "carries (se_codec senv) (snd j) (snd k)"
    using may_dispatch_inner [of env su "fst j" "snd j" "fst k" "snd k"] step.hyps(1) by (simp add: carries_def)
  moreover have "(carries (se_codec senv))\<^sup>*\<^sup>* (snd k) (RC_Qubitum q)"
    using may_dispatch_carries [of env su "fst k" "snd k"] step.hyps(2) by simp
  ultimately have "snd j = RC_Qubitum q \<or> keeps_origin (snd j)" and "(carries (se_codec senv))\<^sup>*\<^sup>* c (snd k)"
    using queued_private_path [OF laws filter step.prems, of q] step.prems
    by (auto intro: converse_rtranclp_into_rtranclp)
  with \<open>carries (se_codec senv) (snd j) (snd k)\<close> keeps_origin_step [OF step.hyps(1)] step.IH show ?case
    using carries_qubitum [of "se_codec senv" q "snd k"] by auto
qed simp

lemma no_decryptor_item:
  assumes "working now n i s" and "i < n"
    and "process_item (shield_Config_for_Runtime cdc cr w mv others no_decryptor) D now i weight (s, x) =
      (go, weight', st')"
  shows "go \<and> snd st' = x \<and> working now n (Suc i) (fst st') \<and>
    NextPendingExtrinsicIndex (fst st') = NextPendingExtrinsicIndex s"
proof -
  have "PendingExtrinsics s i \<noteq> None" using assms(1,2) by (simp add: working_def queued_def)
  then obtain p where "PendingExtrinsics s i = Some p" by blast
  from process_item_no_decryptor [OF this assms(3)] working_remove [OF assms(1,2)] show ?thesis
    by (auto simp: drop_item_def)
qed

lemma no_decryptor_items:
  assumes "working now n i s" and "i \<le> n" and "NextPendingExtrinsicIndex s = n"
    and "process_items (shield_Config_for_Runtime cdc cr w mv others no_decryptor) D now [i..<n] weight
      (s, x) = (weight', s', x')"
  shows "x' = x \<and> queued n s' \<and> NextPendingExtrinsicIndex s' = n"
  using assms
proof (induction "n - i" arbitrary: i s weight)
  case 0
  then show ?case by (simp add: working_def)
next
  case (Suc m)
  then have less: "i < n" by simp
  then have list: "[i..<n] = i # [Suc i..<n]" by (simp add: upt_conv_Cons)
  obtain go w2 st2 where item: "process_item (shield_Config_for_Runtime cdc cr w mv others no_decryptor) D
      now i weight (s, x) = (go, w2, st2)" by (metis prod_cases3)
  from no_decryptor_item [OF Suc.prems(1) less item]
  have go: go and st2: "st2 = (fst st2, x)" "working now n (Suc i) (fst st2)"
    "NextPendingExtrinsicIndex (fst st2) = n"
    using Suc.prems(3) by (auto simp: prod_eq_iff)
  have "process_items (shield_Config_for_Runtime cdc cr w mv others no_decryptor) D now [Suc i..<n] w2
      (fst st2, x) = (weight', s', x')"
    using Suc.prems(4) list item go st2(1) by simp
  from Suc.hyps(1) [OF _ st2(2) _ st2(3) this] Suc.hyps(2) less show ?case by simp
qed

lemma queue_emptied:
  assumes "queue_ok now s"
    and "process_pending_extrinsics (shield_Config_for_Runtime cdc cr w mv others no_decryptor) D now
      (s, x) = (weight, s', x')"
  shows "x' = x \<and> PendingExtrinsics s' = Map.empty \<and> PendingExtrinsics_count s' = 0"
proof -
  let ?n = "NextPendingExtrinsicIndex s"
  obtain i where i: "queued i s" and order: "in_order now s" using assms(1) by (auto simp: queue_ok_def)
  then have start: "saturating_sub ?n (PendingExtrinsics_count s) = i" "i \<le> ?n"
    by (simp_all add: queued_def saturating_sub_def)
  from i order queued_free [OF i] have working: "working now ?n i s" by (auto simp: working_def)
  obtain w0 where "process_items (shield_Config_for_Runtime cdc cr w mv others no_decryptor) D now [i..<?n] w0
      (s, x) = (weight, s', x')"
    using assms(2) start i
    by (auto simp: process_pending_extrinsics_def Let_def queued_def split: if_splits)
  from no_decryptor_items [OF working start(2) refl this]
  have x: "x' = x" and q: "queued ?n s'" and next_index: "NextPendingExtrinsicIndex s' = ?n" by simp_all
  have "PendingExtrinsics s' j = None" for j
    using q unfolding queued_def next_index by (metis leD)
  then show ?thesis using x q by (simp add: queued_def next_index fun_eq_iff)
qed

lemma superset_sound:
  "ProxyType_is_superset x y \<Longrightarrow> (x, y) \<noteq> (PT_NonTransfer, PT_NonCritical) \<Longrightarrow>
   ProxyType_filter y c \<Longrightarrow> ProxyType_filter x c"
  by (cases x; cases y)
    (auto simp: ProxyType_is_superset_def is_balances_def is_transfer_stake_def subtensor_in_def admin_in_def
      split: RuntimeCall.splits SubtensorCall.splits BalancesCall.splits SudoCall.splits)

section \<open>Small instances\<close>

text \<open>A codec that knows the encoding of one call, a Qubitum call, a lawful weight arithmetic with free
  database access, and a runtime whose leaves do nothing.\<close>

definition demo_private :: Call where
  "demo_private = Call_deactivate_miner 0"

definition demo_codec :: Codec where
  "demo_codec = \<lparr>
     decode_all_with_depth_limit = (\<lambda>l bs. if bs = [1] \<and> 0 < l then Some (RC_Qubitum demo_private) else None),
     decode_with_depth_limit = (\<lambda>l bs. if bs = [1] \<and> 0 < l then Some (RC_Qubitum demo_private) else None)\<rparr>"

lemma demo_codec_laws: "codec_laws demo_codec"
  by (simp add: codec_laws_def demo_codec_def)

definition demo_crypto :: ShieldCrypto where
  "demo_crypto = \<lparr>
     ShieldedTransaction_parse = (\<lambda>bs. case bs of
         [] \<Rightarrow> None
       | b # rest \<Rightarrow> Some \<lparr>key_hash = [b], kem_ct = [], nonce = [], aead_ct = rest\<rparr>),
     MlKem768_ciphertext_ok = (\<lambda>_. True), MLKEM768_ENC_KEY_LEN = 1, twox_128 = (\<lambda>k. k)\<rparr>"

definition demo_scan :: "nat ScanEnv" where
  "demo_scan = \<lparr>se_codec = demo_codec, se_crypto = demo_crypto, se_shield = shield_genesis\<rparr>"

definition demo_weights :: WeightApi where
  "demo_weights = \<lparr>
     weight_add = (\<lambda>a b. (saturating_add 64 (fst a) (fst b), saturating_add 64 (snd a) (snd b))),
     weight_mul = (\<lambda>a n. (saturating_mul 64 (fst a) n, saturating_mul 64 (snd a) n)),
     any_gt = (\<lambda>a b. fst a > fst b \<or> snd a > snd b),
     db_reads = (\<lambda>_. (0, 0)), db_writes = (\<lambda>_. (0, 0)), db_reads_writes = (\<lambda>_ _. (0, 0))\<rparr>"

lemma demo_weight_laws: "weight_laws demo_weights"
  by (simp add: weight_laws_def demo_weights_def)

definition demo_proxy_config :: "unit ProxyConfig" where
  "demo_proxy_config = \<lparr>
     proxy_cur = \<lparr>cur_reserve = (\<lambda>_ _ c. (Inr (), c)), cur_unreserve = (\<lambda>_ _ c. (0, c)),
       cur_reserved = (\<lambda>_ _. 0)\<rparr>,
     ProxyDepositBase = 1, ProxyDepositFactor = 1, MaxProxies = 20, MaxPending = 75,
     AnnouncementDepositBase = 1, AnnouncementDepositFactor = 1,
     CallHasher_hash_of = (\<lambda>_. 0), pure_entropy = (\<lambda>_ _ _ _ _. None)\<rparr>"

text \<open>A leaf counts in the rest of the state; leaves of the balances pallet fail.\<close>

definition demo_leaf :: "Origin \<Rightarrow> RuntimeCall \<Rightarrow> (unit, nat, nat, unit) runtime" where
  "demo_leaf o' c = (case c of
     RC_Balances _ \<Rightarrow> throw (LeafError 1)
   | _ \<Rightarrow> modify (\<lambda>s. s\<lparr>rs_rest := rs_rest s + 1\<rparr>))"

text \<open>The sudo key is account 9, and the multisig account is 77.\<close>

definition demo_sudo ::
  "Origin \<Rightarrow> SudoCall \<Rightarrow> (RuntimeOrigin \<Rightarrow> (unit, nat, nat, unit) runtime) \<Rightarrow> (unit, nat, nat, unit) runtime" where
  "demo_sudo o' sc run =
     (if origin_caller o' = SignedOrigin 9 then run RootOrigin else throw (LeafError 3))"

definition demo_env :: "(unit, nat, nat) RuntimeEnv" where
  "demo_env = \<lparr>re_leaf = demo_leaf, re_sudo = demo_sudo, re_multisig = (\<lambda>_ _ run. run 77),
     ColdkeySwapAnnouncements_contains_key = (\<lambda>_ _. False),
     ColdkeySwapDisputes_contains_key = (\<lambda>_ _. False), re_proxy = demo_proxy_config, batched_calls_limit = 10,
     derivative_account_id = (\<lambda>_ _. None), BaseCallFilter = NoNestingCallFilter_contains, re_now = 0,
     re_extrinsic_index = 0\<rparr>"

definition demo_runtime_state :: "(unit, nat, nat) RuntimeState" where
  "demo_runtime_state = \<lparr>rs_proxy = \<lparr>Proxies = Map.empty, Announcements = Map.empty,
       LastCallResult = Map.empty, RealPaysFee = (\<lambda>_ _. False), proxy_currency = (), proxy_events = []\<rparr>,
     rs_utility_events = [], rs_rest = 0\<rparr>"

definition demo_remark :: RuntimeCall where
  "demo_remark = RC_System (System_other [])"

definition demo_pay :: RuntimeCall where
  "demo_pay = RC_Balances (Balances_transfer_keep_alive 2 5)"





text \<open>A queue with a call submitted in block 1 and one in block 15.\<close>

definition demo_queue :: "'e ShieldStorage \<times> unit" where
  "demo_queue = (shield_genesis\<lparr>
     PendingExtrinsics := [5 \<mapsto> \<lparr>px_who = 1, px_encrypted_call = [1], px_submitted_at = 1\<rparr>,
       6 \<mapsto> \<lparr>px_who = 2, px_encrypted_call = [2], px_submitted_at = 15\<rparr>],
     PendingExtrinsics_count := 2, NextPendingExtrinsicIndex := 7\<rparr>, ())"

definition demo_pending :: "nat ShieldStorage" where
  "demo_pending = fst demo_queue"

lemma demo_queue_ok: "queue_ok 20 (fst demo_queue)"
proof -
  have "queued 5 (fst demo_queue)" by (auto simp: queued_def demo_queue_def split: if_splits)
  moreover have "in_order 20 (fst demo_queue)" by (auto simp: in_order_def demo_queue_def split: if_splits)
  ultimately show ?thesis by (auto simp: queue_ok_def)
qed

definition demo_block :: ShieldBlock where
  "demo_block = \<lparr>sb_now = 20, sb_author = None, sb_next_next = None\<rparr>"

definition demo_keys :: "nat ShieldStorage" where
  "demo_keys = shield_genesis\<lparr>AuthorKeys := [9 \<mapsto> [3], 4 \<mapsto> [2]]\<rparr>"

lemma demo_pay_queued:
  "\<not> is_recursive_shield_call demo_pay" "ShieldQueueCallFilter_contains senv demo_pay"
  "call_weight w mv others demo_pay = others demo_pay"
  "shield_dispatcher cr b (\<lambda>_ _ x. (Inr None, x)) origin demo_pay st = (Inr None, st)"
  by (simp_all add: demo_pay_def is_recursive_shield_call_def ShieldQueueCallFilter_contains_def
      contains_recursive_shield_queue_call.simps contains_persistent_private_queue_call.simps
      contains_unroutable_private_queue_call.simps scan_limits shield_dispatcher_def)

section \<open>Privacy\<close>

text \<open>C11: A self-contained call that the privacy extension accepts never runs a call of the Qubitum pallet,
  whatever its origin and however it nests batches, alternatives, derived accounts, proxies, sudo and
  multisig calls, and neither does any call that it carries, for the scheduler or as a preimage, when
  that is dispatched: the result is the same for any behaviour of the Qubitum calls.  (A call that
  finalises a crowdloan or runs EVM or contract code is not self-contained: it can run a stored call
  that the extension never saw.)\<close>

theorem public_calls_never_reach_qubitum:
  assumes "codec_laws (se_codec senv)" and "CheckQubitumShielding_validate senv c = Inr ()"
    and "self_contained (carries (se_codec senv)) c" and "(carries (se_codec senv))\<^sup>*\<^sup>* c c1"
    and "\<And>o2 c2. (\<And>q. c2 \<noteq> RC_Qubitum q) \<Longrightarrow> \<not> runs_stored c2 \<Longrightarrow> l o2 c2 = re_leaf env o2 c2"
  shows "dispatch_call (with_leaf l env) o' c1 = dispatch_call env o' c1"
proof (rule same_leaves_everywhere)
  fix o2 c2
  assume "(may_dispatch env True)\<^sup>*\<^sup>* (o', c1) (o2, c2)"
  from may_dispatch_carries [OF this] assms(4)
  have reach: "(carries (se_codec senv))\<^sup>*\<^sup>* c c2" by (meson rtranclp_trans)
  have "privacy_violation_at_depth senv c 0 = None"
    using assms(2) by (simp add: CheckQubitumShielding_validate_def privacy_violation_def split: option.splits)
  then have "\<not> harmful senv c2" by (rule clear_call_harmless [OF assms(1) _ reach])
  then have "c2 \<noteq> RC_Qubitum q" for q by auto
  moreover have "\<not> runs_stored c2" using assms(3) reach by (simp add: self_contained_def)
  ultimately show "l o2 c2 = re_leaf env o2 c2" by (rule assms(5))
qed

theorem public_calls_never_reach_qubitum_witness:
  "CheckQubitumShielding_validate demo_scan (RC_Sudo (Sudo_sudo demo_remark)) = Inr () \<and>
   dispatch_call (with_leaf (\<lambda>o' c. case c of RC_Qubitum _ \<Rightarrow> throw (LeafError 7) | _ \<Rightarrow> demo_leaf o' c) demo_env)
     (origin_from demo_env (SignedOrigin 9)) (RC_Sudo (Sudo_sudo demo_remark)) =
   dispatch_call demo_env (origin_from demo_env (SignedOrigin 9)) (RC_Sudo (Sudo_sudo demo_remark))"
proof -
  let ?c = "RC_Sudo (Sudo_sudo demo_remark)" and ?R = "carries (se_codec demo_scan)"
  have laws: "codec_laws (se_codec demo_scan)" by (simp add: demo_scan_def demo_codec_laws)
  have accepted: "CheckQubitumShielding_validate demo_scan ?c = Inr ()"
    by (simp add: CheckQubitumShielding_validate_def privacy_violation_def
        privacy_violation_at_depth.simps scan_limits demo_remark_def)
  have "self_contained ?R demo_remark"
    by (subst self_contained_unfold) (simp add: demo_remark_def runs_stored_def carries_def preimage_of_def)
  then have contained: "self_contained ?R ?c"
    by (subst self_contained_unfold) (simp add: runs_stored_def carries_def preimage_of_def)
  have "(case c2 of RC_Qubitum _ \<Rightarrow> throw (LeafError 7) | _ \<Rightarrow> demo_leaf o2 c2) = re_leaf demo_env o2 c2"
    if "\<And>q. c2 \<noteq> RC_Qubitum q" "\<not> runs_stored c2" for o2 c2
    using that by (simp add: demo_env_def split: RuntimeCall.splits)
  from public_calls_never_reach_qubitum [OF laws accepted contained rtranclp.rtrancl_refl this] accepted
  show ?thesis by blast
qed

text \<open>C12: The privacy extension accepts a call exactly if no chain of fewer than eight wrappers leads to
  a Qubitum call, a stored encrypted call, a malformed or stale encrypted wrapper, or a preimage that
  is a call too deep to read, and no chain of wrappers is as long as eight.\<close>

theorem privacy_extension_exact:
  "CheckQubitumShielding_validate senv c = Inr () \<longleftrightarrow>
    \<not> (\<exists>n c'. chain (nested_at (se_codec senv)) 0 c n c' \<and>
         (8 \<le> n \<or> harmful senv c' \<or> too_deep_at (se_codec senv) n c'))"
  using privacy_scan.scan_characterised [of senv c 0]
  by (auto simp: CheckQubitumShielding_validate_def privacy_violation_def split: option.splits)

text \<open>C39: A crowdloan can carry a call of the Qubitum pallet in the clear past the privacy extension and
  past the filter of the shield queue, although the call itself is refused.\<close>

theorem crowdloan_carries_private_call_openly:
  "CheckQubitumShielding_validate senv
     (RC_Crowdloan (Crowdloan_create deposit minimum cap end_at (Some (RC_Qubitum q)) target)) = Inr () \<and>
   ShieldQueueCallFilter_contains senv
     (RC_Crowdloan (Crowdloan_create deposit minimum cap end_at (Some (RC_Qubitum q)) target)) \<and>
   CheckQubitumShielding_validate senv (RC_Qubitum q) = Inl QubitumCallMustBeShielded"
  by (simp add: CheckQubitumShielding_validate_def privacy_violation_def privacy_violation_at_depth.simps
      ShieldQueueCallFilter_contains_def contains_recursive_shield_queue_call.simps
      contains_persistent_private_queue_call.simps contains_unroutable_private_queue_call.simps scan_limits)

text \<open>C13: Dispatching a self-contained call that the filter of the shield queue lets pass, with the origin that
  the queue chooses for it, runs Qubitum calls with the origin of a decrypted payload of the submitter and
  with no other: the result is the same for any behaviour of the Qubitum calls with other origins.  The
  queue chooses that origin whenever the wrappers that the scanners look through lead to a Qubitum call.
  (The call that a crowdloan stores is not run by the call that stores it; the one that finalises a
  crowdloan is not self-contained.)\<close>

theorem queued_private_calls_shielded:
  assumes "codec_laws (se_codec senv)" and "ShieldQueueCallFilter_contains senv c"
    and "self_contained inside c"
    and "\<And>o2 c2. (\<And>q. c2 = RC_Qubitum q \<Longrightarrow> origin_caller o2 = ShieldedPayload who) \<Longrightarrow> \<not> runs_stored c2 \<Longrightarrow>
      l o2 c2 = re_leaf env o2 c2"
  shows "dispatch_call (with_leaf l env) (origin_from env (ShieldRuntimeQueueOrigin_origin_for senv who c)) c =
      dispatch_call env (origin_from env (ShieldRuntimeQueueOrigin_origin_for senv who c)) c \<and>
    (\<forall>q. (carries (se_codec senv))\<^sup>*\<^sup>* c (RC_Qubitum q) \<longrightarrow>
       ShieldRuntimeQueueOrigin_origin_for senv who c = ShieldedPayload who)"
proof
  show origin: "\<forall>q. (carries (se_codec senv))\<^sup>*\<^sup>* c (RC_Qubitum q) \<longrightarrow>
      ShieldRuntimeQueueOrigin_origin_for senv who c = ShieldedPayload who"
    using private_inside [OF assms(1)] by (auto simp: ShieldRuntimeQueueOrigin_origin_for_def)
  let ?o = "origin_from env (ShieldRuntimeQueueOrigin_origin_for senv who c)"
  show "dispatch_call (with_leaf l env) ?o c = dispatch_call env ?o c"
  proof (rule same_leaves_everywhere)
    fix o2 c2
    assume reach: "(may_dispatch env True)\<^sup>*\<^sup>* (?o, c) (o2, c2)"
    show "l o2 c2 = re_leaf env o2 c2"
    proof (rule assms(4))
      show "\<not> runs_stored c2" using self_contained_reach [OF reach] assms(3) by simp
      fix q
      assume "c2 = RC_Qubitum q"
      with reach have "origin_caller o2 = ShieldRuntimeQueueOrigin_origin_for senv who c"
        using queued_caller_kept [OF assms(1,2), of env True "(?o, c)" o2 q] by (simp add: origin_from_def)
      moreover from may_dispatch_carries [OF reach] \<open>c2 = RC_Qubitum q\<close>
      have "(carries (se_codec senv))\<^sup>*\<^sup>* c (RC_Qubitum q)" by simp
      ultimately show "origin_caller o2 = ShieldedPayload who" using origin by auto
    qed
  qed
qed

theorem queued_private_calls_shielded_witness:
  "ShieldQueueCallFilter_contains demo_scan (RC_Utility (Utility_batch [RC_Qubitum demo_private])) \<and>
   ShieldRuntimeQueueOrigin_origin_for demo_scan 7 (RC_Utility (Utility_batch [RC_Qubitum demo_private])) =
     ShieldedPayload 7 \<and>
   dispatch_call (with_leaf (\<lambda>o' c. case c of
        RC_Qubitum _ \<Rightarrow> if origin_caller o' = ShieldedPayload 7 then demo_leaf o' c else throw (LeafError 7)
      | _ \<Rightarrow> demo_leaf o' c) demo_env) (origin_from demo_env (ShieldRuntimeQueueOrigin_origin_for demo_scan 7
        (RC_Utility (Utility_batch [RC_Qubitum demo_private])))) (RC_Utility (Utility_batch [RC_Qubitum demo_private])) =
   dispatch_call demo_env (origin_from demo_env (ShieldRuntimeQueueOrigin_origin_for demo_scan 7
        (RC_Utility (Utility_batch [RC_Qubitum demo_private])))) (RC_Utility (Utility_batch [RC_Qubitum demo_private]))"
proof -
  let ?c = "RC_Utility (Utility_batch [RC_Qubitum demo_private])"
  let ?l = "\<lambda>o' c. case c of
      RC_Qubitum _ \<Rightarrow> if origin_caller o' = ShieldedPayload 7 then demo_leaf o' c else throw (LeafError 7)
    | _ \<Rightarrow> demo_leaf o' c"
  have laws: "codec_laws (se_codec demo_scan)" by (simp add: demo_scan_def demo_codec_laws)
  have filter: "ShieldQueueCallFilter_contains demo_scan ?c"
    by (simp add: ShieldQueueCallFilter_contains_def contains_recursive_shield_queue_call.simps
        contains_persistent_private_queue_call.simps contains_unroutable_private_queue_call.simps scan_limits)
  have "self_contained inside (RC_Qubitum demo_private)"
    by (subst self_contained_inside) (simp add: runs_stored_def)
  then have contained: "self_contained inside ?c" by (subst self_contained_inside) (simp add: runs_stored_def)
  have "carries (se_codec demo_scan) ?c (RC_Qubitum demo_private)" by (simp add: carries_def)
  then have carried: "(carries (se_codec demo_scan))\<^sup>*\<^sup>* ?c (RC_Qubitum demo_private)" by blast
  have "?l o2 c2 = re_leaf demo_env o2 c2"
    if "\<And>q. c2 = RC_Qubitum q \<Longrightarrow> origin_caller o2 = ShieldedPayload 7" "\<not> runs_stored c2" for o2 c2
    using that by (simp add: demo_env_def split: RuntimeCall.splits)
  from queued_private_calls_shielded [OF laws filter contained this] filter carried show ?thesis by blast
qed

section \<open>The shield queue\<close>

text \<open>C38: The queue of the runtime never runs a call that carries a call of the Qubitum pallet: with the
  weights the calls declare, the result of a block's work on the queue is the same for any behaviour
  of such calls.  (The limit on the weight of one extrinsic has proof size zero.)\<close>

theorem shield_queue_never_runs_qubitum:
  assumes "codec_laws cdc" and "weight_laws w"
    and "\<And>origin c. \<not> carries_qubitum_call cdc c \<Longrightarrow> D origin c = D' origin c"
  shows "process_pending_extrinsics (shield_Config_for_Runtime cdc cr w mv others decryptor) D now st =
    process_pending_extrinsics (shield_Config_for_Runtime cdc cr w mv others decryptor) D' now st"
  by (simp add: process_pending_extrinsics_def Let_def process_items_ignores_qubitum [OF assms])

theorem shield_queue_never_runs_qubitum_witness:
  "process_pending_extrinsics (shield_Config_for_Runtime demo_codec demo_crypto demo_weights 4096
       (\<lambda>_. (1, 0)) (\<lambda>_. Some (RC_Qubitum demo_private)))
     (\<lambda>origin c st. if carries_qubitum_call demo_codec c then (Inl 1, st) else (Inr None, st)) 3 demo_queue =
   process_pending_extrinsics (shield_Config_for_Runtime demo_codec demo_crypto demo_weights 4096
       (\<lambda>_. (1, 0)) (\<lambda>_. Some (RC_Qubitum demo_private)))
     (\<lambda>origin c st. (Inr None, st)) 3 demo_queue"
  by (rule shield_queue_never_runs_qubitum [OF demo_codec_laws demo_weight_laws]) simp

text \<open>With the decryptor that the runtime configures, working off the queue drops every pending call
  and changes nothing else on the chain.\<close>

theorem production_queue_drops_everything:
  assumes "queue_ok now s"
    and "process_pending_extrinsics (shield_Config_for_Runtime cdc cr w mv others no_decryptor) D now
      (s, x) = (weight, s', x')"
  shows "x' = x \<and> PendingExtrinsics s' = Map.empty \<and> PendingExtrinsics_count s' = 0"
  by (rule queue_emptied [OF assms])

theorem production_queue_drops_everything_witness:
  "PendingExtrinsics demo_pending 5 \<noteq> None \<and>
   (\<exists>s'. snd (process_pending_extrinsics (shield_Config_for_Runtime demo_codec demo_crypto demo_weights 4096
       (\<lambda>_. (1, 0)) no_decryptor) (\<lambda>origin c st. (Inr None, st)) 20 (demo_pending, ())) = (s', ()) \<and>
     PendingExtrinsics s' = Map.empty)"
proof -
  let ?run = "process_pending_extrinsics (shield_Config_for_Runtime demo_codec demo_crypto demo_weights 4096
       (\<lambda>_. (1, 0)) no_decryptor) (\<lambda>origin c st. (Inr None, st)) 20"
  obtain weight s' where run: "?run (demo_pending, ()) = (weight, s', ())" by (metis prod_cases3 unit.exhaust)
  have "queue_ok 20 demo_pending" by (simp add: demo_pending_def demo_queue_ok)
  from production_queue_drops_everything [OF this run] have "PendingExtrinsics s' = Map.empty" by simp
  moreover have "snd (?run (demo_pending, ())) = (s', ())" using run by simp
  moreover have "PendingExtrinsics demo_pending 5 \<noteq> None" by (simp add: demo_pending_def demo_queue_def)
  ultimately show ?thesis by blast
qed

text \<open>C20: Working off the queue keeps it contiguous and in the order of submission, whatever the
  dispatched calls append, and leaves no call in it that is older than the lifetime.\<close>

theorem shield_queue_in_order:
  assumes "appends_only now D" and "queue_ok now s"
    and "NextPendingExtrinsicIndex s \<le> uint_max 32" and "NextPendingExtrinsicIndex s' < uint_max 32"
    and "process_pending_extrinsics (shield_Config_for_Runtime cdc cr w mv others decryptor) D now (s, x) =
      (weight, s', x')"
  shows "queue_ok now s' \<and> (\<forall>j p. PendingExtrinsics s' j = Some p \<longrightarrow>
    now - px_submitted_at p \<le> ExtrinsicLifetime s')"
  by (rule queue_order_kept [OF assms(1) runtime_never_root assms(2-5)])

theorem shield_queue_in_order_witness:
  "\<exists>weight s'. process_pending_extrinsics (shield_Config_for_Runtime demo_codec demo_crypto demo_weights 4096
       (\<lambda>_. (1, 0)) (\<lambda>_. Some demo_pay)) (shield_dispatcher demo_crypto demo_block (\<lambda>_ _ x. (Inr None, x))) 20
       (fst demo_queue, ()) = (weight, s', ()) \<and> queue_ok 20 s'"
proof -
  let ?D = "shield_dispatcher demo_crypto demo_block (\<lambda>_ _ x. (Inr None, x))"
  let ?env = "shield_Config_for_Runtime demo_codec demo_crypto demo_weights 4096 (\<lambda>_. (1, 0)) (\<lambda>_. Some demo_pay)"
  obtain weight s' where run: "process_pending_extrinsics ?env ?D 20 (fst demo_queue, ()) = (weight, s', ())"
    by (metis prod_cases3 unit.exhaust)
  have "appends_only 20 ?D" using shield_dispatcher_appends [of demo_block demo_crypto] by (simp add: demo_block_def)
  moreover have "NextPendingExtrinsicIndex (fst demo_queue) \<le> uint_max 32" by (simp add: demo_queue_def uint_max_def)
  moreover have "NextPendingExtrinsicIndex s' < uint_max 32"
    using run
    by (auto simp: demo_queue_def process_pending_extrinsics_def Let_def saturating_sub_def upt_conv_Cons
        process_item_def shield_genesis_def shield_Config_for_Runtime_def drop_item_def demo_pay_queued
        DEFAULT_EXTRINSIC_LIFETIME_def uint_max_def split: if_splits)
  ultimately show ?thesis using shield_queue_in_order [OF _ demo_queue_ok _ _ run] run by blast
qed

section \<open>The shield keys\<close>

text \<open>The key of an author is announced two blocks ahead: over three consecutive announcements it is
  the next key, the pending key and the current key, and wrappers are accepted exactly under the hash
  of the key in the middle block.\<close>

theorem shield_key_rotation:
  assumes "announce_next_key cr author1 (Some a) n1 UnsignedOrigin k1 s = (Inr (), s1)"
    and "announce_next_key cr author2 next2 n2 UnsignedOrigin k2 s1 = (Inr (), s2)"
    and "announce_next_key cr author3 next3 n3 UnsignedOrigin k3 s2 = (Inr (), s3)"
    and "AuthorKeys s a = Some key"
  shows "NextKey s1 = Some key \<and> PendingKey s2 = Some key \<and> CurrentKey s3 = Some key \<and>
    NextKeyExpiresAt s1 = Some (n1 + 3) \<and> PendingKeyExpiresAt s2 = Some (n2 + 2) \<and>
    (fst (submit_encrypted cr (SignedOrigin who) ciphertext s2) = Inr () \<longleftrightarrow>
       (\<exists>tx. parse_valid_submit_encrypted_ciphertext cr ciphertext = Some tx \<and>
          key_hash tx = twox_128 cr key))"
proof -
  note a1 = announce_ok [OF assms(1)] and a2 = announce_ok [OF assms(2)] and a3 = announce_ok [OF assms(3)]
  have keys: "NextKey s1 = Some key" "PendingKey s2 = Some key" "CurrentKey s3 = Some key"
    using a1 a2 a3 assms(4) by auto
  moreover have "NextKeyExpiresAt s1 = Some (n1 + 3)" "PendingKeyExpiresAt s2 = Some (n2 + 2)"
    using a1 a2 keys(1) assms(4) by auto
  moreover have "fst (submit_encrypted cr (SignedOrigin who) ciphertext s2) = Inr () \<longleftrightarrow>
       (\<exists>tx. parse_valid_submit_encrypted_ciphertext cr ciphertext = Some tx \<and> key_hash tx = twox_128 cr key)"
    using keys(2)
    by (auto simp: submit_encrypted_def action_defs signer_of_def is_shielded_using_current_key_def
        split: option.splits)
  ultimately show ?thesis by simp
qed

theorem shield_key_rotation_witness:
  "\<exists>s1 s2 s3. announce_next_key demo_crypto (Some 4) (Some 9) 100 UnsignedOrigin None demo_keys = (Inr (), s1) \<and>
    announce_next_key demo_crypto (Some 8) None 101 UnsignedOrigin None s1 = (Inr (), s2) \<and>
    announce_next_key demo_crypto (Some 9) None 102 UnsignedOrigin (Some [6]) s2 = (Inr (), s3) \<and>
    PendingKey s2 = Some [3] \<and> CurrentKey s3 = Some [3]"
proof -
  obtain s1 where 1: "announce_next_key demo_crypto (Some 4) (Some 9) 100 UnsignedOrigin None demo_keys = (Inr (), s1)"
    by (simp add: announce_next_key_def action_defs)
  obtain s2 where 2: "announce_next_key demo_crypto (Some 8) None 101 UnsignedOrigin None s1 = (Inr (), s2)"
    by (simp add: announce_next_key_def action_defs)
  obtain s3 where 3: "announce_next_key demo_crypto (Some 9) None 102 UnsignedOrigin (Some [6]) s2 = (Inr (), s3)"
    by (simp add: announce_next_key_def action_defs demo_crypto_def)
  have "AuthorKeys demo_keys 9 = Some [3]" by (simp add: demo_keys_def)
  from shield_key_rotation [OF 1 2 3 this, of 1 "[]"] 1 2 3 show ?thesis by blast
qed

section \<open>Batches, filters and proxies\<close>



text \<open>C19: A batch runs its calls in order up to the first that fails, keeps what the calls before it did
  and reports where it stopped; an atomic batch runs all of them or changes nothing.\<close>

theorem batch_semantics:
  assumes "leaves_transactional env" and "origin_caller o' \<noteq> UnsignedOrigin"
    and "length calls \<le> batched_calls_limit env"
  shows "dispatch_bypass_filter env o' (RC_Utility (Utility_batch calls)) s =
      (case run_items env o' calls s of (k, failure, s') \<Rightarrow>
         utility_event (case failure of None \<Rightarrow> BatchCompleted | Some e \<Rightarrow> BatchInterrupted k e) s') \<and>
    dispatch_bypass_filter env o' (RC_Utility (Utility_batch_all calls)) s =
      (case run_items env (if origin_caller o' = RootOrigin then o' else add_filter not_batch_all o') calls s of
         (k, None, s') \<Rightarrow> utility_event BatchCompleted s'
       | (k, Some e, s') \<Rightarrow> (Inl e, s))"
proof
  have guards: "batch_guards env o' calls t = (Inr (), t)" for t
    using assms(2,3) by (simp add: batch_guards_def action_defs)
  show "dispatch_bypass_filter env o' (RC_Utility (Utility_batch calls)) s =
      (case run_items env o' calls s of (k, failure, s') \<Rightarrow>
         utility_event (case failure of None \<Rightarrow> BatchCompleted | Some e \<Rightarrow> BatchInterrupted k e) s')"
    by (simp add: transactional_def and_then_def guards batch_loop_runs [OF assms(1)] utility_event_def
        modify_def split: prod.split option.split)
  show "dispatch_bypass_filter env o' (RC_Utility (Utility_batch_all calls)) s =
      (case run_items env (if origin_caller o' = RootOrigin then o' else add_filter not_batch_all o') calls s of
         (k, None, s') \<Rightarrow> utility_event BatchCompleted s'
       | (k, Some e, s') \<Rightarrow> (Inl e, s))"
    by (simp only: dispatch_bypass_filter.simps utility_call.simps transactional_def and_then_def guards
        batch_all_loop_runs [OF assms(1)])
      (simp add: utility_event_def modify_def split: prod.split option.split)
qed

theorem batch_semantics_witness:
  "fst (dispatch_bypass_filter demo_env (origin_from demo_env (SignedOrigin 1))
      (RC_Utility (Utility_batch [demo_remark, demo_pay, demo_remark])) demo_runtime_state) = Inr () \<and>
   rs_rest (snd (dispatch_bypass_filter demo_env (origin_from demo_env (SignedOrigin 1))
      (RC_Utility (Utility_batch [demo_remark, demo_pay, demo_remark])) demo_runtime_state)) = 1 \<and>
   dispatch_bypass_filter demo_env (origin_from demo_env (SignedOrigin 1))
      (RC_Utility (Utility_batch_all [demo_remark, demo_pay, demo_remark])) demo_runtime_state =
     (Inl (LeafError 1), demo_runtime_state)"
proof -
  have leaves: "leaves_transactional demo_env"
    by (auto simp: leaves_transactional_def demo_env_def demo_leaf_def action_defs split: RuntimeCall.splits)
  have "origin_caller (origin_from demo_env (SignedOrigin 1)) \<noteq> UnsignedOrigin"
    "length [demo_remark, demo_pay, demo_remark] \<le> batched_calls_limit demo_env"
    by (simp_all add: origin_from_def demo_env_def)
  from batch_semantics [OF leaves this, of demo_runtime_state] show ?thesis
    by (simp add: dispatch_call_def filtered_def filter_call_def CheckColdkeySwap_pre_dispatch_def query_def
        signer_of_def origin_from_def demo_env_def demo_leaf_def
        demo_remark_def demo_pay_def demo_runtime_state_def action_defs utility_event_def
        NoNestingCallFilter_contains_def add_filter_def not_batch_all_def)
qed

text \<open>C40: A proxy may hand out only rights it has: whenever the source ranks a proxy type above another,
  the calls allowed to the second are allowed to the first, with one exception.  A proxy for
  everything but transfers may appoint one for everything but critical calls, which may transfer.\<close>

theorem delegated_rights:
  assumes "ProxyType_is_superset x y"
  shows "(\<forall>c. ProxyType_filter y c \<longrightarrow> ProxyType_filter x c) \<longleftrightarrow> (x, y) \<noteq> (PT_NonTransfer, PT_NonCritical)"
proof
  assume all: "\<forall>c. ProxyType_filter y c \<longrightarrow> ProxyType_filter x c"
  have "ProxyType_filter PT_NonCritical demo_pay" "\<not> ProxyType_filter PT_NonTransfer demo_pay"
    by (simp_all add: demo_pay_def is_balances_def subtensor_in_def)
  with all show "(x, y) \<noteq> (PT_NonTransfer, PT_NonCritical)" by auto
next
  assume "(x, y) \<noteq> (PT_NonTransfer, PT_NonCritical)"
  with superset_sound [OF assms] show "\<forall>c. ProxyType_filter y c \<longrightarrow> ProxyType_filter x c" by blast
qed

theorem delegated_rights_witness:
  "ProxyType_is_superset PT_Transfer PT_SmallTransfer \<and> ProxyType_is_superset PT_NonTransfer PT_NonCritical \<and>
   Collect (ProxyType_filter PT_SmallTransfer) \<subseteq> Collect (ProxyType_filter PT_Transfer) \<and>
   (\<exists>c. ProxyType_filter PT_NonCritical c \<and> \<not> ProxyType_filter PT_NonTransfer c)"
proof -
  have rank: "ProxyType_is_superset PT_Transfer PT_SmallTransfer"
    "ProxyType_is_superset PT_NonTransfer PT_NonCritical" by (simp_all add: ProxyType_is_superset_def)
  from delegated_rights [OF rank(1)] delegated_rights [OF rank(2)] rank show ?thesis by auto
qed

end
