(* ===== verification/Crowdloan_Pallet.thy ===== *)
theory Crowdloan_Pallet
  imports Runtime_Calls
begin

text \<open>
  The crowdloan pallet, \<^verbatim>\<open>pallets/crowdloan/src/lib.rs\<close>, with all its calls and the migration that counts
  contributors.  The currency, the preimage store and the reference counts of the system pallet are
  the state \<open>'w\<close> and the operations of \<open>CrowdloanConfig\<close>.

  \<open>finalize\<close> dispatches a stored call, which may come back to this pallet, and to \<open>finalize\<close>.  FRAME
  runs every call in a storage layer of its own and refuses a call when the layers are used up: a
  run is given the number of layers that are left.  The calls of other pallets are the field \<open>dispatch_other\<close>, which is given the dispatcher for the calls
  that it dispatches in turn, and the base filter of the runtime is \<open>cl_call_allowed\<close>.
\<close>

section \<open>Data\<close>

type_synonym CrowdloanId = nat

text \<open>A call in the preimage store is known by an opaque handle.\<close>

type_synonym BoundedCall = nat

record CrowdloanInfo =
  cl_creator :: AccountId
  cl_deposit :: Balance
  cl_min_contribution :: Balance
  cl_end :: BlockNumber
  cl_cap :: Balance
  cl_funds_account :: AccountId
  cl_raised :: Balance
  cl_target_address :: "AccountId option"
  cl_call :: "BoundedCall option"
  cl_finalized :: bool
  cl_contributors_count :: nat

datatype CrowdloanError =
    Crowdloan_DepositTooLow
  | Crowdloan_CapTooLow
  | Crowdloan_MinimumContributionTooLow
  | Crowdloan_CannotEndInPast
  | Crowdloan_BlockDurationTooShort
  | Crowdloan_BlockDurationTooLong
  | Crowdloan_InsufficientBalance
  | Crowdloan_Overflow
  | Crowdloan_InvalidCrowdloanId
  | Crowdloan_CapRaised
  | Crowdloan_ContributionPeriodEnded
  | Crowdloan_ContributionTooLow
  | Crowdloan_InvalidOrigin
  | Crowdloan_AlreadyFinalized
  | Crowdloan_ContributionPeriodNotEnded
  | Crowdloan_NoContribution
  | Crowdloan_CapNotRaised
  | Crowdloan_Underflow
  | Crowdloan_CallUnavailable
  | Crowdloan_NotReadyToDissolve
  | Crowdloan_DepositCannotBeWithdrawn
  | Crowdloan_MaxContributorsReached
  | Crowdloan_BadOrigin
  | Crowdloan_CallFiltered
  | Crowdloan_LimitReached
  | Crowdloan_Dispatch nat

datatype CrowdloanEvent =
    Crowdloan_Created CrowdloanId AccountId BlockNumber Balance
  | Crowdloan_Contributed CrowdloanId AccountId Balance
  | Crowdloan_Withdrew CrowdloanId AccountId Balance
  | Crowdloan_PartiallyRefunded CrowdloanId
  | Crowdloan_AllRefunded CrowdloanId
  | Crowdloan_Finalized CrowdloanId
  | Crowdloan_Dissolved CrowdloanId
  | Crowdloan_MinContributionUpdated CrowdloanId Balance
  | Crowdloan_EndUpdated CrowdloanId BlockNumber
  | Crowdloan_CapUpdated CrowdloanId Balance

text \<open>The contributions of a crowdloan are keyed by the account itself, without hashing, so that they
  are iterated in the order of the accounts: a sorted list without duplicates.\<close>

type_synonym contributions = "(AccountId \<times> Balance) list"

record 'w CrowdloanStorage =
  Crowdloans :: "CrowdloanId \<rightharpoonup> CrowdloanInfo"
  NextCrowdloanId :: CrowdloanId
  Contributions :: "CrowdloanId \<Rightarrow> contributions"
  CurrentCrowdloanId :: "CrowdloanId option"
  HasMigrationRun :: bool
  cl_world :: 'w
  cl_events :: "CrowdloanEvent list"

type_synonym ('w, 'a) crowdloan = "('w CrowdloanStorage, CrowdloanError, 'a) action"

type_synonym 'w run = "('w, unit) crowdloan"

record 'w CrowdloanConfig =
  Currency_balance :: "AccountId \<Rightarrow> 'w \<Rightarrow> Balance"
  Currency_transfer :: "AccountId \<Rightarrow> AccountId \<Rightarrow> Balance \<Rightarrow> 'w \<Rightarrow> (nat + unit) \<times> 'w"
  Preimages_bound :: "RuntimeCall \<Rightarrow> 'w \<Rightarrow> (nat + BoundedCall) \<times> 'w"
  Preimages_peek :: "BoundedCall \<Rightarrow> 'w \<Rightarrow> RuntimeCall option"
  Preimages_drop :: "BoundedCall \<Rightarrow> 'w \<Rightarrow> 'w"
  inc_providers :: "AccountId \<Rightarrow> 'w \<Rightarrow> 'w"
  dec_providers :: "AccountId \<Rightarrow> 'w \<Rightarrow> 'w"
  sub_account :: "CrowdloanId \<Rightarrow> AccountId"
  MinimumDeposit :: Balance
  AbsoluteMinimumContribution :: Balance
  MinimumBlockDuration :: BlockNumber
  MaximumBlockDuration :: BlockNumber
  RefundContributorsLimit :: nat
  MaxContributors :: nat
  cl_now :: BlockNumber
  cl_call_allowed :: "RuntimeCall \<Rightarrow> 'w \<Rightarrow> bool"
  dispatch_other :: "(RuntimeOrigin \<Rightarrow> RuntimeCall \<Rightarrow> 'w run) \<Rightarrow> RuntimeOrigin \<Rightarrow> RuntimeCall \<Rightarrow> 'w run"

section \<open>Storage\<close>

fun contribution_put :: "AccountId \<Rightarrow> Balance \<Rightarrow> contributions \<Rightarrow> contributions" where
  "contribution_put a v [] = [(a, v)]"
| "contribution_put a v ((b, w) # xs) =
     (if a < b then (a, v) # (b, w) # xs
      else if a = b then (a, v) # xs
      else (b, w) # contribution_put a v xs)"

definition contribution_remove :: "AccountId \<Rightarrow> contributions \<Rightarrow> contributions" where
  "contribution_remove a xs = filter (\<lambda>(b, _). b \<noteq> a) xs"

definition Contributions_get :: "CrowdloanId \<Rightarrow> AccountId \<Rightarrow> 'w CrowdloanStorage \<Rightarrow> Balance option" where
  "Contributions_get i a s = map_of (Contributions s i) a"

definition Contributions_insert ::
  "CrowdloanId \<Rightarrow> AccountId \<Rightarrow> Balance \<Rightarrow> 'w CrowdloanStorage \<Rightarrow> 'w CrowdloanStorage" where
  "Contributions_insert i a v s =
     s\<lparr>Contributions := (Contributions s)(i := contribution_put a v (Contributions s i))\<rparr>"

definition Contributions_remove ::
  "CrowdloanId \<Rightarrow> AccountId \<Rightarrow> 'w CrowdloanStorage \<Rightarrow> 'w CrowdloanStorage" where
  "Contributions_remove i a s =
     s\<lparr>Contributions := (Contributions s)(i := contribution_remove a (Contributions s i))\<rparr>"

definition Crowdloans_insert :: "CrowdloanId \<Rightarrow> CrowdloanInfo \<Rightarrow> 'w CrowdloanStorage \<Rightarrow> 'w CrowdloanStorage" where
  "Crowdloans_insert i c s = s\<lparr>Crowdloans := (Crowdloans s)(i \<mapsto> c)\<rparr>"

definition crowdloan_event :: "CrowdloanEvent \<Rightarrow> ('w, unit) crowdloan" where
  "crowdloan_event ev = modify (\<lambda>s. s\<lparr>cl_events := cl_events s @ [ev]\<rparr>)"

definition crowdloan_transfer ::
  "'w CrowdloanConfig \<Rightarrow> AccountId \<Rightarrow> AccountId \<Rightarrow> Balance \<Rightarrow> ('w, unit) crowdloan" where
  "crowdloan_transfer cfg source dest amount = (\<lambda>s.
     case Currency_transfer cfg source dest amount (cl_world s) of
       (Inl e, w) \<Rightarrow> (Inl (Crowdloan_Dispatch e), s\<lparr>cl_world := w\<rparr>)
     | (Inr _, w) \<Rightarrow> (Inr (), s\<lparr>cl_world := w\<rparr>))"

definition crowdloan_signed :: "RuntimeOrigin \<Rightarrow> ('w, AccountId) crowdloan" where
  "crowdloan_signed origin = ok_or (signer_of origin) Crowdloan_BadOrigin"

definition ensure_crowdloan_exists :: "CrowdloanId \<Rightarrow> ('w, CrowdloanInfo) crowdloan" where
  "ensure_crowdloan_exists i = fetch (\<lambda>s. Crowdloans s i) Crowdloan_InvalidCrowdloanId"

definition ensure_valid_end ::
  "'w CrowdloanConfig \<Rightarrow> BlockNumber \<Rightarrow> BlockNumber \<Rightarrow> ('w, unit) crowdloan" where
  "ensure_valid_end cfg now end_at =
     and_then (ensure (now < end_at) Crowdloan_CannotEndInPast) (\<lambda>_.
     and_then (ok_or (checked_sub end_at now) Crowdloan_Underflow) (\<lambda>block_duration.
     and_then (ensure (MinimumBlockDuration cfg \<le> block_duration) Crowdloan_BlockDurationTooShort) (\<lambda>_.
     ensure (block_duration \<le> MaximumBlockDuration cfg) Crowdloan_BlockDurationTooLong)))"

section \<open>Calls\<close>

definition bound_call ::
  "'w CrowdloanConfig \<Rightarrow> RuntimeCall option \<Rightarrow> ('w, BoundedCall option) crowdloan" where
  "bound_call cfg call = (case call of
     None \<Rightarrow> ret None
   | Some c \<Rightarrow> (\<lambda>s. case Preimages_bound cfg c (cl_world s) of
       (Inl e, w) \<Rightarrow> (Inl (Crowdloan_Dispatch e), s\<lparr>cl_world := w\<rparr>)
     | (Inr b, w) \<Rightarrow> (Inr (Some b), s\<lparr>cl_world := w\<rparr>)))"

definition crowdloan_create ::
  "'w CrowdloanConfig \<Rightarrow> RuntimeOrigin \<Rightarrow> Balance \<Rightarrow> Balance \<Rightarrow> Balance \<Rightarrow> BlockNumber \<Rightarrow>
   RuntimeCall option \<Rightarrow> AccountId option \<Rightarrow> ('w, unit) crowdloan" where
  "crowdloan_create cfg origin deposit min_contribution cap end_at call target_address = transactional (
     and_then (crowdloan_signed origin) (\<lambda>creator.
     and_then (ensure (MinimumDeposit cfg \<le> deposit) Crowdloan_DepositTooLow) (\<lambda>_.
     and_then (ensure (deposit < cap) Crowdloan_CapTooLow) (\<lambda>_.
     and_then (ensure (AbsoluteMinimumContribution cfg \<le> min_contribution)
       Crowdloan_MinimumContributionTooLow) (\<lambda>_.
     and_then (ensure_valid_end cfg (cl_now cfg) end_at) (\<lambda>_.
     and_then (require (\<lambda>s. deposit \<le> Currency_balance cfg creator (cl_world s))
       Crowdloan_InsufficientBalance) (\<lambda>_.
     and_then (gets NextCrowdloanId) (\<lambda>crowdloan_id.
     and_then (ok_or (checked_add 32 crowdloan_id 1) Crowdloan_Overflow) (\<lambda>next_crowdloan_id.
     and_then (modify (\<lambda>s. s\<lparr>NextCrowdloanId := next_crowdloan_id\<rparr>)) (\<lambda>_.
     let funds_account = sub_account cfg crowdloan_id in
     and_then (modify (\<lambda>s. s\<lparr>cl_world := inc_providers cfg funds_account (cl_world s)\<rparr>)) (\<lambda>_.
     and_then (bound_call cfg call) (\<lambda>bounded.
     let crowdloan = \<lparr>cl_creator = creator, cl_deposit = deposit,
       cl_min_contribution = min_contribution, cl_end = end_at, cl_cap = cap,
       cl_funds_account = funds_account, cl_raised = deposit, cl_target_address = target_address,
       cl_call = bounded, cl_finalized = False, cl_contributors_count = 1\<rparr> in
     and_then (modify (Crowdloans_insert crowdloan_id crowdloan)) (\<lambda>_.
     and_then (crowdloan_transfer cfg creator (cl_funds_account crowdloan) deposit) (\<lambda>_.
     and_then (modify (Contributions_insert crowdloan_id creator deposit)) (\<lambda>_.
     crowdloan_event (Crowdloan_Created crowdloan_id creator end_at cap))))))))))))))))"

definition crowdloan_contribute ::
  "'w CrowdloanConfig \<Rightarrow> RuntimeOrigin \<Rightarrow> CrowdloanId \<Rightarrow> Balance \<Rightarrow> ('w, unit) crowdloan" where
  "crowdloan_contribute cfg origin crowdloan_id offered = transactional (
     and_then (crowdloan_signed origin) (\<lambda>contributor.
     and_then (ensure_crowdloan_exists crowdloan_id) (\<lambda>crowdloan.
     and_then (ensure (cl_now cfg < cl_end crowdloan) Crowdloan_ContributionPeriodEnded) (\<lambda>_.
     and_then (ensure (cl_raised crowdloan < cl_cap crowdloan) Crowdloan_CapRaised) (\<lambda>_.
     and_then (ensure (cl_min_contribution crowdloan \<le> offered) Crowdloan_ContributionTooLow) (\<lambda>_.
     and_then (ensure (cl_contributors_count crowdloan < MaxContributors cfg)
       Crowdloan_MaxContributorsReached) (\<lambda>_.
     and_then (ok_or (checked_sub (cl_cap crowdloan) (cl_raised crowdloan)) Crowdloan_Underflow)
       (\<lambda>left_to_raise.
     let amount = min offered left_to_raise in
     and_then (ok_or (checked_add 64 (cl_raised crowdloan) amount) Crowdloan_Overflow) (\<lambda>raised.
     and_then (gets (Contributions_get crowdloan_id contributor)) (\<lambda>existing.
     and_then (case existing of
         Some contribution \<Rightarrow>
           and_then (ok_or (checked_add 64 contribution amount) Crowdloan_Overflow) (\<lambda>total_contribution.
           ret (total_contribution, cl_contributors_count crowdloan))
       | None \<Rightarrow>
           and_then (ok_or (checked_add 32 (cl_contributors_count crowdloan) 1) Crowdloan_Overflow)
             (\<lambda>count. ret (amount, count))) (\<lambda>(contribution, count).
     and_then (require (\<lambda>s. amount \<le> Currency_balance cfg contributor (cl_world s))
       Crowdloan_InsufficientBalance) (\<lambda>_.
     and_then (crowdloan_transfer cfg contributor (cl_funds_account crowdloan) amount) (\<lambda>_.
     and_then (modify (Contributions_insert crowdloan_id contributor contribution)) (\<lambda>_.
     and_then (modify (Crowdloans_insert crowdloan_id
       (crowdloan\<lparr>cl_raised := raised, cl_contributors_count := count\<rparr>))) (\<lambda>_.
     crowdloan_event (Crowdloan_Contributed crowdloan_id contributor amount))))))))))))))))"

definition crowdloan_withdraw ::
  "'w CrowdloanConfig \<Rightarrow> RuntimeOrigin \<Rightarrow> CrowdloanId \<Rightarrow> ('w, unit) crowdloan" where
  "crowdloan_withdraw cfg origin crowdloan_id = transactional (
     and_then (crowdloan_signed origin) (\<lambda>who.
     and_then (ensure_crowdloan_exists crowdloan_id) (\<lambda>crowdloan.
     and_then (ensure (\<not> cl_finalized crowdloan) Crowdloan_AlreadyFinalized) (\<lambda>_.
     and_then (gets (\<lambda>s. case Contributions_get crowdloan_id who s of None \<Rightarrow> 0 | Some v \<Rightarrow> v)) (\<lambda>contributed.
     and_then (ensure (0 < contributed) Crowdloan_NoContribution) (\<lambda>_.
     and_then (if who = cl_creator crowdloan
       then let amount = saturating_sub contributed (cl_deposit crowdloan) in
            and_then (ensure (0 < amount) Crowdloan_DepositCannotBeWithdrawn) (\<lambda>_.
            and_then (modify (Contributions_insert crowdloan_id who (cl_deposit crowdloan))) (\<lambda>_.
            ret (amount, cl_contributors_count crowdloan)))
       else and_then (modify (Contributions_remove crowdloan_id who)) (\<lambda>_.
            and_then (ok_or (checked_sub (cl_contributors_count crowdloan) 1) Crowdloan_Underflow) (\<lambda>count.
            ret (contributed, count)))) (\<lambda>(amount, count).
     and_then (crowdloan_transfer cfg (cl_funds_account crowdloan) who amount) (\<lambda>_.
     and_then (modify (Crowdloans_insert crowdloan_id
       (crowdloan\<lparr>cl_raised := saturating_sub (cl_raised crowdloan) amount,
          cl_contributors_count := count\<rparr>))) (\<lambda>_.
     crowdloan_event (Crowdloan_Withdrew crowdloan_id who amount))))))))))"

text \<open>The loop of \<open>refund\<close> over the contributions left to look at, with the local copy of the
  crowdloan, the accounts refunded so far (the count is their number) and whether it came to the end.\<close>

fun refund_loop ::
  "'w CrowdloanConfig \<Rightarrow> contributions \<Rightarrow> CrowdloanInfo \<Rightarrow> AccountId list \<Rightarrow>
   ('w, CrowdloanInfo \<times> AccountId list \<times> bool) crowdloan" where
  "refund_loop cfg [] crowdloan refunded = ret (crowdloan, refunded, True)"
| "refund_loop cfg ((contributor, amount) # rest) crowdloan refunded =
     (if RefundContributorsLimit cfg \<le> length refunded then ret (crowdloan, refunded, False)
      else and_then (crowdloan_transfer cfg (cl_funds_account crowdloan) contributor amount) (\<lambda>_.
           and_then (ok_or (checked_add 32 (length refunded) 1) Crowdloan_Overflow) (\<lambda>_.
           refund_loop cfg rest
             (crowdloan\<lparr>cl_raised := saturating_sub (cl_raised crowdloan) amount\<rparr>)
             (refunded @ [contributor]))))"

definition crowdloan_refund ::
  "'w CrowdloanConfig \<Rightarrow> RuntimeOrigin \<Rightarrow> CrowdloanId \<Rightarrow> ('w, unit) crowdloan" where
  "crowdloan_refund cfg origin crowdloan_id = transactional (
     and_then (crowdloan_signed origin) (\<lambda>who.
     and_then (ensure_crowdloan_exists crowdloan_id) (\<lambda>crowdloan.
     and_then (ensure (\<not> cl_finalized crowdloan) Crowdloan_AlreadyFinalized) (\<lambda>_.
     and_then (ensure (who = cl_creator crowdloan) Crowdloan_InvalidOrigin) (\<lambda>_.
     and_then (gets (\<lambda>s. filter (\<lambda>(contributor, _). contributor \<noteq> cl_creator crowdloan)
       (Contributions s crowdloan_id))) (\<lambda>contributions.
     and_then (refund_loop cfg contributions crowdloan []) (\<lambda>(crowdloan1, refunded, all_refunded).
     and_then (ok_or (checked_sub (cl_contributors_count crowdloan1) (length refunded))
       Crowdloan_Underflow) (\<lambda>count.
     and_then (modify (Crowdloans_insert crowdloan_id (crowdloan1\<lparr>cl_contributors_count := count\<rparr>))) (\<lambda>_.
     and_then (modify (fold (Contributions_remove crowdloan_id) refunded)) (\<lambda>_.
     crowdloan_event (if all_refunded then Crowdloan_AllRefunded crowdloan_id
       else Crowdloan_PartiallyRefunded crowdloan_id)))))))))))"

definition crowdloan_dissolve ::
  "'w CrowdloanConfig \<Rightarrow> RuntimeOrigin \<Rightarrow> CrowdloanId \<Rightarrow> ('w, unit) crowdloan" where
  "crowdloan_dissolve cfg origin crowdloan_id = transactional (
     and_then (crowdloan_signed origin) (\<lambda>who.
     and_then (ensure_crowdloan_exists crowdloan_id) (\<lambda>crowdloan.
     and_then (ensure (\<not> cl_finalized crowdloan) Crowdloan_AlreadyFinalized) (\<lambda>_.
     and_then (ensure (who = cl_creator crowdloan) Crowdloan_InvalidOrigin) (\<lambda>_.
     and_then (fetch (Contributions_get crowdloan_id (cl_creator crowdloan)) Crowdloan_NoContribution)
       (\<lambda>creator_contribution.
     and_then (ensure (creator_contribution = cl_raised crowdloan) Crowdloan_NotReadyToDissolve) (\<lambda>_.
     and_then (crowdloan_transfer cfg (cl_funds_account crowdloan) (cl_creator crowdloan)
       creator_contribution) (\<lambda>_.
     and_then (modify (Contributions_remove crowdloan_id (cl_creator crowdloan))) (\<lambda>_.
     and_then (modify (\<lambda>s. case cl_call crowdloan of
         None \<Rightarrow> s
       | Some c \<Rightarrow> s\<lparr>cl_world := Preimages_drop cfg c (cl_world s)\<rparr>)) (\<lambda>_.
     and_then (modify (\<lambda>s. s\<lparr>cl_world := dec_providers cfg (cl_funds_account crowdloan) (cl_world s)\<rparr>)) (\<lambda>_.
     and_then (modify (\<lambda>s. s\<lparr>Crowdloans := (Crowdloans s)(crowdloan_id := None)\<rparr>)) (\<lambda>_.
     crowdloan_event (Crowdloan_Dissolved crowdloan_id)))))))))))))"

definition crowdloan_update_min_contribution ::
  "'w CrowdloanConfig \<Rightarrow> RuntimeOrigin \<Rightarrow> CrowdloanId \<Rightarrow> Balance \<Rightarrow> ('w, unit) crowdloan" where
  "crowdloan_update_min_contribution cfg origin crowdloan_id new_min_contribution = transactional (
     and_then (crowdloan_signed origin) (\<lambda>who.
     and_then (ensure_crowdloan_exists crowdloan_id) (\<lambda>crowdloan.
     and_then (ensure (\<not> cl_finalized crowdloan) Crowdloan_AlreadyFinalized) (\<lambda>_.
     and_then (ensure (who = cl_creator crowdloan) Crowdloan_InvalidOrigin) (\<lambda>_.
     and_then (ensure (AbsoluteMinimumContribution cfg \<le> new_min_contribution)
       Crowdloan_MinimumContributionTooLow) (\<lambda>_.
     and_then (modify (Crowdloans_insert crowdloan_id
       (crowdloan\<lparr>cl_min_contribution := new_min_contribution\<rparr>))) (\<lambda>_.
     crowdloan_event (Crowdloan_MinContributionUpdated crowdloan_id new_min_contribution))))))))"

definition crowdloan_update_end ::
  "'w CrowdloanConfig \<Rightarrow> RuntimeOrigin \<Rightarrow> CrowdloanId \<Rightarrow> BlockNumber \<Rightarrow> ('w, unit) crowdloan" where
  "crowdloan_update_end cfg origin crowdloan_id new_end = transactional (
     and_then (crowdloan_signed origin) (\<lambda>who.
     and_then (ensure_crowdloan_exists crowdloan_id) (\<lambda>crowdloan.
     and_then (ensure (\<not> cl_finalized crowdloan) Crowdloan_AlreadyFinalized) (\<lambda>_.
     and_then (ensure (who = cl_creator crowdloan) Crowdloan_InvalidOrigin) (\<lambda>_.
     and_then (ensure_valid_end cfg (cl_now cfg) new_end) (\<lambda>_.
     and_then (modify (Crowdloans_insert crowdloan_id (crowdloan\<lparr>cl_end := new_end\<rparr>))) (\<lambda>_.
     crowdloan_event (Crowdloan_EndUpdated crowdloan_id new_end))))))))"

definition crowdloan_update_cap ::
  "'w CrowdloanConfig \<Rightarrow> RuntimeOrigin \<Rightarrow> CrowdloanId \<Rightarrow> Balance \<Rightarrow> ('w, unit) crowdloan" where
  "crowdloan_update_cap cfg origin crowdloan_id new_cap = transactional (
     and_then (crowdloan_signed origin) (\<lambda>who.
     and_then (ensure_crowdloan_exists crowdloan_id) (\<lambda>crowdloan.
     and_then (ensure (\<not> cl_finalized crowdloan) Crowdloan_AlreadyFinalized) (\<lambda>_.
     and_then (ensure (who = cl_creator crowdloan) Crowdloan_InvalidOrigin) (\<lambda>_.
     and_then (ensure (cl_raised crowdloan \<le> new_cap) Crowdloan_CapTooLow) (\<lambda>_.
     and_then (modify (Crowdloans_insert crowdloan_id (crowdloan\<lparr>cl_cap := new_cap\<rparr>))) (\<lambda>_.
     crowdloan_event (Crowdloan_CapUpdated crowdloan_id new_cap))))))))"

section \<open>Finalisation\<close>

text \<open>Up to the dispatch: the local copy of the crowdloan and the call to dispatch, if there is one.\<close>

definition finalize_before ::
  "'w CrowdloanConfig \<Rightarrow> RuntimeOrigin \<Rightarrow> CrowdloanId \<Rightarrow>
   ('w, AccountId \<times> CrowdloanInfo \<times> RuntimeCall option) crowdloan" where
  "finalize_before cfg origin crowdloan_id =
     and_then (crowdloan_signed origin) (\<lambda>who.
     and_then (ensure_crowdloan_exists crowdloan_id) (\<lambda>crowdloan.
     and_then (ensure (who = cl_creator crowdloan) Crowdloan_InvalidOrigin) (\<lambda>_.
     and_then (ensure (cl_raised crowdloan = cl_cap crowdloan) Crowdloan_CapNotRaised) (\<lambda>_.
     and_then (ensure (\<not> cl_finalized crowdloan) Crowdloan_AlreadyFinalized) (\<lambda>_.
     and_then (case cl_target_address crowdloan of
         None \<Rightarrow> ret ()
       | Some target \<Rightarrow> crowdloan_transfer cfg (cl_funds_account crowdloan) target (cl_raised crowdloan)) (\<lambda>_.
     case cl_call crowdloan of
       None \<Rightarrow> ret (who, crowdloan, None)
     | Some c \<Rightarrow>
         and_then (modify (\<lambda>s. s\<lparr>CurrentCrowdloanId := Some crowdloan_id\<rparr>)) (\<lambda>_.
         and_then (gets (\<lambda>s. Preimages_peek cfg c (cl_world s))) (\<lambda>peeked.
         case peeked of
           None \<Rightarrow>
             and_then (modify (\<lambda>s. s\<lparr>cl_world := Preimages_drop cfg c (cl_world s)\<rparr>)) (\<lambda>_.
             throw Crowdloan_CallUnavailable)
         | Some call \<Rightarrow> ret (who, crowdloan, Some call)))))))))"

definition finalize_after :: "CrowdloanId \<Rightarrow> CrowdloanInfo \<Rightarrow> ('w, unit) crowdloan" where
  "finalize_after crowdloan_id crowdloan =
     and_then (modify (Crowdloans_insert crowdloan_id (crowdloan\<lparr>cl_finalized := True\<rparr>))) (\<lambda>_.
     crowdloan_event (Crowdloan_Finalized crowdloan_id))"

definition clear_current :: "'w CrowdloanStorage \<Rightarrow> 'w CrowdloanStorage" where
  "clear_current s = s\<lparr>CurrentCrowdloanId := None\<rparr>"

fun crowdloan_call ::
  "nat \<Rightarrow> 'w CrowdloanConfig \<Rightarrow> RuntimeOrigin \<Rightarrow> CrowdloanCall \<Rightarrow> 'w run"
and dispatch_with :: "nat \<Rightarrow> 'w CrowdloanConfig \<Rightarrow> RuntimeOrigin \<Rightarrow> RuntimeCall \<Rightarrow> 'w run" where
  "crowdloan_call n cfg origin (Crowdloan_create deposit min_contribution cap end_at call target) s =
     crowdloan_create cfg origin deposit min_contribution cap end_at call target s"
| "crowdloan_call n cfg origin (Crowdloan_contribute i amount) s =
     crowdloan_contribute cfg origin i amount s"
| "crowdloan_call n cfg origin (Crowdloan_withdraw i) s = crowdloan_withdraw cfg origin i s"
| "crowdloan_call n cfg origin (Crowdloan_finalize i) s =
     (case finalize_before cfg origin i s of
        (Inl e, _) \<Rightarrow> (Inl e, s)
      | (Inr (who, crowdloan, None), s1) \<Rightarrow> finalize_after i crowdloan s1
      | (Inr (who, crowdloan, Some call), s1) \<Rightarrow>
          (case dispatch_with n cfg (SignedOrigin who) call s1 of
             (Inl e, _) \<Rightarrow> (Inl e, s)
           | (Inr _, s2) \<Rightarrow> finalize_after i crowdloan (clear_current s2)))"
| "crowdloan_call n cfg origin (Crowdloan_refund i) s = crowdloan_refund cfg origin i s"
| "crowdloan_call n cfg origin (Crowdloan_dissolve i) s = crowdloan_dissolve cfg origin i s"
| "crowdloan_call n cfg origin (Crowdloan_update_min_contribution i v) s =
     crowdloan_update_min_contribution cfg origin i v s"
| "crowdloan_call n cfg origin (Crowdloan_update_end i v) s = crowdloan_update_end cfg origin i v s"
| "crowdloan_call n cfg origin (Crowdloan_update_cap i v) s = crowdloan_update_cap cfg origin i v s"
| "dispatch_with 0 cfg origin call s =
     (if \<not> cl_call_allowed cfg call (cl_world s) then (Inl Crowdloan_CallFiltered, s)
      else (Inl Crowdloan_LimitReached, s))"
| "dispatch_with (Suc n) cfg origin call s =
     (if \<not> cl_call_allowed cfg call (cl_world s) then (Inl Crowdloan_CallFiltered, s)
      else case call of
        RC_Crowdloan c \<Rightarrow> crowdloan_call n cfg origin c s
      | _ \<Rightarrow> dispatch_other cfg (dispatch_with n cfg) origin call s)"

section \<open>Migration\<close>

text \<open>The crowdloans as they were stored before contributors were counted: all fields but the last.\<close>

definition migrate_add_contributors_count ::
  "(CrowdloanId \<times> CrowdloanInfo) list \<Rightarrow> 'w CrowdloanStorage \<Rightarrow> 'w CrowdloanStorage" where
  "migrate_add_contributors_count old s =
     (if HasMigrationRun s then s
      else (fold (\<lambda>(i, crowdloan) s. Crowdloans_insert i
              (crowdloan\<lparr>cl_contributors_count := length (Contributions s i) mod 2 ^ 32\<rparr>) s) old s)
           \<lparr>HasMigrationRun := True\<rparr>)"

end
