(* ===== verification/Crowdloan_Invariants.thy ===== *)
theory Crowdloan_Invariants
  imports Crowdloan_Pallet
begin

text \<open>
  The books of the crowdloan pallet: for every crowdloan that is open, the amount raised is the sum
  of the contributions, the contributors are counted, and the funds account holds the amount.  The
  invariant is indexed by the set of crowdloans that are being finalised, whose books are open while
  their call runs; every call keeps it for every such set, so that stored calls that come back to
  the pallet are covered.
\<close>

section \<open>Contributions\<close>

definition contributed :: "contributions \<Rightarrow> Balance" where
  "contributed xs = sum_list (map snd xs)"

definition keyed :: "contributions \<Rightarrow> bool" where
  "keyed xs \<longleftrightarrow> sorted_wrt (<) (map fst xs)"

definition share :: "contributions \<Rightarrow> AccountId \<Rightarrow> Balance" where
  "share xs a = (case map_of xs a of None \<Rightarrow> 0 | Some v \<Rightarrow> v)"

lemma keyed_simps [simp]:
  "keyed []" "keyed ((a, v) # xs) \<longleftrightarrow> (\<forall>b \<in> fst ` set xs. a < b) \<and> keyed xs"
  by (auto simp: keyed_def)

lemma contributed_simps [simp]:
  "contributed [] = 0" "contributed ((a, v) # xs) = v + contributed xs"
  by (simp_all add: contributed_def)

lemma keyed_distinct: "keyed xs \<Longrightarrow> distinct (map fst xs)"
  by (simp add: keyed_def strict_sorted_iff)

lemma put_keys [simp]: "fst ` set (contribution_put a v xs) = insert a (fst ` set xs)"
  by (induction a v xs rule: contribution_put.induct) auto

lemma put_keyed [simp]: "keyed xs \<Longrightarrow> keyed (contribution_put a v xs)"
  by (induction a v xs rule: contribution_put.induct) (auto dest: order.strict_trans)

lemma put_lookup [simp]: "keyed xs \<Longrightarrow> map_of (contribution_put a v xs) = (map_of xs)(a \<mapsto> v)"
  by (induction a v xs rule: contribution_put.induct) (auto simp: fun_eq_iff)

lemma not_contributor: "keyed ((b, w) # xs) \<Longrightarrow> a < b \<Longrightarrow> map_of ((b, w) # xs) a = None"
  by (auto simp: map_of_eq_None_iff)

lemma put_contributed: "keyed xs \<Longrightarrow> contributed (contribution_put a v xs) + share xs a = contributed xs + v"
proof (induction a v xs rule: contribution_put.induct)
  case (2 a v b w xs)
  have "share ((b, w) # xs) a = 0" if "a < b" using not_contributor [OF 2(2) that] by (simp add: share_def)
  with 2 show ?case by (auto simp: share_def)
qed (simp add: share_def)

lemma put_length:
  "keyed xs \<Longrightarrow> length (contribution_put a v xs) = (if map_of xs a = None then Suc (length xs) else length xs)"
proof (induction a v xs rule: contribution_put.induct)
  case (2 a v b w xs)
  with not_contributor [OF 2(2), of a] show ?case by auto
qed simp

lemma remove_keys: "fst ` set (contribution_remove a xs) = fst ` set xs - {a}"
  by (auto simp: contribution_remove_def image_iff)

lemma filter_keyed: "keyed xs \<Longrightarrow> keyed (filter P xs)"
  by (auto simp: keyed_def sorted_wrt_map sorted_wrt_filter)

lemma remove_keyed [simp]: "keyed xs \<Longrightarrow> keyed (contribution_remove a xs)"
  by (simp add: contribution_remove_def filter_keyed)

lemma remove_absent: "a \<notin> fst ` set xs \<Longrightarrow> contribution_remove a xs = xs"
  by (force simp: contribution_remove_def intro: filter_True)

lemma remove_contributed: "keyed xs \<Longrightarrow> contributed (contribution_remove a xs) + share xs a = contributed xs"
proof (induction xs)
  case (Cons x xs)
  obtain b w where x: "x = (b, w)" by fastforce
  have "contribution_remove a xs = xs" "share xs a = 0" if "a = b"
    using Cons.prems x that
    by (auto intro!: remove_absent simp: share_def split: option.split dest!: map_of_SomeD)
  then show ?case using Cons x by (auto simp: contribution_remove_def share_def)
qed (simp add: contribution_remove_def share_def)

lemma remove_length:
  "keyed xs \<Longrightarrow> map_of xs a = Some v \<Longrightarrow> Suc (length (contribution_remove a xs)) = length xs"
proof (induction xs)
  case (Cons x xs)
  obtain b w where x: "x = (b, w)" by fastforce
  have "contribution_remove a xs = xs" if "a = b"
    using Cons.prems x that by (auto intro!: remove_absent)
  then show ?case using Cons x by (auto simp: contribution_remove_def split: if_splits)
qed simp

lemma map_of_filter_key: "a \<notin> A \<Longrightarrow> map_of (filter (\<lambda>(b, _). b \<notin> A) xs) a = map_of xs a"
  by (induction xs) auto

lemma remove_lookup [simp]: "b \<noteq> a \<Longrightarrow> map_of (contribution_remove a xs) b = map_of xs b"
  by (induction xs) (auto simp: contribution_remove_def)

lemma removed_all: "fold (Contributions_remove i) as s =
  s\<lparr>Contributions := (Contributions s)(i := filter (\<lambda>(b, _). b \<notin> set as) (Contributions s i))\<rparr>"
proof (induction as arbitrary: s)
  case (Cons a as)
  have "filter (\<lambda>(b, _). b \<notin> set as) (contribution_remove a xs) =
      filter (\<lambda>(b, _). b \<notin> set (a # as)) xs" for xs
    by (auto simp: contribution_remove_def intro: filter_cong)
  then show ?case by (simp only: fold.simps comp_apply Cons.IH) (simp add: Contributions_remove_def cong: if_cong)
qed simp

text \<open>Removing the keys of a part of the list removes that part.\<close>

lemma removed_part:
  assumes "keyed xs" and "set ys \<subseteq> set xs" and "distinct ys"
  shows "contributed (filter (\<lambda>(b, _). b \<notin> fst ` set ys) xs) + contributed ys = contributed xs"
    and "length (filter (\<lambda>(b, _). b \<notin> fst ` set ys) xs) + length ys = length xs"
proof -
  have dist: "distinct xs" using keyed_distinct [OF assms(1)] by (simp add: distinct_map)
  have unique: "v = w" if "(b, v) \<in> set xs" "(b, w) \<in> set xs" for b v w
    using keyed_distinct [OF assms(1)] that by (metis eq_key_imp_eq_value)
  let ?rest = "filter (\<lambda>(b, _). b \<notin> fst ` set ys) xs"
  have key: "b \<in> fst ` set ys \<longleftrightarrow> (b, v) \<in> set ys" if "(b, v) \<in> set xs" for b v
  proof
    assume "b \<in> fst ` set ys"
    then obtain w where w: "(b, w) \<in> set ys" by auto
    with assms(2) unique [OF that] have "w = v" by blast
    with w show "(b, v) \<in> set ys" by simp
  next
    assume "(b, v) \<in> set ys"
    then show "b \<in> fst ` set ys" by (metis fst_conv image_eqI)
  qed
  then have rest: "set ?rest = set xs - set ys" by (simp only: set_filter) blast
  have "sum snd (set ?rest) + sum snd (set ys) = sum snd (set xs)"
    unfolding rest using assms(2) by (metis List.finite_set sum.subset_diff)
  then show "contributed ?rest + contributed ys = contributed xs"
    using dist assms(3) by (simp add: contributed_def sum_list_distinct_conv_sum_set)
  have "card (set ?rest) + card (set ys) = card (set xs)"
    unfolding rest using assms(2) by (simp add: card_Diff_subset card_mono)
  then show "length ?rest + length ys = length xs"
    using dist assms(3) by (metis distinct_card distinct_filter)
qed

section \<open>The currency\<close>

text \<open>What the pallet relies on.  A transfer that leaves the source below the existential deposit \<open>ed\<close>
  may reap it, so nothing is promised about the source in that case.\<close>

definition transfer_law :: "'w CrowdloanConfig \<Rightarrow> Balance \<Rightarrow> bool" where
  "transfer_law cfg ed \<longleftrightarrow> (\<forall>a b v w w'. Currency_transfer cfg a b v w = (Inr (), w') \<longrightarrow>
     v \<le> Currency_balance cfg a w \<and>
     (\<forall>c. c \<noteq> a \<longrightarrow> c \<noteq> b \<longrightarrow> Currency_balance cfg c w' = Currency_balance cfg c w) \<and>
     (a = b \<longrightarrow> Currency_balance cfg a w' = Currency_balance cfg a w) \<and>
     (a \<noteq> b \<longrightarrow> Currency_balance cfg b w' = Currency_balance cfg b w + v \<and>
        (ed \<le> Currency_balance cfg a w - v \<longrightarrow>
           Currency_balance cfg a w' = Currency_balance cfg a w - v)))"

definition neutral_law :: "'w CrowdloanConfig \<Rightarrow> bool" where
  "neutral_law cfg \<longleftrightarrow>
     (\<forall>a c w. Currency_balance cfg a (snd (Preimages_bound cfg c w)) = Currency_balance cfg a w) \<and>
     (\<forall>a c w. Currency_balance cfg a (Preimages_drop cfg c w) = Currency_balance cfg a w) \<and>
     (\<forall>a b w. Currency_balance cfg a (inc_providers cfg b w) = Currency_balance cfg a w) \<and>
     (\<forall>a b w. Currency_balance cfg a (dec_providers cfg b w) = Currency_balance cfg a w)"

definition valid_id :: "CrowdloanId \<Rightarrow> bool" where
  "valid_id i \<longleftrightarrow> i < 2 ^ 32"

definition crowdloan_laws :: "'w CrowdloanConfig \<Rightarrow> Balance \<Rightarrow> bool" where
  "crowdloan_laws cfg ed \<longleftrightarrow> transfer_law cfg ed \<and> neutral_law cfg \<and>
     inj_on (sub_account cfg) (Collect valid_id) \<and> ed \<le> MinimumDeposit cfg"

definition balance_of :: "'w CrowdloanConfig \<Rightarrow> 'w CrowdloanStorage \<Rightarrow> AccountId \<Rightarrow> Balance" where
  "balance_of cfg s a = Currency_balance cfg a (cl_world s)"

definition is_funds_account :: "'w CrowdloanConfig \<Rightarrow> AccountId \<Rightarrow> bool" where
  "is_funds_account cfg a \<longleftrightarrow> (\<exists>i. valid_id i \<and> a = sub_account cfg i)"

text \<open>No funds account signs a call.\<close>

definition outside :: "'w CrowdloanConfig \<Rightarrow> RuntimeOrigin \<Rightarrow> bool" where
  "outside cfg origin \<longleftrightarrow> (\<forall>who. origin = SignedOrigin who \<longrightarrow> \<not> is_funds_account cfg who)"

lemma crowdloan_transfer_ok [ok_simps]:
  "crowdloan_transfer cfg a b v s = (Inr u, s') \<longleftrightarrow>
     (\<exists>w. Currency_transfer cfg a b v (cl_world s) = (Inr (), w) \<and> s' = s\<lparr>cl_world := w\<rparr>)"
  by (auto simp: crowdloan_transfer_def split: prod.splits sum.splits)

lemma transferred:
  assumes "crowdloan_laws cfg ed" and "Currency_transfer cfg a b v (cl_world s) = (Inr u, w)"
  defines "s' \<equiv> s\<lparr>cl_world := w\<rparr>"
  shows "v \<le> balance_of cfg s a" and "c \<noteq> a \<Longrightarrow> balance_of cfg s c \<le> balance_of cfg s' c"
    and "a \<noteq> b \<Longrightarrow> balance_of cfg s' b = balance_of cfg s b + v"
    and "a = b \<Longrightarrow> balance_of cfg s' a = balance_of cfg s a"
    and "a \<noteq> b \<Longrightarrow> ed \<le> balance_of cfg s a - v \<Longrightarrow> balance_of cfg s' a = balance_of cfg s a - v"
proof -
  have "Currency_transfer cfg a b v (cl_world s) = (Inr (), w)" using assms(2) by simp
  with assms(1) have law: "v \<le> Currency_balance cfg a (cl_world s)"
    "\<And>c. c \<noteq> a \<Longrightarrow> c \<noteq> b \<Longrightarrow> Currency_balance cfg c w = Currency_balance cfg c (cl_world s)"
    "a = b \<Longrightarrow> Currency_balance cfg a w = Currency_balance cfg a (cl_world s)"
    "a \<noteq> b \<Longrightarrow> Currency_balance cfg b w = Currency_balance cfg b (cl_world s) + v"
    "a \<noteq> b \<Longrightarrow> ed \<le> Currency_balance cfg a (cl_world s) - v \<Longrightarrow>
       Currency_balance cfg a w = Currency_balance cfg a (cl_world s) - v"
    unfolding crowdloan_laws_def transfer_law_def by blast+
  from law show "v \<le> balance_of cfg s a"
    "a \<noteq> b \<Longrightarrow> balance_of cfg s' b = balance_of cfg s b + v"
    "a = b \<Longrightarrow> balance_of cfg s' a = balance_of cfg s a"
    "a \<noteq> b \<Longrightarrow> ed \<le> balance_of cfg s a - v \<Longrightarrow> balance_of cfg s' a = balance_of cfg s a - v"
    by (simp_all add: balance_of_def s'_def)
  show "balance_of cfg s c \<le> balance_of cfg s' c" if "c \<noteq> a"
    using law(2) [of c] law(4) that by (cases "c = b") (auto simp: balance_of_def s'_def)
qed

section \<open>The invariant\<close>

definition all_outside :: "'w CrowdloanConfig \<Rightarrow> contributions \<Rightarrow> bool" where
  "all_outside cfg xs \<longleftrightarrow> (\<forall>a \<in> fst ` set xs. \<not> is_funds_account cfg a)"

definition books_ok :: "'w CrowdloanConfig \<Rightarrow> 'w CrowdloanStorage \<Rightarrow> CrowdloanId \<Rightarrow> CrowdloanInfo \<Rightarrow> bool" where
  "books_ok cfg s i c \<longleftrightarrow> (let xs = Contributions s i in
     keyed xs \<and> contributed xs = cl_raised c \<and> length xs = cl_contributors_count c \<and>
     MinimumDeposit cfg \<le> cl_deposit c \<and> cl_deposit c \<le> share xs (cl_creator c) \<and>
     map_of xs (cl_creator c) \<noteq> None \<and> cl_raised c \<le> cl_cap c \<and>
     all_outside cfg xs \<and>
     cl_raised c \<le> balance_of cfg s (sub_account cfg i))"

definition crowdloan_inv :: "'w CrowdloanConfig \<Rightarrow> CrowdloanId set \<Rightarrow> 'w CrowdloanStorage \<Rightarrow> bool" where
  "crowdloan_inv cfg X s \<longleftrightarrow>
     (\<forall>i. CurrentCrowdloanId s = Some i \<longrightarrow> i \<in> X) \<and>
     valid_id (NextCrowdloanId s) \<and>
     (\<forall>i \<ge> NextCrowdloanId s. Crowdloans s i = None \<and> Contributions s i = []) \<and>
     (\<forall>i c. Crowdloans s i = Some c \<longrightarrow> cl_funds_account c = sub_account cfg i \<and>
        (i \<notin> X \<longrightarrow> \<not> cl_finalized c \<longrightarrow> books_ok cfg s i c))"

text \<open>A step that changes one crowdloan and takes money from its funds account at most.\<close>

definition touches ::
  "'w CrowdloanConfig \<Rightarrow> CrowdloanId \<Rightarrow> 'w CrowdloanStorage \<Rightarrow> 'w CrowdloanStorage \<Rightarrow> bool" where
  "touches cfg i s s' \<longleftrightarrow>
     NextCrowdloanId s \<le> NextCrowdloanId s' \<and> valid_id (NextCrowdloanId s') \<and>
     CurrentCrowdloanId s' = CurrentCrowdloanId s \<and>
     (\<forall>j. j \<noteq> i \<longrightarrow> Crowdloans s' j = Crowdloans s j \<and> Contributions s' j = Contributions s j \<and>
        (valid_id j \<longrightarrow>
           balance_of cfg s (sub_account cfg j) \<le> balance_of cfg s' (sub_account cfg j)))"

lemma valid_id_less: "i < n \<Longrightarrow> valid_id n \<Longrightarrow> valid_id i"
  by (simp add: valid_id_def)

lemma inv_exists:
  assumes "crowdloan_inv cfg X s" and "Crowdloans s i = Some c"
  shows "i < NextCrowdloanId s \<and> valid_id i \<and> cl_funds_account c = sub_account cfg i"
proof -
  have "i < NextCrowdloanId s" using assms unfolding crowdloan_inv_def by (metis leI option.distinct(1))
  then show ?thesis using assms valid_id_less by (auto simp: crowdloan_inv_def)
qed

lemma inv_next: "crowdloan_inv cfg X s \<Longrightarrow> valid_id (NextCrowdloanId s)"
  by (simp add: crowdloan_inv_def)

lemma inv_books: "crowdloan_inv cfg X s \<Longrightarrow> Crowdloans s i = Some c \<Longrightarrow> i \<notin> X \<Longrightarrow> \<not> cl_finalized c \<Longrightarrow>
  books_ok cfg s i c"
  by (simp add: crowdloan_inv_def)

lemma books_more:
  "books_ok cfg s i c \<Longrightarrow> Contributions s' i = Contributions s i \<Longrightarrow>
   balance_of cfg s (sub_account cfg i) \<le> balance_of cfg s' (sub_account cfg i) \<Longrightarrow> books_ok cfg s' i c"
  by (auto simp: books_ok_def Let_def)

lemma inv_touches:
  assumes "crowdloan_inv cfg X s" and "touches cfg i s s'" and "i < NextCrowdloanId s'"
    and "\<And>c. Crowdloans s' i = Some c \<Longrightarrow> cl_funds_account c = sub_account cfg i \<and>
      (i \<notin> X \<longrightarrow> \<not> cl_finalized c \<longrightarrow> books_ok cfg s' i c)"
  shows "crowdloan_inv cfg X s'"
  unfolding crowdloan_inv_def
proof (intro conjI allI impI)
  show "j \<in> X" if "CurrentCrowdloanId s' = Some j" for j
    using assms(1,2) that by (simp add: crowdloan_inv_def touches_def)
  show "valid_id (NextCrowdloanId s')" using assms(2) by (simp add: touches_def)
  show "Crowdloans s' j = None" "Contributions s' j = []" if "NextCrowdloanId s' \<le> j" for j
    using assms(1,2,3) that by (auto simp: crowdloan_inv_def touches_def)
  fix j c
  assume c: "Crowdloans s' j = Some c"
  have other: "cl_funds_account c = sub_account cfg j \<and>
      (j \<notin> X \<longrightarrow> \<not> cl_finalized c \<longrightarrow> books_ok cfg s' j c)" if "j \<noteq> i"
  proof -
    have j: "Crowdloans s j = Some c" using assms(2) c that by (simp add: touches_def)
    note exists = inv_exists [OF assms(1) j]
    moreover have "books_ok cfg s' j c" if "j \<notin> X" "\<not> cl_finalized c"
      using books_more [OF inv_books [OF assms(1) j that]] assms(2) \<open>j \<noteq> i\<close> exists
      by (simp add: touches_def)
    ultimately show ?thesis by simp
  qed
  show "cl_funds_account c = sub_account cfg j" using assms(4) c other by blast
  show "books_ok cfg s' j c" if "j \<notin> X" "\<not> cl_finalized c" using assms(4) c other that by blast
qed

section \<open>Every call keeps the books\<close>

lemma storage_fields [simp]:
  "balance_of cfg (s\<lparr>cl_events := evs\<rparr>) a = balance_of cfg s a"
  "balance_of cfg (s\<lparr>NextCrowdloanId := n\<rparr>) a = balance_of cfg s a"
  "balance_of cfg (s\<lparr>Crowdloans := m\<rparr>) a = balance_of cfg s a"
  "balance_of cfg (s\<lparr>Contributions := k\<rparr>) a = balance_of cfg s a"
  "balance_of cfg (s\<lparr>CurrentCrowdloanId := o'\<rparr>) a = balance_of cfg s a"
  by (simp_all add: balance_of_def)

lemma balance_of_world: "balance_of cfg (s\<lparr>cl_world := w\<rparr>) a = Currency_balance cfg a w"
  by (simp add: balance_of_def)

lemma paid_in:
  assumes "crowdloan_laws cfg ed" and "Currency_transfer cfg who (sub_account cfg i) v (cl_world s) = (Inr u, w)"
    and "\<not> is_funds_account cfg who"
  shows "valid_id j \<Longrightarrow> balance_of cfg s (sub_account cfg j) \<le> Currency_balance cfg (sub_account cfg j) w"
    and "valid_id i \<Longrightarrow> balance_of cfg s (sub_account cfg i) + v = Currency_balance cfg (sub_account cfg i) w"
proof -
  have "sub_account cfg k \<noteq> who" if "valid_id k" for k
    using assms(3) that by (auto simp: is_funds_account_def)
  with transferred(2) [OF assms(1,2), of "sub_account cfg j"] transferred(3) [OF assms(1,2)]
  show "valid_id j \<Longrightarrow> balance_of cfg s (sub_account cfg j) \<le> Currency_balance cfg (sub_account cfg j) w"
    "valid_id i \<Longrightarrow> balance_of cfg s (sub_account cfg i) + v = Currency_balance cfg (sub_account cfg i) w"
    by (simp_all add: balance_of_world) metis
qed

lemma paid_out:
  assumes "crowdloan_laws cfg ed" and "Currency_transfer cfg (sub_account cfg i) b v (cl_world s) = (Inr u, w)"
    and valid: "valid_id i"
  shows "j \<noteq> i \<Longrightarrow> valid_id j \<Longrightarrow> balance_of cfg s (sub_account cfg j) \<le> Currency_balance cfg (sub_account cfg j) w"
    and "\<not> is_funds_account cfg b \<Longrightarrow> ed \<le> balance_of cfg s (sub_account cfg i) - v \<Longrightarrow>
      balance_of cfg s (sub_account cfg i) = v + Currency_balance cfg (sub_account cfg i) w"
proof -
  have "sub_account cfg j \<noteq> sub_account cfg i" if "j \<noteq> i" "valid_id j"
    using assms(1) valid that by (auto simp: crowdloan_laws_def inj_on_def)
  then show "balance_of cfg s (sub_account cfg j) \<le> Currency_balance cfg (sub_account cfg j) w"
    if "j \<noteq> i" "valid_id j"
    using transferred(2) [OF assms(1,2), of "sub_account cfg j"] that by (simp add: balance_of_world)
  show "balance_of cfg s (sub_account cfg i) = v + Currency_balance cfg (sub_account cfg i) w"
    if "\<not> is_funds_account cfg b" "ed \<le> balance_of cfg s (sub_account cfg i) - v"
  proof -
    have "sub_account cfg i \<noteq> b" using that(1) valid by (auto simp: is_funds_account_def)
    with transferred(1,5) [OF assms(1,2)] that(2) show ?thesis by (simp add: balance_of_world)
  qed
qed

lemma bound_call_ok:
  assumes "crowdloan_laws cfg ed" and "bound_call cfg call s = (Inr b, s')"
  shows "\<exists>w. s' = s\<lparr>cl_world := w\<rparr> \<and>
    (\<forall>a. Currency_balance cfg a w = Currency_balance cfg a (cl_world s))"
proof (cases call)
  case None
  then show ?thesis using assms(2) by (intro exI [of _ "cl_world s"]) (simp add: bound_call_def ret_ok)
next
  case (Some c)
  obtain r w where r: "Preimages_bound cfg c (cl_world s) = (r, w)" by fastforce
  then have "Currency_balance cfg a w = Currency_balance cfg a (cl_world s)" for a
    using assms(1) unfolding crowdloan_laws_def neutral_law_def by (metis snd_conv)
  with r Some assms(2) show ?thesis by (auto simp: bound_call_def split: sum.splits)
qed

lemma create_inv:
  assumes laws: "crowdloan_laws cfg ed" and inv: "crowdloan_inv cfg X s" and "outside cfg origin"
    and run: "crowdloan_create cfg origin deposit minimum cap end_at call target s = (Inr (), s')"
  shows "crowdloan_inv cfg X s' \<and> NextCrowdloanId s \<le> NextCrowdloanId s'"
proof -
  let ?i = "NextCrowdloanId s"
  let ?w0 = "inc_providers cfg (sub_account cfg ?i) (cl_world s)"
  obtain creator b s1 w where who: "origin = SignedOrigin creator"
    and deposit: "MinimumDeposit cfg \<le> deposit" "deposit < cap" and valid: "valid_id (Suc ?i)"
    and bound: "bound_call cfg call (s\<lparr>NextCrowdloanId := Suc ?i, cl_world := ?w0\<rparr>) = (Inr b, s1)"
    and transfer: "Currency_transfer cfg creator (sub_account cfg ?i) deposit (cl_world s1) = (Inr (), w)"
    and s': "s' = Contributions_insert ?i creator deposit
        ((Crowdloans_insert ?i \<lparr>cl_creator = creator, cl_deposit = deposit,
           cl_min_contribution = minimum, cl_end = end_at, cl_cap = cap,
           cl_funds_account = sub_account cfg ?i, cl_raised = deposit, cl_target_address = target,
           cl_call = b, cl_finalized = False, cl_contributors_count = 1\<rparr> s1)\<lparr>cl_world := w\<rparr>)
        \<lparr>cl_events := cl_events s1 @ [Crowdloan_Created ?i creator end_at cap]\<rparr>"
    using run
    by (auto simp: crowdloan_create_def crowdloan_signed_def ensure_valid_end_def ok_simps Let_def crowdloan_event_def
        Crowdloans_insert_def Contributions_insert_def valid_id_def)
  from bound_call_ok [OF laws bound] obtain w1 where s1: "s1 = s\<lparr>NextCrowdloanId := Suc ?i, cl_world := w1\<rparr>"
    and same: "\<And>a. Currency_balance cfg a w1 = Currency_balance cfg a ?w0" by auto
  have "Currency_balance cfg a ?w0 = balance_of cfg s a" for a
    using laws by (simp add: crowdloan_laws_def neutral_law_def balance_of_def)
  with same s1 have bal: "balance_of cfg s1 a = balance_of cfg s a" for a by (simp add: balance_of_def)
  have outside: "\<not> is_funds_account cfg creator" using assms(3) who by (simp add: outside_def)
  note paid = paid_in [OF laws transfer outside, unfolded bal]
  have fresh: "Contributions s ?i = []" using inv by (simp add: crowdloan_inv_def)
  have touches: "touches cfg ?i s s'"
    using paid(1) valid
    by (simp add: touches_def s' s1 Contributions_insert_def Crowdloans_insert_def balance_of_def)
  have "books_ok cfg s' ?i c" "cl_funds_account c = sub_account cfg ?i" if "Crowdloans s' ?i = Some c" for c
    using that deposit outside paid(2) fresh inv_next [OF inv]
    by (auto simp: books_ok_def s' s1 Contributions_insert_def Crowdloans_insert_def Let_def share_def
        balance_of_def all_outside_def)
  with inv_touches [OF inv touches] show ?thesis
    by (simp add: s' s1 Contributions_insert_def Crowdloans_insert_def)
qed

lemma contribute_ok:
  assumes "crowdloan_contribute cfg (SignedOrigin who) i offered s = (Inr (), s')"
    and "Crowdloans s i = Some c"
  defines "amount \<equiv> min offered (cl_cap c - cl_raised c)"
  shows "cl_raised c < cl_cap c \<and>
    (\<exists>w. Currency_transfer cfg who (cl_funds_account c) amount (cl_world s) = (Inr (), w) \<and>
    s' = s\<lparr>cl_world := w,
      Contributions := (Contributions s)(i := contribution_put who
        (share (Contributions s i) who + amount) (Contributions s i)),
      Crowdloans := (Crowdloans s)(i \<mapsto> c\<lparr>cl_raised := cl_raised c + amount,
        cl_contributors_count := (if map_of (Contributions s i) who = None
          then Suc (cl_contributors_count c) else cl_contributors_count c)\<rparr>),
      cl_events := cl_events s @ [Crowdloan_Contributed i who amount]\<rparr>)"
proof (cases "map_of (Contributions s i) who")
  case None
  then show ?thesis using assms(1,2) unfolding amount_def
    by (simp add: crowdloan_contribute_def crowdloan_signed_def signer_of_def ok_simps Let_def
        crowdloan_event_def ensure_crowdloan_exists_def Crowdloans_insert_def Contributions_insert_def
        Contributions_get_def share_def) force
next
  case (Some v)
  then show ?thesis using assms(1,2) unfolding amount_def
    by (simp add: crowdloan_contribute_def crowdloan_signed_def signer_of_def ok_simps Let_def
        crowdloan_event_def ensure_crowdloan_exists_def Crowdloans_insert_def Contributions_insert_def
        Contributions_get_def share_def) force
qed

lemma contribute_inv:
  assumes laws: "crowdloan_laws cfg ed" and inv: "crowdloan_inv cfg X s" and "outside cfg origin"
    and run: "crowdloan_contribute cfg origin i offered s = (Inr (), s')"
  shows "crowdloan_inv cfg X s' \<and> NextCrowdloanId s \<le> NextCrowdloanId s'"
proof -
  obtain who c where who: "origin = SignedOrigin who" and c1: "Crowdloans s i = Some c"
    using run
    by (auto simp: crowdloan_contribute_def crowdloan_signed_def ensure_crowdloan_exists_def ok_simps)
  define count where "count = (if map_of (Contributions s i) who = None then Suc (cl_contributors_count c)
      else cl_contributors_count c)"
  define total where "total = share (Contributions s i) who + min offered (cl_cap c - cl_raised c)"
  note count = count_def and total = total_def
  from contribute_ok [OF run [unfolded who] c1] obtain w
    where c: "Crowdloans s i = Some c" "cl_raised c < cl_cap c"
    and transfer: "Currency_transfer cfg who (cl_funds_account c)
      (min offered (cl_cap c - cl_raised c)) (cl_world s) = (Inr (), w)"
    and s': "s' = s\<lparr>cl_world := w,
      Contributions := (Contributions s)(i := contribution_put who total (Contributions s i)),
      Crowdloans := (Crowdloans s)(i \<mapsto> c\<lparr>cl_raised := cl_raised c + min offered (cl_cap c - cl_raised c),
        cl_contributors_count := count\<rparr>),
      cl_events := cl_events s @ [Crowdloan_Contributed i who (min offered (cl_cap c - cl_raised c))]\<rparr>"
    using c1 unfolding count total by blast
  let ?amount = "min offered (cl_cap c - cl_raised c)" and ?xs = "Contributions s i"
  note exists = inv_exists [OF inv c(1)]
  have outside: "\<not> is_funds_account cfg who" using assms(3) who by (simp add: outside_def)
  have "Currency_transfer cfg who (sub_account cfg i) ?amount (cl_world s) = (Inr (), w)"
    using transfer exists by simp
  note paid = paid_in [OF laws this outside]
  have touches: "touches cfg i s s'" using paid(1) inv_next [OF inv] by (simp add: touches_def s' balance_of_def)
  have "books_ok cfg s' i (c\<lparr>cl_raised := cl_raised c + ?amount, cl_contributors_count := count\<rparr>)"
    if "i \<notin> X" "\<not> cl_finalized c"
  proof -
    have ok: "keyed ?xs" "contributed ?xs = cl_raised c" "length ?xs = cl_contributors_count c"
      "MinimumDeposit cfg \<le> cl_deposit c" "cl_deposit c \<le> share ?xs (cl_creator c)"
      "map_of ?xs (cl_creator c) \<noteq> None" "all_outside cfg ?xs"
      "cl_raised c \<le> balance_of cfg s (sub_account cfg i)"
      using inv_books [OF inv c(1) that] by (simp_all add: books_ok_def Let_def)
    have "contributed (contribution_put who total ?xs) = cl_raised c + ?amount"
      using put_contributed [OF ok(1), of who total] ok(2) total by simp
    moreover have "share ?xs (cl_creator c) \<le> share (contribution_put who total ?xs) (cl_creator c)"
      using ok(1) total by (auto simp: share_def)
    moreover have "cl_raised c + ?amount \<le> Currency_balance cfg (sub_account cfg i) w"
      using paid(2) ok(8) exists by simp
    moreover have "all_outside cfg (contribution_put who total ?xs)"
      using ok(7) outside by (auto simp only: all_outside_def put_keys)
    ultimately show ?thesis
      using ok c(2) put_length [OF ok(1), of who total] count
      by (auto simp: books_ok_def Let_def s' balance_of_def)
  qed
  with inv_touches [OF inv touches] exists show ?thesis by (auto simp: s')
qed

text \<open>What a withdrawal pays and what it leaves of the contributions.\<close>

definition withdrawal :: "CrowdloanInfo \<Rightarrow> AccountId \<Rightarrow> contributions \<Rightarrow> Balance \<times> contributions \<times> nat" where
  "withdrawal c who xs =
     (if who = cl_creator c
      then (share xs who - cl_deposit c, contribution_put who (cl_deposit c) xs, cl_contributors_count c)
      else (share xs who, contribution_remove who xs, cl_contributors_count c - 1))"

lemma contributor_share_le: "share xs a \<le> contributed xs"
  by (induction xs) (auto simp: share_def split: option.splits)

lemma withdrawal_books:
  assumes "keyed xs" and "contributed xs = cl_raised c" and "length xs = cl_contributors_count c"
    and "cl_deposit c \<le> share xs (cl_creator c)" and "map_of xs (cl_creator c) \<noteq> None"
    and "(amount, ys, count) = withdrawal c who xs" and "0 < amount"
  shows "keyed ys \<and> contributed ys + amount = cl_raised c \<and> length ys = count \<and>
    cl_deposit c \<le> share ys (cl_creator c) \<and> map_of ys (cl_creator c) \<noteq> None \<and>
    fst ` set ys \<subseteq> insert who (fst ` set xs)"
proof (cases "who = cl_creator c")
  case True
  then show ?thesis
    using assms put_contributed [of xs who "cl_deposit c"] put_length [of xs who "cl_deposit c"]
    by (auto simp: withdrawal_def share_def)
next
  case False
  then have "0 < share xs who" using assms(6,7) by (simp add: withdrawal_def)
  then obtain v where "map_of xs who = Some v" by (auto simp: share_def split: option.splits)
  then show ?thesis
    using False assms remove_contributed [of xs who] remove_length [of xs who v] remove_keys [of who xs]
    by (auto simp: withdrawal_def share_def)
qed

lemma withdraw_ok:
  assumes "crowdloan_withdraw cfg origin i s = (Inr (), s')"
  shows "\<exists>who c w amount ys count. origin = SignedOrigin who \<and> Crowdloans s i = Some c \<and> \<not> cl_finalized c \<and>
    (amount, ys, count) = withdrawal c who (Contributions s i) \<and> 0 < amount \<and>
    Currency_transfer cfg (cl_funds_account c) who amount (cl_world s) = (Inr (), w) \<and>
    s' = s\<lparr>cl_world := w, Contributions := (Contributions s)(i := ys),
      Crowdloans := (Crowdloans s)(i \<mapsto> c\<lparr>cl_raised := cl_raised c - amount,
        cl_contributors_count := count\<rparr>),
      cl_events := cl_events s @ [Crowdloan_Withdrew i who amount]\<rparr>"
proof -
  obtain who c where who: "origin = SignedOrigin who" and c: "Crowdloans s i = Some c"
    using assms
    by (auto simp: crowdloan_withdraw_def crowdloan_signed_def ensure_crowdloan_exists_def ok_simps)
  show ?thesis
  proof (cases "who = cl_creator c")
    case True
    with assms who c show ?thesis
      by (auto simp: crowdloan_withdraw_def crowdloan_signed_def ok_simps Let_def crowdloan_event_def
          ensure_crowdloan_exists_def Crowdloans_insert_def Contributions_insert_def
          Contributions_get_def share_def withdrawal_def saturating_sub_def split: option.splits)
  next
    case False
    with assms who c show ?thesis
      by (auto simp: crowdloan_withdraw_def crowdloan_signed_def ok_simps Let_def crowdloan_event_def
          ensure_crowdloan_exists_def Crowdloans_insert_def Contributions_remove_def
          Contributions_get_def share_def withdrawal_def saturating_sub_def split: option.splits)
  qed
qed

lemma withdraw_inv:
  assumes laws: "crowdloan_laws cfg ed" and inv: "crowdloan_inv cfg X s" and "outside cfg origin"
    and run: "crowdloan_withdraw cfg origin i s = (Inr (), s')"
  shows "crowdloan_inv cfg X s' \<and> NextCrowdloanId s \<le> NextCrowdloanId s'"
proof -
  obtain who c w amount ys count where who: "origin = SignedOrigin who"
    and c: "Crowdloans s i = Some c" "\<not> cl_finalized c"
    and paid: "(amount, ys, count) = withdrawal c who (Contributions s i)" "0 < amount"
    and transfer: "Currency_transfer cfg (cl_funds_account c) who amount (cl_world s) = (Inr (), w)"
    and s': "s' = s\<lparr>cl_world := w, Contributions := (Contributions s)(i := ys),
      Crowdloans := (Crowdloans s)(i \<mapsto> c\<lparr>cl_raised := cl_raised c - amount,
        cl_contributors_count := count\<rparr>),
      cl_events := cl_events s @ [Crowdloan_Withdrew i who amount]\<rparr>"
    using withdraw_ok [OF run] by blast
  let ?xs = "Contributions s i" and ?funds = "sub_account cfg i"
  note exists = inv_exists [OF inv c(1)]
  have outside: "\<not> is_funds_account cfg who" using assms(3) who by (simp add: outside_def)
  have "Currency_transfer cfg ?funds who amount (cl_world s) = (Inr (), w)" using transfer exists by simp
  from exists have "valid_id i" by simp
  note out = paid_out [OF laws \<open>Currency_transfer cfg ?funds who amount (cl_world s) = (Inr (), w)\<close> this]
  have touches: "touches cfg i s s'" using out(1) inv_next [OF inv] by (simp add: touches_def s' balance_of_def)
  have "books_ok cfg s' i (c\<lparr>cl_raised := cl_raised c - amount, cl_contributors_count := count\<rparr>)"
    if "i \<notin> X"
  proof -
    have ok: "keyed ?xs" "contributed ?xs = cl_raised c" "length ?xs = cl_contributors_count c"
      "MinimumDeposit cfg \<le> cl_deposit c" "cl_deposit c \<le> share ?xs (cl_creator c)"
      "map_of ?xs (cl_creator c) \<noteq> None" "all_outside cfg ?xs"
      "cl_raised c \<le> balance_of cfg s ?funds" "cl_raised c \<le> cl_cap c"
      using inv_books [OF inv c(1) that c(2)] by (simp_all add: books_ok_def Let_def)
    have ys: "keyed ys" "contributed ys + amount = cl_raised c" "length ys = count"
        "cl_deposit c \<le> share ys (cl_creator c)" "map_of ys (cl_creator c) \<noteq> None"
        "fst ` set ys \<subseteq> insert who (fst ` set ?xs)"
      using withdrawal_books [OF ok(1,2,3,5,6) paid] by simp_all
    have "share ys (cl_creator c) \<le> contributed ys" by (rule contributor_share_le)
    then have "cl_deposit c \<le> cl_raised c - amount" using ys(2,4) by simp
    then have "ed \<le> balance_of cfg s ?funds - amount"
      using ok(4,8) laws unfolding crowdloan_laws_def by linarith
    from out(2) [OF outside this] ok(8) have "cl_raised c - amount \<le> Currency_balance cfg ?funds w" by simp
    moreover have "all_outside cfg ys" using ys(6) ok(7) outside by (auto simp only: all_outside_def)
    ultimately show ?thesis using ys ok by (auto simp: books_ok_def Let_def s' balance_of_def)
  qed
  with inv_touches [OF inv touches] exists show ?thesis by (auto simp: s')
qed

end
