(* ===== verification/Crowdloan_Escrow.thy ===== *)
theory Crowdloan_Escrow
  imports Crowdloan_Invariants
begin

text \<open>
  The remaining calls of the crowdloan pallet keep the books, \<open>finalize\<close> with the call it dispatches
  among them; and what the books give: contributors can withdraw, and refunds and dissolution pay
  out what was paid in.
\<close>

section \<open>Refunds\<close>

lemma refund_loop_ok:
  assumes laws: "crowdloan_laws cfg ed" and valid: "valid_id i" and "cl_funds_account c = sub_account cfg i"
    and "refund_loop cfg ys c R s = (Inr (c', R', complete), s')"
  shows "\<exists>k w. k \<le> length ys \<and> R' = R @ map fst (take k ys) \<and> s' = s\<lparr>cl_world := w\<rparr> \<and>
    c' = c\<lparr>cl_raised := cl_raised c - contributed (take k ys)\<rparr> \<and> (complete \<longrightarrow> k = length ys) \<and>
    (\<forall>j. j \<noteq> i \<longrightarrow> valid_id j \<longrightarrow>
       balance_of cfg s (sub_account cfg j) \<le> Currency_balance cfg (sub_account cfg j) w) \<and>
    (all_outside cfg ys \<longrightarrow> ed + contributed ys \<le> balance_of cfg s (sub_account cfg i) \<longrightarrow>
       balance_of cfg s (sub_account cfg i) =
         contributed (take k ys) + Currency_balance cfg (sub_account cfg i) w)"
  using assms(3,4)
proof (induction ys arbitrary: c R s)
  case Nil
  then show ?case
    by (intro exI [of _ "0 :: nat"] exI [of _ "cl_world s"]) (auto simp: ret_ok balance_of_def)
next
  case (Cons y ys)
  obtain a v where y: "y = (a, v)" by fastforce
  show ?case
  proof (cases "RefundContributorsLimit cfg \<le> length R")
    case True
    with Cons.prems show ?thesis
      by (intro exI [of _ "0 :: nat"] exI [of _ "cl_world s"]) (auto simp: y ret_ok balance_of_def)
  next
    case False
    let ?f = "sub_account cfg"
    obtain w1 where w1: "Currency_transfer cfg (?f i) a v (cl_world s) = (Inr (), w1)"
      and rest: "refund_loop cfg ys (c\<lparr>cl_raised := cl_raised c - v\<rparr>) (R @ [a]) (s\<lparr>cl_world := w1\<rparr>) =
        (Inr (c', R', complete), s')"
      using Cons.prems False by (auto simp: y ok_simps saturating_sub_def)
    note out = paid_out [OF laws w1 valid]
    from Cons.IH [OF _ rest] Cons.prems(1) obtain k w where k: "k \<le> length ys"
      "R' = R @ a # map fst (take k ys)" "s' = s\<lparr>cl_world := w\<rparr>"
      "c' = c\<lparr>cl_raised := cl_raised c - (v + contributed (take k ys))\<rparr>" "complete \<longrightarrow> k = length ys"
      "\<And>j. j \<noteq> i \<Longrightarrow> valid_id j \<Longrightarrow> Currency_balance cfg (?f j) w1 \<le> Currency_balance cfg (?f j) w"
      "all_outside cfg ys \<Longrightarrow> ed + contributed ys \<le> Currency_balance cfg (?f i) w1 \<Longrightarrow>
         Currency_balance cfg (?f i) w1 = contributed (take k ys) + Currency_balance cfg (?f i) w"
      by (auto simp: balance_of_world)
    have "balance_of cfg s (?f j) \<le> Currency_balance cfg (?f j) w" if "j \<noteq> i" "valid_id j" for j
      using out(1) [OF that] k(6) [OF that] by simp
    moreover have "balance_of cfg s (?f i) = v + contributed (take k ys) + Currency_balance cfg (?f i) w"
      if "all_outside cfg (y # ys)" "ed + contributed (y # ys) \<le> balance_of cfg s (?f i)"
    proof -
      have "\<not> is_funds_account cfg a" "all_outside cfg ys" using that(1) by (auto simp: all_outside_def y)
      moreover have "ed + contributed ys \<le> balance_of cfg s (?f i) - v" using that(2) by (simp add: y)
      ultimately show ?thesis using out(2) k(7) by simp
    qed
    ultimately show ?thesis using k
      by (intro exI [of _ "Suc k"] exI [of _ w]) (simp add: y)
  qed
qed

lemma refund_ok:
  assumes "crowdloan_refund cfg origin i s = (Inr (), s')"
  obtains c c' R complete s1 ev where "origin = SignedOrigin (cl_creator c)" "Crowdloans s i = Some c"
    "\<not> cl_finalized c"
    "refund_loop cfg (filter (\<lambda>(a, _). a \<noteq> cl_creator c) (Contributions s i)) c [] s =
       (Inr (c', R, complete), s1)"
    "length R \<le> cl_contributors_count c'"
    "s' = s1\<lparr>Crowdloans := (Crowdloans s1)(i \<mapsto> c'\<lparr>cl_contributors_count :=
         cl_contributors_count c' - length R\<rparr>),
       Contributions := (Contributions s1)(i := filter (\<lambda>(b, _). b \<notin> set R) (Contributions s1 i)),
       cl_events := cl_events s1 @ [ev]\<rparr>"
  using assms
  by (auto simp: crowdloan_refund_def crowdloan_signed_def ok_simps Let_def crowdloan_event_def
      ensure_crowdloan_exists_def Crowdloans_insert_def removed_all simp del: if_split
      split del: if_split)

lemma refund_inv:
  assumes laws: "crowdloan_laws cfg ed" and inv: "crowdloan_inv cfg X s" and "outside cfg origin"
    and run: "crowdloan_refund cfg origin i s = (Inr (), s')"
  shows "crowdloan_inv cfg X s' \<and> NextCrowdloanId s \<le> NextCrowdloanId s'"
proof -
  obtain c c' R complete s1 ev where c: "Crowdloans s i = Some c" "\<not> cl_finalized c"
    and loop: "refund_loop cfg (filter (\<lambda>(a, _). a \<noteq> cl_creator c) (Contributions s i)) c [] s =
      (Inr (c', R, complete), s1)"
    and s': "s' = s1\<lparr>Crowdloans := (Crowdloans s1)(i \<mapsto> c'\<lparr>cl_contributors_count :=
         cl_contributors_count c' - length R\<rparr>),
       Contributions := (Contributions s1)(i := filter (\<lambda>(b, _). b \<notin> set R) (Contributions s1 i)),
       cl_events := cl_events s1 @ [ev]\<rparr>"
    by (rule refund_ok [OF run])
  let ?xs = "Contributions s i" and ?f = "sub_account cfg"
  let ?ys = "filter (\<lambda>(a, _). a \<noteq> cl_creator c) ?xs"
  note exists = inv_exists [OF inv c(1)]
  have "valid_id i" "cl_funds_account c = sub_account cfg i" using exists by simp_all
  from refund_loop_ok [OF laws this loop] obtain k w where R: "R = map fst (take k ?ys)"
    and s1: "s1 = s\<lparr>cl_world := w\<rparr>" and c': "c' = c\<lparr>cl_raised := cl_raised c - contributed (take k ?ys)\<rparr>"
    and others: "\<And>j. j \<noteq> i \<Longrightarrow> valid_id j \<Longrightarrow> balance_of cfg s (?f j) \<le> Currency_balance cfg (?f j) w"
    and paid: "all_outside cfg ?ys \<Longrightarrow> ed + contributed ?ys \<le> balance_of cfg s (?f i) \<Longrightarrow>
      balance_of cfg s (?f i) = contributed (take k ?ys) + Currency_balance cfg (?f i) w"
    by auto
  have touches: "touches cfg i s s'" using others inv_next [OF inv] by (simp add: touches_def s' s1 balance_of_def)
  have "books_ok cfg s' i (c'\<lparr>cl_contributors_count := cl_contributors_count c' - length R\<rparr>)" if "i \<notin> X"
  proof -
    have ok: "keyed ?xs" "contributed ?xs = cl_raised c" "length ?xs = cl_contributors_count c"
      "MinimumDeposit cfg \<le> cl_deposit c" "cl_deposit c \<le> share ?xs (cl_creator c)"
      "map_of ?xs (cl_creator c) \<noteq> None" "all_outside cfg ?xs"
      "cl_raised c \<le> balance_of cfg s (?f i)" "cl_raised c \<le> cl_cap c"
      using inv_books [OF inv c(1) that c(2)] by (simp_all add: books_ok_def Let_def)
    let ?part = "take k ?ys" and ?rest = "filter (\<lambda>(b, _). b \<notin> set R) ?xs"
    have R': "set R = fst ` set ?part" by (simp add: R)
    have sub: "set ?part \<subseteq> set ?xs" by (meson filter_is_subset order.trans set_take_subset)
    have "distinct ?part"
      using keyed_distinct [OF ok(1)] by (simp add: distinct_map)
    note part = removed_part [OF ok(1) sub this, folded R']
    have creator: "cl_creator c \<notin> set R" unfolding R' by (auto dest!: in_set_takeD)
    have lookup: "map_of ?rest (cl_creator c) = map_of ?xs (cl_creator c)"
      using creator by (rule map_of_filter_key)
    have "contribution_remove (cl_creator c) ?xs = ?ys" by (simp add: contribution_remove_def)
    with remove_contributed [OF ok(1), of "cl_creator c"] ok(2,5)
    have "contributed ?ys + cl_deposit c \<le> cl_raised c" by simp
    then have "ed + contributed ?ys \<le> balance_of cfg s (?f i)"
      using ok(4,8) laws unfolding crowdloan_laws_def by linarith
    moreover have "all_outside cfg ?ys" "all_outside cfg ?rest" using ok(7) by (auto simp: all_outside_def)
    moreover have "contributed ?rest = cl_raised c - contributed ?part"
      "length ?rest = cl_contributors_count c - length R"
      using part ok(2,3) by (simp_all add: R)
    moreover have "cl_raised c - contributed ?part \<le> Currency_balance cfg (?f i) w"
      using paid ok(8) calculation(1,2) by simp
    ultimately show ?thesis
      using ok(4,5,6,9) lookup filter_keyed [OF ok(1)]
      by (simp add: books_ok_def Let_def s' s1 c' balance_of_def share_def)
  qed
  with inv_touches [OF inv touches] exists c(2) show ?thesis by (auto simp: s' s1 c')
qed

section \<open>Dissolution and updates\<close>

lemma dissolve_ok:
  assumes "crowdloan_dissolve cfg origin i s = (Inr (), s')"
  obtains c w where "origin = SignedOrigin (cl_creator c)" "Crowdloans s i = Some c" "\<not> cl_finalized c"
    "map_of (Contributions s i) (cl_creator c) = Some (cl_raised c)"
    "Currency_transfer cfg (cl_funds_account c) (cl_creator c) (cl_raised c) (cl_world s) = (Inr (), w)"
    "s' = s\<lparr>Contributions := (Contributions s)(i := contribution_remove (cl_creator c) (Contributions s i)),
       cl_world := dec_providers cfg (cl_funds_account c)
         (case cl_call c of None \<Rightarrow> w | Some b \<Rightarrow> Preimages_drop cfg b w),
       Crowdloans := (Crowdloans s)(i := None), cl_events := cl_events s @ [Crowdloan_Dissolved i]\<rparr>"
  using assms
  by (auto simp: crowdloan_dissolve_def crowdloan_signed_def ok_simps crowdloan_event_def
      ensure_crowdloan_exists_def Contributions_remove_def Contributions_get_def split: option.splits)

lemma dissolve_inv:
  assumes laws: "crowdloan_laws cfg ed" and inv: "crowdloan_inv cfg X s"
    and run: "crowdloan_dissolve cfg origin i s = (Inr (), s')"
  shows "crowdloan_inv cfg X s' \<and> NextCrowdloanId s \<le> NextCrowdloanId s'"
proof -
  obtain c w where c: "Crowdloans s i = Some c"
    and transfer: "Currency_transfer cfg (cl_funds_account c) (cl_creator c) (cl_raised c) (cl_world s) = (Inr (), w)"
    and s': "s' = s\<lparr>Contributions := (Contributions s)(i := contribution_remove (cl_creator c) (Contributions s i)),
       cl_world := dec_providers cfg (cl_funds_account c)
         (case cl_call c of None \<Rightarrow> w | Some b \<Rightarrow> Preimages_drop cfg b w),
       Crowdloans := (Crowdloans s)(i := None), cl_events := cl_events s @ [Crowdloan_Dissolved i]\<rparr>"
    by (rule dissolve_ok [OF run])
  note exists = inv_exists [OF inv c]
  have "Currency_transfer cfg (sub_account cfg i) (cl_creator c) (cl_raised c) (cl_world s) = (Inr (), w)"
    using transfer exists by simp
  from paid_out(1) [OF laws this] exists laws inv_next [OF inv] have "touches cfg i s s'"
    by (auto simp: touches_def s' balance_of_def crowdloan_laws_def neutral_law_def split: option.split)
  from inv_touches [OF inv this] exists show ?thesis by (simp add: s')
qed

lemma update_inv:
  assumes inv: "crowdloan_inv cfg X s" and c: "Crowdloans s i = Some c"
    and same: "cl_creator c' = cl_creator c" "cl_deposit c' = cl_deposit c" "cl_raised c' = cl_raised c"
      "cl_funds_account c' = cl_funds_account c" "cl_finalized c' = cl_finalized c"
      "cl_contributors_count c' = cl_contributors_count c"
      "cl_raised c \<le> cl_cap c \<longrightarrow> cl_raised c \<le> cl_cap c'"
    and s': "s' = s\<lparr>Crowdloans := (Crowdloans s)(i \<mapsto> c'), cl_events := evs\<rparr>"
  shows "crowdloan_inv cfg X s' \<and> NextCrowdloanId s \<le> NextCrowdloanId s'"
proof -
  note exists = inv_exists [OF inv c]
  have "touches cfg i s s'" using inv_next [OF inv] by (simp add: touches_def s')
  moreover have "books_ok cfg s' i c'" if "i \<notin> X" "\<not> cl_finalized c"
    using inv_books [OF inv c that] same by (simp add: books_ok_def Let_def s')
  ultimately show ?thesis using inv_touches [OF inv, of i s'] exists same by (simp add: s')
qed

lemma update_field_inv:
  assumes "crowdloan_inv cfg X s" and "Crowdloans s i = Some c"
  shows "crowdloan_inv cfg X (s\<lparr>Crowdloans := (Crowdloans s)(i \<mapsto> c\<lparr>cl_min_contribution := v\<rparr>), cl_events := evs\<rparr>)"
    and "crowdloan_inv cfg X (s\<lparr>Crowdloans := (Crowdloans s)(i \<mapsto> c\<lparr>cl_end := n\<rparr>), cl_events := evs\<rparr>)"
    and "cl_raised c \<le> v \<Longrightarrow>
      crowdloan_inv cfg X (s\<lparr>Crowdloans := (Crowdloans s)(i \<mapsto> c\<lparr>cl_cap := v\<rparr>), cl_events := evs\<rparr>)"
  by (rule update_inv [OF assms, THEN conjunct1, OF _ _ _ _ _ _ _ refl]; simp)+

lemma update_calls_inv:
  assumes "crowdloan_inv cfg X s"
  shows "crowdloan_update_min_contribution cfg origin i v s = (Inr (), s') \<Longrightarrow>
      crowdloan_inv cfg X s' \<and> NextCrowdloanId s \<le> NextCrowdloanId s'"
    and "crowdloan_update_end cfg origin i n s = (Inr (), s') \<Longrightarrow>
      crowdloan_inv cfg X s' \<and> NextCrowdloanId s \<le> NextCrowdloanId s'"
    and "crowdloan_update_cap cfg origin i v s = (Inr (), s') \<Longrightarrow>
      crowdloan_inv cfg X s' \<and> NextCrowdloanId s \<le> NextCrowdloanId s'"
  by (auto simp: crowdloan_update_min_contribution_def crowdloan_update_end_def crowdloan_update_cap_def
      crowdloan_signed_def ensure_crowdloan_exists_def ensure_valid_end_def crowdloan_event_def
      Crowdloans_insert_def ok_simps intro!: update_field_inv [OF assms])

section \<open>Finalisation\<close>

lemma finalize_before_ok:
  assumes "finalize_before cfg origin i s = (Inr (who, c, next_call), s1)"
  shows "origin = SignedOrigin who \<and> Crowdloans s i = Some c \<and> \<not> cl_finalized c \<and>
    who = cl_creator c \<and> cl_raised c = cl_cap c \<and>
    (\<exists>w. (case cl_target_address c of None \<Rightarrow> w = cl_world s
       | Some t \<Rightarrow> Currency_transfer cfg (cl_funds_account c) t (cl_raised c) (cl_world s) = (Inr (), w)) \<and>
     (case cl_call c of
        None \<Rightarrow> next_call = None \<and> s1 = s\<lparr>cl_world := w\<rparr>
      | Some b \<Rightarrow> next_call \<noteq> None \<and> Preimages_peek cfg b w = next_call \<and>
          s1 = s\<lparr>cl_world := w, CurrentCrowdloanId := Some i\<rparr>))"
  using assms
  by (cases "cl_call c"; cases "cl_target_address c")
    (auto simp: finalize_before_def crowdloan_signed_def ensure_crowdloan_exists_def ok_simps
      split: option.splits)

definition keeps_books :: "'w CrowdloanConfig \<Rightarrow> CrowdloanId set \<Rightarrow> 'w run \<Rightarrow> bool" where
  "keeps_books cfg X run \<longleftrightarrow> (\<forall>s r s'. crowdloan_inv cfg X s \<longrightarrow> run s = (r, s') \<longrightarrow>
     crowdloan_inv cfg X s' \<and> NextCrowdloanId s \<le> NextCrowdloanId s')"

text \<open>What is expected of the calls of other pallets: they leave the storage of this pallet to its own
  calls, and take money from the funds account of the crowdloan that is being finalised at most.\<close>

definition others_keep_books :: "'w CrowdloanConfig \<Rightarrow> bool" where
  "others_keep_books cfg \<longleftrightarrow> (\<forall>rec.
     (\<forall>X origin call. outside cfg origin \<longrightarrow> keeps_books cfg X (rec origin call)) \<longrightarrow>
     (\<forall>X origin call. outside cfg origin \<longrightarrow> keeps_books cfg X (dispatch_other cfg rec origin call)))"

lemma inv_opens:
  assumes laws: "crowdloan_laws cfg ed" and inv: "crowdloan_inv cfg X s"
    and before: "finalize_before cfg origin i s = (Inr (who, c, next_call), s1)"
  shows "crowdloan_inv cfg (insert i X) s1" and "NextCrowdloanId s1 = NextCrowdloanId s"
    and "next_call = None \<Longrightarrow> CurrentCrowdloanId s1 = CurrentCrowdloanId s"
proof -
  from finalize_before_ok [OF before] obtain w where c: "Crowdloans s i = Some c"
    and w: "case cl_target_address c of None \<Rightarrow> w = cl_world s
       | Some t \<Rightarrow> Currency_transfer cfg (cl_funds_account c) t (cl_raised c) (cl_world s) = (Inr (), w)"
    and s1: "case cl_call c of
        None \<Rightarrow> next_call = None \<and> s1 = s\<lparr>cl_world := w\<rparr>
      | Some b \<Rightarrow> next_call \<noteq> None \<and> Preimages_peek cfg b w = next_call \<and>
          s1 = s\<lparr>cl_world := w, CurrentCrowdloanId := Some i\<rparr>"
    by blast
  show "NextCrowdloanId s1 = NextCrowdloanId s"
    "next_call = None \<Longrightarrow> CurrentCrowdloanId s1 = CurrentCrowdloanId s"
    using s1 by (auto split: option.splits)
  note exists = inv_exists [OF inv c]
  have bal: "balance_of cfg s (sub_account cfg j) \<le> balance_of cfg s1 (sub_account cfg j)" if "j \<noteq> i" "valid_id j" for j
    using w s1 exists paid_out(1) [OF laws, of i _ "cl_raised c" s "()" w j] that
    by (auto simp: balance_of_def split: option.splits)
  have fields: "Crowdloans s1 = Crowdloans s" "Contributions s1 = Contributions s"
    "CurrentCrowdloanId s1 = CurrentCrowdloanId s \<or> CurrentCrowdloanId s1 = Some i"
    "NextCrowdloanId s1 = NextCrowdloanId s"
    using s1 by (auto split: option.splits)
  have "books_ok cfg s1 j d" if "j \<noteq> i" "j \<notin> X" "Crowdloans s j = Some d" "\<not> cl_finalized d" for j d
    using books_more [OF inv_books [OF inv that(3,2,4)]] fields bal that(1) inv_exists [OF inv that(3)] by simp
  then show "crowdloan_inv cfg (insert i X) s1"
    using inv fields unfolding crowdloan_inv_def by auto
qed

lemma inv_closes:
  assumes "crowdloan_inv cfg (insert i X) s" and "i < NextCrowdloanId s"
    and "cl_funds_account c = sub_account cfg i" and "\<forall>j. CurrentCrowdloanId s = Some j \<longrightarrow> j \<in> X"
    and "finalize_after i c s = (r, s')"
  shows "crowdloan_inv cfg X s' \<and> NextCrowdloanId s' = NextCrowdloanId s"
proof -
  have s': "s' = s\<lparr>Crowdloans := (Crowdloans s)(i \<mapsto> c\<lparr>cl_finalized := True\<rparr>),
      cl_events := cl_events s @ [Crowdloan_Finalized i]\<rparr>"
    using assms(5) by (auto simp: finalize_after_def action_defs crowdloan_event_def Crowdloans_insert_def)
  have "books_ok cfg s' j d = books_ok cfg s j d" for j d by (simp add: books_ok_def s')
  then show ?thesis using assms(1-4) by (auto simp: crowdloan_inv_def s')
qed

lemma inv_clear_current: "crowdloan_inv cfg X s \<Longrightarrow> crowdloan_inv cfg X (clear_current s)"
  by (simp add: crowdloan_inv_def clear_current_def books_ok_def)

lemma finalize_keeps:
  assumes laws: "crowdloan_laws cfg ed" and out: "outside cfg origin"
    and stored: "\<And>X origin call. outside cfg origin \<Longrightarrow> keeps_books cfg X (dispatch_with n cfg origin call)"
  shows "keeps_books cfg X (crowdloan_call n cfg origin (Crowdloan_finalize i))"
  unfolding keeps_books_def
proof (intro allI impI)
  fix s r s'
  assume inv: "crowdloan_inv cfg X s"
    and run: "crowdloan_call n cfg origin (Crowdloan_finalize i) s = (r, s')"
  obtain b s1 where b: "finalize_before cfg origin i s = (b, s1)" by fastforce
  show "crowdloan_inv cfg X s' \<and> NextCrowdloanId s \<le> NextCrowdloanId s'"
  proof (cases b)
    case (Inl e)
    then show ?thesis using run b inv by simp
  next
    case (Inr x)
    obtain who c next_call where x: "x = (who, c, next_call)" by (metis prod_cases3)
    have before: "finalize_before cfg origin i s = (Inr (who, c, next_call), s1)" using b Inr x by simp
    note opens = inv_opens [OF laws inv before]
    have c: "Crowdloans s i = Some c" "origin = SignedOrigin who" using finalize_before_ok [OF before] by simp_all
    note exists = inv_exists [OF inv c(1)]
    show ?thesis
    proof (cases next_call)
      case None
      then have "finalize_after i c s1 = (r, s')" using run before by simp
      moreover have "\<forall>j. CurrentCrowdloanId s1 = Some j \<longrightarrow> j \<in> X"
        using inv opens(3) [OF None] by (simp add: crowdloan_inv_def)
      ultimately show ?thesis using inv_closes [OF opens(1), of c r s'] exists opens(2) by simp
    next
      case (Some call)
      obtain q s2 where d: "dispatch_with n cfg (SignedOrigin who) call s1 = (q, s2)" by fastforce
      have kept: "crowdloan_inv cfg (insert i X) s2 \<and> NextCrowdloanId s1 \<le> NextCrowdloanId s2"
        using stored [of "SignedOrigin who" "insert i X" call, unfolded keeps_books_def, rule_format,
            OF _ opens(1), of q s2] out c(2) d by simp
      show ?thesis
      proof (cases q)
        case (Inl e)
        then show ?thesis using run before Some d inv by simp
      next
        case (Inr u)
        then have after: "finalize_after i c (clear_current s2) = (r, s')" using run before Some d by simp
        have "crowdloan_inv cfg (insert i X) (clear_current s2)"
          using kept by (simp add: inv_clear_current)
        from inv_closes [OF this _ _ _ after] exists opens(2) kept show ?thesis
          by (simp add: clear_current_def)
      qed
    qed
  qed
qed

lemmas crowdloan_call_defs = crowdloan_create_def crowdloan_contribute_def crowdloan_withdraw_def
  crowdloan_refund_def crowdloan_dissolve_def crowdloan_update_min_contribution_def
  crowdloan_update_end_def crowdloan_update_cap_def

lemma crowdloan_call_keeps:
  assumes laws: "crowdloan_laws cfg ed" and out: "outside cfg origin"
    and stored: "\<And>X origin call. outside cfg origin \<Longrightarrow> keeps_books cfg X (dispatch_with n cfg origin call)"
  shows "keeps_books cfg X (crowdloan_call n cfg origin c)"
proof (cases "\<exists>i. c = Crowdloan_finalize i")
  case True
  with finalize_keeps [OF assms] show ?thesis by auto
next
  case False
  have "crowdloan_inv cfg X s' \<and> NextCrowdloanId s \<le> NextCrowdloanId s'"
    if inv: "crowdloan_inv cfg X s" and run: "crowdloan_call n cfg origin c s = (r, s')" for s r s'
  proof (cases r)
    case (Inl e)
    then have "s' = s" using run False by (cases c) (auto simp: crowdloan_call_defs transactional_err)
    then show ?thesis using inv by simp
  next
    case (Inr u)
    then show ?thesis
      using run False create_inv [OF laws inv out] contribute_inv [OF laws inv out]
        withdraw_inv [OF laws inv out] refund_inv [OF laws inv out] dissolve_inv [OF laws inv]
        update_calls_inv [OF inv]
      by (cases c) simp_all
  qed
  then show ?thesis by (simp add: keeps_books_def)
qed

lemma dispatch_keeps:
  assumes laws: "crowdloan_laws cfg ed" and others: "others_keep_books cfg" and "outside cfg origin"
  shows "keeps_books cfg X (dispatch_with n cfg origin call)"
  using assms(3)
proof (induction n arbitrary: X origin call)
  case 0
  then show ?case by (simp add: keeps_books_def)
next
  case (Suc n)
  have own: "keeps_books cfg X (crowdloan_call n cfg origin c)" for c
    by (rule crowdloan_call_keeps [OF laws Suc.prems Suc.IH])
  have other: "keeps_books cfg X (dispatch_other cfg (dispatch_with n cfg) origin call)"
    using others [unfolded others_keep_books_def, rule_format, OF Suc.IH Suc.prems] .
  show ?case
    unfolding keeps_books_def
  proof (intro allI impI)
    fix s r s'
    assume inv: "crowdloan_inv cfg X s" and run: "dispatch_with (Suc n) cfg origin call s = (r, s')"
    show "crowdloan_inv cfg X s' \<and> NextCrowdloanId s \<le> NextCrowdloanId s'"
    proof (cases "cl_call_allowed cfg call (cl_world s)")
      case True
      show ?thesis
      proof (cases "\<exists>c. call = RC_Crowdloan c")
        case True
        then obtain c where "call = RC_Crowdloan c" by blast
        with run \<open>cl_call_allowed cfg call (cl_world s)\<close> have "crowdloan_call n cfg origin c s = (r, s')"
          by simp
        with own inv show ?thesis unfolding keeps_books_def by blast
      next
        case False
        with run \<open>cl_call_allowed cfg call (cl_world s)\<close>
        have "dispatch_other cfg (dispatch_with n cfg) origin call s = (r, s')"
          by (simp split: RuntimeCall.splits)
        with other inv show ?thesis unfolding keeps_books_def by blast
      qed
    next
      case False
      with run inv show ?thesis by simp
    qed
  qed
qed

section \<open>Contributors are paid out\<close>

text \<open>A transfer out of the account of a crowdloan that leaves both accounts with the existential deposit
  succeeds.\<close>

definition transfer_works :: "'w CrowdloanConfig \<Rightarrow> Balance \<Rightarrow> bool" where
  "transfer_works cfg ed \<longleftrightarrow> (\<forall>i b v w. v \<le> Currency_balance cfg (sub_account cfg i) w \<longrightarrow>
     ed \<le> Currency_balance cfg (sub_account cfg i) w - v \<longrightarrow> ed \<le> Currency_balance cfg b w + v \<longrightarrow>
     (\<exists>w'. Currency_transfer cfg (sub_account cfg i) b v w = (Inr (), w')))"

lemma withdraw_pays:
  assumes laws: "crowdloan_laws cfg ed" and works: "transfer_works cfg ed"
    and inv: "crowdloan_inv cfg {} s" and c: "Crowdloans s i = Some c" "\<not> cl_finalized c"
    and who: "map_of (Contributions s i) who = Some v" "0 < v" "who \<noteq> cl_creator c"
    and ed: "ed \<le> balance_of cfg s who + v"
  shows "\<exists>s'. crowdloan_withdraw cfg (SignedOrigin who) i s = (Inr (), s') \<and>
    balance_of cfg s' who = balance_of cfg s who + v \<and> map_of (Contributions s' i) who = None"
proof -
  let ?xs = "Contributions s i" and ?f = "sub_account cfg i"
  note exists = inv_exists [OF inv c(1)]
  have ok: "keyed ?xs" "contributed ?xs = cl_raised c" "length ?xs = cl_contributors_count c"
    "MinimumDeposit cfg \<le> cl_deposit c" "cl_deposit c \<le> share ?xs (cl_creator c)"
    "all_outside cfg ?xs" "cl_raised c \<le> balance_of cfg s ?f"
    using inv_books [OF inv c(1) _ c(2)] by (simp_all add: books_ok_def Let_def)
  have "who \<in> fst ` set ?xs" using map_of_SomeD [OF who(1)] by force
  then have out: "\<not> is_funds_account cfg who" using ok(6) unfolding all_outside_def by blast
  have "?xs \<noteq> []" using who(1) by auto
  then have "0 < cl_contributors_count c" using ok(3) by (metis length_greater_0_conv)
  have "share (contribution_remove who ?xs) (cl_creator c) = share ?xs (cl_creator c)"
    using who(3) by (simp add: share_def)
  then have "cl_deposit c \<le> contributed (contribution_remove who ?xs)"
    using ok(5) contributor_share_le [of "contribution_remove who ?xs" "cl_creator c"] by simp
  moreover have "contributed (contribution_remove who ?xs) + v = cl_raised c"
    using remove_contributed [OF ok(1), of who] ok(2) who(1) by (simp add: share_def)
  ultimately have "v \<le> balance_of cfg s ?f" "ed \<le> balance_of cfg s ?f - v"
    using ok(4,7) laws unfolding crowdloan_laws_def by linarith+
  then obtain w where w: "Currency_transfer cfg ?f who v (cl_world s) = (Inr (), w)"
    using works ed unfolding transfer_works_def balance_of_def by blast
  have "?f \<noteq> who" using out exists by (auto simp: is_funds_account_def)
  with transferred(3) [OF laws w] have "Currency_balance cfg who w = balance_of cfg s who + v"
    by (simp add: balance_of_world)
  moreover have "map_of (contribution_remove who ?xs) who = None"
    using remove_keys [of who ?xs] by (auto simp: map_of_eq_None_iff)
  ultimately show ?thesis
    using c who exists w \<open>0 < cl_contributors_count c\<close>
    by (simp add: crowdloan_withdraw_def crowdloan_signed_def ensure_crowdloan_exists_def action_defs
        Let_def crowdloan_event_def Contributions_get_def Contributions_remove_def Crowdloans_insert_def
        crowdloan_transfer_def checked_sub_def balance_of_def signer_of_def)
qed

section \<open>Finalisation that comes back to itself\<close>

text \<open>The stored call of the crowdloan is its own finalisation, and nothing is paid out before it.\<close>

definition finalizes_itself ::
  "'w CrowdloanConfig \<Rightarrow> AccountId \<Rightarrow> CrowdloanId \<Rightarrow> 'w CrowdloanStorage \<Rightarrow> bool" where
  "finalizes_itself cfg who i s \<longleftrightarrow> (\<exists>c b. Crowdloans s i = Some c \<and> cl_creator c = who \<and>
     cl_raised c = cl_cap c \<and> \<not> cl_finalized c \<and> cl_target_address c = None \<and> cl_call c = Some b \<and>
     Preimages_peek cfg b (cl_world s) = Some (RC_Crowdloan (Crowdloan_finalize i)) \<and>
     cl_call_allowed cfg (RC_Crowdloan (Crowdloan_finalize i)) (cl_world s))"

lemma finalize_before_itself:
  assumes "finalizes_itself cfg who i s"
  obtains c where "finalize_before cfg (SignedOrigin who) i s =
    (Inr (who, c, Some (RC_Crowdloan (Crowdloan_finalize i))), s\<lparr>CurrentCrowdloanId := Some i\<rparr>)"
  using assms
  by (auto simp: finalizes_itself_def finalize_before_def crowdloan_signed_def signer_of_def
      ensure_crowdloan_exists_def action_defs)

lemma self_finalize_limit:
  "finalizes_itself cfg who i s \<Longrightarrow>
   crowdloan_call n cfg (SignedOrigin who) (Crowdloan_finalize i) s = (Inl Crowdloan_LimitReached, s)"
proof (induction n arbitrary: s)
  case 0
  obtain c where "finalize_before cfg (SignedOrigin who) i s =
      (Inr (who, c, Some (RC_Crowdloan (Crowdloan_finalize i))), s\<lparr>CurrentCrowdloanId := Some i\<rparr>)"
    by (rule finalize_before_itself [OF 0])
  moreover have "cl_call_allowed cfg (RC_Crowdloan (Crowdloan_finalize i)) (cl_world s)"
    using 0 by (auto simp: finalizes_itself_def)
  ultimately show ?case by simp
next
  case (Suc n)
  obtain c where before: "finalize_before cfg (SignedOrigin who) i s =
      (Inr (who, c, Some (RC_Crowdloan (Crowdloan_finalize i))), s\<lparr>CurrentCrowdloanId := Some i\<rparr>)"
    by (rule finalize_before_itself [OF Suc.prems])
  have again: "finalizes_itself cfg who i (s\<lparr>CurrentCrowdloanId := Some i\<rparr>)"
    and allowed: "cl_call_allowed cfg (RC_Crowdloan (Crowdloan_finalize i)) (cl_world s)"
    using Suc.prems by (auto simp: finalizes_itself_def)
  have "dispatch_with (Suc n) cfg (SignedOrigin who) (RC_Crowdloan (Crowdloan_finalize i))
      (s\<lparr>CurrentCrowdloanId := Some i\<rparr>) = (Inl Crowdloan_LimitReached, s\<lparr>CurrentCrowdloanId := Some i\<rparr>)"
    using Suc.IH [OF again] allowed by (simp del: crowdloan_call.simps)
  with before show ?case by simp
qed

end
