(* ===== verification/Crowdloan_Widths.thy ===== *)
theory Crowdloan_Widths
  imports Crowdloan_Escrow
begin

text \<open>
  The numbers of the crowdloan pallet fit the machine integers the source stores them in: 64 bits
  for balances, 32 bits for block numbers, identifiers and counters.
\<close>

definition typed_info :: "CrowdloanInfo \<Rightarrow> bool" where
  "typed_info c \<longleftrightarrow> cl_deposit c < 2 ^ 64 \<and> cl_min_contribution c < 2 ^ 64 \<and> cl_end c < 2 ^ 32 \<and>
     cl_cap c < 2 ^ 64 \<and> cl_raised c < 2 ^ 64 \<and> cl_contributors_count c < 2 ^ 32"

definition typed_contributions :: "contributions \<Rightarrow> bool" where
  "typed_contributions xs \<longleftrightarrow> (\<forall>(_, v) \<in> set xs. v < 2 ^ 64)"

definition typed :: "'w CrowdloanStorage \<Rightarrow> bool" where
  "typed s \<longleftrightarrow> NextCrowdloanId s < 2 ^ 32 \<and> (\<forall>i c. Crowdloans s i = Some c \<longrightarrow> typed_info c) \<and>
     (\<forall>i. typed_contributions (Contributions s i))"

fun typed_crowdloan_call :: "CrowdloanCall \<Rightarrow> bool" where
  "typed_crowdloan_call (Crowdloan_create deposit minimum cap end_at _ _) \<longleftrightarrow>
     deposit < 2 ^ 64 \<and> minimum < 2 ^ 64 \<and> cap < 2 ^ 64 \<and> end_at < 2 ^ 32"
| "typed_crowdloan_call (Crowdloan_contribute i amount) \<longleftrightarrow> i < 2 ^ 32 \<and> amount < 2 ^ 64"
| "typed_crowdloan_call (Crowdloan_withdraw i) \<longleftrightarrow> i < 2 ^ 32"
| "typed_crowdloan_call (Crowdloan_finalize i) \<longleftrightarrow> i < 2 ^ 32"
| "typed_crowdloan_call (Crowdloan_refund i) \<longleftrightarrow> i < 2 ^ 32"
| "typed_crowdloan_call (Crowdloan_dissolve i) \<longleftrightarrow> i < 2 ^ 32"
| "typed_crowdloan_call (Crowdloan_update_min_contribution i v) \<longleftrightarrow> i < 2 ^ 32 \<and> v < 2 ^ 64"
| "typed_crowdloan_call (Crowdloan_update_end i v) \<longleftrightarrow> i < 2 ^ 32 \<and> v < 2 ^ 32"
| "typed_crowdloan_call (Crowdloan_update_cap i v) \<longleftrightarrow> i < 2 ^ 32 \<and> v < 2 ^ 64"

definition typed_call :: "RuntimeCall \<Rightarrow> bool" where
  "typed_call c = (case c of RC_Crowdloan cc \<Rightarrow> typed_crowdloan_call cc | _ \<Rightarrow> True)"

definition keeps_typed :: "'w run \<Rightarrow> bool" where
  "keeps_typed run \<longleftrightarrow> (\<forall>s r s'. typed s \<longrightarrow> run s = (r, s') \<longrightarrow> typed s')"

text \<open>Stored calls are decoded and so have numbers of the right width, and other pallets change the
  storage through the calls they dispatch only.\<close>

definition typed_environment :: "'w CrowdloanConfig \<Rightarrow> bool" where
  "typed_environment cfg \<longleftrightarrow>
     (\<forall>b w c. Preimages_peek cfg b w = Some c \<longrightarrow> typed_call c) \<and>
     (\<forall>rec. (\<forall>origin c. typed_call c \<longrightarrow> keeps_typed (rec origin c)) \<longrightarrow>
        (\<forall>origin c. typed_call c \<longrightarrow> keeps_typed (dispatch_other cfg rec origin c)))"

lemma typed_put: "typed_contributions xs \<Longrightarrow> v < 2 ^ 64 \<Longrightarrow> typed_contributions (contribution_put a v xs)"
  by (induction a v xs rule: contribution_put.induct) (auto simp: typed_contributions_def)

lemma typed_filter: "typed_contributions xs \<Longrightarrow> typed_contributions (filter P xs)"
  by (auto simp: typed_contributions_def)

lemma typed_remove: "typed_contributions xs \<Longrightarrow> typed_contributions (contribution_remove a xs)"
  by (simp add: contribution_remove_def typed_filter)

lemma typed_step:
  assumes "typed s" and "typed_info c" and "typed_contributions xs" and "NextCrowdloanId s' < 2 ^ 32"
    and "Crowdloans s' = (Crowdloans s)(i \<mapsto> c)" and "Contributions s' = (Contributions s)(i := xs)"
  shows "typed s'"
  using assms by (auto simp: typed_def)

lemma typed_create:
  assumes "typed s" and "crowdloan_create cfg origin deposit minimum cap end_at call target s = (Inr (), s')"
    and "deposit < 2 ^ 64" "minimum < 2 ^ 64" "cap < 2 ^ 64" "end_at < 2 ^ 32"
  shows "typed s'"
proof -
  obtain creator b w s1 where next_id: "NextCrowdloanId s + 1 < 2 ^ 32"
    and bound: "bound_call cfg call (s\<lparr>NextCrowdloanId := NextCrowdloanId s + 1, cl_world := w\<rparr>) = (Inr b, s1)"
    and s': "Crowdloans s' = (Crowdloans s1)(NextCrowdloanId s \<mapsto> \<lparr>cl_creator = creator, cl_deposit = deposit,
        cl_min_contribution = minimum, cl_end = end_at, cl_cap = cap,
        cl_funds_account = sub_account cfg (NextCrowdloanId s), cl_raised = deposit,
        cl_target_address = target, cl_call = b, cl_finalized = False, cl_contributors_count = 1\<rparr>)"
      "Contributions s' = (Contributions s1)(NextCrowdloanId s :=
        contribution_put creator deposit (Contributions s1 (NextCrowdloanId s)))"
      "NextCrowdloanId s' = NextCrowdloanId s1"
    using assms(2)
    by (auto simp: crowdloan_create_def crowdloan_signed_def ensure_valid_end_def ok_simps Let_def
        crowdloan_event_def Crowdloans_insert_def Contributions_insert_def)
  have s1: "Crowdloans s1 = Crowdloans s" "Contributions s1 = Contributions s"
    "NextCrowdloanId s1 = NextCrowdloanId s + 1"
    using bound by (auto simp: bound_call_def ret_ok split: option.splits prod.splits sum.splits)
  show ?thesis
  proof (rule typed_step [OF assms(1) _ _ _ s'(1) [unfolded s1] s'(2) [unfolded s1]])
    show "typed_contributions (contribution_put creator deposit (Contributions s (NextCrowdloanId s)))"
      using assms(1,3) by (simp add: typed_put typed_def)
  qed (use assms(3-6) next_id s'(3) s1(3) in \<open>simp_all add: typed_info_def\<close>)
qed

lemma share_typed: "typed_contributions xs \<Longrightarrow> share xs a < 2 ^ 64"
  by (auto simp: share_def typed_contributions_def split: option.splits dest!: map_of_SomeD)

lemma typed_contribute:
  assumes "typed s" and "crowdloan_contribute cfg origin i offered s = (Inr (), s')"
  shows "typed s'"
proof -
  obtain who c where who: "origin = SignedOrigin who" and c: "Crowdloans s i = Some c"
    using assms(2)
    by (auto simp: crowdloan_contribute_def crowdloan_signed_def ensure_crowdloan_exists_def ok_simps)
  let ?amount = "min offered (cl_cap c - cl_raised c)" and ?xs = "Contributions s i"
  have fits: "cl_raised c + ?amount < 2 ^ 64" "share ?xs who + ?amount < 2 ^ 64"
    "map_of ?xs who = None \<Longrightarrow> Suc (cl_contributors_count c) < 2 ^ 32"
    using assms(2) who c
    by (auto simp: crowdloan_contribute_def crowdloan_signed_def ensure_crowdloan_exists_def ok_simps
        Let_def Contributions_get_def share_def split: option.splits)
  have old: "typed_info c" "typed_contributions ?xs" "NextCrowdloanId s < 2 ^ 32"
    using assms(1) c by (auto simp: typed_def)
  from contribute_ok [OF assms(2) [unfolded who] c] obtain count where s':
    "Crowdloans s' = (Crowdloans s)(i \<mapsto> c\<lparr>cl_raised := cl_raised c + ?amount, cl_contributors_count := count\<rparr>)"
    "Contributions s' = (Contributions s)(i := contribution_put who (share ?xs who + ?amount) ?xs)"
    "NextCrowdloanId s' = NextCrowdloanId s" "count < 2 ^ 32"
    using old(1) fits(3) by (auto simp: typed_info_def)
  show ?thesis
    by (rule typed_step [OF assms(1) _ _ _ s'(1,2)])
      (use old fits(1,2) s'(3,4) in \<open>simp_all add: typed_info_def typed_put\<close>)
qed

lemma typed_withdraw:
  assumes "typed s" and "crowdloan_withdraw cfg origin i s = (Inr (), s')"
  shows "typed s'"
proof -
  obtain who c w amount ys count where c: "Crowdloans s i = Some c"
    and paid: "(amount, ys, count) = withdrawal c who (Contributions s i)"
    and s': "s' = s\<lparr>cl_world := w, Contributions := (Contributions s)(i := ys),
      Crowdloans := (Crowdloans s)(i \<mapsto> c\<lparr>cl_raised := cl_raised c - amount,
        cl_contributors_count := count\<rparr>),
      cl_events := cl_events s @ [Crowdloan_Withdrew i who amount]\<rparr>"
    using withdraw_ok [OF assms(2)] by blast
  have old: "typed_info c" "typed_contributions (Contributions s i)" "NextCrowdloanId s < 2 ^ 32"
    using assms(1) c by (auto simp: typed_def)
  have "typed_contributions ys" "count < 2 ^ 32"
    using paid old by (auto simp: withdrawal_def typed_info_def intro: typed_put typed_remove split: if_splits)
  with old show ?thesis
    by (intro typed_step [OF assms(1), where i = i and xs = ys and
          c = "c\<lparr>cl_raised := cl_raised c - amount, cl_contributors_count := count\<rparr>"])
      (simp_all add: s' typed_info_def less_imp_diff_less)
qed

lemma refund_loop_fields:
  "refund_loop cfg ys c R s = (Inr (c', R', complete), s') \<Longrightarrow>
   Crowdloans s' = Crowdloans s \<and> Contributions s' = Contributions s \<and>
   NextCrowdloanId s' = NextCrowdloanId s \<and> (typed_info c \<longrightarrow> typed_info c')"
proof (induction ys arbitrary: c R s)
  case (Cons y ys)
  obtain a v where y: "y = (a, v)" by fastforce
  show ?case
  proof (cases "RefundContributorsLimit cfg \<le> length R")
    case True
    then show ?thesis using Cons.prems by (simp add: y ret_ok)
  next
    case False
    then obtain w where "refund_loop cfg ys (c\<lparr>cl_raised := cl_raised c - v\<rparr>) (R @ [a]) (s\<lparr>cl_world := w\<rparr>) =
        (Inr (c', R', complete), s')"
      using Cons.prems by (auto simp: y ok_simps saturating_sub_def)
    from Cons.IH [OF this] show ?thesis by (auto simp: typed_info_def)
  qed
qed (simp add: ret_ok)

lemma typed_refund:
  assumes "typed s" and "crowdloan_refund cfg origin i s = (Inr (), s')"
  shows "typed s'"
proof -
  obtain c c' R complete s1 ev where c: "Crowdloans s i = Some c"
    and loop: "refund_loop cfg (filter (\<lambda>(a, _). a \<noteq> cl_creator c) (Contributions s i)) c [] s =
      (Inr (c', R, complete), s1)"
    and s': "s' = s1\<lparr>Crowdloans := (Crowdloans s1)(i \<mapsto> c'\<lparr>cl_contributors_count :=
         cl_contributors_count c' - length R\<rparr>),
       Contributions := (Contributions s1)(i := filter (\<lambda>(b, _). b \<notin> set R) (Contributions s1 i)),
       cl_events := cl_events s1 @ [ev]\<rparr>"
    by (rule refund_ok [OF assms(2)])
  have old: "typed_info c" "typed_contributions (Contributions s i)" "NextCrowdloanId s < 2 ^ 32"
    using assms(1) c by (auto simp: typed_def)
  with refund_loop_fields [OF loop] show ?thesis
    by (intro typed_step [OF assms(1), where i = i and
          xs = "filter (\<lambda>(b, _). b \<notin> set R) (Contributions s i)" and
          c = "c'\<lparr>cl_contributors_count := cl_contributors_count c' - length R\<rparr>"])
      (simp_all add: s' typed_info_def typed_filter less_imp_diff_less)
qed

lemma typed_dissolve:
  assumes "typed s" and "crowdloan_dissolve cfg origin i s = (Inr (), s')"
  shows "typed s'"
  using assms(2)
proof (rule dissolve_ok)
  fix c w
  assume "s' = s\<lparr>Contributions := (Contributions s)(i := contribution_remove (cl_creator c) (Contributions s i)),
       cl_world := dec_providers cfg (cl_funds_account c)
         (case cl_call c of None \<Rightarrow> w | Some b \<Rightarrow> Preimages_drop cfg b w),
       Crowdloans := (Crowdloans s)(i := None), cl_events := cl_events s @ [Crowdloan_Dissolved i]\<rparr>"
  with assms(1) show ?thesis by (auto simp: typed_def intro: typed_remove)
qed

lemma typed_info_set:
  assumes "typed s" and "typed_info c'"
  shows "typed (s\<lparr>Crowdloans := (Crowdloans s)(i \<mapsto> c'), cl_events := evs\<rparr>)"
  using assms by (auto simp: typed_def)

lemma typed_infoD: "typed s \<Longrightarrow> Crowdloans s i = Some c \<Longrightarrow> typed_info c"
  by (simp add: typed_def)

lemma typed_updates:
  assumes "typed s"
  shows "crowdloan_update_min_contribution cfg origin i v s = (Inr (), s') \<Longrightarrow> v < 2 ^ 64 \<Longrightarrow> typed s'"
    and "crowdloan_update_end cfg origin i n s = (Inr (), s') \<Longrightarrow> n < 2 ^ 32 \<Longrightarrow> typed s'"
    and "crowdloan_update_cap cfg origin i v s = (Inr (), s') \<Longrightarrow> v < 2 ^ 64 \<Longrightarrow> typed s'"
  by (auto simp: crowdloan_update_min_contribution_def crowdloan_update_end_def crowdloan_update_cap_def
      crowdloan_signed_def ensure_crowdloan_exists_def ensure_valid_end_def crowdloan_event_def
      Crowdloans_insert_def ok_simps typed_info_def intro!: typed_info_set [OF assms]
      dest: typed_infoD [OF assms])

lemma typed_before:
  assumes "typed s" and "finalize_before cfg origin i s = (Inr (who, c, next_call), s1)"
  shows "typed s1 \<and> typed_info c"
proof -
  have "typed_info c" using finalize_before_ok [OF assms(2)] assms(1) by (auto simp: typed_def)
  moreover have "Crowdloans s1 = Crowdloans s \<and> Contributions s1 = Contributions s \<and>
      NextCrowdloanId s1 = NextCrowdloanId s"
    using finalize_before_ok [OF assms(2)] by (auto split: option.splits)
  ultimately show ?thesis using assms(1) by (simp add: typed_def)
qed

lemma typed_after:
  assumes "typed s" and "typed_info c" and "finalize_after i c s = (r, s')"
  shows "typed s'"
proof -
  have "typed_info (c\<lparr>cl_finalized := True\<rparr>)" using assms(2) by (simp add: typed_info_def)
  then have "typed (s\<lparr>Crowdloans := (Crowdloans s)(i \<mapsto> c\<lparr>cl_finalized := True\<rparr>), cl_events := evs\<rparr>)" for evs
    by (rule typed_info_set [OF assms(1)])
  with assms(3) show ?thesis
    by (auto simp: finalize_after_def action_defs crowdloan_event_def Crowdloans_insert_def)
qed

lemma crowdloan_call_typed:
  assumes stored: "\<And>origin call. typed_call call \<Longrightarrow> keeps_typed (dispatch_with n cfg origin call)"
    and env: "typed_environment cfg" and call: "typed_crowdloan_call c"
    and s: "typed s" and run: "crowdloan_call n cfg origin c s = (r, s')"
  shows "typed s'"
proof (cases "\<exists>i. c = Crowdloan_finalize i")
  case True
  then obtain i where i: "c = Crowdloan_finalize i" by blast
  obtain b s1 where b: "finalize_before cfg origin i s = (b, s1)" by fastforce
  show ?thesis
  proof (cases b)
    case (Inr x)
    obtain who d next_call where x: "x = (who, d, next_call)" by (metis prod_cases3)
    have before: "finalize_before cfg origin i s = (Inr (who, d, next_call), s1)" using b Inr x by simp
    note typed = typed_before [OF s before]
    show ?thesis
    proof (cases next_call)
      case None
      with run i before typed show ?thesis by (auto intro: typed_after)
    next
      case (Some stored_call)
      then have "typed_call stored_call"
        using finalize_before_ok [OF before] env by (auto simp: typed_environment_def split: option.splits)
      from stored [OF this, of "SignedOrigin who"] typed
      have kept: "dispatch_with n cfg (SignedOrigin who) stored_call s1 = (q, s2) \<Longrightarrow> typed s2" for q s2
        unfolding keeps_typed_def by blast
      have "typed (clear_current s2) = typed s2" for s2 :: "'a CrowdloanStorage"
        by (simp add: typed_def clear_current_def)
      with run i before Some kept typed s show ?thesis
        by (auto split: option.splits sum.splits prod.splits intro: typed_after)
    qed
  qed (use run i b s in simp)
next
  case False
  show ?thesis
  proof (cases r)
    case (Inl e)
    then have "s' = s" using run False by (cases c) (auto simp: crowdloan_call_defs transactional_err)
    then show ?thesis using s by simp
  next
    case (Inr u)
    then show ?thesis using run False call s
      by (cases c) (auto intro: typed_create typed_contribute typed_withdraw typed_refund typed_dissolve
          typed_updates)
  qed
qed

lemma dispatch_typed:
  assumes env: "typed_environment cfg" and "typed_call call"
  shows "keeps_typed (dispatch_with n cfg origin call)"
  using assms(2)
proof (induction n arbitrary: origin call)
  case 0
  then show ?case by (simp add: keeps_typed_def)
next
  case (Suc n)
  have other: "keeps_typed (dispatch_other cfg (dispatch_with n cfg) origin call)"
    using env Suc.IH Suc.prems by (simp add: typed_environment_def)
  show ?case
    unfolding keeps_typed_def
  proof (intro allI impI)
    fix s r s'
    assume s: "typed s" and run: "dispatch_with (Suc n) cfg origin call s = (r, s')"
    show "typed s'"
    proof (cases "cl_call_allowed cfg call (cl_world s)")
      case allowed: True
      show ?thesis
      proof (cases "\<exists>c. call = RC_Crowdloan c")
        case True
        then obtain c where c: "call = RC_Crowdloan c" by blast
        with Suc.prems run allowed
        have "typed_crowdloan_call c" "crowdloan_call n cfg origin c s = (r, s')"
          by (simp_all add: typed_call_def)
        then show ?thesis using crowdloan_call_typed [OF Suc.IH env _ s] by blast
      next
        case False
        with run allowed have "dispatch_other cfg (dispatch_with n cfg) origin call s = (r, s')"
          by (simp split: RuntimeCall.splits)
        with other s show ?thesis unfolding keeps_typed_def by blast
      qed
    next
      case False
      with run s show ?thesis by simp
    qed
  qed
qed

end
