(* ===== verification/Crowdloan_Refunds.thy ===== *)
theory Crowdloan_Refunds
  imports Crowdloan_Escrow
begin

text \<open>
  The creator refunds a crowdloan in rounds, each of a limited number of contributors: every round
  succeeds, pays exactly the contributors it removes, and enough rounds leave only the creator.
\<close>

section \<open>Shares of part of the contributors\<close>

abbreviation others_of :: "AccountId \<Rightarrow> contributions \<Rightarrow> contributions" where
  "others_of a xs \<equiv> filter (\<lambda>(b, _). b \<noteq> a) xs"

lemma share_split:
  assumes "distinct (map fst ys)"
  shows "share (take k ys) a + share (drop k ys) a = share ys a"
proof -
  have "distinct (map fst (take k ys) @ map fst (drop k ys))"
    using assms by (metis append_take_drop_id map_append)
  then have "map_of (take k ys) a = None \<or> map_of (drop k ys) a = None"
    by (auto simp: map_of_eq_None_iff)
  moreover have "map_of ys a = (map_of (drop k ys) ++ map_of (take k ys)) a"
    by (metis append_take_drop_id map_of_append)
  ultimately show ?thesis by (auto simp: share_def map_add_def split: option.splits)
qed

lemma share_others: "a \<noteq> b \<Longrightarrow> share (others_of b xs) a = share xs a"
  using remove_lookup [of a b xs] by (simp add: share_def contribution_remove_def)

lemma share_Cons: "a \<notin> fst ` set ys \<Longrightarrow> share ((a, v) # ys) b = (if b = a then v else 0) + share ys b"
  by (auto simp: share_def dest!: map_of_SomeD split: option.splits) force+

lemma filter_dropped:
  assumes "distinct (map fst ys)"
  shows "filter (\<lambda>(b, _). b \<notin> set (map fst (take k ys))) ys = drop k ys"
proof -
  have "distinct (map fst (take k ys) @ map fst (drop k ys))"
    using assms by (metis append_take_drop_id map_append)
  then have "\<forall>x \<in> set (drop k ys). fst x \<notin> set (map fst (take k ys))" by auto
  then have "filter (\<lambda>(b, _). b \<notin> set (map fst (take k ys))) (drop k ys) = drop k ys"
    by (auto intro!: filter_True) force
  moreover have "filter (\<lambda>(b, _). b \<notin> set (map fst (take k ys))) (take k ys) = []"
    by (auto intro!: filter_False) force
  ultimately show ?thesis by (metis (no_types) append_Nil append_take_drop_id filter_append)
qed

section \<open>One round\<close>

definition refundable :: "'w CrowdloanConfig \<Rightarrow> Balance \<Rightarrow> contributions \<Rightarrow> bool" where
  "refundable cfg ed ys \<longleftrightarrow> all_outside cfg ys \<and> distinct (map fst ys) \<and> (\<forall>(a, v) \<in> set ys. ed \<le> v)"

lemma refundable_Cons: "refundable cfg ed ((a, v) # ys) \<longleftrightarrow>
  \<not> is_funds_account cfg a \<and> a \<notin> fst ` set ys \<and> ed \<le> v \<and> refundable cfg ed ys"
  by (auto simp: refundable_def all_outside_def)

lemma transferred_others:
  assumes "crowdloan_laws cfg ed" and "Currency_transfer cfg a b v w = (Inr (), w')" and "c \<noteq> a" "c \<noteq> b"
  shows "Currency_balance cfg c w' = Currency_balance cfg c w"
  using assms by (simp add: crowdloan_laws_def transfer_law_def)

lemma refund_loop_runs:
  assumes laws: "crowdloan_laws cfg ed" and works: "transfer_works cfg ed" and valid: "valid_id i"
    and limit: "RefundContributorsLimit cfg < 2 ^ 32" and "cl_funds_account c = sub_account cfg i"
    and "refundable cfg ed ys" and "ed + contributed ys \<le> balance_of cfg s (sub_account cfg i)"
  defines "m \<equiv> \<lambda>R. RefundContributorsLimit cfg - length R"
  shows "\<exists>w. refund_loop cfg ys c R s =
      (Inr (c\<lparr>cl_raised := cl_raised c - contributed (take (m R) ys)\<rparr>, R @ map fst (take (m R) ys),
        length ys \<le> m R), s\<lparr>cl_world := w\<rparr>) \<and>
    (\<forall>a. \<not> is_funds_account cfg a \<longrightarrow>
       Currency_balance cfg a w = balance_of cfg s a + share (take (m R) ys) a)"
  using assms(5-7)
proof (induction ys arbitrary: c R s)
  case Nil
  then show ?case by (intro exI [of _ "cl_world s"]) (simp add: action_defs share_def balance_of_def)
next
  case (Cons y ys)
  obtain a v where y: "y = (a, v)" by fastforce
  show ?case
  proof (cases "RefundContributorsLimit cfg \<le> length R")
    case True
    then show ?thesis
      by (intro exI [of _ "cl_world s"]) (simp add: y action_defs share_def balance_of_def m_def)
  next
    case False
    let ?f = "sub_account cfg i"
    have a: "\<not> is_funds_account cfg a" "a \<notin> fst ` set ys" "ed \<le> v" "refundable cfg ed ys"
      using Cons.prems(2) by (simp_all add: y refundable_Cons)
    have left: "v \<le> balance_of cfg s ?f" "ed + contributed ys \<le> balance_of cfg s ?f - v"
      using Cons.prems(3) by (simp_all add: y)
    then obtain w1 where w1: "Currency_transfer cfg ?f a v (cl_world s) = (Inr (), w1)"
      using works a(3) unfolding transfer_works_def balance_of_def
      by (metis add_leD1 trans_le_add2)
    have "?f \<noteq> a" using a(1) valid by (auto simp: is_funds_account_def)
    have rest: "ed + contributed ys \<le> balance_of cfg (s\<lparr>cl_world := w1\<rparr>) ?f"
      using transferred(5) [OF laws w1 \<open>?f \<noteq> a\<close>] left by linarith
    from Cons.IH [OF _ a(4) rest, of "c\<lparr>cl_raised := cl_raised c - v\<rparr>" "R @ [a]"] Cons.prems(1)
    obtain w where w: "refund_loop cfg ys (c\<lparr>cl_raised := cl_raised c - v\<rparr>) (R @ [a]) (s\<lparr>cl_world := w1\<rparr>) =
        (Inr (c\<lparr>cl_raised := cl_raised c - v - contributed (take (m (R @ [a])) ys)\<rparr>,
          R @ a # map fst (take (m (R @ [a])) ys), length ys \<le> m (R @ [a])), s\<lparr>cl_world := w\<rparr>)"
      and paid: "\<And>b. \<not> is_funds_account cfg b \<Longrightarrow> Currency_balance cfg b w =
        Currency_balance cfg b w1 + share (take (m (R @ [a])) ys) b"
      by (auto simp: balance_of_def)
    have m: "m R = Suc (m (R @ [a]))" using False by (simp add: m_def)
    have "Currency_balance cfg b w1 = balance_of cfg s b + (if b = a then v else 0)"
      if "\<not> is_funds_account cfg b" for b
    proof (cases "b = a")
      case True
      then show ?thesis using transferred(3) [OF laws w1 \<open>?f \<noteq> a\<close>] by (simp add: balance_of_def)
    next
      case False
      have "b \<noteq> ?f" using that valid by (auto simp: is_funds_account_def)
      with False transferred_others [OF laws w1] show ?thesis by (simp add: balance_of_def)
    qed
    moreover have "a \<notin> fst ` set (take (m (R @ [a])) ys)" using a(2) by (auto dest: in_set_takeD)
    ultimately have "Currency_balance cfg b w = balance_of cfg s b + share (take (m R) (y # ys)) b"
      if "\<not> is_funds_account cfg b" for b
      using paid [OF that] that by (simp add: m y share_Cons)
    moreover have "refund_loop cfg (y # ys) c R s =
      (Inr (c\<lparr>cl_raised := cl_raised c - contributed (take (m R) (y # ys))\<rparr>,
        R @ map fst (take (m R) (y # ys)), length (y # ys) \<le> m R), s\<lparr>cl_world := w\<rparr>)"
      using w w1 False limit Cons.prems(1)
      by (simp add: y m crowdloan_transfer_def action_defs checked_add_def uint_max_def saturating_sub_def)
    ultimately show ?thesis by blast
  qed
qed

lemma refund_round:
  assumes laws: "crowdloan_laws cfg ed" and works: "transfer_works cfg ed"
    and limit: "RefundContributorsLimit cfg < 2 ^ 32" and inv: "crowdloan_inv cfg {} s"
    and c: "Crowdloans s i = Some c" "\<not> cl_finalized c"
    and ed: "\<forall>(a, v) \<in> set (others_of (cl_creator c) (Contributions s i)). ed \<le> v"
  defines "ys \<equiv> others_of (cl_creator c) (Contributions s i)" and "k \<equiv> RefundContributorsLimit cfg"
  shows "\<exists>s' c'. crowdloan_refund cfg (SignedOrigin (cl_creator c)) i s = (Inr (), s') \<and>
    Crowdloans s' i = Some c' \<and> cl_creator c' = cl_creator c \<and> \<not> cl_finalized c' \<and>
    others_of (cl_creator c) (Contributions s' i) = drop k ys \<and>
    (\<forall>a. \<not> is_funds_account cfg a \<longrightarrow> balance_of cfg s' a = balance_of cfg s a + share (take k ys) a)"
proof -
  let ?xs = "Contributions s i" and ?f = "sub_account cfg i"
  note exists = inv_exists [OF inv c(1)]
  have ok: "keyed ?xs" "contributed ?xs = cl_raised c" "length ?xs = cl_contributors_count c"
    "MinimumDeposit cfg \<le> cl_deposit c" "cl_deposit c \<le> share ?xs (cl_creator c)" "all_outside cfg ?xs"
    "cl_raised c \<le> balance_of cfg s ?f"
    using inv_books [OF inv c(1) _ c(2)] by (simp_all add: books_ok_def Let_def)
  have dist: "distinct (map fst ys)" using keyed_distinct [OF filter_keyed [OF ok(1)]] by (simp add: ys_def)
  have refundable: "refundable cfg ed ys"
    using ok(6) dist ed by (auto simp: refundable_def all_outside_def ys_def)
  have "contributed ys + cl_deposit c \<le> cl_raised c"
    using remove_contributed [OF ok(1), of "cl_creator c"] ok(2,5) by (simp add: contribution_remove_def ys_def)
  then have "ed + contributed ys \<le> balance_of cfg s ?f"
    using ok(4,7) laws unfolding crowdloan_laws_def by linarith
  with refund_loop_runs [OF laws works _ limit _ refundable, of i c s "[]"] exists obtain w where
    loop: "refund_loop cfg ys c [] s = (Inr (c\<lparr>cl_raised := cl_raised c - contributed (take k ys)\<rparr>,
        map fst (take k ys), length ys \<le> k), s\<lparr>cl_world := w\<rparr>)"
    and paid: "\<And>a. \<not> is_funds_account cfg a \<Longrightarrow> Currency_balance cfg a w = balance_of cfg s a + share (take k ys) a"
    by (auto simp: k_def)
  have "length ys \<le> cl_contributors_count c" using ok(3) length_filter_le by (metis ys_def)
  then have count: "length (take k ys) \<le> cl_contributors_count c" by simp
  define s' where "s' = snd (crowdloan_refund cfg (SignedOrigin (cl_creator c)) i s)"
  have run: "crowdloan_refund cfg (SignedOrigin (cl_creator c)) i s = (Inr (), s')"
    and s': "Contributions s' i = filter (\<lambda>(b, _). b \<notin> set (map fst (take k ys))) ?xs"
      "\<exists>c'. Crowdloans s' i = Some c' \<and> cl_creator c' = cl_creator c \<and> \<not> cl_finalized c'"
      "cl_world s' = w"
    using c count loop unfolding s'_def ys_def [symmetric]
    by (simp_all add: crowdloan_refund_def crowdloan_signed_def ensure_crowdloan_exists_def action_defs
        Let_def crowdloan_event_def Crowdloans_insert_def removed_all checked_sub_def signer_of_def
        ys_def [symmetric])
  have "others_of (cl_creator c) (Contributions s' i) =
      filter (\<lambda>(b, _). b \<notin> set (map fst (take k ys))) ys"
    by (simp add: s'(1) ys_def conj_commute case_prod_beta)
  with filter_dropped [OF dist] run s' paid show ?thesis by (auto simp: balance_of_def)
qed

section \<open>Repeated rounds\<close>

primrec refund_rounds ::
  "nat \<Rightarrow> 'w CrowdloanConfig \<Rightarrow> AccountId \<Rightarrow> CrowdloanId \<Rightarrow> 'w CrowdloanStorage \<Rightarrow> 'w CrowdloanStorage option" where
  "refund_rounds 0 cfg who i s = Some s"
| "refund_rounds (Suc n) cfg who i s =
     (case crowdloan_refund cfg (SignedOrigin who) i s of
        (Inl _, _) \<Rightarrow> None
      | (Inr _, s') \<Rightarrow> refund_rounds n cfg who i s')"

lemma rounds_finish:
  fixes i :: CrowdloanId
  assumes laws: "crowdloan_laws cfg ed" and works: "transfer_works cfg ed"
    and limit: "RefundContributorsLimit cfg < 2 ^ 32" and out: "\<not> is_funds_account cfg who"
  defines "ys \<equiv> \<lambda>s. others_of who (Contributions s i)"
  assumes "crowdloan_inv cfg {} s" and "Crowdloans s i = Some c" and "\<not> cl_finalized c"
    and "cl_creator c = who" and "\<forall>(a, v) \<in> set (ys s). ed \<le> v"
    and "length (ys s) \<le> n * RefundContributorsLimit cfg"
  shows "\<exists>s' c'. refund_rounds n cfg who i s = Some s' \<and> crowdloan_inv cfg {} s' \<and>
    Crowdloans s' i = Some c' \<and> \<not> cl_finalized c' \<and> cl_creator c' = who \<and> ys s' = [] \<and>
    (\<forall>a. \<not> is_funds_account cfg a \<longrightarrow> balance_of cfg s' a = balance_of cfg s a + share (ys s) a)"
  using assms(6-)
proof (induction n arbitrary: s c)
  case 0
  then show ?case by (auto simp: share_def)
next
  case (Suc n)
  let ?k = "RefundContributorsLimit cfg"
  from refund_round [OF laws works limit Suc.prems(1-3)] Suc.prems(4,5) obtain s1 c1 where
    run: "crowdloan_refund cfg (SignedOrigin who) i s = (Inr (), s1)"
    and c1: "Crowdloans s1 i = Some c1" "\<not> cl_finalized c1" "cl_creator c1 = who"
    and left: "ys s1 = drop ?k (ys s)"
    and paid: "\<And>a. \<not> is_funds_account cfg a \<Longrightarrow> balance_of cfg s1 a = balance_of cfg s a + share (take ?k (ys s)) a"
    by (auto simp: ys_def)
  have inv: "crowdloan_inv cfg {} s1"
    using refund_inv [OF laws Suc.prems(1) _ run] out by (simp add: outside_def)
  have "\<forall>(a, v) \<in> set (ys s1). ed \<le> v" using Suc.prems(5) by (auto simp: left dest: in_set_dropD)
  moreover have "length (ys s1) \<le> n * ?k" using Suc.prems(6) by (simp add: left)
  ultimately obtain s' c' where
    "refund_rounds n cfg who i s1 = Some s'" "crowdloan_inv cfg {} s'" "Crowdloans s' i = Some c'"
    "\<not> cl_finalized c'" "cl_creator c' = who" "ys s' = []"
    "\<And>a. \<not> is_funds_account cfg a \<Longrightarrow> balance_of cfg s' a = balance_of cfg s1 a + share (ys s1) a"
    using Suc.IH [OF inv c1] by blast
  moreover have "share (take ?k (ys s)) a + share (ys s1) a = share (ys s) a" for a
  proof -
    have "keyed (Contributions s i)"
      using inv_books [OF Suc.prems(1,2) _ Suc.prems(3)] by (simp add: books_ok_def Let_def)
    then have "distinct (map fst (ys s))" using keyed_distinct [OF filter_keyed] by (simp add: ys_def)
    then show ?thesis unfolding left by (rule share_split)
  qed
  ultimately show ?case using run paid by (auto simp: add.assoc)
qed

text \<open>When nobody but the creator is left, the creator's contribution is the amount raised.\<close>

lemma only_creator:
  assumes inv: "crowdloan_inv cfg {} s" and c: "Crowdloans s i = Some c" "\<not> cl_finalized c"
    and alone: "others_of (cl_creator c) (Contributions s i) = []"
  shows "Contributions s i = [(cl_creator c, cl_raised c)]"
proof -
  have ok: "keyed (Contributions s i)" "contributed (Contributions s i) = cl_raised c"
    "map_of (Contributions s i) (cl_creator c) \<noteq> None"
    using inv_books [OF inv c(1) _ c(2)] by (simp_all add: books_ok_def Let_def)
  have keys: "\<forall>x \<in> set (Contributions s i). fst x = cl_creator c"
    using alone by (auto simp: filter_empty_conv)
  show ?thesis
  proof (cases "Contributions s i")
    case (Cons x xs)
    have "xs = []"
    proof (rule ccontr)
      assume "xs \<noteq> []"
      then obtain y where "y \<in> set xs" by (cases xs) auto
      with keys Cons keyed_distinct [OF ok(1)] show False by (cases x) force
    qed
    with Cons keys ok(2) show ?thesis by (cases x) simp
  qed (use ok(3) in simp)
qed

end
