(* ===== verification/Crowdloan_Properties.thy ===== *)
theory Crowdloan_Properties
  imports Crowdloan_Widths Crowdloan_Refunds
begin

text \<open>
  The properties of the crowdloan pallet, over the storages it can reach, and a small configuration
  on which their hypotheses hold.
\<close>

section \<open>Reachable storages\<close>

definition crowdloan_genesis :: "'w \<Rightarrow> 'w CrowdloanStorage" where
  "crowdloan_genesis w = \<lparr>Crowdloans = Map.empty, NextCrowdloanId = 0, Contributions = (\<lambda>_. []),
     CurrentCrowdloanId = None, HasMigrationRun = False, cl_world = w, cl_events = []\<rparr>"

text \<open>Calls in blocks of any number, and changes elsewhere that take nothing from funds accounts.\<close>

inductive crowdloan_reachable :: "'w CrowdloanConfig \<Rightarrow> 'w CrowdloanStorage \<Rightarrow> bool" for cfg where
  start: "crowdloan_reachable cfg (crowdloan_genesis w)"
| call: "\<lbrakk>crowdloan_reachable cfg s; outside cfg origin;
    dispatch_with n (cfg\<lparr>cl_now := now\<rparr>) origin c s = (r, s')\<rbrakk> \<Longrightarrow> crowdloan_reachable cfg s'"
| elsewhere: "\<lbrakk>crowdloan_reachable cfg s; \<And>i. valid_id i \<Longrightarrow>
    Currency_balance cfg (sub_account cfg i) (cl_world s) \<le> Currency_balance cfg (sub_account cfg i) w\<rbrakk> \<Longrightarrow>
    crowdloan_reachable cfg (s\<lparr>cl_world := w\<rparr>)"

lemma now_irrelevant [simp]:
  "balance_of (cfg\<lparr>cl_now := now\<rparr>) = balance_of cfg"
  "crowdloan_inv (cfg\<lparr>cl_now := now\<rparr>) = crowdloan_inv cfg"
  "crowdloan_laws (cfg\<lparr>cl_now := now\<rparr>) = crowdloan_laws cfg"
  "outside (cfg\<lparr>cl_now := now\<rparr>) = outside cfg"
  by (simp_all add: fun_eq_iff balance_of_def crowdloan_inv_def books_ok_def all_outside_def
      is_funds_account_def crowdloan_laws_def transfer_law_def neutral_law_def outside_def)

lemma now_irrelevant_books [simp]:
  "keeps_books (cfg\<lparr>cl_now := now\<rparr>) = keeps_books cfg"
  "others_keep_books (cfg\<lparr>cl_now := now\<rparr>) = others_keep_books cfg"
  by (simp_all add: fun_eq_iff keeps_books_def others_keep_books_def)

lemma crowdloan_genesis_inv: "crowdloan_inv cfg {} (crowdloan_genesis w)"
  by (simp add: crowdloan_inv_def crowdloan_genesis_def valid_id_def)

lemma crowdloan_reachable_inv:
  assumes "crowdloan_laws cfg ed" and "others_keep_books cfg" and "crowdloan_reachable cfg s"
  shows "crowdloan_inv cfg {} s"
  using assms(3)
proof induction
  case (start w)
  then show ?case by (rule crowdloan_genesis_inv)
next
  case (call s origin n now c r s')
  have "keeps_books (cfg\<lparr>cl_now := now\<rparr>) {} (dispatch_with n (cfg\<lparr>cl_now := now\<rparr>) origin c)"
    by (rule dispatch_keeps) (use assms(1,2) call.hyps in simp_all)
  with call show ?case by (simp add: keeps_books_def)
next
  case (elsewhere s w)
  note inv = elsewhere.IH
  have "books_ok cfg (s\<lparr>cl_world := w\<rparr>) i c" if "books_ok cfg s i c" "valid_id i" for i c
    using books_more [OF that(1), of "s\<lparr>cl_world := w\<rparr>"] elsewhere.hyps(2) [OF that(2)]
    by (simp add: balance_of_def)
  with inv_exists [OF inv] inv show ?case by (auto simp: crowdloan_inv_def)
qed

section \<open>A small configuration\<close>

type_synonym demo_world = "(AccountId \<Rightarrow> Balance) \<times> RuntimeCall option"

definition demo_transfer ::
  "AccountId \<Rightarrow> AccountId \<Rightarrow> Balance \<Rightarrow> demo_world \<Rightarrow> (nat + unit) \<times> demo_world" where
  "demo_transfer a b v w =
     (if fst w a < v then (Inl 0, w)
      else (Inr (), (let m = (fst w)(a := fst w a - v) in m(b := m b + v)), snd w))"

definition demo_crowdloans :: "demo_world CrowdloanConfig" where
  "demo_crowdloans = \<lparr>
     Currency_balance = (\<lambda>a w. fst w a), Currency_transfer = demo_transfer,
     Preimages_bound = (\<lambda>c w. (Inr 0, (fst w, Some c))),
     Preimages_peek = (\<lambda>_ w. case snd w of None \<Rightarrow> None | Some c \<Rightarrow> if typed_call c then Some c else None),
     Preimages_drop = (\<lambda>_ w. (fst w, None)),
     inc_providers = (\<lambda>_ w. w), dec_providers = (\<lambda>_ w. w),
     sub_account = (\<lambda>i. of_nat (i + 1000)),
     MinimumDeposit = 5, AbsoluteMinimumContribution = 1, MinimumBlockDuration = 1,
     MaximumBlockDuration = 100, RefundContributorsLimit = 2, MaxContributors = 3, cl_now = 0,
     cl_call_allowed = (\<lambda>_ _. True),
     dispatch_other = (\<lambda>_ _ _ s. (Inr (), s))\<rparr>"

lemma demo_sub_account: "valid_id i \<Longrightarrow> unat (sub_account demo_crowdloans i) = i + 1000"
  by (rule of_nat_inverse) (simp_all add: demo_crowdloans_def valid_id_def)

lemma demo_inj: "inj_on (sub_account demo_crowdloans) (Collect valid_id)"
  by (rule inj_onI) (metis add_right_cancel demo_sub_account mem_Collect_eq)

lemma demo_laws: "crowdloan_laws demo_crowdloans 1"
  using demo_inj
  by (auto simp: crowdloan_laws_def transfer_law_def neutral_law_def demo_crowdloans_def
      demo_transfer_def Let_def split: if_splits)

lemma demo_works: "transfer_works demo_crowdloans 1"
  by (auto simp: transfer_works_def demo_crowdloans_def demo_transfer_def)

lemma demo_others: "others_keep_books demo_crowdloans"
  by (simp add: others_keep_books_def keeps_books_def demo_crowdloans_def)

lemma demo_outside: "unat a < 1000 \<Longrightarrow> outside demo_crowdloans (SignedOrigin a)"
  by (auto simp: outside_def is_funds_account_def demo_sub_account)

text \<open>Account 1 opens a crowdloan that is to finalise itself, account 2 contributes the rest.\<close>

definition demo_opened :: "demo_world CrowdloanStorage" where
  "demo_opened = snd (dispatch_with 1 demo_crowdloans (SignedOrigin 1)
     (RC_Crowdloan (Crowdloan_create 10 1 20 50 (Some (RC_Crowdloan (Crowdloan_finalize 0))) None))
     (crowdloan_genesis (\<lambda>_. 1000, None)))"

definition demo_funded :: "demo_world CrowdloanStorage" where
  "demo_funded = snd (dispatch_with 1 demo_crowdloans (SignedOrigin 2)
     (RC_Crowdloan (Crowdloan_contribute 0 12)) demo_opened)"

lemmas crowdloan_eval = demo_crowdloans_def demo_transfer_def crowdloan_genesis_def crowdloan_create_def
  crowdloan_contribute_def action_defs crowdloan_signed_def signer_of_def ensure_valid_end_def
  bound_call_def crowdloan_event_def crowdloan_transfer_def Crowdloans_insert_def
  Contributions_insert_def Contributions_get_def ensure_crowdloan_exists_def checked_sub_def
  checked_add_def typed_call_def Let_def

definition demo_info :: "Balance \<Rightarrow> nat \<Rightarrow> CrowdloanInfo" where
  "demo_info raised count = \<lparr>cl_creator = 1, cl_deposit = 10, cl_min_contribution = 1, cl_end = 50,
     cl_cap = 20, cl_funds_account = 1000, cl_raised = raised, cl_target_address = None,
     cl_call = Some 0, cl_finalized = False, cl_contributors_count = count\<rparr>"

lemma demo_opened_run:
  "dispatch_with 1 demo_crowdloans (SignedOrigin 1)
     (RC_Crowdloan (Crowdloan_create 10 1 20 50 (Some (RC_Crowdloan (Crowdloan_finalize 0))) None))
     (crowdloan_genesis (\<lambda>_. 1000, None)) = (Inr (), demo_opened)"
  "demo_opened = \<lparr>Crowdloans = [0 \<mapsto> demo_info 10 1], NextCrowdloanId = 1,
     Contributions = (\<lambda>_. [])(0 := [(1, 10)]), CurrentCrowdloanId = None, HasMigrationRun = False,
     cl_world = ((\<lambda>_. 1000)(1 := 990, 1000 := 1010), Some (RC_Crowdloan (Crowdloan_finalize 0))),
     cl_events = [Crowdloan_Created 0 1 50 20]\<rparr>"
  by (simp_all add: demo_opened_def crowdloan_eval demo_info_def)

lemma demo_funded_run:
  "dispatch_with 1 demo_crowdloans (SignedOrigin 2) (RC_Crowdloan (Crowdloan_contribute 0 12)) demo_opened =
     (Inr (), demo_funded)"
  "demo_funded = \<lparr>Crowdloans = [0 \<mapsto> demo_info 20 (Suc 1)], NextCrowdloanId = 1,
     Contributions = (\<lambda>_. [])(0 := [(1, 10), (2, 10)]), CurrentCrowdloanId = None, HasMigrationRun = False,
     cl_world = ((\<lambda>_. 1000)(1 := 990, 2 := 990, 1000 := 1020), Some (RC_Crowdloan (Crowdloan_finalize 0))),
     cl_events = [Crowdloan_Created 0 1 50 20, Crowdloan_Contributed 0 2 10]\<rparr>"
  by (simp_all add: demo_funded_def demo_opened_run(2) crowdloan_eval demo_info_def fun_upd_twist)

lemma demo_funded_reachable: "crowdloan_reachable demo_crowdloans demo_funded"
proof -
  have now: "demo_crowdloans\<lparr>cl_now := 0\<rparr> = demo_crowdloans" by (simp add: demo_crowdloans_def)
  have "crowdloan_reachable demo_crowdloans demo_opened"
    using call [OF start, of demo_crowdloans "SignedOrigin 1" 1 0] demo_opened_run(1)
    by (simp add: now demo_outside del: dispatch_with.simps)
  from call [OF this, of "SignedOrigin 2" 1 0] demo_funded_run(1) show ?thesis
    by (simp add: now demo_outside del: dispatch_with.simps)
qed

lemma demo_refund_due:
  "Contributions_get 0 2 demo_funded = Some 10" "(2 :: AccountId) \<noteq> 1"
  "Currency_balance demo_crowdloans 2 (cl_world demo_funded) + 10 = 1000"
  by (simp_all add: demo_funded_run(2) Contributions_get_def demo_crowdloans_def)

section \<open>Properties\<close>

text \<open>C14: While a crowdloan is not finalised, whatever calls were made on any crowdloan in whatever
  order, including stored calls that come back to the pallet, the amount raised is the sum of the
  recorded contributions, the number of contributors is recorded, the cap is not exceeded, and the
  funds account holds at least the amount raised.\<close>

theorem crowdloan_escrow:
  assumes "crowdloan_laws cfg ed" and "others_keep_books cfg" and "crowdloan_reachable cfg s"
    and "Crowdloans s i = Some c" and "\<not> cl_finalized c"
  shows "sum_list (map snd (Contributions s i)) = cl_raised c \<and>
    length (Contributions s i) = cl_contributors_count c \<and> cl_raised c \<le> cl_cap c \<and>
    cl_raised c \<le> Currency_balance cfg (cl_funds_account c) (cl_world s)"
proof -
  note inv = crowdloan_reachable_inv [OF assms(1-3)]
  from inv_books [OF inv assms(4) _ assms(5)] inv_exists [OF inv assms(4)] show ?thesis
    by (simp add: books_ok_def Let_def contributed_def balance_of_def)
qed

theorem crowdloan_escrow_witness:
  "crowdloan_reachable demo_crowdloans demo_funded \<and> Crowdloans demo_funded 0 = Some (demo_info 20 (Suc 1)) \<and>
   sum_list (map snd (Contributions demo_funded 0)) = 20 \<and>
   20 \<le> Currency_balance demo_crowdloans 1000 (cl_world demo_funded)"
proof -
  have c: "Crowdloans demo_funded 0 = Some (demo_info 20 (Suc 1))" by (simp add: demo_funded_run(2))
  have "\<not> cl_finalized (demo_info 20 (Suc 1))" by (simp add: demo_info_def)
  from crowdloan_escrow [OF demo_laws demo_others demo_funded_reachable c this] c demo_funded_reachable
  show ?thesis by (simp add: demo_info_def)
qed

text \<open>C15: In every reachable storage a contributor of a crowdloan that is not finalised, other than
  its creator, can withdraw: the call succeeds, pays exactly the recorded contribution and removes
  the record.\<close>

theorem contributor_can_withdraw:
  assumes "crowdloan_laws cfg ed" and "transfer_works cfg ed" and "others_keep_books cfg"
    and "crowdloan_reachable cfg s" and "Crowdloans s i = Some c" and "\<not> cl_finalized c"
    and "Contributions_get i who s = Some v" and "0 < v" and "who \<noteq> cl_creator c"
    and "ed \<le> Currency_balance cfg who (cl_world s) + v"
  shows "\<exists>s'. crowdloan_withdraw cfg (SignedOrigin who) i s = (Inr (), s') \<and>
    Currency_balance cfg who (cl_world s') = Currency_balance cfg who (cl_world s) + v \<and>
    Contributions_get i who s' = None"
  using withdraw_pays [OF assms(1,2) crowdloan_reachable_inv [OF assms(1,3,4)] assms(5,6), of who v] assms(7-)
  by (simp add: Contributions_get_def balance_of_def)

theorem contributor_can_withdraw_witness:
  "\<exists>s'. crowdloan_withdraw demo_crowdloans (SignedOrigin 2) 0 demo_funded = (Inr (), s') \<and>
    Currency_balance demo_crowdloans 2 (cl_world s') = 1000 \<and> Contributions_get 0 2 s' = None"
proof -
  have c: "Crowdloans demo_funded 0 = Some (demo_info 20 (Suc 1))" by (simp add: demo_funded_run(2))
  have f: "\<not> cl_finalized (demo_info 20 (Suc 1))" by (simp add: demo_info_def)
  have v: "Contributions_get 0 2 demo_funded = Some 10"
    by (simp add: demo_funded_run(2) Contributions_get_def)
  from contributor_can_withdraw [OF demo_laws demo_works demo_others demo_funded_reachable c f v]
  show ?thesis by (simp add: demo_info_def demo_crowdloans_def demo_funded_run(2))
qed

text \<open>C16: The creator of a crowdloan that is not finalised can refund it in rounds: with rounds enough for
  the number of contributors every round succeeds, each contributor is paid exactly the recorded
  contribution, and only the creator's contribution is left, which is then the amount raised.\<close>

theorem refunds_complete:
  assumes "crowdloan_laws cfg ed" and "transfer_works cfg ed" and "others_keep_books cfg"
    and "crowdloan_reachable cfg s" and "Crowdloans s i = Some c" and "\<not> cl_finalized c"
    and "\<not> is_funds_account cfg (cl_creator c)" and "RefundContributorsLimit cfg < 2 ^ 32"
    and "\<forall>(a, v) \<in> set (Contributions s i). ed \<le> v"
    and "length (Contributions s i) \<le> n * RefundContributorsLimit cfg"
  shows "\<exists>s' c'. refund_rounds n cfg (cl_creator c) i s = Some s' \<and> Crowdloans s' i = Some c' \<and>
    Contributions s' i = [(cl_creator c, cl_raised c')] \<and>
    (\<forall>a v. Contributions_get i a s = Some v \<longrightarrow> a \<noteq> cl_creator c \<longrightarrow>
       Currency_balance cfg a (cl_world s') = Currency_balance cfg a (cl_world s) + v)"
proof -
  let ?xs = "Contributions s i" and ?who = "cl_creator c"
  note inv = crowdloan_reachable_inv [OF assms(1,3,4)]
  have "length (others_of ?who ?xs) \<le> n * RefundContributorsLimit cfg"
    using assms(10) length_filter_le [of _ ?xs] by (rule order.trans [rotated])
  moreover have "\<forall>(a, v) \<in> set (others_of ?who ?xs). ed \<le> v" using assms(9) by auto
  ultimately obtain s' c' where rounds: "refund_rounds n cfg ?who i s = Some s'"
    and s': "crowdloan_inv cfg {} s'" "Crowdloans s' i = Some c'" "\<not> cl_finalized c'" "cl_creator c' = ?who"
      "others_of ?who (Contributions s' i) = []"
    and paid: "\<And>a. \<not> is_funds_account cfg a \<Longrightarrow>
      balance_of cfg s' a = balance_of cfg s a + share (others_of ?who ?xs) a"
    using rounds_finish [OF assms(1,2,8,7) inv assms(5,6) refl] by blast
  have "Contributions s' i = [(?who, cl_raised c')]" using only_creator [OF s'(1-3)] s'(4,5) by simp
  moreover have "Currency_balance cfg a (cl_world s') = Currency_balance cfg a (cl_world s) + v"
    if "Contributions_get i a s = Some v" "a \<noteq> ?who" for a v
  proof -
    have "all_outside cfg ?xs"
      using inv_books [OF inv assms(5) _ assms(6)] by (simp add: books_ok_def Let_def)
    then have "\<not> is_funds_account cfg a"
      using that(1) by (force simp: all_outside_def Contributions_get_def dest: map_of_SomeD)
    from paid [OF this] share_others [OF that(2), of ?xs] that(1) show ?thesis
      by (simp add: balance_of_def share_def Contributions_get_def)
  qed
  ultimately show ?thesis using rounds s'(2) by blast
qed

theorem refunds_complete_witness:
  "\<exists>s' c'. refund_rounds 1 demo_crowdloans 1 0 demo_funded = Some s' \<and> Crowdloans s' 0 = Some c' \<and>
    Contributions s' 0 = [(1, cl_raised c')] \<and> Currency_balance demo_crowdloans 2 (cl_world s') = 1000"
proof -
  have c: "Crowdloans demo_funded 0 = Some (demo_info 20 (Suc 1))" by (simp add: demo_funded_run(2))
  have f: "\<not> cl_finalized (demo_info 20 (Suc 1))" by (simp add: demo_info_def)
  have out: "\<not> is_funds_account demo_crowdloans (cl_creator (demo_info 20 (Suc 1)))"
    using demo_outside [of 1] by (simp add: outside_def demo_info_def)
  have limit: "RefundContributorsLimit demo_crowdloans < 2 ^ 32" by (simp add: demo_crowdloans_def)
  have least: "\<forall>(a, v) \<in> set (Contributions demo_funded 0). 1 \<le> v" by (simp add: demo_funded_run(2))
  have size: "length (Contributions demo_funded 0) \<le> 1 * RefundContributorsLimit demo_crowdloans"
    by (simp add: demo_funded_run(2) demo_crowdloans_def)
  from refunds_complete [OF demo_laws demo_works demo_others demo_funded_reachable c f out limit least size]
  obtain s' c' where "refund_rounds 1 demo_crowdloans 1 0 demo_funded = Some s'" "Crowdloans s' 0 = Some c'"
    "Contributions s' 0 = [(1, cl_raised c')]"
    "\<And>a v. Contributions_get 0 a demo_funded = Some v \<Longrightarrow> a \<noteq> 1 \<Longrightarrow>
       Currency_balance demo_crowdloans a (cl_world s') = Currency_balance demo_crowdloans a (cl_world demo_funded) + v"
    by (auto simp: demo_info_def)
  then show ?thesis
    by (metis (no_types) demo_refund_due)
qed

text \<open>A crowdloan whose stored call is its own finalisation, without a target address, is never
  finalised: however many storage layers are left, the dispatch by its creator ends with the error
  that they are used up, and changes nothing.\<close>

theorem self_finalisation_refused:
  assumes "finalizes_itself cfg who i s"
  shows "dispatch_with n cfg (SignedOrigin who) (RC_Crowdloan (Crowdloan_finalize i)) s =
    (Inl Crowdloan_LimitReached, s)"
proof -
  have "cl_call_allowed cfg (RC_Crowdloan (Crowdloan_finalize i)) (cl_world s)"
    using assms by (auto simp: finalizes_itself_def)
  with self_finalize_limit [OF assms] show ?thesis by (cases n) (simp_all del: crowdloan_call.simps)
qed

theorem self_finalisation_refused_witness:
  "finalizes_itself demo_crowdloans 1 0 demo_funded \<and>
   dispatch_with 255 demo_crowdloans (SignedOrigin 1) (RC_Crowdloan (Crowdloan_finalize 0)) demo_funded =
     (Inl Crowdloan_LimitReached, demo_funded)"
proof -
  have "finalizes_itself demo_crowdloans 1 0 demo_funded"
    by (simp add: finalizes_itself_def demo_funded_run(2) demo_info_def demo_crowdloans_def typed_call_def)
  from this self_finalisation_refused [OF this, of 255] show ?thesis by simp
qed

text \<open>C17: The numbers in the storage of the crowdloan pallet keep the width the source gives them,
  64 bits for balances and 32 bits for the rest, under every call with arguments of that width.\<close>

theorem crowdloan_storage_typed:
  assumes "typed_environment cfg" and "typed_call c" and "typed s"
    and "dispatch_with n cfg origin c s = (r, s')"
  shows "typed s'"
  using dispatch_typed [OF assms(1,2)] assms(3,4) unfolding keeps_typed_def by blast

theorem crowdloan_storage_typed_witness: "typed demo_opened \<and> typed demo_funded"
proof -
  have env: "typed_environment demo_crowdloans"
    by (auto simp: typed_environment_def demo_crowdloans_def keeps_typed_def
        split: option.splits if_splits)
  have call: "typed_call (RC_Crowdloan (Crowdloan_contribute 0 12))" by (simp add: typed_call_def)
  have start: "typed demo_opened"
    by (simp add: typed_def typed_info_def typed_contributions_def demo_opened_run(2) demo_info_def)
  from start crowdloan_storage_typed [OF env call start demo_funded_run(1)] show ?thesis by simp
qed

end
