(* ===== verification/Pallet_Migrations.thy ===== *)
theory Pallet_Migrations
  imports Pallet_Try_State
begin

text \<open>
  The storage migrations of the pallet, run by \<open>on_runtime_upgrade\<close>.

  Before an upgrade an entry may lie under the key of an earlier hasher, and the bytes under a key may
  have an earlier layout.  \<open>Upgrade\<close> keeps the bytes of the maps that changed hasher under the old keys
  (\<open>legacy_entries\<close>), the bytes of the five maps that changed layout under the current keys
  (\<open>entries\<close>), and everything else as typed storage.  \<open>view\<close> is the storage as the rest of the pallet
  reads it: bytes that do not decode read as absent.  The encoding is a parameter, with byte strings
  an abstract type.  The weights that the migrations return are left out.
\<close>

section \<open>Earlier layouts\<close>

record ChainSubnetV15 =
  s15_id :: SubnetId
  s15_owner :: AccountId
  s15_domain :: SubnetDomain
  s15_proof_system :: ProofSystem
  s15_creation_burn :: Balance
  s15_min_miner_bond :: Balance
  s15_max_miner_bond :: Balance
  s15_min_validator_stake :: Balance
  s15_active :: bool

record ChainMinerV7 =
  m7_id :: MinerId
  m7_operator :: AccountId
  m7_subnet_id :: SubnetId
  m7_model_commitment :: Commitment
  m7_proof_system :: ProofSystem
  m7_bond :: Balance
  m7_status :: RegistryStatus

record ChainValidatorV7 =
  v7_id :: ValidatorId
  v7_operator :: AccountId
  v7_subnet_id :: SubnetId
  v7_stake :: Balance
  v7_status :: RegistryStatus

record ChainMinerV9 =
  m9_id :: MinerId
  m9_operator_commitment :: Commitment
  m9_subnet_id :: SubnetId
  m9_model_commitment :: Commitment
  m9_proof_system :: ProofSystem
  m9_bond :: Balance
  m9_status :: RegistryStatus

record ChainValidatorV9 =
  v9_id :: ValidatorId
  v9_operator_commitment :: Commitment
  v9_subnet_id :: SubnetId
  v9_stake :: Balance
  v9_status :: RegistryStatus

record ChainProofRecordV4 =
  p4_request_id :: RequestId
  p4_subnet_id :: SubnetId
  p4_miner_id :: MinerId
  p4_validator_id :: ValidatorId
  p4_input_commitment :: Commitment
  p4_output_commitment :: Commitment
  p4_model_commitment :: Commitment
  p4_proof :: ProofEnvelope
  p4_proof_system :: ProofSystem
  p4_proof_size_bytes :: nat
  p4_verification_latency_ms :: nat
  p4_submitted_at :: BlockNumber

record ChainProofRecordV11 =
  p11_request_id :: RequestId
  p11_subnet_id :: SubnetId
  p11_miner_id :: MinerId
  p11_validator_id :: ValidatorId
  p11_input_commitment :: Commitment
  p11_output_commitment :: Commitment
  p11_model_commitment :: Commitment
  p11_proof :: ProofEnvelope
  p11_proof_system :: ProofSystem
  p11_proof_size_bytes :: nat
  p11_verification_latency_ms :: nat
  p11_submitted_at :: BlockNumber
  p11_accepted_at :: BlockNumber

record ChainProofRecordV14 =
  p14_request_id :: RequestId
  p14_subnet_id :: SubnetId
  p14_assignment_commitment :: Commitment
  p14_input_commitment :: Commitment
  p14_output_commitment :: Commitment
  p14_model_commitment :: Commitment
  p14_proof :: ProofEnvelope
  p14_proof_system :: ProofSystem
  p14_proof_size_bytes :: nat
  p14_verification_latency_ms :: nat
  p14_submitted_at :: BlockNumber
  p14_accepted_at :: BlockNumber

record ChainInferenceRequestV8 =
  r8_request_id :: RequestId
  r8_user :: AccountId
  r8_subnet_id :: SubnetId
  r8_miner_id :: MinerId
  r8_validator_id :: ValidatorId
  r8_input_commitment :: Commitment
  r8_payment :: Balance
  r8_validator_fee_bps :: nat
  r8_treasury_fee_bps :: nat
  r8_created_at :: BlockNumber
  r8_status :: InferenceRequestStatus

record ChainInferenceRequestV10 =
  r10_request_id :: RequestId
  r10_user_commitment :: Commitment
  r10_subnet_id :: SubnetId
  r10_miner_id :: MinerId
  r10_validator_id :: ValidatorId
  r10_input_commitment :: Commitment
  r10_payment :: Balance
  r10_validator_fee_bps :: nat
  r10_treasury_fee_bps :: nat
  r10_created_at :: BlockNumber
  r10_status :: InferenceRequestStatus

record ChainInferenceRequestV12 =
  r12_request_id :: RequestId
  r12_user_commitment :: Commitment
  r12_subnet_id :: SubnetId
  r12_assignment_commitment :: Commitment
  r12_input_commitment :: Commitment
  r12_payment :: Balance
  r12_validator_fee_bps :: nat
  r12_treasury_fee_bps :: nat
  r12_created_at :: BlockNumber
  r12_status :: InferenceRequestStatus

record ChainInferenceRequestV13 =
  r13_request_id :: RequestId
  r13_user_commitment :: Commitment
  r13_subnet_id :: SubnetId
  r13_assignment_commitment :: Commitment
  r13_input_commitment :: Commitment
  r13_payment :: Balance
  r13_validator_fee_bps :: nat
  r13_treasury_fee_bps :: nat
  r13_timing_commitment :: Commitment
  r13_status :: InferenceRequestStatus

section \<open>Storage during an upgrade\<close>

datatype StorageItem =
    I_Subnets | I_Miners | I_Validators | I_InferenceRequests | I_ProofRecords
  | I_MinerLockedBond | I_ValidatorLockedStake
  | I_MinerIdentityCommitments | I_MinerIdentitySignatureBundles | I_MinerIdentitySignatureChallenges
  | I_ValidatorIdentityCommitments | I_ValidatorIdentitySignatureBundles
  | I_ValidatorIdentitySignatureChallenges

record 'raw LayoutCodec =
  enc_subnet :: "ChainSubnet \<Rightarrow> 'raw"
  dec_subnet :: "'raw \<Rightarrow> ChainSubnet option"
  enc_miner :: "ChainMiner \<Rightarrow> 'raw"
  dec_miner :: "'raw \<Rightarrow> ChainMiner option"
  enc_validator :: "ChainValidator \<Rightarrow> 'raw"
  dec_validator :: "'raw \<Rightarrow> ChainValidator option"
  enc_request :: "ChainInferenceRequest \<Rightarrow> 'raw"
  dec_request :: "'raw \<Rightarrow> ChainInferenceRequest option"
  enc_proof :: "ChainProofRecord \<Rightarrow> 'raw"
  dec_proof :: "'raw \<Rightarrow> ChainProofRecord option"
  dec_subnet_v15 :: "'raw \<Rightarrow> ChainSubnetV15 option"
  dec_miner_v7 :: "'raw \<Rightarrow> ChainMinerV7 option"
  dec_validator_v7 :: "'raw \<Rightarrow> ChainValidatorV7 option"
  dec_miner_v9 :: "'raw \<Rightarrow> ChainMinerV9 option"
  dec_validator_v9 :: "'raw \<Rightarrow> ChainValidatorV9 option"
  dec_proof_v4 :: "'raw \<Rightarrow> ChainProofRecordV4 option"
  dec_proof_v11 :: "'raw \<Rightarrow> ChainProofRecordV11 option"
  dec_proof_v14 :: "'raw \<Rightarrow> ChainProofRecordV14 option"
  dec_request_v8 :: "'raw \<Rightarrow> ChainInferenceRequestV8 option"
  dec_request_v10 :: "'raw \<Rightarrow> ChainInferenceRequestV10 option"
  dec_request_v12 :: "'raw \<Rightarrow> ChainInferenceRequestV12 option"
  dec_request_v13 :: "'raw \<Rightarrow> ChainInferenceRequestV13 option"
  dec_balance :: "'raw \<Rightarrow> Balance option"
  dec_identity :: "'raw \<Rightarrow> ChainIdentityCommitments option"
  dec_bundle :: "'raw \<Rightarrow> SignatureBundle option"
  dec_commitment :: "'raw \<Rightarrow> Commitment option"

text \<open>What is encoded in the current layout decodes to itself.\<close>

definition layout_laws :: "'raw LayoutCodec \<Rightarrow> bool" where
  "layout_laws cdc \<longleftrightarrow>
     (\<forall>x. dec_subnet cdc (enc_subnet cdc x) = Some x) \<and> (\<forall>x. dec_miner cdc (enc_miner cdc x) = Some x) \<and>
     (\<forall>x. dec_validator cdc (enc_validator cdc x) = Some x) \<and>
     (\<forall>x. dec_request cdc (enc_request cdc x) = Some x) \<and> (\<forall>x. dec_proof cdc (enc_proof cdc x) = Some x)"

record ('raw, 'cur) Upgrade =
  on_chain_storage_version :: nat
  legacy_entries :: "StorageItem \<Rightarrow> nat \<rightharpoonup> 'raw"
  entries :: "StorageItem \<Rightarrow> nat \<rightharpoonup> 'raw"
  typed_storage :: "'cur Storage"

definition read_entry :: "('raw \<Rightarrow> 'a option) \<Rightarrow> StorageItem \<Rightarrow> ('raw, 'cur) Upgrade \<Rightarrow> nat \<rightharpoonup> 'a" where
  "read_entry dec item u i = Option.bind (entries u item i) dec"

definition view :: "'raw LayoutCodec \<Rightarrow> ('raw, 'cur) Upgrade \<Rightarrow> 'cur Storage" where
  "view cdc u = (typed_storage u)\<lparr>
     Subnets := read_entry (dec_subnet cdc) I_Subnets u,
     Miners := read_entry (dec_miner cdc) I_Miners u,
     Validators := read_entry (dec_validator cdc) I_Validators u,
     ProofRecords := read_entry (dec_proof cdc) I_ProofRecords u,
     InferenceRequests := read_entry (dec_request cdc) I_InferenceRequests u\<rparr>"

definition on_typed ::
  "('cur Storage \<Rightarrow> 'cur Storage) \<Rightarrow> ('raw, 'cur) Upgrade \<Rightarrow> ('raw, 'cur) Upgrade" where
  "on_typed f u = u\<lparr>typed_storage := f (typed_storage u)\<rparr>"

definition put_entry ::
  "StorageItem \<Rightarrow> nat \<Rightarrow> 'raw option \<Rightarrow> ('raw, 'cur) Upgrade \<Rightarrow> ('raw, 'cur) Upgrade" where
  "put_entry item i bs u = u\<lparr>entries := (entries u)(item := (entries u item)(i := bs))\<rparr>"

definition kill_legacy :: "StorageItem \<Rightarrow> nat \<Rightarrow> ('raw, 'cur) Upgrade \<Rightarrow> ('raw, 'cur) Upgrade" where
  "kill_legacy item i u =
     u\<lparr>legacy_entries := (legacy_entries u)(item := (legacy_entries u item)(i := None))\<rparr>"

text \<open>The four loop bodies that the migrations repeat: moving the bytes of an entry to its current
  key, moving a decoded value there, rewriting an entry of an earlier layout, and \<open>mutate\<close>.\<close>

definition move_entry :: "StorageItem \<Rightarrow> nat \<Rightarrow> ('raw, 'cur) Upgrade \<Rightarrow> ('raw, 'cur) Upgrade" where
  "move_entry item i u =
     (case legacy_entries u item i of
        None \<Rightarrow> u
      | Some bs \<Rightarrow> kill_legacy item i (put_entry item i (Some bs) u))"

definition move_value ::
  "StorageItem \<Rightarrow> ('raw \<Rightarrow> 'a option) \<Rightarrow> (nat \<Rightarrow> 'a \<Rightarrow> 'cur Storage \<Rightarrow> 'cur Storage) \<Rightarrow> nat \<Rightarrow>
   ('raw, 'cur) Upgrade \<Rightarrow> ('raw, 'cur) Upgrade" where
  "move_value item dec insert_value i u =
     (case Option.bind (legacy_entries u item i) dec of
        None \<Rightarrow> u
      | Some x \<Rightarrow> kill_legacy item i (on_typed (insert_value i x) u))"

definition rewrite_entry ::
  "StorageItem \<Rightarrow> ('raw \<Rightarrow> 'a option) \<Rightarrow> ('a \<Rightarrow> 'raw) \<Rightarrow> nat \<Rightarrow>
   ('raw, 'cur) Upgrade \<Rightarrow> ('raw, 'cur) Upgrade" where
  "rewrite_entry item dec f i u =
     (case read_entry dec item u i of None \<Rightarrow> u | Some old \<Rightarrow> put_entry item i (Some (f old)) u)"

definition mutate_entry ::
  "StorageItem \<Rightarrow> ('raw \<Rightarrow> 'a option) \<Rightarrow> ('a \<Rightarrow> 'raw) \<Rightarrow> ('a \<Rightarrow> 'a) \<Rightarrow> nat \<Rightarrow>
   ('raw, 'cur) Upgrade \<Rightarrow> ('raw, 'cur) Upgrade" where
  "mutate_entry item dec enc f i u =
     put_entry item i (map_option (\<lambda>x. enc (f x)) (read_entry dec item u i)) u"

section \<open>Moving entries to their current keys\<close>

definition migrate_subnet_storage_keys ::
  "nat \<Rightarrow> ('raw, 'cur) Upgrade \<Rightarrow> ('raw, 'cur) Upgrade" where
  "migrate_subnet_storage_keys on_chain u =
     (if on_chain \<ge> 22 then u
      else fold (move_entry I_Subnets) [0..<SubnetCount (typed_storage u)] u)"

definition migrate_registry_storage_keys ::
  "nat \<Rightarrow> ('raw, 'cur) Upgrade \<Rightarrow> ('raw, 'cur) Upgrade" where
  "migrate_registry_storage_keys on_chain u =
     (if on_chain \<ge> 24 then u
      else fold (move_entry I_Validators) [0..<ValidatorCount (typed_storage u)]
             (fold (move_entry I_Miners) [0..<MinerCount (typed_storage u)] u))"

definition migrate_request_and_proof_storage_keys ::
  "nat \<Rightarrow> ('raw, 'cur) Upgrade \<Rightarrow> ('raw, 'cur) Upgrade" where
  "migrate_request_and_proof_storage_keys on_chain u =
     (if on_chain \<ge> 25 then u
      else fold (\<lambda>i u. move_entry I_ProofRecords i (move_entry I_InferenceRequests i u))
             [0..<RequestCount (typed_storage u)] u)"

definition migrate_capital_record_storage_keys ::
  "'raw LayoutCodec \<Rightarrow> nat \<Rightarrow> ('raw, 'cur) Upgrade \<Rightarrow> ('raw, 'cur) Upgrade" where
  "migrate_capital_record_storage_keys cdc on_chain u =
     (if on_chain \<ge> 20 then u
      else
        let u = fold (move_value I_MinerLockedBond (dec_balance cdc)
                  (\<lambda>i bond s. s\<lparr>MinerLockedBond := (MinerLockedBond s)(i \<mapsto> bond)\<rparr>))
                (map fst (miner_records (view cdc u))) u
        in fold (move_value I_ValidatorLockedStake (dec_balance cdc)
             (\<lambda>i stake s. s\<lparr>ValidatorLockedStake := (ValidatorLockedStake s)(i \<mapsto> stake)\<rparr>))
             (map fst (validator_records (view cdc u))) u)"

definition migrate_miner_identity_keys ::
  "'raw LayoutCodec \<Rightarrow> MinerId \<Rightarrow> ('raw, 'cur) Upgrade \<Rightarrow> ('raw, 'cur) Upgrade" where
  "migrate_miner_identity_keys cdc i u =
     move_value I_MinerIdentitySignatureChallenges (dec_commitment cdc)
       (\<lambda>i x s. s\<lparr>MinerIdentitySignatureChallenges := (MinerIdentitySignatureChallenges s)(i \<mapsto> x)\<rparr>) i
     (move_value I_MinerIdentitySignatureBundles (dec_bundle cdc)
       (\<lambda>i x s. s\<lparr>MinerIdentitySignatureBundles := (MinerIdentitySignatureBundles s)(i \<mapsto> x)\<rparr>) i
     (move_value I_MinerIdentityCommitments (dec_identity cdc)
       (\<lambda>i x s. s\<lparr>MinerIdentityCommitments := (MinerIdentityCommitments s)(i \<mapsto> x)\<rparr>) i u))"

definition migrate_validator_identity_keys ::
  "'raw LayoutCodec \<Rightarrow> ValidatorId \<Rightarrow> ('raw, 'cur) Upgrade \<Rightarrow> ('raw, 'cur) Upgrade" where
  "migrate_validator_identity_keys cdc i u =
     move_value I_ValidatorIdentitySignatureChallenges (dec_commitment cdc)
       (\<lambda>i x s. s\<lparr>ValidatorIdentitySignatureChallenges :=
          (ValidatorIdentitySignatureChallenges s)(i \<mapsto> x)\<rparr>) i
     (move_value I_ValidatorIdentitySignatureBundles (dec_bundle cdc)
       (\<lambda>i x s. s\<lparr>ValidatorIdentitySignatureBundles :=
          (ValidatorIdentitySignatureBundles s)(i \<mapsto> x)\<rparr>) i
     (move_value I_ValidatorIdentityCommitments (dec_identity cdc)
       (\<lambda>i x s. s\<lparr>ValidatorIdentityCommitments := (ValidatorIdentityCommitments s)(i \<mapsto> x)\<rparr>) i u))"

definition migrate_identity_storage_keys ::
  "'raw LayoutCodec \<Rightarrow> nat \<Rightarrow> ('raw, 'cur) Upgrade \<Rightarrow> ('raw, 'cur) Upgrade" where
  "migrate_identity_storage_keys cdc on_chain u =
     (if on_chain \<ge> 21 then u
      else
        let u = fold (migrate_miner_identity_keys cdc) (map fst (miner_records (view cdc u))) u
        in fold (migrate_validator_identity_keys cdc) (map fst (validator_records (view cdc u))) u)"

section \<open>Rewriting subnets and participants\<close>

definition migrate_inference_accounting_totals ::
  "nat \<Rightarrow> ('raw, 'cur) Upgrade \<Rightarrow> ('raw, 'cur) Upgrade" where
  "migrate_inference_accounting_totals on_chain u =
     (if on_chain \<ge> 26 then u else on_typed (\<lambda>s. snd (clear_inference_accounting_totals s)) u)"

definition migrate_burned_total :: "nat \<Rightarrow> ('raw, 'cur) Upgrade \<Rightarrow> ('raw, 'cur) Upgrade" where
  "migrate_burned_total on_chain u =
     (if on_chain \<ge> 27 then u else on_typed (\<lambda>s. snd (clear_burned_total s)) u)"

definition miner_of_v7 :: "'cur Config \<Rightarrow> ChainMinerV7 \<Rightarrow> ChainMiner" where
  "miner_of_v7 cfg old =
     (let opc = operator_commitment cfg (m7_operator old) in
      \<lparr>cm_id = m7_id old, cm_operator_commitment = opc, cm_subnet_id = m7_subnet_id old,
       cm_model_commitment = m7_model_commitment old, cm_proof_system = m7_proof_system old,
       cm_bond_commitment = miner_bond_commitment cfg (m7_id old) opc (m7_status old),
       cm_status = m7_status old\<rparr>)"

definition validator_of_v7 :: "'cur Config \<Rightarrow> ChainValidatorV7 \<Rightarrow> ChainValidator" where
  "validator_of_v7 cfg old =
     (let opc = operator_commitment cfg (v7_operator old) in
      \<lparr>cv_id = v7_id old, cv_operator_commitment = opc, cv_subnet_id = v7_subnet_id old,
       cv_stake_commitment = validator_stake_commitment cfg (v7_id old) opc (v7_status old),
       cv_status = v7_status old\<rparr>)"

definition migrate_operator_commitments ::
  "'cur Config \<Rightarrow> 'raw LayoutCodec \<Rightarrow> nat \<Rightarrow> ('raw, 'cur) Upgrade \<Rightarrow> ('raw, 'cur) Upgrade" where
  "migrate_operator_commitments cfg cdc on_chain u =
     (if on_chain \<noteq> 7 then u
      else fold (rewrite_entry I_Validators (dec_validator_v7 cdc)
               (\<lambda>old. enc_validator cdc (validator_of_v7 cfg old))) [0..<ValidatorCount (typed_storage u)]
             (fold (rewrite_entry I_Miners (dec_miner_v7 cdc)
               (\<lambda>old. enc_miner cdc (miner_of_v7 cfg old))) [0..<MinerCount (typed_storage u)] u))"

definition miner_of_v9 :: "'cur Config \<Rightarrow> ChainMinerV9 \<Rightarrow> ChainMiner" where
  "miner_of_v9 cfg old =
     \<lparr>cm_id = m9_id old, cm_operator_commitment = m9_operator_commitment old,
      cm_subnet_id = m9_subnet_id old, cm_model_commitment = m9_model_commitment old,
      cm_proof_system = m9_proof_system old,
      cm_bond_commitment =
        miner_bond_commitment cfg (m9_id old) (m9_operator_commitment old) (m9_status old),
      cm_status = m9_status old\<rparr>"

definition validator_of_v9 :: "'cur Config \<Rightarrow> ChainValidatorV9 \<Rightarrow> ChainValidator" where
  "validator_of_v9 cfg old =
     \<lparr>cv_id = v9_id old, cv_operator_commitment = v9_operator_commitment old,
      cv_subnet_id = v9_subnet_id old,
      cv_stake_commitment =
        validator_stake_commitment cfg (v9_id old) (v9_operator_commitment old) (v9_status old),
      cv_status = v9_status old\<rparr>"

definition migrate_participant_capital_commitments ::
  "'cur Config \<Rightarrow> 'raw LayoutCodec \<Rightarrow> nat \<Rightarrow> ('raw, 'cur) Upgrade \<Rightarrow> ('raw, 'cur) Upgrade" where
  "migrate_participant_capital_commitments cfg cdc on_chain u =
     (if on_chain < 8 \<or> on_chain \<ge> 10 then u
      else fold (rewrite_entry I_Validators (dec_validator_v9 cdc)
               (\<lambda>old. enc_validator cdc (validator_of_v9 cfg old))) [0..<ValidatorCount (typed_storage u)]
             (fold (rewrite_entry I_Miners (dec_miner_v9 cdc)
               (\<lambda>old. enc_miner cdc (miner_of_v9 cfg old))) [0..<MinerCount (typed_storage u)] u))"

definition subnet_of_v15 :: "'cur Config \<Rightarrow> ChainSubnetV15 \<Rightarrow> ChainSubnet" where
  "subnet_of_v15 cfg old =
     \<lparr>cs_id = s15_id old, cs_owner_commitment = subnet_owner_commitment cfg (s15_owner old),
      cs_domain = s15_domain old, cs_proof_system = s15_proof_system old,
      cs_policy_commitment = blake2_256 cfg (SubnetPolicyPre (s15_id old) (s15_domain old)
        (s15_proof_system old) (s15_creation_burn old) (MinerRegistrationBurn cfg)
        (s15_min_miner_bond old) (s15_max_miner_bond old) (s15_min_validator_stake old)
        (MaxActiveMinersPerSubnet cfg) (MaxActiveValidatorsPerSubnet cfg)),
      cs_active = s15_active old\<rparr>"

definition migrate_subnet_policy_commitments ::
  "'cur Config \<Rightarrow> 'raw LayoutCodec \<Rightarrow> nat \<Rightarrow> ('raw, 'cur) Upgrade \<Rightarrow> ('raw, 'cur) Upgrade" where
  "migrate_subnet_policy_commitments cfg cdc on_chain u =
     (if on_chain \<ge> 16 then u
      else fold (rewrite_entry I_Subnets (dec_subnet_v15 cdc)
             (\<lambda>old. enc_subnet cdc (subnet_of_v15 cfg old))) [0..<SubnetCount (typed_storage u)] u)"

definition migrate_identity_signature_challenges ::
  "'cur Config \<Rightarrow> 'raw LayoutCodec \<Rightarrow> nat \<Rightarrow> ('raw, 'cur) Upgrade \<Rightarrow> ('raw, 'cur) Upgrade" where
  "migrate_identity_signature_challenges cfg cdc on_chain u =
     (if on_chain \<ge> 17 then u
      else
        let u = on_typed (fold (\<lambda>(i, miner) s.
                  if MinerIdentitySignatureBundles s i \<noteq> None then
                    (case MinerIdentityCommitments s i of
                       None \<Rightarrow> s
                     | Some c \<Rightarrow> s\<lparr>MinerIdentitySignatureChallenges :=
                         (MinerIdentitySignatureChallenges s)(i \<mapsto>
                            miner_identity_signature_challenge cfg i (cm_operator_commitment miner)
                              (shielded_identity_commitment c) (endpoint_commitment c))\<rparr>)
                  else s) (miner_records (view cdc u))) u
        in on_typed (fold (\<lambda>(i, validator) s.
             if ValidatorIdentitySignatureBundles s i \<noteq> None then
               (case ValidatorIdentityCommitments s i of
                  None \<Rightarrow> s
                | Some c \<Rightarrow> s\<lparr>ValidatorIdentitySignatureChallenges :=
                    (ValidatorIdentitySignatureChallenges s)(i \<mapsto>
                       validator_identity_signature_challenge cfg i (cv_operator_commitment validator)
                         (shielded_identity_commitment c) (endpoint_commitment c))\<rparr>)
             else s) (validator_records (view cdc u))) u)"

section \<open>Rewriting requests\<close>

definition zero_accounting :: ChainAccounting where
  "zero_accounting = \<lparr>total_inference_escrowed = 0, total_miner_payouts = 0,
     total_validator_fees = 0, total_treasury_fees = 0, total_inference_refunded = 0,
     legacy_migration_failures = 0\<rparr>"

definition checked_accounting_add :: "Balance \<Rightarrow> Balance \<Rightarrow> DispatchError + Balance" where
  "checked_accounting_add so_far amount =
     ok_or_r (checked_add balance_bits so_far amount) (err Error_ArithmeticOverflow)"

definition record_legacy_request_accounting ::
  "ChainAccounting \<Rightarrow> Balance \<Rightarrow> nat \<Rightarrow> nat \<Rightarrow> InferenceRequestStatus \<Rightarrow> DispatchError + ChainAccounting"
where
  "record_legacy_request_accounting acc pay vbps tbps status =
     bind_r (checked_accounting_add (total_inference_escrowed acc) pay) (\<lambda>escrowed.
     let acc = acc\<lparr>total_inference_escrowed := escrowed\<rparr> in
     case status of
       Request_Settled \<Rightarrow>
         bind_r (payment_split pay vbps tbps) (\<lambda>(miner_pay, vfee, tfee).
         bind_r (checked_accounting_add (total_miner_payouts acc) miner_pay) (\<lambda>payouts.
         bind_r (checked_accounting_add (total_validator_fees acc) vfee) (\<lambda>vfees.
         bind_r (checked_accounting_add (total_treasury_fees acc) tfee) (\<lambda>tfees.
         Inr (acc\<lparr>total_miner_payouts := payouts, total_validator_fees := vfees,
                  total_treasury_fees := tfees\<rparr>)))))
     | Request_Pending \<Rightarrow> Inr acc
     | _ \<Rightarrow>
         bind_r (checked_accounting_add (total_inference_refunded acc) pay) (\<lambda>refunded.
         Inr (acc\<lparr>total_inference_refunded := refunded\<rparr>)))"

definition put_inference_accounting ::
  "ChainAccounting \<Rightarrow> nat \<Rightarrow> ('raw, 'cur) Upgrade \<Rightarrow> ('raw, 'cur) Upgrade" where
  "put_inference_accounting acc failures u =
     on_typed (\<lambda>s. (snd (clear_inference_accounting_totals s))
                 \<lparr>LegacyAccountingMigrationFailures := failures\<rparr>) u"

definition clear_pending_assignment_counters ::
  "'raw LayoutCodec \<Rightarrow> ('raw, 'cur) Upgrade \<Rightarrow> ('raw, 'cur) Upgrade" where
  "clear_pending_assignment_counters cdc u =
     (let u = on_typed (fold (\<lambda>(i, _) s.
                s\<lparr>PendingMinerRequests := (PendingMinerRequests s)(i := None)\<rparr>)
                (miner_records (view cdc u))) u
      in on_typed (fold (\<lambda>(i, _) s.
           s\<lparr>PendingValidatorRequests := (PendingValidatorRequests s)(i := None)\<rparr>)
           (validator_records (view cdc u))) u)"

text \<open>The loop of the four request migrations.  \<open>paid\<close> gives payment and fee shares of an old record,
  \<open>assigned\<close> its miner and validator where the migration rebuilds the pending counters, and \<open>conv\<close>
  the current record.  A failed counter update is ignored, as in the code.\<close>

definition migrate_request_entry ::
  "'raw LayoutCodec \<Rightarrow> ('raw \<Rightarrow> 'o option) \<Rightarrow> ('o \<Rightarrow> Balance \<times> nat \<times> nat) \<Rightarrow>
   ('o \<Rightarrow> (MinerId \<times> ValidatorId) option) \<Rightarrow> ('o \<Rightarrow> ChainInferenceRequest) \<Rightarrow> RequestId \<Rightarrow>
   ChainAccounting \<times> nat \<times> ('raw, 'cur) Upgrade \<Rightarrow> ChainAccounting \<times> nat \<times> ('raw, 'cur) Upgrade" where
  "migrate_request_entry cdc dec paid assigned conv i = (\<lambda>(acc, failures, u).
     case read_entry dec I_InferenceRequests u i of
       None \<Rightarrow> (acc, failures, u)
     | Some old \<Rightarrow>
         let (pay, vbps, tbps) = paid old;
             status = cr_status (conv old);
             (acc, failures) =
               (case record_legacy_request_accounting acc pay vbps tbps status of
                  Inl _ \<Rightarrow> (acc, saturating_add 32 failures 1)
                | Inr next \<Rightarrow> (next, failures));
             u = (case assigned old of
                    Some (mid, vid) \<Rightarrow>
                      if status = Request_Pending
                      then on_typed (\<lambda>s. snd (increment_pending_assignment mid vid s)) u else u
                  | None \<Rightarrow> u)
         in (acc, failures, put_entry I_InferenceRequests i (Some (enc_request cdc (conv old))) u))"

definition migrate_request_entries ::
  "'raw LayoutCodec \<Rightarrow> ('raw \<Rightarrow> 'o option) \<Rightarrow> ('o \<Rightarrow> Balance \<times> nat \<times> nat) \<Rightarrow>
   ('o \<Rightarrow> (MinerId \<times> ValidatorId) option) \<Rightarrow> ('o \<Rightarrow> ChainInferenceRequest) \<Rightarrow>
   ('raw, 'cur) Upgrade \<Rightarrow> ('raw, 'cur) Upgrade" where
  "migrate_request_entries cdc dec paid assigned conv u =
     (case fold (migrate_request_entry cdc dec paid assigned conv)
        [0..<RequestCount (typed_storage u)] (zero_accounting, 0, u) of
        (acc, failures, u') \<Rightarrow> put_inference_accounting acc failures u')"

definition request_of_v8 :: "'cur Config \<Rightarrow> ChainInferenceRequestV8 \<Rightarrow> ChainInferenceRequest" where
  "request_of_v8 cfg old =
     \<lparr>cr_request_id = r8_request_id old, cr_user_commitment = request_user_commitment cfg (r8_user old),
      cr_subnet_id = r8_subnet_id old,
      cr_assignment_commitment = legacy_request_assignment_commitment cfg (r8_request_id old)
        (r8_subnet_id old) (r8_miner_id old) (r8_validator_id old),
      cr_input_commitment = r8_input_commitment old,
      cr_terms_commitment = legacy_request_terms_commitment cfg (r8_request_id old) (r8_payment old)
        (r8_validator_fee_bps old) (r8_treasury_fee_bps old),
      cr_timing_commitment =
        legacy_request_timing_commitment cfg (r8_request_id old) (r8_created_at old),
      cr_status = r8_status old\<rparr>"

definition request_of_v10 :: "'cur Config \<Rightarrow> ChainInferenceRequestV10 \<Rightarrow> ChainInferenceRequest" where
  "request_of_v10 cfg old =
     \<lparr>cr_request_id = r10_request_id old, cr_user_commitment = r10_user_commitment old,
      cr_subnet_id = r10_subnet_id old,
      cr_assignment_commitment = legacy_request_assignment_commitment cfg (r10_request_id old)
        (r10_subnet_id old) (r10_miner_id old) (r10_validator_id old),
      cr_input_commitment = r10_input_commitment old,
      cr_terms_commitment = legacy_request_terms_commitment cfg (r10_request_id old)
        (r10_payment old) (r10_validator_fee_bps old) (r10_treasury_fee_bps old),
      cr_timing_commitment =
        legacy_request_timing_commitment cfg (r10_request_id old) (r10_created_at old),
      cr_status = r10_status old\<rparr>"

definition request_of_v12 :: "'cur Config \<Rightarrow> ChainInferenceRequestV12 \<Rightarrow> ChainInferenceRequest" where
  "request_of_v12 cfg old =
     \<lparr>cr_request_id = r12_request_id old, cr_user_commitment = r12_user_commitment old,
      cr_subnet_id = r12_subnet_id old, cr_assignment_commitment = r12_assignment_commitment old,
      cr_input_commitment = r12_input_commitment old,
      cr_terms_commitment = legacy_request_terms_commitment cfg (r12_request_id old)
        (r12_payment old) (r12_validator_fee_bps old) (r12_treasury_fee_bps old),
      cr_timing_commitment =
        legacy_request_timing_commitment cfg (r12_request_id old) (r12_created_at old),
      cr_status = r12_status old\<rparr>"

definition request_of_v13 :: "'cur Config \<Rightarrow> ChainInferenceRequestV13 \<Rightarrow> ChainInferenceRequest" where
  "request_of_v13 cfg old =
     \<lparr>cr_request_id = r13_request_id old, cr_user_commitment = r13_user_commitment old,
      cr_subnet_id = r13_subnet_id old, cr_assignment_commitment = r13_assignment_commitment old,
      cr_input_commitment = r13_input_commitment old,
      cr_terms_commitment = legacy_request_terms_commitment cfg (r13_request_id old)
        (r13_payment old) (r13_validator_fee_bps old) (r13_treasury_fee_bps old),
      cr_timing_commitment = r13_timing_commitment old, cr_status = r13_status old\<rparr>"

definition migrate_request_owner_commitments ::
  "'cur Config \<Rightarrow> 'raw LayoutCodec \<Rightarrow> nat \<Rightarrow> ('raw, 'cur) Upgrade \<Rightarrow> ('raw, 'cur) Upgrade" where
  "migrate_request_owner_commitments cfg cdc on_chain u =
     (if on_chain < 7 \<or> on_chain \<ge> 9 then u
      else migrate_request_entries cdc (dec_request_v8 cdc)
             (\<lambda>old. (r8_payment old, r8_validator_fee_bps old, r8_treasury_fee_bps old))
             (\<lambda>old. Some (r8_miner_id old, r8_validator_id old)) (request_of_v8 cfg)
             (clear_pending_assignment_counters cdc u))"

definition migrate_request_assignment_commitments ::
  "'cur Config \<Rightarrow> 'raw LayoutCodec \<Rightarrow> nat \<Rightarrow> ('raw, 'cur) Upgrade \<Rightarrow> ('raw, 'cur) Upgrade" where
  "migrate_request_assignment_commitments cfg cdc on_chain u =
     (if on_chain < 9 \<or> on_chain \<ge> 11 then u
      else migrate_request_entries cdc (dec_request_v10 cdc)
             (\<lambda>old. (r10_payment old, r10_validator_fee_bps old, r10_treasury_fee_bps old))
             (\<lambda>old. Some (r10_miner_id old, r10_validator_id old)) (request_of_v10 cfg)
             (clear_pending_assignment_counters cdc u))"

definition migrate_request_timing_commitments ::
  "'cur Config \<Rightarrow> 'raw LayoutCodec \<Rightarrow> nat \<Rightarrow> ('raw, 'cur) Upgrade \<Rightarrow> ('raw, 'cur) Upgrade" where
  "migrate_request_timing_commitments cfg cdc on_chain u =
     (if on_chain < 11 \<or> on_chain \<ge> 13 then u
      else migrate_request_entries cdc (dec_request_v12 cdc)
             (\<lambda>old. (r12_payment old, r12_validator_fee_bps old, r12_treasury_fee_bps old))
             (\<lambda>_. None) (request_of_v12 cfg) u)"

definition migrate_request_terms_commitments ::
  "'cur Config \<Rightarrow> 'raw LayoutCodec \<Rightarrow> nat \<Rightarrow> ('raw, 'cur) Upgrade \<Rightarrow> ('raw, 'cur) Upgrade" where
  "migrate_request_terms_commitments cfg cdc on_chain u =
     (if on_chain < 13 \<or> on_chain \<ge> 14 then u
      else migrate_request_entries cdc (dec_request_v13 cdc)
             (\<lambda>old. (r13_payment old, r13_validator_fee_bps old, r13_treasury_fee_bps old))
             (\<lambda>_. None) (request_of_v13 cfg) u)"

section \<open>Routing indexes, capital records and request counters\<close>

text \<open>Clearing the prefixes of both index maps, under every hasher.\<close>

definition clear_active_routing_index_storage_prefixes ::
  "('raw, 'cur) Upgrade \<Rightarrow> ('raw, 'cur) Upgrade" where
  "clear_active_routing_index_storage_prefixes u =
     on_typed (\<lambda>s. s\<lparr>ActiveMinersBySubnet := (\<lambda>_. []), ActiveValidatorsBySubnet := (\<lambda>_. [])\<rparr>) u"

definition migrate_active_routing_index_keys ::
  "nat \<Rightarrow> ('raw, 'cur) Upgrade \<Rightarrow> ('raw, 'cur) Upgrade" where
  "migrate_active_routing_index_keys on_chain u =
     (if on_chain \<ge> 19 then u else clear_active_routing_index_storage_prefixes u)"

definition migrate_active_routing_index_values ::
  "nat \<Rightarrow> ('raw, 'cur) Upgrade \<Rightarrow> ('raw, 'cur) Upgrade" where
  "migrate_active_routing_index_values on_chain u =
     (if on_chain \<ge> 23 then u else clear_active_routing_index_storage_prefixes u)"

text \<open>One attempt to insert a participant into the index of its subnet; the ids that do not fit are
  collected.\<close>

definition index_participant ::
  "(nat list \<Rightarrow> nat \<Rightarrow> PalletError + (bool \<times> nat list)) \<Rightarrow> nat \<times> SubnetId \<Rightarrow>
   (SubnetId \<Rightarrow> nat list) \<times> nat list \<Rightarrow> (SubnetId \<Rightarrow> nat list) \<times> nat list" where
  "index_participant insert_id = (\<lambda>(i, sid) (index, overflow).
     case insert_id (index sid) i of
       Inr (_, ids) \<Rightarrow> (index(sid := ids), overflow)
     | Inl _ \<Rightarrow> (index, overflow @ [i]))"

definition index_participants ::
  "(nat list \<Rightarrow> nat \<Rightarrow> PalletError + (bool \<times> nat list)) \<Rightarrow> (nat \<times> SubnetId) list \<Rightarrow>
   (nat \<rightharpoonup> RequestId) \<Rightarrow> (SubnetId \<Rightarrow> nat list) \<Rightarrow> (SubnetId \<Rightarrow> nat list) \<times> nat list" where
  "index_participants insert_id eligible pending index =
     (let pending_ids = filter (\<lambda>(i, _). pending_of pending i > 0) eligible;
          routable_ids = filter (\<lambda>(i, _). \<not> pending_of pending i > 0) eligible
      in fold (index_participant insert_id) (pending_ids @ routable_ids) (index, []))"

definition demote_miner :: "'cur Config \<Rightarrow> 'cur Storage \<Rightarrow> MinerId \<Rightarrow> ChainMiner \<Rightarrow> ChainMiner" where
  "demote_miner cfg s i miner =
     (if cm_status miner = Active \<and> pending_of (PendingMinerRequests s) i = 0
      then let status = Exiting (saturating_add 64 (current_block s) (MinerExitCooldownBlocks cfg))
           in miner\<lparr>cm_status := status,
                cm_bond_commitment := miner_bond_commitment cfg i (cm_operator_commitment miner) status\<rparr>
      else miner)"

definition demote_validator ::
  "'cur Config \<Rightarrow> 'cur Storage \<Rightarrow> ValidatorId \<Rightarrow> ChainValidator \<Rightarrow> ChainValidator" where
  "demote_validator cfg s i validator =
     (if cv_status validator = Active \<and> pending_of (PendingValidatorRequests s) i = 0
      then let status = Exiting (saturating_add 64 (current_block s) (ValidatorExitCooldownBlocks cfg))
           in validator\<lparr>cv_status := status,
                cv_stake_commitment :=
                  validator_stake_commitment cfg i (cv_operator_commitment validator) status\<rparr>
      else validator)"

definition indexable_miners :: "'cur Config \<Rightarrow> 'cur Storage \<Rightarrow> (MinerId \<times> SubnetId) list" where
  "indexable_miners cfg s =
     map (\<lambda>(i, miner). (i, cm_subnet_id miner))
       (filter (\<lambda>(i, miner). cm_status miner = Active \<and> miner_has_active_locked_bond_record cfg s i
           \<and> is_ok (ensure_miner_signature_bundle_bound cfg s i miner)) (miner_records s))"

definition indexable_validators :: "'cur Config \<Rightarrow> 'cur Storage \<Rightarrow> (ValidatorId \<times> SubnetId) list" where
  "indexable_validators cfg s =
     map (\<lambda>(i, validator). (i, cv_subnet_id validator))
       (filter (\<lambda>(i, validator). cv_status validator = Active
           \<and> validator_has_active_locked_stake_record cfg s i
           \<and> is_ok (ensure_validator_signature_bundle_bound cfg s i validator)) (validator_records s))"

definition removed_below :: "nat \<Rightarrow> (SubnetId \<Rightarrow> nat list) \<Rightarrow> SubnetId \<Rightarrow> nat list" where
  "removed_below n index = fold (\<lambda>sid index. index(sid := [])) [0..<n] index"

definition rebuild_active_routing_indexes ::
  "'cur Config \<Rightarrow> 'raw LayoutCodec \<Rightarrow> ('raw, 'cur) Upgrade \<Rightarrow> ('raw, 'cur) Upgrade" where
  "rebuild_active_routing_indexes cfg cdc u =
     (let s = view cdc u;
          (miner_index, overflow_miners) =
            index_participants (insert_sorted_miner_id cfg) (indexable_miners cfg s)
              (PendingMinerRequests s) (removed_below (SubnetCount s) (ActiveMinersBySubnet s));
          (validator_index, overflow_validators) =
            index_participants (insert_sorted_validator_id cfg) (indexable_validators cfg s)
              (PendingValidatorRequests s) (removed_below (SubnetCount s) (ActiveValidatorsBySubnet s));
          failures = fold (\<lambda>_ n. saturating_add 32 n 1) (overflow_miners @ overflow_validators) 0;
          u = fold (\<lambda>i. mutate_entry I_Miners (dec_miner cdc) (enc_miner cdc) (demote_miner cfg s i) i)
                overflow_miners u;
          u = fold (\<lambda>i. mutate_entry I_Validators (dec_validator cdc) (enc_validator cdc)
                (demote_validator cfg s i) i) overflow_validators u
      in on_typed (\<lambda>s. s\<lparr>ActiveMinersBySubnet := miner_index,
                         ActiveValidatorsBySubnet := validator_index,
                         LegacyRoutingIndexMigrationFailures := failures\<rparr>) u)"

definition migrate_participant_capital_records ::
  "'raw LayoutCodec \<Rightarrow> nat \<Rightarrow> ('raw, 'cur) Upgrade \<Rightarrow> ('raw, 'cur) Upgrade" where
  "migrate_participant_capital_records cdc on_chain u =
     (if on_chain \<ge> 18 then u
      else
        let s = view cdc u;
            missing = fold (\<lambda>(i, miner) n.
              if miner_capital_bearing_status (cm_status miner) \<and> MinerLockedBond s i = None
              then saturating_add 32 n 1 else n) (miner_records s) 0;
            missing = fold (\<lambda>(i, validator) n.
              if validator_capital_bearing_status (cv_status validator) \<and> ValidatorLockedStake s i = None
              then saturating_add 32 n 1 else n) (validator_records s) missing
        in on_typed (\<lambda>s. s\<lparr>LegacyCapitalRecordMigrationFailures := missing\<rparr>) u)"

definition rebuild_request_status_counts ::
  "'raw LayoutCodec \<Rightarrow> ('raw, 'cur) Upgrade \<Rightarrow> ('raw, 'cur) Upgrade" where
  "rebuild_request_status_counts cdc u =
     (let counts = fold count_request (request_records (view cdc u))
            \<lparr>count_pending = 0, count_settled = 0, count_cancelled = 0, count_rejected = 0,
             count_expired = 0\<rparr>
      in on_typed (\<lambda>s. s\<lparr>PendingInferenceRequestCount := count_pending counts,
                         SettledInferenceRequestCount := count_settled counts,
                         CancelledInferenceRequestCount := count_cancelled counts,
                         RejectedInferenceRequestCount := count_rejected counts,
                         ExpiredInferenceRequestCount := count_expired counts\<rparr>) u)"

section \<open>Rewriting proof records\<close>

definition legacy_proof_audit_commitment ::
  "'cur Config \<Rightarrow> RequestId \<Rightarrow> SubnetId \<Rightarrow> Commitment \<Rightarrow> Commitment \<Rightarrow> Commitment \<Rightarrow> Commitment \<Rightarrow>
   ProofEnvelope \<Rightarrow> ProofSystem \<Rightarrow> nat \<Rightarrow> nat \<Rightarrow> BlockNumber \<Rightarrow> BlockNumber \<Rightarrow> Commitment" where
  "legacy_proof_audit_commitment cfg rid sid ac ic oc mc prf system size_bytes latency submitted accepted =
     blake2_256 cfg (AuditPre rid sid ac ic oc mc prf system size_bytes latency submitted accepted)"

definition proof_of_v4 :: "'cur Config \<Rightarrow> ChainProofRecordV4 \<Rightarrow> ChainProofRecord" where
  "proof_of_v4 cfg old =
     (let ac = legacy_request_assignment_commitment cfg (p4_request_id old) (p4_subnet_id old)
            (p4_miner_id old) (p4_validator_id old) in
      \<lparr>cp_request_id = p4_request_id old, cp_subnet_id = p4_subnet_id old,
       cp_assignment_commitment = ac,
       cp_audit_commitment = legacy_proof_audit_commitment cfg (p4_request_id old) (p4_subnet_id old) ac
         (p4_input_commitment old) (p4_output_commitment old) (p4_model_commitment old) (p4_proof old)
         (p4_proof_system old) (p4_proof_size_bytes old) (p4_verification_latency_ms old)
         (p4_submitted_at old) (p4_submitted_at old),
       cp_proof_system = p4_proof_system old\<rparr>)"

definition proof_of_v11 :: "'cur Config \<Rightarrow> ChainProofRecordV11 \<Rightarrow> ChainProofRecord" where
  "proof_of_v11 cfg old =
     (let ac = legacy_request_assignment_commitment cfg (p11_request_id old) (p11_subnet_id old)
            (p11_miner_id old) (p11_validator_id old) in
      \<lparr>cp_request_id = p11_request_id old, cp_subnet_id = p11_subnet_id old,
       cp_assignment_commitment = ac,
       cp_audit_commitment = legacy_proof_audit_commitment cfg (p11_request_id old) (p11_subnet_id old)
         ac (p11_input_commitment old) (p11_output_commitment old) (p11_model_commitment old)
         (p11_proof old) (p11_proof_system old) (p11_proof_size_bytes old)
         (p11_verification_latency_ms old) (p11_submitted_at old) (p11_accepted_at old),
       cp_proof_system = p11_proof_system old\<rparr>)"

definition proof_of_v14 :: "'cur Config \<Rightarrow> ChainProofRecordV14 \<Rightarrow> ChainProofRecord" where
  "proof_of_v14 cfg old =
     \<lparr>cp_request_id = p14_request_id old, cp_subnet_id = p14_subnet_id old,
      cp_assignment_commitment = p14_assignment_commitment old,
      cp_audit_commitment = legacy_proof_audit_commitment cfg (p14_request_id old) (p14_subnet_id old)
        (p14_assignment_commitment old) (p14_input_commitment old) (p14_output_commitment old)
        (p14_model_commitment old) (p14_proof old) (p14_proof_system old) (p14_proof_size_bytes old)
        (p14_verification_latency_ms old) (p14_submitted_at old) (p14_accepted_at old),
      cp_proof_system = p14_proof_system old\<rparr>"

definition migrate_proof_record_timestamps ::
  "'cur Config \<Rightarrow> 'raw LayoutCodec \<Rightarrow> nat \<Rightarrow> ('raw, 'cur) Upgrade \<Rightarrow> ('raw, 'cur) Upgrade" where
  "migrate_proof_record_timestamps cfg cdc on_chain u =
     (if on_chain \<ge> 5 then u
      else fold (rewrite_entry I_ProofRecords (dec_proof_v4 cdc)
             (\<lambda>old. enc_proof cdc (proof_of_v4 cfg old))) [0..<RequestCount (typed_storage u)] u)"

definition migrate_proof_record_assignment_commitments ::
  "'cur Config \<Rightarrow> 'raw LayoutCodec \<Rightarrow> nat \<Rightarrow> ('raw, 'cur) Upgrade \<Rightarrow> ('raw, 'cur) Upgrade" where
  "migrate_proof_record_assignment_commitments cfg cdc on_chain u =
     (if on_chain < 5 \<or> on_chain \<ge> 12 then u
      else fold (rewrite_entry I_ProofRecords (dec_proof_v11 cdc)
             (\<lambda>old. enc_proof cdc (proof_of_v11 cfg old))) [0..<RequestCount (typed_storage u)] u)"

definition migrate_proof_record_audit_commitments ::
  "'cur Config \<Rightarrow> 'raw LayoutCodec \<Rightarrow> nat \<Rightarrow> ('raw, 'cur) Upgrade \<Rightarrow> ('raw, 'cur) Upgrade" where
  "migrate_proof_record_audit_commitments cfg cdc on_chain u =
     (if on_chain < 12 \<or> on_chain \<ge> 15 then u
      else fold (rewrite_entry I_ProofRecords (dec_proof_v14 cdc)
             (\<lambda>old. enc_proof cdc (proof_of_v14 cfg old))) [0..<RequestCount (typed_storage u)] u)"

section \<open>The upgrade\<close>

definition STORAGE_VERSION :: nat where "STORAGE_VERSION = 27"

definition on_runtime_upgrade ::
  "'cur Config \<Rightarrow> 'raw LayoutCodec \<Rightarrow> ('raw, 'cur) Upgrade \<Rightarrow> ('raw, 'cur) Upgrade" where
  "on_runtime_upgrade cfg cdc u =
     (let on_chain = on_chain_storage_version u in
      if on_chain \<ge> STORAGE_VERSION then u
      else
        let u = migrate_subnet_storage_keys on_chain u;
            u = migrate_registry_storage_keys on_chain u;
            u = migrate_request_and_proof_storage_keys on_chain u;
            u = migrate_inference_accounting_totals on_chain u;
            u = migrate_burned_total on_chain u;
            u = migrate_operator_commitments cfg cdc on_chain u;
            u = migrate_subnet_policy_commitments cfg cdc on_chain u;
            u = migrate_participant_capital_commitments cfg cdc on_chain u;
            u = migrate_request_assignment_commitments cfg cdc on_chain u;
            u = migrate_request_owner_commitments cfg cdc on_chain u;
            u = migrate_request_timing_commitments cfg cdc on_chain u;
            u = migrate_request_terms_commitments cfg cdc on_chain u;
            u = migrate_identity_storage_keys cdc on_chain u;
            u = migrate_identity_signature_challenges cfg cdc on_chain u;
            u = migrate_active_routing_index_keys on_chain u;
            u = migrate_capital_record_storage_keys cdc on_chain u;
            u = rebuild_active_routing_indexes cfg cdc u;
            u = migrate_active_routing_index_values on_chain u;
            u = migrate_participant_capital_records cdc on_chain u;
            u = rebuild_request_status_counts cdc u;
            u = migrate_proof_record_timestamps cfg cdc on_chain u;
            u = migrate_proof_record_assignment_commitments cfg cdc on_chain u;
            u = migrate_proof_record_audit_commitments cfg cdc on_chain u
        in u\<lparr>on_chain_storage_version := STORAGE_VERSION\<rparr>)"

definition post_upgrade ::
  "'cur Config \<Rightarrow> 'raw LayoutCodec \<Rightarrow> ('raw, 'cur) Upgrade \<Rightarrow> string + unit" where
  "post_upgrade cfg cdc u =
     bind_r (ensure_r (on_chain_storage_version u = STORAGE_VERSION)
       ''Qubitum storage version did not upgrade'') (\<lambda>_.
     bind_r (ensure_active_routing_indexes_match cfg (view cdc u)) (\<lambda>_. Inr ()))"

end
