(* ===== verification/Pallet_Upgrade.thy ===== *)
theory Pallet_Upgrade
  imports Pallet_Migrations "HOL-Library.Multiset"
begin

text \<open>
  What an upgrade leaves behind: where the bytes of an entry go, which parts of the storage a
  migration keeps, how the rebuilt routing index relates to the eligible participants, and what the
  rebuilt counters count.
\<close>

section \<open>Reading the storage after a step\<close>

lemma upgrade_put_entry [simp]:
  "entries (put_entry item i bs u) = (entries u)(item := (entries u item)(i := bs))"
  "legacy_entries (put_entry item i bs u) = legacy_entries u"
  "typed_storage (put_entry item i bs u) = typed_storage u"
  "on_chain_storage_version (put_entry item i bs u) = on_chain_storage_version u"
  by (simp_all add: put_entry_def)

lemma upgrade_kill_legacy [simp]:
  "entries (kill_legacy item i u) = entries u"
  "legacy_entries (kill_legacy item i u) =
     (legacy_entries u)(item := (legacy_entries u item)(i := None))"
  "typed_storage (kill_legacy item i u) = typed_storage u"
  by (simp_all add: kill_legacy_def)

lemma upgrade_on_typed [simp]:
  "entries (on_typed f u) = entries u"
  "legacy_entries (on_typed f u) = legacy_entries u"
  "typed_storage (on_typed f u) = f (typed_storage u)"
  by (simp_all add: on_typed_def)

text \<open>Where an upgrade finds the bytes of an entry.\<close>

definition located :: "('raw, 'cur) Upgrade \<Rightarrow> StorageItem \<Rightarrow> nat \<rightharpoonup> 'raw" where
  "located u item i = (case legacy_entries u item i of Some bs \<Rightarrow> Some bs | None \<Rightarrow> entries u item i)"

lemma move_entry_sel [simp]:
  "entries (move_entry item i u) = (entries u)(item := (entries u item)(i := located u item i))"
  "legacy_entries (move_entry item i u) =
     (legacy_entries u)(item := (legacy_entries u item)(i := None))"
  "typed_storage (move_entry item i u) = typed_storage u"
  by (auto simp: move_entry_def located_def fun_eq_iff split: option.splits)

lemma move_value_sel [simp]:
  "entries (move_value item dec f i u) = entries u"
  "typed_storage (move_value item dec f i u) =
     (case Option.bind (legacy_entries u item i) dec of
        None \<Rightarrow> typed_storage u | Some x \<Rightarrow> f i x (typed_storage u))"
  by (auto simp: move_value_def split: option.splits)

lemma rewrite_entry_sel [simp]:
  "entries (rewrite_entry item dec f i u) = (entries u)(item := (entries u item)
     (i := case read_entry dec item u i of None \<Rightarrow> entries u item i | Some old \<Rightarrow> Some (f old)))"
  "legacy_entries (rewrite_entry item dec f i u) = legacy_entries u"
  "typed_storage (rewrite_entry item dec f i u) = typed_storage u"
  by (auto simp: rewrite_entry_def fun_eq_iff split: option.splits)

lemma mutate_entry_sel [simp]:
  "entries (mutate_entry item dec enc f i u) = (entries u)(item := (entries u item)
     (i := map_option (\<lambda>x. enc (f x)) (read_entry dec item u i)))"
  "legacy_entries (mutate_entry item dec enc f i u) = legacy_entries u"
  "typed_storage (mutate_entry item dec enc f i u) = typed_storage u"
  by (simp_all add: mutate_entry_def)

lemma fold_keeps: "(\<And>x u. g (f x u) = g u) \<Longrightarrow> g (fold f xs u) = g u"
  by (induction xs arbitrary: u) simp_all

lemma fold_at:
  assumes other: "\<And>j u. j \<noteq> i \<Longrightarrow> g (f j u) = g u" and here: "\<And>u. g (f i u) = \<phi> (g u)"
    and "distinct xs"
  shows "g (fold f xs u) = (if i \<in> set xs then \<phi> (g u) else g u)"
  using \<open>distinct xs\<close>
proof (induction xs arbitrary: u)
  case (Cons x xs)
  then show ?case by (cases "x = i") (auto simp: other here)
qed simp

section \<open>The parts of an upgrade\<close>

text \<open>The migrations before and after the rebuild of the routing indexes.\<close>

definition before_rebuild ::
  "'cur Config \<Rightarrow> 'raw LayoutCodec \<Rightarrow> nat \<Rightarrow> ('raw, 'cur) Upgrade \<Rightarrow> ('raw, 'cur) Upgrade" where
  "before_rebuild cfg cdc v u =
     migrate_capital_record_storage_keys cdc v
     (migrate_active_routing_index_keys v
     (migrate_identity_signature_challenges cfg cdc v
     (migrate_identity_storage_keys cdc v
     (migrate_request_terms_commitments cfg cdc v
     (migrate_request_timing_commitments cfg cdc v
     (migrate_request_owner_commitments cfg cdc v
     (migrate_request_assignment_commitments cfg cdc v
     (migrate_participant_capital_commitments cfg cdc v
     (migrate_subnet_policy_commitments cfg cdc v
     (migrate_operator_commitments cfg cdc v
     (migrate_burned_total v
     (migrate_inference_accounting_totals v
     (migrate_request_and_proof_storage_keys v
     (migrate_registry_storage_keys v
     (migrate_subnet_storage_keys v u)))))))))))))))"

definition after_rebuild ::
  "'cur Config \<Rightarrow> 'raw LayoutCodec \<Rightarrow> nat \<Rightarrow> ('raw, 'cur) Upgrade \<Rightarrow> ('raw, 'cur) Upgrade" where
  "after_rebuild cfg cdc v u =
     migrate_proof_record_audit_commitments cfg cdc v
     (migrate_proof_record_assignment_commitments cfg cdc v
     (migrate_proof_record_timestamps cfg cdc v
     (rebuild_request_status_counts cdc
     (migrate_participant_capital_records cdc v
     (migrate_active_routing_index_values v u)))))"

lemma on_runtime_upgrade_parts:
  "on_chain_storage_version u < 27 \<Longrightarrow>
     on_runtime_upgrade cfg cdc u =
       (after_rebuild cfg cdc (on_chain_storage_version u)
         (rebuild_active_routing_indexes cfg cdc
           (before_rebuild cfg cdc (on_chain_storage_version u) u)))
       \<lparr>on_chain_storage_version := STORAGE_VERSION\<rparr>"
  by (simp add: on_runtime_upgrade_def STORAGE_VERSION_def before_rebuild_def after_rebuild_def Let_def)

lemma view_version [simp]: "view cdc (u\<lparr>on_chain_storage_version := v\<rparr>) = view cdc u"
  by (simp add: view_def read_entry_def fun_eq_iff)

lemma view_sel [simp]:
  "Subnets (view cdc u) = read_entry (dec_subnet cdc) I_Subnets u"
  "Miners (view cdc u) = read_entry (dec_miner cdc) I_Miners u"
  "Validators (view cdc u) = read_entry (dec_validator cdc) I_Validators u"
  "ProofRecords (view cdc u) = read_entry (dec_proof cdc) I_ProofRecords u"
  "InferenceRequests (view cdc u) = read_entry (dec_request cdc) I_InferenceRequests u"
  "SubnetCount (view cdc u) = SubnetCount (typed_storage u)"
  "MinerCount (view cdc u) = MinerCount (typed_storage u)"
  "ValidatorCount (view cdc u) = ValidatorCount (typed_storage u)"
  "RequestCount (view cdc u) = RequestCount (typed_storage u)"
  "ActiveMinersBySubnet (view cdc u) = ActiveMinersBySubnet (typed_storage u)"
  "ActiveValidatorsBySubnet (view cdc u) = ActiveValidatorsBySubnet (typed_storage u)"
  "PendingMinerRequests (view cdc u) = PendingMinerRequests (typed_storage u)"
  "PendingValidatorRequests (view cdc u) = PendingValidatorRequests (typed_storage u)"
  by (simp_all add: view_def)

text \<open>The proof migrations touch the proof records only.\<close>

lemma proof_migrations_keep:
  "typed_storage (migrate_proof_record_timestamps cfg cdc v u) = typed_storage u"
  "typed_storage (migrate_proof_record_assignment_commitments cfg cdc v u) = typed_storage u"
  "typed_storage (migrate_proof_record_audit_commitments cfg cdc v u) = typed_storage u"
  "item \<noteq> I_ProofRecords \<Longrightarrow> entries (migrate_proof_record_timestamps cfg cdc v u) item = entries u item"
  "item \<noteq> I_ProofRecords \<Longrightarrow>
     entries (migrate_proof_record_assignment_commitments cfg cdc v u) item = entries u item"
  "item \<noteq> I_ProofRecords \<Longrightarrow>
     entries (migrate_proof_record_audit_commitments cfg cdc v u) item = entries u item"
  by (simp_all add: migrate_proof_record_timestamps_def migrate_proof_record_assignment_commitments_def
      migrate_proof_record_audit_commitments_def fold_keeps [where g = typed_storage]
      fold_keeps [where g = "\<lambda>u. entries u item"])

lemma after_rebuild_entries:
  "item \<noteq> I_ProofRecords \<Longrightarrow> entries (after_rebuild cfg cdc v u) item = entries u item"
  by (simp add: after_rebuild_def proof_migrations_keep rebuild_request_status_counts_def
      migrate_participant_capital_records_def migrate_active_routing_index_values_def
      clear_active_routing_index_storage_prefixes_def Let_def)

lemmas after_rebuild_defs = after_rebuild_def proof_migrations_keep rebuild_request_status_counts_def
  migrate_participant_capital_records_def migrate_active_routing_index_values_def
  clear_active_routing_index_storage_prefixes_def Let_def

lemma after_rebuild_typed:
  "ActiveMinersBySubnet (typed_storage (after_rebuild cfg cdc v u)) =
     (if v < 23 then \<lambda>_. [] else ActiveMinersBySubnet (typed_storage u))"
  "ActiveValidatorsBySubnet (typed_storage (after_rebuild cfg cdc v u)) =
     (if v < 23 then \<lambda>_. [] else ActiveValidatorsBySubnet (typed_storage u))"
  by (simp_all add: after_rebuild_defs)

text \<open>What the migrations after the rebuild keep: all that routing reads.\<close>

definition same_routing :: "'cur Storage \<Rightarrow> 'cur Storage \<Rightarrow> bool" where
  "same_routing s s' \<longleftrightarrow>
     SubnetCount s' = SubnetCount s \<and> MinerCount s' = MinerCount s \<and> ValidatorCount s' = ValidatorCount s \<and>
     RequestCount s' = RequestCount s \<and>
     MinerLockedBond s' = MinerLockedBond s \<and> ValidatorLockedStake s' = ValidatorLockedStake s \<and>
     MinerIdentityCommitments s' = MinerIdentityCommitments s \<and>
     MinerIdentitySignatureBundles s' = MinerIdentitySignatureBundles s \<and>
     MinerIdentitySignatureChallenges s' = MinerIdentitySignatureChallenges s \<and>
     ValidatorIdentityCommitments s' = ValidatorIdentityCommitments s \<and>
     ValidatorIdentitySignatureBundles s' = ValidatorIdentitySignatureBundles s \<and>
     ValidatorIdentitySignatureChallenges s' = ValidatorIdentitySignatureChallenges s \<and>
     PendingMinerRequests s' = PendingMinerRequests s \<and>
     PendingValidatorRequests s' = PendingValidatorRequests s"

lemma same_routing_trans: "same_routing s s' \<Longrightarrow> same_routing s' s'' \<Longrightarrow> same_routing s s''"
  by (simp add: same_routing_def)

lemma same_routing_eligible:
  assumes "same_routing s s'"
  shows "miner_is_route_eligible cfg s' i m = miner_is_route_eligible cfg s i m"
    and "validator_is_route_eligible cfg s' i v = validator_is_route_eligible cfg s i v"
  using assms
  by (simp_all add: same_routing_def miner_is_route_eligible_def validator_is_route_eligible_def
      miner_has_active_locked_bond_record_def validator_has_active_locked_stake_record_def
      ensure_miner_signature_bundle_bound_def ensure_validator_signature_bundle_bound_def)

lemma after_rebuild_routing:
  "same_routing (typed_storage u) (typed_storage (after_rebuild cfg cdc v u))"
  by (simp add: after_rebuild_defs same_routing_def)

lemma same_routing_view:
  "same_routing (view cdc u) (view cdc u') \<longleftrightarrow> same_routing (typed_storage u) (typed_storage u')"
  by (simp add: same_routing_def view_def)

section \<open>The rebuilt routing index\<close>

abbreviation ids_of :: "SubnetId \<Rightarrow> (nat \<times> SubnetId) list \<Rightarrow> nat list" where
  "ids_of sid xs \<equiv> map fst (filter (\<lambda>(_, t). t = sid) xs)"

lemma sort_sorted_append: "sort (sort xs @ ys) = sort (xs @ ys)"
  by (rule properties_for_sort) simp_all

lemma index_fold:
  assumes ins: "\<And>ids i. i \<notin> set ids \<Longrightarrow> insert_id ids i =
      (if Suc (length ids) \<le> cap then Inr (True, sort (ids @ [i])) else Inl e)"
    and "distinct (map fst xs)" and start: "index sid = []"
    and "fold (index_participant insert_id) xs (index, []) = (index', overflow)"
  shows "index' sid = sort (take cap (ids_of sid xs)) \<and>
    (\<forall>i. (i, sid) \<in> set xs \<longrightarrow> (i \<in> set overflow \<longleftrightarrow> i \<in> set (drop cap (ids_of sid xs))))
    \<and> set overflow \<subseteq> fst ` set xs"
  using assms(2,4)
proof (induction xs arbitrary: index' overflow rule: rev_induct)
  case Nil
  then show ?case using start by auto
next
  case (snoc x xs)
  obtain i t where x: "x = (i, t)" by (cases x)
  obtain m ov where m: "fold (index_participant insert_id) xs (index, []) = (m, ov)"
    by (cases "fold (index_participant insert_id) xs (index, [])")
  let ?L = "ids_of sid xs"
  have dist: "distinct (map fst xs)" and fresh: "i \<notin> fst ` set xs"
    using snoc.prems x by auto
  note IH = snoc.IH [OF dist m]
  have ids: "m sid = sort (take cap ?L)"
    and out: "(j, sid) \<in> set xs \<Longrightarrow> j \<in> set ov \<longleftrightarrow> j \<in> set (drop cap ?L)"
    and sub: "set ov \<subseteq> fst ` set xs" for j using IH by blast+
  from fresh sub have i: "i \<notin> set ?L" "i \<notin> set ov" by auto
  have other: "(j, sid) \<in> set xs \<Longrightarrow> j \<noteq> i" for j using fresh by force
  have step: "index_participant insert_id (i, t) (m, ov) = (index', overflow)"
    using snoc.prems m x by simp
  have notin: "i \<notin> set (m sid)" using i(1) in_set_takeD unfolding ids by fastforce
  have len: "length (m sid) = min cap (length ?L)" unfolding ids by simp
  consider "t \<noteq> sid" | "t = sid" "length ?L < cap" | "t = sid" "\<not> length ?L < cap" by blast
  then show ?case
  proof cases
    case 1
    have ov: "index' sid = m sid" "set ov \<subseteq> set overflow" "set overflow \<subseteq> insert i (set ov)"
      using step 1 by (auto simp: index_participant_def split: sum.splits prod.splits)
    have L: "ids_of sid (xs @ [x]) = ?L" using 1 x by simp
    have mem: "(j, sid) \<in> set (xs @ [x]) \<Longrightarrow> (j, sid) \<in> set xs" for j using 1 x by simp
    have "(j, sid) \<in> set (xs @ [x]) \<Longrightarrow> j \<in> set overflow \<longleftrightarrow> j \<in> set (drop cap ?L)" for j
      using out [OF mem] other [OF mem] ov(2,3) by blast
    moreover have "set overflow \<subseteq> fst ` set (xs @ [x])" using ov(3) sub x by auto
    ultimately show ?thesis using ov(1) ids unfolding L by simp
  next
    case 2
    have step: "index' sid = sort (m sid @ [i])" "overflow = ov"
      using 2 step len by (auto simp: index_participant_def ins [OF notin])
    have L: "ids_of sid (xs @ [x]) = ?L @ [i]" using 2 x by simp
    have "index' sid = sort (take cap (?L @ [i]))"
      using 2 step(1) ids by (simp add: sort_sorted_append)
    moreover have "j \<in> set overflow \<longleftrightarrow> j \<in> set (drop cap (?L @ [i]))"
      if "(j, sid) \<in> set (xs @ [x])" for j
    proof (cases "j = i")
      case False
      with that x out [of j] 2 show ?thesis by (simp add: step(2))
    qed (use i(2) 2 in \<open>simp add: step(2)\<close>)
    moreover have "set overflow \<subseteq> fst ` set (xs @ [x])" using sub unfolding step(2) by auto
    ultimately show ?thesis unfolding L by simp
  next
    case 3
    have step: "index' = m" "overflow = ov @ [i]"
      using 3 step len by (auto simp: index_participant_def ins [OF notin])
    have L: "ids_of sid (xs @ [x]) = ?L @ [i]" using 3 x by simp
    have "index' sid = sort (take cap (?L @ [i]))" using 3 ids step(1) by simp
    moreover have "j \<in> set overflow \<longleftrightarrow> j \<in> set (drop cap (?L @ [i]))"
      if "(j, sid) \<in> set (xs @ [x])" for j
    proof (cases "j = i")
      case False
      with that x out [of j] 3 show ?thesis by (simp add: step(2))
    qed (use 3 in \<open>simp add: step(2)\<close>)
    moreover have "set overflow \<subseteq> fst ` set (xs @ [x])" using sub x unfolding step(2) by auto
    ultimately show ?thesis unfolding L by simp
  qed
qed

lemma insert_sorted_id_fresh:
  "i \<notin> set ids \<Longrightarrow> insert_sorted_id cap e ids i =
     (if Suc (length ids) \<le> cap then Inr (True, sort (ids @ [i])) else Inl e)"
  by (simp add: insert_sorted_id_def)

text \<open>Whatever set of the listed ids is left when the overflowing ids without pending requests are
  gone, it fits the capacity unless those with pending requests already do not.\<close>

lemma kept_within_capacity:
  assumes "set kept \<subseteq> set (ps @ rs)" and "distinct kept" and "set kept \<inter> set rs \<inter> set (drop cap (ps @ rs)) = {}"
  shows "length kept \<le> max cap (length ps)"
proof -
  have sub: "set kept \<subseteq> set ps \<union> set (take cap (ps @ rs))"
  proof
    fix i assume "i \<in> set kept"
    moreover from this assms(1) have "i \<in> set (take cap (ps @ rs)) \<union> set (drop cap (ps @ rs))"
      by (metis append_take_drop_id set_append subsetD)
    ultimately show "i \<in> set ps \<union> set (take cap (ps @ rs))" using assms(1,3) by auto
  qed
  have "length kept = card (set kept)" using \<open>distinct kept\<close> by (simp add: distinct_card)
  also have "\<dots> \<le> max cap (length ps)"
  proof (cases "length ps \<le> cap")
    case True
    then have "set kept \<subseteq> set (take cap (ps @ rs))" using sub by auto
    from card_mono [OF _ this] card_length [of "take cap (ps @ rs)"] show ?thesis by simp
  next
    case False
    then have "set kept \<subseteq> set ps" using sub by (auto dest: in_set_takeD)
    from card_mono [OF _ this] card_length [of ps] show ?thesis by simp
  qed
  finally show ?thesis .
qed

section \<open>Participants after the upgrade\<close>

lemma fold_at_idem:
  assumes other: "\<And>j u. j \<noteq> i \<Longrightarrow> g (f j u) = g u" and here: "\<And>u. g (f i u) = \<phi> (g u)"
    and idem: "\<And>x. \<phi> (\<phi> x) = \<phi> x"
  shows "g (fold f xs u) = (if i \<in> set xs then \<phi> (g u) else g u)"
proof (induction xs arbitrary: u)
  case (Cons x xs)
  then show ?case by (cases "x = i") (auto simp: other here idem)
qed simp

lemma demote_idem:
  "demote_miner cfg s i (demote_miner cfg s i m) = demote_miner cfg s i m"
  "demote_validator cfg s i (demote_validator cfg s i v) = demote_validator cfg s i v"
  by (simp_all add: demote_miner_def demote_validator_def Let_def)

lemma read_mutated:
  assumes "\<And>x. dec (enc x) = Some x"
  shows "read_entry dec item (mutate_entry item dec enc f i u) j =
    (if j = i then map_option f (read_entry dec item u i) else read_entry dec item u j)"
    and "item' \<noteq> item \<Longrightarrow> read_entry dec' item' (mutate_entry item dec enc f i u) = read_entry dec' item' u"
  using assms by (auto simp: read_entry_def fun_eq_iff split: bind_split)

lemma fold_mutated:
  assumes "\<And>x. dec (enc x) = Some x" and "\<And>i x. f i (f i x) = f i x"
  shows "read_entry dec item (fold (\<lambda>i. mutate_entry item dec enc (f i) i) is u) j =
    (if j \<in> set is then map_option (f j) (read_entry dec item u j) else read_entry dec item u j)"
  using assms
  by (intro fold_at_idem [where g = "\<lambda>u. read_entry dec item u j"])
    (auto simp: read_mutated option.map_comp comp_def)

text \<open>The outcome of the rebuild: the new indexes and the demoted participants.\<close>

definition rebuilt_miners ::
  "'cur Config \<Rightarrow> 'cur Storage \<Rightarrow> (SubnetId \<Rightarrow> MinerId list) \<times> MinerId list" where
  "rebuilt_miners cfg s = index_participants (insert_sorted_miner_id cfg) (indexable_miners cfg s)
     (PendingMinerRequests s) (removed_below (SubnetCount s) (ActiveMinersBySubnet s))"

definition rebuilt_validators ::
  "'cur Config \<Rightarrow> 'cur Storage \<Rightarrow> (SubnetId \<Rightarrow> ValidatorId list) \<times> ValidatorId list" where
  "rebuilt_validators cfg s =
     index_participants (insert_sorted_validator_id cfg) (indexable_validators cfg s)
       (PendingValidatorRequests s) (removed_below (SubnetCount s) (ActiveValidatorsBySubnet s))"

lemma rebuild_entries:
  "entries (rebuild_active_routing_indexes cfg cdc u) =
     entries (fold (\<lambda>i. mutate_entry I_Validators (dec_validator cdc) (enc_validator cdc)
         (demote_validator cfg (view cdc u) i) i) (snd (rebuilt_validators cfg (view cdc u)))
       (fold (\<lambda>i. mutate_entry I_Miners (dec_miner cdc) (enc_miner cdc)
         (demote_miner cfg (view cdc u) i) i) (snd (rebuilt_miners cfg (view cdc u))) u))"
  by (simp add: rebuild_active_routing_indexes_def rebuilt_miners_def rebuilt_validators_def Let_def
      split: prod.splits)

lemma rebuild_typed:
  "typed_storage (rebuild_active_routing_indexes cfg cdc u) = (typed_storage u)\<lparr>
     ActiveMinersBySubnet := fst (rebuilt_miners cfg (view cdc u)),
     ActiveValidatorsBySubnet := fst (rebuilt_validators cfg (view cdc u)),
     LegacyRoutingIndexMigrationFailures := fold (\<lambda>_ n. saturating_add 32 n 1)
       (snd (rebuilt_miners cfg (view cdc u)) @ snd (rebuilt_validators cfg (view cdc u))) 0\<rparr>"
  by (simp add: rebuild_active_routing_indexes_def rebuilt_miners_def rebuilt_validators_def Let_def
      fold_keeps [where g = typed_storage] split: prod.splits)

lemma rebuild_other_entries:
  "item \<noteq> I_Miners \<Longrightarrow> item \<noteq> I_Validators \<Longrightarrow>
     entries (rebuild_active_routing_indexes cfg cdc u) item = entries u item"
  by (simp add: rebuild_entries fold_keeps [where g = "\<lambda>u. entries u item"])

lemma read_entry_cong: "entries u item = entries u' item \<Longrightarrow> read_entry dec item u = read_entry dec item u'"
  by (simp add: read_entry_def fun_eq_iff)

lemma rebuild_miners:
  assumes "layout_laws cdc"
  shows "read_entry (dec_miner cdc) I_Miners (rebuild_active_routing_indexes cfg cdc u) i =
    (if i \<in> set (snd (rebuilt_miners cfg (view cdc u)))
     then map_option (demote_miner cfg (view cdc u) i) (read_entry (dec_miner cdc) I_Miners u i)
     else read_entry (dec_miner cdc) I_Miners u i)"
proof -
  have "read_entry (dec_miner cdc) I_Miners (rebuild_active_routing_indexes cfg cdc u) =
    read_entry (dec_miner cdc) I_Miners (fold (\<lambda>i. mutate_entry I_Miners (dec_miner cdc) (enc_miner cdc)
         (demote_miner cfg (view cdc u) i) i) (snd (rebuilt_miners cfg (view cdc u))) u)"
    by (rule read_entry_cong) (simp add: rebuild_entries fold_keeps [where g = "\<lambda>u. entries u I_Miners"])
  then show ?thesis
    using assms by (simp add: fold_mutated demote_idem layout_laws_def)
qed

lemma rebuild_validators:
  assumes "layout_laws cdc"
  shows "read_entry (dec_validator cdc) I_Validators (rebuild_active_routing_indexes cfg cdc u) i =
    (if i \<in> set (snd (rebuilt_validators cfg (view cdc u)))
     then map_option (demote_validator cfg (view cdc u) i) (read_entry (dec_validator cdc) I_Validators u i)
     else read_entry (dec_validator cdc) I_Validators u i)"
proof -
  let ?m = "fold (\<lambda>i. mutate_entry I_Miners (dec_miner cdc) (enc_miner cdc)
         (demote_miner cfg (view cdc u) i) i) (snd (rebuilt_miners cfg (view cdc u))) u"
  have "read_entry (dec_validator cdc) I_Validators (rebuild_active_routing_indexes cfg cdc u) =
    read_entry (dec_validator cdc) I_Validators (fold (\<lambda>i. mutate_entry I_Validators (dec_validator cdc)
        (enc_validator cdc) (demote_validator cfg (view cdc u) i) i)
      (snd (rebuilt_validators cfg (view cdc u))) ?m)"
    by (rule read_entry_cong) (simp add: rebuild_entries)
  moreover have "read_entry (dec_validator cdc) I_Validators ?m = read_entry (dec_validator cdc) I_Validators u"
    by (rule read_entry_cong) (simp add: fold_keeps [where g = "\<lambda>u. entries u I_Validators"])
  ultimately show ?thesis
    using assms by (simp add: fold_mutated demote_idem layout_laws_def)
qed

text \<open>Eligible participants with pending requests come first.\<close>

definition pending_first :: "(nat \<rightharpoonup> RequestId) \<Rightarrow> nat list \<Rightarrow> nat list" where
  "pending_first pending ids =
     filter (\<lambda>i. pending_of pending i > 0) ids @ filter (\<lambda>i. \<not> pending_of pending i > 0) ids"

lemma set_pending_first [simp]: "set (pending_first pending ids) = set ids"
  by (auto simp: pending_first_def)

lemma pending_first_Nil [simp]: "pending_first pending ids = [] \<longleftrightarrow> ids = []"
  using set_pending_first [of pending ids] by (metis set_empty)

lemma ids_of_filter:
  "ids_of sid (filter (\<lambda>(i, _). P i) xs) = filter P (ids_of sid xs)"
  by (induction xs) auto

lemma distinct_split_filter:
  "distinct (map fst xs) \<Longrightarrow> distinct (map fst (filter P xs @ filter (\<lambda>x. \<not> P x) xs))"
  by (auto simp: distinct_map inj_on_def)

lemma index_participants_at:
  assumes ins: "\<And>ids i. i \<notin> set ids \<Longrightarrow> insert_id ids i =
      (if Suc (length ids) \<le> cap then Inr (True, sort (ids @ [i])) else Inl e)"
    and dist: "distinct (map fst xs)" and start: "index sid = []"
  shows "fst (index_participants insert_id xs pending index) sid =
      sort (take cap (pending_first pending (ids_of sid xs)))"
    and "i \<in> set (ids_of sid xs) \<Longrightarrow> i \<in> set (snd (index_participants insert_id xs pending index)) \<longleftrightarrow>
      i \<in> set (drop cap (pending_first pending (ids_of sid xs)))"
proof -
  let ?P = "\<lambda>(i, _ :: SubnetId). pending_of pending i > 0"
  let ?xs = "filter ?P xs @ filter (\<lambda>x. \<not> ?P x) xs"
  obtain idx ov where r: "fold (index_participant insert_id) ?xs (index, []) = (idx, ov)"
    by (cases "fold (index_participant insert_id) ?xs (index, [])")
  have split: "(\<lambda>x. \<not> ?P x) = (\<lambda>(i, _). \<not> pending_of pending i > 0)" by auto
  have eq: "index_participants insert_id xs pending index = (idx, ov)"
    using r unfolding split by (simp add: index_participants_def Let_def)
  have ids: "ids_of sid ?xs = pending_first pending (ids_of sid xs)"
    unfolding split filter_append map_append ids_of_filter pending_first_def ..
  note at = index_fold [OF ins distinct_split_filter [OF dist] start r, unfolded ids]
  show "fst (index_participants insert_id xs pending index) sid =
      sort (take cap (pending_first pending (ids_of sid xs)))"
    using at by (simp add: eq)
  assume "i \<in> set (ids_of sid xs)"
  then have "(i, sid) \<in> set ?xs" by (cases "pending_of pending i > 0") auto
  with at show "i \<in> set (snd (index_participants insert_id xs pending index)) \<longleftrightarrow>
      i \<in> set (drop cap (pending_first pending (ids_of sid xs)))"
    unfolding eq snd_conv by blast
qed

lemma sorted_registry_ids: "sorted (map fst (registry_records m n))"
  by (induction n) (auto simp: registry_records_Suc set_registry_records sorted_append
      registry_records_def List.map_filter_def split: option.splits)

lemma sort_registry_ids:
  "sort (map fst (filter P (registry_records m n))) = map fst (filter P (registry_records m n))"
  by (simp add: sorted_sort_id sorted_filter sorted_registry_ids)

lemma ids_of_indexable:
  "ids_of sid (indexable_miners cfg s) = active_miner_route_ids cfg s sid"
  "ids_of sid (indexable_validators cfg s) = active_validator_route_ids cfg s sid"
  by (simp_all add: indexable_miners_def active_miner_route_ids_def miner_records_def
      indexable_validators_def active_validator_route_ids_def validator_records_def sort_registry_ids
      filter_map comp_def case_prod_unfold miner_is_route_eligible_def validator_is_route_eligible_def
      conj_ac)

lemma removed_below_at: "removed_below n index sid = (if sid < n then [] else index sid)"
  by (induction n) (auto simp: removed_below_def)

lemma distinct_indexable:
  "distinct (map fst (indexable_miners cfg s))" "distinct (map fst (indexable_validators cfg s))"
  by (simp_all add: indexable_miners_def indexable_validators_def miner_records_def
      validator_records_def comp_def case_prod_unfold distinct_map_filter distinct_registry_ids)

lemma rebuilt_miners_at:
  assumes "sid < SubnetCount s"
  shows "fst (rebuilt_miners cfg s) sid = sort (take (MaxActiveMinersPerSubnet cfg)
      (pending_first (PendingMinerRequests s) (active_miner_route_ids cfg s sid)))"
    and "i \<in> set (active_miner_route_ids cfg s sid) \<Longrightarrow>
      i \<in> set (snd (rebuilt_miners cfg s)) \<longleftrightarrow> i \<in> set (drop (MaxActiveMinersPerSubnet cfg)
        (pending_first (PendingMinerRequests s) (active_miner_route_ids cfg s sid)))"
  using assms index_participants_at [where insert_id = "insert_sorted_miner_id cfg"
      and xs = "indexable_miners cfg s" and sid = sid and pending = "PendingMinerRequests s"
      and index = "removed_below (SubnetCount s) (ActiveMinersBySubnet s)"
      and cap = "MaxActiveMinersPerSubnet cfg" and e = Error_TooManyActiveMiners,
      OF _ distinct_indexable(1)]
  by (simp_all add: rebuilt_miners_def ids_of_indexable removed_below_at insert_sorted_miner_id_def
      insert_sorted_id_fresh)

lemma rebuilt_validators_at:
  assumes "sid < SubnetCount s"
  shows "fst (rebuilt_validators cfg s) sid = sort (take (MaxActiveValidatorsPerSubnet cfg)
      (pending_first (PendingValidatorRequests s) (active_validator_route_ids cfg s sid)))"
    and "i \<in> set (active_validator_route_ids cfg s sid) \<Longrightarrow>
      i \<in> set (snd (rebuilt_validators cfg s)) \<longleftrightarrow> i \<in> set (drop (MaxActiveValidatorsPerSubnet cfg)
        (pending_first (PendingValidatorRequests s) (active_validator_route_ids cfg s sid)))"
  using assms index_participants_at [where insert_id = "insert_sorted_validator_id cfg"
      and xs = "indexable_validators cfg s" and sid = sid and pending = "PendingValidatorRequests s"
      and index = "removed_below (SubnetCount s) (ActiveValidatorsBySubnet s)"
      and cap = "MaxActiveValidatorsPerSubnet cfg" and e = Error_TooManyActiveValidators,
      OF _ distinct_indexable(2)]
  by (simp_all add: rebuilt_validators_def ids_of_indexable removed_below_at insert_sorted_validator_id_def
      insert_sorted_id_fresh)

text \<open>The storage the rebuild reads, and the storage the whole upgrade leaves.\<close>

abbreviation rebuilt_from ::
  "'cur Config \<Rightarrow> 'raw LayoutCodec \<Rightarrow> ('raw, 'cur) Upgrade \<Rightarrow> 'cur Storage" where
  "rebuilt_from cfg cdc u \<equiv> view cdc (before_rebuild cfg cdc (on_chain_storage_version u) u)"

abbreviation upgraded ::
  "'cur Config \<Rightarrow> 'raw LayoutCodec \<Rightarrow> ('raw, 'cur) Upgrade \<Rightarrow> 'cur Storage" where
  "upgraded cfg cdc u \<equiv> view cdc (on_runtime_upgrade cfg cdc u)"

lemma upgraded_routing:
  assumes "on_chain_storage_version u < 27"
  shows "same_routing (rebuilt_from cfg cdc u) (upgraded cfg cdc u)"
proof -
  let ?b = "before_rebuild cfg cdc (on_chain_storage_version u) u"
  have "same_routing (typed_storage ?b) (typed_storage (rebuild_active_routing_indexes cfg cdc ?b))"
    by (simp add: rebuild_typed same_routing_def)
  from same_routing_trans [OF this after_rebuild_routing]
  show ?thesis by (simp add: on_runtime_upgrade_parts [OF assms] same_routing_view)
qed

lemma upgraded_entry:
  assumes "on_chain_storage_version u < 27" and "item \<noteq> I_ProofRecords"
  shows "read_entry dec item (on_runtime_upgrade cfg cdc u) =
    read_entry dec item (rebuild_active_routing_indexes cfg cdc
      (before_rebuild cfg cdc (on_chain_storage_version u) u))"
  by (rule read_entry_cong)
    (simp add: on_runtime_upgrade_parts [OF assms(1)] after_rebuild_entries [OF assms(2)])

lemma upgraded_participants:
  assumes "on_chain_storage_version u < 27" and "layout_laws cdc"
  shows "Miners (upgraded cfg cdc u) i =
      (if i \<in> set (snd (rebuilt_miners cfg (rebuilt_from cfg cdc u)))
       then map_option (demote_miner cfg (rebuilt_from cfg cdc u) i) (Miners (rebuilt_from cfg cdc u) i)
       else Miners (rebuilt_from cfg cdc u) i)"
    and "Validators (upgraded cfg cdc u) i =
      (if i \<in> set (snd (rebuilt_validators cfg (rebuilt_from cfg cdc u)))
       then map_option (demote_validator cfg (rebuilt_from cfg cdc u) i)
         (Validators (rebuilt_from cfg cdc u) i)
       else Validators (rebuilt_from cfg cdc u) i)"
proof -
  let ?b = "before_rebuild cfg cdc (on_chain_storage_version u) u"
  show "Miners (upgraded cfg cdc u) i =
      (if i \<in> set (snd (rebuilt_miners cfg (view cdc ?b)))
       then map_option (demote_miner cfg (view cdc ?b) i) (Miners (view cdc ?b) i)
       else Miners (view cdc ?b) i)"
    by (simp add: upgraded_entry [OF assms(1)] rebuild_miners [OF assms(2)])
  show "Validators (upgraded cfg cdc u) i =
      (if i \<in> set (snd (rebuilt_validators cfg (view cdc ?b)))
       then map_option (demote_validator cfg (view cdc ?b) i) (Validators (view cdc ?b) i)
       else Validators (view cdc ?b) i)"
    by (simp add: upgraded_entry [OF assms(1)] rebuild_validators [OF assms(2)])
qed

lemma in_route_ids:
  "i \<in> set (active_miner_route_ids cfg s sid) \<longleftrightarrow> i < MinerCount s \<and>
     (\<exists>m. Miners s i = Some m \<and> cm_subnet_id m = sid \<and> miner_is_route_eligible cfg s i m)"
  "i \<in> set (active_validator_route_ids cfg s sid) \<longleftrightarrow> i < ValidatorCount s \<and>
     (\<exists>v. Validators s i = Some v \<and> cv_subnet_id v = sid \<and> validator_is_route_eligible cfg s i v)"
  by (auto simp: active_miner_route_ids_def active_validator_route_ids_def miner_records_def
      validator_records_def set_registry_records image_iff)

lemma distinct_route_ids:
  "distinct (active_miner_route_ids cfg s sid)" "distinct (active_validator_route_ids cfg s sid)"
  by (simp_all add: active_miner_route_ids_def active_validator_route_ids_def miner_records_def
      validator_records_def distinct_map_filter distinct_registry_ids)

lemma demoted_eligible:
  "miner_is_route_eligible cfg s i (demote_miner cfg t i m) \<longleftrightarrow>
     miner_is_route_eligible cfg s i m \<and> pending_of (PendingMinerRequests t) i > 0"
  "validator_is_route_eligible cfg s i (demote_validator cfg t i v) \<longleftrightarrow>
     validator_is_route_eligible cfg s i v \<and> pending_of (PendingValidatorRequests t) i > 0"
  by (auto simp: demote_miner_def demote_validator_def miner_is_route_eligible_def
      validator_is_route_eligible_def Let_def)

lemma demoted_subnet [simp]:
  "cm_subnet_id (demote_miner cfg t i m) = cm_subnet_id m"
  "cv_subnet_id (demote_validator cfg t i v) = cv_subnet_id v"
  by (simp_all add: demote_miner_def demote_validator_def Let_def)

text \<open>Of the participants that were eligible, the overflowing ones without pending requests lose
  their place.\<close>

lemma upgraded_route_ids:
  assumes "on_chain_storage_version u < 27" and "layout_laws cdc"
  shows "i \<in> set (active_miner_route_ids cfg (upgraded cfg cdc u) sid) \<longleftrightarrow>
      i \<in> set (active_miner_route_ids cfg (rebuilt_from cfg cdc u) sid) \<and>
      (i \<in> set (snd (rebuilt_miners cfg (rebuilt_from cfg cdc u))) \<longrightarrow>
        pending_of (PendingMinerRequests (rebuilt_from cfg cdc u)) i > 0)"
    and "i \<in> set (active_validator_route_ids cfg (upgraded cfg cdc u) sid) \<longleftrightarrow>
      i \<in> set (active_validator_route_ids cfg (rebuilt_from cfg cdc u) sid) \<and>
      (i \<in> set (snd (rebuilt_validators cfg (rebuilt_from cfg cdc u))) \<longrightarrow>
        pending_of (PendingValidatorRequests (rebuilt_from cfg cdc u)) i > 0)"
proof -
  note same = upgraded_routing [OF assms(1), where cfg = cfg and cdc = cdc]
  have counts: "MinerCount (upgraded cfg cdc u) = MinerCount (rebuilt_from cfg cdc u)"
    "ValidatorCount (upgraded cfg cdc u) = ValidatorCount (rebuilt_from cfg cdc u)"
    using same unfolding same_routing_def by blast+
  show "i \<in> set (active_miner_route_ids cfg (upgraded cfg cdc u) sid) \<longleftrightarrow>
      i \<in> set (active_miner_route_ids cfg (rebuilt_from cfg cdc u) sid) \<and>
      (i \<in> set (snd (rebuilt_miners cfg (rebuilt_from cfg cdc u))) \<longrightarrow>
        pending_of (PendingMinerRequests (rebuilt_from cfg cdc u)) i > 0)"
    unfolding in_route_ids upgraded_participants [OF assms] same_routing_eligible [OF same] counts
    by (auto simp: demoted_eligible simp del: view_sel)
  show "i \<in> set (active_validator_route_ids cfg (upgraded cfg cdc u) sid) \<longleftrightarrow>
      i \<in> set (active_validator_route_ids cfg (rebuilt_from cfg cdc u) sid) \<and>
      (i \<in> set (snd (rebuilt_validators cfg (rebuilt_from cfg cdc u))) \<longrightarrow>
        pending_of (PendingValidatorRequests (rebuilt_from cfg cdc u)) i > 0)"
    unfolding in_route_ids upgraded_participants [OF assms] same_routing_eligible [OF same] counts
    by (auto simp: demoted_eligible simp del: view_sel)
qed

lemma kept_ids_bound:
  assumes kept: "\<And>i. i \<in> set kept \<longleftrightarrow> i \<in> set ids \<and> (i \<in> set overflow \<longrightarrow> pending_of pending i > 0)"
    and over: "\<And>i. i \<in> set ids \<Longrightarrow> i \<in> set overflow \<longleftrightarrow> i \<in> set (drop cap (pending_first pending ids))"
    and "distinct kept" and "distinct ids"
  shows "length kept \<le> max cap (length (filter (\<lambda>i. pending_of pending i > 0) kept))"
proof -
  let ?P = "\<lambda>i. pending_of pending i > 0"
  have "length kept \<le> max cap (length (filter ?P ids))"
  proof (rule kept_within_capacity [OF _ \<open>distinct kept\<close>])
    show "set kept \<subseteq> set (filter ?P ids @ filter (\<lambda>i. \<not> ?P i) ids)" using kept by auto
    show "set kept \<inter> set (filter (\<lambda>i. \<not> ?P i) ids) \<inter>
        set (drop cap (filter ?P ids @ filter (\<lambda>i. \<not> ?P i) ids)) = {}"
      using kept over unfolding pending_first_def by auto
  qed
  also have "length (filter ?P ids) = card (set (filter ?P ids))"
    using \<open>distinct ids\<close> by (metis distinct_card distinct_filter)
  also have "set (filter ?P ids) = set (filter ?P kept)" using kept by auto
  also have "card \<dots> = length (filter ?P kept)" using \<open>distinct kept\<close> by (metis distinct_card distinct_filter)
  finally show ?thesis .
qed

lemma upgraded_capacity:
  fixes u :: "('raw, 'cur) Upgrade"
  assumes "on_chain_storage_version u < 27" and "layout_laws cdc"
    and "sid < SubnetCount (upgraded cfg cdc u)"
  defines "s \<equiv> upgraded cfg cdc u"
  shows "length (active_miner_route_ids cfg s sid) \<le> max (MaxActiveMinersPerSubnet cfg)
      (length (filter (\<lambda>i. pending_of (PendingMinerRequests s) i > 0) (active_miner_route_ids cfg s sid)))"
    and "length (active_validator_route_ids cfg s sid) \<le> max (MaxActiveValidatorsPerSubnet cfg)
      (length (filter (\<lambda>i. pending_of (PendingValidatorRequests s) i > 0)
        (active_validator_route_ids cfg s sid)))"
proof -
  note same = upgraded_routing [OF assms(1), where cfg = cfg and cdc = cdc]
  have sid: "sid < SubnetCount (rebuilt_from cfg cdc u)" using assms(3) same by (simp add: same_routing_def)
  have pend: "PendingMinerRequests s = PendingMinerRequests (rebuilt_from cfg cdc u)"
    "PendingValidatorRequests s = PendingValidatorRequests (rebuilt_from cfg cdc u)"
    using same unfolding same_routing_def s_def by blast+
  show "length (active_miner_route_ids cfg s sid) \<le> max (MaxActiveMinersPerSubnet cfg)
      (length (filter (\<lambda>i. pending_of (PendingMinerRequests s) i > 0) (active_miner_route_ids cfg s sid)))"
    unfolding pend
    by (rule kept_ids_bound [OF _ rebuilt_miners_at(2) [OF sid] distinct_route_ids(1) distinct_route_ids(1)])
      (simp_all only: s_def upgraded_route_ids [OF assms(1,2)])
  show "length (active_validator_route_ids cfg s sid) \<le> max (MaxActiveValidatorsPerSubnet cfg)
      (length (filter (\<lambda>i. pending_of (PendingValidatorRequests s) i > 0)
        (active_validator_route_ids cfg s sid)))"
    unfolding pend
    by (rule kept_ids_bound [OF _ rebuilt_validators_at(2) [OF sid] distinct_route_ids(2) distinct_route_ids(2)])
      (simp_all only: s_def upgraded_route_ids [OF assms(1,2)])
qed

section \<open>Request counters after the upgrade\<close>

lemma request_records_cong:
  "entries u I_InferenceRequests = entries w I_InferenceRequests \<Longrightarrow>
   RequestCount (typed_storage u) = RequestCount (typed_storage w) \<Longrightarrow>
   request_records (view cdc u) = request_records (view cdc w)"
  by (simp add: request_records_def read_entry_cong [of u I_InferenceRequests w])

lemma after_rebuild_counts:
  "raw_request_status_counts (view cdc (after_rebuild cfg cdc v u)) =
     expected_status_counts (view cdc (after_rebuild cfg cdc v u))"
proof -
  let ?w = "migrate_participant_capital_records cdc v (migrate_active_routing_index_values v u)"
  have "request_records (view cdc (after_rebuild cfg cdc v u)) = request_records (view cdc ?w)"
    by (rule request_records_cong) (simp_all add: after_rebuild_defs)
  then show ?thesis
    by (simp add: raw_request_status_counts_def expected_status_counts_def view_def after_rebuild_def
        proof_migrations_keep rebuild_request_status_counts_def Let_def)
qed

lemma upgraded_status_counts:
  assumes "on_chain_storage_version u < 27"
  shows "raw_request_status_counts (upgraded cfg cdc u) = expected_status_counts (upgraded cfg cdc u)"
  by (simp add: on_runtime_upgrade_parts [OF assms] after_rebuild_counts)

lemma counted_requests:
  assumes "raw_request_status_counts s = expected_status_counts s" and "RequestCount s < 2 ^ 64"
  shows "status_count st s = requests_with st s"
proof -
  have "status_count st s = count_of st (raw_request_status_counts s)"
    by (cases st) (simp_all add: count_of_def raw_request_status_counts_def)
  then show ?thesis
    unfolding assms(1) expected_status_counts_def request_records_def requests_with_def
    using fold_count_request [OF assms(2)] by simp
qed

section \<open>Requests before and after the upgrade\<close>

text \<open>The migrations before the rebuild, in three groups.\<close>

definition entries_moved ::
  "'cur Config \<Rightarrow> 'raw LayoutCodec \<Rightarrow> nat \<Rightarrow> ('raw, 'cur) Upgrade \<Rightarrow> ('raw, 'cur) Upgrade" where
  "entries_moved cfg cdc v u =
     migrate_participant_capital_commitments cfg cdc v
     (migrate_subnet_policy_commitments cfg cdc v
     (migrate_operator_commitments cfg cdc v
     (migrate_burned_total v
     (migrate_inference_accounting_totals v
     (migrate_request_and_proof_storage_keys v
     (migrate_registry_storage_keys v
     (migrate_subnet_storage_keys v u)))))))"

definition requests_rewritten ::
  "'cur Config \<Rightarrow> 'raw LayoutCodec \<Rightarrow> nat \<Rightarrow> ('raw, 'cur) Upgrade \<Rightarrow> ('raw, 'cur) Upgrade" where
  "requests_rewritten cfg cdc v u =
     migrate_request_terms_commitments cfg cdc v
     (migrate_request_timing_commitments cfg cdc v
     (migrate_request_owner_commitments cfg cdc v
     (migrate_request_assignment_commitments cfg cdc v u)))"

definition values_moved ::
  "'cur Config \<Rightarrow> 'raw LayoutCodec \<Rightarrow> nat \<Rightarrow> ('raw, 'cur) Upgrade \<Rightarrow> ('raw, 'cur) Upgrade" where
  "values_moved cfg cdc v u =
     migrate_capital_record_storage_keys cdc v
     (migrate_active_routing_index_keys v
     (migrate_identity_signature_challenges cfg cdc v
     (migrate_identity_storage_keys cdc v u)))"

lemma before_rebuild_groups:
  "before_rebuild cfg cdc v u =
     values_moved cfg cdc v (requests_rewritten cfg cdc v (entries_moved cfg cdc v u))"
  by (simp add: before_rebuild_def values_moved_def requests_rewritten_def entries_moved_def)

definition census :: "'cur Storage \<Rightarrow> nat \<times> nat \<times> nat \<times> (nat \<rightharpoonup> nat) \<times> (nat \<rightharpoonup> nat)" where
  "census s = (SubnetCount s, MinerCount s, RequestCount s, PendingMinerRequests s,
     PendingValidatorRequests s)"

lemma census_kept [simp]:
  "census (s\<lparr>MinerLockedBond := a\<rparr>) = census s" "census (s\<lparr>ValidatorLockedStake := a\<rparr>) = census s"
  "census (s\<lparr>MinerIdentityCommitments := b\<rparr>) = census s"
  "census (s\<lparr>MinerIdentitySignatureBundles := c\<rparr>) = census s"
  "census (s\<lparr>MinerIdentitySignatureChallenges := d\<rparr>) = census s"
  "census (s\<lparr>ValidatorIdentityCommitments := b\<rparr>) = census s"
  "census (s\<lparr>ValidatorIdentitySignatureBundles := c\<rparr>) = census s"
  "census (s\<lparr>ValidatorIdentitySignatureChallenges := d\<rparr>) = census s"
  "census (s\<lparr>ActiveMinersBySubnet := e, ActiveValidatorsBySubnet := f\<rparr>) = census s"
  by (simp_all add: census_def)

lemma move_value_census:
  "(\<And>i x s. census (f i x s) = census s) \<Longrightarrow>
     census (typed_storage (move_value item dec f i u)) = census (typed_storage u)"
  by (simp split: option.splits)

lemma identity_keys_keep:
  "entries (migrate_miner_identity_keys cdc i u) = entries u"
  "entries (migrate_validator_identity_keys cdc i u) = entries u"
  "census (typed_storage (migrate_miner_identity_keys cdc i u)) = census (typed_storage u)"
  "census (typed_storage (migrate_validator_identity_keys cdc i u)) = census (typed_storage u)"
  unfolding migrate_miner_identity_keys_def migrate_validator_identity_keys_def
  by (simp_all add: move_value_census del: move_value_sel(2))

lemma values_moved_keep:
  "entries (values_moved cfg cdc v u) = entries u"
  "census (typed_storage (values_moved cfg cdc v u)) = census (typed_storage u)"
proof -
  have capital: "entries (migrate_capital_record_storage_keys cdc v w) = entries w"
    "census (typed_storage (migrate_capital_record_storage_keys cdc v w)) = census (typed_storage w)" for w
    by (simp_all add: migrate_capital_record_storage_keys_def Let_def move_value_census
        fold_keeps [where g = entries] fold_keeps [where g = "\<lambda>u. census (typed_storage u)"]
        del: move_value_sel(2))
  have identity: "entries (migrate_identity_storage_keys cdc v w) = entries w"
    "census (typed_storage (migrate_identity_storage_keys cdc v w)) = census (typed_storage w)" for w
    by (simp_all add: migrate_identity_storage_keys_def Let_def identity_keys_keep
        fold_keeps [where g = entries] fold_keeps [where g = "\<lambda>u. census (typed_storage u)"])
  have challenges: "entries (migrate_identity_signature_challenges cfg cdc v w) = entries w"
    "census (typed_storage (migrate_identity_signature_challenges cfg cdc v w)) = census (typed_storage w)"
    for w
    by (simp_all add: migrate_identity_signature_challenges_def Let_def case_prod_unfold
        fold_keeps [where g = census] split: option.split)
  have keys: "entries (migrate_active_routing_index_keys v w) = entries w"
    "census (typed_storage (migrate_active_routing_index_keys v w)) = census (typed_storage w)" for w
    by (simp_all add: migrate_active_routing_index_keys_def
        clear_active_routing_index_storage_prefixes_def)
  show "entries (values_moved cfg cdc v u) = entries u"
    "census (typed_storage (values_moved cfg cdc v u)) = census (typed_storage u)"
    by (simp_all add: values_moved_def capital identity challenges keys)
qed

lemma entries_moved_census:
  "census (typed_storage (entries_moved cfg cdc v u)) = census (typed_storage u)"
  by (simp add: entries_moved_def migrate_participant_capital_commitments_def
      migrate_subnet_policy_commitments_def migrate_operator_commitments_def migrate_burned_total_def
      migrate_inference_accounting_totals_def migrate_request_and_proof_storage_keys_def
      migrate_registry_storage_keys_def migrate_subnet_storage_keys_def clear_burned_total_def
      clear_inference_accounting_totals_def modify_def census_def
      fold_keeps [where g = typed_storage])

lemma keys_located:
  assumes "v < 25" and "i < RequestCount (typed_storage u)"
  shows "entries (migrate_request_and_proof_storage_keys v u) I_InferenceRequests i =
    located u I_InferenceRequests i"
proof -
  let ?g = "\<lambda>u. (entries u I_InferenceRequests i, legacy_entries u I_InferenceRequests i)"
  let ?f = "\<lambda>i u. move_entry I_ProofRecords i (move_entry I_InferenceRequests i u)"
  have "?g (fold ?f [0..<RequestCount (typed_storage u)] u) =
      (if i \<in> set [0..<RequestCount (typed_storage u)]
       then (\<lambda>(e, l). (case l of None \<Rightarrow> e | Some bs \<Rightarrow> Some bs, None)) (?g u) else ?g u)"
    by (rule fold_at) (auto simp: located_def split: option.splits)
  then show ?thesis using assms
    by (auto simp: migrate_request_and_proof_storage_keys_def located_def split: option.splits)
qed

lemma entries_moved_requests:
  assumes "v < 25" and "i < RequestCount (typed_storage u)"
  shows "entries (entries_moved cfg cdc v u) I_InferenceRequests i = located u I_InferenceRequests i"
proof -
  let ?k = "migrate_registry_storage_keys v (migrate_subnet_storage_keys v u)"
  note keep = fold_keeps [where g = "\<lambda>u. entries u I_InferenceRequests"]
    fold_keeps [where g = "\<lambda>u. legacy_entries u I_InferenceRequests"] fold_keeps [where g = typed_storage]
  have k: "entries ?k I_InferenceRequests = entries u I_InferenceRequests"
    "legacy_entries ?k I_InferenceRequests = legacy_entries u I_InferenceRequests"
    "RequestCount (typed_storage ?k) = RequestCount (typed_storage u)"
    by (simp_all add: migrate_registry_storage_keys_def migrate_subnet_storage_keys_def keep)
  have loc: "located ?k I_InferenceRequests i = located u I_InferenceRequests i"
    unfolding located_def k ..
  have "entries (entries_moved cfg cdc v u) I_InferenceRequests =
      entries (migrate_request_and_proof_storage_keys v ?k) I_InferenceRequests"
    by (simp add: entries_moved_def migrate_participant_capital_commitments_def
        migrate_subnet_policy_commitments_def migrate_operator_commitments_def migrate_burned_total_def
        migrate_inference_accounting_totals_def keep)
  with keys_located [of v i ?k] assms k(3) loc show ?thesis by simp
qed

text \<open>One request migration rewrites each entry that decodes in the old layout.\<close>

lemma request_entry_keeps:
  "item \<noteq> I_InferenceRequests \<Longrightarrow>
     entries (snd (snd (migrate_request_entry cdc dec paid assigned conv j st))) item =
       entries (snd (snd st)) item"
  "RequestCount (typed_storage (snd (snd (migrate_request_entry cdc dec paid assigned conv j st)))) =
     RequestCount (typed_storage (snd (snd st)))"
  "i \<noteq> j \<Longrightarrow> entries (snd (snd (migrate_request_entry cdc dec paid assigned conv j st))) I_InferenceRequests i =
     entries (snd (snd st)) I_InferenceRequests i"
  "entries (snd (snd (migrate_request_entry cdc dec paid assigned conv j st))) I_InferenceRequests j =
     (case read_entry dec I_InferenceRequests (snd (snd st)) j of
        None \<Rightarrow> entries (snd (snd st)) I_InferenceRequests j
      | Some old \<Rightarrow> Some (enc_request cdc (conv old)))"
  by (auto simp: migrate_request_entry_def Let_def increment_pending_assignment_def action_defs
      split: prod.splits option.splits sum.splits if_splits)

lemma request_entries_sel:
  "typed_storage (migrate_request_entries cdc dec paid assigned conv u) =
     (snd (clear_inference_accounting_totals (typed_storage (snd (snd
       (fold (migrate_request_entry cdc dec paid assigned conv)
         [0..<RequestCount (typed_storage u)] (zero_accounting, 0, u)))))))
     \<lparr>LegacyAccountingMigrationFailures := fst (snd
       (fold (migrate_request_entry cdc dec paid assigned conv)
         [0..<RequestCount (typed_storage u)] (zero_accounting, 0, u)))\<rparr>"
  "entries (migrate_request_entries cdc dec paid assigned conv u) = entries (snd (snd
     (fold (migrate_request_entry cdc dec paid assigned conv)
       [0..<RequestCount (typed_storage u)] (zero_accounting, 0, u))))"
  by (simp_all add: migrate_request_entries_def put_inference_accounting_def split: prod.splits)

lemma request_entries_keep:
  "item \<noteq> I_InferenceRequests \<Longrightarrow>
     entries (migrate_request_entries cdc dec paid assigned conv u) item = entries u item"
  "RequestCount (typed_storage (migrate_request_entries cdc dec paid assigned conv u)) =
     RequestCount (typed_storage u)"
  by (simp_all add: request_entries_sel request_entry_keeps clear_inference_accounting_totals_def modify_def
      fold_keeps [where g = "\<lambda>st. entries (snd (snd st)) item"]
      fold_keeps [where g = "\<lambda>st. RequestCount (typed_storage (snd (snd st)))"])

lemma request_entries_at:
  assumes "i < RequestCount (typed_storage u)"
  shows "entries (migrate_request_entries cdc dec paid assigned conv u) I_InferenceRequests i =
    (case read_entry dec I_InferenceRequests u i of
       None \<Rightarrow> entries u I_InferenceRequests i | Some old \<Rightarrow> Some (enc_request cdc (conv old)))"
proof -
  let ?f = "migrate_request_entry cdc dec paid assigned conv"
  have "entries (snd (snd (fold ?f [0..<RequestCount (typed_storage u)] (zero_accounting, 0, u))))
      I_InferenceRequests i =
    (case Option.bind (entries u I_InferenceRequests i) dec of
       None \<Rightarrow> entries u I_InferenceRequests i | Some old \<Rightarrow> Some (enc_request cdc (conv old)))"
    using assms fold_at [where g = "\<lambda>st. entries (snd (snd st)) I_InferenceRequests i" and i = i
        and f = ?f and xs = "[0..<RequestCount (typed_storage u)]" and u = "(zero_accounting, 0, u)"
        and \<phi> = "\<lambda>e. case Option.bind e dec of None \<Rightarrow> e | Some old \<Rightarrow> Some (enc_request cdc (conv old))"]
    by (simp add: request_entry_keeps read_entry_def split: option.split_asm option.split)
  then show ?thesis by (simp add: request_entries_sel read_entry_def)
qed

lemma request_entry_pending:
  assumes "pending_of (PendingMinerRequests (typed_storage (snd (snd st)))) mid + 1 < 2 ^ 64"
  shows "pending_of (PendingMinerRequests (typed_storage
      (snd (snd (migrate_request_entry cdc dec paid assigned conv j st))))) mid =
    pending_of (PendingMinerRequests (typed_storage (snd (snd st)))) mid +
    (if \<exists>old vid. read_entry dec I_InferenceRequests (snd (snd st)) j = Some old \<and>
        cr_status (conv old) = Request_Pending \<and> assigned old = Some (mid, vid) then 1 else 0)"
  using assms
  by (auto simp: migrate_request_entry_def Let_def increment_pending_assignment_def action_defs
      pending_of_def checked_add_def split: prod.splits option.splits sum.splits if_splits)

lemma request_entries_pending:
  assumes "n < 2 ^ 64" and "pending_of (PendingMinerRequests (typed_storage u)) mid = 0"
  shows "pending_of (PendingMinerRequests (typed_storage (snd (snd
      (fold (migrate_request_entry cdc dec paid assigned conv) [0..<n] (a, f, u)))))) mid =
    card {i. i < n \<and> (\<exists>old vid. read_entry dec I_InferenceRequests u i = Some old \<and>
      cr_status (conv old) = Request_Pending \<and> assigned old = Some (mid, vid))}" (is "?c n = card (?S n)")
  using assms(1)
proof (induction n)
  case 0
  then show ?case using assms(2) by simp
next
  case (Suc n)
  let ?st = "fold (migrate_request_entry cdc dec paid assigned conv) [0..<n] (a, f, u)"
  let ?hit = "\<exists>old vid. read_entry dec I_InferenceRequests u n = Some old \<and>
      cr_status (conv old) = Request_Pending \<and> assigned old = Some (mid, vid)"
  have fin: "finite (?S n)" by simp
  have S: "?S (Suc n) = (if ?hit then insert n (?S n) else ?S n)" by (auto simp: less_Suc_eq)
  have card_S: "card (?S (Suc n)) = card (?S n) + (if ?hit then 1 else 0)"
    by (cases ?hit) (simp_all only: S if_True if_False, simp_all add: card_insert_if [OF fin])
  have "card (?S n) \<le> card {..<n}" by (rule card_mono) auto
  then have room: "?c n + 1 < 2 ^ 64" using Suc by simp
  have "entries (snd (snd ?st)) I_InferenceRequests n = entries u I_InferenceRequests n"
    using fold_at [where g = "\<lambda>st. entries (snd (snd st)) I_InferenceRequests n" and i = n
        and f = "migrate_request_entry cdc dec paid assigned conv" and xs = "[0..<n]"
        and \<phi> = "\<lambda>e. case Option.bind e dec of None \<Rightarrow> e | Some old \<Rightarrow> Some (enc_request cdc (conv old))"
        and u = "(a, f, u)"]
    by (simp add: request_entry_keeps read_entry_def)
  then have "read_entry dec I_InferenceRequests (snd (snd ?st)) n = read_entry dec I_InferenceRequests u n"
    by (simp add: read_entry_def)
  with request_entry_pending [OF room, of cdc dec paid assigned conv n] Suc.IH Suc.prems card_S
  show ?case by (simp add: conj_ac)
qed

lemma upgraded_request:
  assumes "on_chain_storage_version u < 27"
  shows "InferenceRequests (upgraded cfg cdc u) =
    read_entry (dec_request cdc) I_InferenceRequests (requests_rewritten cfg cdc (on_chain_storage_version u)
      (entries_moved cfg cdc (on_chain_storage_version u) u))"
proof -
  have "entries (rebuild_active_routing_indexes cfg cdc
        (before_rebuild cfg cdc (on_chain_storage_version u) u)) I_InferenceRequests =
      entries (requests_rewritten cfg cdc (on_chain_storage_version u)
        (entries_moved cfg cdc (on_chain_storage_version u) u)) I_InferenceRequests"
    by (simp add: rebuild_other_entries before_rebuild_groups values_moved_keep)
  from read_entry_cong [OF this] show ?thesis by (simp add: upgraded_entry [OF assms])
qed

lemma clear_pending_keeps:
  "entries (clear_pending_assignment_counters cdc u) = entries u"
  "RequestCount (typed_storage (clear_pending_assignment_counters cdc u)) = RequestCount (typed_storage u)"
  by (simp_all add: clear_pending_assignment_counters_def Let_def case_prod_unfold
      fold_keeps [where g = RequestCount])

lemma fold_clear_miners:
  "PendingMinerRequests (fold (\<lambda>(i, _) s. s\<lparr>PendingMinerRequests := (PendingMinerRequests s)(i := None)\<rparr>) xs s) =
     (\<lambda>i. if i \<in> fst ` set xs then None else PendingMinerRequests s i)"
  by (induction xs arbitrary: s) (auto simp: fun_eq_iff)

lemma fold_clear_validators_keep:
  "PendingMinerRequests (fold (\<lambda>(i, _) s.
     s\<lparr>PendingValidatorRequests := (PendingValidatorRequests s)(i := None)\<rparr>) xs s) = PendingMinerRequests s"
  by (rule fold_keeps) auto

lemma clear_pending_miners:
  "PendingMinerRequests (typed_storage (clear_pending_assignment_counters cdc u)) =
     (\<lambda>i. if i < MinerCount (typed_storage u) \<and> read_entry (dec_miner cdc) I_Miners u i \<noteq> None
          then None else PendingMinerRequests (typed_storage u) i)"
proof -
  have ids: "fst ` set (miner_records (view cdc u)) =
      {i. i < MinerCount (typed_storage u) \<and> read_entry (dec_miner cdc) I_Miners u i \<noteq> None}"
    by (auto simp: miner_records_def set_registry_records image_iff)
  show ?thesis
    unfolding clear_pending_assignment_counters_def Let_def upgrade_on_typed fold_clear_validators_keep
      fold_clear_miners ids mem_Collect_eq ..
qed

text \<open>The entry of a request in the layout of its version, rewritten.\<close>

definition rewritten ::
  "'cur Config \<Rightarrow> 'raw LayoutCodec \<Rightarrow> nat \<Rightarrow> 'raw \<Rightarrow> ChainInferenceRequest option" where
  "rewritten cfg cdc v bs =
     (if v < 9 then map_option (request_of_v8 cfg) (dec_request_v8 cdc bs)
      else if v < 11 then map_option (request_of_v10 cfg) (dec_request_v10 cdc bs)
      else if v < 13 then map_option (request_of_v12 cfg) (dec_request_v12 cdc bs)
      else map_option (request_of_v13 cfg) (dec_request_v13 cdc bs))"

lemma rewritten_entry:
  assumes "i < RequestCount (typed_storage u)" and "Option.bind (entries u I_InferenceRequests i) dec = Some old"
  shows "entries (migrate_request_entries cdc dec paid assigned conv u) I_InferenceRequests i =
    Some (enc_request cdc (conv old))"
  using request_entries_at [OF assms(1), of cdc dec paid assigned conv] assms(2) by (simp add: read_entry_def)

lemma requests_rewritten_cases:
  "7 \<le> v \<Longrightarrow> v < 9 \<Longrightarrow> requests_rewritten cfg cdc v u = migrate_request_owner_commitments cfg cdc v u"
  "9 \<le> v \<Longrightarrow> v < 11 \<Longrightarrow> requests_rewritten cfg cdc v u = migrate_request_assignment_commitments cfg cdc v u"
  "11 \<le> v \<Longrightarrow> v < 13 \<Longrightarrow> requests_rewritten cfg cdc v u = migrate_request_timing_commitments cfg cdc v u"
  "v = 13 \<Longrightarrow> requests_rewritten cfg cdc v u = migrate_request_terms_commitments cfg cdc v u"
  by (simp_all add: requests_rewritten_def migrate_request_terms_commitments_def
      migrate_request_timing_commitments_def migrate_request_owner_commitments_def
      migrate_request_assignment_commitments_def)

lemma requests_rewritten_at:
  assumes "7 \<le> v" and "v < 14" and "i < RequestCount (typed_storage u)"
    and "entries u I_InferenceRequests i = Some bs" and "rewritten cfg cdc v bs = Some q"
  shows "entries (requests_rewritten cfg cdc v u) I_InferenceRequests i = Some (enc_request cdc q)"
proof -
  have kept: "i < RequestCount (typed_storage (clear_pending_assignment_counters cdc u))"
    "entries (clear_pending_assignment_counters cdc u) I_InferenceRequests i = Some bs"
    using assms(3,4) by (simp_all only: clear_pending_keeps)
  consider "7 \<le> v" "v < 9" | "9 \<le> v" "v < 11" | "11 \<le> v" "v < 13" | "v = 13" using assms by linarith
  then show ?thesis
  proof cases
    case 1
    then obtain old where old: "dec_request_v8 cdc bs = Some old" "q = request_of_v8 cfg old"
      using assms(5) by (auto simp: rewritten_def)
    from 1 have "\<not> (v < 7 \<or> v \<ge> 9)" by simp
    then show ?thesis
      unfolding requests_rewritten_cases(1) [OF 1] migrate_request_owner_commitments_def old(2)
      by (simp only: if_False) (rule rewritten_entry [OF kept(1)], simp add: kept(2) old(1))
  next
    case 2
    then obtain old where old: "dec_request_v10 cdc bs = Some old" "q = request_of_v10 cfg old"
      using assms(5) by (auto simp: rewritten_def)
    from 2 have "\<not> (v < 9 \<or> v \<ge> 11)" by simp
    then show ?thesis
      unfolding requests_rewritten_cases(2) [OF 2] migrate_request_assignment_commitments_def old(2)
      by (simp only: if_False) (rule rewritten_entry [OF kept(1)], simp add: kept(2) old(1))
  next
    case 3
    then obtain old where old: "dec_request_v12 cdc bs = Some old" "q = request_of_v12 cfg old"
      using assms(5) by (auto simp: rewritten_def)
    from 3 have "\<not> (v < 11 \<or> v \<ge> 13)" by simp
    then show ?thesis
      unfolding requests_rewritten_cases(3) [OF 3] migrate_request_timing_commitments_def old(2)
      by (simp only: if_False) (rule rewritten_entry [OF assms(3)], simp add: assms(4) old(1))
  next
    case 4
    then obtain old where old: "dec_request_v13 cdc bs = Some old" "q = request_of_v13 cfg old"
      using assms(5) by (auto simp: rewritten_def)
    from 4 have "\<not> (v < 13 \<or> v \<ge> 14)" by simp
    then show ?thesis
      unfolding requests_rewritten_cases(4) [OF 4] migrate_request_terms_commitments_def old(2)
      by (simp only: if_False) (rule rewritten_entry [OF assms(3)], simp add: assms(4) old(1))
  qed
qed

lemma upgraded_legacy_request:
  assumes "7 \<le> on_chain_storage_version u" and "on_chain_storage_version u < 14" and "layout_laws cdc"
    and "i < RequestCount (typed_storage u)"
    and "located u I_InferenceRequests i = Some bs"
    and "rewritten cfg cdc (on_chain_storage_version u) bs = Some q"
  shows "InferenceRequests (upgraded cfg cdc u) i = Some q"
proof -
  let ?v = "on_chain_storage_version u" and ?m = "entries_moved cfg cdc (on_chain_storage_version u) u"
  have count: "RequestCount (typed_storage ?m) = RequestCount (typed_storage u)"
    using entries_moved_census [of cfg cdc ?v u] by (simp only: census_def prod.inject)
  have moved: "entries ?m I_InferenceRequests i = located u I_InferenceRequests i"
    by (rule entries_moved_requests [OF _ assms(4)]) (use assms(2) in linarith)
  have e: "entries (requests_rewritten cfg cdc ?v ?m) I_InferenceRequests i = Some (enc_request cdc q)"
  proof (rule requests_rewritten_at [OF assms(1,2) _ _ assms(6)])
    show "i < RequestCount (typed_storage ?m)" using assms(4) unfolding count .
    show "entries ?m I_InferenceRequests i = Some bs" using assms(5) unfolding moved .
  qed
  have d: "dec_request cdc (enc_request cdc q) = Some q" using assms(3) unfolding layout_laws_def by blast
  have "?v < 27" using assms(2) by simp
  from upgraded_request [OF this, where cfg = cfg and cdc = cdc] show ?thesis by (simp only: read_entry_def e bind.bind_lunit d)
qed

section \<open>Pending counters after the upgrade\<close>

text \<open>The miner of a request that was pending, in the layouts that still name it.\<close>

definition pending_miner :: "'raw LayoutCodec \<Rightarrow> nat \<Rightarrow> 'raw \<Rightarrow> MinerId option" where
  "pending_miner cdc v bs =
     (if v < 9 then
        (case dec_request_v8 cdc bs of
           None \<Rightarrow> None
         | Some old \<Rightarrow> if r8_status old = Request_Pending then Some (r8_miner_id old) else None)
      else
        (case dec_request_v10 cdc bs of
           None \<Rightarrow> None
         | Some old \<Rightarrow> if r10_status old = Request_Pending then Some (r10_miner_id old) else None))"

lemma pending_miner_iff:
  "v < 9 \<Longrightarrow> pending_miner cdc v bs = Some mid \<longleftrightarrow> (\<exists>old vid. dec_request_v8 cdc bs = Some old \<and>
     cr_status (request_of_v8 cfg old) = Request_Pending \<and> Some (r8_miner_id old, r8_validator_id old) = Some (mid, vid))"
  "\<not> v < 9 \<Longrightarrow> pending_miner cdc v bs = Some mid \<longleftrightarrow> (\<exists>old vid. dec_request_v10 cdc bs = Some old \<and>
     cr_status (request_of_v10 cfg old) = Request_Pending \<and> Some (r10_miner_id old, r10_validator_id old) = Some (mid, vid))"
  by (auto simp: pending_miner_def request_of_v8_def request_of_v10_def split: option.splits)

lemma rewritten_pending:
  fixes m :: "('raw, 'cur) Upgrade"
  assumes "RequestCount (typed_storage m) < 2 ^ 64"
    and "PendingMinerRequests (typed_storage m) mid = None \<or>
      mid < MinerCount (typed_storage m) \<and> read_entry (dec_miner cdc) I_Miners m mid \<noteq> None"
    and iff: "\<And>bs. miner_of bs = Some mid \<longleftrightarrow> (\<exists>old vid. dec bs = Some old \<and>
      cr_status (conv old) = Request_Pending \<and> assigned old = Some (mid, vid))"
  shows "pending_of (PendingMinerRequests (typed_storage (migrate_request_entries cdc dec paid assigned conv
      (clear_pending_assignment_counters cdc m)))) mid =
    card {i. i < RequestCount (typed_storage m) \<and> Option.bind (entries m I_InferenceRequests i) miner_of = Some mid}"
proof -
  let ?c = "clear_pending_assignment_counters cdc m"
  have zero: "pending_of (PendingMinerRequests (typed_storage ?c)) mid = 0"
    using assms(2) by (auto simp: clear_pending_miners pending_of_def)
  have "{i. i < RequestCount (typed_storage m) \<and> Option.bind (entries m I_InferenceRequests i) miner_of = Some mid} =
      {i. i < RequestCount (typed_storage m) \<and> (\<exists>old vid. read_entry dec I_InferenceRequests ?c i = Some old \<and>
        cr_status (conv old) = Request_Pending \<and> assigned old = Some (mid, vid))}"
    unfolding read_entry_def clear_pending_keeps bind_eq_Some_conv iff by blast
  then show ?thesis
    using request_entries_pending [OF assms(1) zero, of cdc dec paid assigned conv zero_accounting 0]
    by (simp add: request_entries_sel clear_pending_keeps clear_inference_accounting_totals_def modify_def)
qed

lemma upgraded_miner_registered:
  assumes "7 \<le> on_chain_storage_version u" and "on_chain_storage_version u < 11" and "layout_laws cdc"
    and "Miners (upgraded cfg cdc u) mid \<noteq> None"
  shows "read_entry (dec_miner cdc) I_Miners (entries_moved cfg cdc (on_chain_storage_version u) u) mid \<noteq> None"
proof -
  let ?v = "on_chain_storage_version u" and ?m = "entries_moved cfg cdc (on_chain_storage_version u) u"
  have "?v < 27" using assms(2) by simp
  from upgraded_participants(1) [OF this assms(3), of cfg mid] assms(4)
  have "Miners (rebuilt_from cfg cdc u) mid \<noteq> None" by (auto split: if_splits)
  then have "read_entry (dec_miner cdc) I_Miners (requests_rewritten cfg cdc ?v ?m) mid \<noteq> None"
    unfolding view_sel before_rebuild_groups values_moved_keep read_entry_def .
  moreover have "?v < 9 \<or> 9 \<le> ?v" by linarith
  then have "entries (requests_rewritten cfg cdc ?v ?m) I_Miners = entries ?m I_Miners"
    using assms(1,2) by (auto simp: requests_rewritten_cases migrate_request_owner_commitments_def
        migrate_request_assignment_commitments_def request_entries_keep clear_pending_keeps)
  ultimately show ?thesis by (simp add: read_entry_def)
qed

lemma upgraded_pending_miners:
  assumes v: "7 \<le> on_chain_storage_version u" "on_chain_storage_version u < 11" and "layout_laws cdc"
    and "RequestCount (typed_storage u) < 2 ^ 64"
    and registered: "PendingMinerRequests (typed_storage u) mid = None \<or>
      mid < MinerCount (typed_storage u) \<and> Miners (upgraded cfg cdc u) mid \<noteq> None"
  shows "pending_of (PendingMinerRequests (upgraded cfg cdc u)) mid =
    card {i. i < RequestCount (typed_storage u) \<and>
      Option.bind (located u I_InferenceRequests i) (pending_miner cdc (on_chain_storage_version u)) = Some mid}"
proof -
  let ?v = "on_chain_storage_version u" and ?m = "entries_moved cfg cdc (on_chain_storage_version u) u"
  have census: "RequestCount (typed_storage ?m) = RequestCount (typed_storage u)"
    "MinerCount (typed_storage ?m) = MinerCount (typed_storage u)"
    "PendingMinerRequests (typed_storage ?m) = PendingMinerRequests (typed_storage u)"
    using entries_moved_census [of cfg cdc ?v u] by (simp_all only: census_def prod.inject)
  have "?v < 27" using v(2) by simp
  have "PendingMinerRequests (upgraded cfg cdc u) = PendingMinerRequests (rebuilt_from cfg cdc u)"
    using upgraded_routing [OF \<open>?v < 27\<close>, where cfg = cfg and cdc = cdc] unfolding same_routing_def by blast
  also have "\<dots> = PendingMinerRequests (typed_storage (requests_rewritten cfg cdc ?v ?m))"
    using values_moved_keep(2) [of cfg cdc ?v "requests_rewritten cfg cdc ?v ?m"]
    by (simp only: view_sel before_rebuild_groups census_def prod.inject)
  finally have pend: "PendingMinerRequests (upgraded cfg cdc u) =
      PendingMinerRequests (typed_storage (requests_rewritten cfg cdc ?v ?m))" .
  have reg: "PendingMinerRequests (typed_storage ?m) mid = None \<or>
      mid < MinerCount (typed_storage ?m) \<and> read_entry (dec_miner cdc) I_Miners ?m mid \<noteq> None"
    using registered upgraded_miner_registered [OF v assms(3), of cfg mid] unfolding census by blast
  have loc: "{i. i < RequestCount (typed_storage u) \<and>
        Option.bind (located u I_InferenceRequests i) (pending_miner cdc ?v) = Some mid} =
      {i. i < RequestCount (typed_storage ?m) \<and>
        Option.bind (entries ?m I_InferenceRequests i) (pending_miner cdc ?v) = Some mid}"
    using v entries_moved_requests [of ?v _ u cfg cdc] unfolding census by auto
  have bound: "RequestCount (typed_storage ?m) < 2 ^ 64" using assms(4) unfolding census .
  show ?thesis
  proof (cases "?v < 9")
    case True
    have "\<not> (?v < 7 \<or> ?v \<ge> 9)" using True v by simp
    then show ?thesis
      unfolding pend loc requests_rewritten_cases(1) [OF v(1) True] migrate_request_owner_commitments_def
      by (simp only: if_False) (rule rewritten_pending [OF bound reg pending_miner_iff(1) [OF True]])
  next
    case False
    then have "9 \<le> ?v" by simp
    have "\<not> (?v < 9 \<or> ?v \<ge> 11)" using False v by simp
    then show ?thesis
      unfolding pend loc requests_rewritten_cases(2) [OF \<open>9 \<le> ?v\<close> v(2)]
        migrate_request_assignment_commitments_def
      by (simp only: if_False) (rule rewritten_pending [OF bound reg pending_miner_iff(2) [OF False]])
  qed
qed

lemma upgraded_census:
  assumes "14 \<le> on_chain_storage_version u" and "on_chain_storage_version u < 27"
  shows "census (upgraded cfg cdc u) = census (typed_storage u)"
proof -
  let ?v = "on_chain_storage_version u"
  have "requests_rewritten cfg cdc ?v w = w" for w
    using assms(1) by (simp add: requests_rewritten_def migrate_request_terms_commitments_def
        migrate_request_timing_commitments_def migrate_request_owner_commitments_def
        migrate_request_assignment_commitments_def)
  then have "census (typed_storage (before_rebuild cfg cdc ?v u)) = census (typed_storage u)"
    by (simp add: before_rebuild_groups values_moved_keep entries_moved_census)
  moreover have "census (upgraded cfg cdc u) = census (rebuilt_from cfg cdc u)"
    using upgraded_routing [OF assms(2), where cfg = cfg and cdc = cdc]
    unfolding same_routing_def census_def by presburger
  ultimately show ?thesis by (simp add: census_def)
qed

section \<open>The index that an upgrade publishes\<close>

text \<open>From version 25 on, nothing before the rebuild touches what routing reads.\<close>

lemma before_rebuild_current:
  assumes "25 \<le> v"
  shows "entries (before_rebuild cfg cdc v u) = entries u"
    and "same_routing (typed_storage u) (typed_storage (before_rebuild cfg cdc v u))"
proof -
  have "before_rebuild cfg cdc v u = migrate_burned_total v (migrate_inference_accounting_totals v u)"
    using assms
    by (simp add: before_rebuild_def migrate_capital_record_storage_keys_def migrate_active_routing_index_keys_def
        migrate_identity_signature_challenges_def migrate_identity_storage_keys_def
        migrate_request_terms_commitments_def migrate_request_timing_commitments_def
        migrate_request_owner_commitments_def migrate_request_assignment_commitments_def
        migrate_participant_capital_commitments_def migrate_subnet_policy_commitments_def
        migrate_operator_commitments_def migrate_request_and_proof_storage_keys_def
        migrate_registry_storage_keys_def migrate_subnet_storage_keys_def)
  then show "entries (before_rebuild cfg cdc v u) = entries u"
    and "same_routing (typed_storage u) (typed_storage (before_rebuild cfg cdc v u))"
    by (simp_all add: migrate_burned_total_def migrate_inference_accounting_totals_def clear_burned_total_def
        clear_inference_accounting_totals_def modify_def same_routing_def)
qed

lemma route_ids_same:
  assumes "same_routing s s'" and "Miners s' = Miners s" and "Validators s' = Validators s"
  shows "active_miner_route_ids cfg s' sid = active_miner_route_ids cfg s sid"
    and "active_validator_route_ids cfg s' sid = active_validator_route_ids cfg s sid"
  using assms(1)
  by (simp_all add: active_miner_route_ids_def active_validator_route_ids_def miner_records_def
      validator_records_def assms(2,3) same_routing_eligible [OF assms(1)] same_routing_def)

lemma published_index:
  assumes v: "25 \<le> on_chain_storage_version u" "on_chain_storage_version u < 27"
    and "sid < SubnetCount (typed_storage u)"
  shows "ActiveMinersBySubnet (upgraded cfg cdc u) sid = sort (take (MaxActiveMinersPerSubnet cfg)
      (pending_first (PendingMinerRequests (typed_storage u)) (active_miner_route_ids cfg (view cdc u) sid)))"
    and "ActiveValidatorsBySubnet (upgraded cfg cdc u) sid = sort (take (MaxActiveValidatorsPerSubnet cfg)
      (pending_first (PendingValidatorRequests (typed_storage u)) (active_validator_route_ids cfg (view cdc u) sid)))"
proof -
  let ?v = "on_chain_storage_version u"
  let ?b = "before_rebuild cfg cdc ?v u"
  note cur = before_rebuild_current [OF v(1), where cfg = cfg and cdc = cdc and u = u]
  have same: "same_routing (view cdc u) (view cdc ?b)" using cur(2) by (simp add: same_routing_view)
  have parts: "Miners (view cdc ?b) = Miners (view cdc u)" "Validators (view cdc ?b) = Validators (view cdc u)"
    using cur(1) by (simp_all add: read_entry_def fun_eq_iff)
  note ids = route_ids_same [OF same parts]
  have sid: "sid < SubnetCount (view cdc ?b)" and
    pend: "PendingMinerRequests (view cdc ?b) = PendingMinerRequests (typed_storage u)"
    "PendingValidatorRequests (view cdc ?b) = PendingValidatorRequests (typed_storage u)"
    using same assms(3) by (simp_all add: same_routing_def)
  have index: "ActiveMinersBySubnet (upgraded cfg cdc u) = fst (rebuilt_miners cfg (view cdc ?b))"
    "ActiveValidatorsBySubnet (upgraded cfg cdc u) = fst (rebuilt_validators cfg (view cdc ?b))"
    using v by (simp_all add: on_runtime_upgrade_parts after_rebuild_typed rebuild_typed)
  show "ActiveMinersBySubnet (upgraded cfg cdc u) sid = sort (take (MaxActiveMinersPerSubnet cfg)
      (pending_first (PendingMinerRequests (typed_storage u)) (active_miner_route_ids cfg (view cdc u) sid)))"
    unfolding index rebuilt_miners_at(1) [OF sid] ids pend ..
  show "ActiveValidatorsBySubnet (upgraded cfg cdc u) sid = sort (take (MaxActiveValidatorsPerSubnet cfg)
      (pending_first (PendingValidatorRequests (typed_storage u)) (active_validator_route_ids cfg (view cdc u) sid)))"
    unfolding index rebuilt_validators_at(1) [OF sid] ids pend ..
qed

lemma post_upgrade_ok:
  "post_upgrade cfg cdc u = Inr () \<longleftrightarrow> on_chain_storage_version u = 27 \<and>
     (\<forall>sid < SubnetCount (view cdc u). audit_subnet cfg (view cdc u) sid = Inr ()) \<and>
     (\<forall>x \<in> set (miner_records (view cdc u)). audit_miner (view cdc u) x = Inr ()) \<and>
     (\<forall>x \<in> set (validator_records (view cdc u)). audit_validator (view cdc u) x = Inr ()) \<and>
     raw_request_status_counts (view cdc u) = expected_status_counts (view cdc u)"
  by (auto simp: post_upgrade_def ensure_active_routing_indexes_match_def for_each_ok STORAGE_VERSION_def
      ok_simps simp del: view_sel)

end
