(* ===== verification/Pallet_Upgrade_Properties.thy ===== *)
theory Pallet_Upgrade_Properties
  imports Pallet_Upgrade Pallet_Demo
begin

text \<open>
  Properties of a runtime upgrade of the pallet: what happens to requests of earlier layouts, to the
  counters, to the routing capacity and to the published routing index.
\<close>

section \<open>An encoding and a storage to upgrade\<close>

text \<open>Byte strings that say what they encode.\<close>

datatype demo_raw =
    Raw_subnet ChainSubnet | Raw_miner ChainMiner | Raw_validator ChainValidator
  | Raw_request ChainInferenceRequest | Raw_proof ChainProofRecord
  | Raw_request_v8 ChainInferenceRequestV8

definition demo_layout :: "demo_raw LayoutCodec" where
  "demo_layout = \<lparr>
     enc_subnet = Raw_subnet, dec_subnet = (\<lambda>bs. case bs of Raw_subnet x \<Rightarrow> Some x | _ \<Rightarrow> None),
     enc_miner = Raw_miner, dec_miner = (\<lambda>bs. case bs of Raw_miner x \<Rightarrow> Some x | _ \<Rightarrow> None),
     enc_validator = Raw_validator, dec_validator = (\<lambda>bs. case bs of Raw_validator x \<Rightarrow> Some x | _ \<Rightarrow> None),
     enc_request = Raw_request, dec_request = (\<lambda>bs. case bs of Raw_request x \<Rightarrow> Some x | _ \<Rightarrow> None),
     enc_proof = Raw_proof, dec_proof = (\<lambda>bs. case bs of Raw_proof x \<Rightarrow> Some x | _ \<Rightarrow> None),
     dec_subnet_v15 = (\<lambda>_. None), dec_miner_v7 = (\<lambda>_. None), dec_validator_v7 = (\<lambda>_. None),
     dec_miner_v9 = (\<lambda>_. None), dec_validator_v9 = (\<lambda>_. None), dec_proof_v4 = (\<lambda>_. None),
     dec_proof_v11 = (\<lambda>_. None), dec_proof_v14 = (\<lambda>_. None),
     dec_request_v8 = (\<lambda>bs. case bs of Raw_request_v8 x \<Rightarrow> Some x | _ \<Rightarrow> None),
     dec_request_v10 = (\<lambda>_. None), dec_request_v12 = (\<lambda>_. None), dec_request_v13 = (\<lambda>_. None),
     dec_balance = (\<lambda>_. None), dec_identity = (\<lambda>_. None), dec_bundle = (\<lambda>_. None),
     dec_commitment = (\<lambda>_. None)\<rparr>"

lemma demo_layout_laws: "layout_laws demo_layout"
  by (simp add: layout_laws_def demo_layout_def)

text \<open>A storage of the current layout, under its current keys, as an upgrade finds it.\<close>

definition stored :: "'raw LayoutCodec \<Rightarrow> nat \<Rightarrow> 'cur Storage \<Rightarrow> ('raw, 'cur) Upgrade" where
  "stored cdc v s = \<lparr>on_chain_storage_version = v, legacy_entries = (\<lambda>_ _. None),
     entries = (\<lambda>item i. case item of
       I_Subnets \<Rightarrow> map_option (enc_subnet cdc) (Subnets s i)
     | I_Miners \<Rightarrow> map_option (enc_miner cdc) (Miners s i)
     | I_Validators \<Rightarrow> map_option (enc_validator cdc) (Validators s i)
     | I_InferenceRequests \<Rightarrow> map_option (enc_request cdc) (InferenceRequests s i)
     | I_ProofRecords \<Rightarrow> map_option (enc_proof cdc) (ProofRecords s i)
     | _ \<Rightarrow> None),
     typed_storage = s\<rparr>"

lemma stored_sel [simp]:
  "on_chain_storage_version (stored cdc v s) = v" "typed_storage (stored cdc v s) = s"
  by (simp_all add: stored_def)

lemma view_stored: "layout_laws cdc \<Longrightarrow> view cdc (stored cdc v s) = s"
  by (cases s) (auto simp: view_def stored_def read_entry_def layout_laws_def fun_eq_iff split: bind_split)

definition demo_request_v8 :: ChainInferenceRequestV8 where
  "demo_request_v8 = \<lparr>r8_request_id = 0, r8_user = 4, r8_subnet_id = 0, r8_miner_id = 0,
     r8_validator_id = 0, r8_input_commitment = 500, r8_payment = 300, r8_validator_fee_bps = 1000,
     r8_treasury_fee_bps = 500, r8_created_at = 3, r8_status = Request_Pending\<rparr>"

text \<open>A storage of version 8 with one pending request under its old key.\<close>

definition demo_v8 :: "(demo_raw, Bank) Upgrade" where
  "demo_v8 = (stored demo_layout 8 (demo_s6\<lparr>RequestCount := 1\<rparr>))
     \<lparr>legacy_entries := (\<lambda>_ _. None)(I_InferenceRequests := [0 \<mapsto> Raw_request_v8 demo_request_v8])\<rparr>"

lemma demo_v8_sel:
  "on_chain_storage_version demo_v8 = 8" "RequestCount (typed_storage demo_v8) = 1"
  "located demo_v8 I_InferenceRequests 0 = Some (Raw_request_v8 demo_request_v8)"
  "PendingMinerRequests (typed_storage demo_v8) 0 = None"
  "dec_request_v8 demo_layout (Raw_request_v8 x) = Some x"
  by (simp_all add: demo_v8_def located_def demo_layout_def demo_defs)

section \<open>Requests of earlier layouts\<close>

lemma legacy_openings:
  "cr_assignment_commitment q =
     legacy_request_assignment_commitment cfg (cr_request_id q) (cr_subnet_id q) mid vid \<Longrightarrow>
     ensure_request_assignment_witness cfg q mid vid LEGACY_ASSIGNMENT_BLINDING = Inr ()"
  "cr_timing_commitment q = legacy_request_timing_commitment cfg (cr_request_id q) created \<Longrightarrow>
     ensure_request_timing_witness cfg q \<lparr>created_at = created, timing_blinding = LEGACY_TIMING_BLINDING\<rparr> =
       Inr ()"
  "cr_terms_commitment q = legacy_request_terms_commitment cfg (cr_request_id q) pay vbps tbps \<Longrightarrow>
     0 < pay \<Longrightarrow> vbps + tbps \<le> BPS_DENOMINATOR \<Longrightarrow>
     ensure_request_terms_witness cfg q \<lparr>terms = \<lparr>payment = pay, validator_fee_bps = vbps,
       treasury_fee_bps = tbps\<rparr>, terms_blinding = LEGACY_TERMS_BLINDING\<rparr> = Inr ()"
  by (simp_all add: ensure_request_assignment_witness_def resolve_request_assignment_commitment_def
      ensure_request_timing_witness_def ensure_request_terms_witness_def validate_fee_split_def
      checked_add_def BPS_DENOMINATOR_def ok_or_r_def ensure_r_def bind_r_def Let_def)

text \<open>C28: A request stored by a release that kept user, assignment, terms and time in the clear is
  rewritten by the upgrade into one that its user and its validator open with the zero blindings: the
  user is recognised, and the assignment, the time and the terms are accepted as witnesses.  Its status
  is kept.\<close>

theorem legacy_requests_open:
  assumes "7 \<le> on_chain_storage_version u" and "on_chain_storage_version u < 9" and "layout_laws cdc"
    and "i < RequestCount (typed_storage u)" and "located u I_InferenceRequests i = Some bs"
    and "dec_request_v8 cdc bs = Some old" and "0 < r8_payment old"
    and "r8_validator_fee_bps old + r8_treasury_fee_bps old \<le> BPS_DENOMINATOR"
  shows "\<exists>q. InferenceRequests (view cdc (on_runtime_upgrade cfg cdc u)) i = Some q \<and>
    cr_status q = r8_status old \<and> ensure_request_user cfg q (r8_user old) = Inr () \<and>
    ensure_request_assignment_witness cfg q (r8_miner_id old) (r8_validator_id old)
      LEGACY_ASSIGNMENT_BLINDING = Inr () \<and>
    ensure_request_timing_witness cfg q
      \<lparr>created_at = r8_created_at old, timing_blinding = LEGACY_TIMING_BLINDING\<rparr> = Inr () \<and>
    ensure_request_terms_witness cfg q \<lparr>terms = \<lparr>payment = r8_payment old,
      validator_fee_bps = r8_validator_fee_bps old, treasury_fee_bps = r8_treasury_fee_bps old\<rparr>,
      terms_blinding = LEGACY_TERMS_BLINDING\<rparr> = Inr ()"
proof -
  have "rewritten cfg cdc (on_chain_storage_version u) bs = Some (request_of_v8 cfg old)"
    using assms(2,6) by (simp add: rewritten_def)
  moreover have "on_chain_storage_version u < 14" using assms(2) by simp
  ultimately have "InferenceRequests (upgraded cfg cdc u) i = Some (request_of_v8 cfg old)"
    by (intro upgraded_legacy_request [OF assms(1) _ assms(3-5)])
  moreover have "ensure_request_user cfg (request_of_v8 cfg old) (r8_user old) = Inr ()"
    by (simp add: ensure_request_user_def request_user_commitment_matches_def request_of_v8_def ensure_r_def)
  ultimately show ?thesis
    using assms(7,8) by (intro exI [of _ "request_of_v8 cfg old"])
      (simp add: legacy_openings request_of_v8_def)
qed

theorem legacy_requests_open_witness:
  "\<exists>q. InferenceRequests (view demo_layout (on_runtime_upgrade demo_cfg demo_layout demo_v8)) 0 = Some q \<and>
    cr_status q = Request_Pending \<and> ensure_request_user demo_cfg q 4 = Inr ()"
  using legacy_requests_open [of demo_v8 demo_layout 0 "Raw_request_v8 demo_request_v8" demo_request_v8
      demo_cfg]
  by (auto simp: demo_v8_sel demo_layout_laws demo_request_v8_def BPS_DENOMINATOR_def)

section \<open>Counters\<close>

text \<open>C29: After an upgrade from a release that stored assignments in the clear, the pending counter of
  a miner is the number of its pending requests.  A counter may only have existed before for a
  registered miner.\<close>

theorem upgrade_rebuilds_pending_counters:
  assumes "7 \<le> on_chain_storage_version u" and "on_chain_storage_version u < 11" and "layout_laws cdc"
    and "RequestCount (typed_storage u) < 2 ^ 64"
    and "PendingMinerRequests (typed_storage u) mid = None \<or>
      mid < MinerCount (typed_storage u) \<and> Miners (view cdc (on_runtime_upgrade cfg cdc u)) mid \<noteq> None"
  shows "pending_of (PendingMinerRequests (view cdc (on_runtime_upgrade cfg cdc u))) mid =
    card {i. i < RequestCount (typed_storage u) \<and>
      Option.bind (located u I_InferenceRequests i) (pending_miner cdc (on_chain_storage_version u)) = Some mid}"
  using assms by (rule upgraded_pending_miners)

theorem upgrade_rebuilds_pending_counters_witness:
  "pending_of (PendingMinerRequests (view demo_layout (on_runtime_upgrade demo_cfg demo_layout demo_v8))) 0 = 1"
proof -
  have "{i. i < RequestCount (typed_storage demo_v8) \<and>
      Option.bind (located demo_v8 I_InferenceRequests i) (pending_miner demo_layout 8) = Some 0} = {0}"
    by (auto simp: demo_v8_sel pending_miner_def demo_request_v8_def)
  with upgrade_rebuilds_pending_counters [of demo_v8 demo_layout 0 demo_cfg] show ?thesis
    by (simp add: demo_v8_sel demo_layout_laws)
qed

text \<open>After every upgrade the five request counters count the requests of their status.\<close>

theorem upgrade_counts_requests:
  assumes "on_chain_storage_version u < 27"
    and "RequestCount (view cdc (on_runtime_upgrade cfg cdc u)) < 2 ^ 64"
  shows "status_count st (view cdc (on_runtime_upgrade cfg cdc u)) =
    requests_with st (view cdc (on_runtime_upgrade cfg cdc u))"
  by (rule counted_requests [OF upgraded_status_counts [OF assms(1)] assms(2)])

section \<open>Routing\<close>

text \<open>C30: After every upgrade the participants of a subnet that can be routed to fit its capacity, or
  those of them with pending requests already exceed it: the upgrade retires the others, and only
  them.\<close>

theorem upgrade_restores_capacity:
  assumes "on_chain_storage_version u < 27" and "layout_laws cdc"
    and "s = view cdc (on_runtime_upgrade cfg cdc u)" and "sid < SubnetCount s"
  shows "length (active_miner_route_ids cfg s sid) \<le> max (MaxActiveMinersPerSubnet cfg)
      (length (filter (\<lambda>i. pending_of (PendingMinerRequests s) i > 0) (active_miner_route_ids cfg s sid))) \<and>
    length (active_validator_route_ids cfg s sid) \<le> max (MaxActiveValidatorsPerSubnet cfg)
      (length (filter (\<lambda>i. pending_of (PendingValidatorRequests s) i > 0)
        (active_validator_route_ids cfg s sid)))"
  using upgraded_capacity [OF assms(1,2) assms(4) [unfolded assms(3)]] unfolding assms(3) by blast

lemma demo_upgraded_counts:
  assumes "14 \<le> v" and "v < 27"
  shows "SubnetCount (view demo_layout (on_runtime_upgrade demo_cfg demo_layout (stored demo_layout v demo_s6))) = 1"
    "RequestCount (view demo_layout (on_runtime_upgrade demo_cfg demo_layout (stored demo_layout v demo_s6))) = 0"
    "PendingMinerRequests (view demo_layout (on_runtime_upgrade demo_cfg demo_layout (stored demo_layout v demo_s6))) =
      Map.empty"
    "PendingValidatorRequests (view demo_layout (on_runtime_upgrade demo_cfg demo_layout (stored demo_layout v demo_s6))) =
      Map.empty"
  using upgraded_census [of "stored demo_layout v demo_s6" demo_layout demo_cfg] assms
  by (simp_all add: census_def demo_defs del: view_sel)

theorem upgrade_restores_capacity_witness:
  "length (active_miner_route_ids demo_cfg
     (view demo_layout (on_runtime_upgrade demo_cfg demo_layout (stored demo_layout 22 demo_s6))) 0) \<le> 4"
  using upgrade_restores_capacity [of "stored demo_layout 22 demo_s6" demo_layout _ demo_cfg 0, OF _ demo_layout_laws refl]
    demo_upgraded_counts [of 22]
  by (simp add: pending_of_def del: view_sel)

theorem upgrade_counts_requests_witness:
  "status_count Request_Pending
     (view demo_layout (on_runtime_upgrade demo_cfg demo_layout (stored demo_layout 22 demo_s6))) = 0"
  using upgrade_counts_requests [of "stored demo_layout 22 demo_s6" demo_layout demo_cfg Request_Pending]
    demo_upgraded_counts [of 22]
  by (simp add: requests_with_def del: view_sel)

text \<open>C32: An upgrade from version 25 or 26 leaves in the public index of a subnet the ids of its
  routable miners, those with pending requests first, up to the capacity.  As soon as there is one,
  the check after the upgrade, which wants the index empty, fails.\<close>

theorem upgrade_publishes_route_index:
  assumes "25 \<le> on_chain_storage_version u" and "on_chain_storage_version u < 27"
    and "sid < SubnetCount (typed_storage u)"
  shows "ActiveMinersBySubnet (view cdc (on_runtime_upgrade cfg cdc u)) sid =
      sort (take (MaxActiveMinersPerSubnet cfg)
        (pending_first (PendingMinerRequests (typed_storage u)) (active_miner_route_ids cfg (view cdc u) sid))) \<and>
    (0 < MaxActiveMinersPerSubnet cfg \<and> active_miner_route_ids cfg (view cdc u) sid \<noteq> [] \<longrightarrow>
      post_upgrade cfg cdc (on_runtime_upgrade cfg cdc u) \<noteq> Inr ())"
proof -
  note index = published_index(1) [OF assms, where cfg = cfg and cdc = cdc]
  have "post_upgrade cfg cdc (on_runtime_upgrade cfg cdc u) \<noteq> Inr ()"
    if "0 < MaxActiveMinersPerSubnet cfg" and "active_miner_route_ids cfg (view cdc u) sid \<noteq> []"
  proof -
    have "length (ActiveMinersBySubnet (upgraded cfg cdc u) sid) \<noteq> 0"
      using that unfolding index by simp
    then have "audit_subnet cfg (upgraded cfg cdc u) sid \<noteq> Inr ()"
      by (auto simp: audit_subnet_def ok_simps simp del: view_sel)
    moreover have "sid < SubnetCount (upgraded cfg cdc u)"
      using upgraded_census [of u cdc cfg] assms by (simp add: census_def)
    ultimately show ?thesis unfolding post_upgrade_ok by blast
  qed
  with index show ?thesis by blast
qed

theorem upgrade_publishes_route_index_witness:
  "ActiveMinersBySubnet (view demo_layout (on_runtime_upgrade demo_cfg demo_layout (stored demo_layout 26 demo_s6))) 0 = [0] \<and>
   post_upgrade demo_cfg demo_layout (on_runtime_upgrade demo_cfg demo_layout (stored demo_layout 26 demo_s6)) \<noteq> Inr ()"
proof -
  have "SubnetCount demo_s6 = 1" "PendingMinerRequests demo_s6 = Map.empty" by (simp_all add: demo_defs)
  then show ?thesis
    using upgrade_publishes_route_index [of "stored demo_layout 26 demo_s6" 0 demo_layout demo_cfg]
    by (simp add: view_stored [OF demo_layout_laws] demo_miner_ids pending_first_def pending_of_def del: view_sel)
qed

text \<open>C31: An upgrade from a version below 23 passes the check that follows it: the version is
  current, the public index is empty, the capacity holds and the request counters agree, provided
  that the participants with pending requests fit the capacity and none of them is of a status that
  may not have any.\<close>

theorem upgrade_passes_check:
  assumes "on_chain_storage_version u < 23" and "layout_laws cdc"
    and s: "s = view cdc (on_runtime_upgrade cfg cdc u)"
    and room: "\<And>sid. length (filter (\<lambda>i. pending_of (PendingMinerRequests s) i > 0)
        (active_miner_route_ids cfg s sid)) \<le> MaxActiveMinersPerSubnet cfg"
      "\<And>sid. length (filter (\<lambda>i. pending_of (PendingValidatorRequests s) i > 0)
        (active_validator_route_ids cfg s sid)) \<le> MaxActiveValidatorsPerSubnet cfg"
    and status: "\<And>i m. Miners s i = Some m \<Longrightarrow> pending_of (PendingMinerRequests s) i > 0 \<Longrightarrow>
        pending_allowed (cm_status m)"
      "\<And>i v. Validators s i = Some v \<Longrightarrow> pending_of (PendingValidatorRequests s) i > 0 \<Longrightarrow>
        pending_allowed (cv_status v)"
  shows "post_upgrade cfg cdc (on_runtime_upgrade cfg cdc u) = Inr ()"
proof -
  have v: "on_chain_storage_version u < 27" using assms(1) by simp
  have index: "ActiveMinersBySubnet s = (\<lambda>_. [])" "ActiveValidatorsBySubnet s = (\<lambda>_. [])"
    using assms(1) by (simp_all add: s on_runtime_upgrade_parts after_rebuild_typed)
  have "audit_subnet cfg s sid = Inr ()" if "sid < SubnetCount s" for sid
  proof -
    have "length (active_miner_route_ids cfg s sid) \<le> MaxActiveMinersPerSubnet cfg"
      "length (active_validator_route_ids cfg s sid) \<le> MaxActiveValidatorsPerSubnet cfg"
      using upgraded_capacity [OF v assms(2), of sid cfg, folded s] that room [of sid] by simp_all
    then show ?thesis
      by (auto simp: audit_subnet_def index ok_simps intro: le_trans [OF mod_less_eq_dividend])
  qed
  moreover have "audit_miner s x = Inr ()" if "x \<in> set (miner_records s)" for x
    using that status(1) by (auto simp: audit_miner_def miner_records_def set_registry_records Let_def ok_simps)
  moreover have "audit_validator s x = Inr ()" if "x \<in> set (validator_records s)" for x
    using that status(2)
    by (auto simp: audit_validator_def validator_records_def set_registry_records Let_def ok_simps)
  moreover have "on_chain_storage_version (on_runtime_upgrade cfg cdc u) = 27"
    by (simp add: on_runtime_upgrade_parts [OF v] STORAGE_VERSION_def)
  ultimately show ?thesis
    using upgraded_status_counts [OF v, of cdc cfg] unfolding post_upgrade_ok s [symmetric] by simp
qed

theorem upgrade_passes_check_witness:
  "post_upgrade demo_cfg demo_layout (on_runtime_upgrade demo_cfg demo_layout (stored demo_layout 22 demo_s6)) = Inr ()"
  by (rule upgrade_passes_check [OF _ demo_layout_laws refl])
    (simp_all add: demo_upgraded_counts [of 22] pending_of_def del: view_sel)

end
