(* ===== verification/Swap_Ticks.thy ===== *)
theory Swap_Ticks
  imports Prelude "HOL-Library.Signed_Division"
begin

text \<open>
  The ticks of the swap pallet: arithmetic on tick indices, and the set of active ticks of a subnet
  as a bitmap of three layers of 128-bit words.  A bit of the bottom layer is an active tick; a bit of
  a layer above says that the word below it is not zero.
\<close>

unbundle bit_operations_syntax

section \<open>Signed 32-bit arithmetic\<close>

definition i32_clamp :: "int \<Rightarrow> int" where
  "i32_clamp x = max (- (2 ^ 31)) (min (2 ^ 31 - 1) x)"

definition i32_saturating_add :: "int \<Rightarrow> int \<Rightarrow> int" where
  "i32_saturating_add a b = i32_clamp (a + b)"

definition i32_saturating_sub :: "int \<Rightarrow> int \<Rightarrow> int" where
  "i32_saturating_sub a b = i32_clamp (a - b)"

text \<open>Division truncates.\<close>

definition i32_saturating_div :: "int \<Rightarrow> int \<Rightarrow> int" where
  "i32_saturating_div a b = i32_clamp (a sdiv b)"

definition i32_checked_mul :: "int \<Rightarrow> int \<Rightarrow> int option" where
  "i32_checked_mul a b = (if - (2 ^ 31) \<le> a * b \<and> a * b < 2 ^ 31 then Some (a * b) else None)"

section \<open>Tick indices\<close>

datatype TickMathError =
  TickOutOfBounds | SqrtPriceOutOfBounds | ConversionError | TickMath_Overflow | TickMath_DivisionByZero

type_synonym TickIndex = int

definition MIN_TICK :: int where "MIN_TICK = - 887272"
definition MAX_TICK :: int where "MAX_TICK = - MIN_TICK"

definition TickIndex_MIN :: TickIndex where "TickIndex_MIN = i32_saturating_div MIN_TICK 2"
definition TickIndex_MAX :: TickIndex where "TickIndex_MAX = i32_saturating_div MAX_TICK 2"
definition TickIndex_OFFSET :: TickIndex where "TickIndex_OFFSET = MAX_TICK"

definition TickIndex_new :: "int \<Rightarrow> TickMathError + TickIndex" where
  "TickIndex_new v = (if \<not> (TickIndex_MIN \<le> v \<and> v \<le> TickIndex_MAX) then Inl TickOutOfBounds else Inr v)"

text \<open>The cast to \<open>i32\<close> of the difference, which is within an \<open>i64\<close>.\<close>

definition from_offset_index :: "nat \<Rightarrow> TickMathError + TickIndex" where
  "from_offset_index offset_index =
     TickIndex_new ((int offset_index - TickIndex_OFFSET + 2 ^ 31) mod 2 ^ 32 - 2 ^ 31)"

definition tick_next :: "TickIndex \<Rightarrow> TickMathError + TickIndex" where
  "tick_next t = TickIndex_new (i32_saturating_add t 1)"

definition tick_prev :: "TickIndex \<Rightarrow> TickMathError + TickIndex" where
  "tick_prev t = TickIndex_new (i32_saturating_sub t 1)"

definition tick_checked_add :: "TickIndex \<Rightarrow> int \<Rightarrow> TickMathError + TickIndex" where
  "tick_checked_add t v = TickIndex_new (i32_saturating_add t v)"

definition tick_checked_sub :: "TickIndex \<Rightarrow> int \<Rightarrow> TickMathError + TickIndex" where
  "tick_checked_sub t v = TickIndex_new (i32_saturating_sub t v)"

definition tick_saturating_add :: "TickIndex \<Rightarrow> int \<Rightarrow> TickIndex" where
  "tick_saturating_add t v =
     (case tick_checked_add t v of
        Inr r \<Rightarrow> r
      | Inl _ \<Rightarrow> if v > 0 then TickIndex_MAX else TickIndex_MIN)"

definition tick_saturating_sub :: "TickIndex \<Rightarrow> int \<Rightarrow> TickIndex" where
  "tick_saturating_sub t v =
     (case tick_checked_sub t v of
        Inr r \<Rightarrow> r
      | Inl _ \<Rightarrow> if v > 0 then TickIndex_MIN else TickIndex_MAX)"

definition tick_checked_div :: "TickIndex \<Rightarrow> int \<Rightarrow> TickMathError + TickIndex" where
  "tick_checked_div t v =
     (if v = 0 then Inl TickMath_DivisionByZero else TickIndex_new (i32_saturating_div t v))"

definition tick_saturating_div :: "TickIndex \<Rightarrow> int \<Rightarrow> TickIndex" where
  "tick_saturating_div t v =
     (if v = 0 then TickIndex_MAX
      else case tick_checked_div t v of
             Inr r \<Rightarrow> r
           | Inl _ \<Rightarrow> if t < 0 \<and> v > 0 \<or> t > 0 \<and> v < 0 then TickIndex_MIN else TickIndex_MAX)"

definition tick_checked_mul :: "TickIndex \<Rightarrow> int \<Rightarrow> TickMathError + TickIndex" where
  "tick_checked_mul t v =
     (case i32_checked_mul t v of Some r \<Rightarrow> TickIndex_new r | None \<Rightarrow> Inl TickMath_Overflow)"

definition tick_saturating_mul :: "TickIndex \<Rightarrow> int \<Rightarrow> TickIndex" where
  "tick_saturating_mul t v =
     (case tick_checked_mul t v of
        Inr r \<Rightarrow> r
      | Inl _ \<Rightarrow> if t < 0 \<and> v > 0 \<or> t > 0 \<and> v < 0 then TickIndex_MIN else TickIndex_MAX)"

section \<open>Positions in the bitmap\<close>

datatype LayerLevel = Top | Middle | Bottom

record BitmapLayer =
  layer_word :: nat
  layer_bit :: nat

record TickIndexBitmap =
  layer0 :: BitmapLayer
  layer1 :: BitmapLayer
  layer2 :: BitmapLayer

definition safe_div :: "nat \<Rightarrow> nat \<Rightarrow> nat" where
  "safe_div a b = (case checked_div a b of Some q \<Rightarrow> q | None \<Rightarrow> 0)"

definition index_to_layer :: "nat \<Rightarrow> BitmapLayer" where
  "index_to_layer index =
     \<lparr>layer_word = safe_div index 128,
      layer_bit = (case checked_rem index 128 of Some r \<Rightarrow> r | None \<Rightarrow> 0)\<rparr>"

definition layer_to_index :: "BitmapLayer \<Rightarrow> nat" where
  "layer_to_index l = saturating_add 32 (saturating_mul 32 (layer_word l) 128) (layer_bit l)"

fun layer_at :: "TickIndexBitmap \<Rightarrow> LayerLevel \<Rightarrow> BitmapLayer" where
  "layer_at bm Top = layer0 bm"
| "layer_at bm Middle = layer1 bm"
| "layer_at bm Bottom = layer2 bm"

definition one_bit :: "nat \<Rightarrow> 128 word" where "one_bit n = push_bit n 1"

definition bit_mask :: "TickIndexBitmap \<Rightarrow> LayerLevel \<Rightarrow> 128 word" where
  "bit_mask bm l = one_bit (layer_bit (layer_at bm l))"

definition word_at :: "TickIndexBitmap \<Rightarrow> LayerLevel \<Rightarrow> nat" where
  "word_at bm l = layer_word (layer_at bm l)"

definition bit_at :: "TickIndexBitmap \<Rightarrow> LayerLevel \<Rightarrow> nat" where
  "bit_at bm l = layer_bit (layer_at bm l)"

definition bitmap_from :: "TickIndex \<Rightarrow> TickIndexBitmap" where
  "bitmap_from tick_index =
     (let offset_index = nat (i32_saturating_add tick_index TickIndex_OFFSET mod 2 ^ 32);
          l2 = index_to_layer offset_index;
          l1 = index_to_layer (layer_word l2);
          l0 = index_to_layer (layer_word l1)
      in \<lparr>layer0 = l0, layer1 = l1, layer2 = l2\<rparr>)"

text \<open>A mask shifted either way becomes zero: \<open>mask_life\<close> counts the shifts that are left.\<close>

definition mask_life :: "bool \<Rightarrow> 128 word \<Rightarrow> nat" where
  "mask_life lower msk =
     (LEAST n. (if lower then drop_bit n msk else push_bit n msk) = 0)"

definition shift_mask :: "bool \<Rightarrow> 128 word \<Rightarrow> 128 word" where
  "shift_mask lower msk = (if lower then drop_bit 1 msk else push_bit 1 msk)"

lemma mask_life_shift: "msk \<noteq> 0 \<Longrightarrow> mask_life lower (shift_mask lower msk) < mask_life lower msk"
proof -
  assume nz: "msk \<noteq> 0"
  let ?z = "\<lambda>n. (if lower then drop_bit n msk else push_bit n msk) = 0"
  have "?z 128" by (auto simp: bit_eq_iff bit_simps)
  then have life: "?z (mask_life lower msk)" unfolding mask_life_def by (rule LeastI)
  then obtain m where m: "mask_life lower msk = Suc m" using nz by (cases "mask_life lower msk") (simp_all split: if_splits)
  have "(if lower then drop_bit m (shift_mask lower msk) else push_bit m (shift_mask lower msk)) = 0"
    using life unfolding m shift_mask_def by (auto simp: push_bit_push_bit drop_bit_drop_bit)
  then have "mask_life lower (shift_mask lower msk) \<le> m" unfolding mask_life_def [of lower "shift_mask lower msk"]
    by (rule Least_le)
  with m show ?thesis by simp
qed

function candidates_loop :: "128 word \<Rightarrow> nat \<Rightarrow> bool \<Rightarrow> 128 word \<Rightarrow> nat \<Rightarrow> nat list \<Rightarrow> nat list" where
  "candidates_loop wd start lower msk active_bit result =
     (if msk = 0 then result
      else
        let result = (if msk AND wd \<noteq> 0 then result @ [active_bit] else result) in
        if msk AND wd \<noteq> 0 \<and> active_bit \<noteq> start then result
        else candidates_loop wd start lower (shift_mask lower msk)
               (if lower then saturating_sub active_bit 1 else saturating_add 32 active_bit 1) result)"
  by pat_completeness auto
termination
  by (relation "measure (\<lambda>(wd, start, lower, msk, active_bit, result). mask_life lower msk)")
    (auto intro: mask_life_shift)

declare candidates_loop.simps [simp del]

definition find_closest_active_bit_candidates :: "128 word \<Rightarrow> nat \<Rightarrow> bool \<Rightarrow> nat list" where
  "find_closest_active_bit_candidates wd start lower =
     candidates_loop wd start lower (one_bit (start mod 128)) start []"

section \<open>The set of active ticks\<close>

type_synonym NetUid = nat
type_synonym Words = "NetUid \<Rightarrow> LayerLevel \<Rightarrow> nat \<Rightarrow> 128 word"

definition set_word :: "NetUid \<Rightarrow> LayerLevel \<Rightarrow> nat \<Rightarrow> 128 word \<Rightarrow> Words \<Rightarrow> Words" where
  "set_word netuid l i v ws = ws(netuid := (ws netuid)(l := (ws netuid l)(i := v)))"

definition out_of_range :: "TickIndex \<Rightarrow> bool" where
  "out_of_range index \<longleftrightarrow> index < TickIndex_MIN \<or> index > TickIndex_MAX"

definition tick_insert :: "NetUid \<Rightarrow> TickIndex \<Rightarrow> Words \<Rightarrow> Words" where
  "tick_insert netuid index ws =
     (if out_of_range index then ws
      else
        let bm = bitmap_from index;
            word0 = ws netuid Top (word_at bm Top) OR bit_mask bm Top;
            word1 = ws netuid Middle (word_at bm Middle) OR bit_mask bm Middle;
            word2 = ws netuid Bottom (word_at bm Bottom) OR bit_mask bm Bottom
        in set_word netuid Bottom (word_at bm Bottom) word2
             (set_word netuid Middle (word_at bm Middle) word1
               (set_word netuid Top (word_at bm Top) word0 ws)))"

definition tick_remove :: "NetUid \<Rightarrow> TickIndex \<Rightarrow> Words \<Rightarrow> Words" where
  "tick_remove netuid index ws =
     (if out_of_range index then ws
      else
        let bm = bitmap_from index;
            word0 = ws netuid Top (word_at bm Top);
            word1 = ws netuid Middle (word_at bm Middle);
            word2 = ws netuid Bottom (word_at bm Bottom) AND NOT (bit_mask bm Bottom);
            ws = set_word netuid Bottom (word_at bm Bottom) word2 ws;
            (word1, ws) =
              (if word2 = 0
               then let word1 = word1 AND NOT (bit_mask bm Middle)
                    in (word1, set_word netuid Middle (word_at bm Middle) word1 ws)
               else (word1, ws))
        in if word1 = 0
           then set_word netuid Top (word_at bm Top) (word0 AND NOT (bit_mask bm Top)) ws
           else ws)"

text \<open>The first bit to look at in a word: where the index is, or the edge of another word.\<close>

definition start_from :: "nat \<Rightarrow> nat \<Rightarrow> nat \<Rightarrow> nat" where
  "start_from word_index at_word at_bit =
     (if word_index < at_word then 127 else if word_index > at_word then 0 else at_bit)"

text \<open>The bodies of the two loops; the state is what is found and the best index so far.\<close>

definition search_bottom ::
  "(nat \<Rightarrow> 128 word) \<Rightarrow> TickIndexBitmap \<Rightarrow> bool \<Rightarrow> nat \<Rightarrow> nat \<Rightarrow> bool \<times> nat \<Rightarrow> bool \<times> nat" where
  "search_bottom bottom bm lower word1_index bit1 = (\<lambda>(found, result).
     let word2_index = layer_to_index \<lparr>layer_word = word1_index, layer_bit = bit1\<rparr>;
         bits = find_closest_active_bit_candidates (bottom word2_index)
           (start_from word2_index (word_at bm Bottom) (bit_at bm Bottom)) lower
     in case bits of
          [] \<Rightarrow> (found, result)
        | bit2 # _ \<Rightarrow>
            let index = layer_to_index \<lparr>layer_word = word2_index, layer_bit = bit2\<rparr>
            in if (if lower then index > result else index < result) \<or> \<not> found then (True, index)
               else (found, result))"

definition search_middle ::
  "(LayerLevel \<Rightarrow> nat \<Rightarrow> 128 word) \<Rightarrow> TickIndexBitmap \<Rightarrow> bool \<Rightarrow> nat \<Rightarrow> bool \<times> nat \<Rightarrow> bool \<times> nat" where
  "search_middle ws bm lower bit0 state =
     (let word1_index = layer_to_index \<lparr>layer_word = 0, layer_bit = bit0\<rparr>;
          bits = find_closest_active_bit_candidates (ws Middle word1_index)
            (start_from word1_index (word_at bm Middle) (bit_at bm Middle)) lower
      in fold (search_bottom (ws Bottom) bm lower word1_index) bits state)"

definition find_closest :: "NetUid \<Rightarrow> TickIndex \<Rightarrow> bool \<Rightarrow> Words \<Rightarrow> TickIndex option" where
  "find_closest netuid index lower ws =
     (if out_of_range index then None
      else
        let bm = bitmap_from index;
            bits = find_closest_active_bit_candidates (ws netuid Top (word_at bm Top)) (bit_at bm Top) lower;
            (found, result) = fold (search_middle (ws netuid) bm lower) bits (False, 0)
        in if \<not> found then None
           else case from_offset_index result of Inr t \<Rightarrow> Some t | Inl _ \<Rightarrow> None)"

definition find_closest_lower :: "NetUid \<Rightarrow> TickIndex \<Rightarrow> Words \<Rightarrow> TickIndex option" where
  "find_closest_lower netuid index ws = find_closest netuid index True ws"

definition find_closest_higher :: "NetUid \<Rightarrow> TickIndex \<Rightarrow> Words \<Rightarrow> TickIndex option" where
  "find_closest_higher netuid index ws = find_closest netuid index False ws"

definition tick_is_active :: "NetUid \<Rightarrow> TickIndex \<Rightarrow> Words \<Rightarrow> bool" where
  "tick_is_active netuid t ws =
     ((case find_closest_lower netuid t ws of Some r \<Rightarrow> r | None \<Rightarrow> TickIndex_MAX) = t)"

end
