(* ===== verification/Swap_Pallet.thy ===== *)
theory Swap_Pallet
  imports Swap_Ticks Shield_Pallet
begin

text \<open>
  The swap pallet, \<^verbatim>\<open>pallets/swap/src/pallet\<close> and \<^verbatim>\<open>position.rs\<close>: positions, the liquidity recorded at ticks, swaps one tick
  at a time, and the calls.

  Prices and fees are fixed-point numbers of an external crate.  The type \<open>'p\<close> stands for its unsigned and
  \<open>'i\<close> for its signed numbers, and the record \<open>FixedOps\<close> for its operations; the order of \<open>'p\<close> is
  the order of prices.  The square-root price of a tick, computed on 256-bit numbers, is part of the
  configuration, as are the balances and reserves of the other pallets, whose state is \<open>'w\<close>.
\<close>

section \<open>Data\<close>

record ('p, 'i) FixedOps =
  u_num :: "nat \<Rightarrow> 'p"
  u_frac :: "nat \<Rightarrow> nat \<Rightarrow> 'p"
  u_to :: "'p \<Rightarrow> nat"
  u_add :: "'p \<Rightarrow> 'p \<Rightarrow> 'p"
  u_sub :: "'p \<Rightarrow> 'p \<Rightarrow> 'p"
  u_mul :: "'p \<Rightarrow> 'p \<Rightarrow> 'p"
  u_checked_div :: "'p \<Rightarrow> 'p \<Rightarrow> 'p option"
  u_checked_sqrt :: "'p \<Rightarrow> 'p \<Rightarrow> 'p option"
  u_round :: "'p \<Rightarrow> 'p"
  i_num :: "nat \<Rightarrow> 'i"
  i_from :: "'p \<Rightarrow> 'i"
  i_sub :: "'i \<Rightarrow> 'i \<Rightarrow> 'i"
  i_mul :: "'i \<Rightarrow> 'i \<Rightarrow> 'i"
  i_to :: "'i \<Rightarrow> nat"

record 'i Tick =
  liquidity_net :: int
  liquidity_gross :: nat
  fees_out_tao :: 'i
  fees_out_alpha :: 'i

record 'i Position =
  pos_id :: nat
  pos_netuid :: NetUid
  tick_low :: TickIndex
  tick_high :: TickIndex
  pos_liquidity :: nat
  fees_tao :: 'i
  fees_alpha :: 'i

datatype SwapError =
    Swap_FeeRateTooHigh
  | Swap_InsufficientInputAmount
  | Swap_InsufficientLiquidity
  | Swap_PriceLimitExceeded
  | Swap_InsufficientBalance
  | Swap_LiquidityNotFound
  | Swap_InvalidTickRange
  | Swap_MaxPositionsExceeded
  | Swap_TooManySwapSteps
  | Swap_InvalidLiquidityValue
  | Swap_ReservesTooLow
  | Swap_MechanismDoesNotExist
  | Swap_UserLiquidityDisabled
  | Swap_SubtokenDisabled
  | Swap_BadOrigin
  | Swap_validator_hotkey_missing
  | Swap_Dispatch nat

datatype SwapEvent =
    Swap_FeeRateSet NetUid nat
  | Swap_UserLiquidityToggled NetUid bool
  | Swap_LiquidityRemoved AccountId AccountId NetUid nat nat Balance Balance Balance Balance TickIndex TickIndex
  | Swap_LiquidityModified AccountId AccountId NetUid nat int int int Balance Balance TickIndex TickIndex

text \<open>The entries of \<open>Positions\<close> are kept in the order of iteration.\<close>

type_synonym PositionKey = "NetUid \<times> AccountId \<times> nat"

record ('p, 'i, 'w) SwapStorage =
  FeeRate :: "NetUid \<Rightarrow> nat"
  FeeGlobalTao :: "NetUid \<Rightarrow> 'p"
  FeeGlobalAlpha :: "NetUid \<Rightarrow> 'p"
  Ticks :: "NetUid \<Rightarrow> TickIndex \<Rightarrow> 'i Tick option"
  SwapV3Initialized :: "NetUid \<Rightarrow> bool"
  AlphaSqrtPrice :: "NetUid \<Rightarrow> 'p"
  CurrentTick :: "NetUid \<Rightarrow> TickIndex"
  CurrentLiquidity :: "NetUid \<Rightarrow> nat"
  EnabledUserLiquidity :: "NetUid \<Rightarrow> bool"
  Positions :: "(PositionKey \<times> 'i Position) list"
  LastPositionId :: nat
  TickIndexBitmapWords :: Words
  ScrapReservoirTao :: "NetUid \<Rightarrow> Balance"
  ScrapReservoirAlpha :: "NetUid \<Rightarrow> Balance"
  sw_world :: 'w
  sw_events :: "SwapEvent list"

type_synonym ('p, 'i, 'w, 'a) swap = "(('p, 'i, 'w) SwapStorage, SwapError, 'a) action"

record ('p, 'i, 'w) SwapConfig =
  fixed_ops :: "('p, 'i) FixedOps"
  try_to_sqrt_price :: "TickIndex \<Rightarrow> 'p option"
  try_from_sqrt_price :: "'p \<Rightarrow> TickIndex option"
  sqrt_u128 :: "nat \<Rightarrow> nat"
  position_place :: "PositionKey \<Rightarrow> (PositionKey \<times> 'i Position) list \<Rightarrow> nat"
  MaxFeeRate :: nat
  MaxPositions :: nat
  MinimumLiquidity :: nat
  MinimumReserve :: nat
  protocol_account_id :: AccountId
  subnet_mechanism :: "NetUid \<Rightarrow> 'w \<Rightarrow> nat"
  subnet_exists :: "NetUid \<Rightarrow> 'w \<Rightarrow> bool"
  subnet_is_owner :: "AccountId \<Rightarrow> NetUid \<Rightarrow> 'w \<Rightarrow> bool"
  is_subtoken_enabled :: "NetUid \<Rightarrow> 'w \<Rightarrow> bool"
  validator_trust :: "NetUid \<Rightarrow> 'w \<Rightarrow> nat list"
  validator_permit :: "NetUid \<Rightarrow> 'w \<Rightarrow> bool list"
  hotkey_of_uid :: "NetUid \<Rightarrow> nat \<Rightarrow> 'w \<Rightarrow> AccountId option"
  tao_reserve :: "NetUid \<Rightarrow> 'w \<Rightarrow> Balance"
  alpha_reserve :: "NetUid \<Rightarrow> 'w \<Rightarrow> Balance"
  tao_decrease_provided :: "NetUid \<Rightarrow> Balance \<Rightarrow> 'w \<Rightarrow> 'w"
  alpha_decrease_provided :: "NetUid \<Rightarrow> Balance \<Rightarrow> 'w \<Rightarrow> 'w"
  tao_balance :: "AccountId \<Rightarrow> 'w \<Rightarrow> Balance"
  alpha_balance :: "NetUid \<Rightarrow> AccountId \<Rightarrow> AccountId \<Rightarrow> 'w \<Rightarrow> Balance"
  increase_balance :: "AccountId \<Rightarrow> Balance \<Rightarrow> 'w \<Rightarrow> 'w"
  decrease_balance :: "AccountId \<Rightarrow> Balance \<Rightarrow> 'w \<Rightarrow> (nat + Balance) \<times> 'w"
  increase_stake :: "AccountId \<Rightarrow> AccountId \<Rightarrow> NetUid \<Rightarrow> Balance \<Rightarrow> 'w \<Rightarrow> (nat + unit) \<times> 'w"
  decrease_stake :: "AccountId \<Rightarrow> AccountId \<Rightarrow> NetUid \<Rightarrow> Balance \<Rightarrow> 'w \<Rightarrow> (nat + Balance) \<times> 'w"

section \<open>Storage and numbers\<close>

definition u_safe_div :: "('p, 'i) FixedOps \<Rightarrow> 'p \<Rightarrow> 'p \<Rightarrow> 'p" where
  "u_safe_div F a b = (case u_checked_div F a b of Some q \<Rightarrow> q | None \<Rightarrow> u_num F 0)"

definition i128_clamp :: "int \<Rightarrow> int" where
  "i128_clamp x = max (- (2 ^ 127)) (min (2 ^ 127 - 1) x)"

definition liquidity_net_as_u64 :: "'i Tick \<Rightarrow> nat" where
  "liquidity_net_as_u64 tick = min (nat \<bar>liquidity_net tick\<bar>) (uint_max 64)"

definition default_tick :: "('p, 'i) FixedOps \<Rightarrow> 'i Tick" where
  "default_tick F = \<lparr>liquidity_net = 0, liquidity_gross = 0, fees_out_tao = i_num F 0, fees_out_alpha = i_num F 0\<rparr>"

definition set_tick :: "NetUid \<Rightarrow> TickIndex \<Rightarrow> 'i Tick option \<Rightarrow> ('p, 'i, 'w) SwapStorage \<Rightarrow> ('p, 'i, 'w) SwapStorage" where
  "set_tick netuid t v s = s\<lparr>Ticks := (Ticks s)(netuid := (Ticks s netuid)(t := v))\<rparr>"

definition Positions_get :: "PositionKey \<Rightarrow> ('p, 'i, 'w) SwapStorage \<Rightarrow> 'i Position option" where
  "Positions_get k s = map_of (Positions s) k"

definition Positions_insert ::
  "('p, 'i, 'w) SwapConfig \<Rightarrow> PositionKey \<Rightarrow> 'i Position \<Rightarrow> ('p, 'i, 'w) SwapStorage \<Rightarrow> ('p, 'i, 'w) SwapStorage" where
  "Positions_insert cfg k p s =
     (let ps = Positions s;
          n = position_place cfg k ps
      in s\<lparr>Positions :=
        (if map_of ps k = None then take n ps @ (k, p) # drop n ps
         else map (\<lambda>(k', p'). if k' = k then (k, p) else (k', p')) ps)\<rparr>)"

definition Positions_remove :: "PositionKey \<Rightarrow> ('p, 'i, 'w) SwapStorage \<Rightarrow> ('p, 'i, 'w) SwapStorage" where
  "Positions_remove k s = s\<lparr>Positions := filter (\<lambda>(k', _). k' \<noteq> k) (Positions s)\<rparr>"

definition positions_of :: "NetUid \<Rightarrow> AccountId \<Rightarrow> ('p, 'i, 'w) SwapStorage \<Rightarrow> 'i Position list" where
  "positions_of netuid a s = map snd (filter (\<lambda>((n, b, _), _). n = netuid \<and> b = a) (Positions s))"

definition swap_event :: "SwapEvent \<Rightarrow> ('p, 'i, 'w, unit) swap" where
  "swap_event ev = modify (\<lambda>s. s\<lparr>sw_events := sw_events s @ [ev]\<rparr>)"

definition on_world :: "('w \<Rightarrow> 'w) \<Rightarrow> ('p, 'i, 'w, unit) swap" where
  "on_world f = modify (\<lambda>s. s\<lparr>sw_world := f (sw_world s)\<rparr>)"

definition try_world :: "('w \<Rightarrow> (nat + 'a) \<times> 'w) \<Rightarrow> ('p, 'i, 'w, 'a) swap" where
  "try_world f = (\<lambda>s. case f (sw_world s) of
     (Inl e, w) \<Rightarrow> (Inl (Swap_Dispatch e), s\<lparr>sw_world := w\<rparr>)
   | (Inr x, w) \<Rightarrow> (Inr x, s\<lparr>sw_world := w\<rparr>))"

section \<open>Prices of ticks\<close>

definition min_sqrt_price :: "('p, 'i) FixedOps \<Rightarrow> 'p" where
  "min_sqrt_price F = u_frac F 2328350195 (10 ^ 19)"

definition max_sqrt_price :: "('p, 'i) FixedOps \<Rightarrow> 'p" where
  "max_sqrt_price F = u_frac F 429488657720989222513899790805 (10 ^ 20)"

definition current_bounded :: "NetUid \<Rightarrow> ('p, 'i, 'w) SwapStorage \<Rightarrow> TickIndex" where
  "current_bounded netuid s =
     (if CurrentTick s netuid > TickIndex_MAX then TickIndex_MAX
      else if CurrentTick s netuid < TickIndex_MIN then TickIndex_MIN
      else CurrentTick s netuid)"

definition as_sqrt_price_bounded :: "('p, 'i, 'w) SwapConfig \<Rightarrow> TickIndex \<Rightarrow> 'p" where
  "as_sqrt_price_bounded cfg t = (case try_to_sqrt_price cfg t of
     Some p \<Rightarrow> p
   | None \<Rightarrow> if t \<ge> TickIndex_MAX then max_sqrt_price (fixed_ops cfg) else min_sqrt_price (fixed_ops cfg))"

definition from_sqrt_price_bounded :: "('p :: linorder, 'i, 'w) SwapConfig \<Rightarrow> 'p \<Rightarrow> TickIndex" where
  "from_sqrt_price_bounded cfg p = (case try_from_sqrt_price cfg p of
     Some t \<Rightarrow> t
   | None \<Rightarrow> if p > as_sqrt_price_bounded cfg TickIndex_MAX then TickIndex_MAX else TickIndex_MIN)"

definition fee_global :: "NetUid \<Rightarrow> bool \<Rightarrow> ('p, 'i, 'w) SwapStorage \<Rightarrow> 'p" where
  "fee_global netuid quote s = (if quote then FeeGlobalTao s netuid else FeeGlobalAlpha s netuid)"

definition fees_above ::
  "('p, 'i) FixedOps \<Rightarrow> TickIndex \<Rightarrow> NetUid \<Rightarrow> bool \<Rightarrow> ('p, 'i, 'w) SwapStorage \<Rightarrow> 'i" where
  "fees_above F t netuid quote s =
     (let tick = (case Ticks s netuid t of Some tick \<Rightarrow> tick | None \<Rightarrow> default_tick F);
          fees_out = (if quote then fees_out_tao tick else fees_out_alpha tick)
      in if t \<le> current_bounded netuid s then i_sub F (i_from F (fee_global netuid quote s)) fees_out
         else fees_out)"

definition fees_below ::
  "('p, 'i) FixedOps \<Rightarrow> TickIndex \<Rightarrow> NetUid \<Rightarrow> bool \<Rightarrow> ('p, 'i, 'w) SwapStorage \<Rightarrow> 'i" where
  "fees_below F t netuid quote s =
     (let tick = (case Ticks s netuid t of Some tick \<Rightarrow> tick | None \<Rightarrow> default_tick F);
          fees_out = (if quote then fees_out_tao tick else fees_out_alpha tick)
      in if t \<le> current_bounded netuid s then fees_out
         else i_sub F (i_from F (fee_global netuid quote s)) fees_out)"

section \<open>Positions\<close>

definition fees_in_range ::
  "('p, 'i) FixedOps \<Rightarrow> 'i Position \<Rightarrow> bool \<Rightarrow> ('p, 'i, 'w) SwapStorage \<Rightarrow> 'i" where
  "fees_in_range F p quote s =
     i_sub F (i_sub F (i_from F (fee_global (pos_netuid p) quote s))
       (fees_below F (tick_low p) (pos_netuid p) quote s))
       (fees_above F (tick_high p) (pos_netuid p) quote s)"

definition PositionId_new :: "('p, 'i, 'w, nat) swap" where
  "PositionId_new = (\<lambda>s. let n = saturating_add 128 (LastPositionId s) 1 in (Inr n, s\<lparr>LastPositionId := n\<rparr>))"

definition Position_new ::
  "('p, 'i) FixedOps \<Rightarrow> nat \<Rightarrow> NetUid \<Rightarrow> TickIndex \<Rightarrow> TickIndex \<Rightarrow> nat \<Rightarrow> ('p, 'i, 'w) SwapStorage \<Rightarrow> 'i Position" where
  "Position_new F i netuid low high liquidity s =
     (let p = \<lparr>pos_id = i, pos_netuid = netuid, tick_low = low, tick_high = high, pos_liquidity = liquidity,
               fees_tao = i_num F 0, fees_alpha = i_num F 0\<rparr>
      in p\<lparr>fees_tao := fees_in_range F p True s, fees_alpha := fees_in_range F p False s\<rparr>)"

definition collect_fees ::
  "('p, 'i) FixedOps \<Rightarrow> 'i Position \<Rightarrow> ('p, 'i, 'w) SwapStorage \<Rightarrow> (nat \<times> nat) \<times> 'i Position" where
  "collect_fees F p s =
     (let fee_tao_agg = fees_in_range F p True s;
          fee_alpha_agg = fees_in_range F p False s;
          fee_tao = i_sub F fee_tao_agg (fees_tao p);
          fee_alpha = i_sub F fee_alpha_agg (fees_alpha p);
          liquidity_frac = i_num F (pos_liquidity p)
      in ((i_to F (i_mul F liquidity_frac fee_tao), i_to F (i_mul F liquidity_frac fee_alpha)),
          p\<lparr>fees_tao := fee_tao_agg, fees_alpha := fee_alpha_agg\<rparr>))"

definition to_token_amounts ::
  "('p :: linorder, 'i, 'w) SwapConfig \<Rightarrow> 'i Position \<Rightarrow> 'p \<Rightarrow> SwapError + nat \<times> nat" where
  "to_token_amounts cfg p price =
     bind_r (ok_or_r (try_to_sqrt_price cfg (tick_low p)) Swap_InvalidTickRange) (\<lambda>low.
     bind_r (ok_or_r (try_to_sqrt_price cfg (tick_high p)) Swap_InvalidTickRange) (\<lambda>high.
     let F = fixed_ops cfg;
         one = u_num F 1;
         liquidity = u_num F (pos_liquidity p)
     in Inr (if price < low
             then (0, u_to F (u_mul F liquidity (u_sub F (u_safe_div F one low) (u_safe_div F one high))))
             else if price > high then (u_to F (u_mul F liquidity (u_sub F high low)), 0)
             else (u_to F (u_mul F liquidity (u_sub F price low)),
                   u_to F (u_mul F liquidity (u_sub F (u_safe_div F one price) (u_safe_div F one high)))))))"

section \<open>Liquidity at ticks\<close>

definition add_liquidity_at_index ::
  "('p, 'i) FixedOps \<Rightarrow> NetUid \<Rightarrow> TickIndex \<Rightarrow> nat \<Rightarrow> bool \<Rightarrow> ('p, 'i, 'w) SwapStorage \<Rightarrow> ('p, 'i, 'w) SwapStorage" where
  "add_liquidity_at_index F netuid t liquidity upper s =
     (let change = (if upper then - int liquidity else int liquidity);
          tick = (case Ticks s netuid t of
              Some tick \<Rightarrow>
                tick\<lparr>liquidity_net := i128_clamp (liquidity_net tick + change),
                     liquidity_gross := saturating_add 64 (liquidity_gross tick) liquidity\<rparr>
            | None \<Rightarrow>
                (let above = t > current_bounded netuid s
                 in \<lparr>liquidity_net = change, liquidity_gross = liquidity,
                     fees_out_tao = (if above then i_from F (FeeGlobalTao s netuid) else i_num F 0),
                     fees_out_alpha = (if above then i_from F (FeeGlobalAlpha s netuid) else i_num F 0)\<rparr>));
          s = set_tick netuid t (Some tick) s
      in s\<lparr>TickIndexBitmapWords := tick_insert netuid t (TickIndexBitmapWords s)\<rparr>)"

definition remove_liquidity_at_index ::
  "NetUid \<Rightarrow> TickIndex \<Rightarrow> nat \<Rightarrow> bool \<Rightarrow> ('p, 'i, 'w) SwapStorage \<Rightarrow> ('p, 'i, 'w) SwapStorage" where
  "remove_liquidity_at_index netuid t liquidity upper s =
     (let reduction = (if upper then - int liquidity else int liquidity)
      in case Ticks s netuid t of
           None \<Rightarrow> s
         | Some tick \<Rightarrow>
             (let tick = tick\<lparr>liquidity_net := i128_clamp (liquidity_net tick - reduction),
                             liquidity_gross := saturating_sub (liquidity_gross tick) liquidity\<rparr>
              in if liquidity_gross tick = 0
                 then (set_tick netuid t None s)
                   \<lparr>TickIndexBitmapWords := tick_remove netuid t (TickIndexBitmapWords s)\<rparr>
                 else set_tick netuid t (Some tick) s))"

definition shift_liquidity :: "nat \<Rightarrow> int \<Rightarrow> nat" where
  "shift_liquidity current change =
     (let amount = min (nat \<bar>change\<bar>) (uint_max 64)
      in if change < 0 then saturating_sub current amount else saturating_add 64 current amount)"

definition update_liquidity_if_needed ::
  "NetUid \<Rightarrow> TickIndex \<Rightarrow> TickIndex \<Rightarrow> int \<Rightarrow> ('p, 'i, 'w) SwapStorage \<Rightarrow> ('p, 'i, 'w) SwapStorage" where
  "update_liquidity_if_needed netuid low high liquidity s =
     (let current = current_bounded netuid s
      in if low \<le> current \<and> current < high
         then s\<lparr>CurrentLiquidity := (CurrentLiquidity s)(netuid := shift_liquidity (CurrentLiquidity s netuid) liquidity)\<rparr>
         else s)"

definition clamp_sqrt_price ::
  "('p, 'i, 'w) SwapConfig \<Rightarrow> NetUid \<Rightarrow> TickIndex \<Rightarrow> ('p, 'i, 'w) SwapStorage \<Rightarrow> ('p, 'i, 'w) SwapStorage" where
  "clamp_sqrt_price cfg netuid t s =
     (if t \<ge> TickIndex_MAX \<or> t \<le> TickIndex_MIN
      then s\<lparr>AlphaSqrtPrice := (AlphaSqrtPrice s)(netuid := as_sqrt_price_bounded cfg t)\<rparr>
      else s)"

definition count_positions :: "NetUid \<Rightarrow> AccountId \<Rightarrow> ('p, 'i, 'w) SwapStorage \<Rightarrow> nat" where
  "count_positions netuid a s = length (positions_of netuid a s)"

section \<open>Adding and removing positions\<close>

definition add_liquidity_not_insert ::
  "('p :: linorder, 'i, 'w) SwapConfig \<Rightarrow> NetUid \<Rightarrow> AccountId \<Rightarrow> TickIndex \<Rightarrow> TickIndex \<Rightarrow> nat \<Rightarrow>
   ('p, 'i, 'w, 'i Position \<times> nat \<times> nat) swap" where
  "add_liquidity_not_insert cfg netuid coldkey low high liquidity =
     and_then (require (\<lambda>s. count_positions netuid coldkey s < MaxPositions cfg) Swap_MaxPositionsExceeded) (\<lambda>_.
     and_then (ensure (high > low) Swap_InvalidTickRange) (\<lambda>_.
     and_then (modify (add_liquidity_at_index (fixed_ops cfg) netuid low liquidity False)) (\<lambda>_.
     and_then (modify (add_liquidity_at_index (fixed_ops cfg) netuid high liquidity True)) (\<lambda>_.
     and_then (modify (\<lambda>s. clamp_sqrt_price cfg netuid (current_bounded netuid s) s)) (\<lambda>_.
     and_then (modify (update_liquidity_if_needed netuid low high (int liquidity))) (\<lambda>_.
     and_then PositionId_new (\<lambda>position_id.
     and_then (gets (Position_new (fixed_ops cfg) position_id netuid low high liquidity)) (\<lambda>position.
     and_then (query (\<lambda>s. to_token_amounts cfg position (AlphaSqrtPrice s netuid))) (\<lambda>(tao, alpha).
     and_then (modify (\<lambda>s. s\<lparr>SwapV3Initialized := (SwapV3Initialized s)(netuid := True)\<rparr>)) (\<lambda>_.
     ret (position, tao, alpha)))))))))))"

definition do_add_liquidity ::
  "('p :: linorder, 'i, 'w) SwapConfig \<Rightarrow> NetUid \<Rightarrow> AccountId \<Rightarrow> AccountId \<Rightarrow> TickIndex \<Rightarrow> TickIndex \<Rightarrow> nat \<Rightarrow>
   ('p, 'i, 'w, nat \<times> nat \<times> nat) swap" where
  "do_add_liquidity cfg netuid coldkey hotkey low high liquidity =
     and_then (require (\<lambda>s. EnabledUserLiquidity s netuid) Swap_UserLiquidityDisabled) (\<lambda>_.
     and_then (add_liquidity_not_insert cfg netuid coldkey low high liquidity) (\<lambda>(position, tao, alpha).
     and_then (require (\<lambda>s. tao_balance cfg coldkey (sw_world s) \<ge> tao \<and>
         alpha_balance cfg netuid coldkey hotkey (sw_world s) \<ge> alpha) Swap_InsufficientBalance) (\<lambda>_.
     and_then (ensure (liquidity \<ge> MinimumLiquidity cfg) Swap_InvalidLiquidityValue) (\<lambda>_.
     and_then (modify (Positions_insert cfg (netuid, coldkey, pos_id position) position)) (\<lambda>_.
     ret (pos_id position, tao, alpha))))))"

definition maybe_initialize_v3 ::
  "('p :: linorder, 'i, 'w) SwapConfig \<Rightarrow> NetUid \<Rightarrow> ('p, 'i, 'w, unit) swap" where
  "maybe_initialize_v3 cfg netuid =
     and_then (gets (\<lambda>s. SwapV3Initialized s netuid)) (\<lambda>initialized.
     if initialized then ret ()
     else
       and_then (gets (\<lambda>s. (tao_reserve cfg netuid (sw_world s), alpha_reserve cfg netuid (sw_world s)))) (\<lambda>(tao, alpha).
       let F = fixed_ops cfg;
           price = u_safe_div F (u_num F tao) (u_num F alpha);
           sqrt_price = (case u_checked_sqrt F price (u_frac F 1 (10 ^ 12)) of Some p \<Rightarrow> p | None \<Rightarrow> u_num F 0);
           liquidity = sqrt_u128 cfg (saturating_mul 128 tao alpha) mod 2 ^ 64;
           account = protocol_account_id cfg
       in
       and_then (modify (\<lambda>s. s\<lparr>AlphaSqrtPrice := (AlphaSqrtPrice s)(netuid := sqrt_price),
           CurrentTick := (CurrentTick s)(netuid := from_sqrt_price_bounded cfg sqrt_price)\<rparr>)) (\<lambda>_.
       and_then (add_liquidity_not_insert cfg netuid account TickIndex_MIN TickIndex_MAX liquidity) (\<lambda>(position, _, _).
       modify (Positions_insert cfg (netuid, account, pos_id position) position)))))"

record RemoveLiquidityResult =
  rm_tao :: nat
  rm_alpha :: nat
  rm_fee_tao :: nat
  rm_fee_alpha :: nat
  rm_tick_low :: TickIndex
  rm_tick_high :: TickIndex
  rm_liquidity :: nat

definition do_remove_liquidity ::
  "('p :: linorder, 'i, 'w) SwapConfig \<Rightarrow> NetUid \<Rightarrow> AccountId \<Rightarrow> nat \<Rightarrow> ('p, 'i, 'w, RemoveLiquidityResult) swap" where
  "do_remove_liquidity cfg netuid coldkey position_id =
     and_then (fetch (Positions_get (netuid, coldkey, position_id)) Swap_LiquidityNotFound) (\<lambda>position.
     and_then (gets (collect_fees (fixed_ops cfg) position)) (\<lambda>((fee_tao, fee_alpha), position).
     and_then (query (\<lambda>s. to_token_amounts cfg position (AlphaSqrtPrice s netuid))) (\<lambda>(tao, alpha).
     and_then (modify (remove_liquidity_at_index netuid (tick_low position) (pos_liquidity position) False)) (\<lambda>_.
     and_then (modify (remove_liquidity_at_index netuid (tick_high position) (pos_liquidity position) True)) (\<lambda>_.
     and_then (modify (update_liquidity_if_needed netuid (tick_low position) (tick_high position)
       (- int (pos_liquidity position)))) (\<lambda>_.
     and_then (modify (Positions_remove (netuid, coldkey, position_id))) (\<lambda>_.
     ret \<lparr>rm_tao = tao, rm_alpha = alpha, rm_fee_tao = fee_tao, rm_fee_alpha = fee_alpha,
          rm_tick_low = tick_low position, rm_tick_high = tick_high position,
          rm_liquidity = pos_liquidity position\<rparr>)))))))"

section \<open>Changing a position\<close>

record UpdateLiquidityResult =
  up_tao :: nat
  up_alpha :: nat
  up_fee_tao :: nat
  up_fee_alpha :: nat
  up_removed :: bool
  up_tick_low :: TickIndex
  up_tick_high :: TickIndex

text \<open>The price at which the tokens of a change are computed; when the current price is within the range, the
  current liquidity is changed on the way.\<close>

definition change_in_range ::
  "NetUid \<Rightarrow> int \<Rightarrow> 'p \<Rightarrow> 'p \<Rightarrow> ('p :: linorder, 'i, 'w, 'p) swap" where
  "change_in_range netuid liquidity_delta low high =
     and_then (gets (\<lambda>s. AlphaSqrtPrice s netuid)) (\<lambda>price.
     if price < low then ret low
     else if price > high then ret high
     else
       and_then (modify (\<lambda>s. s\<lparr>CurrentLiquidity := (CurrentLiquidity s)(netuid :=
           if liquidity_delta > 0 then saturating_add 64 (CurrentLiquidity s netuid) (nat \<bar>liquidity_delta\<bar>)
           else saturating_sub (CurrentLiquidity s netuid) (nat \<bar>liquidity_delta\<bar>))\<rparr>)) (\<lambda>_.
       ret price))"

definition do_modify_position ::
  "('p :: linorder, 'i, 'w) SwapConfig \<Rightarrow> NetUid \<Rightarrow> AccountId \<Rightarrow> AccountId \<Rightarrow> nat \<Rightarrow> int \<Rightarrow>
   ('p, 'i, 'w, UpdateLiquidityResult) swap" where
  "do_modify_position cfg netuid coldkey hotkey position_id liquidity_delta =
     (let F = fixed_ops cfg;
          delta = nat \<bar>liquidity_delta\<bar>
      in
     and_then (require (\<lambda>s. EnabledUserLiquidity s netuid) Swap_UserLiquidityDisabled) (\<lambda>_.
     and_then (fetch (Positions_get (netuid, coldkey, position_id)) Swap_LiquidityNotFound) (\<lambda>position.
     and_then (ensure (delta \<ge> MinimumLiquidity cfg) Swap_InvalidLiquidityValue) (\<lambda>_.
     and_then (ok_or (try_to_sqrt_price cfg (tick_low position)) Swap_InvalidTickRange) (\<lambda>low.
     and_then (ok_or (try_to_sqrt_price cfg (tick_high position)) Swap_InvalidTickRange) (\<lambda>high.
     and_then (change_in_range netuid liquidity_delta low high) (\<lambda>price_box.
     let factor = u_sub F (u_safe_div F (u_num F 1) price_box) (u_safe_div F (u_num F 1) high);
         alpha = u_to F (u_mul F (u_num F delta) factor);
         tao = u_to F (u_mul F (u_num F delta) (u_sub F price_box low))
     in
     and_then (if liquidity_delta > 0
       then require (\<lambda>s. tao_balance cfg coldkey (sw_world s) \<ge> tao \<and>
         alpha_balance cfg netuid coldkey hotkey (sw_world s) \<ge> alpha) Swap_InsufficientBalance
       else ensure (pos_liquidity position \<ge> delta) Swap_InsufficientLiquidity) (\<lambda>_.
     and_then (gets (collect_fees F position)) (\<lambda>((fee_tao, fee_alpha), position).
     let gone = (liquidity_delta < 0 \<and> saturating_sub (pos_liquidity position) delta < MinimumLiquidity cfg);
         delta = (if gone then pos_liquidity position else delta);
         position1 = position\<lparr>pos_liquidity :=
           if liquidity_delta > 0 then saturating_add 64 (pos_liquidity position) delta
           else saturating_sub (pos_liquidity position) delta\<rparr>
     in
     and_then (modify (\<lambda>s.
         if liquidity_delta > 0
         then add_liquidity_at_index F netuid (tick_high position) delta True
                (add_liquidity_at_index F netuid (tick_low position) delta False s)
         else remove_liquidity_at_index netuid (tick_high position) delta True
                (remove_liquidity_at_index netuid (tick_low position) delta False s))) (\<lambda>_.
     and_then (modify (if gone then Positions_remove (netuid, coldkey, position_id)
         else Positions_insert cfg (netuid, coldkey, pos_id position1) position1)) (\<lambda>_.
     ret \<lparr>up_tao = tao, up_alpha = alpha, up_fee_tao = fee_tao, up_fee_alpha = fee_alpha, up_removed = gone,
          up_tick_low = tick_low position, up_tick_high = tick_high position\<rparr>)))))))))))"

section \<open>Protocol liquidity\<close>

definition get_proportional_alpha_tao_and_remainders ::
  "('p, 'i) FixedOps \<Rightarrow> 'p \<Rightarrow> nat \<Rightarrow> nat \<Rightarrow> nat \<times> nat \<times> nat \<times> nat" where
  "get_proportional_alpha_tao_and_remainders F sqrt_price tao alpha =
     (let price = u_mul F sqrt_price sqrt_price;
          tao_equivalent = u_to F (u_mul F (u_num F alpha) price)
      in if tao_equivalent \<le> tao then (tao_equivalent, alpha, saturating_sub tao tao_equivalent, 0)
         else (let alpha_equivalent = u_to F (u_safe_div F (u_num F tao) price)
               in (tao, alpha_equivalent, 0, saturating_sub alpha alpha_equivalent)))"

definition adjust_protocol_liquidity ::
  "('p :: linorder, 'i, 'w) SwapConfig \<Rightarrow> NetUid \<Rightarrow> nat \<Rightarrow> nat \<Rightarrow> ('p, 'i, 'w) SwapStorage \<Rightarrow> ('p, 'i, 'w) SwapStorage" where
  "adjust_protocol_liquidity cfg netuid tao_delta alpha_delta s =
     (case positions_of netuid (protocol_account_id cfg) s of
        [] \<Rightarrow> s
      | position # _ \<Rightarrow>
          let F = fixed_ops cfg;
              ((tao_fees, alpha_fees), position) = collect_fees F position s;
              price = AlphaSqrtPrice s netuid;
              (tao_used, alpha_used, tao_scrap, alpha_scrap) =
                get_proportional_alpha_tao_and_remainders F price
                  (saturating_add 64 (saturating_add 64 tao_delta tao_fees) (ScrapReservoirTao s netuid))
                  (saturating_add 64 (saturating_add 64 alpha_delta alpha_fees) (ScrapReservoirAlpha s netuid));
              s = s\<lparr>ScrapReservoirTao := (ScrapReservoirTao s)(netuid := tao_scrap),
                    ScrapReservoirAlpha := (ScrapReservoirAlpha s)(netuid := alpha_scrap)\<rparr>
          in case to_token_amounts cfg position price of
               Inl _ \<Rightarrow> s
             | Inr (tao, alpha) \<Rightarrow>
                 let new_liquidity = sqrt_u128 cfg (saturating_mul 128 (saturating_add 64 tao tao_used)
                       (saturating_add 64 alpha alpha_used)) mod 2 ^ 64;
                     liquidity_delta = saturating_sub new_liquidity (pos_liquidity position);
                     s = s\<lparr>CurrentLiquidity := (CurrentLiquidity s)(netuid :=
                       saturating_add 64 (CurrentLiquidity s netuid) liquidity_delta)\<rparr>;
                     position = position\<lparr>pos_liquidity := new_liquidity\<rparr>;
                     s = Positions_insert cfg (netuid, protocol_account_id cfg, pos_id position) position s
                 in add_liquidity_at_index F netuid (tick_high position) liquidity_delta True
                      (add_liquidity_at_index F netuid (tick_low position) liquidity_delta False s))"

text \<open>The loop over the protocol positions ignores the ones that cannot be closed.\<close>

fun close_protocol_positions ::
  "('p :: linorder, 'i, 'w) SwapConfig \<Rightarrow> NetUid \<Rightarrow> nat list \<Rightarrow> ('p, 'i, 'w) SwapStorage \<Rightarrow> ('p, 'i, 'w) SwapStorage" where
  "close_protocol_positions cfg netuid [] s = s"
| "close_protocol_positions cfg netuid (position_id # ids) s =
     close_protocol_positions cfg netuid ids
       (snd (do_remove_liquidity cfg netuid (protocol_account_id cfg) position_id s))"

definition ids_of :: "NetUid \<Rightarrow> AccountId \<Rightarrow> ('p, 'i, 'w) SwapStorage \<Rightarrow> nat list" where
  "ids_of netuid a s = map (\<lambda>((_, _, i), _). i) (filter (\<lambda>((n, b, _), _). n = netuid \<and> b = a) (Positions s))"

text \<open>The keys of \<open>Ticks\<close> of a subnet in the order of iteration: each tick is removed from the bitmap, which
  does not depend on the order, so ascending order stands for it.\<close>

definition tick_keys :: "NetUid \<Rightarrow> ('p, 'i, 'w) SwapStorage \<Rightarrow> TickIndex list" where
  "tick_keys netuid s = filter (\<lambda>t. Ticks s netuid t \<noteq> None) [TickIndex_MIN .. TickIndex_MAX]"

definition do_clear_protocol_liquidity ::
  "('p :: linorder, 'i, 'w) SwapConfig \<Rightarrow> NetUid \<Rightarrow> ('p, 'i, 'w) SwapStorage \<Rightarrow> ('p, 'i, 'w) SwapStorage" where
  "do_clear_protocol_liquidity cfg netuid s =
     (let F = fixed_ops cfg;
          s = close_protocol_positions cfg netuid (ids_of netuid (protocol_account_id cfg) s) s;
          s = s\<lparr>TickIndexBitmapWords := fold (tick_remove netuid) (tick_keys netuid s) (TickIndexBitmapWords s)\<rparr>
      in s\<lparr>Positions := filter (\<lambda>((n, _, _), _). n \<noteq> netuid) (Positions s),
           Ticks := (Ticks s)(netuid := (\<lambda>_. None)),
           FeeGlobalTao := (FeeGlobalTao s)(netuid := u_num F 0),
           FeeGlobalAlpha := (FeeGlobalAlpha s)(netuid := u_num F 0),
           CurrentLiquidity := (CurrentLiquidity s)(netuid := 0),
           CurrentTick := (CurrentTick s)(netuid := 0),
           AlphaSqrtPrice := (AlphaSqrtPrice s)(netuid := u_num F 0),
           SwapV3Initialized := (SwapV3Initialized s)(netuid := False),
           TickIndexBitmapWords := (TickIndexBitmapWords s)(netuid := (\<lambda>_ _. 0)),
           FeeRate := (FeeRate s)(netuid := 33),
           EnabledUserLiquidity := (EnabledUserLiquidity s)(netuid := False)\<rparr>)"

section \<open>Closing the positions of users\<close>

fun pick_target_uid :: "nat \<Rightarrow> (nat \<times> bool) list \<Rightarrow> nat option \<Rightarrow> nat \<Rightarrow> nat option" where
  "pick_target_uid i [] best_uid best_trust = best_uid"
| "pick_target_uid i ((t, p) # rest) best_uid best_trust =
     (if p \<and> (best_uid = None \<or> t > best_trust) then pick_target_uid (Suc i) rest (Some i) t
      else pick_target_uid (Suc i) rest best_uid best_trust)"

definition refund_closed ::
  "('p, 'i, 'w) SwapConfig \<Rightarrow> NetUid \<Rightarrow> nat option \<Rightarrow> AccountId \<Rightarrow> RemoveLiquidityResult \<Rightarrow> ('p, 'i, 'w, unit) swap" where
  "refund_closed cfg netuid target owner rm =
     (let tao_total = saturating_add 64 (rm_tao rm) (rm_fee_tao rm);
          alpha_total = saturating_add 64 (rm_alpha rm) (rm_fee_alpha rm)
      in
     and_then (if tao_total > 0
       then on_world (\<lambda>w. tao_decrease_provided cfg netuid tao_total (increase_balance cfg owner tao_total w))
       else ret ()) (\<lambda>_.
     if alpha_total > 0
     then and_then (case target of
         None \<Rightarrow> ret ()
       | Some uid \<Rightarrow>
           and_then (fetch (\<lambda>s. hotkey_of_uid cfg netuid (uid mod 2 ^ 16) (sw_world s)) Swap_validator_hotkey_missing) (\<lambda>hotkey.
           try_world (increase_stake cfg owner hotkey netuid alpha_total))) (\<lambda>_.
       on_world (alpha_decrease_provided cfg netuid alpha_total))
     else ret ()))"

fun close_positions ::
  "('p :: linorder, 'i, 'w) SwapConfig \<Rightarrow> NetUid \<Rightarrow> nat option \<Rightarrow> (AccountId \<times> nat) list \<Rightarrow> ('p, 'i, 'w, unit) swap" where
  "close_positions cfg netuid target [] = ret ()"
| "close_positions cfg netuid target ((owner, position_id) # rest) = (\<lambda>s.
     case do_remove_liquidity cfg netuid owner position_id s of
       (Inl _, s) \<Rightarrow> close_positions cfg netuid target rest s
     | (Inr rm, s) \<Rightarrow>
         and_then (refund_closed cfg netuid target owner rm) (\<lambda>_. close_positions cfg netuid target rest) s)"

definition do_dissolve_all_liquidity_providers ::
  "('p :: linorder, 'i, 'w) SwapConfig \<Rightarrow> NetUid \<Rightarrow> ('p, 'i, 'w, unit) swap" where
  "do_dissolve_all_liquidity_providers cfg netuid = (\<lambda>s.
     if SwapV3Initialized s netuid
     then let to_close = map (\<lambda>((_, owner, i), _). (owner, i))
                (filter (\<lambda>((n, owner, _), _). n = netuid \<and> owner \<noteq> protocol_account_id cfg) (Positions s));
              target = pick_target_uid 0
                (zip (validator_trust cfg netuid (sw_world s)) (validator_permit cfg netuid (sw_world s))) None 0
          in if to_close = [] then (Inr (), s) else close_positions cfg netuid target to_close s
     else (Inr (), s))"

section \<open>Swap steps\<close>

text \<open>The two kinds of orders: alpha for tao, which moves the price up, and tao for alpha.\<close>

datatype SwapOrder = GetAlphaForTao | GetTaoForAlpha

datatype SwapStepAction = Crossing | Stop

record SwapStepResult =
  amount_to_take :: nat
  fee_paid :: nat
  step_delta_in :: nat
  step_delta_out :: nat
  fee_to_block_author :: nat

record 'p BasicSwapStep =
  current_liquidity :: 'p
  possible_delta_in :: nat
  target_sqrt_price :: 'p
  limit_sqrt_price :: 'p
  current_sqrt_price :: 'p
  edge_sqrt_price :: 'p
  edge_tick :: TickIndex
  step_action :: SwapStepAction
  delta_in :: nat
  final_price :: 'p
  step_fee :: nat

definition calculate_fee_amount ::
  "('p, 'i, 'w) SwapConfig \<Rightarrow> NetUid \<Rightarrow> nat \<Rightarrow> bool \<Rightarrow> ('p, 'i, 'w) SwapStorage \<Rightarrow> nat" where
  "calculate_fee_amount cfg netuid amount drop_fees s =
     (if drop_fees then 0
      else if subnet_mechanism cfg netuid (sw_world s) = 1
      then let F = fixed_ops cfg;
               fee_rate = u_safe_div F (u_num F (FeeRate s netuid)) (u_num F (uint_max 16))
           in u_to F (u_mul F (u_num F amount) fee_rate)
      else 0)"

definition min_price_inner :: "('p, 'i) FixedOps \<Rightarrow> nat" where
  "min_price_inner F = u_to F (u_mul F (u_mul F (min_sqrt_price F) (min_sqrt_price F)) (u_num F 1000000000))"

definition max_price_inner :: "('p, 'i) FixedOps \<Rightarrow> nat" where
  "max_price_inner F =
     u_to F (u_round F (u_mul F (u_mul F (max_sqrt_price F) (max_sqrt_price F)) (u_num F 1000000000)))"

fun price_is_closer :: "SwapOrder \<Rightarrow> 'p :: linorder \<Rightarrow> 'p \<Rightarrow> bool" where
  "price_is_closer GetAlphaForTao a b \<longleftrightarrow> a \<le> b"
| "price_is_closer GetTaoForAlpha a b \<longleftrightarrow> a \<ge> b"

fun action_on_edge_sqrt_price :: "SwapOrder \<Rightarrow> SwapStepAction" where
  "action_on_edge_sqrt_price GetAlphaForTao = Crossing"
| "action_on_edge_sqrt_price GetTaoForAlpha = Stop"

fun step_input :: "('p, 'i) FixedOps \<Rightarrow> SwapOrder \<Rightarrow> 'p \<Rightarrow> 'p \<Rightarrow> 'p \<Rightarrow> nat" where
  "step_input F GetAlphaForTao liquidity price target = u_to F (u_mul F liquidity (u_sub F target price))"
| "step_input F GetTaoForAlpha liquidity price target =
     u_to F (u_mul F liquidity (u_sub F (u_safe_div F (u_num F 1) target) (u_safe_div F (u_num F 1) price)))"

fun sqrt_price_target :: "('p, 'i) FixedOps \<Rightarrow> SwapOrder \<Rightarrow> 'p \<Rightarrow> 'p \<Rightarrow> nat \<Rightarrow> 'p" where
  "sqrt_price_target F GetAlphaForTao liquidity price amount =
     (if liquidity = u_num F 0 then u_num F (max_price_inner F)
      else u_add F (u_safe_div F (u_num F amount) liquidity) price)"
| "sqrt_price_target F GetTaoForAlpha liquidity price amount =
     (if liquidity = u_num F 0 then u_num F (min_price_inner F)
      else u_safe_div F (u_num F 1)
        (u_add F (u_safe_div F (u_num F amount) liquidity) (u_safe_div F (u_num F 1) price)))"

definition next_or_max :: "TickIndex \<Rightarrow> TickIndex" where
  "next_or_max t = (case tick_next t of Inr r \<Rightarrow> r | Inl _ \<Rightarrow> TickIndex_MAX)"

definition prev_or_min :: "TickIndex \<Rightarrow> TickIndex" where
  "prev_or_min t = (case tick_prev t of Inr r \<Rightarrow> r | Inl _ \<Rightarrow> TickIndex_MIN)"

fun tick_edge ::
  "('p :: linorder, 'i, 'w) SwapConfig \<Rightarrow> SwapOrder \<Rightarrow> NetUid \<Rightarrow> TickIndex \<Rightarrow> ('p, 'i, 'w) SwapStorage \<Rightarrow> TickIndex" where
  "tick_edge cfg GetAlphaForTao netuid t s =
     (case find_closest_higher netuid (next_or_max t) (TickIndexBitmapWords s) of
        Some r \<Rightarrow> r | None \<Rightarrow> TickIndex_MAX)"
| "tick_edge cfg GetTaoForAlpha netuid t s =
     (if tick_is_active netuid t (TickIndexBitmapWords s) \<and> AlphaSqrtPrice s netuid > as_sqrt_price_bounded cfg t
      then case find_closest_lower netuid t (TickIndexBitmapWords s) of Some r \<Rightarrow> r | None \<Rightarrow> TickIndex_MIN
      else case find_closest_lower netuid (prev_or_min t) (TickIndexBitmapWords s) of
             Some r \<Rightarrow> r | None \<Rightarrow> TickIndex_MIN)"

definition step_new ::
  "('p :: linorder, 'i, 'w) SwapConfig \<Rightarrow> SwapOrder \<Rightarrow> NetUid \<Rightarrow> nat \<Rightarrow> 'p \<Rightarrow> bool \<Rightarrow> ('p, 'i, 'w) SwapStorage \<Rightarrow> 'p BasicSwapStep" where
  "step_new cfg order netuid amount limit drop_fees s =
     (let F = fixed_ops cfg;
          price = AlphaSqrtPrice s netuid;
          edge = tick_edge cfg order netuid (CurrentTick s netuid) s;
          fee = calculate_fee_amount cfg netuid amount drop_fees s;
          possible = saturating_sub amount fee;
          liquidity = u_num F (CurrentLiquidity s netuid);
          target = sqrt_price_target F order liquidity price possible
      in \<lparr>current_liquidity = liquidity, possible_delta_in = possible, target_sqrt_price = target,
          limit_sqrt_price = limit, current_sqrt_price = price,
          edge_sqrt_price = as_sqrt_price_bounded cfg edge, edge_tick = edge,
          step_action = Stop, delta_in = 0, final_price = target, step_fee = fee\<rparr>)"

definition determine_action ::
  "('p :: linorder, 'i, 'w) SwapConfig \<Rightarrow> SwapOrder \<Rightarrow> NetUid \<Rightarrow> bool \<Rightarrow> ('p, 'i, 'w) SwapStorage \<Rightarrow>
   'p BasicSwapStep \<Rightarrow> 'p BasicSwapStep" where
  "determine_action cfg order netuid drop_fees s st =
     (let F = fixed_ops cfg;
          closer = price_is_closer order;
          target = target_sqrt_price st;
          limit = limit_sqrt_price st;
          edge = edge_sqrt_price st;
          (st, recalculate) =
            (if closer target limit \<and> closer target edge
             then (st\<lparr>step_action := Stop, final_price := target, delta_in := possible_delta_in st\<rparr>, False)
             else if closer limit target \<and> closer limit edge
             then (st\<lparr>step_action := Stop, final_price := limit,
                     delta_in := step_input F order (current_liquidity st) (current_sqrt_price st) limit\<rparr>, True)
             else (st\<lparr>step_action := Crossing, final_price := edge,
                     delta_in := step_input F order (current_liquidity st) (current_sqrt_price st) edge\<rparr>, True));
          st =
            (if recalculate
             then let fee_rate = (if drop_fees then u_num F 0 else u_num F (FeeRate s netuid))
                  in st\<lparr>step_fee := u_to F (u_mul F (u_num F (delta_in st))
                       (u_safe_div F fee_rate (u_sub F (u_num F (uint_max 16)) fee_rate)))\<rparr>
             else st);
          natural = (if closer limit target then limit else target)
      in if natural = edge then st\<lparr>step_action := action_on_edge_sqrt_price order\<rparr> else st)"

definition current_liquidity_safe :: "('p, 'i, 'w) SwapConfig \<Rightarrow> NetUid \<Rightarrow> ('p, 'i, 'w) SwapStorage \<Rightarrow> 'p" where
  "current_liquidity_safe cfg netuid s =
     u_num (fixed_ops cfg) (saturating_sub (CurrentLiquidity s netuid) (MinimumLiquidity cfg))"

definition add_fees ::
  "('p, 'i) FixedOps \<Rightarrow> SwapOrder \<Rightarrow> NetUid \<Rightarrow> 'p \<Rightarrow> nat \<Rightarrow> ('p, 'i, 'w) SwapStorage \<Rightarrow> ('p, 'i, 'w) SwapStorage" where
  "add_fees F order netuid liquidity fee s =
     (if liquidity = u_num F 0 then s
      else let share = u_safe_div F (u_num F fee) liquidity
           in case order of
                GetAlphaForTao \<Rightarrow> s\<lparr>FeeGlobalTao := (FeeGlobalTao s)(netuid := u_add F (FeeGlobalTao s netuid) share)\<rparr>
              | GetTaoForAlpha \<Rightarrow> s\<lparr>FeeGlobalAlpha := (FeeGlobalAlpha s)(netuid := u_add F (FeeGlobalAlpha s netuid) share)\<rparr>)"

definition convert_deltas ::
  "('p, 'i) FixedOps \<Rightarrow> SwapOrder \<Rightarrow> NetUid \<Rightarrow> nat \<Rightarrow> ('p, 'i, 'w) SwapStorage \<Rightarrow> nat" where
  "convert_deltas F order netuid amount s =
     (if amount = 0 then 0
      else let liquidity = u_num F (CurrentLiquidity s netuid);
               price = AlphaSqrtPrice s netuid;
               delta = u_num F amount
           in case order of
                GetAlphaForTao \<Rightarrow>
                  (let a = u_mul F (u_add F (u_mul F liquidity price) delta) price
                   in u_to F (u_mul F (u_safe_div F liquidity a) delta))
              | GetTaoForAlpha \<Rightarrow>
                  (let a = u_safe_div F liquidity (u_add F (u_safe_div F liquidity price) delta)
                   in u_to F (u_mul F delta (u_mul F a price))))"

text \<open>The tick that a step crosses, as the update of the liquidity finds it.\<close>

fun crossed_tick ::
  "('p :: linorder, 'i, 'w) SwapConfig \<Rightarrow> SwapOrder \<Rightarrow> NetUid \<Rightarrow> ('p, 'i, 'w) SwapStorage \<Rightarrow> TickIndex" where
  "crossed_tick cfg GetAlphaForTao netuid s =
     (case find_closest_higher netuid (next_or_max (current_bounded netuid s)) (TickIndexBitmapWords s) of
        Some r \<Rightarrow> r | None \<Rightarrow> TickIndex_MAX)"
| "crossed_tick cfg GetTaoForAlpha netuid s =
     (let t = current_bounded netuid s
      in if tick_is_active netuid t (TickIndexBitmapWords s) \<and> AlphaSqrtPrice s netuid > as_sqrt_price_bounded cfg t
         then case find_closest_lower netuid t (TickIndexBitmapWords s) of Some r \<Rightarrow> r | None \<Rightarrow> TickIndex_MIN
         else case find_closest_lower netuid (prev_or_min t) (TickIndexBitmapWords s) of
                Some r \<Rightarrow> r | None \<Rightarrow> TickIndex_MIN)"

definition update_liquidity_at_crossing ::
  "('p :: linorder, 'i, 'w) SwapConfig \<Rightarrow> SwapOrder \<Rightarrow> NetUid \<Rightarrow> ('p, 'i, 'w, unit) swap" where
  "update_liquidity_at_crossing cfg order netuid =
     and_then (fetch (\<lambda>s. Ticks s netuid (crossed_tick cfg order netuid s)) Swap_InsufficientLiquidity) (\<lambda>tick.
     let amount = liquidity_net_as_u64 tick;
         up = (case order of GetAlphaForTao \<Rightarrow> liquidity_net tick \<ge> 0 | GetTaoForAlpha \<Rightarrow> \<not> liquidity_net tick \<ge> 0)
     in modify (\<lambda>s. s\<lparr>CurrentLiquidity := (CurrentLiquidity s)(netuid :=
          if up then saturating_add 64 (CurrentLiquidity s netuid) amount
          else saturating_sub (CurrentLiquidity s netuid) amount)\<rparr>))"

text \<open>The share of the pool in the fees, as a number of billionths.\<close>

definition DefaultFeeSplit :: nat where "DefaultFeeSplit = 0"

definition mul_floor :: "nat \<Rightarrow> nat \<Rightarrow> nat" where
  "mul_floor parts x = parts * x div 10 ^ 9"

definition cross_tick :: "('p :: linorder, 'i, 'w) SwapConfig \<Rightarrow> SwapOrder \<Rightarrow> NetUid \<Rightarrow> TickIndex \<Rightarrow> ('p, 'i, 'w, unit) swap" where
  "cross_tick cfg order netuid edge =
     (let F = fixed_ops cfg in
     and_then (gets (\<lambda>s.
       let tick = (case Ticks s netuid edge of Some tick \<Rightarrow> tick | None \<Rightarrow> default_tick F)
       in tick\<lparr>fees_out_tao := i_sub F (i_from F (FeeGlobalTao s netuid)) (fees_out_tao tick),
               fees_out_alpha := i_sub F (i_from F (FeeGlobalAlpha s netuid)) (fees_out_alpha tick)\<rparr>)) (\<lambda>tick.
     and_then (update_liquidity_at_crossing cfg order netuid) (\<lambda>_.
     modify (set_tick netuid edge (Some tick)))))"

definition process_swap ::
  "('p :: linorder, 'i, 'w) SwapConfig \<Rightarrow> SwapOrder \<Rightarrow> NetUid \<Rightarrow> 'p BasicSwapStep \<Rightarrow> ('p, 'i, 'w, SwapStepResult) swap" where
  "process_swap cfg order netuid st =
     (let F = fixed_ops cfg in
     and_then (gets (convert_deltas F order netuid (delta_in st))) (\<lambda>delta_out.
     and_then (if delta_in st > 0
       then and_then (ensure (delta_out > 0) Swap_ReservesTooLow) (\<lambda>_.
         let lp_fee = mul_floor DefaultFeeSplit (step_fee st) in
         and_then (if lp_fee \<noteq> 0
           then modify (\<lambda>s. add_fees F order netuid (current_liquidity_safe cfg netuid s) lp_fee s)
           else ret ()) (\<lambda>_.
         ret (saturating_sub (step_fee st) lp_fee)))
       else ret 0) (\<lambda>author_fee.
     and_then (if step_action st = Crossing then cross_tick cfg order netuid (edge_tick st) else ret ()) (\<lambda>_.
     and_then (modify (\<lambda>s. s\<lparr>AlphaSqrtPrice := (AlphaSqrtPrice s)(netuid := final_price st),
         CurrentTick := (CurrentTick s)(netuid := from_sqrt_price_bounded cfg (final_price st))\<rparr>)) (\<lambda>_.
     ret \<lparr>amount_to_take = saturating_add 64 (delta_in st) (step_fee st), fee_paid = step_fee st,
          step_delta_in = delta_in st, step_delta_out = delta_out, fee_to_block_author = author_fee\<rparr>)))))"

section \<open>Swaps\<close>

record SwapResult =
  amount_paid_in :: nat
  amount_paid_out :: nat
  result_fee_paid :: nat
  result_fee_to_block_author :: nat

definition MAX_SWAP_ITERATIONS :: nat where "MAX_SWAP_ITERATIONS = 1000"

definition swap_step ::
  "('p :: linorder, 'i, 'w) SwapConfig \<Rightarrow> SwapOrder \<Rightarrow> NetUid \<Rightarrow> nat \<Rightarrow> 'p \<Rightarrow> bool \<Rightarrow>
   ('p, 'i, 'w, SwapStepAction \<times> SwapStepResult) swap" where
  "swap_step cfg order netuid amount limit drop_fees = (\<lambda>s.
     let st = determine_action cfg order netuid drop_fees s (step_new cfg order netuid amount limit drop_fees s)
     in and_then (process_swap cfg order netuid st) (\<lambda>r. ret (step_action st, r)) s)"

definition add_step :: "SwapStepResult \<Rightarrow> SwapResult \<Rightarrow> SwapResult" where
  "add_step r acc =
     \<lparr>amount_paid_in = saturating_add 64 (amount_paid_in acc) (step_delta_in r),
      amount_paid_out = saturating_add 64 (amount_paid_out acc) (step_delta_out r),
      result_fee_paid = saturating_add 64 (result_fee_paid acc) (fee_paid r),
      result_fee_to_block_author = saturating_add 64 (result_fee_to_block_author acc) (fee_to_block_author r)\<rparr>"

function swap_loop ::
  "('p :: linorder, 'i, 'w) SwapConfig \<Rightarrow> SwapOrder \<Rightarrow> NetUid \<Rightarrow> 'p \<Rightarrow> bool \<Rightarrow> nat \<Rightarrow> nat \<Rightarrow> SwapResult \<Rightarrow>
   ('p, 'i, 'w, SwapResult) swap" where
  "swap_loop cfg order netuid limit drop_fees counter remaining acc s =
     (if remaining = 0 then (Inr acc, s)
      else case swap_step cfg order netuid remaining limit drop_fees s of
             (Inl e, s) \<Rightarrow> (Inl e, s)
           | (Inr (action, r), s) \<Rightarrow>
               let left = (if action = Stop \<or> amount_to_take r = 0 then 0 else saturating_sub remaining (amount_to_take r))
               in if saturating_add 16 counter 1 \<le> MAX_SWAP_ITERATIONS
                  then swap_loop cfg order netuid limit drop_fees (saturating_add 16 counter 1) left (add_step r acc) s
                  else (Inl Swap_TooManySwapSteps, s))"
  by pat_completeness auto
termination
  by (relation "measure (\<lambda>(cfg, order, netuid, limit, drop_fees, counter, remaining, acc, s). 1001 - counter)")
    (auto simp: saturating_add_def uint_max_def MAX_SWAP_ITERATIONS_def min_def split: if_splits)

declare swap_loop.simps [simp del]

fun is_beyond_price_limit :: "SwapOrder \<Rightarrow> 'p :: linorder \<Rightarrow> 'p \<Rightarrow> bool" where
  "is_beyond_price_limit GetAlphaForTao price limit \<longleftrightarrow> price < limit"
| "is_beyond_price_limit GetTaoForAlpha price limit \<longleftrightarrow> price > limit"

fun reserve_out :: "('p, 'i, 'w) SwapConfig \<Rightarrow> SwapOrder \<Rightarrow> NetUid \<Rightarrow> ('p, 'i, 'w) SwapStorage \<Rightarrow> nat" where
  "reserve_out cfg GetAlphaForTao netuid s = alpha_reserve cfg netuid (sw_world s)"
| "reserve_out cfg GetTaoForAlpha netuid s = tao_reserve cfg netuid (sw_world s)"

definition swap_inner ::
  "('p :: linorder, 'i, 'w) SwapConfig \<Rightarrow> SwapOrder \<Rightarrow> NetUid \<Rightarrow> nat \<Rightarrow> 'p \<Rightarrow> bool \<Rightarrow> ('p, 'i, 'w, SwapResult) swap" where
  "swap_inner cfg order netuid amount limit drop_fees =
     and_then (require (\<lambda>s. reserve_out cfg order netuid s \<ge> MinimumReserve cfg) Swap_ReservesTooLow) (\<lambda>_.
     and_then (maybe_initialize_v3 cfg netuid) (\<lambda>_.
     and_then (require (\<lambda>s. is_beyond_price_limit order (AlphaSqrtPrice s netuid) limit) Swap_PriceLimitExceeded) (\<lambda>_.
     swap_loop cfg order netuid limit drop_fees 0 amount
       \<lparr>amount_paid_in = 0, amount_paid_out = 0, result_fee_paid = 0, result_fee_to_block_author = 0\<rparr>)))"

definition do_swap ::
  "('p :: linorder, 'i, 'w) SwapConfig \<Rightarrow> SwapOrder \<Rightarrow> NetUid \<Rightarrow> nat \<Rightarrow> 'p \<Rightarrow> bool \<Rightarrow> bool \<Rightarrow> ('p, 'i, 'w, SwapResult) swap" where
  "do_swap cfg order netuid amount limit drop_fees simulate = (\<lambda>s.
     let reserve = reserve_out cfg order netuid s
     in case swap_inner cfg order netuid amount limit drop_fees s of
          (Inl e, _) \<Rightarrow> (Inl e, s)
        | (Inr r, s') \<Rightarrow>
            if simulate then (Inr r, s)
            else if reserve < amount_paid_out r then (Inl Swap_InsufficientLiquidity, s')
            else (Inr r, s'))"

definition swap_swap ::
  "('p :: linorder, 'i, 'w) SwapConfig \<Rightarrow> SwapOrder \<Rightarrow> NetUid \<Rightarrow> nat \<Rightarrow> nat \<Rightarrow> bool \<Rightarrow> bool \<Rightarrow> ('p, 'i, 'w, SwapResult) swap" where
  "swap_swap cfg order netuid amount price_limit drop_fees should_rollback =
     (let F = fixed_ops cfg in
     and_then (ok_or (u_checked_sqrt F (u_safe_div F (u_num F price_limit) (u_num F 1000000000)) (u_frac F 1 (10 ^ 10)))
       Swap_PriceLimitExceeded) (\<lambda>limit.
     do_swap cfg order netuid amount limit drop_fees should_rollback))"

definition sim_swap ::
  "('p :: linorder, 'i, 'w) SwapConfig \<Rightarrow> SwapOrder \<Rightarrow> NetUid \<Rightarrow> nat \<Rightarrow> ('p, 'i, 'w, SwapResult) swap" where
  "sim_swap cfg order netuid amount = (\<lambda>s.
     if subnet_mechanism cfg netuid (sw_world s) = 1
     then let F = fixed_ops cfg;
              limit = (case order of GetAlphaForTao \<Rightarrow> max_price_inner F | GetTaoForAlpha \<Rightarrow> min_price_inner F)
          in swap_swap cfg order netuid amount limit False True s
     else let actual = (if subnet_exists cfg netuid (sw_world s) then amount else 0)
          in (Inr \<lparr>amount_paid_in = actual, amount_paid_out = actual, result_fee_paid = 0,
                   result_fee_to_block_author = 0\<rparr>, s))"

definition handler_toggle_user_liquidity ::
  "NetUid \<Rightarrow> bool \<Rightarrow> ('p, 'i, 'w) SwapStorage \<Rightarrow> ('p, 'i, 'w) SwapStorage" where
  "handler_toggle_user_liquidity netuid enabled s =
     s\<lparr>EnabledUserLiquidity := (EnabledUserLiquidity s)(netuid := enabled)\<rparr>"

definition get_protocol_tao ::
  "('p :: linorder, 'i, 'w) SwapConfig \<Rightarrow> NetUid \<Rightarrow> ('p, 'i, 'w) SwapStorage \<Rightarrow> nat" where
  "get_protocol_tao cfg netuid s =
     (case positions_of netuid (protocol_account_id cfg) s of
        [] \<Rightarrow> 0
      | position # _ \<Rightarrow>
          (case to_token_amounts cfg position (AlphaSqrtPrice s netuid) of Inr (tao, _) \<Rightarrow> tao | Inl _ \<Rightarrow> 0))"

section \<open>Calls\<close>

definition swap_signed :: "RuntimeOrigin \<Rightarrow> ('p, 'i, 'w, AccountId) swap" where
  "swap_signed origin = ok_or (signer_of origin) Swap_BadOrigin"

definition swap_root :: "RuntimeOrigin \<Rightarrow> ('p, 'i, 'w, unit) swap" where
  "swap_root origin = ensure (origin = RootOrigin) Swap_BadOrigin"

definition swap_set_fee_rate ::
  "('p, 'i, 'w) SwapConfig \<Rightarrow> RuntimeOrigin \<Rightarrow> NetUid \<Rightarrow> nat \<Rightarrow> ('p, 'i, 'w, unit) swap" where
  "swap_set_fee_rate cfg origin netuid rate = transactional (
     and_then (swap_root origin) (\<lambda>_.
     and_then (require (\<lambda>s. subnet_exists cfg netuid (sw_world s)) Swap_MechanismDoesNotExist) (\<lambda>_.
     and_then (ensure (rate \<le> MaxFeeRate cfg) Swap_FeeRateTooHigh) (\<lambda>_.
     and_then (modify (\<lambda>s. s\<lparr>FeeRate := (FeeRate s)(netuid := rate)\<rparr>)) (\<lambda>_.
     swap_event (Swap_FeeRateSet netuid rate))))))"

definition swap_toggle_user_liquidity ::
  "('p, 'i, 'w) SwapConfig \<Rightarrow> RuntimeOrigin \<Rightarrow> NetUid \<Rightarrow> bool \<Rightarrow> ('p, 'i, 'w, unit) swap" where
  "swap_toggle_user_liquidity cfg origin netuid enable = transactional (
     and_then (if origin = RootOrigin then ret ()
       else and_then (swap_signed origin) (\<lambda>who.
         require (\<lambda>s. subnet_is_owner cfg who netuid (sw_world s) \<and> enable) Swap_BadOrigin)) (\<lambda>_.
     require (\<lambda>s. subnet_exists cfg netuid (sw_world s)) Swap_MechanismDoesNotExist))"

definition swap_add_liquidity :: "RuntimeOrigin \<Rightarrow> ('p, 'i, 'w, unit) swap" where
  "swap_add_liquidity origin = transactional (
     and_then (swap_signed origin) (\<lambda>_. throw Swap_UserLiquidityDisabled))"

definition swap_remove_liquidity ::
  "('p :: linorder, 'i, 'w) SwapConfig \<Rightarrow> RuntimeOrigin \<Rightarrow> AccountId \<Rightarrow> NetUid \<Rightarrow> nat \<Rightarrow> ('p, 'i, 'w, unit) swap" where
  "swap_remove_liquidity cfg origin hotkey netuid position_id = transactional (
     and_then (swap_signed origin) (\<lambda>coldkey.
     and_then (require (\<lambda>s. subnet_exists cfg netuid (sw_world s)) Swap_MechanismDoesNotExist) (\<lambda>_.
     and_then (do_remove_liquidity cfg netuid coldkey position_id) (\<lambda>r.
     and_then (on_world (increase_balance cfg coldkey (saturating_add 64 (rm_tao r) (rm_fee_tao r)))) (\<lambda>_.
     and_then (try_world (increase_stake cfg coldkey hotkey netuid
       (saturating_add 64 (rm_alpha r) (rm_fee_alpha r)))) (\<lambda>_.
     and_then (on_world (\<lambda>w. alpha_decrease_provided cfg netuid (rm_alpha r)
       (tao_decrease_provided cfg netuid (rm_tao r) w))) (\<lambda>_.
     swap_event (Swap_LiquidityRemoved coldkey hotkey netuid position_id (rm_liquidity r) (rm_tao r) (rm_alpha r)
       (rm_fee_tao r) (rm_fee_alpha r) (rm_tick_low r) (rm_tick_high r)))))))))"

text \<open>The cast of an unsigned 64-bit number to a signed one, and its negation.\<close>

definition as_i64 :: "nat \<Rightarrow> int" where
  "as_i64 x = (int x + 2 ^ 63) mod 2 ^ 64 - 2 ^ 63"

definition neg_i64 :: "nat \<Rightarrow> int" where
  "neg_i64 x = as_i64 (nat ((- int x) mod 2 ^ 64))"

definition swap_modify_position ::
  "('p :: linorder, 'i, 'w) SwapConfig \<Rightarrow> RuntimeOrigin \<Rightarrow> AccountId \<Rightarrow> NetUid \<Rightarrow> nat \<Rightarrow> int \<Rightarrow> ('p, 'i, 'w, unit) swap" where
  "swap_modify_position cfg origin hotkey netuid position_id liquidity_delta = transactional (
     and_then (swap_signed origin) (\<lambda>coldkey.
     and_then (require (\<lambda>s. subnet_exists cfg netuid (sw_world s)) Swap_MechanismDoesNotExist) (\<lambda>_.
     and_then (require (\<lambda>s. is_subtoken_enabled cfg netuid (sw_world s)) Swap_SubtokenDisabled) (\<lambda>_.
     and_then (do_modify_position cfg netuid coldkey hotkey position_id liquidity_delta) (\<lambda>r.
     and_then (if liquidity_delta > 0
       then
         and_then (try_world (decrease_balance cfg coldkey (up_tao r))) (\<lambda>tao_provided.
         and_then (ensure (tao_provided = up_tao r) Swap_InsufficientBalance) (\<lambda>_.
         and_then (try_world (decrease_stake cfg coldkey hotkey netuid (up_alpha r))) (\<lambda>_.
         swap_event (Swap_LiquidityModified coldkey hotkey netuid position_id liquidity_delta
           (as_i64 (up_tao r)) (as_i64 (up_alpha r)) (up_fee_tao r) (up_fee_alpha r) (up_tick_low r) (up_tick_high r)))))
       else
         and_then (on_world (increase_balance cfg coldkey (up_tao r))) (\<lambda>_.
         and_then (try_world (increase_stake cfg coldkey hotkey netuid (up_alpha r))) (\<lambda>_.
         swap_event (if up_removed r
           then Swap_LiquidityRemoved coldkey hotkey netuid position_id (nat \<bar>liquidity_delta\<bar>) (up_tao r) (up_alpha r)
             (up_fee_tao r) (up_fee_alpha r) (up_tick_low r) (up_tick_high r)
           else Swap_LiquidityModified coldkey hotkey netuid position_id liquidity_delta
             (neg_i64 (up_tao r)) (neg_i64 (up_alpha r)) (up_fee_tao r) (up_fee_alpha r)
             (up_tick_low r) (up_tick_high r))))) (\<lambda>_.
     and_then (if up_fee_tao r > 0 then on_world (increase_balance cfg coldkey (up_fee_tao r)) else ret ()) (\<lambda>_.
     if up_fee_alpha r \<noteq> 0 then try_world (increase_stake cfg coldkey hotkey netuid (up_fee_alpha r)) else ret ())))))))"

text \<open>The loop of \<open>disable_lp\<close>; an error of one subnet is ignored, what it wrote is not.\<close>

fun disable_lp_loop ::
  "('p :: linorder, 'i, 'w) SwapConfig \<Rightarrow> NetUid list \<Rightarrow> ('p, 'i, 'w) SwapStorage \<Rightarrow> ('p, 'i, 'w) SwapStorage" where
  "disable_lp_loop cfg [] s = s"
| "disable_lp_loop cfg (netuid # rest) s =
     (let s = (if EnabledUserLiquidity s netuid
               then s\<lparr>EnabledUserLiquidity := (EnabledUserLiquidity s)(netuid := False),
                      sw_events := sw_events s @ [Swap_UserLiquidityToggled netuid False]\<rparr>
               else s)
      in disable_lp_loop cfg rest (snd (do_dissolve_all_liquidity_providers cfg netuid s)))"

definition swap_disable_lp :: "('p :: linorder, 'i, 'w) SwapConfig \<Rightarrow> RuntimeOrigin \<Rightarrow> ('p, 'i, 'w, unit) swap" where
  "swap_disable_lp cfg origin = transactional (
     and_then (swap_root origin) (\<lambda>_. modify (disable_lp_loop cfg [1..<129])))"

end
