(* ===== verification/Swap_Tick_Search.thy ===== *)
theory Swap_Tick_Search
  imports Swap_Ticks
begin

text \<open>
  Correctness of the bitmap: insertion and removal act on the set of active ticks, the layers stay
  consistent, and the three-layer search finds the closest active tick.  Both directions of the search
  are treated at once, with \<open>toward\<close> as the order in which the bits are visited.
\<close>

section \<open>Directions\<close>

definition toward :: "bool \<Rightarrow> nat \<Rightarrow> nat \<Rightarrow> bool" where
  "toward lower a b = (if lower then a \<le> b else b \<le> a)"

lemma toward_order:
  "toward lower a a" "toward lower a b \<Longrightarrow> toward lower b c \<Longrightarrow> toward lower a c"
  "toward lower a b \<Longrightarrow> toward lower b a \<Longrightarrow> a = b" "toward lower a b \<or> toward lower b a"
  by (auto simp: toward_def split: if_splits)

lemma toward_div: "toward lower a b \<Longrightarrow> toward lower (a div 128) (b div 128)"
  by (auto simp: toward_def div_le_mono)

lemma toward_split:
  "toward lower a b \<longleftrightarrow> a div 128 \<noteq> b div 128 \<and> toward lower (a div 128) (b div 128) \<or>
     a div 128 = b div 128 \<and> toward lower (a mod 128) (b mod 128)"
proof -
  have le: "x \<le> y \<longleftrightarrow> x div 128 < y div 128 \<or> x div 128 = y div 128 \<and> x mod 128 \<le> y mod 128" for x y :: nat
  proof -
    obtain a b c d where "x = 128 * a + c" "c < 128" "y = 128 * b + d" "d < (128 :: nat)"
      by (metis mod_less_divisor mult_div_mod_eq zero_less_numeral)
    moreover have "128 * a + c \<le> 128 * b + d \<longleftrightarrow> a < b \<or> a = b \<and> c \<le> d" using calculation(2,4) by linarith
    ultimately show ?thesis by simp
  qed
  note lex = le [unfolded nat_less_le]
  show ?thesis
  proof (cases lower)
    case True
    then show ?thesis using lex [of a b] unfolding toward_def by (simp only: if_True) blast
  next
    case False
    then show ?thesis using lex [of b a] unfolding toward_def by (simp only: if_False) metis
  qed
qed

section \<open>Candidate bits of a word\<close>

text \<open>The bits in the order in which the loop visits them.\<close>

definition visited :: "bool \<Rightarrow> nat \<Rightarrow> nat list" where
  "visited lower k = (if lower then rev [0..<Suc k] else [k..<128])"

lemma bit_one_bit: "bit (one_bit k) n \<longleftrightarrow> n = k \<and> k < 128"
  by (auto simp: one_bit_def bit_simps)

lemma one_bit_zero: "one_bit k = 0 \<longleftrightarrow> 128 \<le> k"
proof
  assume "one_bit k = 0"
  then have "\<not> bit (one_bit k) k" by simp
  then show "128 \<le> k" by (simp add: bit_one_bit)
next
  assume "128 \<le> k"
  then show "one_bit k = 0" by (intro bit_word_eqI) (simp add: bit_one_bit)
qed

lemma single_bit: "one_bit k AND wd = 0 \<longleftrightarrow> \<not> bit wd k"
proof
  assume z: "one_bit k AND wd = 0"
  show "\<not> bit wd k"
  proof
    assume b: "bit wd k"
    then have "k < 128" using bit_imp_le_length [of wd k] by simp
    with b have "bit (one_bit k AND wd) k" by (simp add: bit_and_iff bit_one_bit)
    with z show False by simp
  qed
next
  assume "\<not> bit wd k"
  then show "one_bit k AND wd = 0"
    by (intro bit_word_eqI) (auto simp: bit_and_iff bit_one_bit)
qed

lemma shift_single:
  "shift_mask True (one_bit 0) = 0" "k < 127 \<Longrightarrow> shift_mask True (one_bit (Suc k)) = one_bit k"
  "shift_mask False (one_bit k) = one_bit (Suc k)"
proof -
  show "shift_mask True (one_bit 0) = 0"
    unfolding shift_mask_def by (intro bit_word_eqI) (simp add: bit_drop_bit_eq bit_one_bit)
  show "shift_mask True (one_bit (Suc k)) = one_bit k" if "k < 127"
    unfolding shift_mask_def using that by (intro bit_word_eqI) (auto simp: bit_drop_bit_eq bit_one_bit)
  show "shift_mask False (one_bit k) = one_bit (Suc k)"
    unfolding shift_mask_def one_bit_def by (simp only: if_False push_bit_push_bit plus_1_eq_Suc)
qed

lemma loop_zero: "candidates_loop wd s lower 0 k acc = acc"
  by (subst candidates_loop.simps) simp

lemmas loop_simps = one_bit_zero single_bit shift_single loop_zero saturating_sub_def Let_def

lemma loop_lower:
  "k < s \<Longrightarrow> s < 128 \<Longrightarrow>
   candidates_loop wd s True (one_bit k) k acc = acc @ take 1 (filter (bit wd) (visited True k))"
proof (induction k arbitrary: acc)
  case 0
  then show ?case by (subst candidates_loop.simps) (simp add: loop_simps visited_def)
next
  case (Suc k)
  have "visited True (Suc k) = Suc k # visited True k" by (simp add: visited_def)
  with Suc show ?case by (subst candidates_loop.simps) (simp add: loop_simps)
qed

lemma loop_higher:
  "s < k \<Longrightarrow> k \<le> 128 \<Longrightarrow>
   candidates_loop wd s False (one_bit k) k acc = acc @ take 1 (filter (bit wd) (visited False k))"
proof (induction "128 - k" arbitrary: k acc)
  case 0
  then show ?case by (subst candidates_loop.simps) (simp add: loop_simps visited_def)
next
  case (Suc n)
  from Suc.hyps(2) have k: "k < 128" "n = 128 - Suc k" by linarith+
  have path: "visited False k = k # visited False (Suc k)" using k by (simp add: visited_def upt_conv_Cons)
  have next_bit: "saturating_add 32 k (Suc 0) = Suc k" using k by simp
  have IH: "candidates_loop wd s False (one_bit (Suc k)) (Suc k) acc' =
      acc' @ take 1 (filter (bit wd) (visited False (Suc k)))" for acc'
    by (rule Suc.hyps(1) [OF k(2)]) (use Suc.prems k in linarith)+
  show ?case
    using Suc.prems(1) k(1)
    by (subst candidates_loop.simps) (simp add: loop_simps IH path next_bit del: saturating_add_exact)
qed

lemma candidates_eq:
  assumes "s < 128"
  shows "find_closest_active_bit_candidates wd s lower =
    (if bit wd s then [s] else []) @ take 1 (filter (bit wd) (tl (visited lower s)))"
proof (cases lower)
  case True
  show ?thesis
  proof (cases s)
    case 0
    then show ?thesis unfolding find_closest_active_bit_candidates_def using True
      by (subst candidates_loop.simps) (simp add: loop_simps visited_def)
  next
    case (Suc k)
    have "tl (visited True s) = visited True k" using Suc by (simp add: visited_def)
    then show ?thesis unfolding find_closest_active_bit_candidates_def
      using True Suc assms loop_lower [of k s wd] by (subst candidates_loop.simps) (simp add: loop_simps)
  qed
next
  case False
  have "tl (visited False s) = visited False (Suc s)" using assms by (simp add: visited_def upt_conv_Cons)
  moreover have "saturating_add 32 s (Suc 0) = Suc s" using assms by simp
  ultimately show ?thesis unfolding find_closest_active_bit_candidates_def
    using False assms loop_higher [of s "Suc s" wd] by (subst candidates_loop.simps) (simp add: loop_simps)
qed

lemma first_closest:
  assumes "sorted_wrt (\<lambda>a b. toward lower b a) xs"
  shows "c \<in> set (take 1 (filter P xs)) \<longleftrightarrow> c \<in> set xs \<and> P c \<and> (\<forall>d \<in> set xs. P d \<longrightarrow> toward lower d c)"
  using assms by (induction xs) (auto dest: toward_order(3) intro: toward_order(1))

lemma visited_beyond:
  assumes "s < 128"
  shows "sorted_wrt (\<lambda>a b. toward lower b a) (tl (visited lower s))"
    and "set (tl (visited lower s)) = {d. d < 128 \<and> d \<noteq> s \<and> toward lower d s}"
proof -
  have "sorted_wrt (\<lambda>a b. b \<le> a) (rev [0..<s])" by (simp add: sorted_wrt_rev)
  moreover have "sorted_wrt (\<le>) [Suc s..<128]" by simp
  moreover have "tl (visited lower s) = (if lower then rev [0..<s] else [Suc s..<128])"
    using assms by (simp add: visited_def upt_conv_Cons)
  ultimately show "sorted_wrt (\<lambda>a b. toward lower b a) (tl (visited lower s))"
    and "set (tl (visited lower s)) = {d. d < 128 \<and> d \<noteq> s \<and> toward lower d s}"
    using assms by (auto simp: toward_def)
qed

lemma bit_below: "bit (wd :: 128 word) k \<Longrightarrow> k < 128"
  using bit_imp_le_length [of wd k] by simp

lemma candidates_iff:
  assumes "s < 128"
  shows "c \<in> set (find_closest_active_bit_candidates wd s lower) \<longleftrightarrow>
    bit wd c \<and> toward lower c s \<and>
    (c = s \<or> (\<forall>d. bit wd d \<and> d \<noteq> s \<and> toward lower d s \<longrightarrow> toward lower d c))"
  using first_closest [OF visited_beyond(1) [OF assms], where c = c and lower = lower and P = "bit wd"] bit_below [of wd]
  unfolding candidates_eq [OF assms] visited_beyond(2) [OF assms] by (auto intro: toward_order(1))

lemma candidates_head:
  assumes "s < 128" and "find_closest_active_bit_candidates wd s lower = c # cs"
  shows "bit wd c" and "toward lower c s" and "bit wd d \<Longrightarrow> toward lower d s \<Longrightarrow> toward lower d c"
proof -
  have mem: "c \<in> set (find_closest_active_bit_candidates wd s lower)" using assms(2) by simp
  with candidates_iff [OF assms(1)] show c: "bit wd c" "toward lower c s" by blast+
  assume d: "bit wd d" "toward lower d s"
  show "toward lower d c"
  proof (cases "bit wd s")
    case True
    then have "c = s" using assms(2) unfolding candidates_eq [OF assms(1)] by simp
    with d show ?thesis by simp
  next
    case False
    with c d(1) have "c \<noteq> s" "d \<noteq> s" by auto
    with mem d show ?thesis unfolding candidates_iff [OF assms(1)] by blast
  qed
qed

lemma candidates_Nil:
  assumes "s < 128" and "find_closest_active_bit_candidates wd s lower = []" and "bit wd d"
  shows "\<not> toward lower d s"
proof
  assume d: "toward lower d s"
  from assms(2) have no: "\<not> bit wd s" and empty: "filter (bit wd) (tl (visited lower s)) = []"
    unfolding candidates_eq [OF assms(1)] by (auto split: if_splits simp: take_eq_Nil)
  with d assms(3) bit_below [OF assms(3)] visited_beyond(2) [OF assms(1), of lower]
  show False by (auto simp: filter_empty_conv)
qed

section \<open>Consistent layers\<close>

abbreviation in_layer :: "(LayerLevel \<Rightarrow> nat \<Rightarrow> 128 word) \<Rightarrow> LayerLevel \<Rightarrow> nat \<Rightarrow> bool" where
  "in_layer f l j \<equiv> bit (f l (j div 128)) (j mod 128)"

text \<open>The offsets of the ticks in range, and the consistency of the three layers of a subnet.\<close>

definition offset :: "TickIndex \<Rightarrow> nat" where
  "offset t = nat (t + 887272)"

definition layers_ok :: "(LayerLevel \<Rightarrow> nat \<Rightarrow> 128 word) \<Rightarrow> bool" where
  "layers_ok f \<longleftrightarrow>
     (\<forall>i. in_layer f Bottom i \<longrightarrow> 443636 \<le> i \<and> i \<le> 1330908) \<and>
     (\<forall>j. in_layer f Middle j \<longleftrightarrow> f Bottom j \<noteq> 0) \<and>
     (\<forall>k. in_layer f Top k \<longleftrightarrow> f Middle k \<noteq> 0)"

definition active :: "NetUid \<Rightarrow> Words \<Rightarrow> TickIndex set" where
  "active netuid ws =
     {t. TickIndex_MIN \<le> t \<and> t \<le> TickIndex_MAX \<and> in_layer (ws netuid) Bottom (offset t)}"

lemma tick_bounds: "TickIndex_MIN = - 443636" "TickIndex_MAX = 443636" "TickIndex_OFFSET = 887272"
  by (simp_all add: TickIndex_MIN_def TickIndex_MAX_def TickIndex_OFFSET_def MAX_TICK_def MIN_TICK_def
      i32_saturating_div_def i32_clamp_def signed_divide_int_def)

lemma word_nonzero: "(wd :: 128 word) \<noteq> 0 \<longleftrightarrow> (\<exists>b. bit wd b)"
  by (metis bit_0_eq bot_apply bot_bool_def bit_word_eqI)

lemma word_members: "(f l j :: 128 word) \<noteq> 0 \<longleftrightarrow> (\<exists>i. i div 128 = j \<and> bit (f l (i div 128)) (i mod 128))"
proof
  assume "f l j \<noteq> 0"
  then obtain b where b: "bit (f l j) b" unfolding word_nonzero ..
  from bit_below [OF b] have "(128 * j + b) div 128 = j" "(128 * j + b) mod 128 = b" by simp_all
  with b show "\<exists>i. i div 128 = j \<and> bit (f l (i div 128)) (i mod 128)" by metis
next
  assume "\<exists>i. i div 128 = j \<and> bit (f l (i div 128)) (i mod 128)"
  then show "f l j \<noteq> 0" unfolding word_nonzero by blast
qed

lemma layer_above:
  assumes "layers_ok f"
  shows "in_layer f Middle j \<longleftrightarrow> (\<exists>i. i div 128 = j \<and> in_layer f Bottom i)"
    and "in_layer f Top k \<longleftrightarrow> (\<exists>j. j div 128 = k \<and> in_layer f Middle j)"
  using assms unfolding layers_ok_def word_members by blast+

section \<open>The search\<close>

lemma start_from_below: "b < 128 \<Longrightarrow> start_from c w b < 128"
  by (simp add: start_from_def)

lemma start_from_toward:
  assumes "toward lower c (y div 128)" and "d < 128"
  shows "toward lower d (start_from c (y div 128) (y mod 128)) \<longleftrightarrow> toward lower (128 * c + d) y"
proof (cases "c = y div 128")
  case True
  have "(128 * c + d) div 128 = c" "(128 * c + d) mod 128 = d" using assms(2) by simp_all
  then show ?thesis using True unfolding toward_split [of lower "128 * c + d" y] by (simp add: start_from_def)
next
  case False
  have "(128 * c + d) div 128 = c" using assms(2) by simp
  with False assms(1) have "toward lower (128 * c + d) y" by (simp add: toward_split [of lower "128 * c + d" y])
  moreover have "toward lower d (start_from c (y div 128) (y mod 128))"
    using False assms by (auto simp: start_from_def toward_def split: if_splits)
  ultimately show ?thesis by simp
qed

lemma level_sound:
  assumes "toward lower c (y div 128)"
    and "b \<in> set (find_closest_active_bit_candidates (f c) (start_from c (y div 128) (y mod 128)) lower)"
  shows "bit (f c) b" and "b < 128" and "toward lower (128 * c + b) y"
proof -
  have s: "start_from c (y div 128) (y mod 128) < 128" by (rule start_from_below) simp
  from assms(2) show b: "bit (f c) b" unfolding candidates_iff [OF s] by blast
  then show less: "b < 128" by (rule bit_below)
  from assms(2) have "toward lower b (start_from c (y div 128) (y mod 128))"
    unfolding candidates_iff [OF s] by blast
  then show "toward lower (128 * c + b) y" unfolding start_from_toward [OF assms(1) less] .
qed

lemma level_complete:
  assumes "bit (f (m div 128)) (m mod 128)" and "toward lower m y"
    and best: "m = y \<or> (\<forall>j. j div 128 = m div 128 \<and> bit (f (j div 128)) (j mod 128) \<and> j \<noteq> y \<and> toward lower j y \<longrightarrow>
      toward lower j m)"
  shows "m mod 128 \<in> set (find_closest_active_bit_candidates (f (m div 128))
    (start_from (m div 128) (y div 128) (y mod 128)) lower)"
proof -
  let ?c = "m div 128" let ?s = "start_from (m div 128) (y div 128) (y mod 128)"
  have s: "?s < 128" by (rule start_from_below) simp
  have c: "toward lower ?c (y div 128)" by (rule toward_div [OF assms(2)])
  have m: "128 * ?c + m mod 128 = m" by simp
  have "toward lower (m mod 128) ?s" using start_from_toward [OF c, of "m mod 128"] assms(2) by simp
  moreover have "m mod 128 = ?s \<or> (\<forall>d. bit (f ?c) d \<and> d \<noteq> ?s \<and> toward lower d ?s \<longrightarrow> toward lower d (m mod 128))"
    using best
  proof
    assume "m = y"
    then show ?thesis by (simp add: start_from_def)
  next
    assume best: "\<forall>j. j div 128 = ?c \<and> bit (f (j div 128)) (j mod 128) \<and> j \<noteq> y \<and> toward lower j y \<longrightarrow>
      toward lower j m"
    have "toward lower d (m mod 128)" if d: "bit (f ?c) d" "d \<noteq> ?s" "toward lower d ?s" for d
    proof -
      have less: "d < 128" by (rule bit_below [OF d(1)])
      then have j: "(128 * ?c + d) div 128 = ?c" "(128 * ?c + d) mod 128 = d" by simp_all
      have "128 * ?c + d \<noteq> y"
      proof
        assume "128 * ?c + d = y"
        with j have "?c = y div 128" "d = y mod 128" by simp_all
        with d(2) show False by (simp add: start_from_def)
      qed
      moreover have "toward lower (128 * ?c + d) y" using start_from_toward [OF c less] d(3) by simp
      ultimately have "toward lower (128 * ?c + d) m" using best j d(1) by metis
      then show ?thesis unfolding toward_split [of lower "128 * ?c + d" m] j by blast
    qed
    then show ?thesis by blast
  qed
  ultimately show ?thesis unfolding candidates_iff [OF s] using assms(1) by blast
qed

text \<open>Both loops as one loop over the indices that are found.\<close>

definition keep_best :: "bool \<Rightarrow> nat \<Rightarrow> bool \<times> nat \<Rightarrow> bool \<times> nat" where
  "keep_best lower index = (\<lambda>(found, result).
     if \<not> toward lower index result \<or> \<not> found then (True, index) else (found, result))"

lemma keep_best_simps:
  "\<not> toward lower x r \<or> \<not> found \<Longrightarrow> keep_best lower x (found, r) = (True, x)"
  "\<not> (\<not> toward lower x r \<or> \<not> found) \<Longrightarrow> keep_best lower x (found, r) = (found, r)"
  by (auto simp: keep_best_def)

lemma fold_keep_best:
  "fold (keep_best lower) xs (found, r) = (found', r') \<Longrightarrow>
   found' = (found \<or> xs \<noteq> []) \<and>
   (found' \<longrightarrow> (r' \<in> set xs \<or> found \<and> r' = r) \<and> (\<forall>x \<in> set xs. toward lower x r') \<and> (found \<longrightarrow> toward lower r r'))"
proof (induction xs arbitrary: found r)
  case Nil
  then show ?case by (simp add: toward_order(1))
next
  case (Cons x xs)
  show ?case
  proof (cases "\<not> toward lower x r \<or> \<not> found")
    case True
    with Cons.prems have "fold (keep_best lower) xs (True, x) = (found', r')" by (simp add: keep_best_simps(1))
    from Cons.IH [OF this] True show ?thesis
      using toward_order(2,4) [of lower] by (metis list.set_intros(1) list.set_intros(2) set_ConsD list.simps(3))
  next
    case False
    with Cons.prems have "fold (keep_best lower) xs (found, r) = (found', r')" by (simp add: keep_best_simps(2))
    from Cons.IH [OF this] False show ?thesis
      using toward_order(2) [of lower] by (metis list.set_intros(2) set_ConsD list.simps(3))
  qed
qed

lemma fold_nested: "fold (\<lambda>x. fold g (h x)) xs st = fold g (concat (map h xs)) st"
  by (induction xs arbitrary: st) simp_all

lemma offset_range:
  assumes "\<not> out_of_range t"
  shows "443636 \<le> offset t" and "offset t \<le> 1330908"
  using assms unfolding out_of_range_def tick_bounds offset_def by arith+

lemma bitmap_position:
  assumes "\<not> out_of_range t"
  defines "bm \<equiv> bitmap_from t"
  shows "word_at bm Bottom = offset t div 128" "bit_at bm Bottom = offset t mod 128"
    "word_at bm Middle = offset t div 128 div 128" "bit_at bm Middle = offset t div 128 mod 128"
    "word_at bm Top = 0" "bit_at bm Top = offset t div 128 div 128"
    "bit_mask bm Bottom = one_bit (offset t mod 128)" "bit_mask bm Middle = one_bit (offset t div 128 mod 128)"
    "bit_mask bm Top = one_bit (offset t div 128 div 128)"
proof -
  have "i32_saturating_add t TickIndex_OFFSET = t + 887272"
    using assms(1) by (simp add: out_of_range_def tick_bounds i32_saturating_add_def i32_clamp_def)
  moreover have "(t + 887272) mod 2 ^ 32 = t + 887272"
    using assms(1) by (simp add: out_of_range_def tick_bounds)
  ultimately have o: "nat (i32_saturating_add t TickIndex_OFFSET mod 2 ^ 32) = offset t"
    by (simp add: offset_def)
  have small: "offset t div 128 div 128 < 128" using offset_range(2) [OF assms(1)] by (simp add: div_mult2_eq [symmetric])
  have layer: "index_to_layer n = \<lparr>layer_word = n div 128, layer_bit = n mod 128\<rparr>" for n
    by (simp add: index_to_layer_def safe_div_def checked_div_def checked_rem_def)
  show "word_at bm Bottom = offset t div 128" "bit_at bm Bottom = offset t mod 128"
    "word_at bm Middle = offset t div 128 div 128" "bit_at bm Middle = offset t div 128 mod 128"
    "word_at bm Top = 0" "bit_at bm Top = offset t div 128 div 128"
    "bit_mask bm Bottom = one_bit (offset t mod 128)" "bit_mask bm Middle = one_bit (offset t div 128 mod 128)"
    "bit_mask bm Top = one_bit (offset t div 128 div 128)"
    using small unfolding bm_def bitmap_from_def Let_def o layer word_at_def bit_at_def bit_mask_def
    by simp_all
qed

lemma layer_to_index_exact:
  "c < 2 ^ 24 \<Longrightarrow> b < 128 \<Longrightarrow> layer_to_index \<lparr>layer_word = c, layer_bit = b\<rparr> = 128 * c + b"
  by (simp add: layer_to_index_def saturating_mul_def uint_max_def mult.commute)

text \<open>The index found in a word of the bottom layer, as a list of length at most one.\<close>

definition hits :: "(nat \<Rightarrow> 128 word) \<Rightarrow> nat \<Rightarrow> bool \<Rightarrow> nat \<Rightarrow> nat list" where
  "hits bottom y lower c =
     map (\<lambda>b. 128 * c + b)
       (take 1 (find_closest_active_bit_candidates (bottom c) (start_from c (y div 128) (y mod 128)) lower))"

lemma search_bottom_hits:
  assumes "\<not> out_of_range t" and "c < 128" and "b < 128"
  shows "search_bottom f (bitmap_from t) lower c b st = fold (keep_best lower) (hits f (offset t) lower (128 * c + b)) st"
proof -
  let ?w = "128 * c + b"
  have w: "layer_to_index \<lparr>layer_word = c, layer_bit = b\<rparr> = ?w" using assms by (simp add: layer_to_index_exact)
  let ?bits = "find_closest_active_bit_candidates (f ?w) (start_from ?w (offset t div 128) (offset t mod 128)) lower"
  have step: "(if lower then i > r else i < r) \<longleftrightarrow> \<not> toward lower i r" for i r by (auto simp: toward_def)
  show ?thesis
  proof (cases ?bits)
    case Nil
    then show ?thesis
      by (simp add: search_bottom_def hits_def w bitmap_position [OF assms(1)] Let_def split: prod.split)
  next
    case (Cons a as)
    have s: "start_from ?w (offset t div 128) (offset t mod 128) < 128" by (rule start_from_below) simp
    have "a < 128" by (rule bit_below [OF candidates_head(1) [OF s Cons]])
    then have "layer_to_index \<lparr>layer_word = ?w, layer_bit = a\<rparr> = 128 * ?w + a"
      using assms by (intro layer_to_index_exact) simp_all
    with Cons show ?thesis
      by (simp add: search_bottom_def hits_def w bitmap_position [OF assms(1)] Let_def step keep_best_def
          split: prod.split)
  qed
qed

definition level_bits :: "(nat \<Rightarrow> 128 word) \<Rightarrow> nat \<Rightarrow> bool \<Rightarrow> nat \<Rightarrow> nat list" where
  "level_bits f y lower c = find_closest_active_bit_candidates (f c) (start_from c (y div 128) (y mod 128)) lower"

definition all_hits :: "(LayerLevel \<Rightarrow> nat \<Rightarrow> 128 word) \<Rightarrow> nat \<Rightarrow> bool \<Rightarrow> nat list" where
  "all_hits f y lower =
     concat (map (\<lambda>c0. concat (map (\<lambda>c1. hits (f Bottom) y lower (128 * c0 + c1))
         (level_bits (f Middle) (y div 128) lower c0)))
       (level_bits (f Top) (y div 128 div 128) lower 0))"

lemma level_below: "b \<in> set (level_bits f y lower c) \<Longrightarrow> b < 128"
  unfolding level_bits_def by (metis bit_below candidates_iff mod_less_divisor start_from_below zero_less_numeral)

lemma search_middle_hits:
  assumes "\<not> out_of_range t" and "c < 128"
  shows "search_middle f (bitmap_from t) lower c st =
    fold (keep_best lower) (concat (map (\<lambda>c1. hits (f Bottom) (offset t) lower (128 * c + c1))
      (level_bits (f Middle) (offset t div 128) lower c))) st"
proof -
  have i: "layer_to_index \<lparr>layer_word = 0, layer_bit = c\<rparr> = c" using layer_to_index_exact [of 0 c] assms(2) by simp
  have "search_middle f (bitmap_from t) lower c st =
    fold (search_bottom (f Bottom) (bitmap_from t) lower c) (level_bits (f Middle) (offset t div 128) lower c) st"
    by (simp add: search_middle_def i Let_def level_bits_def bitmap_position [OF assms(1)])
  also have "\<dots> = fold (\<lambda>c1. fold (keep_best lower) (hits (f Bottom) (offset t) lower (128 * c + c1)))
    (level_bits (f Middle) (offset t div 128) lower c) st"
    by (intro fold_cong refl ext search_bottom_hits assms level_below)
  finally show ?thesis unfolding fold_nested .
qed

lemma search_all:
  assumes "\<not> out_of_range t"
  shows "fold (search_middle f (bitmap_from t) lower)
      (find_closest_active_bit_candidates (f Top (word_at (bitmap_from t) Top)) (bit_at (bitmap_from t) Top) lower) st =
    fold (keep_best lower) (all_hits f (offset t) lower) st"
proof -
  have small: "offset t div 128 div 128 < 128"
    using offset_range(2) [OF assms] by (simp add: div_mult2_eq [symmetric])
  then have "find_closest_active_bit_candidates (f Top (word_at (bitmap_from t) Top)) (bit_at (bitmap_from t) Top) lower =
    level_bits (f Top) (offset t div 128 div 128) lower 0"
    by (simp add: level_bits_def start_from_def bitmap_position [OF assms])
  moreover have "fold (search_middle f (bitmap_from t) lower) (level_bits (f Top) (offset t div 128 div 128) lower 0) st =
    fold (\<lambda>c0. fold (keep_best lower) (concat (map (\<lambda>c1. hits (f Bottom) (offset t) lower (128 * c0 + c1))
      (level_bits (f Middle) (offset t div 128) lower c0)))) (level_bits (f Top) (offset t div 128 div 128) lower 0) st"
    by (intro fold_cong refl ext search_middle_hits assms level_below)
  ultimately show ?thesis unfolding all_hits_def fold_nested by simp
qed

lemma all_hits_sound:
  assumes "y \<le> 1330908" and "x \<in> set (all_hits f y lower)"
  shows "in_layer f Bottom x" and "toward lower x y"
proof -
  from assms(2) obtain c0 c1 where c0: "c0 \<in> set (level_bits (f Top) (y div 128 div 128) lower 0)"
    and c1: "c1 \<in> set (level_bits (f Middle) (y div 128) lower c0)"
    and x: "x \<in> set (hits (f Bottom) y lower (128 * c0 + c1))"
    unfolding all_hits_def by auto
  have "y div 128 div 128 div 128 = 0" using assms(1) by (simp add: div_mult2_eq [symmetric])
  then have "toward lower 0 (y div 128 div 128 div 128)" by (simp add: toward_order(1))
  from level_sound(3) [where f = "f Top", OF this c0 [unfolded level_bits_def]]
  have "toward lower c0 (y div 128 div 128)" by simp
  from level_sound(3) [where f = "f Middle", OF this c1 [unfolded level_bits_def]]
  have down: "toward lower (128 * c0 + c1) (y div 128)" .
  from x obtain b where b: "x = 128 * (128 * c0 + c1) + b"
    "b \<in> set (find_closest_active_bit_candidates (f Bottom (128 * c0 + c1))
       (start_from (128 * c0 + c1) (y div 128) (y mod 128)) lower)"
    unfolding hits_def by (auto dest: in_set_takeD)
  note sound = level_sound [where f = "f Bottom", OF down b(2)]
  from sound(3) show "toward lower x y" unfolding b(1) .
  have "(128 * c + b) div 128 = c" "(128 * c + b) mod 128 = b" for c using sound(2) by simp_all
  with b(1) have "x div 128 = 128 * c0 + c1" "x mod 128 = b" by metis+
  with sound(1) show "in_layer f Bottom x" by simp
qed

lemma hits_complete:
  assumes "in_layer f Bottom m" and "toward lower m y"
    and best: "\<And>i. in_layer f Bottom i \<Longrightarrow> toward lower i y \<Longrightarrow> toward lower i m"
  shows "m \<in> set (hits (f Bottom) y lower (m div 128))"
proof -
  let ?s = "start_from (m div 128) (y div 128) (y mod 128)"
  have s: "?s < 128" by (rule start_from_below) simp
  have "m mod 128 \<in> set (find_closest_active_bit_candidates (f Bottom (m div 128)) ?s lower)"
    by (rule level_complete) (use assms in auto)
  then obtain b bs where b: "find_closest_active_bit_candidates (f Bottom (m div 128)) ?s lower = b # bs"
    by (cases "find_closest_active_bit_candidates (f Bottom (m div 128)) ?s lower") auto
  have c: "toward lower (m div 128) (y div 128)" by (rule toward_div [OF assms(2)])
  have "b \<in> set (find_closest_active_bit_candidates (f Bottom (m div 128)) ?s lower)" by (simp add: b)
  note sound = level_sound [where f = "f Bottom", OF c this]
  then have i: "(128 * (m div 128) + b) div 128 = m div 128" "(128 * (m div 128) + b) mod 128 = b" by simp_all
  have "toward lower (128 * (m div 128) + b) m" by (rule best) (use i sound in simp_all)
  then have "toward lower b (m mod 128)" unfolding toward_split [of lower "128 * (m div 128) + b" m] i by simp
  moreover have "toward lower (m mod 128) ?s" using start_from_toward [OF c, of "m mod 128"] assms(2) by simp
  then have "toward lower (m mod 128) b" by (rule candidates_head(3) [OF s b assms(1)])
  ultimately have "b = m mod 128" by (rule toward_order(3))
  then show ?thesis by (simp add: hits_def b)
qed

lemma all_hits_complete:
  assumes ok: "layers_ok f" and y: "y \<le> 1330908" and m: "in_layer f Bottom m" "toward lower m y"
    and best: "\<And>i. in_layer f Bottom i \<Longrightarrow> toward lower i y \<Longrightarrow> toward lower i m"
  shows "m \<in> set (all_hits f y lower)"
proof -
  let ?j = "m div 128" let ?k = "m div 128 div 128"
  have further: "toward lower i m" if "in_layer f Bottom i" "i div 128 \<noteq> y div 128" "toward lower (i div 128) (y div 128)" for i
    using best [OF that(1)] that(2,3) toward_split [of lower i y] by blast
  have mid: "in_layer f Middle ?j" and top: "in_layer f Top ?k"
    using m(1) layer_above [OF ok] by blast+
  have j: "toward lower ?j (y div 128)" by (rule toward_div [OF m(2)])
  have k: "toward lower ?k (y div 128 div 128)" by (rule toward_div [OF j])
  have "?j mod 128 \<in> set (level_bits (f Middle) (y div 128) lower ?k)"
    unfolding level_bits_def
  proof (rule level_complete [where f = "f Middle", OF mid j], rule disjI2, intro allI impI, elim conjE)
    fix j' assume "in_layer f Middle j'" "j' \<noteq> y div 128" "toward lower j' (y div 128)"
    then show "toward lower j' ?j" using layer_above(1) [OF ok] further toward_div by metis
  qed
  moreover have "?k mod 128 \<in> set (level_bits (f Top) (y div 128 div 128) lower (?k div 128))"
    unfolding level_bits_def
  proof (rule level_complete [where f = "f Top", OF top k], rule disjI2, intro allI impI, elim conjE)
    fix k' assume k': "in_layer f Top k'" "k' \<noteq> y div 128 div 128" "toward lower k' (y div 128 div 128)"
    then obtain i where i: "in_layer f Bottom i" "i div 128 div 128 = k'" using layer_above [OF ok] by metis
    then have "toward lower i m"
      using k' further [of i] toward_split [of lower "i div 128" "y div 128"] by metis
    then show "toward lower k' ?k" using i(2) toward_div by metis
  qed
  moreover have "m \<le> 1330908" using ok m(1) unfolding layers_ok_def by blast
  then have "?k div 128 = 0" by (simp add: div_mult2_eq [symmetric])
  moreover from this have "?k mod 128 = ?k" by (metis mod_eq_self_iff_div_eq_0)
  moreover have "m \<in> set (hits (f Bottom) y lower (128 * ?k + ?j mod 128))"
    using hits_complete [where f = f and m = m and y = y, OF m best] by simp
  ultimately show ?thesis unfolding all_hits_def set_concat set_map image_image
    by (intro UN_I [where a = ?k] UN_I [where a = "?j mod 128"]) simp_all
qed

section \<open>The closest active tick\<close>

definition closest_tick :: "bool \<Rightarrow> TickIndex \<Rightarrow> TickIndex set \<Rightarrow> TickIndex option" where
  "closest_tick lower t A =
     (let C = {a \<in> A. if lower then a \<le> t else t \<le> a}
      in if C = {} then None else Some (if lower then Max C else Min C))"

lemma closest_tickI:
  assumes "a \<in> A" "if lower then a \<le> t else t \<le> a" and "finite A"
    and "\<And>c. c \<in> A \<Longrightarrow> (if lower then c \<le> t else t \<le> c) \<Longrightarrow> (if lower then c \<le> a else a \<le> c)"
  shows "closest_tick lower t A = Some a"
  using assms unfolding closest_tick_def Let_def
  by (cases lower) (auto intro: Max_eqI Min_eqI)

lemma finite_active [simp]: "finite (active netuid ws)"
  by (rule finite_subset [of _ "{TickIndex_MIN .. TickIndex_MAX}"]) (auto simp: active_def)

lemma offset_toward:
  "- 887272 \<le> s \<Longrightarrow> - 887272 \<le> t \<Longrightarrow> toward lower (offset s) (offset t) \<longleftrightarrow> (if lower then s \<le> t else t \<le> s)"
  by (simp add: toward_def offset_def nat_le_eq_zle)

lemma in_bottom_active:
  assumes "layers_ok (ws netuid)" and "in_layer (ws netuid) Bottom i"
  shows "int i - 887272 \<in> active netuid ws" and "offset (int i - 887272) = i"
    and "from_offset_index i = Inr (int i - 887272)"
proof -
  have i: "443636 \<le> i" "i \<le> 1330908" using assms unfolding layers_ok_def by blast+
  show o: "offset (int i - 887272) = i" by (simp add: offset_def)
  show "int i - 887272 \<in> active netuid ws" using assms(2) i by (simp add: active_def o tick_bounds)
  show "from_offset_index i = Inr (int i - 887272)"
    using i by (simp add: from_offset_index_def TickIndex_new_def tick_bounds)
qed

lemma active_in_bottom: "a \<in> active netuid ws \<Longrightarrow> in_layer (ws netuid) Bottom (offset a) \<and> - 443636 \<le> a \<and> a \<le> 443636"
  by (simp add: active_def tick_bounds)

lemma best_exists:
  assumes "i \<in> S" and "finite (S :: nat set)"
  shows "\<exists>m \<in> S. \<forall>i \<in> S. toward lower i m"
proof -
  have "S \<noteq> {}" using assms(1) by blast
  with assms(2) have "Max S \<in> S" "\<forall>i \<in> S. i \<le> Max S" "Min S \<in> S" "\<forall>i \<in> S. Min S \<le> i" by simp_all
  then show ?thesis unfolding toward_def by (cases lower) auto
qed

theorem find_closest_correct:
  assumes ok: "layers_ok (ws netuid)" and t: "\<not> out_of_range t"
  shows "find_closest netuid t lower ws = closest_tick lower t (active netuid ws)"
proof -
  let ?y = "offset t" let ?R = "all_hits (ws netuid) ?y lower"
  have y: "?y \<le> 1330908" by (rule offset_range(2) [OF t])
  have low: "- 887272 \<le> t" using t by (simp add: out_of_range_def tick_bounds)
  obtain found r where res: "fold (keep_best lower) ?R (False, 0) = (found, r)" by force
  note out = fold_keep_best [OF res]
  have run: "find_closest netuid t lower ws =
    (if \<not> found then None else case from_offset_index r of Inr t \<Rightarrow> Some t | Inl _ \<Rightarrow> None)"
    using t by (simp add: find_closest_def Let_def search_all [OF t] res del: fold_simps)
  define S where "S = {i. in_layer (ws netuid) Bottom i \<and> toward lower i ?y}"
  have fin: "finite S"
    by (rule finite_subset [of _ "{.. 1330908}"]) (use ok in \<open>auto simp: S_def layers_ok_def\<close>)
  have sub: "set ?R \<subseteq> S" using all_hits_sound [OF y] by (auto simp: S_def)
  have best: "m \<in> set ?R" if "m \<in> S" "\<forall>i \<in> S. toward lower i m" for m
    by (rule all_hits_complete [OF ok y]) (use that in \<open>auto simp: S_def\<close>)
  have found: "found \<longleftrightarrow> S \<noteq> {}" using out sub best best_exists [OF _ fin, where lower = lower] by fastforce
  show ?thesis
  proof (cases "S = {}")
    case True
    then have "\<not> (if lower then a \<le> t else t \<le> a)" if "a \<in> active netuid ws" for a
      using active_in_bottom [OF that] offset_toward [of a t lower] low by (auto simp: S_def)
    then show ?thesis using True found run unfolding closest_tick_def by (auto simp: Let_def)
  next
    case False
    with found out sub have r: "r \<in> S" and r_best: "\<forall>x \<in> set ?R. toward lower x r" by auto
    obtain m where m: "m \<in> S" "\<forall>i \<in> S. toward lower i m" using False best_exists [OF _ fin, where lower = lower] by blast
    then have all: "toward lower i r" if "i \<in> S" for i
      using that best r_best toward_order(2) by blast
    have in_r: "in_layer (ws netuid) Bottom r" "toward lower r ?y" using r by (simp_all add: S_def)
    note at = in_bottom_active [where ws = ws and netuid = netuid, OF ok in_r(1)]
    have "closest_tick lower t (active netuid ws) = Some (int r - 887272)"
    proof (rule closest_tickI)
      show "int r - 887272 \<in> active netuid ws" by (rule at)
      show "if lower then int r - 887272 \<le> t else t \<le> int r - 887272"
        using in_r(2) offset_toward [of "int r - 887272" t lower] low at(2) by simp
      fix c assume c: "c \<in> active netuid ws" "if lower then c \<le> t else t \<le> c"
      note b = active_in_bottom [OF c(1)]
      have "offset c \<in> S" using b c(2) offset_toward [of c t lower] low by (simp add: S_def)
      then have "toward lower (offset c) (offset (int r - 887272))" using all at(2) by simp
      then show "if lower then c \<le> int r - 887272 else int r - 887272 \<le> c"
        using offset_toward [of c "int r - 887272" lower] b by simp
    qed simp
    with False found run at(3) show ?thesis by simp
  qed
qed

end
