(* ===== verification/Swap_Tick_Set.thy ===== *)
theory Swap_Tick_Set
  imports Swap_Tick_Search
begin

text \<open>
  The updates of the bitmap.  Insertion and removal keep the layers consistent and act as insertion
  and removal on the set of active ticks, so the bitmap implements an ordered set of ticks.
\<close>

section \<open>Updates of one word\<close>

lemma in_layer_set_word:
  "in_layer (set_word n l w v ws n') l' i \<longleftrightarrow>
     (if n' = n \<and> l' = l \<and> i div 128 = w then bit v (i mod 128) else in_layer (ws n') l' i)"
  by (simp add: set_word_def)

lemma set_word_other [simp]: "n' \<noteq> n \<Longrightarrow> set_word n l w v ws n' = ws n'"
  by (simp add: set_word_def)

lemma div_mod_eq: "i = x \<longleftrightarrow> i div 128 = x div 128 \<and> i mod 128 = x mod (128 :: nat)"
  by (metis mult_div_mod_eq)

lemma bit_set_clear:
  assumes "k < 128"
  shows "bit (wd OR one_bit k) n \<longleftrightarrow> bit wd n \<or> n = k" and "bit (wd AND NOT (one_bit k)) n \<longleftrightarrow> bit wd n \<and> n \<noteq> k"
  using assms bit_below [of wd n] by (auto simp: bit_or_iff bit_and_iff bit_not_iff bit_one_bit)

lemma top_position: "\<not> out_of_range t \<Longrightarrow> offset t div 128 div 128 < 128"
  using offset_range(2) [of t] by (simp add: div_mult2_eq [symmetric])

section \<open>Insertion\<close>

lemma insert_layers:
  fixes ws :: Words and netuid :: NetUid
  assumes "\<not> out_of_range t"
  defines "f \<equiv> tick_insert netuid t ws netuid"
  shows "in_layer f Bottom i \<longleftrightarrow> in_layer (ws netuid) Bottom i \<or> i = offset t"
    and "in_layer f Middle i \<longleftrightarrow> in_layer (ws netuid) Middle i \<or> i = offset t div 128"
    and "in_layer f Top i \<longleftrightarrow> in_layer (ws netuid) Top i \<or> i = offset t div 128 div 128"
proof -
  note pos = bitmap_position [OF assms(1)]
  have small: "offset t div 128 div 128 < 128" by (rule top_position [OF assms(1)])
  note unfold_insert = f_def tick_insert_def if_not_P [OF assms(1)] Let_def pos in_layer_set_word
  show "in_layer f Bottom i \<longleftrightarrow> in_layer (ws netuid) Bottom i \<or> i = offset t"
    unfolding unfold_insert div_mod_eq [of i "offset t"] by (simp add: bit_set_clear)
  show "in_layer f Middle i \<longleftrightarrow> in_layer (ws netuid) Middle i \<or> i = offset t div 128"
    unfolding unfold_insert div_mod_eq [of i "offset t div 128"] by (simp add: bit_set_clear)
  show "in_layer f Top i \<longleftrightarrow> in_layer (ws netuid) Top i \<or> i = offset t div 128 div 128"
    unfolding unfold_insert div_mod_eq [of i "offset t div 128 div 128"] using small by (simp add: bit_set_clear)
qed

lemma insert_keeps_layers:
  assumes "layers_ok (ws netuid)"
  shows "layers_ok (tick_insert netuid t ws netuid)"
proof (cases "out_of_range t")
  case True
  with assms show ?thesis by (simp add: tick_insert_def)
next
  case False
  note ins = insert_layers [OF False, of netuid ws]
  from assms have range: "\<forall>i. in_layer (ws netuid) Bottom i \<longrightarrow> 443636 \<le> i \<and> i \<le> 1330908"
    unfolding layers_ok_def by blast
  show ?thesis unfolding layers_ok_def word_members ins
    using range offset_range [OF False] layer_above [OF assms] by blast
qed

lemma insert_active:
  assumes "\<not> out_of_range t"
  shows "active netuid (tick_insert netuid t ws) = insert t (active netuid ws)"
proof -
  have "offset s = offset t \<longleftrightarrow> s = t" if "- 443636 \<le> s" for s
    using that assms by (auto simp: offset_def out_of_range_def tick_bounds)
  then show ?thesis using assms by (auto simp: active_def insert_layers tick_bounds out_of_range_def)
qed

section \<open>Removal\<close>

lemma remove_layers:
  fixes ws :: Words
  assumes "\<not> out_of_range t" and ok: "layers_ok (ws netuid)"
  defines "f \<equiv> tick_remove netuid t ws netuid"
  shows "in_layer f Bottom i \<longleftrightarrow> in_layer (ws netuid) Bottom i \<and> i \<noteq> offset t"
    and "in_layer f Middle i \<longleftrightarrow> (\<exists>j. j div 128 = i \<and> in_layer f Bottom j)"
    and "in_layer f Top i \<longleftrightarrow> (\<exists>j. j div 128 = i \<and> in_layer f Middle j)"
proof -
  let ?o = "offset t" let ?j = "offset t div 128" let ?k = "offset t div 128 div 128"
  note pos = bitmap_position [OF assms(1)]
  have small: "?k < 128" "?k div 128 = 0" "?k mod 128 = ?k" using top_position [OF assms(1)] by simp_all
  let ?w2 = "ws netuid Bottom ?j AND NOT (one_bit (?o mod 128))"
  let ?w1 = "if ?w2 = 0 then ws netuid Middle ?k AND NOT (one_bit (?j mod 128)) else ws netuid Middle ?k"
  have f: "f = (ws netuid)(Bottom := (ws netuid Bottom)(?j := ?w2), Middle := (ws netuid Middle)(?k := ?w1),
      Top := (if ?w1 = 0 then (ws netuid Top)(0 := ws netuid Top 0 AND NOT (one_bit ?k)) else ws netuid Top))"
    unfolding f_def tick_remove_def if_not_P [OF assms(1)] Let_def pos
    by (auto simp: set_word_def fun_eq_iff split: LayerLevel.split)
  show bottom: "in_layer f Bottom i \<longleftrightarrow> in_layer (ws netuid) Bottom i \<and> i \<noteq> ?o" for i
    unfolding f div_mod_eq [of i ?o] by (simp add: bit_set_clear)
  have fw: "f Bottom ?j = ?w2" "f Middle ?k = ?w1" by (simp_all add: f)
  have mid: "in_layer f Middle i \<longleftrightarrow> in_layer (ws netuid) Middle i \<and> (i = ?j \<longrightarrow> f Bottom ?j \<noteq> 0)" for i
    unfolding fw unfolding f div_mod_eq [of i ?j] by (simp add: bit_set_clear)
  show middle: "in_layer f Middle i \<longleftrightarrow> (\<exists>j. j div 128 = i \<and> in_layer f Bottom j)" for i
    unfolding mid layer_above(1) [OF ok] word_members [of f Bottom ?j] bottom by blast
  have top: "in_layer f Top i \<longleftrightarrow> in_layer (ws netuid) Top i \<and> (i = ?k \<longrightarrow> f Middle ?k \<noteq> 0)" for i
    unfolding fw unfolding f div_mod_eq [of i ?k] using small by (simp add: bit_set_clear)
  show "in_layer f Top i \<longleftrightarrow> (\<exists>j. j div 128 = i \<and> in_layer f Middle j)"
    unfolding top layer_above(2) [OF ok] word_members [of f Middle ?k] mid by blast
qed

lemma remove_keeps_layers:
  assumes "layers_ok (ws netuid)"
  shows "layers_ok (tick_remove netuid t ws netuid)"
proof (cases "out_of_range t")
  case True
  with assms show ?thesis by (simp add: tick_remove_def)
next
  case False
  note rem = remove_layers [where t = t and netuid = netuid and ws = ws, OF False assms]
  from assms have range: "\<forall>i. in_layer (ws netuid) Bottom i \<longrightarrow> 443636 \<le> i \<and> i \<le> 1330908"
    unfolding layers_ok_def by blast
  show ?thesis unfolding layers_ok_def word_members using range rem by blast
qed

lemma remove_active:
  assumes "\<not> out_of_range t" and "layers_ok (ws netuid)"
  shows "active netuid (tick_remove netuid t ws) = active netuid ws - {t}"
proof -
  have "offset s = offset t \<longleftrightarrow> s = t" if "- 443636 \<le> s" for s
    using that assms(1) by (auto simp: offset_def out_of_range_def tick_bounds)
  then show ?thesis using assms(1) remove_layers(1) [where ws = ws and netuid = netuid, OF assms]
    by (auto simp: active_def tick_bounds out_of_range_def)
qed

section \<open>The bitmap as an ordered set\<close>

lemma closest_tickD:
  assumes "finite A" and "closest_tick lower t A = Some a"
  shows "a \<in> A" and "if lower then a \<le> t else t \<le> a"
    and "c \<in> A \<Longrightarrow> if lower then c \<le> t else t \<le> c \<Longrightarrow> if lower then c \<le> a else a \<le> c"
proof -
  define C where "C = {a \<in> A. if lower then a \<le> t else t \<le> a}"
  have C: "C \<noteq> {}" "finite C" and a: "a = (if lower then Max C else Min C)"
    using assms unfolding closest_tick_def Let_def by (auto simp: C_def split: if_splits)
  then have "a \<in> C" by simp
  then show "a \<in> A" and "if lower then a \<le> t else t \<le> a" by (simp_all add: C_def)
  assume "c \<in> A" "if lower then c \<le> t else t \<le> c"
  then have "c \<in> C" by (simp add: C_def)
  with C(2) show "if lower then c \<le> a else a \<le> c" unfolding a by simp
qed

text \<open>
  What the users of the active ticks rely on: a set of ticks in a range that updates change one tick
  at a time, and that answers for the closest member on either side.
\<close>

datatype TickUpdate = InsertTick TickIndex | RemoveTick TickIndex

primrec apply_update :: "(TickIndex \<Rightarrow> 's \<Rightarrow> 's) \<Rightarrow> (TickIndex \<Rightarrow> 's \<Rightarrow> 's) \<Rightarrow> TickUpdate \<Rightarrow> 's \<Rightarrow> 's" where
  "apply_update ins del (InsertTick t) s = ins t s"
| "apply_update ins del (RemoveTick t) s = del t s"

primrec update_set :: "(TickIndex \<Rightarrow> bool) \<Rightarrow> TickUpdate \<Rightarrow> TickIndex set \<Rightarrow> TickIndex set" where
  "update_set valid (InsertTick t) A = (if valid t then insert t A else A)"
| "update_set valid (RemoveTick t) A = (if valid t then A - {t} else A)"

locale ordered_index =
  fixes blank :: 's
    and ins :: "TickIndex \<Rightarrow> 's \<Rightarrow> 's"
    and del :: "TickIndex \<Rightarrow> 's \<Rightarrow> 's"
    and closest :: "TickIndex \<Rightarrow> bool \<Rightarrow> 's \<Rightarrow> TickIndex option"
    and members :: "'s \<Rightarrow> TickIndex set"
    and consistent :: "'s \<Rightarrow> bool"
    and valid :: "TickIndex \<Rightarrow> bool"
  assumes blank: "consistent blank" "members blank = {}"
    and ins: "consistent s \<Longrightarrow> consistent (ins t s)"
      "consistent s \<Longrightarrow> members (ins t s) = (if valid t then insert t (members s) else members s)"
    and del: "consistent s \<Longrightarrow> consistent (del t s)"
      "consistent s \<Longrightarrow> members (del t s) = (if valid t then members s - {t} else members s)"
    and closest: "consistent s \<Longrightarrow> valid t \<Longrightarrow> closest t lower s = closest_tick lower t (members s)"
    and members: "finite (members s)" "t \<in> members s \<Longrightarrow> valid t"
begin

lemma update_refines:
  "consistent s \<Longrightarrow> consistent (apply_update ins del u s) \<and> members (apply_update ins del u s) = update_set valid u (members s)"
  by (cases u) (simp_all add: ins del)

lemma updates_refine:
  "consistent s \<Longrightarrow>
   consistent (fold (apply_update ins del) us s) \<and> members (fold (apply_update ins del) us s) = fold (update_set valid) us (members s)"
  by (induction us arbitrary: s) (simp_all add: update_refines)

lemma closest_after_updates:
  "valid t \<Longrightarrow> closest t lower (fold (apply_update ins del) us blank) = closest_tick lower t (fold (update_set valid) us {})"
  using updates_refine [OF blank(1), of us] by (simp add: closest blank(2))

lemma closest_SomeD:
  assumes "consistent s" "valid t" "closest t lower s = Some a"
  shows "a \<in> members s" and "if lower then a \<le> t else t \<le> a"
    and "c \<in> members s \<Longrightarrow> if lower then c \<le> t else t \<le> c \<Longrightarrow> if lower then c \<le> a else a \<le> c"
  using closest_tickD [OF members(1) assms(3) [unfolded closest [OF assms(1,2)]]] by blast+

lemma closest_NoneD:
  assumes "consistent s" "valid t" "closest t lower s = None" "c \<in> members s"
  shows "\<not> (if lower then c \<le> t else t \<le> c)"
  using assms(3,4) unfolding closest [OF assms(1,2)] closest_tick_def Let_def by (auto split: if_splits)

lemma closest_self: "consistent s \<Longrightarrow> t \<in> members s \<Longrightarrow> closest t lower s = Some t"
  using members by (simp add: closest closest_tickI)

end

definition no_words :: Words where "no_words = (\<lambda>_ _ _. 0)"

lemma no_words: "layers_ok (no_words netuid)" "active netuid no_words = {}"
  by (simp_all add: no_words_def layers_ok_def active_def)

lemma active_in_range: "t \<in> active netuid ws \<Longrightarrow> \<not> out_of_range t"
  by (simp add: active_def out_of_range_def)

interpretation bitmap: ordered_index no_words "tick_insert netuid" "tick_remove netuid"
  "\<lambda>t lower ws. find_closest netuid t lower ws" "active netuid" "\<lambda>ws. layers_ok (ws netuid)" "\<lambda>t. \<not> out_of_range t"
  for netuid :: NetUid
proof (unfold_locales, goal_cases)
  case (4 s t)
  then show ?case by (cases "out_of_range t") (simp add: tick_insert_def, simp add: insert_active)
next
  case (6 s t)
  then show ?case by (cases "out_of_range t") (simp add: tick_remove_def, simp add: remove_active)
qed (simp_all add: no_words find_closest_correct active_in_range insert_keeps_layers remove_keeps_layers)

text \<open>Updates of one subnet leave the words of the others alone.\<close>

lemma other_subnet:
  "n \<noteq> netuid \<Longrightarrow> tick_insert netuid t ws n = ws n"
  "n \<noteq> netuid \<Longrightarrow> tick_remove netuid t ws n = ws n"
  by (simp_all add: tick_insert_def tick_remove_def Let_def)

section \<open>The check for one tick\<close>

lemma is_active_iff:
  assumes "layers_ok (ws netuid)" and "\<not> out_of_range t"
  shows "tick_is_active netuid t ws \<longleftrightarrow> t \<in> active netuid ws \<or> t = TickIndex_MAX \<and> active netuid ws = {}"
proof (cases "find_closest netuid t True ws")
  case None
  have "\<not> a \<le> t" if "a \<in> active netuid ws" for a
    using bitmap.closest_NoneD [OF assms None that] by simp
  moreover have "a \<le> TickIndex_MAX" if "a \<in> active netuid ws" for a using that by (simp add: active_def)
  ultimately show ?thesis using None by (auto simp: tick_is_active_def find_closest_lower_def)
next
  case (Some a)
  then show ?thesis
    using bitmap.closest_SomeD(1) [OF assms Some] bitmap.closest_self [where netuid = netuid and s = ws and lower = True, OF assms(1)]
    by (auto simp: tick_is_active_def find_closest_lower_def)
qed

end
