(* ===== verification/Swap_Books.thy ===== *)
theory Swap_Books
  imports Swap_Pallet Swap_Tick_Set
begin

text \<open>
  The books of a pool: the liquidity recorded at the ticks of a subnet is that of its positions, and the
  active ticks are the recorded ones.  The liquidity in force at a tick is that of the positions whose
  range contains it; it changes exactly at the recorded ticks, which is what makes crossing a tick work.
\<close>

section \<open>Sums over positions\<close>

definition pool_sum :: "NetUid \<Rightarrow> ('i Position \<Rightarrow> int) \<Rightarrow> (PositionKey \<times> 'i Position) list \<Rightarrow> int" where
  "pool_sum n f ps = sum_list (map (\<lambda>((m, _, _), p). if m = n then f p else 0) ps)"

definition in_pool :: "NetUid \<Rightarrow> (PositionKey \<times> 'i Position) list \<Rightarrow> 'i Position set" where
  "in_pool n ps = {p. \<exists>a i. ((n, a, i), p) \<in> set ps}"

lemma pool_sum_simps [simp]:
  "pool_sum n f [] = 0"
  "pool_sum n f (((m, a, i), p) # ps) = (if m = n then f p else 0) + pool_sum n f ps"
  "pool_sum n f (ps @ qs) = pool_sum n f ps + pool_sum n f qs"
  by (simp_all add: pool_sum_def)

lemma in_pool_simps [simp]:
  "in_pool n [] = {}"
  "in_pool n (((m, a, i), p) # ps) = (if m = n then insert p (in_pool n ps) else in_pool n ps)"
  by (auto simp: in_pool_def)

lemma pool_sum_cong: "(\<And>p. p \<in> in_pool n ps \<Longrightarrow> f p = g p) \<Longrightarrow> pool_sum n f ps = pool_sum n g ps"
  by (induction ps) (auto split: if_splits)

lemma pool_sum_add: "pool_sum n (\<lambda>p. f p + g p) ps = pool_sum n f ps + pool_sum n g ps"
  by (induction ps) auto

lemma pool_sum_mono: "(\<And>p. p \<in> in_pool n ps \<Longrightarrow> f p \<le> g p) \<Longrightarrow> pool_sum n f ps \<le> pool_sum n g ps"
  by (induction ps) (auto simp: add_mono split: if_splits)

lemma pool_sum_abs: "\<bar>pool_sum n f ps\<bar> \<le> pool_sum n (\<lambda>p. \<bar>f p\<bar>) ps"
  by (induction ps) auto

lemma pool_sum_nonneg: "(\<And>p. 0 \<le> f p) \<Longrightarrow> 0 \<le> pool_sum n f ps"
  by (induction ps) auto

lemma pool_sum_member:
  assumes "\<And>p. 0 \<le> f p"
  shows "p \<in> in_pool n ps \<Longrightarrow> f p \<le> pool_sum n f ps"
proof (induction ps)
  case (Cons e ps)
  obtain m a i q where e: "e = ((m, a, i), q)" by (metis prod.exhaust)
  have "0 \<le> f q" "0 \<le> pool_sum n f ps" by (rule assms, rule pool_sum_nonneg [OF assms])
  with Cons e show ?case by (cases "p = q") (auto split: if_splits)
qed simp

lemma pool_sum_insert:
  "pool_sum n f (take j ps @ ((m, a, i), p) # drop j ps) = pool_sum n f ps + (if m = n then f p else 0)"
proof -
  have "pool_sum n f ps = pool_sum n f (take j ps) + pool_sum n f (drop j ps)"
    by (metis append_take_drop_id pool_sum_simps(3))
  then show ?thesis by simp
qed

lemma pool_sum_remove:
  assumes "distinct (map fst ps)" and "map_of ps (m, a, i) = Some p"
  shows "pool_sum n f (filter (\<lambda>(k, _). k \<noteq> (m, a, i)) ps) = pool_sum n f ps - (if m = n then f p else 0)"
  using assms
proof (induction ps)
  case (Cons e ps)
  obtain m' a' i' q where e: "e = ((m', a', i'), q)" by (metis prod.exhaust)
  show ?case
  proof (cases "(m', a', i') = (m, a, i)")
    case True
    with Cons.prems e have "(m, a, i) \<notin> fst ` set ps" by auto
    then have "filter (\<lambda>(k, _). k \<noteq> (m, a, i)) ps = ps" by (auto simp: filter_id_conv image_iff)
    with True Cons.prems e show ?thesis by auto
  next
    case False
    with Cons e show ?thesis by auto
  qed
qed simp

section \<open>Liquidity of positions\<close>

definition net_of :: "TickIndex \<Rightarrow> 'i Position \<Rightarrow> int" where
  "net_of t p = (if tick_low p = t then int (pos_liquidity p) else 0) - (if tick_high p = t then int (pos_liquidity p) else 0)"

definition gross_of :: "TickIndex \<Rightarrow> 'i Position \<Rightarrow> int" where
  "gross_of t p = (if tick_low p = t then int (pos_liquidity p) else 0) + (if tick_high p = t then int (pos_liquidity p) else 0)"

definition force_of :: "TickIndex \<Rightarrow> 'i Position \<Rightarrow> int" where
  "force_of t p = (if tick_low p \<le> t \<and> t < tick_high p then int (pos_liquidity p) else 0)"

definition in_force :: "NetUid \<Rightarrow> TickIndex \<Rightarrow> ('p, 'i, 'w) SwapStorage \<Rightarrow> int" where
  "in_force n t s = pool_sum n (force_of t) (Positions s)"

definition total_liquidity :: "NetUid \<Rightarrow> ('p, 'i, 'w) SwapStorage \<Rightarrow> int" where
  "total_liquidity n s = pool_sum n (\<lambda>p. int (pos_liquidity p)) (Positions s)"

definition ranges_ok :: "NetUid \<Rightarrow> ('p, 'i, 'w) SwapStorage \<Rightarrow> bool" where
  "ranges_ok n s \<longleftrightarrow>
     (\<forall>p \<in> in_pool n (Positions s). tick_low p < tick_high p \<and> \<not> out_of_range (tick_low p) \<and> \<not> out_of_range (tick_high p))"

lemma in_force_step:
  assumes "ranges_ok n s"
  shows "in_force n t s = in_force n (t - 1) s + pool_sum n (net_of t) (Positions s)"
proof -
  have "force_of t p = force_of (t - 1) p + net_of t p" if "p \<in> in_pool n (Positions s)" for p
    using assms that unfolding ranges_ok_def force_of_def net_of_def by fastforce
  then have "in_force n t s = pool_sum n (\<lambda>p. force_of (t - 1) p + net_of t p) (Positions s)"
    unfolding in_force_def by (rule pool_sum_cong)
  then show ?thesis by (simp add: pool_sum_add in_force_def)
qed

lemma net_le_gross: "\<bar>pool_sum n (net_of t) ps\<bar> \<le> pool_sum n (gross_of t) ps"
  by (rule order_trans [OF pool_sum_abs]) (rule pool_sum_mono, simp add: net_of_def gross_of_def)

lemma in_force_between:
  assumes "ranges_ok n s" and "a \<le> b"
    and "\<And>t. a < t \<Longrightarrow> t \<le> b \<Longrightarrow> pool_sum n (gross_of t) (Positions s) = 0"
  shows "in_force n b s = in_force n a s"
  using assms(2,3)
proof (induction b rule: int_ge_induct)
  case (step b)
  have "pool_sum n (net_of (b + 1)) (Positions s) = 0"
    using net_le_gross [of n "b + 1" "Positions s"] step.prems [of "b + 1"] step.hyps by simp
  moreover have "in_force n b s = in_force n a s" using step by simp
  ultimately show ?case using in_force_step [OF assms(1), of "b + 1"] by simp
qed simp

lemma gross_bound:
  assumes "ranges_ok n s"
  shows "pool_sum n (gross_of t) (Positions s) \<le> total_liquidity n s"
  unfolding total_liquidity_def
  by (rule pool_sum_mono) (use assms in \<open>auto simp: ranges_ok_def gross_of_def\<close>)

lemma in_force_bounds: "0 \<le> in_force n t s" "in_force n t s \<le> total_liquidity n s"
  unfolding in_force_def total_liquidity_def
  by (auto intro!: pool_sum_nonneg pool_sum_mono simp: force_of_def)

section \<open>The books\<close>

definition tick_gross :: "NetUid \<Rightarrow> TickIndex \<Rightarrow> ('p, 'i, 'w) SwapStorage \<Rightarrow> int" where
  "tick_gross n t s = (case Ticks s n t of None \<Rightarrow> 0 | Some tick \<Rightarrow> int (liquidity_gross tick))"

definition tick_net :: "NetUid \<Rightarrow> TickIndex \<Rightarrow> ('p, 'i, 'w) SwapStorage \<Rightarrow> int" where
  "tick_net n t s = (case Ticks s n t of None \<Rightarrow> 0 | Some tick \<Rightarrow> liquidity_net tick)"

definition recorded :: "NetUid \<Rightarrow> ('p, 'i, 'w) SwapStorage \<Rightarrow> bool" where
  "recorded n s \<longleftrightarrow>
     layers_ok (TickIndexBitmapWords s n) \<and> active n (TickIndexBitmapWords s) = dom (Ticks s n)"

definition books :: "NetUid \<Rightarrow> ('p, 'i, 'w) SwapStorage \<Rightarrow> bool" where
  "books n s \<longleftrightarrow>
     recorded n s \<and> ranges_ok n s \<and> total_liquidity n s < 2 ^ 64 \<and>
     (\<forall>t. tick_gross n t s = pool_sum n (gross_of t) (Positions s)) \<and>
     (\<forall>t. tick_net n t s = pool_sum n (net_of t) (Positions s)) \<and>
     distinct (map fst (Positions s)) \<and> (\<forall>((m, a, i), p) \<in> set (Positions s). i \<le> LastPositionId s)"

definition force_ok :: "NetUid \<Rightarrow> ('p, 'i, 'w) SwapStorage \<Rightarrow> bool" where
  "force_ok n s \<longleftrightarrow> int (CurrentLiquidity s n) = in_force n (current_bounded n s) s"

section \<open>Updates of one tick\<close>

lemma set_tick_sel [simp]:
  "Ticks (set_tick n t v s) = (Ticks s)(n := (Ticks s n)(t := v))"
  "TickIndexBitmapWords (set_tick n t v s) = TickIndexBitmapWords s"
  "Positions (set_tick n t v s) = Positions s" "LastPositionId (set_tick n t v s) = LastPositionId s"
  "CurrentLiquidity (set_tick n t v s) = CurrentLiquidity s" "CurrentTick (set_tick n t v s) = CurrentTick s"
  by (simp_all add: set_tick_def)

lemma add_at_sel [simp]:
  "Positions (add_liquidity_at_index F n t L u s) = Positions s"
  "LastPositionId (add_liquidity_at_index F n t L u s) = LastPositionId s"
  "CurrentLiquidity (add_liquidity_at_index F n t L u s) = CurrentLiquidity s"
  "CurrentTick (add_liquidity_at_index F n t L u s) = CurrentTick s"
  "TickIndexBitmapWords (add_liquidity_at_index F n t L u s) = tick_insert n t (TickIndexBitmapWords s)"
  by (simp_all add: add_liquidity_at_index_def Let_def)

lemma remove_at_sel [simp]:
  "Positions (remove_liquidity_at_index n t L u s) = Positions s"
  "LastPositionId (remove_liquidity_at_index n t L u s) = LastPositionId s"
  "CurrentLiquidity (remove_liquidity_at_index n t L u s) = CurrentLiquidity s"
  "CurrentTick (remove_liquidity_at_index n t L u s) = CurrentTick s"
  by (simp_all add: remove_liquidity_at_index_def Let_def split: option.split)

lemma add_at_other:
  "(m, x) \<noteq> (n, t) \<Longrightarrow> Ticks (add_liquidity_at_index F n t L u s) m x = Ticks s m x"
  by (auto simp: add_liquidity_at_index_def Let_def)

lemma remove_at_other:
  "(m, x) \<noteq> (n, t) \<Longrightarrow> Ticks (remove_liquidity_at_index n t L u s) m x = Ticks s m x"
  by (auto simp: remove_liquidity_at_index_def Let_def split: option.split)

text \<open>The change of the net liquidity that a position makes at one of its ends.\<close>

definition signed_change :: "bool \<Rightarrow> nat \<Rightarrow> int" where
  "signed_change upper L = (if upper then - int L else int L)"

lemma add_at_tick:
  assumes "tick_gross n t s + int L < 2 ^ 64" and "\<bar>tick_net n t s\<bar> \<le> tick_gross n t s"
  shows "tick_gross m x (add_liquidity_at_index F n t L u s) = tick_gross m x s + (if (m, x) = (n, t) then int L else 0)"
    and "tick_net m x (add_liquidity_at_index F n t L u s) = tick_net m x s + (if (m, x) = (n, t) then signed_change u L else 0)"
proof -
  have *: "i128_clamp v = v" if "\<bar>v\<bar> < 2 ^ 64" for v using that by (simp add: i128_clamp_def)
  show "tick_gross m x (add_liquidity_at_index F n t L u s) = tick_gross m x s + (if (m, x) = (n, t) then int L else 0)"
    using assms(1) by (cases "(m, x) = (n, t)")
      (auto simp: tick_gross_def add_at_other add_liquidity_at_index_def Let_def split: option.splits)
  show "tick_net m x (add_liquidity_at_index F n t L u s) = tick_net m x s + (if (m, x) = (n, t) then signed_change u L else 0)"
  proof (cases "(m, x) = (n, t)")
    case True
    have "\<bar>tick_net n t s + signed_change u L\<bar> < 2 ^ 64" using assms by (auto simp: signed_change_def)
    with True show ?thesis
      by (auto simp: tick_net_def signed_change_def add_liquidity_at_index_def Let_def * split: option.splits)
  qed (auto simp: tick_net_def add_at_other)
qed

lemma remove_at_tick:
  assumes "int L \<le> tick_gross n t s" and "\<bar>tick_net n t s\<bar> \<le> tick_gross n t s" and "tick_gross n t s < 2 ^ 64"
    and "\<bar>tick_net n t s - signed_change u L\<bar> \<le> tick_gross n t s - int L"
  shows "tick_gross m x (remove_liquidity_at_index n t L u s) = tick_gross m x s - (if (m, x) = (n, t) then int L else 0)"
    and "tick_net m x (remove_liquidity_at_index n t L u s) = tick_net m x s - (if (m, x) = (n, t) then signed_change u L else 0)"
proof -
  have *: "i128_clamp v = v" if "\<bar>v\<bar> < 2 ^ 64" for v using that by (simp add: i128_clamp_def)
  have c: "i128_clamp (tick_net n t s - signed_change u L) = tick_net n t s - signed_change u L"
    by (rule *) (use assms in linarith)
  show "tick_gross m x (remove_liquidity_at_index n t L u s) = tick_gross m x s - (if (m, x) = (n, t) then int L else 0)"
    using assms(1) by (cases "(m, x) = (n, t)")
      (auto simp: tick_gross_def remove_at_other remove_liquidity_at_index_def Let_def saturating_sub_def split: option.splits)
  show "tick_net m x (remove_liquidity_at_index n t L u s) = tick_net m x s - (if (m, x) = (n, t) then signed_change u L else 0)"
    using assms c by (cases "(m, x) = (n, t)")
      (auto simp: tick_net_def tick_gross_def signed_change_def remove_at_other remove_liquidity_at_index_def Let_def
        saturating_sub_def split: option.splits if_splits)
qed

lemma add_at_recorded:
  assumes "recorded m s" and "\<not> out_of_range t"
  shows "recorded m (add_liquidity_at_index F n t L u s)"
proof (cases "m = n")
  case True
  have "dom (Ticks (add_liquidity_at_index F n t L u s) n) = insert t (dom (Ticks s n))"
    by (auto simp: add_liquidity_at_index_def Let_def dom_def)
  with True assms show ?thesis by (simp add: recorded_def insert_active insert_keeps_layers)
next
  case False
  have "Ticks (add_liquidity_at_index F n t L u s) m = Ticks s m" using False by (auto simp: add_at_other)
  with False assms show ?thesis by (simp add: recorded_def other_subnet active_def)
qed

lemma remove_at_recorded:
  assumes "recorded m s" and "\<not> out_of_range t"
  shows "recorded m (remove_liquidity_at_index n t L u s)"
proof (cases "m = n")
  case True
  then show ?thesis using assms
    by (auto simp: recorded_def remove_liquidity_at_index_def Let_def remove_active remove_keeps_layers dom_def
        split: option.split)
next
  case False
  have "Ticks (remove_liquidity_at_index n t L u s) m = Ticks s m" using False by (auto simp: remove_at_other)
  moreover have "TickIndexBitmapWords (remove_liquidity_at_index n t L u s) m = TickIndexBitmapWords s m"
    using False by (auto simp: remove_liquidity_at_index_def Let_def other_subnet split: option.split)
  ultimately show ?thesis using assms by (simp add: recorded_def active_def)
qed

section \<open>A position comes\<close>

lemma books_net: "books n s \<Longrightarrow> \<bar>tick_net n t s\<bar> \<le> tick_gross n t s"
  by (simp add: books_def net_le_gross)

lemma books_gross: "books n s \<Longrightarrow> tick_gross n t s \<le> total_liquidity n s"
  by (simp add: books_def gross_bound)

lemma add_both:
  fixes s :: "('p, 'i, 'w) SwapStorage" and F :: "('p, 'i) FixedOps"
  assumes "books n s" and "total_liquidity n s + int L < 2 ^ 64" and "low \<noteq> high"
  defines "s2 \<equiv> add_liquidity_at_index F n high L True (add_liquidity_at_index F n low L False s)"
  shows "tick_gross m x s2 = tick_gross m x s +
      (if m = n then (if low = x then int L else 0) + (if high = x then int L else 0) else 0)"
    and "tick_net m x s2 = tick_net m x s +
      (if m = n then (if low = x then int L else 0) - (if high = x then int L else 0) else 0)"
proof -
  let ?s1 = "add_liquidity_at_index F n low L False s"
  have b: "tick_gross n x s + int L < 2 ^ 64" for x using books_gross [OF assms(1), of x] assms(2) by linarith
  note one = add_at_tick [where u = False and F = F, OF b [of low] books_net [OF assms(1)]]
  have h: "tick_gross n high ?s1 = tick_gross n high s" "tick_net n high ?s1 = tick_net n high s"
    using assms(3) by (simp_all add: one)
  have "tick_gross n high ?s1 + int L < 2 ^ 64" and "\<bar>tick_net n high ?s1\<bar> \<le> tick_gross n high ?s1"
    unfolding h by (rule b, rule books_net [OF assms(1)])
  note two = add_at_tick [where u = True and F = F, OF this]
  show "tick_gross m x s2 = tick_gross m x s +
      (if m = n then (if low = x then int L else 0) + (if high = x then int L else 0) else 0)"
    unfolding s2_def two one by auto
  show "tick_net m x s2 = tick_net m x s +
      (if m = n then (if low = x then int L else 0) - (if high = x then int L else 0) else 0)"
    unfolding s2_def two one by (auto simp: signed_change_def)
qed

text \<open>The parts of the storage that the books read.\<close>

definition same_book :: "('p, 'i, 'w) SwapStorage \<Rightarrow> ('p, 'i, 'w) SwapStorage \<Rightarrow> bool" where
  "same_book s s' \<longleftrightarrow> Ticks s' = Ticks s \<and> TickIndexBitmapWords s' = TickIndexBitmapWords s"

lemma same_book_eqs:
  assumes "same_book s s'"
  shows "tick_gross n t s' = tick_gross n t s" "tick_net n t s' = tick_net n t s" "recorded n s' = recorded n s"
  using assms by (simp_all add: same_book_def tick_gross_def tick_net_def recorded_def)

lemma in_pool_insert:
  "in_pool m (take j ps @ ((n, a, i), p) # drop j ps) = (if m = n then insert p (in_pool m ps) else in_pool m ps)"
proof -
  have "set (take j ps @ ((n, a, i), p) # drop j ps) = insert ((n, a, i), p) (set ps)"
    using set_append [of "take j ps" "drop j ps"] by auto
  then show ?thesis by (auto simp: in_pool_def)
qed

lemma books_insert:
  assumes all: "books m s" "books n s" and room: "total_liquidity n s + int L < 2 ^ 64"
    and range: "low < high" "\<not> out_of_range low" "\<not> out_of_range high"
    and p: "tick_low p = low" "tick_high p = high" "pos_liquidity p = L"
    and s': "same_book (add_liquidity_at_index F n high L True (add_liquidity_at_index F n low L False s)) s'"
      "Positions s' = take j (Positions s) @ ((n, a, i), p) # drop j (Positions s)"
      "LastPositionId s' = i" "LastPositionId s < i"
  shows "books m s'"
proof -
  have "low \<noteq> high" using range(1) by simp
  note both = add_both [OF all(2) room this, where F = F]
  note eqs = same_book_eqs [OF s'(1)]
  let ?new = "((n, a, i), p)"
  have sums: "pool_sum m f (Positions s') = pool_sum m f (Positions s) + (if n = m then f p else 0)" for f
    unfolding s'(2) by (rule pool_sum_insert)
  have "recorded m s'" unfolding eqs by (intro add_at_recorded range) (use all(1) in \<open>simp add: books_def\<close>)
  moreover have "ranges_ok m s'" using all(1) range
    by (auto simp: books_def ranges_ok_def s'(2) in_pool_insert p)
  moreover have "total_liquidity m s' < 2 ^ 64"
    using all(1) room by (auto simp: total_liquidity_def sums p books_def)
  moreover have "tick_gross m t s' = pool_sum m (gross_of t) (Positions s')" for t
    using all(1) unfolding eqs both sums by (simp add: books_def gross_of_def p)
  moreover have "tick_net m t s' = pool_sum m (net_of t) (Positions s')" for t
    using all(1) unfolding eqs both sums by (simp add: books_def net_of_def p)
  moreover have old: "distinct (map fst (Positions s))" "\<forall>((m, a, i), p) \<in> set (Positions s). i \<le> LastPositionId s"
    using all(1) by (simp_all add: books_def)
  moreover have "set (Positions s') = insert ?new (set (Positions s))"
    unfolding s'(2) using set_append [of "take j (Positions s)" "drop j (Positions s)"] by auto
  moreover have "distinct (map fst (Positions s'))"
  proof -
    have "fst ?new \<notin> fst ` set (Positions s)" using old(2) s'(4) by fastforce
    then have "distinct (fst ?new # map fst (take j (Positions s)) @ map fst (drop j (Positions s)))"
      using old(1) by (simp flip: map_append)
    then show ?thesis unfolding s'(2) by auto
  qed
  ultimately show ?thesis unfolding books_def using s'(3,4) by fastforce
qed

section \<open>A position goes\<close>

lemma member_range:
  assumes "books n s" and "map_of (Positions s) (n, a, i) = Some p"
  shows "tick_low p < tick_high p" "\<not> out_of_range (tick_low p)" "\<not> out_of_range (tick_high p)"
proof -
  have "p \<in> in_pool n (Positions s)" using map_of_SomeD [OF assms(2)] by (auto simp: in_pool_def)
  with assms(1) show "tick_low p < tick_high p" "\<not> out_of_range (tick_low p)" "\<not> out_of_range (tick_high p)"
    by (auto simp: books_def ranges_ok_def)
qed

lemma remove_both:
  fixes s :: "('p, 'i, 'w) SwapStorage"
  assumes bk: "books n s" and p: "map_of (Positions s) (n, a, i) = Some p"
  defines "s2 \<equiv> remove_liquidity_at_index n (tick_high p) (pos_liquidity p) True
    (remove_liquidity_at_index n (tick_low p) (pos_liquidity p) False s)"
  shows "tick_gross m x s2 = tick_gross m x s - (if m = n then gross_of x p else 0)"
    and "tick_net m x s2 = tick_net m x s - (if m = n then net_of x p else 0)"
proof -
  let ?L = "pos_liquidity p" and ?low = "tick_low p" and ?high = "tick_high p"
  let ?s1 = "remove_liquidity_at_index n ?low ?L False s"
  let ?rest = "filter (\<lambda>(k, _). k \<noteq> (n, a, i)) (Positions s)"
  have ne: "?low \<noteq> ?high" using member_range(1) [OF assms(1,2)] by simp
  have d: "distinct (map fst (Positions s))" using bk by (simp add: books_def)
  have g: "tick_gross n x s = pool_sum n (gross_of x) ?rest + gross_of x p" for x
    using bk pool_sum_remove [OF d p, of n "gross_of x"] by (simp add: books_def)
  have t: "tick_net n x s = pool_sum n (net_of x) ?rest + net_of x p" for x
    using bk pool_sum_remove [OF d p, of n "net_of x"] by (simp add: books_def)
  have rest: "\<bar>pool_sum n (net_of x) ?rest\<bar> \<le> pool_sum n (gross_of x) ?rest" for x by (rule net_le_gross)
  have small: "tick_gross n x s < 2 ^ 64" for x using books_gross [OF bk, of x] bk by (simp add: books_def)
  have L1: "int ?L \<le> tick_gross n ?low s" "\<bar>tick_net n ?low s - signed_change False ?L\<bar> \<le> tick_gross n ?low s - int ?L"
    using rest [of ?low] ne unfolding g t by (auto simp: gross_of_def net_of_def signed_change_def)
  note one = remove_at_tick [OF L1(1) books_net [OF bk] small L1(2)]
  have h: "tick_gross n ?high ?s1 = tick_gross n ?high s" "tick_net n ?high ?s1 = tick_net n ?high s"
    using ne by (simp_all add: one)
  have L2: "int ?L \<le> tick_gross n ?high ?s1" "\<bar>tick_net n ?high ?s1 - signed_change True ?L\<bar> \<le> tick_gross n ?high ?s1 - int ?L"
    "\<bar>tick_net n ?high ?s1\<bar> \<le> tick_gross n ?high ?s1" "tick_gross n ?high ?s1 < 2 ^ 64"
    using rest [of ?high] ne small [of ?high] books_net [OF bk, of ?high] unfolding h g t
    by (auto simp: gross_of_def net_of_def signed_change_def)
  note two = remove_at_tick [OF L2(1,3,4,2)]
  show "tick_gross m x s2 = tick_gross m x s - (if m = n then gross_of x p else 0)"
    unfolding s2_def two one by (auto simp: gross_of_def)
  show "tick_net m x s2 = tick_net m x s - (if m = n then net_of x p else 0)"
    unfolding s2_def two one by (auto simp: net_of_def signed_change_def)
qed

lemma books_remove:
  assumes all: "books m s" "books n s" and p: "map_of (Positions s) (n, a, i) = Some p"
    and s': "same_book (remove_liquidity_at_index n (tick_high p) (pos_liquidity p) True
      (remove_liquidity_at_index n (tick_low p) (pos_liquidity p) False s)) s'"
      "Positions s' = filter (\<lambda>(k, _). k \<noteq> (n, a, i)) (Positions s)" "LastPositionId s' = LastPositionId s"
  shows "books m s'"
proof -
  note both = remove_both [OF all(2) p]
  note eqs = same_book_eqs [OF s'(1)]
  have d: "distinct (map fst (Positions s))" using all(1) by (simp add: books_def)
  have sums: "pool_sum m f (Positions s') = pool_sum m f (Positions s) - (if n = m then f p else 0)" for f
    unfolding s'(2) by (rule pool_sum_remove [OF d p])
  have "recorded m s'" unfolding eqs
    by (intro remove_at_recorded member_range [OF all(2) p]) (use all(1) in \<open>simp add: books_def\<close>)
  moreover have "ranges_ok m s'" using all(1) by (auto simp: books_def ranges_ok_def s'(2) in_pool_def)
  moreover have "total_liquidity m s' < 2 ^ 64"
    using all(1) by (auto simp: total_liquidity_def sums books_def)
  moreover have "tick_gross m t s' = pool_sum m (gross_of t) (Positions s')" for t
    using all(1) unfolding eqs both sums by (simp add: books_def)
  moreover have "tick_net m t s' = pool_sum m (net_of t) (Positions s')" for t
    using all(1) unfolding eqs both sums by (simp add: books_def)
  moreover have "distinct (map fst (Positions s'))" using d unfolding s'(2) by (rule distinct_map_filter)
  moreover have "\<forall>((m, a, i), p) \<in> set (Positions s'). i \<le> LastPositionId s'"
    using all(1) unfolding s'(2,3) books_def by auto
  ultimately show ?thesis unfolding books_def by blast
qed

end
