(* ===== verification/Swap_Pools.thy ===== *)
theory Swap_Pools
  imports Swap_Books
begin

text \<open>
  What the operations on liquidity do to the books and to the current liquidity: opening and closing
  positions keep them, crossing a tick moves the current liquidity to that of the neighbouring range.
\<close>

section \<open>Opening a position\<close>

lemma update_if_needed_sel [simp]:
  "Ticks (update_liquidity_if_needed n low high v s) = Ticks s"
  "TickIndexBitmapWords (update_liquidity_if_needed n low high v s) = TickIndexBitmapWords s"
  "Positions (update_liquidity_if_needed n low high v s) = Positions s"
  "LastPositionId (update_liquidity_if_needed n low high v s) = LastPositionId s"
  "CurrentTick (update_liquidity_if_needed n low high v s) = CurrentTick s"
  "CurrentLiquidity (update_liquidity_if_needed n low high v s) =
     (if low \<le> current_bounded n s \<and> current_bounded n s < high
      then (CurrentLiquidity s)(n := shift_liquidity (CurrentLiquidity s n) v) else CurrentLiquidity s)"
  by (simp_all add: update_liquidity_if_needed_def Let_def)

lemma clamp_sel [simp]:
  "Ticks (clamp_sqrt_price cfg n t s) = Ticks s"
  "TickIndexBitmapWords (clamp_sqrt_price cfg n t s) = TickIndexBitmapWords s"
  "Positions (clamp_sqrt_price cfg n t s) = Positions s"
  "LastPositionId (clamp_sqrt_price cfg n t s) = LastPositionId s"
  "CurrentTick (clamp_sqrt_price cfg n t s) = CurrentTick s"
  "CurrentLiquidity (clamp_sqrt_price cfg n t s) = CurrentLiquidity s"
  by (simp_all add: clamp_sqrt_price_def)

lemma current_bounded_cong: "CurrentTick s' = CurrentTick s \<Longrightarrow> current_bounded n s' = current_bounded n s"
  by (simp add: current_bounded_def)

lemma current_bounded_sel [simp]:
  "current_bounded m (add_liquidity_at_index F n t L u s) = current_bounded m s"
  "current_bounded m (remove_liquidity_at_index n t L u s) = current_bounded m s"
  "current_bounded m (clamp_sqrt_price cfg n t s) = current_bounded m s"
  "current_bounded m (update_liquidity_if_needed n low high v s) = current_bounded m s"
  by (rule current_bounded_cong, simp)+

lemma Position_new_sel [simp]:
  "pos_id (Position_new F i n low high L s) = i" "tick_low (Position_new F i n low high L s) = low"
  "tick_high (Position_new F i n low high L s) = high" "pos_liquidity (Position_new F i n low high L s) = L"
  by (simp_all add: Position_new_def Let_def)

lemma PositionId_new_ok [ok_simps]:
  "PositionId_new s = (Inr i, s') \<longleftrightarrow>
     i = saturating_add 128 (LastPositionId s) 1 \<and> s' = s\<lparr>LastPositionId := saturating_add 128 (LastPositionId s) 1\<rparr>"
  unfolding PositionId_new_def Let_def by (simp add: eq_commute [of i] eq_commute [of s'])

lemma not_insert_ok:
  assumes "add_liquidity_not_insert cfg n a low high L s = (Inr (p, tao, alpha), s')"
  shows "low < high" "tick_low p = low" "tick_high p = high" "pos_liquidity p = L"
    "pos_id p = saturating_add 128 (LastPositionId s) 1" "LastPositionId s' = pos_id p"
    "Positions s' = Positions s" "CurrentTick s' = CurrentTick s"
    "same_book (add_liquidity_at_index (fixed_ops cfg) n high L True
       (add_liquidity_at_index (fixed_ops cfg) n low L False s)) s'"
    "CurrentLiquidity s' = (if low \<le> current_bounded n s \<and> current_bounded n s < high
      then (CurrentLiquidity s)(n := shift_liquidity (CurrentLiquidity s n) (int L)) else CurrentLiquidity s)"
  using assms
  by (auto simp: add_liquidity_not_insert_def ok_simps same_book_def split_def)

lemma shift_exact:
  "int c + int L < 2 ^ 64 \<Longrightarrow> int (shift_liquidity c (int L)) = int c + int L"
  "L \<le> c \<Longrightarrow> c < 2 ^ 64 \<Longrightarrow> int (shift_liquidity c (- int L)) = int c - int L"
  by (auto simp: shift_liquidity_def Let_def saturating_sub_def uint_max_def)

definition pools :: "('p, 'i, 'w) SwapStorage \<Rightarrow> bool" where
  "pools s \<longleftrightarrow> (\<forall>n. books n s) \<and> (\<forall>n. force_ok n s)"

lemma insert_sel [simp]:
  "Ticks (Positions_insert cfg k p s) = Ticks s"
  "TickIndexBitmapWords (Positions_insert cfg k p s) = TickIndexBitmapWords s"
  "LastPositionId (Positions_insert cfg k p s) = LastPositionId s"
  "CurrentTick (Positions_insert cfg k p s) = CurrentTick s"
  "CurrentLiquidity (Positions_insert cfg k p s) = CurrentLiquidity s"
  by (simp_all add: Positions_insert_def Let_def)

lemma open_keeps_pools:
  assumes ok: "pools s" and run: "add_liquidity_not_insert cfg n a low high L s = (Inr (p, tao, alpha), s')"
    and range: "\<not> out_of_range low" "\<not> out_of_range high"
    and room: "total_liquidity n s + int L < 2 ^ 64" and ids: "LastPositionId s < 2 ^ 128 - 1"
  shows "pools (Positions_insert cfg (n, a, pos_id p) p s')"
proof -
  let ?s = "Positions_insert cfg (n, a, pos_id p) p s'"
  note r = not_insert_ok [OF run]
  have i: "pos_id p = LastPositionId s + 1" using r(5) ids by simp
  have all: "books m s" "force_ok m s" for m using ok by (simp_all add: pools_def)
  have "map_of (Positions s) (n, a, pos_id p) = None"
    using all(1) i by (fastforce simp: books_def map_of_eq_None_iff)
  then obtain j where pos: "Positions ?s = take j (Positions s) @ ((n, a, pos_id p), p) # drop j (Positions s)"
    using r(7) by (simp add: Positions_insert_def Let_def)
  have "books m ?s" for m
    by (rule books_insert [OF all(1) all(1) room r(1) range r(2,3,4) _ pos])
      (use r i in \<open>simp_all add: same_book_def\<close>)
  moreover have "force_ok m ?s" for m
  proof -
    have f: "in_force m t ?s = in_force m t s + (if n = m then force_of t p else 0)" for t
      unfolding in_force_def pos by (rule pool_sum_insert)
    have c: "current_bounded m ?s = current_bounded m s" by (rule current_bounded_cong) (simp add: r(8))
    have "int (CurrentLiquidity s n) + int L < 2 ^ 64"
      using all(2) [of n] room in_force_bounds(2) [of n "current_bounded n s" s] by (simp add: force_ok_def)
    then show ?thesis using all(2) [of m] r(2,3,4)
      by (auto simp: force_ok_def f c r(10) force_of_def shift_exact)
  qed
  ultimately show ?thesis by (simp add: pools_def)
qed

lemma add_keeps_pools:
  assumes "pools s" and "\<not> out_of_range low" "\<not> out_of_range high"
    and "total_liquidity n s + int L < 2 ^ 64" and "LastPositionId s < 2 ^ 128 - 1"
  shows "pools (snd (transactional (do_add_liquidity cfg n a h low high L) s))"
proof (cases "do_add_liquidity cfg n a h low high L s")
  case (Pair r s')
  show ?thesis
  proof (cases r)
    case (Inr v)
    with Pair obtain p tao alpha s1 where "add_liquidity_not_insert cfg n a low high L s = (Inr (p, tao, alpha), s1)"
      and "s' = Positions_insert cfg (n, a, pos_id p) p s1"
      by (auto simp: do_add_liquidity_def ok_simps split_def)
    with open_keeps_pools [OF assms(1) _ assms(2-)] Pair Inr show ?thesis by (simp add: transactional_def)
  qed (use Pair assms(1) in \<open>simp add: transactional_def\<close>)
qed

section \<open>Closing a position\<close>

lemma collect_fees_sel [simp]:
  "tick_low (snd (collect_fees F p s)) = tick_low p" "tick_high (snd (collect_fees F p s)) = tick_high p"
  "pos_liquidity (snd (collect_fees F p s)) = pos_liquidity p" "pos_id (snd (collect_fees F p s)) = pos_id p"
  by (simp_all add: collect_fees_def Let_def)

lemma remove_sel [simp]:
  "Ticks (Positions_remove k s) = Ticks s"
  "TickIndexBitmapWords (Positions_remove k s) = TickIndexBitmapWords s"
  "LastPositionId (Positions_remove k s) = LastPositionId s"
  "CurrentTick (Positions_remove k s) = CurrentTick s"
  "CurrentLiquidity (Positions_remove k s) = CurrentLiquidity s"
  "Positions (Positions_remove k s) = filter (\<lambda>(k', _). k' \<noteq> k) (Positions s)"
  by (simp_all add: Positions_remove_def)

lemma do_remove_ok:
  assumes "do_remove_liquidity cfg n a i s = (Inr r, s')"
  obtains p where "map_of (Positions s) (n, a, i) = Some p"
    "same_book (remove_liquidity_at_index n (tick_high p) (pos_liquidity p) True
       (remove_liquidity_at_index n (tick_low p) (pos_liquidity p) False s)) s'"
    "Positions s' = filter (\<lambda>(k, _). k \<noteq> (n, a, i)) (Positions s)" "LastPositionId s' = LastPositionId s"
    "CurrentTick s' = CurrentTick s"
    "CurrentLiquidity s' = (if tick_low p \<le> current_bounded n s \<and> current_bounded n s < tick_high p
      then (CurrentLiquidity s)(n := shift_liquidity (CurrentLiquidity s n) (- int (pos_liquidity p)))
      else CurrentLiquidity s)"
    "rm_liquidity r = pos_liquidity p"
  using assms
  by (auto simp: do_remove_liquidity_def ok_simps same_book_def split_def Positions_get_def)

lemma do_remove_err: "do_remove_liquidity cfg n a i s = (Inl e, s') \<Longrightarrow> s' = s"
  by (auto simp: do_remove_liquidity_def ok_simps err_simps split_def)

lemma close_keeps_pools:
  assumes "pools s" and "do_remove_liquidity cfg n a i s = (Inr r, s')"
  shows "pools s'"
proof -
  from do_remove_ok [OF assms(2)] obtain p where r: "map_of (Positions s) (n, a, i) = Some p"
    "same_book (remove_liquidity_at_index n (tick_high p) (pos_liquidity p) True
       (remove_liquidity_at_index n (tick_low p) (pos_liquidity p) False s)) s'"
    "Positions s' = filter (\<lambda>(k, _). k \<noteq> (n, a, i)) (Positions s)" "LastPositionId s' = LastPositionId s"
    "CurrentTick s' = CurrentTick s"
    "CurrentLiquidity s' = (if tick_low p \<le> current_bounded n s \<and> current_bounded n s < tick_high p
      then (CurrentLiquidity s)(n := shift_liquidity (CurrentLiquidity s n) (- int (pos_liquidity p)))
      else CurrentLiquidity s)" by metis
  have all: "books m s" "force_ok m s" for m using assms(1) by (simp_all add: pools_def)
  have "books m s'" for m by (rule books_remove [OF all(1) all(1) r(1-4)])
  moreover have "force_ok m s'" for m
  proof -
    have d: "distinct (map fst (Positions s))" using all(1) by (simp add: books_def)
    have f: "in_force m t s' = in_force m t s - (if n = m then force_of t p else 0)" for t
      unfolding in_force_def r(3) by (rule pool_sum_remove [OF d r(1)])
    have c: "current_bounded m s' = current_bounded m s" by (rule current_bounded_cong [OF r(5)])
    let ?t = "current_bounded n s"
    have "p \<in> in_pool n (Positions s)" using map_of_SomeD [OF r(1)] by (auto simp: in_pool_def)
    then have "force_of ?t p \<le> in_force n ?t s"
      unfolding in_force_def by (intro pool_sum_member) (simp_all add: force_of_def)
    then have "tick_low p \<le> ?t \<and> ?t < tick_high p \<longrightarrow> pos_liquidity p \<le> CurrentLiquidity s n"
      using all(2) [of n] by (auto simp: force_ok_def force_of_def)
    moreover have "CurrentLiquidity s n < 2 ^ 64"
      using all [of n] in_force_bounds(2) [of n ?t s] by (simp add: force_ok_def books_def)
    ultimately show ?thesis using all(2) [of m]
      by (auto simp: force_ok_def f c r(6) force_of_def shift_exact)
  qed
  ultimately show ?thesis by (simp add: pools_def)
qed

text \<open>Balances of other pallets and events do not matter to the pools.\<close>

lemma pools_cong:
  assumes "Ticks s' = Ticks s" "TickIndexBitmapWords s' = TickIndexBitmapWords s" "Positions s' = Positions s"
    "LastPositionId s' = LastPositionId s" "CurrentTick s' = CurrentTick s" "CurrentLiquidity s' = CurrentLiquidity s"
  shows "pools s' = pools s"
  using assms by (simp add: pools_def books_def force_ok_def recorded_def ranges_ok_def total_liquidity_def
      tick_gross_def tick_net_def in_force_def current_bounded_def)

lemma pools_other [simp]:
  "pools (s\<lparr>sw_world := w\<rparr>) = pools s" "pools (s\<lparr>sw_events := evs\<rparr>) = pools s"
  "pools (s\<lparr>EnabledUserLiquidity := v\<rparr>) = pools s" "pools (s\<lparr>EnabledUserLiquidity := v, sw_events := evs\<rparr>) = pools s"
  by (rule pools_cong, simp_all)+

lemma pools_modify [preserves_intros]:
  "preserves pools (on_world f)" "preserves pools (try_world g)" "preserves pools (swap_event ev)"
  by (auto simp: preserves_def on_world_def try_world_def swap_event_def modify_def split: prod.split sum.split)

lemma pools_remove [preserves_intros]: "preserves pools (do_remove_liquidity cfg n a i)"
proof (rule preservesI)
  fix s r s' assume "pools s" "do_remove_liquidity cfg n a i s = (r, s')"
  then show "pools s'" using close_keeps_pools do_remove_err by (cases r) fastforce+
qed

lemma remove_call_keeps_pools: "preserves pools (swap_remove_liquidity cfg origin hotkey n i)"
  unfolding swap_remove_liquidity_def swap_signed_def by (intro preserves_intros)

lemma pools_refund [preserves_intros]: "preserves pools (refund_closed cfg n target owner rm)"
  unfolding refund_closed_def Let_def by (intro preserves_intros)

lemma pools_close [preserves_intros]: "preserves pools (close_positions cfg n target ps)"
proof (induction ps)
  case Nil
  show ?case unfolding close_positions.simps by (intro preserves_intros)
next
  case (Cons e ps)
  obtain owner i where e: "e = (owner, i)" by force
  show ?case
  proof (rule preservesI)
    fix s r s' assume s: "pools s" and run: "close_positions cfg n target (e # ps) s = (r, s')"
    obtain r1 s1 where one: "do_remove_liquidity cfg n owner i s = (r1, s1)" by force
    have s1: "pools s1" by (rule preservesD [OF pools_remove s one])
    show "pools s'"
    proof (cases r1)
      case (Inl e1)
      with run one have "close_positions cfg n target ps s1 = (r, s')" by (simp add: e)
      then show ?thesis by (rule preservesD [OF Cons.IH s1])
    next
      case (Inr rm)
      have keep: "preserves pools (and_then (refund_closed cfg n target owner rm) (\<lambda>_. close_positions cfg n target ps))"
        by (intro preserves_intros Cons.IH)
      from Inr run one have
        "and_then (refund_closed cfg n target owner rm) (\<lambda>_. close_positions cfg n target ps) s1 = (r, s')"
        by (simp add: e)
      then show ?thesis by (rule preservesD [OF keep s1])
    qed
  qed
qed

lemma pools_dissolve: "preserves pools (do_dissolve_all_liquidity_providers cfg n)"
  by (simp add: preserves_def do_dissolve_all_liquidity_providers_def Let_def preserves_snd [OF pools_close])

lemma disable_keeps_pools: "preserves pools (swap_disable_lp cfg origin)"
proof -
  have "pools s \<Longrightarrow> pools (disable_lp_loop cfg ns s)" for ns s
    by (induction ns arbitrary: s) (simp_all add: Let_def preserves_snd [OF pools_dissolve])
  then show ?thesis unfolding swap_disable_lp_def swap_root_def by (intro preserves_intros)
qed

section \<open>Crossing a tick\<close>

lemma current_in_range: "\<not> out_of_range (current_bounded n s)"
  by (simp add: current_bounded_def out_of_range_def tick_bounds)

lemma books_parts:
  assumes "books n s"
  shows "layers_ok (TickIndexBitmapWords s n)" "active n (TickIndexBitmapWords s) = dom (Ticks s n)" "ranges_ok n s"
    "finite (dom (Ticks s n))" "Ticks s n t = None \<Longrightarrow> pool_sum n (gross_of t) (Positions s) = 0"
    "pool_sum n (net_of t) (Positions s) = tick_net n t s"
proof -
  show act: "active n (TickIndexBitmapWords s) = dom (Ticks s n)" using assms by (simp add: books_def recorded_def)
  show "finite (dom (Ticks s n))" unfolding act [symmetric] by simp
  show "layers_ok (TickIndexBitmapWords s n)" "ranges_ok n s" using assms by (simp_all add: books_def recorded_def)
  have g: "tick_gross n t s = pool_sum n (gross_of t) (Positions s)" using assms unfolding books_def by blast
  show "Ticks s n t = None \<Longrightarrow> pool_sum n (gross_of t) (Positions s) = 0" unfolding g [symmetric] by (simp add: tick_gross_def)
  show "pool_sum n (net_of t) (Positions s) = tick_net n t s" using assms unfolding books_def by simp
qed

lemma search_ticks:
  assumes "books n s" and "\<not> out_of_range t"
  shows "find_closest_lower n t (TickIndexBitmapWords s) = closest_tick True t (dom (Ticks s n))"
    and "find_closest_higher n t (TickIndexBitmapWords s) = closest_tick False t (dom (Ticks s n))"
  using bitmap.closest [where netuid = n and s = "TickIndexBitmapWords s" and t = t, OF books_parts(1) [OF assms(1)]] assms(2)
  by (simp_all add: find_closest_lower_def find_closest_higher_def books_parts(2) [OF assms(1)])

lemma moved_liquidity:
  assumes "\<bar>v\<bar> < 2 ^ 64" and "0 \<le> int c + v" and "int c + v < 2 ^ 64"
  shows "(if v \<ge> 0 then saturating_add 64 c (min (nat \<bar>v\<bar>) (uint_max 64))
      else saturating_sub c (min (nat \<bar>v\<bar>) (uint_max 64))) = nat (int c + v)"
  using assms by (auto simp: uint_max_def saturating_sub_def min_def nat_add_distrib)

lemma crossing_runs:
  assumes "Ticks s n (crossed_tick cfg order n s) = Some tick" and "\<bar>liquidity_net tick\<bar> < 2 ^ 64"
    and v: "v = (if order = GetAlphaForTao then liquidity_net tick else - liquidity_net tick)"
      "0 \<le> int (CurrentLiquidity s n) + v" "int (CurrentLiquidity s n) + v < 2 ^ 64"
  shows "update_liquidity_at_crossing cfg order n s =
    (Inr (), s\<lparr>CurrentLiquidity := (CurrentLiquidity s)(n := nat (int (CurrentLiquidity s n) + v))\<rparr>)"
proof -
  have "\<bar>v\<bar> < 2 ^ 64" using assms(2) v(1) by auto
  note m = moved_liquidity [OF this v(2,3)]
  have "(if (case order of GetAlphaForTao \<Rightarrow> liquidity_net tick \<ge> 0 | GetTaoForAlpha \<Rightarrow> \<not> liquidity_net tick \<ge> 0)
      then saturating_add 64 (CurrentLiquidity s n) (liquidity_net_as_u64 tick)
      else saturating_sub (CurrentLiquidity s n) (liquidity_net_as_u64 tick)) = nat (int (CurrentLiquidity s n) + v)"
  proof (cases "liquidity_net tick = 0")
    case True
    with v show ?thesis by (cases order) (simp_all add: liquidity_net_as_u64_def saturating_sub_def)
  next
    case False
    with m v(1) show ?thesis by (cases order) (auto simp: liquidity_net_as_u64_def)
  qed
  then show ?thesis using assms(1) by (simp add: update_liquidity_at_crossing_def action_defs Let_def)
qed

lemma crossing_fails:
  "Ticks s n (crossed_tick cfg order n s) = None \<Longrightarrow>
   update_liquidity_at_crossing cfg order n s = (Inl Swap_InsufficientLiquidity, s)"
  by (simp add: update_liquidity_at_crossing_def action_defs)

lemma net_small: "books n s \<Longrightarrow> Ticks s n t = Some tick \<Longrightarrow> \<bar>liquidity_net tick\<bar> < 2 ^ 64"
  using books_net [of n s t] books_gross [of n s t] by (auto simp: tick_net_def tick_gross_def books_def)

lemma force_small: "books n s \<Longrightarrow> in_force n t s < 2 ^ 64"
  using in_force_bounds(2) [of n t s] by (simp add: books_def)

lemma cross_up:
  assumes bk: "books n s" and fo: "force_ok n s" and c: "current_bounded n s < TickIndex_MAX"
  shows "update_liquidity_at_crossing cfg GetAlphaForTao n s =
    (case closest_tick False (current_bounded n s + 1) (dom (Ticks s n)) of
       Some e \<Rightarrow> (Inr (), s\<lparr>CurrentLiquidity := (CurrentLiquidity s)(n := nat (in_force n e s))\<rparr>)
     | None \<Rightarrow> (Inl Swap_InsufficientLiquidity, s))"
proof -
  let ?c = "current_bounded n s" let ?A = "dom (Ticks s n)"
  note parts = books_parts [OF bk]
  have up: "next_or_max ?c = ?c + 1" and r: "\<not> out_of_range (?c + 1)"
    using c current_in_range [of n s]
    by (auto simp: next_or_max_def tick_next_def TickIndex_new_def i32_saturating_add_def i32_clamp_def out_of_range_def tick_bounds)
  note found = search_ticks(2) [OF bk r]
  show ?thesis
  proof (cases "closest_tick False (?c + 1) ?A")
    case None
    have "TickIndex_MAX \<notin> ?A" using None c by (auto simp: closest_tick_def Let_def split: if_splits)
    with None found up show ?thesis by (simp add: crossing_fails domIff)
  next
    case (Some e)
    note e = closest_tickD [OF parts(4) Some]
    obtain tick where tick: "Ticks s n e = Some tick" using e(1) by blast
    have none: "Ticks s n t = None" if "?c < t" "t < e" for t
    proof (rule ccontr)
      assume "Ticks s n t \<noteq> None"
      then have "t \<in> ?A" by (simp add: domIff)
      from e(3) [OF this] that show False by simp
    qed
    have "in_force n (e - 1) s = in_force n ?c s"
      by (rule in_force_between [OF parts(3)]) (use e(2) none parts(5) in auto)
    then have v: "int (CurrentLiquidity s n) + liquidity_net tick = in_force n e s"
      using fo in_force_step [OF parts(3), of e] parts(6) [of e] tick by (simp add: force_ok_def tick_net_def)
    have "update_liquidity_at_crossing cfg GetAlphaForTao n s =
      (Inr (), s\<lparr>CurrentLiquidity := (CurrentLiquidity s)(n := nat (int (CurrentLiquidity s n) + liquidity_net tick))\<rparr>)"
      by (rule crossing_runs [where tick = tick])
        (use tick Some found up net_small [OF bk tick] in_force_bounds(1) force_small [OF bk] v in simp_all)
    then show ?thesis using Some v by simp
  qed
qed

text \<open>The crossed tick of a sale, and the liquidity after it, when the search starts at \<open>t\<close>.\<close>

lemma cross_down_from:
  assumes bk: "books n s" and r: "\<not> out_of_range t"
    and crossed: "crossed_tick cfg GetTaoForAlpha n s =
      (case find_closest_lower n t (TickIndexBitmapWords s) of Some r \<Rightarrow> r | None \<Rightarrow> TickIndex_MIN)"
    and d: "int (CurrentLiquidity s n) = in_force n t s + d" "- in_force n (e - 1) s \<le> d" "in_force n (e - 1) s + d < 2 ^ 64"
    and e: "closest_tick True t (dom (Ticks s n)) = Some e"
  shows "update_liquidity_at_crossing cfg GetTaoForAlpha n s =
    (Inr (), s\<lparr>CurrentLiquidity := (CurrentLiquidity s)(n := nat (in_force n (e - 1) s + d))\<rparr>)"
proof -
  note parts = books_parts [OF bk]
  note found = search_ticks(1) [OF bk r]
  note at = closest_tickD [OF parts(4) e]
  obtain tick where tick: "Ticks s n e = Some tick" using at(1) by blast
  have none: "Ticks s n x = None" if "e < x" "x \<le> t" for x
  proof (rule ccontr)
    assume "Ticks s n x \<noteq> None"
    then have "x \<in> dom (Ticks s n)" by (simp add: domIff)
    from at(3) [OF this] that show False by simp
  qed
  have "in_force n t s = in_force n e s"
    by (rule in_force_between [OF parts(3)]) (use at(2) none parts(5) in auto)
  then have v: "int (CurrentLiquidity s n) + - liquidity_net tick = in_force n (e - 1) s + d"
    using d(1) in_force_step [OF parts(3), of e] parts(6) [of e] tick by (simp add: tick_net_def)
  have "update_liquidity_at_crossing cfg GetTaoForAlpha n s =
    (Inr (), s\<lparr>CurrentLiquidity := (CurrentLiquidity s)(n := nat (int (CurrentLiquidity s n) + - liquidity_net tick))\<rparr>)"
    by (rule crossing_runs [where tick = tick])
      (use tick e found crossed net_small [OF bk tick] d(2,3) v in simp_all)
  then show ?thesis unfolding v .
qed

lemma closest_skip: "t \<notin> A \<Longrightarrow> closest_tick True t A = closest_tick True (t - 1) A"
proof -
  assume "t \<notin> A"
  then have "{a \<in> A. a \<le> t} = {a \<in> A. a \<le> t - 1}" by (auto simp: le_less)
  then show ?thesis by (simp add: closest_tick_def)
qed

lemma prev_or_min:
  "\<not> out_of_range t \<Longrightarrow> prev_or_min t = (if t = TickIndex_MIN then t else t - 1)"
  "\<not> out_of_range t \<Longrightarrow> \<not> out_of_range (prev_or_min t)"
  by (auto simp: prev_or_min_def tick_prev_def TickIndex_new_def i32_saturating_sub_def i32_clamp_def out_of_range_def tick_bounds)

lemma active_books:
  assumes "books n s" and "\<not> out_of_range t"
  shows "tick_is_active n t (TickIndexBitmapWords s) \<longleftrightarrow> t \<in> dom (Ticks s n) \<or> t = TickIndex_MAX \<and> dom (Ticks s n) = {}"
  using is_active_iff [where ws = "TickIndexBitmapWords s" and netuid = n, OF books_parts(1) [OF assms(1)] assms(2)]
  unfolding books_parts(2) [OF assms(1)] .

lemma crossed_below:
  assumes bk: "books n s" and "Ticks s n (current_bounded n s) = None \<or> as_sqrt_price_bounded cfg (current_bounded n s) < AlphaSqrtPrice s n"
  shows "crossed_tick cfg GetTaoForAlpha n s =
    (case find_closest_lower n (current_bounded n s) (TickIndexBitmapWords s) of Some r \<Rightarrow> r | None \<Rightarrow> TickIndex_MIN)"
proof -
  let ?c = "current_bounded n s" let ?A = "dom (Ticks s n)"
  have r: "\<not> out_of_range ?c" by (rule current_in_range)
  note is_active = active_books [OF bk r]
  note found = search_ticks(1) [OF bk r] search_ticks(1) [OF bk prev_or_min(2) [OF r]]
  show ?thesis
  proof (cases "tick_is_active n ?c (TickIndexBitmapWords s) \<and> AlphaSqrtPrice s n > as_sqrt_price_bounded cfg ?c")
    case True
    then show ?thesis by (simp add: Let_def)
  next
    case False
    have "?c \<notin> ?A" using False assms(2) is_active by auto
    then have "closest_tick True (prev_or_min ?c) ?A = closest_tick True ?c ?A"
      using closest_skip [of ?c ?A] prev_or_min(1) [OF r] by presburger
    with False found show ?thesis by (simp add: Let_def)
  qed
qed

lemma cross_down:
  assumes bk: "books n s" and fo: "force_ok n s"
    and price: "Ticks s n (current_bounded n s) = None \<or> as_sqrt_price_bounded cfg (current_bounded n s) < AlphaSqrtPrice s n"
  shows "update_liquidity_at_crossing cfg GetTaoForAlpha n s =
    (case closest_tick True (current_bounded n s) (dom (Ticks s n)) of
       Some e \<Rightarrow> (Inr (), s\<lparr>CurrentLiquidity := (CurrentLiquidity s)(n := nat (in_force n (e - 1) s))\<rparr>)
     | None \<Rightarrow> (Inl Swap_InsufficientLiquidity, s))"
proof -
  let ?c = "current_bounded n s" let ?A = "dom (Ticks s n)"
  have r: "\<not> out_of_range ?c" by (rule current_in_range)
  note crossed = crossed_below [OF bk price]
  show ?thesis
  proof (cases "closest_tick True ?c ?A")
    case None
    have "TickIndex_MIN \<notin> ?A" using None r by (auto simp: closest_tick_def Let_def out_of_range_def split: if_splits)
    with None crossed show ?thesis by (simp add: search_ticks(1) [OF bk r] crossing_fails domIff)
  next
    case (Some e)
    from cross_down_from [OF bk r crossed _ _ _ Some, of 0] fo in_force_bounds(1) [of n "e - 1" s]
      force_small [OF bk, of "e - 1"] Some
    show ?thesis by (simp add: force_ok_def)
  qed
qed

text \<open>At the price of an active tick the search starts below it, although the tick has not been crossed.\<close>

lemma cross_down_stalled:
  assumes bk: "books n s" and fo: "force_ok n s"
    and here: "Ticks s n (current_bounded n s) \<noteq> None" "AlphaSqrtPrice s n \<le> as_sqrt_price_bounded cfg (current_bounded n s)"
    and e: "closest_tick True (current_bounded n s - 1) (dom (Ticks s n)) = Some e"
    and nonneg: "0 \<le> in_force n (e - 1) s + tick_net n (current_bounded n s) s"
  shows "update_liquidity_at_crossing cfg GetTaoForAlpha n s =
    (Inr (), s\<lparr>CurrentLiquidity := (CurrentLiquidity s)(n := nat (in_force n (e - 1) s + tick_net n (current_bounded n s) s))\<rparr>)"
proof -
  let ?c = "current_bounded n s" let ?A = "dom (Ticks s n)"
  note parts = books_parts [OF bk]
  note at = closest_tickD [OF parts(4) e]
  have r: "\<not> out_of_range ?c" by (rule current_in_range)
  have "\<not> out_of_range e" using at(1) parts(2) active_in_range by blast
  then have prev: "prev_or_min ?c = ?c - 1" using at(2) by (auto simp: prev_or_min(1) [OF r] out_of_range_def)
  have low: "\<not> out_of_range (?c - 1)" using prev_or_min(2) [OF r] unfolding prev .
  have crossed: "crossed_tick cfg GetTaoForAlpha n s =
    (case find_closest_lower n (?c - 1) (TickIndexBitmapWords s) of Some r \<Rightarrow> r | None \<Rightarrow> TickIndex_MIN)"
    using here(2) by (auto simp: Let_def prev)
  have "force_of (e - 1) p + net_of ?c p \<le> int (pos_liquidity p)" for p using at(2) by (auto simp: force_of_def net_of_def)
  then have "in_force n (e - 1) s + tick_net n ?c s \<le> total_liquidity n s"
    unfolding in_force_def total_liquidity_def parts(6) [symmetric] pool_sum_add [symmetric] by (intro pool_sum_mono)
  then have "in_force n (e - 1) s + tick_net n ?c s < 2 ^ 64" using bk by (simp add: books_def)
  moreover have "int (CurrentLiquidity s n) = in_force n (?c - 1) s + tick_net n ?c s"
    using fo in_force_step [OF parts(3), of ?c] parts(6) [of ?c] by (simp add: force_ok_def)
  ultimately show ?thesis using nonneg by (intro cross_down_from [OF bk low crossed _ _ _ e]) simp_all
qed

section \<open>Shrinking a position\<close>

lemma modify_removes:
  assumes ok: "books n s" "force_ok n s" and p: "map_of (Positions s) (n, a, i) = Some p"
    and small: "delta < 0" "MinimumLiquidity cfg \<le> nat \<bar>delta\<bar>" "nat \<bar>delta\<bar> \<le> pos_liquidity p"
      "pos_liquidity p - nat \<bar>delta\<bar> < MinimumLiquidity cfg"
    and inside: "tick_low p \<le> current_bounded n s" "current_bounded n s < tick_high p"
      "try_to_sqrt_price cfg (tick_low p) = Some low" "try_to_sqrt_price cfg (tick_high p) = Some high"
      "low \<le> AlphaSqrtPrice s n" "AlphaSqrtPrice s n \<le> high"
    and run: "do_modify_position cfg n a h i delta s = (r, s')" and enabled: "EnabledUserLiquidity s n"
  shows "\<exists>v. r = Inr v \<and> up_removed v" and "Positions s' = filter (\<lambda>(k, _). k \<noteq> (n, a, i)) (Positions s)"
    and "current_bounded n s' = current_bounded n s"
    and "int (CurrentLiquidity s' n) = in_force n (current_bounded n s') s' + int (pos_liquidity p - nat \<bar>delta\<bar>)"
proof -
  let ?c = "current_bounded n s"
  have "\<not> delta > 0" using small(1) by simp
  note given = this small inside p enabled not_less [THEN iffD2, OF inside(5)] not_less [THEN iffD2, OF inside(6)]
  have out: "(\<exists>v. r = Inr v \<and> up_removed v) \<and> Positions s' = filter (\<lambda>(k, _). k \<noteq> (n, a, i)) (Positions s) \<and>
    CurrentTick s' = CurrentTick s \<and> CurrentLiquidity s' n = CurrentLiquidity s n - nat \<bar>delta\<bar>"
  proof (cases r)
    case (Inl e)
    with run given show ?thesis
      by (auto simp: do_modify_position_def change_in_range_def Let_def ok_simps err_simps split_def Positions_get_def)
  next
    case (Inr v)
    with run given show ?thesis
      by (auto simp: do_modify_position_def change_in_range_def Let_def ok_simps split_def Positions_get_def saturating_sub_def)
  qed
  then show "\<exists>v. r = Inr v \<and> up_removed v" and pos: "Positions s' = filter (\<lambda>(k, _). k \<noteq> (n, a, i)) (Positions s)" by auto
  have d: "distinct (map fst (Positions s))" using ok(1) by (simp add: books_def)
  have "in_force n t s' = in_force n t s - force_of t p" for t
    unfolding in_force_def pos using pool_sum_remove [OF d p, of n "force_of t"] by simp
  moreover show "current_bounded n s' = ?c" by (rule current_bounded_cong) (use out in simp)
  moreover have "p \<in> in_pool n (Positions s)" using map_of_SomeD [OF p] by (auto simp: in_pool_def)
  then have "force_of ?c p \<le> in_force n ?c s"
    unfolding in_force_def by (intro pool_sum_member) (simp_all add: force_of_def)
  ultimately show "int (CurrentLiquidity s' n) = in_force n (current_bounded n s') s' + int (pos_liquidity p - nat \<bar>delta\<bar>)"
    using out ok(2) inside(1,2) small(3) by (simp add: force_ok_def force_of_def)
qed

section \<open>Runs of a pool\<close>

definition blank_swap :: "'p \<Rightarrow> 'w \<Rightarrow> ('p, 'i, 'w) SwapStorage" where
  "blank_swap zero w =
     \<lparr>FeeRate = (\<lambda>_. 33), FeeGlobalTao = (\<lambda>_. zero), FeeGlobalAlpha = (\<lambda>_. zero), Ticks = (\<lambda>_ _. None),
      SwapV3Initialized = (\<lambda>_. False), AlphaSqrtPrice = (\<lambda>_. zero), CurrentTick = (\<lambda>_. 0),
      CurrentLiquidity = (\<lambda>_. 0), EnabledUserLiquidity = (\<lambda>_. False), Positions = [], LastPositionId = 0,
      TickIndexBitmapWords = no_words, ScrapReservoirTao = (\<lambda>_. 0), ScrapReservoirAlpha = (\<lambda>_. 0),
      sw_world = w, sw_events = []\<rparr>"

lemma blank_pools: "pools (blank_swap zero w)"
  by (simp add: pools_def books_def force_ok_def recorded_def ranges_ok_def total_liquidity_def in_force_def
      tick_gross_def tick_net_def blank_swap_def no_words)

text \<open>What can happen to the liquidity of the pools between swaps.  Positions are added while the total liquidity of
  their subnet fits 64 bits and identifiers are left.\<close>

inductive pool_step ::
  "('p :: linorder, 'i, 'w) SwapConfig \<Rightarrow> ('p, 'i, 'w) SwapStorage \<Rightarrow> ('p, 'i, 'w) SwapStorage \<Rightarrow> bool"
  for cfg where
  added: "\<not> out_of_range low \<Longrightarrow> \<not> out_of_range high \<Longrightarrow> total_liquidity n s + int L < 2 ^ 64 \<Longrightarrow>
    LastPositionId s < 2 ^ 128 - 1 \<Longrightarrow> pool_step cfg s (snd (transactional (do_add_liquidity cfg n a h low high L) s))"
| removed: "pool_step cfg s (snd (swap_remove_liquidity cfg origin hotkey n i s))"
| disabled: "pool_step cfg s (snd (swap_disable_lp cfg origin s))"
| toggled: "pool_step cfg s (handler_toggle_user_liquidity n enabled s)"
| initialised: "in_pool n (Positions s) = {} \<Longrightarrow> LastPositionId s < 2 ^ 128 - 1 \<Longrightarrow>
    pool_step cfg s (snd (transactional (maybe_initialize_v3 cfg n) s))"

lemma empty_pool:
  assumes "pools s" and "in_pool n (Positions s) = {}"
  shows "pools (s\<lparr>AlphaSqrtPrice := prices, CurrentTick := (CurrentTick s)(n := t)\<rparr>)" (is "pools ?s")
proof -
  have zero: "in_force n x s = 0" for x
    unfolding in_force_def using pool_sum_cong [of n "Positions s" "force_of x" "\<lambda>_. 0"] assms(2)
    by (simp add: pool_sum_def case_prod_unfold cong: if_cong)
  have "books m ?s = books m s" for m
    by (simp add: books_def recorded_def ranges_ok_def total_liquidity_def tick_gross_def tick_net_def)
  moreover have f: "in_force m x ?s = in_force m x s" for m x by (simp add: in_force_def)
  have "force_ok m ?s" if "force_ok m s" for m
    using that by (cases "m = n") (simp_all add: force_ok_def f zero current_bounded_def)
  ultimately show ?thesis using assms(1) by (simp add: pools_def)
qed

lemma initialise_keeps_pools:
  assumes "pools s" and "in_pool n (Positions s) = {}" and "LastPositionId s < 2 ^ 128 - 1"
  shows "pools (snd (transactional (maybe_initialize_v3 cfg n) s))"
proof (cases "maybe_initialize_v3 cfg n s")
  case (Pair r s')
  show ?thesis
  proof (cases r)
    case (Inr v)
    show ?thesis
    proof (cases "SwapV3Initialized s n")
      case True
      with Pair Inr assms(1) show ?thesis by (simp add: maybe_initialize_v3_def action_defs)
    next
      case False
      with Pair Inr obtain prices t L p tao alpha s1 where
        run: "add_liquidity_not_insert cfg n (protocol_account_id cfg) TickIndex_MIN TickIndex_MAX L
          (s\<lparr>AlphaSqrtPrice := prices, CurrentTick := (CurrentTick s)(n := t)\<rparr>) = (Inr (p, tao, alpha), s1)"
        and L: "L < 2 ^ 64" and s': "s' = Positions_insert cfg (n, protocol_account_id cfg, pos_id p) p s1"
        by (fastforce simp: maybe_initialize_v3_def ok_simps Let_def split_def)
      have total: "total_liquidity n (s\<lparr>AlphaSqrtPrice := prices, CurrentTick := (CurrentTick s)(n := t)\<rparr>) = 0"
        unfolding total_liquidity_def
        using pool_sum_cong [of n "Positions s" "\<lambda>p. int (pos_liquidity p)" "\<lambda>_. 0"] assms(2)
        by (simp add: pool_sum_def case_prod_unfold cong: if_cong)
      have "pools s'" unfolding s'
        by (rule open_keeps_pools [OF empty_pool [OF assms(1,2)] run])
          (use assms(3) L total in \<open>simp_all add: out_of_range_def tick_bounds\<close>)
      with Pair Inr show ?thesis by (simp add: transactional_def)
    qed
  qed (use Pair assms(1) in \<open>simp add: transactional_def\<close>)
qed

lemma step_keeps_pools: "pool_step cfg s s' \<Longrightarrow> pools s \<Longrightarrow> pools s'"
proof (induction rule: pool_step.induct)
  case (added low high n s L a h)
  then show ?case by (intro add_keeps_pools)
next
  case (removed s origin hotkey n i)
  then show ?case by (rule preserves_snd [OF remove_call_keeps_pools])
next
  case (disabled s origin)
  then show ?case by (rule preserves_snd [OF disable_keeps_pools])
next
  case (toggled s n enabled)
  then show ?case by (simp add: handler_toggle_user_liquidity_def)
next
  case (initialised n s)
  then show ?case by (intro initialise_keeps_pools)
qed

lemma run_keeps_pools: "(pool_step cfg)\<^sup>*\<^sup>* s s' \<Longrightarrow> pools s \<Longrightarrow> pools s'"
  by (induction rule: rtranclp_induct) (auto intro: step_keeps_pools)

end
