(* ===== verification/Swap_Properties.thy ===== *)
theory Swap_Properties
  imports Swap_Pools
begin

text \<open>The properties of the swap pallet: its ticks, the books of its pools and the crossing of ticks.\<close>

lemma in_order: "- 443636 \<le> t \<Longrightarrow> t \<le> 443636 \<Longrightarrow> \<not> out_of_range t"
  by (simp add: out_of_range_def tick_bounds)

text \<open>
  C21: The three-layer bitmap implements an ordered set.  After any sequence of insertions and
  removals of ticks of a subnet, starting from empty storage, the search of the swap from any tick in
  range returns the closest tick, at or below it or at or above it, of the set the same sequence builds,
  and nothing when that set has no tick on that side.
\<close>

theorem tick_search_finds_closest:
  assumes "\<not> out_of_range t"
  shows "find_closest netuid t lower (fold (apply_update (tick_insert netuid) (tick_remove netuid)) us no_words) =
    closest_tick lower t (fold (update_set (\<lambda>t. \<not> out_of_range t)) us {})"
  by (rule bitmap.closest_after_updates [OF assms])

theorem tick_search_finds_closest_witness:
  "find_closest 3 (- 7) True (fold (apply_update (tick_insert 3) (tick_remove 3))
     [InsertTick (- 443636), InsertTick (- 200), InsertTick 5000, InsertTick (- 9), RemoveTick (- 9), InsertTick 500000]
     no_words) = Some (- 200)"
proof -
  let ?us = "[InsertTick (- 443636), InsertTick (- 200), InsertTick 5000, InsertTick (- 9), RemoveTick (- 9), InsertTick 500000]"
  have "fold (update_set (\<lambda>t. \<not> out_of_range t)) ?us {} = {5000, - 200, - 443636}"
    by (auto simp: out_of_range_def tick_bounds)
  moreover have "closest_tick True (- 7) {5000, - 200, - 443636} = Some (- 200)"
    by (rule closest_tickI) auto
  ultimately show ?thesis using tick_search_finds_closest [OF in_order, of "- 7" 3 True ?us] by simp
qed

lemma clamp_i32:
  assumes "\<not> out_of_range t"
  shows "(case TickIndex_new (i32_clamp (t + v)) of Inr r \<Rightarrow> r | Inl _ \<Rightarrow> if v > 0 then TickIndex_MAX else TickIndex_MIN) =
    max TickIndex_MIN (min TickIndex_MAX (t + v))"
  using assms unfolding TickIndex_new_def i32_clamp_def tick_bounds out_of_range_def
  by (simp add: max_def min_def)

lemma clamp_i32_sub:
  assumes "\<not> out_of_range t"
  shows "(case TickIndex_new (i32_clamp (t - v)) of Inr r \<Rightarrow> r | Inl _ \<Rightarrow> if v > 0 then TickIndex_MIN else TickIndex_MAX) =
    max TickIndex_MIN (min TickIndex_MAX (t - v))"
  using assms unfolding TickIndex_new_def i32_clamp_def tick_bounds out_of_range_def
  by (simp add: max_def min_def)

lemma mul_clamps: "tick_saturating_mul t v = max TickIndex_MIN (min TickIndex_MAX (t * v))"
proof -
  have sign: "t < 0 \<and> v > 0 \<or> t > 0 \<and> v < 0 \<longleftrightarrow> t * v < 0" by (auto simp: mult_less_0_iff)
  show ?thesis
    unfolding tick_saturating_mul_def tick_checked_mul_def TickIndex_new_def i32_checked_mul_def tick_bounds sign
    by (simp add: max_def min_def)
qed

text \<open>
  C27: The check for one active tick answers from the search below it, with the highest tick in place of
  nothing found.  On consistent layers it says whether the tick is active, except that it calls the
  highest tick active when no tick is.
\<close>

theorem tick_is_active_answer:
  assumes "layers_ok (ws netuid)" and "\<not> out_of_range t"
  shows "tick_is_active netuid t ws \<longleftrightarrow> t \<in> active netuid ws \<or> t = TickIndex_MAX \<and> active netuid ws = {}"
  using assms by (rule is_active_iff)

theorem tick_is_active_answer_witness: "tick_is_active 0 TickIndex_MAX no_words \<and> TickIndex_MAX \<notin> active 0 no_words"
  using tick_is_active_answer [where ws = no_words and netuid = 0 and t = TickIndex_MAX, OF no_words(1)]
  by (simp add: no_words out_of_range_def tick_bounds)

text \<open>
  The saturating operations on ticks return the exact result clamped to the range of ticks, although
  they go through 32-bit arithmetic that saturates or overflows on its own.
\<close>

theorem tick_arithmetic_clamps:
  assumes "\<not> out_of_range t"
  shows "[tick_saturating_add t v, tick_saturating_sub t v, tick_saturating_mul t v] =
    map (\<lambda>r. max TickIndex_MIN (min TickIndex_MAX r)) [t + v, t - v, t * v]"
proof -
  have "tick_saturating_add t v = max TickIndex_MIN (min TickIndex_MAX (t + v))"
    using assms unfolding tick_saturating_add_def tick_checked_add_def i32_saturating_add_def by (rule clamp_i32)
  moreover have "tick_saturating_sub t v = max TickIndex_MIN (min TickIndex_MAX (t - v))"
    using assms unfolding tick_saturating_sub_def tick_checked_sub_def i32_saturating_sub_def by (rule clamp_i32_sub)
  moreover have "tick_saturating_mul t v = max TickIndex_MIN (min TickIndex_MAX (t * v))"
    by (rule mul_clamps)
  ultimately show ?thesis by simp
qed

theorem tick_arithmetic_clamps_witness:
  "[tick_saturating_add 443000 2147483647, tick_saturating_sub 5 7, tick_saturating_mul 5 7] = [443636, - 2, 35]"
  using tick_arithmetic_clamps [of 443000 2147483647] tick_arithmetic_clamps [of 5 7]
  by (simp add: tick_bounds out_of_range_def)

section \<open>A small pool\<close>

text \<open>Whole numbers stand for the fixed-point numbers, and the price of a tick is its distance from the lowest.\<close>

definition demo_fixed :: "(nat, int) FixedOps" where
  "demo_fixed =
     \<lparr>u_num = (\<lambda>n. n), u_frac = (\<lambda>a b. a div b), u_to = (\<lambda>p. min p (uint_max 64)), u_add = (+), u_sub = (-), u_mul = (*),
      u_checked_div = checked_div, u_checked_sqrt = (\<lambda>_ _. None), u_round = (\<lambda>p. p),
      i_num = int, i_from = int, i_sub = (-), i_mul = (*), i_to = (\<lambda>i. min (nat i) (uint_max 64))\<rparr>"

definition demo_swap :: "(nat, int, unit) SwapConfig" where
  "demo_swap =
     \<lparr>fixed_ops = demo_fixed,
      try_to_sqrt_price = (\<lambda>t. if out_of_range t then None else Some (nat (t + 443637))),
      try_from_sqrt_price = (\<lambda>p. if p \<in> {1..887273} then Some (int p - 443637) else None),
      sqrt_u128 = (\<lambda>n. n), position_place = (\<lambda>_ ps. length ps),
      MaxFeeRate = 100, MaxPositions = 100, MinimumLiquidity = 100, MinimumReserve = 1, protocol_account_id = 0,
      subnet_mechanism = (\<lambda>_ _. 1), subnet_exists = (\<lambda>_ _. True), subnet_is_owner = (\<lambda>_ _ _. False),
      is_subtoken_enabled = (\<lambda>_ _. True), validator_trust = (\<lambda>_ _. []), validator_permit = (\<lambda>_ _. []),
      hotkey_of_uid = (\<lambda>_ _ _. None), tao_reserve = (\<lambda>_ _. 1000), alpha_reserve = (\<lambda>_ _. 1000),
      tao_decrease_provided = (\<lambda>_ _ w. w), alpha_decrease_provided = (\<lambda>_ _ w. w),
      tao_balance = (\<lambda>_ _. 2 ^ 60), alpha_balance = (\<lambda>_ _ _ _. 2 ^ 60), increase_balance = (\<lambda>_ _ w. w),
      decrease_balance = (\<lambda>_ b w. (Inr b, w)), increase_stake = (\<lambda>_ _ _ _ w. (Inr (), w)),
      decrease_stake = (\<lambda>_ _ _ b w. (Inr b, w))\<rparr>"

definition demo_position :: "nat \<Rightarrow> TickIndex \<Rightarrow> TickIndex \<Rightarrow> nat \<Rightarrow> int Position" where
  "demo_position i low high L =
     \<lparr>pos_id = i, pos_netuid = 3, tick_low = low, tick_high = high, pos_liquidity = L, fees_tao = 0, fees_alpha = 0\<rparr>"

definition demo_tick :: "int \<Rightarrow> nat \<Rightarrow> int Tick" where
  "demo_tick net gross = \<lparr>liquidity_net = net, liquidity_gross = gross, fees_out_tao = 0, fees_out_alpha = 0\<rparr>"

text \<open>Two positions of account 7, with liquidity 500 from tick -100 to 100 and 300 from tick 0 to 50, at tick 0.\<close>

definition demo_pool :: "nat \<Rightarrow> (nat, int, unit) SwapStorage" where
  "demo_pool price = (blank_swap 0 ())
     \<lparr>Ticks := (\<lambda>_ _. None)(3 := [- 100 \<mapsto> demo_tick 500 500, 100 \<mapsto> demo_tick (- 500) 500,
        0 \<mapsto> demo_tick 300 300, 50 \<mapsto> demo_tick (- 300) 300]),
      AlphaSqrtPrice := (\<lambda>_. price), CurrentLiquidity := (\<lambda>_. 0)(3 := 800), EnabledUserLiquidity := (\<lambda>_. True),
      Positions := [((3, 7, 4), demo_position 4 (- 100) 100 500), ((3, 7, 5), demo_position 5 0 50 300)],
      LastPositionId := 5,
      TickIndexBitmapWords := tick_insert 3 50 (tick_insert 3 0 (tick_insert 3 100 (tick_insert 3 (- 100) no_words)))\<rparr>"

lemma demo_ticks: "dom (Ticks (demo_pool price) 3) = {- 100, 100, 0, 50}"
  by (auto simp: demo_pool_def blank_swap_def)

lemma demo_at: "current_bounded 3 (demo_pool price) = 0" "CurrentLiquidity (demo_pool price) 3 = 800"
  "AlphaSqrtPrice (demo_pool price) 3 = price" "EnabledUserLiquidity (demo_pool price) 3"
  "Positions (demo_pool price) = [((3, 7, 4), demo_position 4 (- 100) 100 500), ((3, 7, 5), demo_position 5 0 50 300)]"
  "Ticks (demo_pool price) 3 0 = Some (demo_tick 300 300)"
  by (simp_all add: demo_pool_def blank_swap_def current_bounded_def tick_bounds)

lemma demo_force: "in_force 3 t (demo_pool price) = (if - 100 \<le> t \<and> t < 100 then 500 else 0) + (if 0 \<le> t \<and> t < 50 then 300 else 0)"
  by (simp add: in_force_def demo_at demo_position_def force_of_def)

lemma demo_books: "books 3 (demo_pool price)"
proof -
  have r: "\<not> out_of_range 50" "\<not> out_of_range 0" "\<not> out_of_range 100" "\<not> out_of_range (- 100)"
    by (simp_all add: out_of_range_def tick_bounds)
  have "recorded 3 (demo_pool price)"
    unfolding recorded_def demo_ticks
    by (auto simp: demo_pool_def insert_active r no_words insert_keeps_layers)
  moreover have "tick_gross 3 t (demo_pool price) = pool_sum 3 (gross_of t) (Positions (demo_pool price))"
    and "tick_net 3 t (demo_pool price) = pool_sum 3 (net_of t) (Positions (demo_pool price))" for t
    by (auto simp: tick_gross_def tick_net_def demo_pool_def blank_swap_def demo_position_def demo_tick_def gross_of_def net_of_def)
  ultimately show ?thesis using r
    by (simp add: books_def ranges_ok_def total_liquidity_def demo_at demo_position_def)
      (simp add: demo_pool_def)
qed

lemma demo_force_ok: "force_ok 3 (demo_pool price)"
  by (simp add: force_ok_def demo_at demo_force)

section \<open>Pools\<close>

text \<open>
  C22: In every storage that adding, removing and closing positions can reach from the empty one, the books
  of every subnet are exact: the net and gross liquidity of each tick are those of the positions that
  start or end there, the active ticks are the recorded ones, and the current liquidity is that of the
  positions whose range contains the current tick.
\<close>

theorem pool_books_kept:
  assumes "(pool_step cfg)\<^sup>*\<^sup>* (blank_swap zero w) s"
  shows "pools s"
  using run_keeps_pools [OF assms blank_pools] .

theorem pool_books_kept_witness:
  "pools (snd (transactional (do_add_liquidity demo_swap 3 7 8 (- 5) 5 100)
     (handler_toggle_user_liquidity 3 True (blank_swap 0 ())))) \<and>
   Positions (snd (transactional (do_add_liquidity demo_swap 3 7 8 (- 5) 5 100)
     (handler_toggle_user_liquidity 3 True (blank_swap 0 ())))) \<noteq> []"
proof -
  let ?s = "handler_toggle_user_liquidity 3 True (blank_swap 0 ())"
  let ?t = "snd (transactional (do_add_liquidity demo_swap 3 7 8 (- 5) 5 100) ?s)"
  have one: "pool_step demo_swap (blank_swap 0 ()) ?s" by (rule toggled)
  have two: "pool_step demo_swap ?s ?t"
    by (rule added) (simp_all add: out_of_range_def tick_bounds total_liquidity_def handler_toggle_user_liquidity_def blank_swap_def)
  have "pools ?t" by (rule pool_books_kept [OF rtranclp.rtrancl_into_rtrancl [OF r_into_rtranclp [of "pool_step demo_swap", OF one] two]])
  moreover have "Positions ?t \<noteq> []"
  proof -
    have price: "AlphaSqrtPrice (add_liquidity_at_index F n t L u s) = AlphaSqrtPrice s"
      "AlphaSqrtPrice (update_liquidity_if_needed n low high v s) = AlphaSqrtPrice s"
      "EnabledUserLiquidity ?s 3" "AlphaSqrtPrice ?s = (\<lambda>_. 0)" "current_bounded 3 ?s = 0" "positions_of 3 7 ?s = []"
      for F n t L u s low high v
      by (simp_all add: add_liquidity_at_index_def update_liquidity_if_needed_def Let_def set_tick_def
          handler_toggle_user_liquidity_def blank_swap_def current_bounded_def tick_bounds positions_of_def)
    obtain r s' where run: "do_add_liquidity demo_swap 3 7 8 (- 5) 5 100 ?s = (r, s')" by force
    have "r \<noteq> Inl e" for e
      using run by (auto simp: do_add_liquidity_def add_liquidity_not_insert_def ok_simps err_simps split_def count_positions_def
          price to_token_amounts_def demo_swap_def demo_fixed_def clamp_sqrt_price_def tick_bounds out_of_range_def
          Position_new_def Let_def ok_or_r_def PositionId_new_def u_safe_div_def checked_div_def)
    then obtain v where v: "r = Inr v" by (cases r) auto
    have "Positions (Positions_insert cfg k p s) \<noteq> []" for cfg k p and s :: "(nat, int, unit) SwapStorage"
      by (cases "Positions s") (auto simp: Positions_insert_def Let_def)
    with run v have "Positions s' \<noteq> []" by (auto simp: do_add_liquidity_def ok_simps split_def)
    with run v show ?thesis by (simp add: transactional_def)
  qed
  ultimately show ?thesis by simp
qed

text \<open>
  C23: A purchase that crosses a tick ends with the liquidity in force beyond it.  From exact books and below the
  highest tick, the update of the current liquidity finds the next recorded tick above the current one and leaves the
  liquidity of the positions whose range contains that tick; without such a tick it fails and changes nothing.
\<close>

theorem purchase_crossing_exact:
  assumes "books n s" and "force_ok n s" and "current_bounded n s < TickIndex_MAX"
  shows "update_liquidity_at_crossing cfg GetAlphaForTao n s =
    (case closest_tick False (current_bounded n s + 1) (dom (Ticks s n)) of
       Some e \<Rightarrow> (Inr (), s\<lparr>CurrentLiquidity := (CurrentLiquidity s)(n := nat (in_force n e s))\<rparr>)
     | None \<Rightarrow> (Inl Swap_InsufficientLiquidity, s))"
  by (rule cross_up [OF assms])

theorem purchase_crossing_exact_witness:
  "CurrentLiquidity (snd (update_liquidity_at_crossing demo_swap GetAlphaForTao 3 (demo_pool 443637))) 3 = 500"
proof -
  have "closest_tick False 1 {- 100, 100, 0, 50} = Some 50" by (rule closest_tickI) auto
  then show ?thesis
    using purchase_crossing_exact [where cfg = demo_swap, OF demo_books [of 443637] demo_force_ok]
    by (simp add: demo_at demo_ticks demo_force tick_bounds)
qed

text \<open>
  C24: A sale that crosses a tick ends with the liquidity in force below it.  From exact books, when the current
  tick is not recorded or the price is above it, the update finds the closest recorded tick at or below the
  current one and leaves the liquidity of the positions whose range contains the tick before it; without
  such a tick it fails and changes nothing.
\<close>

theorem sale_crossing_exact:
  assumes "books n s" and "force_ok n s"
    and "Ticks s n (current_bounded n s) = None \<or> as_sqrt_price_bounded cfg (current_bounded n s) < AlphaSqrtPrice s n"
  shows "update_liquidity_at_crossing cfg GetTaoForAlpha n s =
    (case closest_tick True (current_bounded n s) (dom (Ticks s n)) of
       Some e \<Rightarrow> (Inr (), s\<lparr>CurrentLiquidity := (CurrentLiquidity s)(n := nat (in_force n (e - 1) s))\<rparr>)
     | None \<Rightarrow> (Inl Swap_InsufficientLiquidity, s))"
  by (rule cross_down [OF assms])

theorem sale_crossing_exact_witness:
  "CurrentLiquidity (snd (update_liquidity_at_crossing demo_swap GetTaoForAlpha 3 (demo_pool 443640))) 3 = 500"
proof -
  have "closest_tick True 0 {- 100, 100, 0, 50} = Some 0" by (rule closest_tickI) auto
  then show ?thesis
    using sale_crossing_exact [where cfg = demo_swap, OF demo_books [of 443640] demo_force_ok]
    by (simp add: demo_at demo_ticks demo_force as_sqrt_price_bounded_def demo_swap_def out_of_range_def tick_bounds)
qed

text \<open>
  C25: At the price of a recorded tick a sale crosses the wrong tick.  When the current tick is recorded and the price is
  not above it, a sale with exact books skips it: the update crosses the next recorded tick below, and the current
  liquidity it leaves differs from the liquidity in force there by the net liquidity of the tick it skipped.
\<close>

theorem sale_at_tick_price_drifts:
  assumes "books n s" and "force_ok n s"
    and "Ticks s n (current_bounded n s) \<noteq> None" and "AlphaSqrtPrice s n \<le> as_sqrt_price_bounded cfg (current_bounded n s)"
    and "closest_tick True (current_bounded n s - 1) (dom (Ticks s n)) = Some e"
    and "0 \<le> in_force n (e - 1) s + tick_net n (current_bounded n s) s"
  shows "int (CurrentLiquidity (snd (update_liquidity_at_crossing cfg GetTaoForAlpha n s)) n) =
    in_force n (e - 1) s + tick_net n (current_bounded n s) s"
  using cross_down_stalled [OF assms] assms(6) by simp

theorem sale_at_tick_price_drifts_witness:
  "int (CurrentLiquidity (snd (update_liquidity_at_crossing demo_swap GetTaoForAlpha 3 (demo_pool 443637))) 3) = 300 \<and>
   in_force 3 (- 101) (demo_pool 443637) = 0"
proof -
  have "closest_tick True (- 1) {- 100, 100, 0, 50} = Some (- 100)" by (rule closest_tickI) auto
  then show ?thesis
    using sale_at_tick_price_drifts [where cfg = demo_swap and e = "- 100", OF demo_books [of 443637] demo_force_ok]
    by (simp add: demo_at demo_ticks demo_force as_sqrt_price_bounded_def demo_swap_def out_of_range_def tick_bounds
        tick_net_def demo_tick_def)
qed

text \<open>
  C26: Shrinking a position below the minimum removes it but not all of its liquidity.  When the price is within the
  range of the position, the call takes the position and its liquidity at the ticks away and lowers the current
  liquidity by the requested amount only, so that the rest of the position stays in the current liquidity.
\<close>

theorem shrunk_position_leaves_liquidity:
  assumes "books n s" and "force_ok n s" and "map_of (Positions s) (n, a, i) = Some p" and "EnabledUserLiquidity s n"
    and "delta < 0" and "MinimumLiquidity cfg \<le> nat \<bar>delta\<bar>" and "nat \<bar>delta\<bar> \<le> pos_liquidity p"
    and "pos_liquidity p - nat \<bar>delta\<bar> < MinimumLiquidity cfg"
    and "tick_low p \<le> current_bounded n s" and "current_bounded n s < tick_high p"
    and "try_to_sqrt_price cfg (tick_low p) = Some low" and "try_to_sqrt_price cfg (tick_high p) = Some high"
    and "low \<le> AlphaSqrtPrice s n" and "AlphaSqrtPrice s n \<le> high"
    and "do_modify_position cfg n a h i delta s = (r, s')"
  shows "Positions s' = filter (\<lambda>(k, _). k \<noteq> (n, a, i)) (Positions s) \<and> current_bounded n s' = current_bounded n s \<and>
    int (CurrentLiquidity s' n) = in_force n (current_bounded n s') s' + int (pos_liquidity p - nat \<bar>delta\<bar>)"
  using modify_removes(2,3,4) [OF assms(1-3,5-15,4)] by blast

theorem shrunk_position_leaves_liquidity_witness:
  "Positions (snd (do_modify_position demo_swap 3 7 8 5 (- 250) (demo_pool 443640))) =
     [((3, 7, 4), demo_position 4 (- 100) 100 500)] \<and>
   CurrentLiquidity (snd (do_modify_position demo_swap 3 7 8 5 (- 250) (demo_pool 443640))) 3 = 550"
proof -
  let ?s = "demo_pool 443640" let ?p = "demo_position 5 0 50 300"
  obtain r s' where run: "do_modify_position demo_swap 3 7 8 5 (- 250) ?s = (r, s')" by force
  have p: "map_of (Positions ?s) (3, 7, 5) = Some ?p" by (simp add: demo_at)
  have ends: "try_to_sqrt_price demo_swap (tick_low ?p) = Some 443637" "try_to_sqrt_price demo_swap (tick_high ?p) = Some 443687"
    by (simp_all add: demo_swap_def demo_position_def out_of_range_def tick_bounds)
  have min: "MinimumLiquidity demo_swap = 100" by (simp add: demo_swap_def)
  have "Positions s' = filter (\<lambda>(k, _). k \<noteq> (3, 7, 5)) (Positions ?s) \<and> current_bounded 3 s' = current_bounded 3 ?s \<and>
    int (CurrentLiquidity s' 3) = in_force 3 (current_bounded 3 s') s' + int (pos_liquidity ?p - nat \<bar>- 250\<bar>)"
    by (rule shrunk_position_leaves_liquidity [OF demo_books demo_force_ok p _ _ _ _ _ _ _ ends _ _ run])
      (simp_all add: min demo_at demo_position_def)
  then show ?thesis by (auto simp: run demo_at in_force_def demo_position_def force_of_def)
qed

end
