(* ===== verification/Spec2Isabelle.thy ===== *)
theory Spec2Isabelle
  imports Protocol_Properties Pallet_Params Pallet_Properties Runtime_Properties Runtime_Guarantees
    Crowdloan_Properties Pallet_Upgrade_Properties Swap_Properties
begin

text \<open>
  \<^bold>\<open>Verification of Qubitum\<close>

  Qubitum is a Substrate chain for inference with private requests.  This development models the
  Rust sources under \<^verbatim>\<open>src/\<close> as functions of HOL and proves what makes them correct.

  \<^bold>\<open>The program and its models\<close>

  \<^item> The protocol crate \<^verbatim>\<open>primitives/qubitum-protocol\<close> fixes constants, policies, the split of payments,
    signature bundles and a deterministic state machine with a ledger.  \<open>Protocol_Types\<close> models
    \<^verbatim>\<open>lib.rs\<close>, \<open>Post_Quantum\<close> models \<^verbatim>\<open>post_quantum.rs\<close>, \<open>Protocol_Verifier\<close> models \<^verbatim>\<open>verifier.rs\<close> and
    \<open>Protocol_State\<close> models \<^verbatim>\<open>state.rs\<close>, one definition per method.
  \<^item> The pallet \<^verbatim>\<open>pallets/qubitum/src/lib.rs\<close> is the chain side: subnets, miners and validators with
    capital on hold, inference requests with escrowed payments, proofs, challenges and slashing.
    \<open>Pallet_Types\<close> has its storage, errors, events and configuration, \<open>Pallet_Commitments\<close> the
    commitments and witness checks, \<open>Pallet_Routing\<close> capital records and the route search,
    \<open>Pallet_Registry\<close> and \<open>Pallet_Requests\<close> the calls, \<open>Pallet_Params\<close> the public queries,
    \<open>Pallet_Steps\<close> the dispatch of all calls and the runs of a chain, \<open>Pallet_Try_State\<close> the
    consistency check and \<open>Pallet_Migrations\<close> the storage migrations with all earlier layouts.
  \<^item> The runtime \<^verbatim>\<open>runtime/src\<close> configures the pallet (\<open>Runtime_Config\<close>), names the calls that filters
    look at (\<open>Runtime_Calls\<close>), searches calls for nested private calls (\<open>Runtime_Scanners\<close>: the privacy
    extension, the mortality extension, the filters of the shield queue, of batches, of safe mode and of
    contracts) and declares weights (\<open>Runtime_Weights\<close>).  \<open>Runtime_Dispatch\<close> is the dispatcher with
    its filter and its extension \<^verbatim>\<open>pallets/subtensor/src/guards/check_coldkey_swap.rs\<close>, the utility pallet,
    \<^verbatim>\<open>pallets/utility\<close>, and the dispatching calls of the proxy, sudo and multisig pallets.
  \<^item> \<open>Shield_Pallet\<close> and \<open>Shield_Queue\<close> model \<^verbatim>\<open>pallets/shield\<close>: keys, encrypted submissions and the queue that
    dispatches decrypted calls.  \<open>Proxy_Pallet\<close> models \<^verbatim>\<open>pallets/proxy\<close>, \<open>Crowdloan_Pallet\<close> models
    \<^verbatim>\<open>pallets/crowdloan\<close>.
  \<^item> The swap pallet \<^verbatim>\<open>pallets/swap\<close> keeps liquidity positions over ranges of price ticks.  \<open>Swap_Ticks\<close> models the tick
    indices and the bitmap of active ticks of \<^verbatim>\<open>tick.rs\<close>, \<open>Swap_Pallet\<close> models \<^verbatim>\<open>position.rs\<close>, \<^verbatim>\<open>impls.rs\<close>,
    \<^verbatim>\<open>swap_step.rs\<close> and the calls of \<^verbatim>\<open>mod.rs\<close>; the two implementations of a swap step, for purchases and for
    sales, are the two cases of one function each.

  A user is meant to reach the Qubitum pallet only through the shield queue: the privacy extension refuses
  public transactions that carry a Qubitum call, the queue decrypts stored calls and dispatches them with the
  shielded origin, and the pallet checks that origin.  A call stored by a crowdloan escapes the extension, and only
  the check of the origin stops it.  The pallet uses the protocol crate for constants
  and for the validation of submissions.

  \<^bold>\<open>How the code is rendered\<close>

  A struct is a record and an enum a datatype.  Unsigned machine integers are natural numbers, and each
  operation of the code on them is a checked or saturating operation of \<open>Prelude\<close> that takes the width;
  digests and accounts are 256-bit words, bitmap words are 128-bit words.  A method
  that mutates storage and may fail is an action of the state and error monad of \<open>Prelude\<close>: it
  returns the new state in both branches, so that early returns keep what was written before them; the
  dispatcher rolls a failing call back, as FRAME does.  A storage map is a function into an
  option, with a list of keys where the code iterates over it.

  External code is a parameter: the currency with holds (\<open>FungibleHold\<close>), the reservable currency
  (\<open>ReservableCurrency\<close>), the SCALE codec of calls (\<open>Codec\<close>) and of storage layouts (\<open>LayoutCodec\<close>),
  the cryptography of the shield (\<open>ShieldCrypto\<close>), weight arithmetic (\<open>WeightApi\<close>), the calls of other pallets
  (the dispatcher argument and \<open>re_leaf\<close>), the sudo and multisig pallets (\<open>re_sudo\<close>, \<open>re_multisig\<close>), the digest and the proof verifier, and for swaps the
  fixed-point numbers (\<open>FixedOps\<close>) with the prices of ticks, reserves and balances (\<open>SwapConfig\<close>).
  What the code relies on is a named predicate over the parameter, and every theorem with such a hypothesis has
  a witness over a concrete instance: \<open>Pallet_Demo\<close> runs the pallet from genesis to an open request on a
  small ledger and an evaluable digest.

  \<^bold>\<open>What is shown\<close>

  \<^item> Protocol state machine (\<open>Protocol_Ledger\<close>, \<open>Protocol_Invariants\<close>, \<open>Protocol_Properties\<close>): supply is
    conserved and bonds are backed in every reachable state, on error branches too; two methods leave
    a partial effect behind an error or lose a bond.
  \<^item> Pallet (\<open>Pallet_Runs\<close> inverts each call, \<open>Pallet_Registries\<close> and \<open>Pallet_Invariants\<close> hold the storage
    invariant, \<open>Pallet_Funds\<close> relates balances on hold to records, \<open>Pallet_Liveness\<close> runs calls forward,
    \<open>Pallet_Behaviour\<close> and \<open>Pallet_Lifecycle\<close> follow requests and participants along runs,
    \<open>Pallet_Route\<close> proves the route search complete; \<open>Pallet_Properties\<close> has the theorems): balances on hold are
    exactly the recorded ones, accepted proofs pay from escrow, stale requests and idle capital can be
    recovered, \<open>try_state\<close> succeeds on every reachable storage, closed requests never reopen.
    Digests collide over all preimages, so statements about openings fix a set of preimages on which the digest is
    injective.
  \<^item> Upgrades (\<open>Pallet_Upgrade\<close>, \<open>Pallet_Upgrade_Properties\<close>): requests of the oldest layout still open,
    counters and the routing index are rebuilt, the capacity is restored, and the post-upgrade check
    passes for the versions for which the index is cleared and fails for later ones.
  \<^item> Runtime (\<open>Runtime_Privacy\<close>, \<open>Runtime_Confinement\<close>, \<open>Runtime_Guarantees\<close>, \<open>Runtime_Properties\<close>): the scanners
    refuse exactly the calls with a harmful chain of wrappers; public calls never run a Qubitum call through
    utility, proxy, sudo and multisig calls, and queued calls run Qubitum calls only with the shielded origin; only root and the
    sudo key get root or past the base filter; the queue is kept in order, and the production
    configuration keeps the pallet closed.  The statements on nested dispatch exclude calls that run calls from
    storage or from contract code (\<open>runs_stored\<close>): finalising a crowdloan, and the EVM and contract calls.
  \<^item> Crowdloans (\<open>Crowdloan_Invariants\<close>, \<open>Crowdloan_Escrow\<close>, \<open>Crowdloan_Widths\<close>, \<open>Crowdloan_Refunds\<close>,
    \<open>Crowdloan_Properties\<close>): open loans are backed, contributors can withdraw, refunds end, numbers
    keep their widths, even when a stored call comes back to the pallet.
  \<^item> Swaps (\<open>Swap_Tick_Search\<close>, \<open>Swap_Tick_Set\<close>, \<open>Swap_Books\<close>, \<open>Swap_Pools\<close>, \<open>Swap_Properties\<close>): the three-layer bitmap
    implements an ordered set of ticks and its search returns the closest one; opening and closing positions keep
    the liquidity at the ticks and the current liquidity those of the positions; crossing a tick moves to the liquidity in
    force on its other side, except for a sale at the very price of a tick; shrinking a position below the minimum
    leaves liquidity behind.

  Interfaces are locales that are interpreted on the model: the verifier trait, the splitting of fees (for
  the crate and the pallet), the participant registry and the life cycle (each for miners and for
  validators), the depth-limited scanners, and the ordered set of ticks (for the bitmap).

  \<^bold>\<open>Bounds and recursion\<close>

  Functions are total.  The scanners carry the depth limit of the code; the dispatcher recurses over the structure of the
  call; loops over storage recurse over the list of keys; the candidate loop of the bitmap ends
  because the mask leaves the word, and the loop of a swap because the code counts its iterations up to 1000.  Finalising a crowdloan dispatches a stored call that may finalise
  again: the recursion carries the number of storage layers, which the code limits as well and
  whose exhaustion is an error of the model.  No other definition carries fuel.

  \<^bold>\<open>Not modelled\<close>

  \<^item> What EVM and contract code dispatches, and the agenda of the scheduler, which runs its calls in later blocks.
  \<^item> The limit on nested storage layers in the utility and proxy calls: their nesting is that of the call.
  \<^item> The weights that migrations return, and the bytes of storage: a value of an earlier layout is
    what the codec reads.
  \<^item> The inherent and the unshielding of transactions by the block author, which are calls into
    external cryptography.
  \<^item> The computation of the square-root prices of ticks (\<^verbatim>\<open>get_sqrt_ratio_at_tick\<close> and its inverse), over 256-bit numbers of
    an external crate, and two price queries over a third fixed-point type.  No property speaks of the amounts of a swap, which
    depend on the rounding of the external numbers.
  \<^item> The inherited Subtensor staking pallet, but for its dispatch extension, and the administration, commitments, drand, registry and transaction-fee
    pallets, which Qubitum calls do not use; node, precompiles, benchmarks, mocks and build support,
    which are input and output or test code.
\<close>

end
